(* ===== verification/WT_Prelude.thy ===== *)
theory WT_Prelude
  imports Complex_Main "HOL-Library.Word" "HOL-Library.Char_ord"
    "HOL-Library.List_Lexorder" "HOL-Library.Sublist"
begin

text \<open>
  Shared ground of the WinTune development: the C view of strings, numbers and
  fixed-size buffers that every component uses.

  A C string (\<open>char *\<close> or \<open>wchar_t *\<close>) is a HOL \<open>string\<close>: the code units before the
  terminating NUL. A pointer that may be NULL is a \<open>string option\<close>. Pointers into a
  string (the result of \<open>strstr\<close> or \<open>strchr\<close>) are the suffix they point at. A copy
  into a buffer of \<open>cap\<close> code units keeps at most \<open>cap - 1\<close> of them.
\<close>

named_theorems cstr \<open>unfolding rules of the C string helpers\<close>
named_theorems guards \<open>rules about the early returns of the operations\<close>

type_synonym byte = "8 word"
type_synonym u16 = "16 word"
type_synonym u32 = "32 word"
type_synonym u64 = "64 word"

section \<open>Buffers\<close>

definition cch_copy :: "nat \<Rightarrow> string \<Rightarrow> string" where
  \<comment> \<open>\<open>StringCchCopy\<close>, \<open>strncpy_s(_TRUNCATE)\<close>, \<open>snprintf\<close>: keep what fits with the NUL.\<close>
  "cch_copy cap s = take (cap - 1) s"

definition cch_fits :: "nat \<Rightarrow> string \<Rightarrow> bool" where
  \<comment> \<open>\<open>SUCCEEDED\<close> of \<open>StringCchPrintf\<close>: text and NUL fit in \<open>cap\<close> units.\<close>
  "cch_fits cap s \<longleftrightarrow> length s < cap"

lemma length_cch_copy: "0 < cap \<Longrightarrow> length (cch_copy cap s) < cap"
  by (simp add: cch_copy_def)

lemma length_cch_copy_le: "length (cch_copy cap s) \<le> length s"
  by (simp add: cch_copy_def)

lemma cch_copy_id [simp]: "length s < cap \<Longrightarrow> cch_copy cap s = s"
  by (simp add: cch_copy_def)

lemma cch_copy_Nil [simp]: "cch_copy cap [] = []"
  by (simp add: cch_copy_def)

lemma set_cch_copy: "set (cch_copy cap s) \<subseteq> set s"
  by (simp add: cch_copy_def set_take_subset)

definition bsl :: "string \<Rightarrow> string" where
  \<comment> \<open>a literal with Windows separators: each slash stands for a backslash\<close>
  "bsl s = map (\<lambda>c. if c = CHR ''/'' then CHR 0x5C else c) s"

lemma length_bsl [simp]: "length (bsl s) = length s"
  by (simp add: bsl_def)

section \<open>Comparison\<close>

definition lower :: "char \<Rightarrow> char" where
  \<comment> \<open>\<open>towlower\<close> of the C locale: only \<open>A\<close> to \<open>Z\<close> change.\<close>
  "lower c = (let n = of_char c :: nat in if 65 \<le> n \<and> n \<le> 90 then char_of (n + 32) else c)"

definition wcsicmp :: "string \<Rightarrow> string \<Rightarrow> bool" where
  \<comment> \<open>\<open>_wcsicmp(a, b) == 0\<close> and \<open>_stricmp(a, b) == 0\<close>\<close>
  "wcsicmp a b \<longleftrightarrow> map lower a = map lower b"

definition strncmp :: "nat \<Rightarrow> string \<Rightarrow> string \<Rightarrow> bool" where
  \<comment> \<open>\<open>strncmp(a, b, n) == 0\<close> for strings without an inner NUL\<close>
  "strncmp n a b \<longleftrightarrow> take n a = take n b"

definition wcsnicmp :: "nat \<Rightarrow> string \<Rightarrow> string \<Rightarrow> bool" where
  \<comment> \<open>\<open>_wcsnicmp(a, b, n) == 0\<close>\<close>
  "wcsnicmp n a b \<longleftrightarrow> wcsicmp (take n a) (take n b)"

lemma wcsicmp_refl [simp]: "wcsicmp a a"
  by (simp add: wcsicmp_def)

lemma wcsicmp_sym: "wcsicmp a b \<Longrightarrow> wcsicmp b a"
  by (simp add: wcsicmp_def)

lemma wcsicmp_trans: "wcsicmp a b \<Longrightarrow> wcsicmp b c \<Longrightarrow> wcsicmp a c"
  by (simp add: wcsicmp_def)

lemma wcsicmp_length: "wcsicmp a b \<Longrightarrow> length a = length b"
  unfolding wcsicmp_def by (metis length_map)

section \<open>Searching\<close>

fun strstr :: "string \<Rightarrow> string \<Rightarrow> string option" where
  \<comment> \<open>the suffix at the first occurrence of the needle\<close>
  "strstr [] needle = (if needle = [] then Some [] else None)"
| "strstr (c # cs) needle =
     (if prefix needle (c # cs) then Some (c # cs) else strstr cs needle)"

definition strchr :: "string \<Rightarrow> char \<Rightarrow> string option" where
  "strchr s c = (case dropWhile (\<lambda>d. d \<noteq> c) s of [] \<Rightarrow> None | r \<Rightarrow> Some r)"

definition contains_str :: "string \<Rightarrow> string \<Rightarrow> bool" where
  "contains_str s needle \<longleftrightarrow> strstr s needle \<noteq> None"

lemma strstr_Some_suffix: "strstr s n = Some r \<Longrightarrow> suffix r s \<and> prefix n r"
  by (induction s n rule: strstr.induct) (auto split: if_splits simp: suffix_ConsI)

lemma strstr_None_iff: "strstr s n = None \<longleftrightarrow> \<not> sublist n s"
proof (induction s n rule: strstr.induct)
  case (1 needle)
  then show ?case by simp
next
  case (2 c cs needle)
  then show ?case by (auto simp: sublist_Cons_right)
qed

lemma contains_str_sublist: "contains_str s n \<longleftrightarrow> sublist n s"
  using strstr_None_iff [of s n] by (auto simp: contains_str_def)

lemma strchr_append: "c \<notin> set xs \<Longrightarrow> strchr (xs @ c # ys) c = Some (c # ys)"
  by (induction xs) (auto simp: strchr_def)

lemma strchr_Nil_iff: "strchr s c = None \<longleftrightarrow> c \<notin> set s"
  by (induction s) (auto simp: strchr_def)

lemma strchr_Some: "strchr s c = Some r \<Longrightarrow> suffix r s \<and> r \<noteq> [] \<and> hd r = c"
  by (induction s) (auto simp: strchr_def suffix_ConsI split: if_splits)

section \<open>Numbers in text\<close>

definition digit :: "nat \<Rightarrow> char" where
  "digit d = char_of (48 + d)"

definition is_digit :: "char \<Rightarrow> bool" where
  "is_digit c \<longleftrightarrow> 48 \<le> (of_char c :: nat) \<and> (of_char c :: nat) \<le> 57"

definition digit_val :: "char \<Rightarrow> nat" where
  "digit_val c = of_char c - 48"

fun dec :: "nat \<Rightarrow> string" where
  \<comment> \<open>\<open>%u\<close>, \<open>%lu\<close>, \<open>%llu\<close>, \<open>%zu\<close>\<close>
  "dec n = (if n < 10 then [digit n] else dec (n div 10) @ [digit (n mod 10)])"

declare dec.simps [simp del]

definition dec_pad2 :: "nat \<Rightarrow> string" where
  \<comment> \<open>\<open>%02u\<close>\<close>
  "dec_pad2 n = (if n < 10 then ''0'' @ dec n else dec n)"

definition dec_int :: "int \<Rightarrow> string" where
  \<comment> \<open>\<open>%d\<close>\<close>
  "dec_int i = (if i < 0 then CHR ''-'' # dec (nat (- i)) else dec (nat i))"

definition hexdigit :: "nat \<Rightarrow> char" where
  "hexdigit d = ''0123456789abcdef'' ! d"

definition hex4 :: "nat \<Rightarrow> string" where
  \<comment> \<open>\<open>%04x\<close> of a value below \<open>2 ^ 16\<close>\<close>
  "hex4 n = [hexdigit (n div 4096 mod 16), hexdigit (n div 256 mod 16),
             hexdigit (n div 16 mod 16), hexdigit (n mod 16)]"

fun digits_val :: "nat \<Rightarrow> string \<Rightarrow> nat \<times> string" where
  \<comment> \<open>the digit loop of \<open>strtoul\<close>: value so far, text left\<close>
  "digits_val acc [] = (acc, [])"
| "digits_val acc (c # cs) =
     (if is_digit c then digits_val (10 * acc + digit_val c) cs else (acc, c # cs))"

definition is_space :: "char \<Rightarrow> bool" where
  "is_space c \<longleftrightarrow> c = CHR '' '' \<or> (9 \<le> (of_char c :: nat) \<and> (of_char c :: nat) \<le> 13)"

definition is_blank :: "char \<Rightarrow> bool" where
  "is_blank c \<longleftrightarrow> c = CHR '' '' \<or> c = CHR 0x09"

definition strtoul :: "string \<Rightarrow> nat option" where
  \<comment> \<open>\<open>strtoul(s, &end, 10)\<close> on a 32-bit \<open>unsigned long\<close>; None when no digit was read\<close>
  "strtoul s =
     (let s1 = dropWhile is_space s;
          neg = (s1 \<noteq> [] \<and> hd s1 = CHR ''-'');
          s2 = (if s1 \<noteq> [] \<and> (hd s1 = CHR ''-'' \<or> hd s1 = CHR ''+'') then tl s1 else s1)
      in if s2 = [] \<or> \<not> is_digit (hd s2) then None
         else let v = fst (digits_val 0 s2)
              in Some (if 2 ^ 32 \<le> v then 2 ^ 32 - 1
                       else if neg then (2 ^ 32 - v) mod 2 ^ 32 else v))"

definition strtol :: "string \<Rightarrow> int" where
  \<comment> \<open>\<open>strtol(s, NULL, 10)\<close> and \<open>wcstol\<close> on a 32-bit \<open>long\<close>: 0 when no digit was read, saturating\<close>
  "strtol s =
     (let s1 = dropWhile is_space s;
          neg = (s1 \<noteq> [] \<and> hd s1 = CHR ''-'');
          s2 = (if s1 \<noteq> [] \<and> (hd s1 = CHR ''-'' \<or> hd s1 = CHR ''+'') then tl s1 else s1);
          v = int (fst (digits_val 0 s2))
      in if neg then max (- v) (- (2 ^ 31)) else min v (2 ^ 31 - 1))"

lemma digit_cases: "d < 10 \<Longrightarrow> d \<in> {0, 1, 2, 3, 4, 5, 6, 7, 8, 9::nat}"
  by auto

lemma is_digit_digit [simp]: "d < 10 \<Longrightarrow> is_digit (digit d)"
  by (simp add: is_digit_def digit_def)

lemma digit_val_digit [simp]: "d < 10 \<Longrightarrow> digit_val (digit d) = d"
  by (simp add: digit_val_def digit_def)

lemma dec_digits: "c \<in> set (dec n) \<Longrightarrow> is_digit c"
proof (induction n rule: dec.induct)
  case (1 n)
  then show ?case
    by (subst (asm) dec.simps) (auto split: if_splits)
qed

lemma dec_nonempty [simp]: "dec n \<noteq> []"
  by (subst dec.simps) simp

lemma digits_val_append:
  "(\<forall>c \<in> set ds. is_digit c) \<Longrightarrow>
   digits_val acc (ds @ rest) = digits_val (fst (digits_val acc ds)) rest"
  by (induction ds arbitrary: acc) auto

lemma digits_val_snoc:
  "(\<forall>c \<in> set ds. is_digit c) \<Longrightarrow> is_digit c \<Longrightarrow>
   fst (digits_val acc (ds @ [c])) = 10 * fst (digits_val acc ds) + digit_val c"
  by (simp add: digits_val_append)

lemma digits_val_dec_0: "fst (digits_val 0 (dec n)) = n"
proof (induction n rule: dec.induct)
  case (1 n)
  show ?case
  proof (cases "n < 10")
    case True
    then show ?thesis by (subst dec.simps) simp
  next
    case False
    with "1.IH" have "fst (digits_val 0 (dec (n div 10))) = n div 10" by simp
    with False show ?thesis
      by (subst dec.simps) (simp add: digits_val_snoc dec_digits)
  qed
qed

lemma digits_val_dec:
  assumes "rest = [] \<or> \<not> is_digit (hd rest)"
  shows "digits_val 0 (dec n @ rest) = (n, rest)"
proof -
  have "digits_val 0 (dec n @ rest) = digits_val n rest"
    by (simp add: digits_val_append dec_digits digits_val_dec_0)
  then show ?thesis using assms by (cases rest) auto
qed

lemma dec_hd_digit: "is_digit (hd (dec n))"
  using dec_digits dec_nonempty hd_in_set by blast

lemma digit_not_special:
  "is_digit c \<Longrightarrow> \<not> is_space c \<and> c \<noteq> CHR ''-'' \<and> c \<noteq> CHR ''+'' \<and> c \<noteq> CHR ''\"''"
  by (auto simp: is_digit_def is_space_def)

lemma strtoul_dec:
  assumes "n < 2 ^ 32" and "rest = [] \<or> \<not> is_digit (hd rest)"
  shows "strtoul (dec n @ rest) = Some n"
proof -
  have hd: "hd (dec n @ rest) = hd (dec n)" by simp
  have nz: "\<not> is_space (hd (dec n))" "hd (dec n) \<noteq> CHR ''-''" "hd (dec n) \<noteq> CHR ''+''"
    using digit_not_special [OF dec_hd_digit] by auto
  have dw: "dropWhile is_space (dec n @ rest) = dec n @ rest"
    using nz(1) by (cases "dec n") auto
  show ?thesis
    using nz dec_hd_digit [of n] assms(1)
    by (simp add: strtoul_def dw Let_def digits_val_dec [OF assms(2)])
qed

lemma strtoul_space: "is_space c \<Longrightarrow> strtoul (c # s) = strtoul s"
  by (simp add: strtoul_def)

lemma strtoul_bound: "strtoul s = Some v \<Longrightarrow> v < 2 ^ 32"
  by (auto simp: strtoul_def Let_def split: if_splits)

lemma strtol_bounds: "- (2 ^ 31) \<le> strtol s \<and> strtol s < 2 ^ 31"
  by (simp add: strtol_def Let_def min_def max_def)

section \<open>Lists\<close>

lemma foldl_append_assoc: "foldl f a (xs @ ys) = foldl f (foldl f a xs) ys"
  by simp

fun find_first :: "('a \<Rightarrow> bool) \<Rightarrow> 'a list \<Rightarrow> 'a option" where
  "find_first P [] = None"
| "find_first P (x # xs) = (if P x then Some x else find_first P xs)"

lemma find_first_Some: "find_first P xs = Some x \<Longrightarrow> x \<in> set xs \<and> P x"
  by (induction xs) (auto split: if_splits)

lemma find_first_None: "find_first P xs = None \<longleftrightarrow> (\<forall>x \<in> set xs. \<not> P x)"
  by (induction xs) auto

end
