(* ===== verification/WT_Errors.thy ===== *)
theory WT_Errors
  imports WT_Prelude
begin

text \<open>
  Structured results (\<open>src/common/error.c\<close>, \<open>error.h\<close>) and the stable process exit
  codes they map to (\<open>src/cli/exit_codes.c\<close>, \<open>exit_codes.h\<close>).
\<close>

datatype WT_Result =
    WT_OK | WT_ERR_UNKNOWN | WT_ERR_INVALID_ARGUMENT | WT_ERR_OUT_OF_MEMORY
  | WT_ERR_WIN32 | WT_ERR_PDH | WT_ERR_ACCESS_DENIED | WT_ERR_NOT_SUPPORTED
  | WT_ERR_NOT_FOUND | WT_ERR_BUFFER_TOO_SMALL | WT_ERR_TIMEOUT | WT_ERR_CANCELLED

definition wt_result_to_string :: "WT_Result \<Rightarrow> string" where
  "wt_result_to_string r = (case r of
     WT_OK \<Rightarrow> ''OK''
   | WT_ERR_UNKNOWN \<Rightarrow> ''unknown error''
   | WT_ERR_INVALID_ARGUMENT \<Rightarrow> ''invalid argument''
   | WT_ERR_OUT_OF_MEMORY \<Rightarrow> ''out of memory''
   | WT_ERR_WIN32 \<Rightarrow> ''Win32 error''
   | WT_ERR_PDH \<Rightarrow> ''PDH error''
   | WT_ERR_ACCESS_DENIED \<Rightarrow> ''access denied''
   | WT_ERR_NOT_SUPPORTED \<Rightarrow> ''not supported''
   | WT_ERR_NOT_FOUND \<Rightarrow> ''not found''
   | WT_ERR_BUFFER_TOO_SMALL \<Rightarrow> ''buffer too small''
   | WT_ERR_TIMEOUT \<Rightarrow> ''timeout''
   | WT_ERR_CANCELLED \<Rightarrow> ''cancelled'')"

text \<open>
  The pattern \<open>r = step(...); if (r != WT_OK) { cleanup; return r; }\<close> over a state:
  \<open>then_ok\<close> goes on from the state a successful step leaves and returns a failure at
  once, \<open>then_ok_or\<close> runs a cleanup on the failing path.
\<close>

definition then_ok_or ::
  "WT_Result \<times> 's \<Rightarrow> ('s \<Rightarrow> 's) \<Rightarrow> ('s \<Rightarrow> WT_Result \<times> 's) \<Rightarrow> WT_Result \<times> 's" where
  "then_ok_or m cleanup f = (if fst m = WT_OK then f (snd m) else (fst m, cleanup (snd m)))"

definition then_ok :: "WT_Result \<times> 's \<Rightarrow> ('s \<Rightarrow> WT_Result \<times> 's) \<Rightarrow> WT_Result \<times> 's" where
  "then_ok m f = (if fst m = WT_OK then f (snd m) else m)"

lemma then_ok_simps [simp]:
  "then_ok (WT_OK, s) f = f s" "r \<noteq> WT_OK \<Longrightarrow> then_ok (r, s) f = (r, s)"
  "then_ok_or (WT_OK, s) g f = f s" "r \<noteq> WT_OK \<Longrightarrow> then_ok_or (r, s) g f = (r, g s)"
  by (simp_all add: then_ok_def then_ok_or_def)

lemma then_okE:
  assumes "then_ok m f = (r, s)"
  obtains (ok) s0 where "m = (WT_OK, s0)" "f s0 = (r, s)"
    | (err) "m = (r, s)" "r \<noteq> WT_OK"
  using assms by (cases m) (auto simp: then_ok_def split: if_splits)

lemma then_ok_orE:
  assumes "then_ok_or m g f = (r, s)"
  obtains (ok) s0 where "m = (WT_OK, s0)" "f s0 = (r, s)"
    | (err) s0 where "m = (r, s0)" "r \<noteq> WT_OK" "s = g s0"
  using assms by (cases m) (auto simp: then_ok_or_def split: if_splits)

section \<open>Exit codes\<close>

definition WT_EXIT_OK :: int where "WT_EXIT_OK = 0"
definition WT_EXIT_USAGE :: int where "WT_EXIT_USAGE = 2"
definition WT_EXIT_CANCELLED :: int where "WT_EXIT_CANCELLED = 10"
definition WT_EXIT_ACCESS_DENIED :: int where "WT_EXIT_ACCESS_DENIED = 11"
definition WT_EXIT_NOT_FOUND :: int where "WT_EXIT_NOT_FOUND = 12"
definition WT_EXIT_NOT_SUPPORTED :: int where "WT_EXIT_NOT_SUPPORTED = 13"
definition WT_EXIT_TIMEOUT :: int where "WT_EXIT_TIMEOUT = 14"
definition WT_EXIT_ERROR :: int where "WT_EXIT_ERROR = 20"
definition WT_EXIT_NOT_IMPLEMENTED :: int where "WT_EXIT_NOT_IMPLEMENTED = 21"

lemmas exit_defs =
  WT_EXIT_OK_def WT_EXIT_USAGE_def WT_EXIT_CANCELLED_def WT_EXIT_ACCESS_DENIED_def
  WT_EXIT_NOT_FOUND_def WT_EXIT_NOT_SUPPORTED_def WT_EXIT_TIMEOUT_def WT_EXIT_ERROR_def
  WT_EXIT_NOT_IMPLEMENTED_def

definition wt_exit_code_from_result :: "WT_Result \<Rightarrow> int" where
  "wt_exit_code_from_result r = (case r of
     WT_OK \<Rightarrow> WT_EXIT_OK
   | WT_ERR_INVALID_ARGUMENT \<Rightarrow> WT_EXIT_USAGE
   | WT_ERR_CANCELLED \<Rightarrow> WT_EXIT_CANCELLED
   | WT_ERR_ACCESS_DENIED \<Rightarrow> WT_EXIT_ACCESS_DENIED
   | WT_ERR_NOT_FOUND \<Rightarrow> WT_EXIT_NOT_FOUND
   | WT_ERR_NOT_SUPPORTED \<Rightarrow> WT_EXIT_NOT_SUPPORTED
   | WT_ERR_TIMEOUT \<Rightarrow> WT_EXIT_TIMEOUT
   | _ \<Rightarrow> WT_EXIT_ERROR)"

definition wt_result_code_name :: "WT_Result \<Rightarrow> string" where
  "wt_result_code_name r = (case r of
     WT_OK \<Rightarrow> ''ok''
   | WT_ERR_INVALID_ARGUMENT \<Rightarrow> ''invalid_argument''
   | WT_ERR_OUT_OF_MEMORY \<Rightarrow> ''out_of_memory''
   | WT_ERR_WIN32 \<Rightarrow> ''win32_error''
   | WT_ERR_PDH \<Rightarrow> ''pdh_error''
   | WT_ERR_ACCESS_DENIED \<Rightarrow> ''access_denied''
   | WT_ERR_NOT_SUPPORTED \<Rightarrow> ''not_supported''
   | WT_ERR_NOT_FOUND \<Rightarrow> ''not_found''
   | WT_ERR_BUFFER_TOO_SMALL \<Rightarrow> ''buffer_too_small''
   | WT_ERR_TIMEOUT \<Rightarrow> ''timeout''
   | WT_ERR_CANCELLED \<Rightarrow> ''cancelled''
   | WT_ERR_UNKNOWN \<Rightarrow> ''unknown_error'')"

definition wt_exit_code_name :: "int \<Rightarrow> string" where
  "wt_exit_code_name c =
     (if c = WT_EXIT_OK then ''ok''
      else if c = WT_EXIT_USAGE then ''usage''
      else if c = WT_EXIT_CANCELLED then ''cancelled''
      else if c = WT_EXIT_ACCESS_DENIED then ''access_denied''
      else if c = WT_EXIT_NOT_FOUND then ''not_found''
      else if c = WT_EXIT_NOT_SUPPORTED then ''not_supported''
      else if c = WT_EXIT_TIMEOUT then ''timeout''
      else if c = WT_EXIT_ERROR then ''error''
      else if c = WT_EXIT_NOT_IMPLEMENTED then ''not_implemented''
      else ''error'')"

lemma wt_result_code_name_inj: "wt_result_code_name a = wt_result_code_name b \<longleftrightarrow> a = b"
  by (cases a; cases b) (simp_all add: wt_result_code_name_def)

lemma exit_code_zero_iff [guards]: "wt_exit_code_from_result r = WT_EXIT_OK \<longleftrightarrow> r = WT_OK"
  by (cases r) (simp_all add: wt_exit_code_from_result_def exit_defs)

lemma exit_code_never_21: "wt_exit_code_from_result r \<noteq> WT_EXIT_NOT_IMPLEMENTED"
  by (cases r) (simp_all add: wt_exit_code_from_result_def exit_defs)

end
