(* ===== verification/Zip_Store.thy ===== *)
theory Zip_Store
  imports WT_Errors
begin

text \<open>
  The STORE-only ZIP writer (\<open>src/common/zip_store.c\<close>): the table-driven CRC-32, the
  little-endian field encoders, and the writer that appends local records to an open
  file and closes it with a central directory. \<open>unsigned long\<close> is 32 bits wide on
  Windows, \<open>unsigned long long\<close> 64.

  The file system is a map from paths to contents. What Windows decides (whether a file
  opens, how many bytes a \<open>WriteFile\<close> takes, whether \<open>realloc\<close> succeeds) is the record
  \<open>zip_os\<close>, an argument of every operation that asks.
\<close>

unbundle bit_operations_syntax

section \<open>CRC-32\<close>

definition crc_step :: "u32 \<Rightarrow> u32" where
  "crc_step c = (if c AND 1 \<noteq> 0 then 0xedb88320 XOR drop_bit 1 c else drop_bit 1 c)"

definition g_crc_table :: "u32 list" where
  \<comment> \<open>\<open>wt_crc32_init\<close>: eight steps for each byte value; filled once, constant afterwards\<close>
  "g_crc_table = map (\<lambda>n. (crc_step ^^ 8) (of_nat n)) [0..<256]"

definition crc_byte :: "u32 \<Rightarrow> byte \<Rightarrow> u32" where
  "crc_byte crc b = g_crc_table ! unat ((crc XOR ucast b) AND 0xff) XOR drop_bit 8 crc"

definition wt_crc32_update :: "u32 \<Rightarrow> byte list \<Rightarrow> u32" where
  "wt_crc32_update crc data = foldl crc_byte crc data"

definition wt_crc32_bytes :: "byte list \<Rightarrow> u32" where
  "wt_crc32_bytes data = wt_crc32_update 0xffffffff data XOR 0xffffffff"

text \<open>The reference: the message register shifted bit by bit, with no table.\<close>

definition crc_bitwise :: "u32 \<Rightarrow> byte list \<Rightarrow> u32" where
  "crc_bitwise crc data = foldl (\<lambda>c b. (crc_step ^^ 8) (c XOR ucast b)) crc data"

lemma crc_step_linear: "crc_step (a XOR b) = crc_step a XOR crc_step b"
proof -
  have lo: "x AND 1 = (if bit x 0 then 1 else 0)" for x :: u32
    by (simp add: and_one_eq mod_2_eq_odd bit_0)
  show ?thesis
    by (simp add: crc_step_def lo bit_xor_iff drop_bit_xor xor.assoc xor.left_commute)
qed

lemma crc_steps_linear: "(crc_step ^^ n) (a XOR b) = (crc_step ^^ n) a XOR (crc_step ^^ n) b"
  by (induction n) (simp_all add: crc_step_linear)

lemma crc_steps_high:
  "(\<forall>i < n. \<not> bit y i) \<Longrightarrow> (crc_step ^^ n) y = drop_bit n y"
proof (induction n)
  case 0
  then show ?case by simp
next
  case (Suc n)
  then have "(crc_step ^^ n) y = drop_bit n y" by simp
  moreover have "\<not> bit (drop_bit n y) 0"
    using Suc.prems by (simp add: bit_drop_bit_eq)
  then have "drop_bit n y AND 1 = 0"
    by (simp add: and_one_eq mod_2_eq_odd bit_0)
  ultimately have "crc_step ((crc_step ^^ n) y) = drop_bit 1 (drop_bit n y)"
    by (simp only: crc_step_def) simp
  then show ?case by (simp add: drop_bit_drop_bit)
qed

lemma crc_byte_bitwise: "crc_byte c b = (crc_step ^^ 8) (c XOR ucast b)"
proof -
  let ?x = "c XOR (ucast b :: u32)"
  have split: "?x = (?x AND 0xff) XOR (?x AND NOT 0xff)"
    by (rule bit_eqI) (auto simp: bit_simps)
  have mask: "(0xff :: u32) = mask 8" by (simp add: mask_eq_decr_exp)
  have hi: "(crc_step ^^ 8) (?x AND NOT 0xff) = drop_bit 8 (?x AND NOT 0xff)"
    by (rule crc_steps_high) (auto simp: mask bit_simps)
  have hi_c: "drop_bit 8 (?x AND NOT 0xff) = drop_bit 8 c"
    by (rule bit_eqI) (auto simp: mask bit_simps dest: bit_imp_le_length)
  have lt: "unat (?x AND 0xff) < 256"
    using and_mask_less' [of 8 ?x] by (simp add: mask word_less_nat_alt)
  then have "g_crc_table ! unat (?x AND 0xff) = (crc_step ^^ 8) (?x AND 0xff)"
    by (simp add: g_crc_table_def)
  then have "crc_byte c b = (crc_step ^^ 8) (?x AND 0xff) XOR (crc_step ^^ 8) (?x AND NOT 0xff)"
    by (simp only: crc_byte_def hi hi_c)
  then show ?thesis
    by (subst split) (simp only: crc_steps_linear)
qed

lemma wt_crc32_update_append:
  "wt_crc32_update c (xs @ ys) = wt_crc32_update (wt_crc32_update c xs) ys"
  by (simp add: wt_crc32_update_def)

lemma wt_crc32_update_Nil [simp]: "wt_crc32_update c [] = c"
  by (simp add: wt_crc32_update_def)

lemma wt_crc32_bitwise: "wt_crc32_update crc data = crc_bitwise crc data"
proof -
  have "crc_byte = (\<lambda>c b. (crc_step ^^ 8) (c XOR ucast b))"
    by (intro ext) (rule crc_byte_bitwise)
  then show ?thesis by (simp only: wt_crc32_update_def crc_bitwise_def)
qed

text \<open>C1. The table-driven CRC equals the bit-serial CRC-32 of the same bytes, from
  every starting register.\<close>

theorem crc32_table_is_bitwise: "wt_crc32_update crc data = crc_bitwise crc data"
  by (rule wt_crc32_bitwise)

section \<open>Field encoders\<close>

definition wt_zip_put_u16 :: "u16 \<Rightarrow> byte list" where
  "wt_zip_put_u16 v = [ucast (v AND 0xff), ucast (drop_bit 8 v AND 0xff)]"

definition wt_zip_put_u32 :: "u32 \<Rightarrow> byte list" where
  "wt_zip_put_u32 v = [ucast (v AND 0xff), ucast (drop_bit 8 v AND 0xff),
                       ucast (drop_bit 16 v AND 0xff), ucast (drop_bit 24 v AND 0xff)]"

fun le_nat :: "byte list \<Rightarrow> nat" where
  \<comment> \<open>a reader's little-endian field\<close>
  "le_nat [] = 0"
| "le_nat (b # bs) = unat b + 256 * le_nat bs"

lemma length_put [simp]: "length (wt_zip_put_u16 v) = 2" "length (wt_zip_put_u32 w) = 4"
  by (simp_all add: wt_zip_put_u16_def wt_zip_put_u32_def)

lemma unat_byte_field: "unat (ucast (w AND 0xff) :: byte) = unat w mod 256"
  for w :: "'a::len word"
proof -
  have "(ucast (w AND 0xff) :: byte) = ucast w"
    by (rule bit_eqI)
       (auto simp: bit_simps mask_eq_decr_exp [of 8, simplified, symmetric] dest: bit_imp_le_length)
  then show ?thesis by (simp add: unsigned_ucast_eq take_bit_eq_mod)
qed

lemma unat_drop_bit: "unat (drop_bit n w) = unat w div 2 ^ n" for w :: "'a::len word"
  unfolding drop_bit_eq_div [symmetric, where ?'a = nat]
  by (simp add: unsigned_drop_bit_eq take_bit_nat_eq_self)

lemma div_256_256: "(n::nat) div 65536 = n div 256 div 256"
  "n div 16777216 = n div 256 div 256 div 256"
  by (simp_all add: div_mult2_eq [symmetric])

lemma le_nat_put_u16 [simp]: "le_nat (wt_zip_put_u16 v) = unat v"
proof -
  have "unat v < 65536" using unsigned_less [of v] by simp
  then show ?thesis
    by (simp add: wt_zip_put_u16_def unat_byte_field unat_drop_bit)
qed

lemma le_nat_put_u32 [simp]: "le_nat (wt_zip_put_u32 v) = unat v"
proof -
  define a b c where "a = unat v div 256" and "b = a div 256" and "c = b div 256"
  have "unat v < 4294967296" using unsigned_less [of v] by simp
  then have "c < 256" by (simp add: a_def b_def c_def div_mult2_eq [symmetric])
  moreover have "unat v = unat v mod 256 + 256 * a" "a = a mod 256 + 256 * b"
    "b = b mod 256 + 256 * c"
    by (simp_all only: a_def b_def c_def mod_mult_div_eq)
  moreover have "le_nat (wt_zip_put_u32 v) =
      unat v mod 256 + 256 * (a mod 256 + 256 * (b mod 256 + 256 * (c mod 256)))"
    by (simp add: wt_zip_put_u32_def unat_byte_field unat_drop_bit div_256_256 a_def b_def c_def)
  ultimately show ?thesis by simp
qed

section \<open>The writer\<close>

type_synonym fs = "string \<rightharpoonup> byte list"

datatype win_error = ERROR_FILE_NOT_FOUND | ERROR_PATH_NOT_FOUND | ERROR_ACCESS_DENIED | ERROR_OTHER

record zip_os =
  os_create :: "string \<Rightarrow> win_error option"  \<comment> \<open>\<open>CreateFileW\<close> for writing: the error, or None\<close>
  os_write :: "nat \<Rightarrow> nat \<Rightarrow> nat"           \<comment> \<open>bytes \<open>WriteFile\<close> takes at an offset\<close>
  os_alloc :: "nat \<Rightarrow> bool"                  \<comment> \<open>\<open>realloc\<close> to a capacity succeeds\<close>
  os_read :: "string \<Rightarrow> byte list option"    \<comment> \<open>the readable files besides the archive\<close>

record WT_ZipCdEntry =
  ze_name :: string
  ze_crc32 :: u32
  ze_size :: u32
  ze_local_offset :: u64

record WT_ZipWriter =
  zw_file :: "string option"   \<comment> \<open>the open handle: the path it was opened with\<close>
  zw_path :: string
  zw_offset :: u64
  zw_entries :: "WT_ZipCdEntry list"
  zw_entry_cap :: nat
  zw_failed :: bool
  zw_fs :: fs                  \<comment> \<open>the file system the handle writes to\<close>

definition str_bytes :: "string \<Rightarrow> byte list" where
  "str_bytes s = map of_char s"

definition fs_append :: "fs \<Rightarrow> string \<Rightarrow> byte list \<Rightarrow> fs" where
  "fs_append f p bs = f(p \<mapsto> (case f p of None \<Rightarrow> [] | Some old \<Rightarrow> old) @ bs)"

function zip_write_loop ::
  "zip_os \<Rightarrow> string \<Rightarrow> WT_ZipWriter \<Rightarrow> byte list \<Rightarrow> WT_Result \<times> WT_ZipWriter" where
  "zip_write_loop os h z p =
     (if p = [] then (WT_OK, z)
      else let chunk = take 0x40000000 p;
               written = min (length chunk) (os_write os (unat (zw_offset z)) (length chunk));
               z1 = z\<lparr>zw_fs := fs_append (zw_fs z) h (take written chunk)\<rparr>
           in if written \<noteq> length chunk then (WT_ERR_WIN32, z1\<lparr>zw_failed := True\<rparr>)
              else zip_write_loop os h (z1\<lparr>zw_offset := zw_offset z + of_nat written\<rparr>)
                     (drop 0x40000000 p))"
  by pat_completeness auto
termination
  by (relation "measure (\<lambda>(os, h, z, p). length p)") auto

declare zip_write_loop.simps [simp del]

definition wt_zip_write ::
  "zip_os \<Rightarrow> WT_ZipWriter \<Rightarrow> byte list option \<Rightarrow> nat \<Rightarrow> WT_Result \<times> WT_ZipWriter" where
  "wt_zip_write os z data len =
     (case zw_file z of
        None \<Rightarrow> (WT_ERR_INVALID_ARGUMENT, z)
      | Some h \<Rightarrow>
          if zw_failed z then (WT_ERR_INVALID_ARGUMENT, z)
          else if len = 0 then (WT_OK, z)
          else (case data of
                  None \<Rightarrow> (WT_ERR_INVALID_ARGUMENT, z)
                | Some p \<Rightarrow> zip_write_loop os h z (take len p)))"

definition wt_zip_grow :: "zip_os \<Rightarrow> WT_ZipWriter \<Rightarrow> WT_Result \<times> WT_ZipWriter" where
  "wt_zip_grow os z =
     (if length (zw_entries z) < zw_entry_cap z then (WT_OK, z)
      else let ncap = (if zw_entry_cap z = 0 then 16 else zw_entry_cap z * 2)
           in if os_alloc os ncap then (WT_OK, z\<lparr>zw_entry_cap := ncap\<rparr>)
              else (WT_ERR_OUT_OF_MEMORY, z))"

text \<open>The 30-byte local header, written into a zeroed buffer field after field.\<close>

definition zip_local_header :: "u32 \<Rightarrow> u32 \<Rightarrow> nat \<Rightarrow> byte list" where
  "zip_local_header crc32 sz name_len =
     wt_zip_put_u32 0x04034b50 @ wt_zip_put_u16 20 @ wt_zip_put_u16 0x0800 @
     wt_zip_put_u16 0 @ wt_zip_put_u16 0 @ wt_zip_put_u16 0 @
     wt_zip_put_u32 crc32 @ wt_zip_put_u32 sz @ wt_zip_put_u32 sz @
     wt_zip_put_u16 (of_nat name_len) @ wt_zip_put_u16 0"

text \<open>The copy loop of a streamed entry: 64 KiB reads until \<open>remaining\<close> bytes are written;
  \<open>src\<close> is what is left of the input file.\<close>

function zip_copy_loop ::
  "zip_os \<Rightarrow> WT_ZipWriter \<Rightarrow> byte list \<Rightarrow> nat \<Rightarrow> WT_Result \<times> WT_ZipWriter" where
  "zip_copy_loop os z src remaining =
     (if remaining = 0 then (WT_OK, z)
      else let want = min remaining 65536; buf = take want src in
           if buf = [] then (WT_ERR_WIN32, z\<lparr>zw_failed := True\<rparr>)
           else then_ok (wt_zip_write os z (Some buf) (length buf))
                  (\<lambda>z1. zip_copy_loop os z1 (drop want src) (remaining - length buf)))"
  by pat_completeness auto
termination
  by (relation "measure (\<lambda>(os, z, src, remaining). remaining)") auto

declare zip_copy_loop.simps [simp del]

text \<open>\<open>wt_zip_add_local\<close>: either \<open>data\<close> is given, or the entry is streamed from \<open>path_opt\<close>.
  The guards come first, then growth, header, name and body; the directory entry is
  recorded last.\<close>

definition wt_zip_add_local ::
  "zip_os \<Rightarrow> WT_ZipWriter \<Rightarrow> string option \<Rightarrow> u32 \<Rightarrow> u32 \<Rightarrow> byte list option \<Rightarrow> nat \<Rightarrow>
   string option \<Rightarrow> WT_Result \<times> WT_ZipWriter" where
  "wt_zip_add_local os z name_utf8 crc32 sz data data_len path_opt =
     (case name_utf8 of
        None \<Rightarrow> (WT_ERR_INVALID_ARGUMENT, z)
      | Some name \<Rightarrow>
          let name_len = length name in
          if name_len = 0 \<or> 260 \<le> name_len then (WT_ERR_INVALID_ARGUMENT, z)
          else if data \<noteq> None \<and> data_len \<noteq> unat sz then (WT_ERR_INVALID_ARGUMENT, z)
          else if data = None \<and> path_opt = None then (WT_ERR_INVALID_ARGUMENT, z)
          else then_ok (wt_zip_grow os z) (\<lambda>z1.
            let local_off = zw_offset z1; hdr = zip_local_header crc32 sz name_len in
            then_ok (wt_zip_write os z1 (Some hdr) (length hdr)) (\<lambda>z2.
            then_ok (wt_zip_write os z2 (Some (str_bytes name)) name_len) (\<lambda>z3.
            then_ok (case data of
                       Some d \<Rightarrow> wt_zip_write os z3 (Some d) data_len
                     | None \<Rightarrow>
                         (case os_read os (the path_opt) of
                            None \<Rightarrow> (WT_ERR_WIN32, z3\<lparr>zw_failed := True\<rparr>)
                          | Some src \<Rightarrow> zip_copy_loop os z3 src (unat sz))) (\<lambda>z4.
              (WT_OK, z4\<lparr>zw_entries := zw_entries z4 @
                 [\<lparr>ze_name = name, ze_crc32 = crc32, ze_size = sz,
                   ze_local_offset = local_off\<rparr>]\<rparr>))))))"

definition wt_zip_begin ::
  "zip_os \<Rightarrow> WT_ZipWriter \<Rightarrow> string option \<Rightarrow> WT_Result \<times> WT_ZipWriter" where
  "wt_zip_begin os z path =
     (case path of
        None \<Rightarrow> (WT_ERR_INVALID_ARGUMENT, z)
      | Some p \<Rightarrow>
          if p = [] then (WT_ERR_INVALID_ARGUMENT, z)
          else let z0 = \<lparr>zw_file = None, zw_path = [], zw_offset = 0, zw_entries = [],
                         zw_entry_cap = 0, zw_failed = False, zw_fs = zw_fs z\<rparr>
               in (case os_create os p of
                     Some ERROR_ACCESS_DENIED \<Rightarrow> (WT_ERR_ACCESS_DENIED, z0)
                   | Some ERROR_PATH_NOT_FOUND \<Rightarrow> (WT_ERR_NOT_FOUND, z0)
                   | Some _ \<Rightarrow> (WT_ERR_WIN32, z0)
                   | None \<Rightarrow> (WT_OK, z0\<lparr>zw_file := Some p, zw_path := cch_copy 520 p,
                                       zw_fs := (zw_fs z)(p \<mapsto> [])\<rparr>)))"

definition wt_zip_add_bytes ::
  "zip_os \<Rightarrow> WT_ZipWriter \<Rightarrow> string option \<Rightarrow> byte list \<Rightarrow> WT_Result \<times> WT_ZipWriter" where
  "wt_zip_add_bytes os z name data =
     (if 0xffffffff < length data then (WT_ERR_NOT_SUPPORTED, z)
      else wt_zip_add_local os z name (wt_crc32_bytes data) (of_nat (length data))
             (Some data) (length data) None)"

definition wt_zip_add_path ::
  "zip_os \<Rightarrow> WT_ZipWriter \<Rightarrow> string option \<Rightarrow> string option \<Rightarrow> u32 \<Rightarrow> u32 \<Rightarrow> WT_Result \<times> WT_ZipWriter"
where
  "wt_zip_add_path os z name path crc32 sz =
     wt_zip_add_local os z name crc32 sz None 0 path"

definition wt_zip_abort :: "WT_ZipWriter \<Rightarrow> WT_ZipWriter" where
  "wt_zip_abort z =
     (let z1 = (case zw_file z of
                  None \<Rightarrow> z
                | Some h \<Rightarrow> z\<lparr>zw_file := None,
                    zw_fs := (if zw_path z \<noteq> [] then (zw_fs z)(zw_path z := None) else zw_fs z)\<rparr>)
      in z1\<lparr>zw_entries := [], zw_entry_cap := 0, zw_failed := True, zw_path := []\<rparr>)"

definition zip_cd_header :: "WT_ZipCdEntry \<Rightarrow> byte list" where
  "zip_cd_header e =
     wt_zip_put_u32 0x02014b50 @ wt_zip_put_u16 20 @ wt_zip_put_u16 20 @
     wt_zip_put_u16 0x0800 @ wt_zip_put_u16 0 @ wt_zip_put_u16 0 @ wt_zip_put_u16 0 @
     wt_zip_put_u32 (ze_crc32 e) @ wt_zip_put_u32 (ze_size e) @ wt_zip_put_u32 (ze_size e) @
     wt_zip_put_u16 (of_nat (length (ze_name e))) @ wt_zip_put_u16 0 @ wt_zip_put_u16 0 @
     wt_zip_put_u16 0 @ wt_zip_put_u16 0 @ wt_zip_put_u32 0 @
     wt_zip_put_u32 (ucast (ze_local_offset e))"

fun zip_write_cd :: "zip_os \<Rightarrow> WT_ZipWriter \<Rightarrow> WT_ZipCdEntry list \<Rightarrow> WT_Result \<times> WT_ZipWriter" where
  \<comment> \<open>the directory loop of \<open>wt_zip_finish\<close>\<close>
  "zip_write_cd os z [] = (WT_OK, z)"
| "zip_write_cd os z (e # es) =
     then_ok_or (wt_zip_write os z (Some (zip_cd_header e)) (length (zip_cd_header e)))
       wt_zip_abort (\<lambda>z1.
     then_ok_or (wt_zip_write os z1 (Some (str_bytes (ze_name e))) (length (ze_name e)))
       wt_zip_abort (\<lambda>z2. zip_write_cd os z2 es))"

definition zip_eocd :: "nat \<Rightarrow> u64 \<Rightarrow> u64 \<Rightarrow> byte list" where
  "zip_eocd entry_count cd_size cd_off =
     wt_zip_put_u32 0x06054b50 @ wt_zip_put_u16 0 @ wt_zip_put_u16 0 @
     wt_zip_put_u16 (of_nat entry_count) @ wt_zip_put_u16 (of_nat entry_count) @
     wt_zip_put_u32 (ucast cd_size) @ wt_zip_put_u32 (ucast cd_off) @ wt_zip_put_u16 0"

definition wt_zip_finish :: "zip_os \<Rightarrow> WT_ZipWriter \<Rightarrow> WT_Result \<times> WT_ZipWriter" where
  "wt_zip_finish os z =
     (if zw_file z = None then (WT_ERR_INVALID_ARGUMENT, z)
      else if zw_failed z then (WT_ERR_WIN32, wt_zip_abort z)
      else if 0xffff < length (zw_entries z) then (WT_ERR_NOT_SUPPORTED, wt_zip_abort z)
      else let cd_off = zw_offset z in
        then_ok (zip_write_cd os z (zw_entries z)) (\<lambda>z1.
          let eocd = zip_eocd (length (zw_entries z1)) (zw_offset z1 - cd_off) cd_off in
          then_ok_or (wt_zip_write os z1 (Some eocd) (length eocd)) wt_zip_abort
            (\<lambda>z2. (WT_OK, z2\<lparr>zw_file := None, zw_entries := [], zw_entry_cap := 0\<rparr>))))"

end
