(* ===== verification/Sha256.thy ===== *)
theory Sha256
  imports Zip_Store
begin

text \<open>
  SHA-256 digests (\<open>src/common/sha256.c\<close>). The digest itself is computed by Windows CNG: the record
  \<open>cng\<close> holds its calls, \<open>cng_ok\<close> what its documentation promises of them. The program's own part is
  the order of the calls, the 64 KiB reads of a file and the hexadecimal form.
\<close>

section \<open>The provider\<close>

record 'h cng =
  cng_provider :: bool                  \<comment> \<open>\<open>BCryptOpenAlgorithmProvider\<close> succeeds\<close>
  cng_object :: bool                    \<comment> \<open>\<open>BCryptGetProperty\<close> gives a length above 0\<close>
  cng_heap :: bool                      \<comment> \<open>\<open>HeapAlloc\<close> of the object succeeds\<close>
  cng_create :: "'h option"             \<comment> \<open>\<open>BCryptCreateHash\<close>\<close>
  cng_update :: "'h \<Rightarrow> byte list \<Rightarrow> 'h option"   \<comment> \<open>\<open>BCryptHashData\<close>\<close>
  cng_finish :: "'h \<Rightarrow> byte list option"         \<comment> \<open>\<open>BCryptFinishHash\<close>\<close>

definition cng_ok :: "'h cng \<Rightarrow> ('h \<Rightarrow> byte list) \<Rightarrow> (byte list \<Rightarrow> byte list) \<Rightarrow> bool" where
  \<comment> \<open>every call succeeds, a hash object digests the bytes it was fed, a digest has 32 bytes\<close>
  "cng_ok c fed sha \<longleftrightarrow>
     cng_provider c \<and> cng_object c \<and> cng_heap c \<and>
     (\<exists>h. cng_create c = Some h \<and> fed h = []) \<and>
     (\<forall>h bs. \<exists>h'. cng_update c h bs = Some h' \<and> fed h' = fed h @ bs) \<and>
     (\<forall>h. cng_finish c h = Some (sha (fed h))) \<and> (\<forall>bs. length (sha bs) = 32)"

definition cng_start :: "'h cng \<Rightarrow> WT_Result + 'h" where
  \<comment> \<open>the four calls every digest begins with\<close>
  "cng_start c =
     (if \<not> cng_provider c then Inl WT_ERR_WIN32
      else if \<not> cng_object c then Inl WT_ERR_WIN32
      else if \<not> cng_heap c then Inl WT_ERR_OUT_OF_MEMORY
      else (case cng_create c of None \<Rightarrow> Inl WT_ERR_WIN32 | Some h \<Rightarrow> Inr h))"

section \<open>Digests\<close>

definition wt_sha256_bytes :: "'h cng \<Rightarrow> byte list option \<Rightarrow> nat \<Rightarrow> WT_Result \<times> byte list option" where
  \<comment> \<open>the length is cast to 32 bits in the call of \<open>BCryptHashData\<close>\<close>
  "wt_sha256_bytes c data len =
     (if data = None \<and> len > 0 then (WT_ERR_INVALID_ARGUMENT, None)
      else (case cng_start c of Inl r \<Rightarrow> (r, None)
            | Inr h \<Rightarrow>
               (case (if len > 0 then cng_update c h (take (len mod 2 ^ 32) (the data)) else Some h) of
                  None \<Rightarrow> (WT_ERR_WIN32, None)
                | Some h1 \<Rightarrow>
                    (case cng_finish c h1 of None \<Rightarrow> (WT_ERR_WIN32, None) | Some d \<Rightarrow> (WT_OK, Some d)))))"

text \<open>\<open>rd off\<close> says whether \<open>ReadFile\<close> succeeds at an offset, \<open>src\<close> is what is left of the file.\<close>

function sha256_file_loop :: "'h cng \<Rightarrow> (nat \<Rightarrow> bool) \<Rightarrow> nat \<Rightarrow> byte list \<Rightarrow> 'h \<Rightarrow> WT_Result \<times> 'h" where
  "sha256_file_loop c rd off src h =
     (if \<not> rd off then (WT_ERR_WIN32, h)
      else let buf = take 65536 src in
        if buf = [] then (WT_OK, h)
        else (case cng_update c h buf of None \<Rightarrow> (WT_ERR_WIN32, h)
              | Some h1 \<Rightarrow> sha256_file_loop c rd (off + length buf) (drop 65536 src) h1))"
  by pat_completeness auto
termination
  by (relation "measure (\<lambda>(c, rd, off, src, h). length src)") auto

declare sha256_file_loop.simps [simp del]

definition open_error_result :: "win_error \<Rightarrow> WT_Result" where
  \<comment> \<open>what \<open>GetLastError\<close> after a failed \<open>CreateFileW\<close> or \<open>GetFileAttributesW\<close> is turned into\<close>
  "open_error_result e = (case e of ERROR_FILE_NOT_FOUND \<Rightarrow> WT_ERR_NOT_FOUND
     | ERROR_PATH_NOT_FOUND \<Rightarrow> WT_ERR_NOT_FOUND | ERROR_ACCESS_DENIED \<Rightarrow> WT_ERR_ACCESS_DENIED
     | ERROR_OTHER \<Rightarrow> WT_ERR_WIN32)"

definition wt_sha256_file ::
  "'h cng \<Rightarrow> (string \<Rightarrow> win_error + byte list) \<Rightarrow> (string \<Rightarrow> nat \<Rightarrow> bool) \<Rightarrow> string option \<Rightarrow>
   WT_Result \<times> byte list option" where
  "wt_sha256_file c opn rd path =
     (case path of None \<Rightarrow> (WT_ERR_INVALID_ARGUMENT, None)
      | Some p \<Rightarrow>
         (case opn p of Inl e \<Rightarrow> (open_error_result e, None)
          | Inr src \<Rightarrow>
             (case cng_start c of Inl r \<Rightarrow> (r, None)
              | Inr h \<Rightarrow>
                 (case sha256_file_loop c (rd p) 0 src h of (r, h1) \<Rightarrow>
                    if r \<noteq> WT_OK then (r, None)
                    else (case cng_finish c h1 of None \<Rightarrow> (WT_ERR_WIN32, None) | Some d \<Rightarrow> (WT_OK, Some d))))))"

definition hex_byte :: "byte \<Rightarrow> string" where
  "hex_byte b = [hexdigit (unat (drop_bit 4 b AND 0x0f)), hexdigit (unat (b AND 0x0f))]"

definition wt_sha256_hex :: "byte list option \<Rightarrow> string" where
  "wt_sha256_hex dig = (case dig of None \<Rightarrow> [] | Some d \<Rightarrow> concat (map (\<lambda>i. hex_byte (d ! i)) [0..<32]))"

section \<open>What they compute\<close>

lemma cng_start_ok: "cng_ok c fed sha \<Longrightarrow> \<exists>h. cng_start c = Inr h \<and> fed h = []"
  by (auto simp: cng_ok_def cng_start_def)

lemma cng_updateE:
  assumes "cng_ok c fed sha" obtains h' where "cng_update c h bs = Some h'" "fed h' = fed h @ bs"
  using assms unfolding cng_ok_def by blast

lemma cng_finish_ok: "cng_ok c fed sha \<Longrightarrow> cng_finish c h = Some (sha (fed h))"
  by (simp add: cng_ok_def)

lemma sha256_file_loop_ok:
  "cng_ok c fed sha \<Longrightarrow> rd = (\<lambda>_. True) \<Longrightarrow>
   \<exists>h1. sha256_file_loop c rd off src h = (WT_OK, h1) \<and> fed h1 = fed h @ src"
proof (induction c rd off src h rule: sha256_file_loop.induct)
  case (1 c rd off src h)
  show ?case
  proof (cases "src = []")
    case True
    then show ?thesis using 1(3) by (simp add: sha256_file_loop.simps)
  next
    case False
    let ?b = "take 65536 src"
    obtain h' where h': "cng_update c h ?b = Some h'" "fed h' = fed h @ ?b"
      using cng_updateE [OF 1(2)] by blast
    have "\<exists>h1. sha256_file_loop c rd (off + length ?b) (drop 65536 src) h' = (WT_OK, h1) \<and>
        fed h1 = fed h' @ drop 65536 src"
      using 1(1) [OF _ refl _ h'(1) 1(2)] 1(3) False by simp
    then show ?thesis using 1(3) False h' by (subst sha256_file_loop.simps) (simp add: Let_def)
  qed
qed

lemma sha256_bytes_ok:
  assumes "cng_ok c fed sha" "length data < 2 ^ 32"
  shows "wt_sha256_bytes c (Some data) (length data) = (WT_OK, Some (sha data))"
proof -
  obtain h where h: "cng_start c = Inr h" "fed h = []" using cng_start_ok [OF assms(1)] by blast
  obtain h' where "cng_update c h data = Some h'" "fed h' = data"
    using cng_updateE [OF assms(1), of h data] h(2) by auto
  then show ?thesis using assms(2) h cng_finish_ok [OF assms(1)]
    by (auto simp: wt_sha256_bytes_def)
qed

text \<open>A file is digested in pieces, with the digest of its bytes as the result.\<close>

lemma sha256_file_ok:
  assumes "cng_ok c fed sha" "opn p = Inr src" "rd p = (\<lambda>_. True)"
  shows "wt_sha256_file c opn rd (Some p) = (WT_OK, Some (sha src))"
proof -
  obtain h where h: "cng_start c = Inr h" "fed h = []" using cng_start_ok [OF assms(1)] by blast
  obtain h1 where "sha256_file_loop c (rd p) 0 src h = (WT_OK, h1)" "fed h1 = src"
    using sha256_file_loop_ok [OF assms(1), of "rd p" 0 src h] assms(3) h(2) by auto
  then show ?thesis using assms(2) h cng_finish_ok [OF assms(1)] by (simp add: wt_sha256_file_def)
qed

lemma cng_digest_length: "cng_ok c fed sha \<Longrightarrow> length (sha bs) = 32"
  by (simp add: cng_ok_def)

lemma hex_all: "length d = 32 \<Longrightarrow> wt_sha256_hex (Some d) = concat (map hex_byte d)"
proof -
  assume "length d = 32"
  then have "map (\<lambda>i. hex_byte (d ! i)) [0..<32] = map hex_byte d"
    by (intro nth_equalityI) simp_all
  then show ?thesis by (simp add: wt_sha256_hex_def)
qed

lemma length_hex: "length (wt_sha256_hex (Some d)) = 64"
  by (simp add: wt_sha256_hex_def length_concat hex_byte_def comp_def sum_list_triv)

text \<open>The hexadecimal form loses nothing: digests are equal if their texts are.\<close>

lemma hexdigit_inj: "a < 16 \<Longrightarrow> b < 16 \<Longrightarrow> hexdigit a = hexdigit b \<Longrightarrow> a = b"
proof -
  assume ab: "a < 16" "b < 16" and eq: "hexdigit a = hexdigit b"
  have "distinct ''0123456789abcdef''" by simp
  then show ?thesis using ab eq nth_eq_iff_index_eq [of "''0123456789abcdef''" a b]
    by (simp add: hexdigit_def)
qed

lemma hex_byte_inj: "hex_byte a = hex_byte b \<Longrightarrow> a = b"
proof -
  assume eq: "hex_byte a = hex_byte b"
  have m: "(0x0f :: byte) = mask 4" by (simp add: mask_eq_decr_exp)
  have lt: "unat (x AND 0x0f :: byte) < 16" for x
    using and_mask_less' [of 4 x] by (simp add: m word_less_nat_alt)
  have hi: "drop_bit 4 a AND 0x0f = drop_bit 4 b AND 0x0f" and lo: "a AND 0x0f = b AND 0x0f"
    using eq lt by (auto simp: hex_byte_def word_unat_eq_iff dest!: hexdigit_inj [rotated 2])
  show "a = b"
  proof (rule bit_word_eqI)
    fix n assume "n < LENGTH(8)"
    then have n: "n < 8" by simp
    show "bit a n = bit b n"
    proof (cases "n < 4")
      case True
      then show ?thesis using arg_cong [OF lo, of "\<lambda>w. bit w n"] by (simp add: m bit_simps)
    next
      case False
      then show ?thesis using n arg_cong [OF hi, of "\<lambda>w. bit w (n - 4)"] by (auto simp: m bit_simps)
    qed
  qed
qed

lemma hex_concat_inj: "length d = length e \<Longrightarrow> concat (map hex_byte d) = concat (map hex_byte e) \<Longrightarrow> d = e"
proof (induction d e rule: list_induct2)
  case (Cons x xs y ys)
  then have "hex_byte x @ concat (map hex_byte xs) = hex_byte y @ concat (map hex_byte ys)" by simp
  then have "hex_byte x = hex_byte y" "concat (map hex_byte xs) = concat (map hex_byte ys)"
    by (simp_all add: hex_byte_def)
  then show ?case using Cons hex_byte_inj by blast
qed simp

lemma hex_inj:
  assumes "length d = 32" "length e = 32" "wt_sha256_hex (Some d) = wt_sha256_hex (Some e)"
  shows "d = e"
  using assms hex_concat_inj by (simp add: hex_all)

end
