(* ===== verification/Zip_Archive.thy ===== *)
theory Zip_Archive
  imports Zip_Store
begin

text \<open>
  What the ZIP writer promises. The reader below is an independent specification of a
  STORE archive: it finds the directory through the end record, follows every directory
  entry to its local record, checks signatures, names, sizes and the CRC of the body,
  and returns the members. The lemmas follow one archive through \<open>begin\<close>, the adds and
  \<open>finish\<close>; the last part covers what is left on disk when anything fails.
\<close>

section \<open>The reader\<close>

definition fld :: "nat \<Rightarrow> nat \<Rightarrow> byte list \<Rightarrow> byte list" where
  "fld i n bs = take n (drop i bs)"

definition read_local :: "byte list \<Rightarrow> nat \<Rightarrow> (byte list \<times> nat \<times> byte list) option" where
  "read_local bs off =
     (let h = drop off bs; sz = le_nat (fld 18 4 h); nl = le_nat (fld 26 2 h)
      in if le_nat (fld 0 4 h) = 0x04034b50 \<and> le_nat (fld 8 2 h) = 0
            \<and> 30 + nl + sz \<le> length h
         then Some (fld 30 nl h, le_nat (fld 14 4 h), fld (30 + nl) sz h) else None)"

primrec read_cd :: "nat \<Rightarrow> byte list \<Rightarrow> byte list \<Rightarrow> (byte list \<times> byte list) list option" where
  "read_cd 0 cd bs = Some []"
| "read_cd (Suc n) cd bs =
     (if le_nat (fld 0 4 cd) \<noteq> 0x02014b50 then None
      else let nl = le_nat (fld 28 2 cd); crc = le_nat (fld 16 4 cd);
               sz = le_nat (fld 24 4 cd); name = fld 46 nl cd
           in case read_local bs (le_nat (fld 42 4 cd)) of
                None \<Rightarrow> None
              | Some (lname, lcrc, body) \<Rightarrow>
                  if lname = name \<and> lcrc = crc \<and> length body = sz
                     \<and> unat (wt_crc32_bytes body) = crc
                  then map_option (Cons (name, body)) (read_cd n (drop (46 + nl) cd) bs)
                  else None)"

definition unzip :: "byte list \<Rightarrow> (byte list \<times> byte list) list option" where
  "unzip bs =
     (if length bs < 22 then None
      else let e = drop (length bs - 22) bs
           in if le_nat (fld 0 4 e) \<noteq> 0x06054b50 then None
              else read_cd (le_nat (fld 10 2 e)) (drop (le_nat (fld 16 4 e)) bs) bs)"

section \<open>Writing when the system lets every call through\<close>

definition zip_os_ok :: "zip_os \<Rightarrow> bool" where
  "zip_os_ok os \<longleftrightarrow> (\<forall>off n. n \<le> os_write os off n) \<and> (\<forall>n. os_alloc os n)"

definition zw_ready :: "WT_ZipWriter \<Rightarrow> bool" where
  "zw_ready z \<longleftrightarrow> zw_file z \<noteq> None \<and> \<not> zw_failed z \<and> zw_fs z (the (zw_file z)) \<noteq> None"

definition zput :: "byte list \<Rightarrow> WT_ZipWriter \<Rightarrow> WT_ZipWriter" where
  "zput bs z = (let h = the (zw_file z)
                in z\<lparr>zw_fs := (zw_fs z)(h \<mapsto> the (zw_fs z h) @ bs),
                     zw_offset := zw_offset z + of_nat (length bs)\<rparr>)"

lemma zput_Nil: "zw_ready z \<Longrightarrow> zput [] z = z"
  by (auto simp: zput_def Let_def zw_ready_def)

lemma zput_zput: "zput ys (zput xs z) = zput (xs @ ys) z"
  by (simp add: zput_def Let_def add.assoc)

lemma zw_ready_zput [simp]: "zw_ready z \<Longrightarrow> zw_ready (zput bs z)"
  by (simp add: zw_ready_def zput_def Let_def)

lemma zput_fields [simp]:
  "zw_entries (zput bs z) = zw_entries z" "zw_entry_cap (zput bs z) = zw_entry_cap z"
  "zw_offset (zput bs z) = zw_offset z + of_nat (length bs)"
  "zw_file (zput bs z) = zw_file z" "zw_path (zput bs z) = zw_path z"
  "zw_failed (zput bs z) = zw_failed z"
  by (simp_all add: zput_def Let_def)

lemma zip_write_loop_ok:
  "zip_os_ok os \<Longrightarrow> zw_ready z \<Longrightarrow> zw_file z = Some h \<Longrightarrow> zip_write_loop os h z p = (WT_OK, zput p z)"
proof (induction os h z p rule: zip_write_loop.induct)
  case (1 os h z p)
  show ?case
  proof (cases "p = []")
    case True
    then show ?thesis using "1.prems" by (simp add: zip_write_loop.simps zput_Nil)
  next
    case False
    let ?c = "take 0x40000000 p"
    let ?z = "zput ?c z"
    have w: "min (length ?c) (os_write os (unat (zw_offset z)) (length ?c)) = length ?c"
      using "1.prems"(1) by (simp add: zip_os_ok_def min_absorb1)
    have z: "z\<lparr>zw_fs := fs_append (zw_fs z) h (take (length ?c) ?c)\<rparr>
               \<lparr>zw_offset := zw_offset z + of_nat (length ?c)\<rparr> = ?z"
      unfolding take_all [OF order_refl] using "1.prems"(2,3) by (auto simp: zput_def Let_def fs_append_def zw_ready_def)
    have rdy: "zw_ready ?z" using "1.prems"(2) by simp
    have "zip_write_loop os h ?z (drop 0x40000000 p) = (WT_OK, zput (drop 0x40000000 p) ?z)"
      using "1.IH" [OF False refl refl refl] "1.prems"(1,3) rdy w z by simp
    then have "zip_write_loop os h z p = (WT_OK, zput (drop 0x40000000 p) ?z)"
      using False w z by (subst zip_write_loop.simps) (simp only: Let_def if_False simp_thms)
    then show ?thesis by (simp add: zput_zput)
  qed
qed

lemma wt_zip_write_ok [simp]:
  "zip_os_ok os \<Longrightarrow> zw_ready z \<Longrightarrow> len = length bs \<Longrightarrow>
   wt_zip_write os z (Some bs) len = (WT_OK, zput bs z)"
  by (auto simp: wt_zip_write_def zw_ready_def zip_write_loop_ok zput_Nil)

lemma zip_copy_loop_ok:
  "zip_os_ok os \<Longrightarrow> zw_ready z \<Longrightarrow> remaining \<le> length src \<Longrightarrow>
   zip_copy_loop os z src remaining = (WT_OK, zput (take remaining src) z)"
proof (induction os z src remaining rule: zip_copy_loop.induct)
  case (1 os z src remaining)
  show ?case
  proof (cases "remaining = 0")
    case True
    then show ?thesis using "1.prems" by (simp add: zip_copy_loop.simps zput_Nil)
  next
    case False
    let ?w = "min remaining 65536"
    let ?b = "take ?w src"
    have ne: "?b \<noteq> []" using False "1.prems"(3) by auto
    have len: "length ?b = ?w" using "1.prems"(3) by simp
    have wr: "wt_zip_write os z (Some ?b) (length ?b) = (WT_OK, zput ?b z)"
      using "1.prems" by simp
    have "zip_copy_loop os (zput ?b z) (drop ?w src) (remaining - length ?b)
        = (WT_OK, zput (take (remaining - length ?b) (drop ?w src)) (zput ?b z))"
      using "1.IH" [OF False refl refl ne, of "zput ?b z"] "1.prems" len by simp
    moreover have "?b @ take (remaining - length ?b) (drop ?w src) = take remaining src"
      using len take_add [of ?w "remaining - ?w" src] by simp
    ultimately show ?thesis
      using False ne wr by (subst zip_copy_loop.simps) (simp add: Let_def zput_zput)
  qed
qed

lemma wt_zip_grow_ok:
  "zip_os_ok os \<Longrightarrow> \<exists>cap. wt_zip_grow os z = (WT_OK, z\<lparr>zw_entry_cap := cap\<rparr>)"
  by (auto simp: wt_zip_grow_def zip_os_ok_def Let_def intro: exI [of _ "zw_entry_cap z"])

section \<open>The archive being written\<close>

type_synonym member = "string \<times> u32 \<times> byte list"

fun member_ok :: "member \<Rightarrow> bool" where
  "member_ok (name, crc, body) \<longleftrightarrow>
     0 < length name \<and> length name < 260 \<and> length body < 2 ^ 32 \<and> crc = wt_crc32_bytes body"

fun local_rec :: "member \<Rightarrow> byte list" where
  "local_rec (name, crc, body) =
     zip_local_header crc (of_nat (length body)) (length name) @ str_bytes name @ body"

fun cd_entries :: "nat \<Rightarrow> member list \<Rightarrow> WT_ZipCdEntry list" where
  "cd_entries off [] = []"
| "cd_entries off ((name, crc, body) # ms) =
     \<lparr>ze_name = name, ze_crc32 = crc, ze_size = of_nat (length body),
      ze_local_offset = of_nat off\<rparr> # cd_entries (off + length (local_rec (name, crc, body))) ms"

definition locals :: "member list \<Rightarrow> byte list" where
  "locals ms = concat (map local_rec ms)"

definition cd_rec :: "WT_ZipCdEntry \<Rightarrow> byte list" where
  "cd_rec e = zip_cd_header e @ str_bytes (ze_name e)"

text \<open>The abstraction: \<open>z\<close> has written exactly the members \<open>ms\<close> to the file at \<open>h\<close>.\<close>

definition writes :: "string \<Rightarrow> member list \<Rightarrow> WT_ZipWriter \<Rightarrow> bool" where
  "writes h ms z \<longleftrightarrow>
     zw_file z = Some h \<and> \<not> zw_failed z \<and> zw_fs z h = Some (locals ms) \<and>
     zw_offset z = of_nat (length (locals ms)) \<and> zw_entries z = cd_entries 0 ms"

lemma writes_ready: "writes h ms z \<Longrightarrow> zw_ready z"
  by (simp add: writes_def zw_ready_def)

lemma length_str_bytes [simp]: "length (str_bytes s) = length s"
  by (simp add: str_bytes_def)

lemma locals_snoc: "locals (ms @ [m]) = locals ms @ local_rec m"
  by (simp add: locals_def)

lemma cd_entries_snoc:
  "cd_entries off (ms @ [(name, crc, body)]) =
     cd_entries off ms @ [\<lparr>ze_name = name, ze_crc32 = crc, ze_size = of_nat (length body),
       ze_local_offset = of_nat (off + length (locals ms))\<rparr>]"
  by (induction off ms rule: cd_entries.induct) (simp_all add: locals_def add.assoc)

lemma length_cd_entries [simp]: "length (cd_entries off ms) = length ms"
  by (induction off ms rule: cd_entries.induct) simp_all

lemma writes_step:
  assumes "writes h ms z"
  shows "writes h (ms @ [(name, crc, body)])
    ((zput (local_rec (name, crc, body)) (z\<lparr>zw_entry_cap := cap\<rparr>))
       \<lparr>zw_entries := zw_entries z @ [\<lparr>ze_name = name, ze_crc32 = crc,
          ze_size = of_nat (length body), ze_local_offset = zw_offset z\<rparr>]\<rparr>)"
  using assms by (auto simp: writes_def zput_def Let_def locals_snoc cd_entries_snoc)

lemma add_local_data:
  assumes os: "zip_os_ok os" and w: "writes h ms z"
    and ok: "0 < length name" "length name < 260" "length body < 2 ^ 32"
  shows "\<exists>z'. wt_zip_add_local os z (Some name) crc (of_nat (length body)) (Some body)
            (length body) None = (WT_OK, z') \<and> writes h (ms @ [(name, crc, body)]) z'
          \<and> zw_path z' = zw_path z"
proof -
  obtain cap where g: "wt_zip_grow os z = (WT_OK, z\<lparr>zw_entry_cap := cap\<rparr>)"
    using wt_zip_grow_ok [OF os] by blast
  let ?z1 = "z\<lparr>zw_entry_cap := cap\<rparr>"
  have r: "zw_ready ?z1" using writes_ready [OF w] by (simp add: zw_ready_def)
  have sz: "unat (of_nat (length body) :: u32) = length body"
    using ok(3) by (simp add: unat_of_nat)
  show ?thesis
    using writes_step [OF w, of name crc body cap] ok
    by (simp add: wt_zip_add_local_def g sz Let_def os r zput_zput)
qed

lemma add_local_path:
  assumes os: "zip_os_ok os" and w: "writes h ms z"
    and ok: "0 < length name" "length name < 260" "length body < 2 ^ 32"
    and src: "os_read os path = Some body"
  shows "\<exists>z'. wt_zip_add_local os z (Some name) crc (of_nat (length body)) None 0 (Some path)
            = (WT_OK, z') \<and> writes h (ms @ [(name, crc, body)]) z' \<and> zw_path z' = zw_path z"
proof -
  obtain cap where g: "wt_zip_grow os z = (WT_OK, z\<lparr>zw_entry_cap := cap\<rparr>)"
    using wt_zip_grow_ok [OF os] by blast
  let ?z1 = "z\<lparr>zw_entry_cap := cap\<rparr>"
  have r: "zw_ready ?z1" using writes_ready [OF w] by (simp add: zw_ready_def)
  have sz: "unat (of_nat (length body) :: u32) = length body"
    using ok(3) by (simp add: unat_of_nat)
  have c: "zw_ready z0 \<Longrightarrow> zip_copy_loop os z0 body (length body) = (WT_OK, zput body z0)" for z0
    using zip_copy_loop_ok [OF os, of z0 "length body" body] by simp
  show ?thesis
    using writes_step [OF w, of name crc body cap] ok
    by (simp add: wt_zip_add_local_def g sz Let_def os r src c zput_zput)
qed

lemma zip_write_cd_ok:
  "zip_os_ok os \<Longrightarrow> zw_ready z \<Longrightarrow>
   zip_write_cd os z es = (WT_OK, zput (concat (map cd_rec es)) z)"
  by (induction es arbitrary: z) (simp_all add: zput_Nil zput_zput cd_rec_def)

lemma finish_ok:
  assumes os: "zip_os_ok os" and w: "writes h ms z" and n: "length ms \<le> 0xffff"
  defines "cd \<equiv> concat (map cd_rec (cd_entries 0 ms))"
  shows "\<exists>z'. wt_zip_finish os z = (WT_OK, z') \<and> zw_file z' = None \<and>
    zw_fs z' h = Some (locals ms @ cd @
      zip_eocd (length ms) (of_nat (length cd)) (of_nat (length (locals ms))))"
proof -
  have r: "zw_ready z" using writes_ready [OF w] .
  have "zw_entries z = cd_entries 0 ms" "zw_file z = Some h" "\<not> zw_failed z"
    "zw_offset z = of_nat (length (locals ms))" "zw_fs z h = Some (locals ms)"
    using w by (simp_all add: writes_def)
  then show ?thesis
    using n by (simp add: wt_zip_finish_def zip_write_cd_ok [OF os r] os r Let_def
      zput_zput cd_def) (simp add: zput_def Let_def)
qed

section \<open>Reading the archive back\<close>

lemma fld_0: "fld 0 n bs = take n bs"
  by (simp add: fld_def)

lemma unat_u16: "n < 65536 \<Longrightarrow> unat (of_nat n :: u16) = n"
  and unat_u32: "n < 4294967296 \<Longrightarrow> unat (of_nat n :: u32) = n"
  by (simp_all add: unat_of_nat)

lemma unat_u64_u32: "n < 4294967296 \<Longrightarrow> unat (ucast (of_nat n :: u64) :: u32) = n"
  by (simp add: unsigned_ucast_eq take_bit_eq_mod unat_of_nat)

lemma length_local_header [simp]: "length (zip_local_header c n l) = 30"
  and length_cd_header [simp]: "length (zip_cd_header e) = 46"
  and length_eocd [simp]: "length (zip_eocd k a b) = 22"
  by (simp_all add: zip_local_header_def zip_cd_header_def zip_eocd_def)

lemma local_header_fields:
  "take 4 (zip_local_header c n l @ r) = wt_zip_put_u32 0x04034b50"
  "fld 8 2 (zip_local_header c n l @ r) = wt_zip_put_u16 0"
  "fld 14 4 (zip_local_header c n l @ r) = wt_zip_put_u32 c"
  "fld 18 4 (zip_local_header c n l @ r) = wt_zip_put_u32 n"
  "fld 26 2 (zip_local_header c n l @ r) = wt_zip_put_u16 (of_nat l)"
  by (simp_all add: zip_local_header_def fld_def)

lemma cd_header_fields:
  "take 4 (zip_cd_header e @ r) = wt_zip_put_u32 0x02014b50"
  "fld 16 4 (zip_cd_header e @ r) = wt_zip_put_u32 (ze_crc32 e)"
  "fld 24 4 (zip_cd_header e @ r) = wt_zip_put_u32 (ze_size e)"
  "fld 28 2 (zip_cd_header e @ r) = wt_zip_put_u16 (of_nat (length (ze_name e)))"
  "fld 42 4 (zip_cd_header e @ r) = wt_zip_put_u32 (ucast (ze_local_offset e))"
  by (simp_all add: zip_cd_header_def fld_def)

lemma eocd_fields:
  "take 4 (zip_eocd n a b) = wt_zip_put_u32 0x06054b50"
  "fld 10 2 (zip_eocd n a b) = wt_zip_put_u16 (of_nat n)"
  "fld 16 4 (zip_eocd n a b) = wt_zip_put_u32 (ucast b)"
  by (simp_all add: zip_eocd_def fld_def)

lemma read_local_ok:
  assumes "member_ok (name, crc, body)"
  shows "read_local (pre @ local_rec (name, crc, body) @ post) (length pre)
       = Some (str_bytes name, unat crc, body)"
proof -
  let ?h = "zip_local_header crc (of_nat (length body)) (length name)"
  have u: "unat (of_nat (length name) :: u16) = length name"
    "unat (of_nat (length body) :: u32) = length body"
    using assms by (simp_all add: unat_u16 unat_u32)
  have parts: "drop (length pre) (pre @ r) = r"
    "fld 30 (length name) (?h @ str_bytes name @ r) = str_bytes name"
    "fld (30 + length name) (length body) (?h @ str_bytes name @ body @ r) = body" for r
    by (simp_all add: fld_def)
  show ?thesis
    by (simp add: read_local_def u parts Let_def fld_0 local_header_fields
      del: take_append drop_append)
qed

lemma read_cd_ok:
  "list_all member_ok ms \<Longrightarrow> bs = pre @ locals ms @ post \<Longrightarrow> length pre + length (locals ms) < 2 ^ 32 \<Longrightarrow>
   read_cd (length ms) (concat (map cd_rec (cd_entries (length pre) ms)) @ rest) bs
     = Some (map (\<lambda>(name, crc, body). (str_bytes name, body)) ms)"
proof (induction ms arbitrary: pre)
  case Nil
  then show ?case by simp
next
  case (Cons m ms)
  obtain name crc body where m: "m = (name, crc, body)" by (cases m)
  let ?pre = "pre @ local_rec m"
  have IH: "read_cd (length ms) (concat (map cd_rec (cd_entries (length ?pre) ms)) @ rest) bs
      = Some (map (\<lambda>(name, crc, body). (str_bytes name, body)) ms)"
    using Cons.prems by (intro Cons.IH) (auto simp: locals_def)
  have loc: "read_local bs (length pre) = Some (str_bytes name, unat crc, body)"
    using read_local_ok [of name crc body pre "locals ms @ post"] Cons.prems(1,2)
    by (simp add: m locals_def)
  have off: "length pre < 4294967296" using Cons.prems(3) by simp
  have parts: "fld 46 n (zip_cd_header e @ str_bytes nm @ r) = take n (str_bytes nm @ r)"
    "drop (46 + length nm) (zip_cd_header e @ str_bytes nm @ r) = r"
    "take (length nm) (str_bytes nm @ r) = str_bytes nm" for e nm n r
    by (simp_all add: fld_def)
  let ?e = "\<lparr>ze_name = name, ze_crc32 = crc, ze_size = of_nat (length body),
              ze_local_offset = of_nat (length pre)\<rparr>"
  define tail where "tail = concat (map cd_rec (cd_entries (length ?pre) ms)) @ rest"
  have unf: "concat (map cd_rec (cd_entries (length pre) (m # ms))) @ rest
      = zip_cd_header ?e @ str_bytes name @ tail"
    unfolding tail_def m cd_entries.simps list.map concat.simps by (simp add: cd_rec_def [of ?e])
  have "read_cd (Suc (length ms)) (zip_cd_header ?e @ str_bytes name @ tail) bs
      = Some ((str_bytes name, body) # map (\<lambda>(name, crc, body). (str_bytes name, body)) ms)"
    using Cons.prems(1) IH [folded tail_def] loc off
    by (simp add: m cd_header_fields fld_0 unat_u16 unat_u32 unat_u64_u32 parts Let_def
      del: take_append drop_append)
  then show ?case unfolding unf by (simp add: m)
qed

lemma unzip_archive:
  assumes "list_all member_ok ms" "length ms \<le> 0xffff" "length (locals ms) < 2 ^ 32"
  shows "unzip (locals ms @ concat (map cd_rec (cd_entries 0 ms)) @
           zip_eocd (length ms) x (of_nat (length (locals ms))))
       = Some (map (\<lambda>(name, crc, body). (str_bytes name, body)) ms)"
proof -
  let ?cd = "concat (map cd_rec (cd_entries 0 ms))"
  let ?e = "zip_eocd (length ms) x (of_nat (length (locals ms)))"
  have e: "drop (length (locals ms @ ?cd @ ?e) - 22) (locals ms @ ?cd @ ?e) = ?e" by simp
  have "read_cd (length ms) (?cd @ ?e) (locals ms @ ?cd @ ?e)
      = Some (map (\<lambda>(name, crc, body). (str_bytes name, body)) ms)"
    using read_cd_ok [OF assms(1), of _ "[]" "?cd @ ?e"] assms(3) by simp
  moreover have "le_nat (wt_zip_put_u16 (of_nat (length ms))) = length ms"
    "le_nat (wt_zip_put_u32 (ucast (of_nat (length (locals ms)) :: u64))) = length (locals ms)"
    using assms(2,3) by (simp_all add: unat_u16 unat_u64_u32 del: of_nat_eq_0_iff)
  ultimately show ?thesis
    unfolding unzip_def Let_def e by (simp add: eocd_fields fld_0)
qed

section \<open>A whole archive\<close>

datatype zip_op = Add_Bytes string "byte list" | Add_Path string string u32 u32

fun zip_run :: "zip_os \<Rightarrow> WT_ZipWriter \<Rightarrow> zip_op list \<Rightarrow> WT_Result \<times> WT_ZipWriter" where
  \<comment> \<open>a client's sequence of adds, stopped at the first failure as \<open>wt_fleet_pack\<close> stops\<close>
  "zip_run os z [] = (WT_OK, z)"
| "zip_run os z (Add_Bytes name body # ops) =
     then_ok (wt_zip_add_bytes os z (Some name) body) (\<lambda>z1. zip_run os z1 ops)"
| "zip_run os z (Add_Path name path crc sz # ops) =
     then_ok (wt_zip_add_path os z (Some name) (Some path) crc sz) (\<lambda>z1. zip_run os z1 ops)"

text \<open>What an operation is meant to store: a streamed entry must name a readable file and
  carry its size and CRC, as the header file asks.\<close>

fun op_member :: "zip_os \<Rightarrow> zip_op \<Rightarrow> member option" where
  "op_member os (Add_Bytes name body) = Some (name, wt_crc32_bytes body, body)"
| "op_member os (Add_Path name path crc sz) =
     (case os_read os path of None \<Rightarrow> None
      | Some body \<Rightarrow> if crc = wt_crc32_bytes body \<and> unat sz = length body
                      then Some (name, crc, body) else None)"

definition op_ok :: "zip_os \<Rightarrow> zip_op \<Rightarrow> bool" where
  "op_ok os op \<longleftrightarrow> (case op_member os op of None \<Rightarrow> False | Some m \<Rightarrow> member_ok m)"

lemma zip_run_ok:
  "zip_os_ok os \<Longrightarrow> writes h ms z \<Longrightarrow> list_all (op_ok os) ops \<Longrightarrow>
   \<exists>z'. zip_run os z ops = (WT_OK, z') \<and> writes h (ms @ map (the \<circ> op_member os) ops) z'
     \<and> zw_path z' = zw_path z"
proof (induction ops arbitrary: ms z)
  case Nil
  then show ?case by simp
next
  case (Cons op ops)
  obtain m where m: "op_member os op = Some m" "member_ok m"
    using Cons.prems(3) by (auto simp: op_ok_def split: option.splits)
  obtain name crc body where nm: "m = (name, crc, body)" by (cases m)
  have "\<exists>z1. (case op of
       Add_Bytes name body \<Rightarrow> wt_zip_add_bytes os z (Some name) body
     | Add_Path name path crc sz \<Rightarrow> wt_zip_add_path os z (Some name) (Some path) crc sz) = (WT_OK, z1)
     \<and> writes h (ms @ [m]) z1 \<and> zw_path z1 = zw_path z"
  proof (cases op)
    case (Add_Bytes n b)
    then show ?thesis
      using add_local_data [OF Cons.prems(1,2), of name body crc] m
      by (auto simp: nm wt_zip_add_bytes_def)
  next
    case (Add_Path n path c sz)
    then have sz: "sz = of_nat (length body)" and "os_read os path = Some body" "n = name" "c = crc"
      using m by (auto simp: nm word_unat_eq_iff unat_of_nat split: option.splits if_splits)
    then show ?thesis
      using add_local_path [OF Cons.prems(1,2), of name body path crc] m Add_Path
      by (auto simp: nm wt_zip_add_path_def)
  qed
  then obtain z1 where z1: "writes h (ms @ [m]) z1" "zw_path z1 = zw_path z"
    and run: "zip_run os z (op # ops) = zip_run os z1 ops"
    by (cases op) auto
  have rest: "list_all (op_ok os) ops" using Cons.prems(3) by simp
  obtain z' where "zip_run os z1 ops = (WT_OK, z')"
      "writes h ((ms @ [m]) @ map (the \<circ> op_member os) ops) z'" "zw_path z' = zw_path z1"
    using Cons.IH [OF Cons.prems(1) z1(1) rest] by blast
  then show ?case using run m z1(2) by (auto simp: comp_def)
qed

definition zip_create ::
  "zip_os \<Rightarrow> WT_ZipWriter \<Rightarrow> string \<Rightarrow> zip_op list \<Rightarrow> WT_Result \<times> WT_ZipWriter" where
  "zip_create os z path ops =
     then_ok (wt_zip_begin os z (Some path)) (\<lambda>z1.
     then_ok_or (zip_run os z1 ops) wt_zip_abort (\<lambda>z2. wt_zip_finish os z2))"

definition archive_bytes :: "zip_os \<Rightarrow> zip_op list \<Rightarrow> nat" where
  \<comment> \<open>bytes of all local records: where the directory starts\<close>
  "archive_bytes os ops = length (locals (map (the \<circ> op_member os) ops))"

lemma zip_archive_reads:
  assumes "zip_os_ok os" "os_create os path = None" "path \<noteq> []"
    and "list_all (op_ok os) ops" "length ops \<le> 0xffff" "archive_bytes os ops < 2 ^ 32"
  shows "\<exists>z' bs. zip_create os z path ops = (WT_OK, z') \<and> zw_fs z' path = Some bs \<and>
    unzip bs = Some (map (\<lambda>op. case the (op_member os op) of
                              (name, crc, body) \<Rightarrow> (str_bytes name, body)) ops)"
proof -
  obtain z1 where b: "wt_zip_begin os z (Some path) = (WT_OK, z1)" and w: "writes path [] z1"
    using assms(2,3) by (simp add: wt_zip_begin_def writes_def locals_def Let_def)
  let ?ms = "map (the \<circ> op_member os) ops"
  obtain z2 where r: "zip_run os z1 ops = (WT_OK, z2)" and w2: "writes path ?ms z2"
    using zip_run_ok [OF assms(1) w assms(4)] by auto
  have ok: "list_all member_ok ?ms"
    using assms(4) by (auto simp: list_all_iff op_ok_def split: option.splits)
  have "length ?ms \<le> 0xffff" "length (locals ?ms) < 2 ^ 32"
    using assms(5,6) by (simp_all add: archive_bytes_def)
  with finish_ok [OF assms(1) w2] unzip_archive [OF ok] show ?thesis
    by (fastforce simp: zip_create_def b r comp_def case_prod_unfold)
qed

text \<open>C2. Round trip of the archive writer: with a system that lets every call through, at
  most 65535 entries with names of 1 to 259 bytes, and local records that end below 4 GiB,
  creating an archive succeeds and the file on disk reads back, through directory, local
  records and CRC checks, as exactly the members that were added, in order.\<close>

theorem zip_roundtrip:
  assumes "zip_os_ok os" "os_create os path = None" "path \<noteq> []"
    and "list_all (op_ok os) ops" "length ops \<le> 0xffff" "archive_bytes os ops < 2 ^ 32"
  shows "\<exists>z' bs. zip_create os z path ops = (WT_OK, z') \<and> zw_fs z' path = Some bs \<and>
    unzip bs = Some (map (\<lambda>op. case the (op_member os op) of
                              (name, crc, body) \<Rightarrow> (str_bytes name, body)) ops)"
  using assms by (rule zip_archive_reads)

text \<open>The directory stores offsets modulo \<open>2 ^ 32\<close>: nothing in the writer refuses a local
  record that starts at or past 4 GiB, so its directory entry then points elsewhere.\<close>

theorem zip_cd_offset_mod:
  "le_nat (fld 42 4 (zip_cd_header e)) = unat (ze_local_offset e) mod 2 ^ 32"
  using cd_header_fields(5) [of e "[]"]
  by (simp add: unsigned_ucast_eq take_bit_eq_mod)

section \<open>What a failure leaves behind\<close>

definition open_at :: "string \<Rightarrow> WT_ZipWriter \<Rightarrow> bool" where
  "open_at p z \<longleftrightarrow> zw_file z = Some p \<and> zw_path z = p"

lemma open_at_upd [simp]:
  "open_at p (z\<lparr>zw_failed := b\<rparr>) = open_at p z" "open_at p (z\<lparr>zw_entries := es\<rparr>) = open_at p z"
  "open_at p (z\<lparr>zw_offset := n\<rparr>) = open_at p z" "open_at p (z\<lparr>zw_fs := f\<rparr>) = open_at p z"
  "open_at p (z\<lparr>zw_entry_cap := k\<rparr>) = open_at p z"
  by (simp_all add: open_at_def)

lemma abort_removes: "open_at p z \<Longrightarrow> p \<noteq> [] \<Longrightarrow> zw_fs (wt_zip_abort z) p = None"
  by (simp add: open_at_def wt_zip_abort_def Let_def)

lemma abort_closes [simp]: "zw_file (wt_zip_abort z) = None" "zw_failed (wt_zip_abort z)"
  by (simp_all add: wt_zip_abort_def Let_def split: option.splits)

lemma zip_write_loop_open: "open_at p (snd (zip_write_loop os h z bs)) = open_at p z"
proof (induction os h z bs rule: zip_write_loop.induct)
  case (1 os h z bs)
  show ?case
    by (subst zip_write_loop.simps) (auto simp: Let_def "1.IH")
qed

lemma wt_zip_write_open: "open_at p (snd (wt_zip_write os z d n)) = open_at p z"
  by (auto simp: wt_zip_write_def zip_write_loop_open split: option.splits)

lemma wt_zip_grow_open: "open_at p (snd (wt_zip_grow os z)) = open_at p z"
  by (simp add: wt_zip_grow_def Let_def)

lemma then_ok_open:
  "open_at p (snd m) = open_at p z \<Longrightarrow> (\<And>s. open_at p (snd (f s)) = open_at p s) \<Longrightarrow>
   open_at p (snd (then_ok m f)) = open_at p z"
  by (simp add: then_ok_def)

lemma zip_copy_loop_open: "open_at p (snd (zip_copy_loop os z src n)) = open_at p z"
proof (induction os z src n rule: zip_copy_loop.induct)
  case (1 os z src n)
  let ?w = "min n 65536"
  have IH: "n \<noteq> 0 \<Longrightarrow> take ?w src \<noteq> [] \<Longrightarrow>
    open_at p (snd (zip_copy_loop os s (drop ?w src) (n - length (take ?w src)))) = open_at p s" for s
    using "1.IH" [OF _ refl refl, of s] by blast
  show ?case
    by (subst zip_copy_loop.simps)
       (auto simp: Let_def then_ok_def wt_zip_write_open IH simp del: length_take take_eq_Nil)
qed

lemma wt_zip_add_local_open: "open_at p (snd (wt_zip_add_local os z nm c n d dl po)) = open_at p z"
proof -
  have body: "open_at p (snd (case d of Some d' \<Rightarrow> wt_zip_write os s (Some d') dl
      | None \<Rightarrow> (case os_read os (the po) of
           None \<Rightarrow> (WT_ERR_WIN32, s\<lparr>zw_failed := True\<rparr>)
         | Some src \<Rightarrow> zip_copy_loop os s src (unat n)))) = open_at p s" for s
    by (simp add: wt_zip_write_open zip_copy_loop_open split: option.splits)
  show ?thesis
    by (auto simp: wt_zip_add_local_def Let_def wt_zip_grow_open wt_zip_write_open zip_copy_loop_open body
      intro!: then_ok_open split: option.splits)
qed

lemma zip_run_open: "open_at p (snd (zip_run os z ops)) = open_at p z"
  by (induction os z ops rule: zip_run.induct)
     (auto simp: wt_zip_add_bytes_def wt_zip_add_path_def wt_zip_add_local_open then_ok_def)

lemma zip_write_cd_fail:
  "zip_write_cd os z es = (r, z') \<Longrightarrow> open_at p z \<Longrightarrow> p \<noteq> [] \<Longrightarrow>
   (r = WT_OK \<longrightarrow> open_at p z') \<and> (r \<noteq> WT_OK \<longrightarrow> zw_fs z' p = None \<and> zw_file z' = None)"
proof (induction es arbitrary: z)
  case Nil
  then show ?case by auto
next
  case (Cons e es)
  have w: "open_at p s0 \<Longrightarrow> wt_zip_write os s0 d n = (r', s') \<Longrightarrow> open_at p s'" for s0 d n r' s'
    using wt_zip_write_open [of p os s0 d n] by simp
  note rm = abort_removes [OF _ Cons.prems(3)]
  from Cons.prems(1) [unfolded zip_write_cd.simps] show ?case
  proof (cases rule: then_ok_orE)
    case (ok s1)
    have o1: "open_at p s1" using w [OF Cons.prems(2) ok(1)] .
    from ok(2) show ?thesis
    proof (cases rule: then_ok_orE)
      case (ok s2)
      then show ?thesis using Cons.IH [OF ok(2) w [OF o1 ok(1)] Cons.prems(3)] by simp
    next
      case (err s2)
      then show ?thesis using rm [OF w [OF o1 err(1)]] by simp
    qed
  next
    case (err s1)
    then show ?thesis using rm [OF w [OF Cons.prems(2) err(1)]] by simp
  qed
qed

lemma wt_zip_finish_fail:
  assumes "wt_zip_finish os z = (r, z')" "open_at p z" "p \<noteq> []" "r \<noteq> WT_OK"
  shows "zw_fs z' p = None \<and> zw_file z' = None"
proof -
  have w: "open_at p s0 \<Longrightarrow> wt_zip_write os s0 d n = (r', s') \<Longrightarrow> open_at p s'" for s0 d n r' s'
    using wt_zip_write_open [of p os s0 d n] by simp
  have f: "zw_file z \<noteq> None" using assms(2) by (simp add: open_at_def)
  note rm = abort_removes [OF _ assms(3)]
  show ?thesis
  proof (cases "zw_failed z \<or> 0xffff < length (zw_entries z)")
    case True
    then have "z' = wt_zip_abort z"
      using assms(1) f by (auto simp: wt_zip_finish_def split: if_splits)
    then show ?thesis using rm [OF assms(2)] by simp
  next
    case False
    with assms(1) f have "then_ok (zip_write_cd os z (zw_entries z)) (\<lambda>z1.
        let eocd = zip_eocd (length (zw_entries z1)) (zw_offset z1 - zw_offset z) (zw_offset z) in
        then_ok_or (wt_zip_write os z1 (Some eocd) (length eocd)) wt_zip_abort
          (\<lambda>z2. (WT_OK, z2\<lparr>zw_file := None, zw_entries := [], zw_entry_cap := 0\<rparr>))) = (r, z')"
      by (simp add: wt_zip_finish_def Let_def)
    then show ?thesis
    proof (cases rule: then_okE)
      case (ok s1)
      have o1: "open_at p s1" using zip_write_cd_fail [OF ok(1) assms(2,3)] by simp
      from ok(2) [unfolded Let_def] show ?thesis
      proof (cases rule: then_ok_orE)
        case (ok s2)
        then show ?thesis using assms(4) by simp
      next
        case (err s2)
        then show ?thesis using rm [OF w [OF o1 err(1)]] by simp
      qed
    next
      case err
      then show ?thesis using zip_write_cd_fail [OF err(1) assms(2,3)] by simp
    qed
  qed
qed

lemma zip_failure_clean:
  assumes "zip_create os z path ops = (r, z')" "r \<noteq> WT_OK"
    and "os_create os path = None" "path \<noteq> []" "length path < 520"
  shows "zw_fs z' path = None \<and> zw_file z' = None"
proof -
  obtain z1 where b: "wt_zip_begin os z (Some path) = (WT_OK, z1)" and o1: "open_at path z1"
    using assms(3-5) by (simp add: wt_zip_begin_def open_at_def Let_def)
  have run: "then_ok_or (zip_run os z1 ops) wt_zip_abort (wt_zip_finish os) = (r, z')"
    using assms(1) by (simp add: zip_create_def b)
  obtain r2 z2 where zr: "zip_run os z1 ops = (r2, z2)" by (cases "zip_run os z1 ops")
  have o2: "open_at path z2" using zip_run_open [of path os z1 ops] o1 by (simp add: zr)
  show ?thesis
  proof (cases "r2 = WT_OK")
    case True
    then have "wt_zip_finish os z2 = (r, z')" using run by (simp add: zr)
    then show ?thesis using wt_zip_finish_fail [OF _ o2 assms(4,2)] by blast
  next
    case False
    then have "z' = wt_zip_abort z2" using run by (simp add: zr)
    then show ?thesis using abort_removes [OF o2 assms(4)] by simp
  qed
qed

text \<open>C4. All or nothing: once the file is open, whatever fails (a write, an allocation, a
  source file, an oversized directory), the failing run closes the handle and no archive is
  left at the path. The path must fit the writer's 520-unit copy, which is what the abort
  deletes.\<close>

theorem zip_all_or_nothing:
  assumes "zip_create os z path ops = (r, z')" "r \<noteq> WT_OK"
    and "os_create os path = None" "path \<noteq> []" "length path < 520"
  shows "zw_fs z' path = None \<and> zw_file z' = None"
  using assms by (rule zip_failure_clean)

section \<open>Witnesses\<close>

definition demo_os :: zip_os where
  "demo_os = \<lparr>os_create = (\<lambda>_. None), os_write = (\<lambda>_ n. n), os_alloc = (\<lambda>_. True),
     os_read = (\<lambda>p. if p = ''r.json'' then Some [123, 125] else None)\<rparr>"

definition demo_writer :: WT_ZipWriter where
  "demo_writer = \<lparr>zw_file = None, zw_path = [], zw_offset = 0, zw_entries = [],
     zw_entry_cap = 0, zw_failed = False, zw_fs = Map.empty\<rparr>"

definition demo_ops :: "zip_op list" where
  "demo_ops = [Add_Bytes ''manifest.json'' [123, 125], Add_Path ''reports/r.json'' ''r.json'' 0xa3a6bf43 2]"

lemma demo_crc: "wt_crc32_bytes [123, 125] = 0xa3a6bf43"
  unfolding wt_crc32_bytes_def wt_crc32_bitwise by code_simp

lemma demo_ops_ok: "zip_os_ok demo_os" "os_create demo_os ''o.zip'' = None"
  "list_all (op_ok demo_os) demo_ops" "length demo_ops \<le> 0xffff"
  "archive_bytes demo_os demo_ops < 2 ^ 32"
  by (simp_all add: zip_os_ok_def demo_os_def demo_ops_def op_ok_def demo_crc
    archive_bytes_def locals_def str_bytes_def)

theorem zip_roundtrip_witness:
  "\<exists>z' bs. zip_create demo_os demo_writer ''o.zip'' demo_ops = (WT_OK, z') \<and>
     zw_fs z' ''o.zip'' = Some bs \<and>
     unzip bs = Some [(str_bytes ''manifest.json'', [123, 125]),
                      (str_bytes ''reports/r.json'', [123, 125])]"
  using zip_roundtrip [OF demo_ops_ok(1,2) _ demo_ops_ok(3-5), of demo_writer]
  by (simp add: demo_ops_def demo_os_def demo_crc)

text \<open>A disk that takes ten bytes only: the end record does not fit, the run fails and the
  file is gone.\<close>

definition full_os :: zip_os where
  "full_os = demo_os\<lparr>os_write := (\<lambda>off n. 10 - off)\<rparr>"

lemma eocd_ne: "zip_eocd n a b \<noteq> []"
  by (metis length_eocd list.size(3) zero_neq_numeral)

lemma full_os_fails: "fst (zip_create full_os demo_writer ''o.zip'' []) = WT_ERR_WIN32"
  by (simp add: zip_create_def wt_zip_begin_def full_os_def demo_os_def Let_def
    demo_writer_def wt_zip_finish_def wt_zip_write_def zip_write_loop.simps eocd_ne)

theorem zip_all_or_nothing_witness:
  "\<exists>z'. zip_create full_os demo_writer ''o.zip'' [] = (WT_ERR_WIN32, z') \<and>
     zw_fs z' ''o.zip'' = None \<and> zw_file z' = None"
proof -
  obtain r z' where c: "zip_create full_os demo_writer ''o.zip'' [] = (r, z')"
    by (cases "zip_create full_os demo_writer ''o.zip'' []")
  then have r: "r = WT_ERR_WIN32" using full_os_fails by simp
  have "os_create full_os ''o.zip'' = None" by (simp add: full_os_def demo_os_def)
  then show ?thesis using zip_all_or_nothing [OF c] c r by simp
qed

end
