(* ===== verification/Cli_Parse.thy ===== *)
theory Cli_Parse
  imports WT_Errors
begin

text \<open>
  The command line (\<open>src/cli/cli_parse.c\<close>, \<open>cli.h\<close>): one options record for all commands,
  the scan over \<open>argv[1..]\<close> and the session defaults of \<open>cli.c\<close>. Each field carries the
  prefix \<open>co_\<close>. The source compares the token with one literal after another; the
  literals are distinct, so switches, options with a value, unknown options and positional
  arguments are separate functions here, tried in that order.
\<close>

record WT_CliOptions =
  co_help :: bool
  co_version :: bool
  co_verbose :: bool
  co_debug :: bool
  co_json :: bool
  co_no_color :: bool
  co_no_unicode :: bool
  co_safe_terminal :: bool
  co_yes :: bool
  co_dry_run :: bool
  co_plan :: bool
  co_output_path :: "string option"
  co_input_path :: "string option"
  co_watch :: bool
  co_no_recommendations :: bool
  co_limit :: int
  co_page :: int
  co_page_size :: int
  co_interval_ms :: int
  co_duration_ms :: int
  co_samples :: int
  co_frames :: int
  co_sort :: "string option"
  co_include_services :: bool
  co_include_tasks :: bool
  co_include_large :: bool
  co_include_network :: bool
  co_tasks_logon :: bool
  co_delay_seconds :: int
  co_measured :: bool
  co_via_service :: bool
  co_json_errors :: bool
  co_compact_json :: bool
  co_ndjson :: bool
  co_log_file_path :: "string option"
  co_service_auto_start :: bool
  co_service_account :: "string option"
  co_service_account_password :: "string option"
  co_service_profile :: "string option"
  co_service_pipe_acl :: "string option"
  co_svc_auto :: bool
  co_svc_running :: bool
  co_svc_stopped :: bool
  co_svc_failed :: bool
  co_set_value :: "string option"
  co_format :: "string option"
  co_theme :: "string option"
  co_schema_version :: "string option"
  co_arg1 :: "string option"
  co_arg2 :: "string option"

definition cli_init :: WT_CliOptions where
  \<comment> \<open>\<open>memset(opts, 0)\<close> and the \<open>-1\<close> defaults\<close>
  "cli_init = \<lparr>
     co_help = False,
     co_version = False,
     co_verbose = False,
     co_debug = False,
     co_json = False,
     co_no_color = False,
     co_no_unicode = False,
     co_safe_terminal = False,
     co_yes = False,
     co_dry_run = False,
     co_plan = False,
     co_output_path = None,
     co_input_path = None,
     co_watch = False,
     co_no_recommendations = False,
     co_limit = -1,
     co_page = -1,
     co_page_size = -1,
     co_interval_ms = -1,
     co_duration_ms = -1,
     co_samples = -1,
     co_frames = -1,
     co_sort = None,
     co_include_services = False,
     co_include_tasks = False,
     co_include_large = False,
     co_include_network = False,
     co_tasks_logon = False,
     co_delay_seconds = -1,
     co_measured = False,
     co_via_service = False,
     co_json_errors = False,
     co_compact_json = False,
     co_ndjson = False,
     co_log_file_path = None,
     co_service_auto_start = False,
     co_service_account = None,
     co_service_account_password = None,
     co_service_profile = None,
     co_service_pipe_acl = None,
     co_svc_auto = False,
     co_svc_running = False,
     co_svc_stopped = False,
     co_svc_failed = False,
     co_set_value = None,
     co_format = None,
     co_theme = None,
     co_schema_version = None,
     co_arg1 = None,
     co_arg2 = None\<rparr>"

definition cli_flag :: "string \<Rightarrow> (WT_CliOptions \<Rightarrow> WT_CliOptions) option" where
  \<comment> \<open>the switches without a value\<close>
  "cli_flag t =
     (if t = ''--help'' then Some (\<lambda>r. r\<lparr>co_help := True\<rparr>)
      else if t = ''--version'' then Some (\<lambda>r. r\<lparr>co_version := True\<rparr>)
      else if t = ''--verbose'' then Some (\<lambda>r. r\<lparr>co_verbose := True\<rparr>)
      else if t = ''--debug'' then Some (\<lambda>r. r\<lparr>co_debug := True\<rparr>)
      else if t = ''--json'' then Some (\<lambda>r. r\<lparr>co_json := True\<rparr>)
      else if t = ''--no-color'' then Some (\<lambda>r. r\<lparr>co_no_color := True\<rparr>)
      else if t = ''--no-unicode'' then Some (\<lambda>r. r\<lparr>co_no_unicode := True\<rparr>)
      else if t = ''--safe-terminal'' then Some (\<lambda>r. r\<lparr>co_safe_terminal := True\<rparr>)
      else if t = ''--yes'' then Some (\<lambda>r. r\<lparr>co_yes := True\<rparr>)
      else if t = ''--dry-run'' then Some (\<lambda>r. r\<lparr>co_dry_run := True\<rparr>)
      else if t = ''--preview'' then Some (\<lambda>r. r\<lparr>co_dry_run := True\<rparr>)
      else if t = ''--plan'' then Some (\<lambda>r. r\<lparr>co_plan := True\<rparr>)
      else if t = ''--watch'' then Some (\<lambda>r. r\<lparr>co_watch := True\<rparr>)
      else if t = ''--no-recommendations'' then Some (\<lambda>r. r\<lparr>co_no_recommendations := True\<rparr>)
      else if t = ''--include-services'' then Some (\<lambda>r. r\<lparr>co_include_services := True\<rparr>)
      else if t = ''--include-tasks'' then Some (\<lambda>r. r\<lparr>co_include_tasks := True\<rparr>)
      else if t = ''--large'' then Some (\<lambda>r. r\<lparr>co_include_large := True\<rparr>)
      else if t = ''--include-network'' then Some (\<lambda>r. r\<lparr>co_include_network := True\<rparr>)
      else if t = ''--logon'' then Some (\<lambda>r. r\<lparr>co_tasks_logon := True\<rparr>)
      else if t = ''--measured'' then Some (\<lambda>r. r\<lparr>co_measured := True\<rparr>)
      else if t = ''--via-service'' then Some (\<lambda>r. r\<lparr>co_via_service := True\<rparr>)
      else if t = ''--json-errors'' then Some (\<lambda>r. r\<lparr>co_json_errors := True\<rparr>)
      else if t = ''--compact-json'' then Some (\<lambda>r. r\<lparr>co_compact_json := True\<rparr>)
      else if t = ''--ndjson'' then Some (\<lambda>r. r\<lparr>co_ndjson := True\<rparr>)
      else if t = ''--auto-start'' then Some (\<lambda>r. r\<lparr>co_service_auto_start := True\<rparr>)
      else if t = ''--auto'' then Some (\<lambda>r. r\<lparr>co_svc_auto := True\<rparr>)
      else if t = ''--running'' then Some (\<lambda>r. r\<lparr>co_svc_running := True\<rparr>)
      else if t = ''--stopped'' then Some (\<lambda>r. r\<lparr>co_svc_stopped := True\<rparr>)
      else if t = ''--failed'' then Some (\<lambda>r. r\<lparr>co_svc_failed := True\<rparr>)
      else None)"

definition schema_version_ok :: "string \<Rightarrow> bool" where
  "schema_version_ok v \<longleftrightarrow>
     v = ''1'' \<or> v = ''1.0'' \<or> v = ''1.0.0'' \<or> v = ''2'' \<or> v = ''2.0'' \<or> v = ''2.0.0''"

definition cli_value ::
  "string \<Rightarrow> (string \<Rightarrow> WT_CliOptions \<Rightarrow> WT_CliOptions option) option" where
  \<comment> \<open>the options that take the next token; the inner None is a refused value\<close>
  "cli_value t =
     (if t = ''--seconds'' then Some (\<lambda>v r. Some (r\<lparr>co_delay_seconds := strtol v\<rparr>))
      else if t = ''--log-file'' then Some (\<lambda>v r. Some (r\<lparr>co_log_file_path := Some v\<rparr>))
      else if t = ''--profile'' then Some (\<lambda>v r. Some (r\<lparr>co_service_profile := Some v\<rparr>))
      else if t = ''--pipe-acl'' then Some (\<lambda>v r. Some (r\<lparr>co_service_pipe_acl := Some v\<rparr>))
      else if t = ''--account'' then Some (\<lambda>v r. Some (r\<lparr>co_service_account := Some v\<rparr>))
      else if t = ''--account-password'' then Some (\<lambda>v r. Some (r\<lparr>co_service_account_password := Some v\<rparr>))
      else if t = ''--output'' then Some (\<lambda>v r. Some (r\<lparr>co_output_path := Some v\<rparr>))
      else if t = ''--input'' then Some (\<lambda>v r. Some (r\<lparr>co_input_path := Some v\<rparr>))
      else if t = ''--limit'' then Some (\<lambda>v r. Some (r\<lparr>co_limit := strtol v\<rparr>))
      else if t = ''--page'' then Some (\<lambda>v r. Some (r\<lparr>co_page := strtol v\<rparr>))
      else if t = ''--page-size'' then Some (\<lambda>v r. Some (r\<lparr>co_page_size := strtol v\<rparr>))
      else if t = ''--interval'' then Some (\<lambda>v r. Some (r\<lparr>co_interval_ms := strtol v\<rparr>))
      else if t = ''--duration'' then Some (\<lambda>v r. Some (r\<lparr>co_duration_ms := strtol v\<rparr>))
      else if t = ''--samples'' then Some (\<lambda>v r. Some (r\<lparr>co_samples := strtol v\<rparr>))
      else if t = ''--frames'' then Some (\<lambda>v r. Some (r\<lparr>co_frames := strtol v\<rparr>))
      else if t = ''--sort'' then Some (\<lambda>v r. Some (r\<lparr>co_sort := Some v\<rparr>))
      else if t = ''--set'' then Some (\<lambda>v r. Some (r\<lparr>co_set_value := Some v\<rparr>))
      else if t = ''--format'' then Some (\<lambda>v r. Some (r\<lparr>co_format := Some v\<rparr>))
      else if t = ''--theme'' then Some (\<lambda>v r. Some (r\<lparr>co_theme := Some v\<rparr>))
      else if t = ''--schema-version'' then
        Some (\<lambda>v r. if schema_version_ok v then Some (r\<lparr>co_schema_version := Some v\<rparr>) else None)
      else None)"

definition cli_positional ::
  "string \<Rightarrow> WT_CliOptions \<times> string option \<Rightarrow> WT_CliOptions \<times> string option" where
  \<comment> \<open>command, then \<open>arg1\<close>, then \<open>arg2\<close>; further arguments are ignored\<close>
  "cli_positional t st = (case st of (r, command) \<Rightarrow>
     if command = None then (r, Some t)
     else if co_arg1 r = None then (r\<lparr>co_arg1 := Some t\<rparr>, command)
     else if co_arg2 r = None then (r\<lparr>co_arg2 := Some t\<rparr>, command)
     else (r, command))"

fun cli_scan ::
  "WT_CliOptions \<times> string option \<Rightarrow> string list \<Rightarrow> int \<times> WT_CliOptions \<times> string option" where
  \<comment> \<open>the loop over the tokens; a usage error leaves \<open>*out_command\<close> NULL\<close>
  "cli_scan st [] = (WT_EXIT_OK, st)"
| "cli_scan st (t # ts) =
     (case cli_flag t of
        Some f \<Rightarrow> cli_scan (f (fst st), snd st) ts
      | None \<Rightarrow>
          (case cli_value t of
             Some h \<Rightarrow>
               (case ts of
                  [] \<Rightarrow> (WT_EXIT_USAGE, fst st, None)
                | v # ts' \<Rightarrow>
                    (case h v (fst st) of
                       None \<Rightarrow> (WT_EXIT_USAGE, fst st, None)
                     | Some o' \<Rightarrow> cli_scan (o', snd st) ts'))
           | None \<Rightarrow>
               if t \<noteq> [] \<and> hd t = CHR ''-'' then (WT_EXIT_USAGE, fst st, None)
               else cli_scan (cli_positional t st) ts))"

definition wt_cli_parse_argv :: "string list \<Rightarrow> int \<times> WT_CliOptions \<times> string option" where
  "wt_cli_parse_argv argv = cli_scan (cli_init, None) (tl argv)"

definition wt_cli_is_json_mode :: "WT_CliOptions \<Rightarrow> bool" where
  "wt_cli_is_json_mode o' \<longleftrightarrow>
     co_json o' \<or> (case co_format o' of None \<Rightarrow> False | Some f \<Rightarrow> wcsicmp f ''json'')"

text \<open>What the session looks like is asked of the console: three answers of Windows.\<close>

record session_info =
  console_interactive :: bool
  session_remote :: bool
  session_interactive :: bool

definition wt_cli_apply_session_defaults :: "session_info \<Rightarrow> WT_CliOptions \<Rightarrow> WT_CliOptions" where
  "wt_cli_apply_session_defaults si o0 =
     (let o1 = (if wt_cli_is_json_mode o0 then o0\<lparr>co_no_color := True\<rparr> else o0);
          o2 = (if co_safe_terminal o1 then o1\<lparr>co_no_color := True, co_no_unicode := True\<rparr> else o1);
          o3 = (if \<not> console_interactive si then o2\<lparr>co_no_color := True\<rparr> else o2)
      in if session_remote si \<and> session_interactive si \<and>
            \<not> co_safe_terminal o3 \<and> \<not> co_no_unicode o3 \<and> \<not> co_no_color o3
         then o3\<lparr>co_safe_terminal := True, co_no_color := True, co_no_unicode := True\<rparr>
         else o3)"

section \<open>What the scan guarantees\<close>

definition value_options :: "string list" where
  \<comment> \<open>the options that consume the token after them\<close>
  "value_options =
     [''--seconds'', ''--log-file'', ''--profile'', ''--pipe-acl'', ''--account'',
      ''--account-password'', ''--output'', ''--input'', ''--limit'', ''--page'',
      ''--page-size'', ''--interval'', ''--duration'', ''--samples'', ''--frames'',
      ''--sort'', ''--set'', ''--format'', ''--theme'', ''--schema-version'']"

fun switch_tokens :: "string list \<Rightarrow> string list" where
  \<comment> \<open>the tokens that stand in option or positional place, values left out\<close>
  "switch_tokens [] = []"
| "switch_tokens (t # ts) =
     t # switch_tokens (if t \<in> set value_options then tl ts else ts)"

definition looks_like_option :: "string \<Rightarrow> bool" where
  "looks_like_option t \<longleftrightarrow> t \<noteq> [] \<and> hd t = CHR ''-''"

definition positional_tokens :: "string list \<Rightarrow> string list" where
  "positional_tokens ts = filter (\<lambda>t. \<not> looks_like_option t) (switch_tokens ts)"

definition nth_opt :: "'a list \<Rightarrow> nat \<Rightarrow> 'a option" where
  "nth_opt xs i = (if i < length xs then Some (xs ! i) else None)"

lemma cli_value_iff: "cli_value t \<noteq> None \<longleftrightarrow> t \<in> set value_options"
  by (simp add: cli_value_def value_options_def)

lemma cli_value_None: "cli_value t = None \<longleftrightarrow> t \<notin> set value_options"
  using cli_value_iff by blast

lemma cli_flag_option: "cli_flag t = Some f \<Longrightarrow> looks_like_option t \<and> t \<notin> set value_options"
  by (auto simp: cli_flag_def looks_like_option_def value_options_def split: if_splits)

lemma value_option_dash: "t \<in> set value_options \<Longrightarrow> looks_like_option t"
  by (auto simp: value_options_def looks_like_option_def)

lemma cli_flag_yes: "cli_flag t = Some f \<Longrightarrow> co_yes (f r) \<longleftrightarrow> co_yes r \<or> t = ''--yes''"
  by (auto simp: cli_flag_def split: if_splits)

lemma cli_value_yes: "cli_value t = Some h \<Longrightarrow> h v r = Some r' \<Longrightarrow> co_yes r' = co_yes r"
  by (auto simp: cli_value_def split: if_splits)

lemma cli_positional_yes: "co_yes (fst (cli_positional t st)) = co_yes (fst st)"
  by (simp add: cli_positional_def split: prod.splits)

lemma cli_flag_args:
  "cli_flag t = Some f \<Longrightarrow> co_arg1 (f r) = co_arg1 r \<and> co_arg2 (f r) = co_arg2 r"
  by (auto simp: cli_flag_def split: if_splits)

lemma cli_value_args:
  "cli_value t = Some h \<Longrightarrow> h v r = Some r' \<Longrightarrow> co_arg1 r' = co_arg1 r \<and> co_arg2 r' = co_arg2 r"
  by (auto simp: cli_value_def split: if_splits)

lemma cli_scan_yes:
  "cli_scan st ts = (WT_EXIT_OK, r, c) \<Longrightarrow>
   co_yes r \<longleftrightarrow> co_yes (fst st) \<or> ''--yes'' \<in> set (switch_tokens ts)"
proof (induction st ts rule: cli_scan.induct)
  case (1 st)
  then show ?case by simp
next
  case (2 st t ts)
  have ne: "WT_EXIT_USAGE \<noteq> WT_EXIT_OK" by (simp add: exit_defs)
  consider (flag) f where "cli_flag t = Some f"
    | (val) h where "cli_flag t = None" "cli_value t = Some h"
    | (pos) "cli_flag t = None" "cli_value t = None"
    by fastforce
  then show ?case
  proof cases
    case flag
    then show ?thesis
      using 2 cli_flag_option [OF flag] cli_flag_yes [OF flag] by auto
  next
    case val
    then have "t \<in> set value_options" using cli_value_iff by blast
    moreover have "t \<noteq> ''--yes''" using val(1) by (auto simp: cli_flag_def)
    ultimately show ?thesis
      using 2 val ne cli_value_yes [OF val(2)] by (auto split: list.splits option.splits)
  next
    case pos
    then have "t \<notin> set value_options" using cli_value_None by blast
    moreover have "t \<noteq> ''--yes''" using pos(1) by (auto simp: cli_flag_def)
    ultimately show ?thesis
      using 2 pos ne by (auto simp: cli_positional_yes split: if_splits)
  qed
qed

text \<open>C5. Consent comes from the switch alone: after a successful parse \<open>--yes\<close> is set exactly
  when the token \<open>--yes\<close> stands in option place; a \<open>--yes\<close> swallowed as the value of another
  option (as in \<open>--output --yes\<close>) is not consent.\<close>

theorem parse_yes_iff:
  assumes "wt_cli_parse_argv argv = (WT_EXIT_OK, r, c)"
  shows "co_yes r \<longleftrightarrow> ''--yes'' \<in> set (switch_tokens (tl argv))"
  using cli_scan_yes [OF assms [unfolded wt_cli_parse_argv_def]] by (simp add: cli_init_def)

theorem parse_yes_iff_witness:
  "\<not> co_yes (fst (snd (wt_cli_parse_argv [''wintune'', ''apply'', ''--output'', ''--yes''])))"
proof -
  have "wt_cli_parse_argv [''wintune'', ''apply'', ''--output'', ''--yes''] =
    (WT_EXIT_OK, cli_init\<lparr>co_output_path := Some ''--yes''\<rparr>, Some ''apply'')"
    by (simp add: wt_cli_parse_argv_def cli_flag_def cli_value_def cli_positional_def)
  from parse_yes_iff [OF this] show ?thesis
    by (simp add: value_options_def cli_init_def wt_cli_parse_argv_def cli_flag_def cli_value_def
      cli_positional_def)
qed

definition pos_match :: "string list \<Rightarrow> WT_CliOptions \<times> string option \<Rightarrow> bool" where
  "pos_match ps st \<longleftrightarrow>
     snd st = nth_opt ps 0 \<and> co_arg1 (fst st) = nth_opt ps 1 \<and> co_arg2 (fst st) = nth_opt ps 2"

lemma pos_match_step: "pos_match ps st \<Longrightarrow> pos_match (ps @ [t]) (cli_positional t st)"
proof -
  assume m: "pos_match ps st"
  consider "ps = []" | a where "ps = [a]" | a b where "ps = [a, b]"
    | a b c qs where "ps = a # b # c # qs"
    by (metis neq_Nil_conv)
  then show ?thesis
    using m by cases (auto simp: pos_match_def cli_positional_def nth_opt_def numeral_2_eq_2
      split: prod.splits)
qed

lemma cli_scan_positional:
  "cli_scan st ts = (WT_EXIT_OK, r, c) \<Longrightarrow> pos_match ps st \<Longrightarrow>
   pos_match (ps @ positional_tokens ts) (r, c)"
proof (induction st ts arbitrary: ps rule: cli_scan.induct)
  case (1 st)
  then show ?case by (simp add: positional_tokens_def)
next
  case (2 st t ts)
  have ne: "WT_EXIT_USAGE \<noteq> WT_EXIT_OK" by (simp add: exit_defs)
  consider (flag) f where "cli_flag t = Some f"
    | (val) h where "cli_flag t = None" "cli_value t = Some h"
    | (pos) "cli_flag t = None" "cli_value t = None"
    by fastforce
  then show ?case
  proof cases
    case flag
    have m: "pos_match ps (f (fst st), snd st)"
      using "2.prems"(2) cli_flag_args [OF flag] by (simp add: pos_match_def)
    show ?thesis
      using "2.IH"(3) [OF flag _ m] "2.prems"(1) flag cli_flag_option [OF flag]
      by (simp add: positional_tokens_def)
  next
    case val
    then have v: "t \<in> set value_options" using cli_value_iff by blast
    then obtain x xs r1 where ts: "ts = x # xs" and h: "h x (fst st) = Some r1"
      and scan: "cli_scan (r1, snd st) xs = (WT_EXIT_OK, r, c)"
      using "2.prems"(1) val ne by (auto split: list.splits option.splits)
    have m: "pos_match ps (r1, snd st)"
      using "2.prems"(2) cli_value_args [OF val(2) h] by (simp add: pos_match_def)
    show ?thesis
      using "2.IH"(2) [OF val ts h scan m] v value_option_dash [OF v]
      by (simp add: positional_tokens_def ts)
  next
    case pos
    then have v: "t \<notin> set value_options" using cli_value_None by blast
    have nd: "\<not> looks_like_option t"
      using "2.prems"(1) pos ne by (auto simp: looks_like_option_def)
    then have "cli_scan (cli_positional t st) ts = (WT_EXIT_OK, r, c)"
      using "2.prems"(1) pos by (auto simp: looks_like_option_def split: if_splits)
    then show ?thesis
      using "2.IH"(1) [OF pos _ _ pos_match_step [OF "2.prems"(2)]] nd v
      by (simp add: positional_tokens_def looks_like_option_def)
  qed
qed

text \<open>After a successful parse the command and its two arguments are the first three tokens
  that are neither options nor option values, in order; none of them starts with a dash.\<close>

theorem parse_positionals:
  assumes "wt_cli_parse_argv argv = (WT_EXIT_OK, r, c)"
  defines "ps \<equiv> positional_tokens (tl argv)"
  shows "c = nth_opt ps 0 \<and> co_arg1 r = nth_opt ps 1 \<and> co_arg2 r = nth_opt ps 2 \<and>
    (\<forall>p \<in> set ps. \<not> looks_like_option p)"
proof -
  have "pos_match [] (cli_init, None)" by (simp add: pos_match_def cli_init_def nth_opt_def)
  from cli_scan_positional [OF assms(1) [unfolded wt_cli_parse_argv_def] this]
  show ?thesis by (auto simp: pos_match_def ps_def positional_tokens_def)
qed

theorem parse_positionals_witness:
  "let (rc, r, c) = wt_cli_parse_argv [''wintune'', ''--sort'', ''cpu'', ''startup'', ''disable'', ''x'']
   in rc = WT_EXIT_OK \<and> c = Some ''startup'' \<and> co_arg1 r = Some ''disable'' \<and> co_arg2 r = Some ''x''"
proof -
  have p: "wt_cli_parse_argv [''wintune'', ''--sort'', ''cpu'', ''startup'', ''disable'', ''x''] =
    (WT_EXIT_OK, cli_init\<lparr>co_sort := Some ''cpu'', co_arg1 := Some ''disable'', co_arg2 := Some ''x''\<rparr>,
     Some ''startup'')"
    by (simp add: wt_cli_parse_argv_def cli_flag_def cli_value_def cli_positional_def cli_init_def)
  from parse_positionals [OF p] show ?thesis
    unfolding p by (simp add: nth_opt_def positional_tokens_def value_options_def looks_like_option_def)
qed

lemma cli_scan_codes:
  "fst (cli_scan st ts) = WT_EXIT_OK \<or>
   (fst (cli_scan st ts) = WT_EXIT_USAGE \<and> snd (snd (cli_scan st ts)) = None)"
proof (induction st ts rule: cli_scan.induct)
  case (1 st)
  then show ?case by simp
next
  case (2 st t ts)
  show ?case
  proof (cases "cli_flag t")
    case (Some f)
    then show ?thesis using "2.IH"(3) by simp
  next
    case None
    note nf = None
    show ?thesis
    proof (cases "cli_value t")
      case None
      then show ?thesis using "2.IH"(1) [OF nf None] nf by simp
    next
      case (Some h)
      then show ?thesis
        using "2.IH"(2) [OF nf Some] nf by (auto split: list.split option.split)
    qed
  qed
qed

text \<open>The parser has two outcomes only: success, or the usage exit code with no command, so
  a command never runs on a half-read line. An option that needs a value and stands last is
  refused.\<close>

theorem parse_outcomes:
  "(let (rc, r, c) = wt_cli_parse_argv argv
    in rc = WT_EXIT_OK \<or> (rc = WT_EXIT_USAGE \<and> c = None)) \<and>
   fst (wt_cli_parse_argv [prog, ''--seconds'']) = WT_EXIT_USAGE"
proof
  show "let (rc, r, c) = wt_cli_parse_argv argv
    in rc = WT_EXIT_OK \<or> (rc = WT_EXIT_USAGE \<and> c = None)"
    using cli_scan_codes [of "(cli_init, None)" "tl argv"]
    by (simp add: wt_cli_parse_argv_def case_prod_beta)
  show "fst (wt_cli_parse_argv [prog, ''--seconds'']) = WT_EXIT_USAGE"
    by (simp add: wt_cli_parse_argv_def cli_flag_def cli_value_def)
qed

text \<open>Session defaults: JSON output, a piped stdout and \<open>--safe-terminal\<close> all switch colour
  off, safe mode switches Unicode off too, nothing the user asked for is cleared, and applying
  the defaults again changes nothing.\<close>

theorem session_defaults_conservative:
  "let r' = wt_cli_apply_session_defaults si r in
     ((wt_cli_is_json_mode r \<or> \<not> console_interactive si \<or> co_safe_terminal r') \<longrightarrow> co_no_color r') \<and>
     (co_safe_terminal r' \<longrightarrow> co_no_unicode r') \<and>
     (co_no_color r \<longrightarrow> co_no_color r') \<and> (co_no_unicode r \<longrightarrow> co_no_unicode r') \<and>
     wt_cli_apply_session_defaults si r' = r'"
proof -
  have json: "wt_cli_is_json_mode (x\<lparr>co_no_color := a\<rparr>) = wt_cli_is_json_mode x"
    "wt_cli_is_json_mode (x\<lparr>co_no_unicode := b\<rparr>) = wt_cli_is_json_mode x"
    "wt_cli_is_json_mode (x\<lparr>co_safe_terminal := c\<rparr>) = wt_cli_is_json_mode x" for x a b c
    by (simp_all add: wt_cli_is_json_mode_def)
  note d = wt_cli_apply_session_defaults_def Let_def json
  show ?thesis
    by (cases "wt_cli_is_json_mode r"; cases "co_safe_terminal r"; cases "console_interactive si";
        cases "session_remote si \<and> session_interactive si"; cases "co_no_color r";
        cases "co_no_unicode r") (simp_all add: d)
qed

theorem session_defaults_conservative_witness:
  "co_no_color (wt_cli_apply_session_defaults
     \<lparr>console_interactive = False, session_remote = True, session_interactive = False\<rparr> cli_init)"
  using session_defaults_conservative [of
    "\<lparr>console_interactive = False, session_remote = True, session_interactive = False\<rparr>" cli_init]
  by (simp add: Let_def)

end
