(* ===== verification/Report_Model.thy ===== *)
theory Report_Model
  imports WT_Errors
begin

text \<open>
  The in-memory model a scan produces and every output format consumes
  (\<open>src/core/report_model.h\<close> and the \<open>struct\<close>s of \<open>src/metrics\<close> and \<open>src/system\<close> it is made of).

  A \<open>struct\<close> is a record whose fields carry a short prefix; an array with its fill count is a
  list; a flag that only ever is 0 or 1 is a \<open>bool\<close>, an \<open>int\<close> that also takes \<open>-1\<close> stays an \<open>int\<close>.
  Counters and byte counts that the program reads and prints are \<open>nat\<close>; where it computes with
  them the wrap-around is written out at that place. A \<open>double\<close> is the rational it denotes. The
  \<open>zero_\<close> constants are what \<open>memset(0)\<close> leaves.
\<close>

datatype WT_SignatureStatus =
    WT_SIG_UNKNOWN | WT_SIG_UNSIGNED | WT_SIG_SIGNED | WT_SIG_SIGNED_MICROSOFT
    | WT_SIG_UNAVAILABLE

datatype WT_PublisherOrigin =
    WT_ORIGIN_UNKNOWN | WT_ORIGIN_MICROSOFT | WT_ORIGIN_THIRD_PARTY

datatype WT_InstallLocation =
    WT_LOC_UNKNOWN | WT_LOC_WINDOWS | WT_LOC_PROGRAM_FILES | WT_LOC_PROGRAM_FILES_X86
    | WT_LOC_USER_APP_DATA | WT_LOC_TEMP | WT_LOC_DOWNLOADS | WT_LOC_OTHER

record WT_FileIdentity =
  fi_path :: string
  fi_publisher :: string
  fi_product_name :: string
  fi_signature :: WT_SignatureStatus
  fi_origin :: WT_PublisherOrigin
  fi_location :: WT_InstallLocation
  fi_unusual_location :: bool
  fi_available :: bool

definition zero_WT_FileIdentity :: WT_FileIdentity where
  "zero_WT_FileIdentity = \<lparr>fi_path = [], fi_publisher = [], fi_product_name = [], fi_signature = WT_SIG_UNKNOWN,
     fi_origin = WT_ORIGIN_UNKNOWN, fi_location = WT_LOC_UNKNOWN,
     fi_unusual_location = False, fi_available = False\<rparr>"

datatype WT_IntegrityLevel =
    WT_INTEGRITY_UNKNOWN | WT_INTEGRITY_UNTRUSTED | WT_INTEGRITY_LOW | WT_INTEGRITY_MEDIUM
    | WT_INTEGRITY_MEDIUM_PLUS | WT_INTEGRITY_HIGH | WT_INTEGRITY_SYSTEM | WT_INTEGRITY_PROTECTED

record WT_ProcessInfo =
  pi_pid :: nat
  pi_parent_pid :: nat
  pi_session_id :: nat
  pi_session_ok :: bool
  pi_integrity :: WT_IntegrityLevel
  pi_wait_checked :: bool
  pi_hung :: bool
  pi_wait_cycle :: bool
  pi_name :: string
  pi_working_set_bytes :: nat
  pi_private_bytes :: nat
  pi_read_bytes :: nat
  pi_write_bytes :: nat
  pi_cpu_percent :: rat
  pi_disk_read_bytes_per_sec :: rat
  pi_disk_write_bytes_per_sec :: rat
  pi_net_recv_bytes_per_sec :: rat
  pi_net_send_bytes_per_sec :: rat
  pi_udp_recv_bytes_per_sec :: rat
  pi_udp_send_bytes_per_sec :: rat
  pi_handle_ok :: bool
  pi_handle_count :: nat
  pi_gdi_ok :: bool
  pi_gdi_count :: nat
  pi_identity :: WT_FileIdentity

definition zero_WT_ProcessInfo :: WT_ProcessInfo where
  "zero_WT_ProcessInfo = \<lparr>pi_pid = 0, pi_parent_pid = 0, pi_session_id = 0, pi_session_ok = False,
     pi_integrity = WT_INTEGRITY_UNKNOWN, pi_wait_checked = False, pi_hung = False,
     pi_wait_cycle = False, pi_name = [], pi_working_set_bytes = 0, pi_private_bytes = 0,
     pi_read_bytes = 0, pi_write_bytes = 0, pi_cpu_percent = 0,
     pi_disk_read_bytes_per_sec = 0, pi_disk_write_bytes_per_sec = 0,
     pi_net_recv_bytes_per_sec = 0, pi_net_send_bytes_per_sec = 0,
     pi_udp_recv_bytes_per_sec = 0, pi_udp_send_bytes_per_sec = 0, pi_handle_ok = False,
     pi_handle_count = 0, pi_gdi_ok = False, pi_gdi_count = 0,
     pi_identity = zero_WT_FileIdentity\<rparr>"

record WT_ShortLivedProcess =
  sl_pid :: nat
  sl_parent_pid :: nat
  sl_name :: string
  sl_exited :: bool

definition zero_WT_ShortLivedProcess :: WT_ShortLivedProcess where
  "zero_WT_ShortLivedProcess = \<lparr>sl_pid = 0, sl_parent_pid = 0, sl_name = [], sl_exited = False\<rparr>"

record WT_MemoryMetrics =
  mm_total_physical_bytes :: nat
  mm_available_physical_bytes :: nat
  mm_used_physical_bytes :: nat
  mm_used_percent :: rat
  mm_commit_ok :: bool
  mm_commit_total_bytes :: nat
  mm_commit_limit_bytes :: nat
  mm_commit_peak_bytes :: nat
  mm_commit_percent :: rat
  mm_pagefile_ok :: bool
  mm_commit_available_bytes :: nat
  mm_hard_faults_ok :: bool
  mm_hard_faults_per_sec :: rat
  mm_page_faults_ok :: bool
  mm_page_faults_per_sec :: rat
  mm_standby_ok :: bool
  mm_standby_bytes :: nat
  mm_modified_ok :: bool
  mm_modified_bytes :: nat
  mm_compression_ok :: bool
  mm_compression_bytes :: nat

definition zero_WT_MemoryMetrics :: WT_MemoryMetrics where
  "zero_WT_MemoryMetrics = \<lparr>mm_total_physical_bytes = 0, mm_available_physical_bytes = 0,
     mm_used_physical_bytes = 0, mm_used_percent = 0, mm_commit_ok = False,
     mm_commit_total_bytes = 0, mm_commit_limit_bytes = 0, mm_commit_peak_bytes = 0,
     mm_commit_percent = 0, mm_pagefile_ok = False, mm_commit_available_bytes = 0,
     mm_hard_faults_ok = False, mm_hard_faults_per_sec = 0, mm_page_faults_ok = False,
     mm_page_faults_per_sec = 0, mm_standby_ok = False, mm_standby_bytes = 0,
     mm_modified_ok = False, mm_modified_bytes = 0, mm_compression_ok = False,
     mm_compression_bytes = 0\<rparr>"

record WT_CpuMetrics =
  cm_total_usage_percent :: rat
  cm_logical_processor_count :: nat
  cm_available :: bool
  cm_dpc_percent :: rat
  cm_interrupt_percent :: rat
  cm_kernel_source_ok :: bool
  cm_kernel_source_is_dpc :: bool
  cm_kernel_source :: string

definition zero_WT_CpuMetrics :: WT_CpuMetrics where
  "zero_WT_CpuMetrics = \<lparr>cm_total_usage_percent = 0, cm_logical_processor_count = 0, cm_available = False,
     cm_dpc_percent = 0, cm_interrupt_percent = 0, cm_kernel_source_ok = False,
     cm_kernel_source_is_dpc = False, cm_kernel_source = []\<rparr>"

record WT_DiskVolumeMetrics =
  dv_root_path :: string
  dv_total_bytes :: nat
  dv_free_bytes :: nat
  dv_free_percent :: rat
  dv_active_percent :: rat
  dv_read_bytes_per_sec :: rat
  dv_write_bytes_per_sec :: rat
  dv_avg_queue_length :: rat
  dv_activity_ok :: bool
  dv_throughput_ok :: bool
  dv_queue_ok :: bool
  dv_read_latency_ms_p50 :: rat
  dv_read_latency_ms_p95 :: rat
  dv_write_latency_ms_p50 :: rat
  dv_write_latency_ms_p95 :: rat
  dv_read_latency_samples :: "rat list"
  dv_write_latency_samples :: "rat list"

definition zero_WT_DiskVolumeMetrics :: WT_DiskVolumeMetrics where
  "zero_WT_DiskVolumeMetrics = \<lparr>dv_root_path = [], dv_total_bytes = 0, dv_free_bytes = 0, dv_free_percent = 0,
     dv_active_percent = 0, dv_read_bytes_per_sec = 0, dv_write_bytes_per_sec = 0,
     dv_avg_queue_length = 0, dv_activity_ok = False, dv_throughput_ok = False,
     dv_queue_ok = False, dv_read_latency_ms_p50 = 0, dv_read_latency_ms_p95 = 0,
     dv_write_latency_ms_p50 = 0, dv_write_latency_ms_p95 = 0, dv_read_latency_samples = [],
     dv_write_latency_samples = []\<rparr>"

record WT_GpuProcessUse =
  gp_pid :: nat
  gp_name :: string
  gp_engine_percent :: rat

definition zero_WT_GpuProcessUse :: WT_GpuProcessUse where
  "zero_WT_GpuProcessUse = \<lparr>gp_pid = 0, gp_name = [], gp_engine_percent = 0\<rparr>"

record WT_GpuAdapter =
  ga_name :: string
  ga_dedicated_bytes :: nat
  ga_shared_bytes :: nat
  ga_utilization_percent :: rat
  ga_utilization_ok :: bool
  ga_luid_high :: nat
  ga_luid_low :: nat
  ga_processes :: "WT_GpuProcessUse list"

definition zero_WT_GpuAdapter :: WT_GpuAdapter where
  "zero_WT_GpuAdapter = \<lparr>ga_name = [], ga_dedicated_bytes = 0, ga_shared_bytes = 0, ga_utilization_percent = 0,
     ga_utilization_ok = False, ga_luid_high = 0, ga_luid_low = 0, ga_processes = []\<rparr>"

record WT_DisplayMonitor =
  dm_name :: string
  dm_width :: nat
  dm_height :: nat
  dm_refresh_hz :: rat
  dm_hdr_ok :: bool
  dm_hdr_supported :: bool
  dm_hdr_enabled :: bool
  dm_primary :: bool

definition zero_WT_DisplayMonitor :: WT_DisplayMonitor where
  "zero_WT_DisplayMonitor = \<lparr>dm_name = [], dm_width = 0, dm_height = 0, dm_refresh_hz = 0, dm_hdr_ok = False,
     dm_hdr_supported = False, dm_hdr_enabled = False, dm_primary = False\<rparr>"

record WT_DisplayInfo =
  di_display_count :: nat
  di_primary_width :: nat
  di_primary_height :: nat
  di_available :: bool
  di_monitors :: "WT_DisplayMonitor list"

definition zero_WT_DisplayInfo :: WT_DisplayInfo where
  "zero_WT_DisplayInfo = \<lparr>di_display_count = 0, di_primary_width = 0, di_primary_height = 0,
     di_available = False, di_monitors = []\<rparr>"

record WT_GpuMetrics =
  gm_adapters :: "WT_GpuAdapter list"
  gm_max_utilization_percent :: rat
  gm_utilization_ok :: bool
  gm_display :: WT_DisplayInfo
  gm_adapters_ok :: bool

definition zero_WT_GpuMetrics :: WT_GpuMetrics where
  "zero_WT_GpuMetrics = \<lparr>gm_adapters = [], gm_max_utilization_percent = 0, gm_utilization_ok = False,
     gm_display = zero_WT_DisplayInfo, gm_adapters_ok = False\<rparr>"

record WT_NetAdapter =
  na_if_index :: nat
  na_name :: string
  na_kind :: int
  na_in_bytes :: nat
  na_out_bytes :: nat
  na_recv_bytes_per_sec :: rat
  na_send_bytes_per_sec :: rat

definition zero_WT_NetAdapter :: WT_NetAdapter where
  "zero_WT_NetAdapter = \<lparr>na_if_index = 0, na_name = [], na_kind = 0, na_in_bytes = 0, na_out_bytes = 0,
     na_recv_bytes_per_sec = 0, na_send_bytes_per_sec = 0\<rparr>"

record WT_NetTotals =
  nt_in_bytes :: nat
  nt_out_bytes :: nat
  nt_interface_count :: nat
  nt_recv_bytes_per_sec :: rat
  nt_send_bytes_per_sec :: rat
  nt_adapters :: "WT_NetAdapter list"

definition zero_WT_NetTotals :: WT_NetTotals where
  "zero_WT_NetTotals = \<lparr>nt_in_bytes = 0, nt_out_bytes = 0, nt_interface_count = 0, nt_recv_bytes_per_sec = 0,
     nt_send_bytes_per_sec = 0, nt_adapters = []\<rparr>"

record WT_OsInfo =
  osi_product_name :: string
  osi_arch :: string
  osi_hostname :: string
  osi_uptime_ms :: nat

definition zero_WT_OsInfo :: WT_OsInfo where
  "zero_WT_OsInfo = \<lparr>osi_product_name = [], osi_arch = [], osi_hostname = [], osi_uptime_ms = 0\<rparr>"

datatype WT_PowerScheme =
    WT_POWER_UNKNOWN | WT_POWER_BALANCED | WT_POWER_HIGH_PERF | WT_POWER_POWER_SAVER
    | WT_POWER_ULTIMATE

datatype WT_PowerMode =
    WT_POWER_MODE_UNKNOWN | WT_POWER_MODE_BEST_EFFICIENCY | WT_POWER_MODE_BALANCED
    | WT_POWER_MODE_BETTER_PERFORMANCE | WT_POWER_MODE_BEST_PERFORMANCE

record WT_PowerInfo =
  pw_scheme :: WT_PowerScheme
  pw_active_name :: string
  pw_on_ac :: int
  pw_battery_percent :: int
  pw_battery_present :: int
  pw_charging :: int
  pw_discharging :: int
  pw_rate_mw :: int
  pw_rate_ok :: bool
  pw_estimated_seconds :: int
  pw_remaining_mwh :: int
  pw_full_mwh :: int
  pw_processor_max_pct_ac :: int
  pw_processor_max_pct_dc :: int
  pw_processor_capped :: bool
  pw_mode_ac :: WT_PowerMode
  pw_mode_dc :: WT_PowerMode
  pw_mode_ac_ok :: bool
  pw_mode_dc_ok :: bool

definition zero_WT_PowerInfo :: WT_PowerInfo where
  "zero_WT_PowerInfo = \<lparr>pw_scheme = WT_POWER_UNKNOWN, pw_active_name = [], pw_on_ac = 0,
     pw_battery_percent = 0, pw_battery_present = 0, pw_charging = 0, pw_discharging = 0,
     pw_rate_mw = 0, pw_rate_ok = False, pw_estimated_seconds = 0, pw_remaining_mwh = 0,
     pw_full_mwh = 0, pw_processor_max_pct_ac = 0, pw_processor_max_pct_dc = 0,
     pw_processor_capped = False, pw_mode_ac = WT_POWER_MODE_UNKNOWN,
     pw_mode_dc = WT_POWER_MODE_UNKNOWN, pw_mode_ac_ok = False, pw_mode_dc_ok = False\<rparr>"

datatype WT_BootComponentKind =
    WT_BOOT_COMP_UNKNOWN | WT_BOOT_COMP_SERVICE | WT_BOOT_COMP_DRIVER | WT_BOOT_COMP_APPLICATION
    | WT_BOOT_COMP_DEGRADATION

datatype WT_BootKind =
    WT_BOOT_KIND_UNKNOWN | WT_BOOT_KIND_COLD | WT_BOOT_KIND_WARM

record WT_BootComponent =
  bc_name :: string
  bc_detail :: string
  bc_kind :: WT_BootComponentKind
  bc_event_id :: nat
  bc_duration_ms :: nat
  bc_start_offset_ms :: nat
  bc_is_disk_heavy :: bool
  bc_service_matched :: bool
  bc_service_name :: string
  bc_service_pid :: nat
  bc_service_state :: string

definition zero_WT_BootComponent :: WT_BootComponent where
  "zero_WT_BootComponent = \<lparr>bc_name = [], bc_detail = [], bc_kind = WT_BOOT_COMP_UNKNOWN, bc_event_id = 0,
     bc_duration_ms = 0, bc_start_offset_ms = 0, bc_is_disk_heavy = False,
     bc_service_matched = False, bc_service_name = [], bc_service_pid = 0,
     bc_service_state = []\<rparr>"

record WT_BootHistoryEntry =
  bh_boot_duration_ms :: nat
  bh_main_path_ms :: nat
  bh_post_boot_ms :: nat
  bh_kernel_init_ms :: nat
  bh_driver_init_ms :: nat
  bh_kind :: WT_BootKind
  bh_is_degraded :: bool
  bh_is_reboot_after_install :: bool
  bh_boot_start_utc :: string

definition zero_WT_BootHistoryEntry :: WT_BootHistoryEntry where
  "zero_WT_BootHistoryEntry = \<lparr>bh_boot_duration_ms = 0, bh_main_path_ms = 0, bh_post_boot_ms = 0,
     bh_kernel_init_ms = 0, bh_driver_init_ms = 0, bh_kind = WT_BOOT_KIND_UNKNOWN,
     bh_is_degraded = False, bh_is_reboot_after_install = False, bh_boot_start_utc = []\<rparr>"

record WT_BootHistory =
  hist_entries :: "WT_BootHistoryEntry list"
  hist_avg_duration_ms :: nat
  hist_avg_cold_ms :: nat
  hist_avg_warm_ms :: nat
  hist_cold_count :: nat
  hist_warm_count :: nat
  hist_unknown_count :: nat
  hist_slow_count :: nat
  hist_degraded_count :: nat

definition zero_WT_BootHistory :: WT_BootHistory where
  "zero_WT_BootHistory = \<lparr>hist_entries = [], hist_avg_duration_ms = 0, hist_avg_cold_ms = 0,
     hist_avg_warm_ms = 0, hist_cold_count = 0, hist_warm_count = 0, hist_unknown_count = 0,
     hist_slow_count = 0, hist_degraded_count = 0\<rparr>"

record WT_BootReport =
  br_boot_duration_ms :: nat
  br_main_path_ms :: nat
  br_kernel_init_ms :: nat
  br_driver_init_ms :: nat
  br_post_boot_ms :: nat
  br_is_degraded :: bool
  br_degradation_summary :: string
  br_last_boot_kind :: WT_BootKind
  br_history :: WT_BootHistory
  br_boot_start_utc :: string
  br_components :: "WT_BootComponent list"
  br_waterfall_total_ms :: nat
  br_waterfall_sorted :: bool
  br_source :: string
  br_trace_path :: string
  br_etl_event_count :: nat

definition zero_WT_BootReport :: WT_BootReport where
  "zero_WT_BootReport = \<lparr>br_boot_duration_ms = 0, br_main_path_ms = 0, br_kernel_init_ms = 0,
     br_driver_init_ms = 0, br_post_boot_ms = 0, br_is_degraded = False,
     br_degradation_summary = [], br_last_boot_kind = WT_BOOT_KIND_UNKNOWN,
     br_history = zero_WT_BootHistory, br_boot_start_utc = [], br_components = [],
     br_waterfall_total_ms = 0, br_waterfall_sorted = False, br_source = [],
     br_trace_path = [], br_etl_event_count = 0\<rparr>"

record WT_PendingUpdate =
  pu_title :: string
  pu_update_id :: string
  pu_mandatory :: bool
  pu_downloaded :: bool
  pu_reboot_required :: bool

definition zero_WT_PendingUpdate :: WT_PendingUpdate where
  "zero_WT_PendingUpdate = \<lparr>pu_title = [], pu_update_id = [], pu_mandatory = False, pu_downloaded = False,
     pu_reboot_required = False\<rparr>"

record WT_UpdateStatus =
  us_reboot_required :: bool
  us_reboot_wu :: bool
  us_reboot_cbs :: bool
  us_reboot_pending_file_rename :: bool
  us_wu_service_running :: int
  us_last_check_available :: bool
  us_last_check_utc :: nat
  us_last_install_available :: bool
  us_last_install_utc :: nat
  us_last_install_title :: string
  us_search_available :: bool
  us_pending_count :: nat
  us_pending_mandatory_count :: nat
  us_pending_reboot_count :: nat
  us_pending :: "WT_PendingUpdate list"
  us_note :: string

definition zero_WT_UpdateStatus :: WT_UpdateStatus where
  "zero_WT_UpdateStatus = \<lparr>us_reboot_required = False, us_reboot_wu = False, us_reboot_cbs = False,
     us_reboot_pending_file_rename = False, us_wu_service_running = 0,
     us_last_check_available = False, us_last_check_utc = 0,
     us_last_install_available = False, us_last_install_utc = 0, us_last_install_title = [],
     us_search_available = False, us_pending_count = 0, us_pending_mandatory_count = 0,
     us_pending_reboot_count = 0, us_pending = [], us_note = []\<rparr>"

record WT_AudioEndpoint =
  ae_name :: string
  ae_render :: bool
  ae_default_device :: bool
  ae_probed :: bool
  ae_exclusive :: bool
  ae_exclusive_only :: bool

definition zero_WT_AudioEndpoint :: WT_AudioEndpoint where
  "zero_WT_AudioEndpoint = \<lparr>ae_name = [], ae_render = False, ae_default_device = False, ae_probed = False,
     ae_exclusive = False, ae_exclusive_only = False\<rparr>"

record WT_AudioReport =
  ar_available :: bool
  ar_any_exclusive :: bool
  ar_endpoints :: "WT_AudioEndpoint list"

definition zero_WT_AudioReport :: WT_AudioReport where
  "zero_WT_AudioReport = \<lparr>ar_available = False, ar_any_exclusive = False, ar_endpoints = []\<rparr>"

record WT_SearchReport =
  sr_available :: bool
  sr_service_running :: int
  sr_status_ok :: bool
  sr_status :: int
  sr_paused_reason :: int
  sr_items_ok :: bool
  sr_items_indexed :: int
  sr_backlog_ok :: bool
  sr_incremental_count :: int
  sr_notification_count :: int
  sr_high_priority_count :: int
  sr_backlog_items :: int

definition zero_WT_SearchReport :: WT_SearchReport where
  "zero_WT_SearchReport = \<lparr>sr_available = False, sr_service_running = 0, sr_status_ok = False, sr_status = 0,
     sr_paused_reason = 0, sr_items_ok = False, sr_items_indexed = 0, sr_backlog_ok = False,
     sr_incremental_count = 0, sr_notification_count = 0, sr_high_priority_count = 0,
     sr_backlog_items = 0\<rparr>"

record WT_DefenderReport =
  df_available :: bool
  df_realtime_ok :: bool
  df_realtime_protection :: bool
  df_antivirus_ok :: bool
  df_antivirus_enabled :: bool
  df_service_ok :: bool
  df_service_enabled :: bool
  df_signature_age_ok :: bool
  df_signature_age_days :: int

definition zero_WT_DefenderReport :: WT_DefenderReport where
  "zero_WT_DefenderReport = \<lparr>df_available = False, df_realtime_ok = False, df_realtime_protection = False,
     df_antivirus_ok = False, df_antivirus_enabled = False, df_service_ok = False,
     df_service_enabled = False, df_signature_age_ok = False, df_signature_age_days = 0\<rparr>"

record WT_ScanReport =
  rep_os :: WT_OsInfo
  rep_cpu :: WT_CpuMetrics
  rep_memory :: WT_MemoryMetrics
  rep_volumes :: "WT_DiskVolumeMetrics list"
  rep_disk_active_percent :: rat
  rep_disk_active_max_percent :: rat
  rep_disk_active_ok_samples :: nat
  rep_disk_active_hot_samples :: nat
  rep_disk_read_bytes_per_sec :: rat
  rep_disk_write_bytes_per_sec :: rat
  rep_disk_avg_queue_length :: rat
  rep_disk_read_latency_ms :: "rat list"
  rep_disk_write_latency_ms :: "rat list"
  rep_disk_read_latency_ms_p50 :: rat
  rep_disk_read_latency_ms_p95 :: rat
  rep_disk_write_latency_ms_p50 :: rat
  rep_disk_write_latency_ms_p95 :: rat
  rep_cpu_max_percent :: rat
  rep_cpu_ok_samples :: nat
  rep_cpu_hot_samples :: nat
  rep_memory_max_used_percent :: rat
  rep_memory_ok_samples :: nat
  rep_memory_pressure_samples :: nat
  rep_top_processes :: "WT_ProcessInfo list"
  rep_short_lived :: "WT_ShortLivedProcess list"
  rep_power :: WT_PowerInfo
  rep_boot :: WT_BootReport
  rep_updates :: WT_UpdateStatus
  rep_gpu :: WT_GpuMetrics
  rep_audio :: WT_AudioReport
  rep_search :: WT_SearchReport
  rep_defender :: WT_DefenderReport
  rep_network :: WT_NetTotals
  rep_scan_sample_count :: nat
  rep_scan_sample_interval_ms :: nat
  rep_collector_ms :: "nat list"
  rep_os_ok :: bool
  rep_cpu_ok :: bool
  rep_memory_ok :: bool
  rep_disk_ok :: bool
  rep_disk_active_ok :: bool
  rep_disk_throughput_ok :: bool
  rep_disk_queue_ok :: bool
  rep_disk_latency_ok :: bool
  rep_processes_ok :: bool
  rep_power_ok :: bool
  rep_boot_ok :: bool
  rep_updates_ok :: bool
  rep_gpu_ok :: bool
  rep_audio_ok :: bool
  rep_search_ok :: bool
  rep_defender_ok :: bool
  rep_network_ok :: bool

definition zero_WT_ScanReport :: WT_ScanReport where
  "zero_WT_ScanReport = \<lparr>rep_os = zero_WT_OsInfo, rep_cpu = zero_WT_CpuMetrics,
     rep_memory = zero_WT_MemoryMetrics, rep_volumes = [], rep_disk_active_percent = 0,
     rep_disk_active_max_percent = 0, rep_disk_active_ok_samples = 0,
     rep_disk_active_hot_samples = 0, rep_disk_read_bytes_per_sec = 0,
     rep_disk_write_bytes_per_sec = 0, rep_disk_avg_queue_length = 0,
     rep_disk_read_latency_ms = [], rep_disk_write_latency_ms = [],
     rep_disk_read_latency_ms_p50 = 0, rep_disk_read_latency_ms_p95 = 0,
     rep_disk_write_latency_ms_p50 = 0, rep_disk_write_latency_ms_p95 = 0,
     rep_cpu_max_percent = 0, rep_cpu_ok_samples = 0, rep_cpu_hot_samples = 0,
     rep_memory_max_used_percent = 0, rep_memory_ok_samples = 0,
     rep_memory_pressure_samples = 0, rep_top_processes = [], rep_short_lived = [],
     rep_power = zero_WT_PowerInfo, rep_boot = zero_WT_BootReport,
     rep_updates = zero_WT_UpdateStatus, rep_gpu = zero_WT_GpuMetrics,
     rep_audio = zero_WT_AudioReport, rep_search = zero_WT_SearchReport,
     rep_defender = zero_WT_DefenderReport, rep_network = zero_WT_NetTotals,
     rep_scan_sample_count = 0, rep_scan_sample_interval_ms = 0, rep_collector_ms = replicate 14 0,
     rep_os_ok = False, rep_cpu_ok = False, rep_memory_ok = False, rep_disk_ok = False,
     rep_disk_active_ok = False, rep_disk_throughput_ok = False, rep_disk_queue_ok = False,
     rep_disk_latency_ok = False, rep_processes_ok = False, rep_power_ok = False,
     rep_boot_ok = False, rep_updates_ok = False, rep_gpu_ok = False, rep_audio_ok = False,
     rep_search_ok = False, rep_defender_ok = False, rep_network_ok = False\<rparr>"

section \<open>Collectors and the empty report\<close>

definition collector_names :: "string list" where
  "collector_names =
     [''os'', ''memory'', ''cpu'', ''network'', ''disk'', ''disk_io'', ''power'', ''gpu'', ''audio'',
      ''search'', ''defender'', ''boot'', ''updates'', ''processes'']"

definition wt_collector_name :: "int \<Rightarrow> string" where
  "wt_collector_name i =
     (if 0 \<le> i \<and> nat i < length collector_names then collector_names ! nat i else ''unknown'')"

definition wt_scan_report_init :: WT_ScanReport where
  "wt_scan_report_init =
     zero_WT_ScanReport\<lparr>
       rep_disk_read_bytes_per_sec := -1, rep_disk_write_bytes_per_sec := -1,
       rep_disk_avg_queue_length := -1, rep_disk_read_latency_ms_p50 := -1,
       rep_disk_read_latency_ms_p95 := -1, rep_disk_write_latency_ms_p50 := -1,
       rep_disk_write_latency_ms_p95 := -1, rep_disk_active_max_percent := -1,
       rep_cpu_max_percent := -1,
       rep_cpu := zero_WT_CpuMetrics\<lparr>cm_total_usage_percent := -1, cm_dpc_percent := -1,
         cm_interrupt_percent := -1\<rparr>,
       rep_memory_max_used_percent := -1,
       rep_gpu := zero_WT_GpuMetrics\<lparr>gm_max_utilization_percent := -1\<rparr>\<rparr>"

section \<open>Numbers in messages\<close>

definition round_half_even :: "rat \<Rightarrow> int" where
  "round_half_even x =
     (let f = floor x; d = x - of_int f
      in if d < 1 / 2 then f else if d > 1 / 2 then f + 1 else if even f then f else f + 1)"

definition fmt_fixed1 :: "rat \<Rightarrow> string" where
  \<comment> \<open>\<open>%.1f\<close> of a finite number: the nearest tenth, ties to even\<close>
  "fmt_fixed1 x =
     (let n = nat (round_half_even (\<bar>x\<bar> * 10))
      in (if x < 0 then ''-'' else []) @ dec (n div 10) @ ''.'' @ [digit (n mod 10)])"

definition fmt_fixed0 :: "rat \<Rightarrow> string" where
  \<comment> \<open>\<open>%.0f\<close>\<close>
  "fmt_fixed0 x = (if x < 0 then ''-'' else []) @ dec (nat (round_half_even \<bar>x\<bar>))"

definition wrap32 :: "nat \<Rightarrow> nat" where
  \<comment> \<open>the value an \<open>unsigned int\<close> or \<open>unsigned long\<close> expression keeps\<close>
  "wrap32 n = n mod 2 ^ 32"

end
