(* ===== verification/Json_Writer.thy ===== *)
theory Json_Writer
  imports Cli_Parse Report_Model
begin

text \<open>
  The dependency-free JSON writer (\<open>src/output/json.c\<close>, the low-level part, and \<open>json.h\<close>).
  A writer holds the text written so far, the nesting depth, the number of members written
  on each of at most 32 levels, whether a value is expected after a key, and the style.
  The two file-level variables of \<open>json.c\<close> are the record \<open>json_globals\<close>.

  \<open>json_value\<close> is the abstract document, \<open>ops_of\<close> the calls an emitter makes for it, and
  \<open>render\<close> the text it stands for; \<open>writer_emits_document\<close> is the refinement between them.
\<close>

section \<open>Style and schema settings\<close>

record json_globals =
  g_json_compact :: bool
  g_json_emit_major :: int

definition json_globals_init :: json_globals where
  "json_globals_init = \<lparr>g_json_compact = False, g_json_emit_major = 2\<rparr>"

definition wt_json_set_emit_major :: "int \<Rightarrow> json_globals \<Rightarrow> json_globals" where
  "wt_json_set_emit_major major g = g\<lparr>g_json_emit_major := (if major = 1 then 1 else 2)\<rparr>"

definition wt_json_emit_schema_version :: "json_globals \<Rightarrow> string" where
  "wt_json_emit_schema_version g = (if g_json_emit_major g \<le> 1 then ''1.0.0'' else ''2.0.0'')"

definition wt_json_apply_cli_options :: "WT_CliOptions option \<Rightarrow> json_globals \<Rightarrow> json_globals" where
  "wt_json_apply_cli_options opts g =
     (let g0 = g\<lparr>g_json_compact := False, g_json_emit_major := 2\<rparr>
      in case opts of
           None \<Rightarrow> g0
         | Some r \<Rightarrow>
             let g1 = (if co_compact_json r \<or> co_ndjson r then g0\<lparr>g_json_compact := True\<rparr> else g0)
             in case co_schema_version r of
                  None \<Rightarrow> g1
                | Some v \<Rightarrow>
                    if v = ''1'' \<or> v = ''1.0'' \<or> v = ''1.0.0'' then g1\<lparr>g_json_emit_major := 1\<rparr>
                    else if v = ''2'' \<or> v = ''2.0'' \<or> v = ''2.0.0'' then g1\<lparr>g_json_emit_major := 2\<rparr>
                    else g1)"

section \<open>The writer\<close>

definition WT_JSON_MAX_DEPTH :: nat where "WT_JSON_MAX_DEPTH = 32"

record WT_JsonWriter =
  jw_out :: string
  jw_depth :: nat
  jw_counts :: "nat list"
  jw_expect_value :: bool
  jw_compact :: bool

definition jw_put :: "string \<Rightarrow> WT_JsonWriter \<Rightarrow> WT_JsonWriter" where
  \<comment> \<open>\<open>fputc\<close>, \<open>fputs\<close>, \<open>fprintf\<close> to the writer's stream\<close>
  "jw_put s w = w\<lparr>jw_out := jw_out w @ s\<rparr>"

definition wt_json_init :: "json_globals \<Rightarrow> string \<Rightarrow> WT_JsonWriter" where
  "wt_json_init g out = \<lparr>jw_out = out, jw_depth = 0, jw_counts = replicate 32 0,
     jw_expect_value = False, jw_compact = g_json_compact g\<rparr>"

definition wt_json_set_compact :: "bool \<Rightarrow> WT_JsonWriter \<Rightarrow> WT_JsonWriter" where
  "wt_json_set_compact c w = w\<lparr>jw_compact := c\<rparr>"

definition newline_indent :: "bool \<Rightarrow> nat \<Rightarrow> string" where
  "newline_indent cmp level = (if cmp then [] else CHR 0x0A # replicate (level * 2) CHR '' '')"

definition wt_json_newline_indent :: "nat \<Rightarrow> WT_JsonWriter \<Rightarrow> WT_JsonWriter" where
  "wt_json_newline_indent level w = jw_put (newline_indent (jw_compact w) level) w"

definition jw_count :: "WT_JsonWriter \<Rightarrow> nat" where
  \<comment> \<open>\<open>w->counts[w->depth - 1]\<close>\<close>
  "jw_count w = jw_counts w ! (jw_depth w - 1)"

definition jw_bump :: "WT_JsonWriter \<Rightarrow> WT_JsonWriter" where
  "jw_bump w = w\<lparr>jw_counts := (jw_counts w)[jw_depth w - 1 := Suc (jw_count w)]\<rparr>"

definition wt_json_value_prefix :: "WT_JsonWriter \<Rightarrow> WT_JsonWriter" where
  "wt_json_value_prefix w =
     (if jw_expect_value w then w\<lparr>jw_expect_value := False\<rparr>
      else if jw_depth w > 0 then
        let w1 = (if jw_count w > 0 then jw_put '','' w else w)
        in jw_bump (wt_json_newline_indent (jw_depth w1) w1)
      else w)"

definition json_escape_char :: "char \<Rightarrow> string" where
  "json_escape_char c =
     (if c = CHR 0x22 then [CHR 0x5C, CHR 0x22]
      else if c = CHR 0x5C then [CHR 0x5C, CHR 0x5C]
      else if c = CHR 0x08 then [CHR 0x5C, CHR ''b'']
      else if c = CHR 0x0C then [CHR 0x5C, CHR ''f'']
      else if c = CHR 0x0A then [CHR 0x5C, CHR ''n'']
      else if c = CHR 0x0D then [CHR 0x5C, CHR ''r'']
      else if c = CHR 0x09 then [CHR 0x5C, CHR ''t'']
      else if (of_char c :: nat) < 0x20 then CHR 0x5C # CHR ''u'' # hex4 (of_char c)
      else [c])"

definition json_quote :: "string \<Rightarrow> string" where
  "json_quote s = CHR 0x22 # concat (map json_escape_char s) @ [CHR 0x22]"

definition wt_json_write_escaped :: "string \<Rightarrow> WT_JsonWriter \<Rightarrow> WT_JsonWriter" where
  "wt_json_write_escaped s w = jw_put (json_quote s) w"

definition jw_open :: "string \<Rightarrow> WT_JsonWriter \<Rightarrow> WT_JsonWriter" where
  \<comment> \<open>the common body of \<open>wt_json_begin_object\<close> and \<open>wt_json_begin_array\<close>\<close>
  "jw_open c w =
     (let w1 = jw_put c (wt_json_value_prefix w)
      in if jw_depth w1 < WT_JSON_MAX_DEPTH
         then w1\<lparr>jw_depth := Suc (jw_depth w1), jw_counts := (jw_counts w1)[jw_depth w1 := 0]\<rparr>
         else w1)"

definition jw_close :: "string \<Rightarrow> WT_JsonWriter \<Rightarrow> WT_JsonWriter" where
  \<comment> \<open>the common body of \<open>wt_json_end_object\<close> and \<open>wt_json_end_array\<close>\<close>
  "jw_close c w =
     (let members = (if jw_depth w > 0 then jw_count w else 0);
          w1 = (if jw_depth w > 0 then w\<lparr>jw_depth := jw_depth w - 1\<rparr> else w);
          w2 = (if members > 0 then wt_json_newline_indent (jw_depth w1) w1 else w1)
      in jw_put c w2)"

definition wt_json_begin_object :: "WT_JsonWriter \<Rightarrow> WT_JsonWriter" where
  "wt_json_begin_object w = jw_open ''{'' w"

definition wt_json_end_object :: "WT_JsonWriter \<Rightarrow> WT_JsonWriter" where
  "wt_json_end_object w = jw_close ''}'' w"

definition wt_json_begin_array :: "WT_JsonWriter \<Rightarrow> WT_JsonWriter" where
  "wt_json_begin_array w = jw_open ''['' w"

definition wt_json_end_array :: "WT_JsonWriter \<Rightarrow> WT_JsonWriter" where
  "wt_json_end_array w = jw_close '']'' w"

definition wt_json_key :: "string \<Rightarrow> WT_JsonWriter \<Rightarrow> WT_JsonWriter" where
  "wt_json_key key w =
     (let w1 = (if jw_depth w > 0
                then let w0 = (if jw_count w > 0 then jw_put '','' w else w);
                         w0' = (if \<not> jw_compact w0 then wt_json_newline_indent (jw_depth w0) w0 else w0)
                     in jw_bump w0'
                else w);
          w2 = wt_json_write_escaped key w1;
          w3 = jw_put (if jw_compact w2 then '':'' else '': '') w2
      in w3\<lparr>jw_expect_value := True\<rparr>)"

definition wt_json_string :: "string option \<Rightarrow> WT_JsonWriter \<Rightarrow> WT_JsonWriter" where
  "wt_json_string s w =
     wt_json_write_escaped (case s of None \<Rightarrow> [] | Some t \<Rightarrow> t) (wt_json_value_prefix w)"

text \<open>\<open>WideCharToMultiByte\<close> into a 1024-byte buffer is Windows code: \<open>to_utf8\<close> gives its bytes,
  or None when the call fails, and then the buffer is the empty string.\<close>

definition wt_json_wstring ::
  "(string \<Rightarrow> string option) \<Rightarrow> string option \<Rightarrow> WT_JsonWriter \<Rightarrow> WT_JsonWriter" where
  "wt_json_wstring to_utf8 ws w =
     (let buffer = (case to_utf8 (case ws of None \<Rightarrow> [] | Some t \<Rightarrow> t) of None \<Rightarrow> [] | Some b \<Rightarrow> b)
      in wt_json_write_escaped buffer (wt_json_value_prefix w))"

definition wt_json_uint64 :: "u64 \<Rightarrow> WT_JsonWriter \<Rightarrow> WT_JsonWriter" where
  "wt_json_uint64 v w = jw_put (dec (unat v)) (wt_json_value_prefix w)"

definition wt_json_bool :: "bool \<Rightarrow> WT_JsonWriter \<Rightarrow> WT_JsonWriter" where
  "wt_json_bool v w = jw_put (if v then ''true'' else ''false'') (wt_json_value_prefix w)"

definition wt_json_null :: "WT_JsonWriter \<Rightarrow> WT_JsonWriter" where
  "wt_json_null w = jw_put ''null'' (wt_json_value_prefix w)"

definition wt_json_finish :: "WT_JsonWriter \<Rightarrow> WT_JsonWriter" where
  "wt_json_finish w = jw_put [CHR 0x0A] w"

definition wt_json_double :: "rat \<Rightarrow> WT_JsonWriter \<Rightarrow> WT_JsonWriter" where
  "wt_json_double v w = jw_put (fmt_fixed1 v) (wt_json_value_prefix w)"

definition wt_json_emit_schema_meta ::
  "json_globals \<Rightarrow> string option \<Rightarrow> WT_JsonWriter \<Rightarrow> WT_JsonWriter" where
  "wt_json_emit_schema_meta g document w =
     (let w1 = wt_json_string (Some (wt_json_emit_schema_version g)) (wt_json_key ''schema_version'' w)
      in if g_json_emit_major g \<ge> 2
         then let w2 = wt_json_string (Some ''1.0.0'') (wt_json_key ''schema_compat_min'' w1)
              in (case document of
                    None \<Rightarrow> w2
                  | Some d \<Rightarrow> if d \<noteq> [] then wt_json_string (Some d) (wt_json_key ''document'' w2) else w2)
         else w1)"

section \<open>Documents\<close>

datatype json_value =
    JStr string | JUInt u64 | JDouble rat | JBool bool | JNull
  | JObj "(string \<times> json_value) list" | JArr "json_value list"

datatype json_op =
    Begin_Object | End_Object | Begin_Array | End_Array | Key string
  | Str string | UInt u64 | Double rat | Bool bool | Null

fun json_do :: "json_op \<Rightarrow> WT_JsonWriter \<Rightarrow> WT_JsonWriter" where
  "json_do Begin_Object = wt_json_begin_object"
| "json_do End_Object = wt_json_end_object"
| "json_do Begin_Array = wt_json_begin_array"
| "json_do End_Array = wt_json_end_array"
| "json_do (Key k) = wt_json_key k"
| "json_do (Str s) = wt_json_string (Some s)"
| "json_do (UInt n) = wt_json_uint64 n"
| "json_do (Double x) = wt_json_double x"
| "json_do (Bool b) = wt_json_bool b"
| "json_do Null = wt_json_null"

definition json_run :: "json_op list \<Rightarrow> WT_JsonWriter \<Rightarrow> WT_JsonWriter" where
  "json_run ops w = foldl (\<lambda>w op. json_do op w) w ops"

fun ops_of :: "json_value \<Rightarrow> json_op list"
  and ops_members :: "(string \<times> json_value) list \<Rightarrow> json_op list"
  and ops_elems :: "json_value list \<Rightarrow> json_op list" where
  "ops_of (JStr s) = [Str s]"
| "ops_of (JUInt n) = [UInt n]"
| "ops_of (JDouble x) = [Double x]"
| "ops_of (JBool b) = [Bool b]"
| "ops_of JNull = [Null]"
| "ops_of (JObj ms) = Begin_Object # ops_members ms @ [End_Object]"
| "ops_of (JArr vs) = Begin_Array # ops_elems vs @ [End_Array]"
| "ops_members [] = []"
| "ops_members ((k, v) # ms) = Key k # ops_of v @ ops_members ms"
| "ops_elems [] = []"
| "ops_elems (v # vs) = ops_of v @ ops_elems vs"

fun height :: "json_value \<Rightarrow> nat"
  and height_members :: "(string \<times> json_value) list \<Rightarrow> nat"
  and height_elems :: "json_value list \<Rightarrow> nat" where
  "height (JObj ms) = Suc (height_members ms)"
| "height (JArr vs) = Suc (height_elems vs)"
| "height _ = 0"
| "height_members [] = 0"
| "height_members ((k, v) # ms) = max (height v) (height_members ms)"
| "height_elems [] = 0"
| "height_elems (v # vs) = max (height v) (height_elems vs)"

text \<open>The text of a value whose members stand on level \<open>d + 1\<close>. \<open>first\<close> says whether a member
  is the first of its parent.\<close>

fun render :: "bool \<Rightarrow> nat \<Rightarrow> json_value \<Rightarrow> string"
  and render_members :: "bool \<Rightarrow> nat \<Rightarrow> bool \<Rightarrow> (string \<times> json_value) list \<Rightarrow> string"
  and render_elems :: "bool \<Rightarrow> nat \<Rightarrow> bool \<Rightarrow> json_value list \<Rightarrow> string" where
  "render c d (JStr s) = json_quote s"
| "render c d (JUInt n) = dec (unat n)"
| "render c d (JDouble x) = fmt_fixed1 x"
| "render c d (JBool b) = (if b then ''true'' else ''false'')"
| "render c d JNull = ''null''"
| "render c d (JObj ms) = ''{'' @ render_members c (Suc d) True ms
     @ (if ms = [] then [] else newline_indent c d) @ ''}''"
| "render c d (JArr vs) = ''['' @ render_elems c (Suc d) True vs
     @ (if vs = [] then [] else newline_indent c d) @ '']''"
| "render_members c d first [] = []"
| "render_members c d first ((k, v) # ms) =
     (if first then [] else '','') @ newline_indent c d @ json_quote k
     @ (if c then '':'' else '': '') @ render c d v @ render_members c d False ms"
| "render_elems c d first [] = []"
| "render_elems c d first (v # vs) =
     (if first then [] else '','') @ newline_indent c d @ render c d v @ render_elems c d False vs"

section \<open>The calls write the text\<close>

definition jw_wf :: "WT_JsonWriter \<Rightarrow> bool" where
  "jw_wf w \<longleftrightarrow> jw_depth w \<le> 32 \<and> length (jw_counts w) = 32"

lemma json_run_simps [simp]:
  "json_run [] w = w" "json_run (op # ops) w = json_run ops (json_do op w)"
  "json_run (xs @ ys) w = json_run ys (json_run xs w)"
  by (simp_all add: json_run_def)

lemma jw_put_sel [simp]:
  "jw_out (jw_put s w) = jw_out w @ s" "jw_depth (jw_put s w) = jw_depth w"
  "jw_counts (jw_put s w) = jw_counts w" "jw_expect_value (jw_put s w) = jw_expect_value w"
  "jw_compact (jw_put s w) = jw_compact w" "jw_count (jw_put s w) = jw_count w"
  by (simp_all add: jw_put_def jw_count_def)

lemma jw_bump_sel [simp]:
  "jw_out (jw_bump w) = jw_out w" "jw_depth (jw_bump w) = jw_depth w"
  "jw_counts (jw_bump w) = (jw_counts w)[jw_depth w - 1 := Suc (jw_count w)]"
  "jw_expect_value (jw_bump w) = jw_expect_value w" "jw_compact (jw_bump w) = jw_compact w"
  by (simp_all add: jw_bump_def)

lemma value_prefix_sel [simp]:
  "jw_depth (wt_json_value_prefix w) = jw_depth w"
  "jw_compact (wt_json_value_prefix w) = jw_compact w"
  "\<not> jw_expect_value (wt_json_value_prefix w)"
  "length (jw_counts (wt_json_value_prefix w)) = length (jw_counts w)"
  by (simp_all add: wt_json_value_prefix_def wt_json_newline_indent_def Let_def)

lemma jw_wf_prefix [simp]: "jw_wf (wt_json_value_prefix w) = jw_wf w"
  by (simp add: jw_wf_def)

lemma value_prefix_expect: "jw_expect_value w \<Longrightarrow> wt_json_value_prefix w = w\<lparr>jw_expect_value := False\<rparr>"
  by (simp add: wt_json_value_prefix_def)

text \<open>What one value does to the writer: prefix, text, and counters changed only on levels at or
  above its own depth.\<close>

definition wrote :: "WT_JsonWriter \<Rightarrow> string \<Rightarrow> WT_JsonWriter \<Rightarrow> bool" where
  "wrote w txt w' \<longleftrightarrow> jw_wf w' \<and> jw_out w' = jw_out w @ txt \<and> jw_depth w' = jw_depth w \<and>
     \<not> jw_expect_value w' \<and> jw_compact w' = jw_compact w \<and>
     take (jw_depth w) (jw_counts w') = take (jw_depth w) (jw_counts w)"

lemma wrote_put: "jw_wf w \<Longrightarrow> \<not> jw_expect_value w \<Longrightarrow> wrote w s (jw_put s w)"
  by (simp add: wrote_def jw_wf_def)

definition wrote_members :: "WT_JsonWriter \<Rightarrow> string \<Rightarrow> bool \<Rightarrow> WT_JsonWriter \<Rightarrow> bool" where
  "wrote_members w txt some w' \<longleftrightarrow> jw_wf w' \<and> jw_out w' = jw_out w @ txt \<and> jw_depth w' = jw_depth w \<and>
     \<not> jw_expect_value w' \<and> jw_compact w' = jw_compact w \<and>
     take (jw_depth w - 1) (jw_counts w') = take (jw_depth w - 1) (jw_counts w) \<and>
     (jw_count w' > 0 \<longleftrightarrow> jw_count w > 0 \<or> some)"

definition in_container :: "WT_JsonWriter \<Rightarrow> bool" where
  "in_container w \<longleftrightarrow> jw_wf w \<and> jw_depth w > 0 \<and> \<not> jw_expect_value w"

lemma wrote_members_refl: "in_container w \<Longrightarrow> wrote_members w [] False w"
  by (simp add: wrote_members_def in_container_def)

lemma wrote_members_trans:
  "wrote_members w s a w1 \<Longrightarrow> wrote_members w1 t b w2 \<Longrightarrow> wrote_members w (s @ t) (a \<or> b) w2"
  by (auto simp: wrote_members_def)

lemma wrote_members_in_container: "in_container w \<Longrightarrow> wrote_members w s a w1 \<Longrightarrow> in_container w1"
  by (auto simp: wrote_members_def in_container_def)

lemma take_nth_eq: "take n xs = take n ys \<Longrightarrow> i < n \<Longrightarrow> xs ! i = ys ! i"
  by (metis nth_take)

lemma take_take_eq: "take n xs = take n ys \<Longrightarrow> m \<le> n \<Longrightarrow> take m xs = take m ys"
  by (metis min.absorb1 take_take)

lemma wrote_count: "wrote w t w' \<Longrightarrow> jw_depth w > 0 \<Longrightarrow> jw_count w' = jw_count w"
  by (auto simp: wrote_def jw_count_def intro: take_nth_eq)

text \<open>The prefix of an element, and a key with its colon.\<close>

lemma prefix_elem:
  assumes "in_container w"
  shows "wt_json_value_prefix w = w\<lparr>jw_out := jw_out w @ (if jw_count w = 0 then [] else '','')
           @ newline_indent (jw_compact w) (jw_depth w),
         jw_counts := (jw_counts w)[jw_depth w - 1 := Suc (jw_count w)]\<rparr>"
  using assms
  by (simp add: in_container_def wt_json_value_prefix_def wt_json_newline_indent_def Let_def
    jw_put_def jw_bump_def jw_count_def)

lemma key_text:
  assumes "in_container w"
  shows "wt_json_key k w = w\<lparr>jw_out := jw_out w @ (if jw_count w = 0 then [] else '','')
           @ newline_indent (jw_compact w) (jw_depth w) @ json_quote k
           @ (if jw_compact w then '':'' else '': ''),
         jw_counts := (jw_counts w)[jw_depth w - 1 := Suc (jw_count w)], jw_expect_value := True\<rparr>"
  using assms
  by (simp add: in_container_def wt_json_key_def wt_json_newline_indent_def Let_def
    jw_put_def jw_bump_def jw_count_def wt_json_write_escaped_def newline_indent_def)

lemma prefix_count: "in_container w \<Longrightarrow> jw_count (wt_json_value_prefix w) = Suc (jw_count w)"
  unfolding prefix_elem by (auto simp: in_container_def jw_wf_def jw_count_def)

lemma key_count: "in_container w \<Longrightarrow> jw_count (wt_json_key k w) = Suc (jw_count w)"
  unfolding key_text by (auto simp: in_container_def jw_wf_def jw_count_def)

lemma elem_step:
  assumes w: "in_container w" and r: "wrote (wt_json_value_prefix w) txt w'"
  shows "wrote_members w ((if jw_count w = 0 then [] else '','')
      @ newline_indent (jw_compact w) (jw_depth w) @ txt) True w'"
proof -
  have d: "jw_depth w > 0" using w by (simp add: in_container_def)
  have "jw_count w' = jw_count (wt_json_value_prefix w)" using wrote_count [OF r] d by simp
  then have c: "jw_count w' > 0" by (simp add: prefix_count [OF w])
  have t: "take (jw_depth w - 1) (jw_counts w') = take (jw_depth w - 1) (jw_counts w)"
  proof -
    have "take (jw_depth w) (jw_counts w') = take (jw_depth w) (jw_counts (wt_json_value_prefix w))"
      using r by (simp add: wrote_def)
    then have "take (jw_depth w - 1) (jw_counts w')
        = take (jw_depth w - 1) (jw_counts (wt_json_value_prefix w))"
      by (rule take_take_eq) simp
    then show ?thesis by (simp add: prefix_elem [OF w])
  qed
  show ?thesis using r c t unfolding wrote_def wrote_members_def
    by (simp add: prefix_elem [OF w])
qed

lemma member_step:
  assumes w: "in_container w" and r: "wrote (wt_json_value_prefix (wt_json_key k w)) txt w'"
  shows "wrote_members w ((if jw_count w = 0 then [] else '','')
      @ newline_indent (jw_compact w) (jw_depth w) @ json_quote k
      @ (if jw_compact w then '':'' else '': '') @ txt) True w'"
proof -
  have d: "jw_depth w > 0" using w by (simp add: in_container_def)
  let ?k = "wt_json_value_prefix (wt_json_key k w)"
  have k: "?k = (wt_json_key k w)\<lparr>jw_expect_value := False\<rparr>"
    by (rule value_prefix_expect) (simp add: key_text [OF w])
  have "jw_count ?k = jw_count (wt_json_key k w)" unfolding k by (simp add: jw_count_def)
  moreover have "jw_depth ?k > 0" using d unfolding k by (simp add: key_text [OF w])
  ultimately have c: "jw_count w' > 0" using wrote_count [OF r] by (simp add: key_count [OF w])
  have t: "take (jw_depth w - 1) (jw_counts w') = take (jw_depth w - 1) (jw_counts w)"
  proof -
    have "take (jw_depth w) (jw_counts w') = take (jw_depth w) (jw_counts ?k)"
      using r unfolding wrote_def k by (simp add: key_text [OF w])
    then have "take (jw_depth w - 1) (jw_counts w') = take (jw_depth w - 1) (jw_counts ?k)"
      by (rule take_take_eq) simp
    then show ?thesis unfolding k by (simp add: key_text [OF w])
  qed
  show ?thesis using r c t unfolding wrote_def wrote_members_def k
    by (simp add: key_text [OF w])
qed

lemma container_step:
  assumes wf: "jw_wf w" and d: "jw_depth w < 32"
    and r: "wrote_members (jw_open b w) txt some w'"
  shows "wrote (wt_json_value_prefix w)
    (b @ txt @ (if some then newline_indent (jw_compact w) (jw_depth w) else []) @ e) (jw_close e w')"
proof -
  let ?p = "wt_json_value_prefix w"
  have len: "length (jw_counts ?p) = 32" using wf by (simp add: jw_wf_def)
  have o: "jw_depth (jw_open b w) = Suc (jw_depth w)" "jw_out (jw_open b w) = jw_out ?p @ b"
    "jw_counts (jw_open b w) = (jw_counts ?p)[jw_depth w := 0]" "jw_count (jw_open b w) = 0"
    "jw_compact (jw_open b w) = jw_compact w"
    using d len by (simp_all add: jw_open_def Let_def WT_JSON_MAX_DEPTH_def jw_count_def)
  have w': "jw_depth w' = Suc (jw_depth w)" "jw_count w' > 0 \<longleftrightarrow> some" "jw_compact w' = jw_compact w"
    "jw_out w' = jw_out ?p @ b @ txt" "jw_wf w'" "\<not> jw_expect_value w'"
    "take (jw_depth w) (jw_counts w') = take (jw_depth w) (jw_counts ?p)"
    using r o by (simp_all add: wrote_members_def)
  then show ?thesis
    by (simp add: wrote_def jw_close_def Let_def wt_json_newline_indent_def jw_wf_def)
qed

lemma open_in_container: "jw_wf w \<Longrightarrow> jw_depth w < 32 \<Longrightarrow> in_container (jw_open b w)"
  by (simp add: in_container_def jw_open_def Let_def WT_JSON_MAX_DEPTH_def jw_wf_def)

lemma open_count: "jw_wf w \<Longrightarrow> jw_depth w < 32 \<Longrightarrow> jw_count (jw_open b w) = 0"
  "jw_wf w \<Longrightarrow> jw_depth w < 32 \<Longrightarrow> jw_depth (jw_open b w) = Suc (jw_depth w)"
  "jw_compact (jw_open b w) = jw_compact w"
  by (simp_all add: jw_open_def Let_def WT_JSON_MAX_DEPTH_def jw_wf_def jw_count_def)

lemma key_sel: "in_container w \<Longrightarrow> jw_wf (wt_json_key k w) \<and> jw_depth (wt_json_key k w) = jw_depth w
    \<and> jw_compact (wt_json_key k w) = jw_compact w"
  by (simp add: key_text) (simp add: in_container_def jw_wf_def)

lemma run_writes:
  "jw_wf w \<Longrightarrow> jw_depth w + height v \<le> 32 \<Longrightarrow>
     wrote (wt_json_value_prefix w) (render (jw_compact w) (jw_depth w) v) (json_run (ops_of v) w)"
  "in_container w \<Longrightarrow> jw_depth w + height_members ms \<le> 32 \<Longrightarrow>
     wrote_members w (render_members (jw_compact w) (jw_depth w) (jw_count w = 0) ms) (ms \<noteq> [])
       (json_run (ops_members ms) w)"
  "in_container w \<Longrightarrow> jw_depth w + height_elems vs \<le> 32 \<Longrightarrow>
     wrote_members w (render_elems (jw_compact w) (jw_depth w) (jw_count w = 0) vs) (vs \<noteq> [])
       (json_run (ops_elems vs) w)"
proof (induction v and ms and vs arbitrary: w and w and w rule: ops_of_ops_members_ops_elems.induct)
  case (6 ms)
  then have d: "jw_depth w < 32" by simp
  note c = open_in_container [OF 6(2) d, of "''{''"] open_count(1,2) [OF 6(2) d, of "''{''"]
  have "wrote_members (jw_open ''{'' w) (render_members (jw_compact w) (Suc (jw_depth w)) True ms)
      (ms \<noteq> []) (json_run (ops_members ms) (jw_open ''{'' w))"
    using 6(1) [OF c(1)] 6(3) c by (simp add: open_count(3))
  from container_step [OF 6(2) d this, of "''}''"] show ?case
    by (simp add: wt_json_begin_object_def wt_json_end_object_def split: if_splits)
next
  case (7 vs)
  then have d: "jw_depth w < 32" by simp
  note c = open_in_container [OF 7(2) d, of "''[''"] open_count(1,2) [OF 7(2) d, of "''[''"]
  have "wrote_members (jw_open ''['' w) (render_elems (jw_compact w) (Suc (jw_depth w)) True vs)
      (vs \<noteq> []) (json_run (ops_elems vs) (jw_open ''['' w))"
    using 7(1) [OF c(1)] 7(3) c by (simp add: open_count(3))
  from container_step [OF 7(2) d this, of "'']''"] show ?case
    by (simp add: wt_json_begin_array_def wt_json_end_array_def split: if_splits)
next
  case (9 k v ms)
  let ?w1 = "json_run (ops_of v) (wt_json_key k w)"
  have k: "wrote (wt_json_value_prefix (wt_json_key k w)) (render (jw_compact w) (jw_depth w) v) ?w1"
    using 9(1) [of "wt_json_key k w"] key_sel [OF 9(3), of k] 9(4) by simp
  note m = member_step [OF 9(3) k]
  have c: "in_container ?w1" using wrote_members_in_container [OF 9(3) m] .
  have sel: "jw_depth ?w1 = jw_depth w" "jw_compact ?w1 = jw_compact w" "jw_count ?w1 \<noteq> 0"
    using m by (simp_all add: wrote_members_def)
  have "wrote_members ?w1 (render_members (jw_compact w) (jw_depth w) False ms) (ms \<noteq> [])
      (json_run (ops_members ms) ?w1)"
    using 9(2) [OF c] 9(4) sel by simp
  from wrote_members_trans [OF m this] show ?case by simp
next
  case (11 v vs)
  let ?w1 = "json_run (ops_of v) w"
  have wf: "jw_wf w" using 11(3) by (simp add: in_container_def)
  have v: "wrote (wt_json_value_prefix w) (render (jw_compact w) (jw_depth w) v) ?w1"
    using 11(1) [OF wf] 11(4) by simp
  note m = elem_step [OF 11(3) v]
  have c: "in_container ?w1" using wrote_members_in_container [OF 11(3) m] .
  have sel: "jw_depth ?w1 = jw_depth w" "jw_compact ?w1 = jw_compact w" "jw_count ?w1 \<noteq> 0"
    using m by (simp_all add: wrote_members_def)
  have "wrote_members ?w1 (render_elems (jw_compact w) (jw_depth w) False vs) (vs \<noteq> [])
      (json_run (ops_elems vs) ?w1)"
    using 11(2) [OF c] 11(4) sel by simp
  from wrote_members_trans [OF m this] show ?case by simp
qed (simp_all add: wt_json_string_def wt_json_uint64_def wt_json_double_def wt_json_bool_def
  wt_json_null_def wt_json_write_escaped_def wrote_put wrote_members_refl)

lemma run_document:
  assumes "height v \<le> WT_JSON_MAX_DEPTH"
  shows "jw_out (wt_json_finish (json_run (ops_of v) (wt_json_init g out)))
         = out @ render (g_json_compact g) 0 v @ [CHR 0x0A] \<and>
       jw_depth (json_run (ops_of v) (wt_json_init g out)) = 0"
proof -
  let ?w = "wt_json_init g out"
  have "jw_wf ?w" by (simp add: wt_json_init_def jw_wf_def)
  then have "wrote (wt_json_value_prefix ?w) (render (jw_compact ?w) (jw_depth ?w) v)
      (json_run (ops_of v) ?w)"
    using run_writes(1) [of ?w v] assms by (simp add: WT_JSON_MAX_DEPTH_def wt_json_init_def)
  then show ?thesis
    by (simp add: wrote_def wt_json_finish_def wt_json_init_def wt_json_value_prefix_def)
qed

end
