(* ===== verification/Json_Reader.thy ===== *)
theory Json_Reader
  imports Json_Writer
begin

text \<open>
  A JSON reader, the abstract counterpart of the writer of \<open>src/output/json.c\<close>: it has no
  counterpart in the program, whose documents are read by other tools. Reading what the writer
  wrote gives the document back, in both styles and whatever the strings hold.
\<close>

section \<open>The reader\<close>

definition hex_val :: "char \<Rightarrow> nat option" where
  "hex_val c = (let n = of_char c :: nat in
     if 48 \<le> n \<and> n \<le> 57 then Some (n - 48)
     else if 97 \<le> n \<and> n \<le> 102 then Some (n - 87)
     else if 65 \<le> n \<and> n \<le> 70 then Some (n - 55) else None)"

fun read_u :: "string \<Rightarrow> (char \<times> string) option" where
  "read_u (a # b # c # d # r) =
     (case (hex_val a, hex_val b, hex_val c, hex_val d) of
        (Some w, Some x, Some y, Some z) \<Rightarrow>
          (let n = w * 4096 + x * 256 + y * 16 + z in if n < 256 then Some (char_of n, r) else None)
      | _ \<Rightarrow> None)"
| "read_u _ = None"

definition read_escape :: "string \<Rightarrow> (char \<times> string) option" where
  \<comment> \<open>the text after a backslash\<close>
  "read_escape s =
     (case s of [] \<Rightarrow> None
      | e # r \<Rightarrow>
         if e = CHR 0x22 \<or> e = CHR 0x5C \<or> e = CHR ''/'' then Some (e, r)
         else if e = CHR ''b'' then Some (CHR 0x08, r)
         else if e = CHR ''f'' then Some (CHR 0x0C, r)
         else if e = CHR ''n'' then Some (CHR 0x0A, r)
         else if e = CHR ''r'' then Some (CHR 0x0D, r)
         else if e = CHR ''t'' then Some (CHR 0x09, r)
         else if e = CHR ''u'' then read_u r
         else None)"

lemma read_u_shorter: "read_u s = Some (c, r) \<Longrightarrow> length r < length s"
  by (induction s rule: read_u.induct) (auto simp: Let_def split: option.splits if_splits)

lemma read_escape_shorter: "read_escape s = Some (c, r) \<Longrightarrow> length r < length s"
  using read_u_shorter
  by (fastforce simp: read_escape_def split: list.splits if_splits)

function read_string :: "string \<Rightarrow> (string \<times> string) option" where
  \<comment> \<open>the text after the opening quote\<close>
  "read_string s =
     (case s of [] \<Rightarrow> None
      | c # r \<Rightarrow>
         if c = CHR 0x22 then Some ([], r)
         else if c = CHR 0x5C then
           (case read_escape r of None \<Rightarrow> None
            | Some (d, r') \<Rightarrow> (case read_string r' of None \<Rightarrow> None
                 | Some (t, q) \<Rightarrow> Some (d # t, q)))
         else if (of_char c :: nat) < 0x20 then None
         else (case read_string r of None \<Rightarrow> None | Some (t, q) \<Rightarrow> Some (c # t, q)))"
  by pat_completeness auto
termination
  by (relation "measure length") (auto dest: read_escape_shorter)

declare read_string.simps [simp del]

definition read_number :: "string \<Rightarrow> (json_value \<times> string) option" where
  "read_number s =
     (let neg = (s \<noteq> [] \<and> hd s = CHR ''-''); s1 = (if neg then tl s else s)
      in if s1 = [] \<or> \<not> is_digit (hd s1) then None
         else let (n, r) = digits_val 0 s1
              in if r \<noteq> [] \<and> hd r = CHR ''.''
                 then let (f, q) = digits_val 0 (tl r); k = length (tl r) - length q;
                          x = of_nat n + of_nat f / 10 ^ k
                      in if k = 0 then None else Some (JDouble (if neg then - x else x), q)
                 else if neg then Some (JDouble (- of_nat n), r)
                 else Some (JUInt (of_nat n), r))"

definition skip_ws :: "string \<Rightarrow> string" where
  "skip_ws = dropWhile is_space"

definition expect :: "char \<Rightarrow> string \<Rightarrow> string option" where
  "expect c s = (case skip_ws s of [] \<Rightarrow> None | d # r \<Rightarrow> if d = c then Some r else None)"

definition read_atom :: "string \<Rightarrow> (json_value \<times> string) option" where
  \<comment> \<open>strings, numbers, the three literals; the leading white space is gone\<close>
  "read_atom s =
     (if prefix ''true'' s then Some (JBool True, drop 4 s)
      else if prefix ''false'' s then Some (JBool False, drop 5 s)
      else if prefix ''null'' s then Some (JNull, drop 4 s)
      else if prefix [CHR 0x22] s
        then (case read_string (tl s) of None \<Rightarrow> None | Some (t, r) \<Rightarrow> Some (JStr t, r))
      else read_number s)"

text \<open>The fuel bounds the depth of the calls; the length of the text is enough. \<open>first\<close> is true
  right after an opening bracket.\<close>

fun read_value :: "nat \<Rightarrow> string \<Rightarrow> (json_value \<times> string) option"
  and read_members :: "nat \<Rightarrow> bool \<Rightarrow> string \<Rightarrow> ((string \<times> json_value) list \<times> string) option"
  and read_elems :: "nat \<Rightarrow> bool \<Rightarrow> string \<Rightarrow> (json_value list \<times> string) option" where
  "read_value 0 s = None"
| "read_value (Suc n) s =
     (case expect (CHR ''{'') s of
        Some r \<Rightarrow> (case read_members n True r of None \<Rightarrow> None | Some (ms, q) \<Rightarrow> Some (JObj ms, q))
      | None \<Rightarrow>
         (case expect (CHR ''['') s of
            Some r \<Rightarrow> (case read_elems n True r of None \<Rightarrow> None | Some (vs, q) \<Rightarrow> Some (JArr vs, q))
          | None \<Rightarrow> read_atom (skip_ws s)))"
| "read_members 0 first s = None"
| "read_members (Suc n) first s =
     (case expect (CHR ''}'') s of
        Some r \<Rightarrow> Some ([], r)
      | None \<Rightarrow>
         (case (if first then Some s else expect (CHR '','') s) of None \<Rightarrow> None | Some s1 \<Rightarrow>
         (case expect (CHR 0x22) s1 of None \<Rightarrow> None | Some s2 \<Rightarrow>
         (case read_string s2 of None \<Rightarrow> None | Some (k, s3) \<Rightarrow>
         (case expect (CHR '':'') s3 of None \<Rightarrow> None | Some s4 \<Rightarrow>
         (case read_value n s4 of None \<Rightarrow> None | Some (v, s5) \<Rightarrow>
         (case read_members n False s5 of None \<Rightarrow> None | Some (ms, q) \<Rightarrow> Some ((k, v) # ms, q))))))))"
| "read_elems 0 first s = None"
| "read_elems (Suc n) first s =
     (case expect (CHR '']'') s of
        Some r \<Rightarrow> Some ([], r)
      | None \<Rightarrow>
         (case (if first then Some s else expect (CHR '','') s) of None \<Rightarrow> None | Some s1 \<Rightarrow>
         (case read_value n s1 of None \<Rightarrow> None | Some (v, s5) \<Rightarrow>
         (case read_elems n False s5 of None \<Rightarrow> None | Some (vs, q) \<Rightarrow> Some (v # vs, q)))))"

definition read_document :: "string \<Rightarrow> json_value option" where
  "read_document s = (case read_value (Suc (length s)) s of None \<Rightarrow> None
     | Some (v, r) \<Rightarrow> if skip_ws r = [] then Some v else None)"

section \<open>Reading back strings and numbers\<close>

lemma hex_val_hexdigit: "d < 16 \<Longrightarrow> hex_val (hexdigit d) = Some d"
proof -
  assume "d < 16"
  moreover have "list_all (\<lambda>d. hex_val (hexdigit d) = Some d) [0..<16]" by code_simp
  ultimately show ?thesis by (simp add: list_all_iff)
qed

lemma read_u_hex4:
  assumes "n < 256"
  shows "read_u (hex4 n @ r) = Some (char_of n, r)"
proof -
  have "n div 4096 = 0" "n div 256 = 0" "n div 16 < 16" using assms by auto
  moreover have "n div 16 * 16 + n mod 16 = n" by simp
  ultimately show ?thesis using assms by (simp add: hex4_def hex_val_hexdigit Let_def)
qed

lemma read_string_Cons:
  "read_string (c # r) =
     (if c = CHR 0x22 then Some ([], r)
      else if c = CHR 0x5C then
        (case read_escape r of None \<Rightarrow> None
         | Some (d, r') \<Rightarrow> (case read_string r' of None \<Rightarrow> None | Some (t, q) \<Rightarrow> Some (d # t, q)))
      else if (of_char c :: nat) < 0x20 then None
      else (case read_string r of None \<Rightarrow> None | Some (t, q) \<Rightarrow> Some (c # t, q)))"
  by (subst read_string.simps) simp

lemma read_escaped_char:
  "read_string (json_escape_char c @ r) =
     (case read_string r of None \<Rightarrow> None | Some (t, q) \<Rightarrow> Some (c # t, q))"
proof -
  consider "c \<in> {CHR 0x22, CHR 0x5C, CHR 0x08, CHR 0x0C, CHR 0x0A, CHR 0x0D, CHR 0x09}"
    | "c \<notin> {CHR 0x22, CHR 0x5C, CHR 0x08, CHR 0x0C, CHR 0x0A, CHR 0x0D, CHR 0x09}"
      "(of_char c :: nat) < 0x20"
    | "c \<noteq> CHR 0x22" "c \<noteq> CHR 0x5C" "\<not> (of_char c :: nat) < 0x20"
    by blast
  then show ?thesis
  proof cases
    case 1
    then show ?thesis
      by (auto simp: json_escape_char_def read_string_Cons read_escape_def)
  next
    case 2
    then have "json_escape_char c = CHR 0x5C # CHR ''u'' # hex4 (of_char c)"
      by (simp add: json_escape_char_def)
    then show ?thesis using 2 read_u_hex4 [of "of_char c" r]
      by (simp add: read_string_Cons read_escape_def)
  next
    case 3
    then have "json_escape_char c = [c]" by (auto simp: json_escape_char_def)
    then show ?thesis using 3 by (simp add: read_string_Cons)
  qed
qed

lemma read_string_escaped:
  "read_string (concat (map json_escape_char s) @ CHR 0x22 # r) = Some (s, r)"
  by (induction s) (simp_all add: read_string_Cons read_escaped_char)

definition number_ends :: "string \<Rightarrow> bool" where
  "number_ends r \<longleftrightarrow> r = [] \<or> \<not> is_digit (hd r) \<and> hd r \<noteq> CHR ''.''"

definition tenths :: "rat \<Rightarrow> rat" where
  \<comment> \<open>the number \<open>%.1f\<close> prints\<close>
  "tenths x = (let t = of_nat (nat (round_half_even (\<bar>x\<bar> * 10))) / 10 in if x < 0 then - t else t)"

lemma dec_hd: "dec n @ r \<noteq> []" "hd (dec n @ r) = hd (dec n)" "is_digit (hd (dec n))"
  "hd (dec n) \<noteq> CHR ''-''" "\<not> is_space (hd (dec n))"
  using dec_hd_digit [of n] digit_not_special by auto

lemma read_number_dec:
  assumes "number_ends r"
  shows "read_number (dec n @ r) = Some (JUInt (of_nat n), r)"
proof -
  have "digits_val 0 (dec n @ r) = (n, r)"
    by (rule digits_val_dec) (use assms in \<open>auto simp: number_ends_def\<close>)
  then show ?thesis using assms dec_hd
    by (auto simp: read_number_def number_ends_def Let_def)
qed

lemma fixed1_value: "of_nat (n div 10) + of_nat (n mod 10) / 10 = (of_nat n / 10 :: rat)"
proof -
  have "of_nat n = (10 * of_nat (n div 10) + of_nat (n mod 10) :: rat)"
    by (metis (mono_tags) mult_div_mod_eq of_nat_add of_nat_mult of_nat_numeral)
  then show ?thesis by simp
qed

lemma read_number_fixed:
  assumes "number_ends r"
  shows "read_number (fmt_fixed1 x @ r) = Some (JDouble (tenths x), r)"
proof -
  define n where "n = nat (round_half_even (\<bar>x\<bar> * 10))"
  let ?t = "dec (n div 10) @ ''.'' @ digit (n mod 10) # r"
  have d: "digits_val 0 ?t = (n div 10, CHR ''.'' # digit (n mod 10) # r)"
    using digits_val_dec [of "''.'' @ digit (n mod 10) # r"] by (simp add: is_digit_def)
  have e: "digits_val 0 (digit (n mod 10) # r) = (n mod 10, r)"
    using assms by (cases r) (auto simp: number_ends_def)
  have f: "fmt_fixed1 x @ r = (if x < 0 then ''-'' else []) @ ?t"
    by (simp add: fmt_fixed1_def n_def Let_def)
  have v: "tenths x = (if x < 0 then - (of_nat n / 10) else of_nat n / 10)"
    by (simp add: tenths_def n_def Let_def)
  show ?thesis
  proof (cases "x < 0")
    case True
    then show ?thesis unfolding f v
      using d e dec_hd [of "n div 10"] by (simp add: read_number_def fixed1_value Let_def)
  next
    case False
    then show ?thesis unfolding f v
      using d e dec_hd [of "n div 10"] by (simp add: read_number_def fixed1_value Let_def)
  qed
qed

section \<open>Reading back documents\<close>

fun as_read :: "json_value \<Rightarrow> json_value" where
  \<comment> \<open>what a reader sees: doubles are the tenths they are printed as\<close>
  "as_read (JDouble x) = JDouble (tenths x)"
| "as_read (JObj ms) = JObj (map (\<lambda>(k, v). (k, as_read v)) ms)"
| "as_read (JArr vs) = JArr (map as_read vs)"
| "as_read v = v"

fun fuel_of :: "json_value \<Rightarrow> nat"
  and fuel_members :: "(string \<times> json_value) list \<Rightarrow> nat"
  and fuel_elems :: "json_value list \<Rightarrow> nat" where
  "fuel_of (JObj ms) = Suc (fuel_members ms)"
| "fuel_of (JArr vs) = Suc (fuel_elems vs)"
| "fuel_of _ = 1"
| "fuel_members [] = 1"
| "fuel_members ((k, v) # ms) = Suc (max (fuel_of v) (fuel_members ms))"
| "fuel_elems [] = 1"
| "fuel_elems (v # vs) = Suc (max (fuel_of v) (fuel_elems vs))"

definition blank :: "string \<Rightarrow> bool" where
  "blank ws \<longleftrightarrow> (\<forall>c \<in> set ws. is_space c)"

lemma blank_simps [simp]: "blank []" "blank (newline_indent c d)" "blank '' ''"
  by (auto simp: blank_def newline_indent_def is_space_def)

lemma skip_blank: "blank ws \<Longrightarrow> skip_ws (ws @ s) = skip_ws s"
  by (simp add: skip_ws_def blank_def dropWhile_append2)

lemma expect_blank: "blank ws \<Longrightarrow> expect c (ws @ s) = expect c s"
  by (simp add: expect_def skip_blank)

lemma expect_Cons:
  "\<not> is_space d \<Longrightarrow> expect c (d # s) = (if d = c then Some s else None)"
  by (simp add: expect_def skip_ws_def)

lemma expect_space: "is_space d \<Longrightarrow> expect c (d # s) = expect c s"
  by (simp add: expect_def skip_ws_def)

lemma spaces: "\<not> is_space (CHR ''{'')" "\<not> is_space (CHR ''}'')" "\<not> is_space (CHR ''['')"
  "\<not> is_space (CHR '']'')" "\<not> is_space (CHR '','')" "\<not> is_space (CHR '':'')"
  "\<not> is_space (CHR 0x22)" "\<not> is_space (CHR ''-'')" "\<not> is_space (CHR ''t'')"
  "\<not> is_space (CHR ''f'')" "\<not> is_space (CHR ''n'')"
  by (simp_all add: is_space_def)

definition atom_text :: "string \<Rightarrow> bool" where
  "atom_text s \<longleftrightarrow> s \<noteq> [] \<and> \<not> is_space (hd s) \<and> hd s \<notin> {CHR ''{'', CHR ''}'', CHR ''['', CHR '']'', CHR '',''}"

lemma atom_text_read:
  assumes "atom_text s" "blank ws"
  shows "read_value (Suc n) (ws @ s) = read_atom s"
proof (cases s)
  case (Cons c r)
  then have "skip_ws s = s" using assms by (simp add: atom_text_def skip_ws_def)
  then have "skip_ws (ws @ s) = s" using assms by (simp add: skip_blank)
  then show ?thesis using Cons assms
    by (simp add: atom_text_def expect_blank expect_Cons)
qed (use assms in \<open>simp add: atom_text_def\<close>)

lemma digit_atom: "is_digit (hd s) \<or> hd s = CHR ''-'' \<Longrightarrow> s \<noteq> [] \<Longrightarrow> atom_text s \<and> read_atom s = read_number s"
proof (cases s)
  case (Cons c r)
  assume "is_digit (hd s) \<or> hd s = CHR ''-''"
  then have "\<not> is_space c" "c \<notin> {CHR ''{'', CHR ''}'', CHR ''['', CHR '']'', CHR '','', CHR ''t'', CHR ''f'', CHR ''n'', CHR 0x22}"
    using Cons digit_not_special [of c] spaces(8) by (auto simp: is_digit_def)
  then show ?thesis using Cons by (auto simp: atom_text_def read_atom_def)
qed simp

lemma fmt_fixed1_hd: "is_digit (hd (fmt_fixed1 x @ r)) \<or> hd (fmt_fixed1 x @ r) = CHR ''-''"
  "fmt_fixed1 x @ r \<noteq> []"
  by (cases "x < 0"; simp add: fmt_fixed1_def Let_def dec_hd)+

lemma number_ends_Cons: "number_ends (c # r) \<longleftrightarrow> \<not> is_digit c \<and> c \<noteq> CHR ''.''"
  by (simp add: number_ends_def)

lemma number_ends_blank:
  assumes "blank ws" "number_ends r"
  shows "number_ends (ws @ r)"
proof (cases ws)
  case (Cons c cs)
  then have "is_space c" using assms by (simp add: blank_def)
  then show ?thesis using Cons digit_not_special [of c] by (auto simp: number_ends_Cons is_space_def)
qed (use assms in simp)

lemma not_digits: "\<not> is_digit (CHR ''}'')" "\<not> is_digit (CHR '']'')" "\<not> is_digit (CHR '','')"
  by (simp_all add: is_digit_def)

lemma number_ends_members:
  "blank ws \<Longrightarrow> number_ends (render_members c d False ms @ ws @ CHR ''}'' # r)"
  by (cases ms) (auto simp: number_ends_blank number_ends_Cons not_digits)

lemma number_ends_elems:
  "blank ws \<Longrightarrow> number_ends (render_elems c d False vs @ ws @ CHR '']'' # r)"
  by (cases vs) (auto simp: number_ends_blank number_ends_Cons not_digits)

lemma expect_quote: "expect c (json_quote k @ s) =
    (if c = CHR 0x22 then Some (concat (map json_escape_char k) @ CHR 0x22 # s) else None)"
  by (simp add: json_quote_def expect_Cons spaces)

lemma read_atom_string: "read_value (Suc n) (ws @ json_quote s @ r) = Some (JStr s, r)"
  if "blank ws"
proof -
  have "atom_text (json_quote s @ r)" by (simp add: json_quote_def atom_text_def spaces)
  from atom_text_read [OF this that] show ?thesis
    by (simp add: json_quote_def read_atom_def read_string_escaped del: read_value.simps)
qed

lemma render_starts: "render c d v \<noteq> [] \<and> \<not> is_space (hd (render c d v)) \<and> hd (render c d v) \<noteq> CHR '']''"
proof (cases v)
  case (JUInt k)
  then show ?thesis using dec_hd(3) [of "unat k"] digit_not_special by (auto simp: not_digits)
next
  case (JDouble x)
  then show ?thesis
    using fmt_fixed1_hd [of x "[]"] digit_not_special [of "hd (fmt_fixed1 x)"] spaces(8) not_digits
    by auto
qed (simp_all add: json_quote_def spaces)

lemma no_bracket_yet: "expect (CHR '']'') (newline_indent c d @ render c d v @ t) = None"
  using render_starts [of c d v]
  by (cases "render c d v") (auto simp: expect_blank expect_Cons)

lemma read_render:
  "fuel_of v \<le> n \<Longrightarrow> blank ws \<Longrightarrow> number_ends r \<Longrightarrow>
     read_value n (ws @ render c d v @ r) = Some (as_read v, r)"
  "fuel_members ms \<le> n \<Longrightarrow> blank ws \<Longrightarrow>
     read_members n first (render_members c d first ms @ ws @ CHR ''}'' # r)
       = Some (map (\<lambda>(k, v). (k, as_read v)) ms, r)"
  "fuel_elems vs \<le> n \<Longrightarrow> blank ws \<Longrightarrow>
     read_elems n first (render_elems c d first vs @ ws @ CHR '']'' # r) = Some (map as_read vs, r)"
proof (induction v and ms and vs arbitrary: n ws r d and n ws r d first and n ws r d first
    rule: ops_of_ops_members_ops_elems.induct)
  case (1 s)
  then show ?case by (cases n) (simp_all add: read_atom_string del: read_value.simps(2))
next
  case (2 k)
  have "atom_text (dec (unat k) @ r)"
    "read_atom (dec (unat k) @ r) = Some (JUInt k, r)"
    using digit_atom [of "dec (unat k) @ r"] read_number_dec [OF 2(3), of "unat k"]
      dec_hd(1,2) [of "unat k" r] dec_hd(3) [of "unat k"] by auto
  then show ?case using 2 by (cases n) (simp_all add: atom_text_read del: read_value.simps(2))
next
  case (3 x)
  have "atom_text (fmt_fixed1 x @ r)" "read_atom (fmt_fixed1 x @ r) = Some (JDouble (tenths x), r)"
    using digit_atom [OF fmt_fixed1_hd] read_number_fixed [OF 3(3)] by simp_all
  then show ?case using 3 by (cases n) (simp_all add: atom_text_read del: read_value.simps(2))
next
  case (4 b)
  have "atom_text (render c d (JBool b) @ r)" "read_atom (render c d (JBool b) @ r) = Some (JBool b, r)"
    by (simp_all add: atom_text_def spaces read_atom_def)
  then show ?case using 4 by (cases n) (simp_all add: atom_text_read del: render.simps read_value.simps(2))
next
  case 5
  have "atom_text (''null'' @ r)" "read_atom (''null'' @ r) = Some (JNull, r)"
    by (simp_all add: atom_text_def spaces read_atom_def)
  then show ?case using 5 by (cases n) (simp_all add: atom_text_read del: read_value.simps(2))
next
  case (6 ms)
  obtain m where n: "n = Suc m" "fuel_members ms \<le> m" using 6(2) by (cases n) simp_all
  let ?e = "if ms = [] then [] else newline_indent c d"
  have "read_members m True (render_members c (Suc d) True ms @ ?e @ CHR ''}'' # r)
      = Some (map (\<lambda>(k, v). (k, as_read v)) ms, r)"
    by (rule "6.IH" [OF n(2)]) simp
  then show ?case using 6(3) n(1) by (simp add: expect_blank expect_Cons spaces)
next
  case (7 vs)
  obtain m where n: "n = Suc m" "fuel_elems vs \<le> m" using 7(2) by (cases n) simp_all
  let ?e = "if vs = [] then [] else newline_indent c d"
  have "read_elems m True (render_elems c (Suc d) True vs @ ?e @ CHR '']'' # r)
      = Some (map as_read vs, r)"
    by (rule "7.IH" [OF n(2)]) simp
  then show ?case using 7(3) n(1) by (simp add: expect_blank expect_Cons spaces)
next
  case 8
  then show ?case by (cases n) (simp_all add: expect_blank expect_Cons spaces)
next
  case (9 k v ms)
  obtain m where n: "n = Suc m" "fuel_of v \<le> m" "fuel_members ms \<le> m"
    using 9(3) by (cases n) simp_all
  let ?t = "render_members c d False ms @ ws @ CHR ''}'' # r"
  have v: "read_value m ((if c then [] else '' '') @ render c d v @ ?t) = Some (as_read v, ?t)"
    by (rule "9.IH"(1) [OF n(2)]) (simp_all add: number_ends_members [OF 9(4)])
  have m: "read_members m False ?t = Some (map (\<lambda>(k, v). (k, as_read v)) ms, r)"
    by (rule "9.IH"(2) [OF n(3) 9(4)])
  show ?case using v m n(1)
    by (cases c; cases first)
      (simp_all add: expect_blank expect_Cons expect_quote spaces read_string_escaped)
next
  case 10
  then show ?case by (cases n) (simp_all add: expect_blank expect_Cons spaces)
next
  case (11 v vs)
  obtain m where n: "n = Suc m" "fuel_of v \<le> m" "fuel_elems vs \<le> m"
    using 11(3) by (cases n) simp_all
  let ?t = "render_elems c d False vs @ ws @ CHR '']'' # r"
  have v: "read_value m (newline_indent c d @ render c d v @ ?t) = Some (as_read v, ?t)"
    by (rule "11.IH"(1) [OF n(2)]) (simp_all add: number_ends_elems [OF 11(4)])
  have m: "read_elems m False ?t = Some (map as_read vs, r)"
    by (rule "11.IH"(2) [OF n(3) 11(4)])
  show ?case using v m n(1) no_bracket_yet [of c d v ?t]
    by (cases first) (simp_all add: expect_Cons spaces)
qed

lemma fuel_enough:
  "fuel_of v \<le> length (render c d v)"
  "fuel_members ms \<le> Suc (length (render_members c d first ms))"
  "fuel_elems vs \<le> Suc (length (render_elems c d first vs))"
proof (induction v and ms and vs arbitrary: d and d first and d first
    rule: ops_of_ops_members_ops_elems.induct)
  case (1 s)
  then show ?case by (simp add: json_quote_def)
next
  case (2 k)
  then show ?case using render_starts [of c d "JUInt k"] by (simp add: Suc_le_eq)
next
  case (3 x)
  then show ?case using render_starts [of c d "JDouble x"] by (simp add: Suc_le_eq)
next
  case (6 ms)
  have "fuel_members ms \<le> Suc (length (render_members c (Suc d) True ms))" by (rule "6.IH")
  then show ?case by simp
next
  case (7 vs)
  have "fuel_elems vs \<le> Suc (length (render_elems c (Suc d) True vs))" by (rule "7.IH")
  then show ?case by simp
next
  case (9 k v ms)
  have "2 + length (render c d v) + length (render_members c d False ms)
      \<le> length (render_members c d first ((k, v) # ms))" by (simp add: json_quote_def)
  moreover have "fuel_of v \<le> length (render c d v)" by (rule "9.IH"(1))
  moreover have "fuel_members ms \<le> Suc (length (render_members c d False ms))" by (rule "9.IH"(2))
  ultimately show ?case by (simp del: render_members.simps)
next
  case (11 v vs)
  have "Suc 0 \<le> length (render c d v)" using render_starts [of c d v] by (simp add: Suc_le_eq)
  moreover have "fuel_of v \<le> length (render c d v)" by (rule "11.IH"(1))
  moreover have "fuel_elems vs \<le> Suc (length (render_elems c d False vs))" by (rule "11.IH"(2))
  moreover have "length (render c d v) + length (render_elems c d False vs)
      \<le> length (render_elems c d first (v # vs))" by simp
  ultimately show ?case by (simp del: render_elems.simps)
qed simp_all

lemma read_rendered_document:
  assumes "blank ws"
  shows "read_document (render c d v @ ws) = Some (as_read v)"
proof -
  have e: "number_ends ws" using number_ends_blank [OF assms, of "[]"] by (simp add: number_ends_def)
  have "read_value (Suc (length (render c d v @ ws))) ([] @ render c d v @ ws) = Some (as_read v, ws)"
    by (rule read_render(1)) (use fuel_enough(1) [of v c d] e in simp_all)
  moreover have "skip_ws ws = []" using skip_blank [OF assms, of "[]"] by (simp add: skip_ws_def)
  ultimately show ?thesis by (simp add: read_document_def del: read_value.simps)
qed

section \<open>The writer's promise\<close>

text \<open>C9. Refinement and round trip of the JSON writer: for every document nested at most
  32 deep, the emitter's calls append exactly the document's text to the stream (every comma,
  newline, indent, colon and escape in place), leave the writer on level 0, and a JSON reader
  gives the document back, doubles as the tenths they are printed as. Strings may hold any
  bytes, quotes, backslashes and control characters included.\<close>

theorem writer_emits_document:
  assumes "height v \<le> WT_JSON_MAX_DEPTH"
  shows "let w = wt_json_finish (json_run (ops_of v) (wt_json_init g out));
             txt = render (g_json_compact g) 0 v @ [CHR 0x0A]
         in jw_out w = out @ txt \<and> jw_depth w = 0 \<and> read_document txt = Some (as_read v)"
proof -
  have "blank [CHR 0x0A]" by (simp add: blank_def is_space_def)
  then show ?thesis using run_document [OF assms, of g out] read_rendered_document
    by (simp add: wt_json_finish_def Let_def)
qed

theorem writer_emits_document_witness:
  "let v = JObj [(''ab'', JArr [JUInt 7, JStr [CHR 0x22, CHR 0x0A], JNull, JDouble (- 1 / 3)]),
                 (''e'', JObj [])];
       w = wt_json_finish (json_run (ops_of v) (wt_json_init json_globals_init ''x''));
       txt = render (g_json_compact json_globals_init) 0 v @ [CHR 0x0A]
   in jw_out w = ''x'' @ txt \<and> jw_depth w = 0 \<and> read_document txt = Some (as_read v)"
  using writer_emits_document
    [of "JObj [(''ab'', JArr [JUInt 7, JStr [CHR 0x22, CHR 0x0A], JNull, JDouble (- 1 / 3)]),
                 (''e'', JObj [])]" json_globals_init "''x''"]
  by (simp add: WT_JSON_MAX_DEPTH_def Let_def)

end
