(* ===== verification/Cli_Exit.thy ===== *)
theory Cli_Exit
  imports Json_Reader
begin

text \<open>
  How a command ends (\<open>src/cli/cli_exit.c\<close>, \<open>src/output/json_error.c\<close>) and how one starts
  (\<open>wt_cli_run\<close> of \<open>src/cli/cli.c\<close>, the menu loop of \<open>src/cli/cli_launcher.c\<close>).

  \<open>cli_state\<close> holds the file-level variables of \<open>cli_exit.c\<close> and \<open>json.c\<close> and what was printed:
  the two streams are lists of items, one per \<open>printf\<close> of fixed text and one per JSON document.
  The clock, the console and the wide-to-UTF-8 conversion are the record \<open>cli_env\<close>; the command
  handlers are arguments of \<open>wt_cli_run\<close>.
\<close>

section \<open>State\<close>

datatype cli_item = Usage_Text | Version_Text | Note string | Json_Error string | Command_Output string

record cli_last_error =
  le_result :: WT_Result
  le_message :: string
  le_valid :: bool

record cli_state =
  cs_json :: json_globals
  cs_last :: cli_last_error
  cs_stdout :: "cli_item list"
  cs_stderr :: "cli_item list"

record cli_env =
  ce_session :: session_info
  ce_now :: "string option"
  ce_utf8 :: "string \<Rightarrow> string option"

definition WT_VERSION_STRING :: string where "WT_VERSION_STRING = ''0.1.0''"

definition cli_state_init :: cli_state where
  "cli_state_init = \<lparr>cs_json = json_globals_init,
     cs_last = \<lparr>le_result = WT_OK, le_message = [], le_valid = False\<rparr>, cs_stdout = [], cs_stderr = []\<rparr>"

section \<open>The error document\<close>

definition json_error_text ::
  "cli_env \<Rightarrow> json_globals \<Rightarrow> string option \<Rightarrow> WT_Result \<Rightarrow> string option \<Rightarrow> int \<Rightarrow> string" where
  "json_error_text env g command result message exit_code =
     (let w = wt_json_set_compact True (wt_json_init g []);
          ts = (case ce_now env of None \<Rightarrow> [] | Some t \<Rightarrow> t);
          w = wt_json_begin_object w;
          w = wt_json_emit_schema_meta g (Some ''error'') w;
          w = wt_json_key ''version'' w;
          w = wt_json_string (Some WT_VERSION_STRING) w;
          w = wt_json_key ''timestamp_utc'' w;
          w = wt_json_string (Some ts) w;
          w = wt_json_key ''ok'' w;
          w = wt_json_bool False w;
          w = wt_json_key ''session'' w;
          w = wt_json_begin_object w;
          w = wt_json_key ''interactive'' w;
          w = wt_json_bool (session_interactive (ce_session env)) w;
          w = wt_json_key ''remote'' w;
          w = wt_json_bool (session_remote (ce_session env)) w;
          w = wt_json_end_object w;
          w = wt_json_key ''error'' w;
          w = wt_json_begin_object w;
          w = wt_json_key ''code'' w;
          w = wt_json_string (Some (wt_result_code_name result)) w;
          w = wt_json_key ''exit_code'' w;
          w = wt_json_uint64 (of_int exit_code) w;
          w = wt_json_key ''exit_name'' w;
          w = wt_json_string (Some (wt_exit_code_name exit_code)) w;
          w = (case command of None \<Rightarrow> w
               | Some c \<Rightarrow> if c = [] then w
                   else wt_json_wstring (ce_utf8 env) (Some c) (wt_json_key ''command'' w));
          w = (case message of None \<Rightarrow> w
               | Some m \<Rightarrow> if m = [] then w else wt_json_string (Some m) (wt_json_key ''message'' w));
          w = wt_json_end_object w;
          w = wt_json_end_object w;
          w = wt_json_finish w
      in jw_out w)"

definition wt_json_emit_error ::
  "cli_env \<Rightarrow> bool \<Rightarrow> WT_CliOptions option \<Rightarrow> string option \<Rightarrow> WT_Result \<Rightarrow> string option \<Rightarrow> int \<Rightarrow>
   cli_state \<Rightarrow> cli_state" where
  "wt_json_emit_error env to_stdout opts command result message exit_code s =
     (let g = wt_json_apply_cli_options opts (cs_json s);
          item = Json_Error (json_error_text env g command result message exit_code);
          s1 = s\<lparr>cs_json := g\<rparr>
      in if to_stdout then s1\<lparr>cs_stdout := cs_stdout s1 @ [item]\<rparr>
         else s1\<lparr>cs_stderr := cs_stderr s1 @ [item]\<rparr>)"

section \<open>Ending a command\<close>

definition wt_cli_set_last_error :: "WT_Result \<Rightarrow> string option \<Rightarrow> cli_state \<Rightarrow> cli_state" where
  \<comment> \<open>the 512-unit message buffer truncates; copying the buffer onto itself leaves it as it is\<close>
  "wt_cli_set_last_error result message s =
     s\<lparr>cs_last := \<lparr>le_result = result,
        le_message = (case message of None \<Rightarrow> [] | Some m \<Rightarrow> cch_copy 512 m), le_valid = True\<rparr>\<rparr>"

definition wt_cli_clear_last_error :: "cli_state \<Rightarrow> cli_state" where
  "wt_cli_clear_last_error s = s\<lparr>cs_last := (cs_last s)\<lparr>le_valid := False, le_message := []\<rparr>\<rparr>"

definition wt_cli_maybe_emit_json_error ::
  "cli_env \<Rightarrow> WT_CliOptions option \<Rightarrow> string option \<Rightarrow> WT_Result \<Rightarrow> string option \<Rightarrow> int \<Rightarrow>
   cli_state \<Rightarrow> cli_state" where
  "wt_cli_maybe_emit_json_error env opts command result message exit_code s =
     (case opts of None \<Rightarrow> s
      | Some r \<Rightarrow> if \<not> co_json_errors r then s
          else wt_json_emit_error env (co_json r \<or> wt_cli_is_json_mode r) opts command result message
                 exit_code s)"

definition wt_cli_exit_from_result ::
  "cli_env \<Rightarrow> WT_CliOptions option \<Rightarrow> WT_Result \<Rightarrow> string option \<Rightarrow> string option \<Rightarrow>
   cli_state \<Rightarrow> int \<times> cli_state" where
  "wt_cli_exit_from_result env opts result command message s =
     (if result = WT_OK then (WT_EXIT_OK, wt_cli_clear_last_error s)
      else let le = cs_last s;
               msg = (case message of
                        Some m \<Rightarrow> if m \<noteq> [] then m
                          else if le_valid le \<and> le_message le \<noteq> [] then le_message le
                          else wt_result_to_string result
                      | None \<Rightarrow> if le_valid le \<and> le_message le \<noteq> [] then le_message le
                          else wt_result_to_string result);
               s1 = wt_cli_set_last_error result (Some msg) s;
               code = wt_exit_code_from_result result
           in (code, wt_cli_maybe_emit_json_error env opts command result (Some msg) code s1))"

definition wt_cli_finish ::
  "cli_env \<Rightarrow> WT_CliOptions option \<Rightarrow> int \<Rightarrow> string option \<Rightarrow> cli_state \<Rightarrow> int \<times> cli_state" where
  "wt_cli_finish env opts rc command s =
     (let le = cs_last s in
      if rc = WT_EXIT_OK then (WT_EXIT_OK, wt_cli_clear_last_error s)
      else if rc = WT_EXIT_USAGE \<or> rc = 2 then
        (let msg = (if le_valid le \<and> le_message le \<noteq> [] then le_message le else ''invalid usage'')
         in (WT_EXIT_USAGE, wt_cli_maybe_emit_json_error env opts command WT_ERR_INVALID_ARGUMENT
               (Some msg) WT_EXIT_USAGE s))
      else if rc = WT_EXIT_NOT_IMPLEMENTED then
        (WT_EXIT_NOT_IMPLEMENTED, wt_cli_maybe_emit_json_error env opts command WT_ERR_NOT_SUPPORTED
           (Some ''command not implemented yet'') WT_EXIT_NOT_IMPLEMENTED s)
      else if rc \<noteq> 1 \<and> rc \<noteq> WT_EXIT_ERROR then (rc, s)
      else let result = (if le_valid le then le_result le else WT_ERR_UNKNOWN);
               msg = (if le_valid le
                      then (if le_message le \<noteq> [] then le_message le else wt_result_to_string result)
                      else ''command failed'');
               code = wt_exit_code_from_result result
           in (code, wt_cli_maybe_emit_json_error env opts command result (Some msg) code s))"

definition wt_cli_exit_usage ::
  "cli_env \<Rightarrow> WT_CliOptions option \<Rightarrow> string option \<Rightarrow> string option \<Rightarrow> cli_state \<Rightarrow> int \<times> cli_state" where
  "wt_cli_exit_usage env opts command message s =
     (WT_EXIT_USAGE, wt_cli_maybe_emit_json_error env opts command WT_ERR_INVALID_ARGUMENT message
        WT_EXIT_USAGE (wt_cli_set_last_error WT_ERR_INVALID_ARGUMENT message s))"

section \<open>Starting a command\<close>

datatype log_level = WT_LOG_ERROR | WT_LOG_WARN | WT_LOG_INFO | WT_LOG_DEBUG | WT_LOG_TRACE

definition wt_apply_log_level :: "WT_CliOptions \<Rightarrow> log_level" where
  "wt_apply_log_level r =
     (if co_debug r then WT_LOG_DEBUG else if co_verbose r then WT_LOG_INFO else WT_LOG_WARN)"

definition known_commands :: "string list" where
  "known_commands =
     [''scan'', ''top'', ''tui'', ''startup'', ''tasks'', ''updates'', ''blockers'',
      ''storage'', ''reliability'', ''memory'', ''maintenance'', ''apps'', ''boot'', ''service'',
      ''services'', ''power'', ''recommend'', ''apply'', ''report'', ''doctor'', ''tray'',
      ''rollback'', ''fleet'']"

definition wt_command_is_known :: "string \<Rightarrow> bool" where
  "wt_command_is_known cmd \<longleftrightarrow> cmd \<in> set known_commands"

definition dispatched_commands :: "string list" where
  \<comment> \<open>the chain of \<open>wcscmp\<close> tests of \<open>wt_cli_run\<close> that call a \<open>wt_cmd_\<close> handler, in order\<close>
  "dispatched_commands =
     [''scan'', ''top'', ''recommend'', ''doctor'', ''startup'', ''tasks'', ''updates'', ''blockers'',
      ''storage'', ''reliability'', ''memory'', ''maintenance'', ''apps'', ''services'', ''power'',
      ''apply'', ''rollback'', ''report'', ''boot'', ''service'', ''tray'', ''fleet'']"

definition wt_cli_should_route_via_service :: "WT_CliOptions option \<Rightarrow> bool \<Rightarrow> bool \<Rightarrow> bool" where
  "wt_cli_should_route_via_service opts elevated service_available =
     ((case opts of Some r \<Rightarrow> co_via_service r | None \<Rightarrow> False) \<or> (\<not> elevated \<and> service_available))"

definition wt_cli_user_note :: "WT_CliOptions \<Rightarrow> string option \<Rightarrow> cli_state \<Rightarrow> cli_state" where
  "wt_cli_user_note r text s =
     (case text of None \<Rightarrow> s
      | Some t \<Rightarrow> if wt_cli_is_json_mode r then s else s\<lparr>cs_stderr := cs_stderr s @ [Note t]\<rparr>)"

definition print_err :: "string \<Rightarrow> cli_state \<Rightarrow> cli_state" where
  "print_err t s = s\<lparr>cs_stderr := cs_stderr s @ [Note t]\<rparr>"

definition print_out :: "cli_item \<Rightarrow> cli_state \<Rightarrow> cli_state" where
  "print_out i s = s\<lparr>cs_stdout := cs_stdout s @ [i]\<rparr>"

text \<open>The handlers: a \<open>wt_cmd_\<close> function by its command, the dashboard, the log file and the menu.\<close>

record cli_handlers =
  h_command :: "string \<Rightarrow> WT_CliOptions \<Rightarrow> cli_state \<Rightarrow> int \<times> cli_state"
  h_tui :: "WT_CliOptions \<Rightarrow> cli_state \<Rightarrow> WT_Result \<times> cli_state"
  h_log_open :: "string \<Rightarrow> WT_Result"
  h_launcher :: "cli_state \<Rightarrow> int \<times> cli_state"
  h_from_explorer :: bool

definition wt_cli_should_show_launcher :: "cli_env \<Rightarrow> bool \<Rightarrow> nat \<Rightarrow> bool" where
  "wt_cli_should_show_launcher env from_explorer argc =
     (if argc > 1 then False
      else if \<not> session_interactive (ce_session env) \<or> session_remote (ce_session env) then False
      else from_explorer)"

definition cli_dispatch ::
  "cli_env \<Rightarrow> cli_handlers \<Rightarrow> WT_CliOptions \<Rightarrow> string \<Rightarrow> cli_state \<Rightarrow> int \<times> cli_state" where
  "cli_dispatch env h r cmd s =
     (if cmd \<in> set dispatched_commands then h_command h cmd r s
      else if cmd = ''tui'' then
        (let (tr, s1) = h_tui h r s
         in if tr = WT_OK then (WT_EXIT_OK, s1)
            else wt_cli_exit_from_result env (Some r) tr (Some ''tui'') (Some ''TUI could not start.'') s1)
      else if wt_command_is_known cmd then
        (WT_EXIT_NOT_IMPLEMENTED,
         print_err (''wintune: '' @ cmd @ '' is recognized but not implemented yet'') s)
      else (WT_EXIT_USAGE, print_err (''wintune: unknown command '' @ cmd) s))"

definition wt_cli_run ::
  "cli_env \<Rightarrow> cli_handlers \<Rightarrow> string list \<Rightarrow> cli_state \<Rightarrow> int \<times> cli_state" where
  "wt_cli_run env h argv s =
     (let (prc, opts, command) = wt_cli_parse_argv argv in
      if prc \<noteq> WT_EXIT_OK then (prc, s)
      else case (case co_log_file_path opts of None \<Rightarrow> WT_OK | Some p \<Rightarrow> h_log_open h p) of
        lr \<Rightarrow>
        if lr \<noteq> WT_OK then (WT_EXIT_ERROR, print_err ''wintune: could not open log file'' s)
        else
          let r = wt_cli_apply_session_defaults (ce_session env) opts;
              r = (if co_compact_json r \<and> co_ndjson r then r\<lparr>co_compact_json := True\<rparr> else r);
              s1 = s\<lparr>cs_json := wt_json_apply_cli_options (Some r) (cs_json s)\<rparr>
          in if co_help r \<or> command = Some ''help'' then (WT_EXIT_OK, print_out Usage_Text s1)
             else if co_version r \<or> command = Some ''version'' then (WT_EXIT_OK, print_out Version_Text s1)
             else case command of
                 None \<Rightarrow> if wt_cli_should_show_launcher env (h_from_explorer h) (length argv)
                         then h_launcher h s1
                         else (WT_EXIT_OK, print_out Usage_Text s1)
               | Some cmd \<Rightarrow> (let (rc, s2) = cli_dispatch env h r cmd s1
                              in wt_cli_finish env (Some r) rc (Some cmd) s2))"

section \<open>The interactive menu\<close>

definition wt_cli_trim_inplace :: "string \<Rightarrow> string" where
  "wt_cli_trim_inplace buf =
     (if buf = [] then []
      else let s = dropWhile is_blank buf
           in rev (dropWhile (\<lambda>c. is_blank c \<or> c = CHR 0x0D \<or> c = CHR 0x0A) (rev s)))"

definition wt_cli_line_is_quit :: "string \<Rightarrow> bool" where
  "wt_cli_line_is_quit l \<longleftrightarrow> wcsicmp l ''q'' \<or> wcsicmp l ''quit'' \<or> wcsicmp l ''exit''"

definition menu_shortcuts :: "string list" where
  "menu_shortcuts = [''doctor'', ''scan'', ''top'', ''startup'', ''power'', ''recommend'', ''help'',
     ''tui'', ''rollback list'']"

definition wt_cli_menu_shortcut :: "string \<Rightarrow> string option" where
  "wt_cli_menu_shortcut l =
     (if l = [] then None
      else if length l \<noteq> 1 \<or> (of_char (hd l) :: nat) < 49 \<or> (of_char (hd l) :: nat) > 57 then Some l
      else let idx = of_char (hd l) - 49
           in if idx \<ge> length menu_shortcuts then Some l else Some (cch_copy 256 (menu_shortcuts ! idx)))"

text \<open>One line of \<open>ReadConsoleW\<close> is Some text (at most 1023 units of a 1024-unit buffer), or None when
  the read failed. The child processes the loop starts are the list of their command lines:
  \<open>exe\<close> is the program's own path.\<close>

definition wt_cli_spawn_command_line :: "string option \<Rightarrow> string option \<Rightarrow> string list \<Rightarrow> int \<times> string list" where
  "wt_cli_spawn_command_line exe args spawned =
     (case args of None \<Rightarrow> (WT_EXIT_OK, spawned)
      | Some a \<Rightarrow> if a = [] then (WT_EXIT_OK, spawned)
          else (case exe of None \<Rightarrow> (WT_EXIT_ERROR, spawned)
            | Some e \<Rightarrow>
               (let cmdline = [CHR 0x22] @ e @ [CHR 0x22] @ '' '' @ a
                in if \<not> cch_fits 2048 cmdline then (WT_EXIT_ERROR, spawned)
                   else (WT_EXIT_OK, spawned @ [cmdline]))))"

fun wt_cli_launcher_loop :: "string option \<Rightarrow> bool \<Rightarrow> string option list \<Rightarrow> string list \<Rightarrow> int \<times> string list" where
  "wt_cli_launcher_loop exe first [] spawned = (WT_EXIT_OK, spawned)"
| "wt_cli_launcher_loop exe first (None # ins) spawned = (WT_EXIT_OK, spawned)"
| "wt_cli_launcher_loop exe first (Some raw # ins) spawned =
     (let l = wt_cli_trim_inplace raw
      in if l = [] \<and> \<not> first then wt_cli_launcher_loop exe False ins spawned
         else let l1 = (if l = [] then ''doctor'' else l)
              in if wt_cli_line_is_quit l1 then (WT_EXIT_OK, spawned)
                 else wt_cli_launcher_loop exe False ins
                        (snd (wt_cli_spawn_command_line exe (wt_cli_menu_shortcut l1) spawned)))"

definition wt_cli_interactive_launcher :: "string option \<Rightarrow> string option list \<Rightarrow> int \<times> string list" where
  "wt_cli_interactive_launcher exe ins = wt_cli_launcher_loop exe True ins []"

section \<open>The error document is JSON\<close>

definition json_error_document ::
  "cli_env \<Rightarrow> json_globals \<Rightarrow> string option \<Rightarrow> WT_Result \<Rightarrow> string option \<Rightarrow> int \<Rightarrow> json_value" where
  "json_error_document env g command result message exit_code =
     JObj ((''schema_version'', JStr (wt_json_emit_schema_version g)) #
       (if g_json_emit_major g \<ge> 2
        then [(''schema_compat_min'', JStr ''1.0.0''), (''document'', JStr ''error'')] else []) @
       [(''version'', JStr WT_VERSION_STRING),
        (''timestamp_utc'', JStr (case ce_now env of None \<Rightarrow> [] | Some t \<Rightarrow> t)),
        (''ok'', JBool False),
        (''session'', JObj
          [(''interactive'', JBool (session_interactive (ce_session env))),
           (''remote'', JBool (session_remote (ce_session env)))]),
        (''error'', JObj
          ([(''code'', JStr (wt_result_code_name result)),
            (''exit_code'', JUInt (of_int exit_code)),
            (''exit_name'', JStr (wt_exit_code_name exit_code))] @
           (case command of None \<Rightarrow> [] | Some c \<Rightarrow> if c = [] then []
              else [(''command'', JStr (case ce_utf8 env c of None \<Rightarrow> [] | Some b \<Rightarrow> b))]) @
           (case message of None \<Rightarrow> [] | Some m \<Rightarrow> if m = [] then [] else [(''message'', JStr m)])))])"

lemma wstring_is_string:
  "wt_json_wstring f (Some c) w = json_do (Str (case f c of None \<Rightarrow> [] | Some b \<Rightarrow> b)) w"
  by (simp add: wt_json_wstring_def wt_json_string_def Let_def)

lemma ops_members_append [simp]: "ops_members (xs @ ys) = ops_members xs @ ops_members ys"
  by (induction xs) auto

lemma schema_meta_ops:
  "wt_json_emit_schema_meta g (Some ''error'') w =
   json_run (ops_members ((''schema_version'', JStr (wt_json_emit_schema_version g)) #
     (if g_json_emit_major g \<ge> 2
      then [(''schema_compat_min'', JStr ''1.0.0''), (''document'', JStr ''error'')] else []))) w"
  by (simp add: wt_json_emit_schema_meta_def Let_def)

lemma json_error_text_ops:
  "json_error_text env g command result message exit_code =
   jw_out (wt_json_finish (json_run (ops_of (json_error_document env g command result message exit_code))
     (wt_json_init (g\<lparr>g_json_compact := True\<rparr>) [])))"
proof -
  have i: "wt_json_set_compact True (wt_json_init g []) = wt_json_init (g\<lparr>g_json_compact := True\<rparr>) []"
    by (simp add: wt_json_set_compact_def wt_json_init_def)
  show ?thesis
    unfolding json_error_text_def json_error_document_def i Let_def schema_meta_ops
    by (simp add: wstring_is_string split: option.split)
qed

lemma json_error_height: "height (json_error_document env g command result message exit_code) = 2"
  by (auto simp: json_error_document_def split: option.split)

lemma as_read_error_document:
  "as_read (json_error_document env g c r m e) = json_error_document env g c r m e"
  by (simp add: json_error_document_def split: option.split)


section \<open>Exit codes and error documents\<close>

fun is_json_error :: "cli_item \<Rightarrow> bool" where
  "is_json_error (Json_Error _) = True"
| "is_json_error _ = False"

definition json_error_count :: "cli_state \<Rightarrow> nat" where
  "json_error_count s = length (filter is_json_error (cs_stdout s @ cs_stderr s))"

lemma count_last_error [simp]:
  "json_error_count (wt_cli_set_last_error r m s) = json_error_count s"
  "json_error_count (wt_cli_clear_last_error s) = json_error_count s"
  by (simp_all add: json_error_count_def wt_cli_set_last_error_def wt_cli_clear_last_error_def)

lemma maybe_emit_count:
  "json_error_count (wt_cli_maybe_emit_json_error env (Some o1) c r m e s) =
     json_error_count s + (if co_json_errors o1 then 1 else 0)"
  by (simp add: wt_cli_maybe_emit_json_error_def wt_json_emit_error_def json_error_count_def Let_def)

lemma maybe_emit_last [simp]: "cs_last (wt_cli_maybe_emit_json_error env q c r m e s) = cs_last s"
  by (simp add: wt_cli_maybe_emit_json_error_def wt_json_emit_error_def Let_def split: option.split)

lemma exit_code_cases:
  "wt_exit_code_from_result r \<in> {0, 2, 10, 11, 12, 13, 14, 20}"
  by (cases r) (simp_all add: wt_exit_code_from_result_def exit_defs)

lemma result_string_nonempty: "wt_result_to_string r \<noteq> []"
  by (cases r) (simp_all add: wt_result_to_string_def)

definition error_documents_for :: "WT_Result \<Rightarrow> nat" where
  "error_documents_for r =
     (if r = WT_OK then 0
      else if wt_exit_code_from_result r \<in> {WT_EXIT_USAGE, WT_EXIT_ERROR} then 2 else 1)"

lemma exit_from_result_fails:
  assumes "r \<noteq> WT_OK"
  obtains s1 where "wt_cli_exit_from_result env (Some q) r c m s = (wt_exit_code_from_result r, s1)"
    "json_error_count s1 = json_error_count s + (if co_json_errors q then 1 else 0)"
    "le_valid (cs_last s1)" "le_result (cs_last s1) = r"
proof
  let ?p = "wt_cli_exit_from_result env (Some q) r c m s"
  show "?p = (wt_exit_code_from_result r, snd ?p)"
    using assms by (simp add: wt_cli_exit_from_result_def Let_def)
  show "json_error_count (snd ?p) = json_error_count s + (if co_json_errors q then 1 else 0)"
    using assms by (simp add: wt_cli_exit_from_result_def Let_def maybe_emit_count)
  show "le_valid (cs_last (snd ?p))" "le_result (cs_last (snd ?p)) = r"
    using assms by (simp_all add: wt_cli_exit_from_result_def Let_def wt_cli_set_last_error_def)
qed

lemma finish_specific:
  "rc \<notin> {0, 1, 2, 20, 21} \<Longrightarrow> wt_cli_finish env q rc c s = (rc, s)"
  by (simp add: wt_cli_finish_def exit_defs Let_def)

lemma finish_usage:
  "fst (wt_cli_finish env (Some q) 2 c s) = 2"
  "json_error_count (snd (wt_cli_finish env (Some q) 2 c s))
     = json_error_count s + (if co_json_errors q then 1 else 0)"
  by (simp_all add: wt_cli_finish_def exit_defs Let_def maybe_emit_count)

lemma finish_error:
  assumes "le_valid (cs_last s)"
  shows "fst (wt_cli_finish env (Some q) 20 c s) = wt_exit_code_from_result (le_result (cs_last s))"
    "json_error_count (snd (wt_cli_finish env (Some q) 20 c s))
     = json_error_count s + (if co_json_errors q then 1 else 0)"
  using assms by (simp_all add: wt_cli_finish_def exit_defs Let_def maybe_emit_count)

text \<open>C11. Ending a command with \<open>wt_cli_exit_from_result\<close> and then \<open>wt_cli_finish\<close>, as
  \<open>wt_cli_run\<close> does, keeps the exit code of the result. Under \<open>--json-errors\<close> the error document
  is printed once for the specific codes, but twice when the code is the usage code or the generic error
  code: \<open>wt_cli_finish\<close> cannot tell those from a code nothing was printed for.\<close>

theorem finish_after_exit_from_result:
  "let (code, s1) = wt_cli_exit_from_result env (Some q) result command message s;
       (rc, s2) = wt_cli_finish env (Some q) code command' s1
   in rc = wt_exit_code_from_result result \<and>
      json_error_count s2 = json_error_count s + (if co_json_errors q then error_documents_for result else 0)"
proof (cases "result = WT_OK")
  case True
  then show ?thesis
    by (simp add: wt_cli_exit_from_result_def wt_cli_finish_def error_documents_for_def
      wt_exit_code_from_result_def)
next
  case False
  let ?code = "wt_exit_code_from_result result"
  obtain s1 where s1: "wt_cli_exit_from_result env (Some q) result command message s = (?code, s1)"
    "json_error_count s1 = json_error_count s + (if co_json_errors q then 1 else 0)"
    "le_valid (cs_last s1)" "le_result (cs_last s1) = result"
    using exit_from_result_fails [OF False] by metis
  have nz: "?code \<noteq> 0" using False exit_code_zero_iff [of result] by (simp add: WT_EXIT_OK_def)
  have d: "error_documents_for result = (if ?code \<in> {2, 20} then 2 else 1)"
    using False by (simp add: error_documents_for_def exit_defs)
  consider "?code = 2" | "?code = 20" | "?code \<notin> {0, 1, 2, 20, 21}"
    using exit_code_cases [of result] nz by auto
  then show ?thesis
  proof cases
    case 1
    then show ?thesis using s1 d finish_usage [of env q command' s1] by (simp add: case_prod_beta)
  next
    case 2
    then show ?thesis using s1 d finish_error [OF s1(3), of env q command'] by (simp add: case_prod_beta)
  next
    case 3
    then show ?thesis using s1 d by (simp add: finish_specific)
  qed
qed

definition documented_exit_codes :: "int list" where
  \<comment> \<open>\<open>exit_codes.h\<close>\<close>
  "documented_exit_codes = [WT_EXIT_OK, WT_EXIT_USAGE, WT_EXIT_CANCELLED, WT_EXIT_ACCESS_DENIED,
     WT_EXIT_NOT_FOUND, WT_EXIT_NOT_SUPPORTED, WT_EXIT_TIMEOUT, WT_EXIT_ERROR, WT_EXIT_NOT_IMPLEMENTED]"

lemma finish_documented:
  assumes "rc \<in> insert 1 (set documented_exit_codes)"
  shows "fst (wt_cli_finish env q rc c s) \<in> set documented_exit_codes"
  using assms exit_code_cases [of "if le_valid (cs_last s) then le_result (cs_last s) else WT_ERR_UNKNOWN"]
  by (auto simp: wt_cli_finish_def documented_exit_codes_def exit_defs Let_def split: if_splits)

lemma dispatch_codes:
  assumes "\<And>c r s. fst (h_command h c r s) \<in> insert 1 (set documented_exit_codes)"
  shows "fst (cli_dispatch env h r cmd s) \<in> insert 1 (set documented_exit_codes)"
proof -
  consider "cmd \<in> set dispatched_commands" | "cmd \<notin> set dispatched_commands" "cmd = ''tui''"
    | "cmd \<notin> set dispatched_commands" "cmd \<noteq> ''tui''" by blast
  then show ?thesis
  proof cases
    case 1
    then show ?thesis using assms by (simp add: cli_dispatch_def)
  next
    case 2
    obtain tr s1 where t: "h_tui h r s = (tr, s1)" by fastforce
    show ?thesis using 2 exit_code_cases [of tr]
      by (auto simp: cli_dispatch_def t wt_cli_exit_from_result_def documented_exit_codes_def exit_defs Let_def)
  next
    case 3
    then show ?thesis by (simp add: cli_dispatch_def documented_exit_codes_def)
  qed
qed

lemma known_dispatched: "wt_command_is_known cmd \<longleftrightarrow> cmd \<in> set dispatched_commands \<or> cmd = ''tui''"
  by (auto simp: wt_command_is_known_def known_commands_def dispatched_commands_def)


definition quiet_handlers :: cli_handlers where
  "quiet_handlers = \<lparr>h_command = (\<lambda>c r s. (WT_EXIT_OK, s)), h_tui = (\<lambda>r s. (WT_OK, s)),
     h_log_open = (\<lambda>p. WT_OK), h_launcher = (\<lambda>s. (WT_EXIT_OK, s)), h_from_explorer = False\<rparr>"


section \<open>The menu loop\<close>

definition menu_lines :: "string option list \<Rightarrow> string list" where
  \<comment> \<open>what the user typed before the first failed read\<close>
  "menu_lines ins = map (\<lambda>i. wt_cli_trim_inplace (the i)) (takeWhile (\<lambda>i. i \<noteq> None) ins)"

definition menu_commands :: "string list \<Rightarrow> string list" where
  \<comment> \<open>an empty first line asks for the doctor, later empty lines ask for nothing, quit ends\<close>
  "menu_commands ls = takeWhile (\<lambda>l. \<not> wt_cli_line_is_quit l)
     (filter (\<lambda>l. l \<noteq> []) (if ls \<noteq> [] \<and> hd ls = [] then ''doctor'' # tl ls else ls))"

definition menu_spawn :: "string \<Rightarrow> string \<Rightarrow> string list" where
  "menu_spawn exe l = snd (wt_cli_spawn_command_line (Some exe) (wt_cli_menu_shortcut l) [])"

lemma spawn_append:
  "snd (wt_cli_spawn_command_line exe a (xs @ ys)) = xs @ snd (wt_cli_spawn_command_line exe a ys)"
  by (simp add: wt_cli_spawn_command_line_def Let_def split: option.split)

lemma launcher_loop_later:
  "snd (wt_cli_launcher_loop (Some exe) False ins sp) =
   sp @ concat (map (menu_spawn exe) (takeWhile (\<lambda>l. \<not> wt_cli_line_is_quit l)
     (filter (\<lambda>l. l \<noteq> []) (menu_lines ins))))"
proof (induction ins arbitrary: sp)
  case (Cons i ins)
  show ?case
  proof (cases i)
    case (Some raw)
    then show ?thesis
      using spawn_append [of "Some exe" "wt_cli_menu_shortcut (wt_cli_trim_inplace raw)" sp "[]"]
      by (simp add: menu_lines_def Let_def Cons.IH menu_spawn_def)
  qed (simp add: menu_lines_def)
qed (simp add: menu_lines_def)


end
