(* ===== verification/Confidence.thy ===== *)
theory Confidence
  imports Report_Model
begin

text \<open>
  Confidence of a recommendation from the number of samples, the window and the spread
  (\<open>src/core/confidence.c\<close>).
\<close>

datatype WT_ConfMetric =
    WT_CONF_SNAPSHOT | WT_CONF_CPU | WT_CONF_MEMORY | WT_CONF_DISK | WT_CONF_GPU | WT_CONF_BOOT

definition WT_CONF_EMIT_MIN :: int where "WT_CONF_EMIT_MIN = 55"

definition wt_confidence_metric_name :: "WT_ConfMetric \<Rightarrow> string" where
  "wt_confidence_metric_name m = (case m of
     WT_CONF_SNAPSHOT \<Rightarrow> ''snapshot'' | WT_CONF_CPU \<Rightarrow> ''cpu'' | WT_CONF_MEMORY \<Rightarrow> ''memory''
   | WT_CONF_DISK \<Rightarrow> ''disk'' | WT_CONF_GPU \<Rightarrow> ''gpu'' | WT_CONF_BOOT \<Rightarrow> ''boot'')"

definition wt_conf_ok_samples :: "WT_ScanReport \<Rightarrow> WT_ConfMetric \<Rightarrow> nat" where
  "wt_conf_ok_samples rep m = (case m of
     WT_CONF_CPU \<Rightarrow> if rep_cpu_ok_samples rep > 0 then rep_cpu_ok_samples rep
                    else if rep_cpu_ok rep then 1 else 0
   | WT_CONF_MEMORY \<Rightarrow> if rep_memory_ok_samples rep > 0 then rep_memory_ok_samples rep
                    else if rep_memory_ok rep then 1 else 0
   | WT_CONF_DISK \<Rightarrow> if rep_disk_active_ok_samples rep > 0 then rep_disk_active_ok_samples rep
                    else if rep_disk_active_ok rep then 1 else 0
   | WT_CONF_GPU \<Rightarrow> if rep_scan_sample_count rep > 0 then rep_scan_sample_count rep else 1
   | WT_CONF_BOOT \<Rightarrow> let n = length (hist_entries (br_history (rep_boot rep))) in
                    if n > 0 then wrap32 n else if rep_boot_ok rep then 1 else 0
   | WT_CONF_SNAPSHOT \<Rightarrow> 1)"

definition wt_conf_spread :: "WT_ScanReport \<Rightarrow> WT_ConfMetric \<Rightarrow> rat" where
  "wt_conf_spread rep m = (case m of
     WT_CONF_CPU \<Rightarrow> if rep_cpu_max_percent rep \<ge> 0 \<and> rep_cpu_ok rep
                    then max 0 (rep_cpu_max_percent rep - cm_total_usage_percent (rep_cpu rep)) else 0
   | WT_CONF_DISK \<Rightarrow> if rep_disk_active_max_percent rep \<ge> 0 \<and> rep_disk_active_ok rep
                    then max 0 (rep_disk_active_max_percent rep - rep_disk_active_percent rep) else 0
   | WT_CONF_MEMORY \<Rightarrow> if rep_memory_max_used_percent rep \<ge> 0 \<and> rep_memory_ok rep
                    then max 0 (rep_memory_max_used_percent rep - mm_used_percent (rep_memory rep)) else 0
   | _ \<Rightarrow> 0)"

definition wt_conf_window_ms :: "WT_ScanReport \<Rightarrow> nat" where
  "wt_conf_window_ms rep =
     (let n = rep_scan_sample_count rep; interval = rep_scan_sample_interval_ms rep
      in if n \<le> 1 \<or> interval = 0 then 0 else wrap32 ((n - 1) * interval))"

definition conf_base :: "int \<Rightarrow> int" where
  "conf_base base = (let b = (if base < 40 then 40 else base) in if b > 95 then 95 else b)"

definition conf_samples_adj :: "nat \<Rightarrow> int" where
  "conf_samples_adj ok = (if ok \<le> 1 then -15 else if ok \<ge> 5 then 8 else if ok \<ge> 3 then 5 else 2)"

definition conf_window_adj :: "nat \<Rightarrow> int" where
  "conf_window_adj ms = (if ms \<ge> 8000 then 8 else if ms \<ge> 3000 then 5 else if ms \<ge> 1000 then 2 else 0)"

definition conf_spread_adj :: "rat \<Rightarrow> int" where
  "conf_spread_adj s = (if s > 40 then -12 else if s > 25 then -8 else if s > 15 then -3 else 0)"

definition conf_metric_adj :: "WT_ScanReport \<Rightarrow> WT_ConfMetric \<Rightarrow> nat \<Rightarrow> int" where
  "conf_metric_adj rep m ok = (case m of
     WT_CONF_DISK \<Rightarrow> if ok > 1 \<and> wrap32 (rep_disk_active_hot_samples rep * 2) > ok then 5 else 0
   | WT_CONF_CPU \<Rightarrow> if ok > 1 \<and> wrap32 (rep_cpu_hot_samples rep * 2) > ok then 5 else 0
   | WT_CONF_BOOT \<Rightarrow> let n = length (hist_entries (br_history (rep_boot rep))) in
       if n \<ge> 3 then 5 else if n \<le> 1 then -10 else 0
   | _ \<Rightarrow> 0)"

definition wt_confidence_compute :: "WT_ScanReport \<Rightarrow> WT_ConfMetric \<Rightarrow> int \<Rightarrow> int" where
  "wt_confidence_compute rep m base =
     (let conf = conf_base base in
      if m = WT_CONF_SNAPSHOT then conf
      else let ok = wt_conf_ok_samples rep m;
               conf = conf + conf_samples_adj ok;
               conf = conf + conf_window_adj (wt_conf_window_ms rep);
               conf = conf + conf_spread_adj (wt_conf_spread rep m);
               conf = conf + conf_metric_adj rep m ok;
               conf = (if conf > 95 then 95 else conf)
           in if conf < 40 then 40 else conf)"

definition wt_confidence_should_emit :: "WT_ScanReport \<Rightarrow> WT_ConfMetric \<Rightarrow> int \<Rightarrow> bool" where
  "wt_confidence_should_emit rep m confidence =
     (if m = WT_CONF_SNAPSHOT \<or> m = WT_CONF_BOOT then confidence \<ge> WT_CONF_EMIT_MIN
      else let samples = (if rep_scan_sample_count rep > 0 then rep_scan_sample_count rep else 1);
               ok = wt_conf_ok_samples rep m
           in if samples \<le> 1 \<or> ok \<le> 1
              then (if m = WT_CONF_CPU \<and> rep_cpu_ok rep \<and> cm_total_usage_percent (rep_cpu rep) \<ge> 95
                    then confidence \<ge> WT_CONF_EMIT_MIN
                    else if m = WT_CONF_DISK \<and> rep_disk_active_ok rep \<and> rep_disk_active_percent rep \<ge> 95
                    then confidence \<ge> WT_CONF_EMIT_MIN
                    else if m = WT_CONF_MEMORY \<and> rep_memory_ok rep
                    then confidence \<ge> WT_CONF_EMIT_MIN
                    else False)
              else confidence \<ge> WT_CONF_EMIT_MIN)"

definition wt_confidence_basis :: "WT_ScanReport \<Rightarrow> WT_ConfMetric \<Rightarrow> nat \<Rightarrow> string" where
  \<comment> \<open>what the buffer of \<open>cap\<close> units holds after the call\<close>
  "wt_confidence_basis rep m cap =
     (if cap = 0 then []
      else let ok = wt_conf_ok_samples rep m; window = wt_conf_window_ms rep;
               spread = wt_conf_spread rep m
           in if m = WT_CONF_SNAPSHOT then cch_copy cap ''snapshot (not sample-averaged)''
              else if m = WT_CONF_BOOT then cch_copy cap (dec ok @ '' boot history sample(s)'')
              else let t = (if ok \<le> 1 then cch_copy cap ''single sample''
                            else if window > 0
                            then cch_copy cap (dec ok @ '' samples over '' @
                                   fmt_fixed1 (of_nat window / 1000) @ ''s'')
                            else cch_copy cap (dec ok @ '' samples''))
                   in if spread > 15 \<and> cap > length t + 24
                      then t @ cch_copy (cap - length t) (''; spread '' @ fmt_fixed0 spread @ '' pp'')
                      else t)"

section \<open>Bounds and suppression\<close>

lemma conf_base_bounds: "40 \<le> conf_base b \<and> conf_base b \<le> 95"
  by (simp add: conf_base_def Let_def)

lemma confidence_range: "40 \<le> wt_confidence_compute rep m b \<and> wt_confidence_compute rep m b \<le> 95"
  using conf_base_bounds by (simp add: wt_confidence_compute_def Let_def)

lemma basis_fits: "0 < cap \<Longrightarrow> length (wt_confidence_basis rep m cap) < cap"
  by (auto simp: wt_confidence_basis_def Let_def cch_copy_def)

lemma conf_base_mono: "a \<le> b \<Longrightarrow> conf_base a \<le> conf_base b"
  by (simp add: conf_base_def Let_def)

lemma clamp_mono:
  "(x::int) \<le> y \<Longrightarrow> (let c = (if x > 95 then 95 else x) in if c < 40 then 40 else c)
     \<le> (let c = (if y > 95 then 95 else y) in if c < 40 then 40 else c)"
  by (simp add: Let_def)

lemma compute_mono: "a \<le> b \<Longrightarrow> wt_confidence_compute rep m a \<le> wt_confidence_compute rep m b"
  using conf_base_mono [of a b] clamp_mono
    [of "conf_base a + conf_samples_adj (wt_conf_ok_samples rep m) + conf_window_adj (wt_conf_window_ms rep)
         + conf_spread_adj (wt_conf_spread rep m) + conf_metric_adj rep m (wt_conf_ok_samples rep m)"
        "conf_base b + conf_samples_adj (wt_conf_ok_samples rep m) + conf_window_adj (wt_conf_window_ms rep)
         + conf_spread_adj (wt_conf_spread rep m) + conf_metric_adj rep m (wt_conf_ok_samples rep m)"]
  by (simp only: wt_confidence_compute_def Let_def) simp

lemma should_emit_min: "wt_confidence_should_emit rep m c \<Longrightarrow> c \<ge> WT_CONF_EMIT_MIN"
  by (auto simp: wt_confidence_should_emit_def Let_def split: if_splits)

lemma single_sample_suppressed:
  assumes "m \<in> {WT_CONF_CPU, WT_CONF_DISK, WT_CONF_GPU}" "rep_scan_sample_count rep \<le> 1"
    "m = WT_CONF_CPU \<longrightarrow> cm_total_usage_percent (rep_cpu rep) < 95"
    "m = WT_CONF_DISK \<longrightarrow> rep_disk_active_percent rep < 95"
  shows "\<not> wt_confidence_should_emit rep m conf"
proof -
  have "(if rep_scan_sample_count rep > 0 then rep_scan_sample_count rep else 1) \<le> 1"
    using assms(2) by simp
  then show ?thesis using assms(1,3,4)
    unfolding wt_confidence_should_emit_def Let_def by (elim insertE emptyE) simp_all
qed

text \<open>C14. Confidence lies between 40 and 95 percent whatever the samples are and grows with its
  base; a recommendation is emitted at 55 percent and more only; a single sample never
  justifies one about CPU, disk or GPU load unless the CPU or the disk stood at 95 percent or more; the basis
  text fits its buffer.\<close>

theorem confidence_bounds_and_suppression:
  "wt_confidence_compute rep m base \<in> {40..95} \<and>
   (base \<le> base' \<longrightarrow> wt_confidence_compute rep m base \<le> wt_confidence_compute rep m base') \<and>
   (wt_confidence_should_emit rep m conf \<longrightarrow> conf \<ge> 55) \<and>
   (m \<in> {WT_CONF_CPU, WT_CONF_DISK, WT_CONF_GPU} \<and> rep_scan_sample_count rep \<le> 1 \<and>
    (m = WT_CONF_CPU \<longrightarrow> cm_total_usage_percent (rep_cpu rep) < 95) \<and>
    (m = WT_CONF_DISK \<longrightarrow> rep_disk_active_percent rep < 95)
    \<longrightarrow> \<not> wt_confidence_should_emit rep m conf) \<and>
   (0 < cap \<longrightarrow> length (wt_confidence_basis rep m cap) < cap)"
proof (intro conjI impI)
  show "wt_confidence_compute rep m base \<in> {40..95}" using confidence_range by simp
  show "wt_confidence_compute rep m base \<le> wt_confidence_compute rep m base'" if "base \<le> base'"
    using compute_mono [OF that] .
  show "conf \<ge> 55" if "wt_confidence_should_emit rep m conf"
    using should_emit_min [OF that] by (simp add: WT_CONF_EMIT_MIN_def)
  show "length (wt_confidence_basis rep m cap) < cap" if "0 < cap" using basis_fits [OF that] .
  show "\<not> wt_confidence_should_emit rep m conf"
    if "m \<in> {WT_CONF_CPU, WT_CONF_DISK, WT_CONF_GPU} \<and> rep_scan_sample_count rep \<le> 1 \<and>
      (m = WT_CONF_CPU \<longrightarrow> cm_total_usage_percent (rep_cpu rep) < 95) \<and>
      (m = WT_CONF_DISK \<longrightarrow> rep_disk_active_percent rep < 95)"
    using single_sample_suppressed that by blast
qed

theorem confidence_bounds_and_suppression_witness:
  "let r = zero_WT_ScanReport\<lparr>rep_cpu := zero_WT_CpuMetrics\<lparr>cm_total_usage_percent := 90\<rparr>,
     rep_cpu_ok := True, rep_scan_sample_count := 1\<rparr>
   in \<not> wt_confidence_should_emit r WT_CONF_CPU (wt_confidence_compute r WT_CONF_CPU 75) \<and>
      length (wt_confidence_basis r WT_CONF_CPU 96) < 96"
  using confidence_bounds_and_suppression [of "zero_WT_ScanReport\<lparr>rep_cpu :=
     zero_WT_CpuMetrics\<lparr>cm_total_usage_percent := 90\<rparr>, rep_cpu_ok := True, rep_scan_sample_count := 1\<rparr>"
     WT_CONF_CPU 75 75 "wt_confidence_compute (zero_WT_ScanReport\<lparr>rep_cpu :=
     zero_WT_CpuMetrics\<lparr>cm_total_usage_percent := 90\<rparr>, rep_cpu_ok := True, rep_scan_sample_count := 1\<rparr>)
     WT_CONF_CPU 75" 96]
  by (simp add: Let_def)

end
