(* ===== verification/System_Model.thy ===== *)
theory System_Model
  imports Report_Model
begin

text \<open>
  What the collectors outside the scan report return: startup entries, scheduled tasks, restart
  blockers, storage health, reliability and maintenance reports (the \<open>struct\<close>s of \<open>src/system\<close>).
  The conventions are those of \<open>Report_Model\<close>.
\<close>

datatype WT_StartupSource =
    WT_STARTUP_SRC_HKCU_RUN | WT_STARTUP_SRC_HKLM_RUN | WT_STARTUP_SRC_HKCU_RUNONCE
    | WT_STARTUP_SRC_HKLM_RUNONCE | WT_STARTUP_SRC_USER_FOLDER | WT_STARTUP_SRC_COMMON_FOLDER

datatype WT_StartupImpact =
    WT_STARTUP_IMPACT_UNKNOWN | WT_STARTUP_IMPACT_LOW | WT_STARTUP_IMPACT_MEDIUM
    | WT_STARTUP_IMPACT_HIGH

record WT_StartupEntry =
  se_id :: string
  se_name :: string
  se_command :: string
  se_source :: WT_StartupSource
  se_enabled :: bool
  se_impact :: WT_StartupImpact
  se_impact_score :: int
  se_impact_confidence :: int
  se_measured_ms :: nat
  se_measured_available :: bool
  se_identity :: WT_FileIdentity

definition zero_WT_StartupEntry :: WT_StartupEntry where
  "zero_WT_StartupEntry = \<lparr>se_id = [], se_name = [], se_command = [], se_source = WT_STARTUP_SRC_HKCU_RUN,
     se_enabled = False, se_impact = WT_STARTUP_IMPACT_UNKNOWN, se_impact_score = 0,
     se_impact_confidence = 0, se_measured_ms = 0, se_measured_available = False,
     se_identity = zero_WT_FileIdentity\<rparr>"

datatype WT_TaskTriggerKind =
    WT_TASK_TRIGGER_NONE | WT_TASK_TRIGGER_BOOT | WT_TASK_TRIGGER_LOGON | WT_TASK_TRIGGER_OTHER

record WT_ScheduledTask =
  st_id :: string
  st_name :: string
  st_path :: string
  st_command :: string
  st_author :: string
  st_enabled :: bool
  st_trigger_kind :: WT_TaskTriggerKind
  st_delay_seconds :: nat
  st_impact :: WT_StartupImpact
  st_impact_score :: int
  st_impact_confidence :: int
  st_is_microsoft :: bool
  st_measured_ms :: nat
  st_measured_available :: bool

definition zero_WT_ScheduledTask :: WT_ScheduledTask where
  "zero_WT_ScheduledTask = \<lparr>st_id = [], st_name = [], st_path = [], st_command = [], st_author = [],
     st_enabled = False, st_trigger_kind = WT_TASK_TRIGGER_NONE, st_delay_seconds = 0,
     st_impact = WT_STARTUP_IMPACT_UNKNOWN, st_impact_score = 0, st_impact_confidence = 0,
     st_is_microsoft = False, st_measured_ms = 0, st_measured_available = False\<rparr>"

datatype WT_BlockerKind =
    WT_BLOCKER_SHUTDOWN | WT_BLOCKER_FILE_LOCK

record WT_BlockerProcess =
  bp_pid :: nat
  bp_name :: string
  bp_app_name :: string
  bp_kind :: WT_BlockerKind
  bp_reason :: string

definition zero_WT_BlockerProcess :: WT_BlockerProcess where
  "zero_WT_BlockerProcess = \<lparr>bp_pid = 0, bp_name = [], bp_app_name = [], bp_kind = WT_BLOCKER_SHUTDOWN,
     bp_reason = []\<rparr>"

record WT_LockedFile =
  lf_path :: string
  lf_process_count :: nat
  lf_pids :: "nat list"
  lf_process_names :: "string list"

definition zero_WT_LockedFile :: WT_LockedFile where
  "zero_WT_LockedFile = \<lparr>lf_path = [], lf_process_count = 0, lf_pids = [], lf_process_names = []\<rparr>"

record WT_BlockerReport =
  bk_reboot_pending :: bool
  bk_reboot_wu :: bool
  bk_reboot_cbs :: bool
  bk_reboot_pending_file_rename :: bool
  bk_process_blocker_count :: nat
  bk_process_blockers :: "WT_BlockerProcess list"
  bk_locked_file_count :: nat
  bk_locked_files :: "WT_LockedFile list"
  bk_pending_rename_file_count :: nat
  bk_note :: string

definition zero_WT_BlockerReport :: WT_BlockerReport where
  "zero_WT_BlockerReport = \<lparr>bk_reboot_pending = False, bk_reboot_wu = False, bk_reboot_cbs = False,
     bk_reboot_pending_file_rename = False, bk_process_blocker_count = 0,
     bk_process_blockers = [], bk_locked_file_count = 0, bk_locked_files = [],
     bk_pending_rename_file_count = 0, bk_note = []\<rparr>"

datatype WT_StorageHealthStatus =
    WT_STORAGE_HEALTH_UNKNOWN | WT_STORAGE_HEALTH_OK | WT_STORAGE_HEALTH_WARNING
    | WT_STORAGE_HEALTH_DEGRADED | WT_STORAGE_HEALTH_UNAVAILABLE

record WT_StorageDiskHealth =
  sd_physical_drive :: nat
  sd_model :: string
  sd_serial :: string
  sd_bus_type :: string
  sd_media_hint :: string
  sd_status :: WT_StorageHealthStatus
  sd_predict_failure :: int
  sd_descriptor_ok :: bool
  sd_predict_ok :: bool
  sd_temperature_ok :: bool
  sd_temperature_c :: int
  sd_warning_temperature_ok :: bool
  sd_warning_temperature_c :: int
  sd_critical_temperature_ok :: bool
  sd_critical_temperature_c :: int
  sd_smart_ok :: bool
  sd_spare_percent :: int
  sd_spare_threshold_percent :: int
  sd_percentage_used :: int
  sd_critical_warning :: int
  sd_note :: string

definition zero_WT_StorageDiskHealth :: WT_StorageDiskHealth where
  "zero_WT_StorageDiskHealth = \<lparr>sd_physical_drive = 0, sd_model = [], sd_serial = [], sd_bus_type = [],
     sd_media_hint = [], sd_status = WT_STORAGE_HEALTH_UNKNOWN, sd_predict_failure = 0,
     sd_descriptor_ok = False, sd_predict_ok = False, sd_temperature_ok = False,
     sd_temperature_c = 0, sd_warning_temperature_ok = False, sd_warning_temperature_c = 0,
     sd_critical_temperature_ok = False, sd_critical_temperature_c = 0, sd_smart_ok = False,
     sd_spare_percent = 0, sd_spare_threshold_percent = 0, sd_percentage_used = 0,
     sd_critical_warning = 0, sd_note = []\<rparr>"

record WT_StorageHealthReport =
  sh_disks :: "WT_StorageDiskHealth list"
  sh_any_degraded :: bool
  sh_any_warning :: bool
  sh_any_unavailable :: bool
  sh_note :: string

definition zero_WT_StorageHealthReport :: WT_StorageHealthReport where
  "zero_WT_StorageHealthReport = \<lparr>sh_disks = [], sh_any_degraded = False, sh_any_warning = False,
     sh_any_unavailable = False, sh_note = []\<rparr>"

datatype WT_ReliabilityKind =
    WT_REL_UNKNOWN | WT_REL_KERNEL_POWER | WT_REL_UNEXPECTED_SHUTDOWN | WT_REL_BUGCHECK
    | WT_REL_APP_CRASH | WT_REL_APP_HANG | WT_REL_WER_REPORT

record WT_ReliabilityEvent =
  re_kind :: WT_ReliabilityKind
  re_event_id :: nat
  re_time_utc :: string
  re_detail :: string

definition zero_WT_ReliabilityEvent :: WT_ReliabilityEvent where
  "zero_WT_ReliabilityEvent = \<lparr>re_kind = WT_REL_UNKNOWN, re_event_id = 0, re_time_utc = [], re_detail = []\<rparr>"

record WT_ReliabilityCrashApp =
  ca_name :: string
  ca_count :: nat

definition zero_WT_ReliabilityCrashApp :: WT_ReliabilityCrashApp where
  "zero_WT_ReliabilityCrashApp = \<lparr>ca_name = [], ca_count = 0\<rparr>"

record WT_ReliabilityDumpMeta =
  rd_name :: string
  rd_location :: string
  rd_size_bytes :: nat
  rd_modified_utc :: string
  rd_is_directory :: bool

definition zero_WT_ReliabilityDumpMeta :: WT_ReliabilityDumpMeta where
  "zero_WT_ReliabilityDumpMeta = \<lparr>rd_name = [], rd_location = [], rd_size_bytes = 0, rd_modified_utc = [],
     rd_is_directory = False\<rparr>"

record WT_ReliabilityReport =
  rr_lookback_days :: int
  rr_kernel_power_count :: nat
  rr_unexpected_shutdown_count :: nat
  rr_bugcheck_count :: nat
  rr_app_crash_count :: nat
  rr_app_hang_count :: nat
  rr_wer_report_count :: nat
  rr_last_unexpected_utc :: string
  rr_last_bugcheck_utc :: string
  rr_last_bugcheck_detail :: string
  rr_recent :: "WT_ReliabilityEvent list"
  rr_crash_apps :: "WT_ReliabilityCrashApp list"
  rr_dumps :: "WT_ReliabilityDumpMeta list"
  rr_events_ok :: bool
  rr_dumps_ok :: bool
  rr_note :: string

definition zero_WT_ReliabilityReport :: WT_ReliabilityReport where
  "zero_WT_ReliabilityReport = \<lparr>rr_lookback_days = 0, rr_kernel_power_count = 0, rr_unexpected_shutdown_count = 0,
     rr_bugcheck_count = 0, rr_app_crash_count = 0, rr_app_hang_count = 0,
     rr_wer_report_count = 0, rr_last_unexpected_utc = [], rr_last_bugcheck_utc = [],
     rr_last_bugcheck_detail = [], rr_recent = [], rr_crash_apps = [], rr_dumps = [],
     rr_events_ok = False, rr_dumps_ok = False, rr_note = []\<rparr>"

datatype WT_MaintKind =
    WT_MAINT_UNKNOWN | WT_MAINT_DEFENDER | WT_MAINT_WINDOWS_UPDATE | WT_MAINT_OPTIMIZATION

record WT_MaintHit =
  mh_kind :: WT_MaintKind
  mh_source :: string
  mh_name :: string
  mh_cpu_percent :: rat
  mh_disk_bytes_per_sec :: rat
  mh_task_running :: bool
  mh_last_run_recent :: bool
  mh_last_run_utc :: string

definition zero_WT_MaintHit :: WT_MaintHit where
  "zero_WT_MaintHit = \<lparr>mh_kind = WT_MAINT_UNKNOWN, mh_source = [], mh_name = [], mh_cpu_percent = 0,
     mh_disk_bytes_per_sec = 0, mh_task_running = False, mh_last_run_recent = False,
     mh_last_run_utc = []\<rparr>"

record WT_MaintenanceReport =
  mr_scan_ok :: bool
  mr_sample_count :: nat
  mr_cpu_percent :: rat
  mr_disk_active_percent :: rat
  mr_cpu_hot_samples :: nat
  mr_disk_hot_samples :: nat
  mr_cpu_hot :: bool
  mr_disk_hot :: bool
  mr_hits :: "WT_MaintHit list"
  mr_defender_active :: bool
  mr_update_active :: bool
  mr_optimize_active :: bool
  mr_overlap :: bool
  mr_note :: string

definition zero_WT_MaintenanceReport :: WT_MaintenanceReport where
  "zero_WT_MaintenanceReport = \<lparr>mr_scan_ok = False, mr_sample_count = 0, mr_cpu_percent = 0,
     mr_disk_active_percent = 0, mr_cpu_hot_samples = 0, mr_disk_hot_samples = 0,
     mr_cpu_hot = False, mr_disk_hot = False, mr_hits = [], mr_defender_active = False,
     mr_update_active = False, mr_optimize_active = False, mr_overlap = False, mr_note = []\<rparr>"

end
