(* ===== verification/File_Identity.thy ===== *)
theory File_Identity
  imports Report_Model
begin

text \<open>
  Publisher, signature and install location of a binary (\<open>src/system/file_identity.c\<close>).

  The environment block is the record \<open>path_env\<close> (an unset variable is the empty string). What Windows
  answers about a file (attributes, version resource, Authenticode) is the record \<open>file_probe\<close>; the
  process-lifetime cache is a list of at most 256 pairs.
\<close>

section \<open>Names\<close>

definition wt_signature_status_name :: "WT_SignatureStatus \<Rightarrow> string" where
  "wt_signature_status_name s = (case s of
     WT_SIG_UNSIGNED \<Rightarrow> ''unsigned'' | WT_SIG_SIGNED \<Rightarrow> ''signed''
   | WT_SIG_SIGNED_MICROSOFT \<Rightarrow> ''signed-microsoft'' | WT_SIG_UNAVAILABLE \<Rightarrow> ''unavailable''
   | WT_SIG_UNKNOWN \<Rightarrow> ''unknown'')"

definition wt_publisher_origin_name :: "WT_PublisherOrigin \<Rightarrow> string" where
  "wt_publisher_origin_name p = (case p of
     WT_ORIGIN_MICROSOFT \<Rightarrow> ''microsoft'' | WT_ORIGIN_THIRD_PARTY \<Rightarrow> ''third-party''
   | WT_ORIGIN_UNKNOWN \<Rightarrow> ''unknown'')"

definition wt_install_location_name :: "WT_InstallLocation \<Rightarrow> string" where
  "wt_install_location_name l = (case l of
     WT_LOC_WINDOWS \<Rightarrow> ''windows'' | WT_LOC_PROGRAM_FILES \<Rightarrow> ''program-files''
   | WT_LOC_PROGRAM_FILES_X86 \<Rightarrow> ''program-files-x86'' | WT_LOC_USER_APP_DATA \<Rightarrow> ''user-appdata''
   | WT_LOC_TEMP \<Rightarrow> ''temp'' | WT_LOC_DOWNLOADS \<Rightarrow> ''downloads'' | WT_LOC_OTHER \<Rightarrow> ''other''
   | WT_LOC_UNKNOWN \<Rightarrow> ''unknown'')"

section \<open>Install location\<close>

definition MAX_PATH :: nat where "MAX_PATH = 260"

record path_env =
  pe_system_root :: string
  pe_program_files :: string
  pe_program_files_x86 :: string
  pe_local_app_data :: string
  pe_app_data :: string
  pe_temp :: string
  pe_user_profile :: string

definition wt_wcs_ieq_prefix :: "string \<Rightarrow> string \<Rightarrow> bool" where
  "wt_wcs_ieq_prefix s pre = wcsnicmp (length pre) s pre"

fun path_contains_from :: "string \<Rightarrow> string \<Rightarrow> bool" where
  "path_contains_from [] needle = False"
| "path_contains_from (c # cs) needle =
     (wcsnicmp (length needle) (c # cs) needle \<or> path_contains_from cs needle)"

definition wt_path_contains_ci :: "string \<Rightarrow> string \<Rightarrow> bool" where
  "wt_path_contains_ci path needle = (if needle = [] then False else path_contains_from path needle)"

definition under_dir :: "string \<Rightarrow> string \<Rightarrow> string \<Rightarrow> bool" where
  \<comment> \<open>the variable is set, \<open>dir + tail\<close> fits the buffer and is a prefix of the path\<close>
  "under_dir path dir tail =
     (dir \<noteq> [] \<and> cch_fits MAX_PATH (dir @ tail) \<and> wt_wcs_ieq_prefix path (dir @ tail))"

definition wt_identity_classify_location :: "path_env \<Rightarrow> string \<Rightarrow> WT_InstallLocation" where
  "wt_identity_classify_location env path =
     (if path = [] then WT_LOC_UNKNOWN
      else if under_dir path (pe_system_root env) (bsl ''/'') then WT_LOC_WINDOWS
      else if wt_path_contains_ci path (bsl ''/Windows/System32/'') \<or>
              wt_path_contains_ci path (bsl ''/Windows/SysWOW64/'') \<or>
              wt_path_contains_ci path (bsl ''/Windows/WinSxS/'') then WT_LOC_WINDOWS
      else if under_dir path (pe_program_files env) (bsl ''/'') then WT_LOC_PROGRAM_FILES
      else if under_dir path (pe_program_files_x86 env) (bsl ''/'') then WT_LOC_PROGRAM_FILES_X86
      else if wt_path_contains_ci path (bsl ''/Program Files (x86)/'') then WT_LOC_PROGRAM_FILES_X86
      else if wt_path_contains_ci path (bsl ''/Program Files/'') then WT_LOC_PROGRAM_FILES
      else if under_dir path (pe_temp env) (bsl ''/'') then WT_LOC_TEMP
      else if wt_path_contains_ci path (bsl ''/Temp/'') \<or>
              wt_path_contains_ci path (bsl ''/Windows/Temp/'') then WT_LOC_TEMP
      else if under_dir path (pe_user_profile env) (bsl ''/Downloads/'') then WT_LOC_DOWNLOADS
      else if wt_path_contains_ci path (bsl ''/Downloads/'') then WT_LOC_DOWNLOADS
      else if under_dir path (pe_local_app_data env) (bsl ''/'') then WT_LOC_USER_APP_DATA
      else if under_dir path (pe_app_data env) (bsl ''/'') then WT_LOC_USER_APP_DATA
      else if wt_path_contains_ci path (bsl ''/AppData/Local/'') \<or>
              wt_path_contains_ci path (bsl ''/AppData/Roaming/'') then WT_LOC_USER_APP_DATA
      else WT_LOC_OTHER)"

definition wt_location_is_unusual :: "WT_PublisherOrigin \<Rightarrow> WT_InstallLocation \<Rightarrow> bool" where
  "wt_location_is_unusual origin location =
     (if location = WT_LOC_TEMP \<or> location = WT_LOC_DOWNLOADS then True
      else origin = WT_ORIGIN_MICROSOFT \<and> location \<noteq> WT_LOC_WINDOWS \<and>
           location \<noteq> WT_LOC_PROGRAM_FILES \<and> location \<noteq> WT_LOC_PROGRAM_FILES_X86 \<and>
           location \<noteq> WT_LOC_UNKNOWN)"

section \<open>Path of a command line\<close>

text \<open>\<open>expand\<close> is \<open>ExpandEnvironmentStringsW\<close> into \<open>MAX_PATH\<close> units: None when it fails or does not fit.\<close>

definition wt_identity_extract_path ::
  "(string \<Rightarrow> string option) \<Rightarrow> string \<Rightarrow> nat \<Rightarrow> WT_Result \<times> string" where
  "wt_identity_extract_path expand cmd out_count =
     (let p = dropWhile is_blank cmd
      in if p = [] then (WT_ERR_NOT_FOUND, [])
         else let buf = (if hd p = CHR 0x22
                         then take (MAX_PATH - 1) (takeWhile (\<lambda>c. c \<noteq> CHR 0x22) (tl p))
                         else take (MAX_PATH - 1) (takeWhile (\<lambda>c. \<not> is_blank c) p))
              in if buf = [] then (WT_ERR_NOT_FOUND, [])
                 else let src = (case expand buf of Some e \<Rightarrow> e | None \<Rightarrow> buf)
                      in if \<not> cch_fits out_count src
                         then (WT_ERR_BUFFER_TOO_SMALL, cch_copy out_count src)
                         else (WT_OK, src))"

section \<open>Identity of a file\<close>

record file_probe =
  fp_env :: path_env
  fp_is_file :: "string \<Rightarrow> bool"
  fp_company :: "string \<Rightarrow> string"
  fp_product :: "string \<Rightarrow> string"
  fp_verify :: "string \<Rightarrow> WT_SignatureStatus"
  fp_expand :: "string \<Rightarrow> string option"

type_synonym identity_cache = "(string \<times> WT_FileIdentity) list"

definition WT_IDENTITY_CACHE_MAX :: nat where "WT_IDENTITY_CACHE_MAX = 256"

definition wt_identity_clear :: WT_FileIdentity where
  "wt_identity_clear = zero_WT_FileIdentity\<lparr>fi_signature := WT_SIG_UNAVAILABLE,
     fi_origin := WT_ORIGIN_UNKNOWN, fi_location := WT_LOC_UNKNOWN, fi_unusual_location := False\<rparr>"

definition wt_cache_lookup :: "identity_cache \<Rightarrow> string \<Rightarrow> WT_FileIdentity option" where
  "wt_cache_lookup cache path = map_option snd (find_first (\<lambda>e. wcsicmp (fst e) path) cache)"

definition wt_cache_store :: "identity_cache \<Rightarrow> string \<Rightarrow> WT_FileIdentity \<Rightarrow> identity_cache" where
  "wt_cache_store cache path i =
     (if length cache \<ge> WT_IDENTITY_CACHE_MAX then cache else cache @ [(cch_copy MAX_PATH path, i)])"

definition wt_publisher_looks_microsoft :: "string \<Rightarrow> bool" where
  "wt_publisher_looks_microsoft publisher = (publisher \<noteq> [] \<and> contains_str publisher ''Microsoft'')"

definition identity_origin ::
  "string \<Rightarrow> WT_SignatureStatus \<Rightarrow> WT_InstallLocation \<Rightarrow> WT_PublisherOrigin \<times> WT_SignatureStatus" where
  \<comment> \<open>the two tests of publisher, signature and location in \<open>wt_identity_from_path\<close>\<close>
  "identity_origin publisher sig loc =
     (let (origin, signature) =
            (if wt_publisher_looks_microsoft publisher
             then (WT_ORIGIN_MICROSOFT, if sig = WT_SIG_SIGNED then WT_SIG_SIGNED_MICROSOFT else sig)
             else if publisher \<noteq> [] then (WT_ORIGIN_THIRD_PARTY, sig)
             else if sig = WT_SIG_SIGNED then (WT_ORIGIN_THIRD_PARTY, sig)
             else (WT_ORIGIN_UNKNOWN, sig))
      in if origin = WT_ORIGIN_UNKNOWN \<and> loc = WT_LOC_WINDOWS
         then (WT_ORIGIN_MICROSOFT, if sig = WT_SIG_SIGNED then WT_SIG_SIGNED_MICROSOFT else signature)
         else (origin, signature))"

definition identity_fresh :: "file_probe \<Rightarrow> string \<Rightarrow> WT_FileIdentity" where
  \<comment> \<open>\<open>wt_identity_from_path\<close> below the cache lookup\<close>
  "identity_fresh w path =
     (let loc = wt_identity_classify_location (fp_env w) path;
          i = wt_identity_clear\<lparr>fi_path := cch_copy MAX_PATH path, fi_location := loc\<rparr>
      in if \<not> fp_is_file w path
         then i\<lparr>fi_signature := WT_SIG_UNAVAILABLE, fi_available := False,
                fi_unusual_location := wt_location_is_unusual (fi_origin i) loc\<rparr>
         else let publisher = cch_copy 128 (fp_company w path);
                  (origin, signature) = identity_origin publisher (fp_verify w path) loc
              in i\<lparr>fi_available := True, fi_publisher := publisher,
                    fi_product_name := cch_copy 128 (fp_product w path),
                    fi_signature := signature, fi_origin := origin,
                    fi_unusual_location := wt_location_is_unusual origin loc\<rparr>)"

definition wt_identity_from_path ::
  "file_probe \<Rightarrow> string \<Rightarrow> identity_cache \<Rightarrow> WT_Result \<times> WT_FileIdentity \<times> identity_cache" where
  "wt_identity_from_path w path cache =
     (if path = [] then (WT_ERR_NOT_FOUND, wt_identity_clear, cache)
      else case wt_cache_lookup cache path of
        Some i \<Rightarrow> (WT_OK, i, cache)
      | None \<Rightarrow> (let i = identity_fresh w path in (WT_OK, i, wt_cache_store cache path i)))"

definition wt_identity_from_command ::
  "file_probe \<Rightarrow> string \<Rightarrow> identity_cache \<Rightarrow> WT_Result \<times> WT_FileIdentity \<times> identity_cache" where
  "wt_identity_from_command w command cache =
     (let (r, path) = wt_identity_extract_path (fp_expand w) command MAX_PATH
      in if r \<noteq> WT_OK then (r, wt_identity_clear, cache) else wt_identity_from_path w path cache)"

definition wt_identity_from_pid ::
  "file_probe \<Rightarrow> (nat \<Rightarrow> WT_Result \<times> string) \<Rightarrow> nat \<Rightarrow> identity_cache \<Rightarrow>
   WT_Result \<times> WT_FileIdentity \<times> identity_cache" where
  \<comment> \<open>\<open>img\<close>: \<open>OpenProcess\<close> and \<open>QueryFullProcessImageNameW\<close>\<close>
  "wt_identity_from_pid w img pid cache =
     (if pid = 0 then (WT_ERR_INVALID_ARGUMENT, wt_identity_clear, cache)
      else case img pid of (r, path) \<Rightarrow>
        if r \<noteq> WT_OK then (r, wt_identity_clear, cache) else wt_identity_from_path w path cache)"

section \<open>Case does not matter\<close>

lemma wcsicmp_take: "wcsicmp a b \<Longrightarrow> wcsicmp (take n a) (take n b)"
  by (simp add: wcsicmp_def flip: take_map)

lemma wcsnicmp_cong: "wcsicmp a b \<Longrightarrow> wcsnicmp n a p = wcsnicmp n b p"
  using wcsicmp_take [of a b n] by (auto simp: wcsnicmp_def wcsicmp_def)

lemma path_contains_cong: "wcsicmp a b \<Longrightarrow> path_contains_from a n = path_contains_from b n"
proof (induction a n arbitrary: b rule: path_contains_from.induct)
  case (1 needle)
  then have "b = []" using wcsicmp_length [of "[]" b] by simp
  then show ?case by simp
next
  case (2 c cs needle)
  then obtain d ds where b: "b = d # ds" using wcsicmp_length [of "c # cs" b] by (cases b) auto
  then have "wcsicmp cs ds" using 2(2) by (simp add: wcsicmp_def)
  then show ?case using 2 b wcsnicmp_cong [of "c # cs" b] by auto
qed

lemma under_dir_cong: "wcsicmp a b \<Longrightarrow> under_dir a d t = under_dir b d t"
  using wcsnicmp_cong [of a b] by (simp add: under_dir_def wt_wcs_ieq_prefix_def)

lemma classify_cong:
  assumes "wcsicmp a b"
  shows "wt_identity_classify_location env a = wt_identity_classify_location env b"
proof -
  have "a = [] \<longleftrightarrow> b = []" using wcsicmp_length [OF assms] by auto
  moreover have "wt_path_contains_ci a n = wt_path_contains_ci b n" for n
    using path_contains_cong [OF assms] by (simp add: wt_path_contains_ci_def)
  ultimately show ?thesis
    by (simp only: wt_identity_classify_location_def under_dir_cong [OF assms])
qed

section \<open>The cache is transparent\<close>

definition probe_ci :: "file_probe \<Rightarrow> bool" where
  \<comment> \<open>Windows file names: paths that differ in case only name the same file\<close>
  "probe_ci w \<longleftrightarrow> (\<forall>a b. wcsicmp a b \<longrightarrow> fp_is_file w a = fp_is_file w b \<and>
     fp_company w a = fp_company w b \<and> fp_product w a = fp_product w b \<and> fp_verify w a = fp_verify w b)"

definition cache_ok :: "file_probe \<Rightarrow> identity_cache \<Rightarrow> bool" where
  "cache_ok w cache \<longleftrightarrow> length cache \<le> WT_IDENTITY_CACHE_MAX \<and>
     (\<forall>(p, i) \<in> set cache. \<exists>q. i = identity_fresh w q \<and> p = cch_copy MAX_PATH q)"

definition same_file_info :: "WT_FileIdentity \<Rightarrow> WT_FileIdentity \<Rightarrow> bool" where
  \<comment> \<open>all fields but the spelling of the path\<close>
  "same_file_info i j \<longleftrightarrow> i\<lparr>fi_path := []\<rparr> = j\<lparr>fi_path := []\<rparr>"

lemma fresh_cong: "probe_ci w \<Longrightarrow> wcsicmp a b \<Longrightarrow> same_file_info (identity_fresh w a) (identity_fresh w b)"
  using classify_cong [of a b "fp_env w"]
  by (simp add: probe_ci_def same_file_info_def identity_fresh_def Let_def case_prod_beta)

fun identity_calls :: "file_probe \<Rightarrow> string list \<Rightarrow> identity_cache \<Rightarrow> identity_cache" where
  \<comment> \<open>the cache after looking up some paths\<close>
  "identity_calls w [] cache = cache"
| "identity_calls w (p # ps) cache = identity_calls w ps (snd (snd (wt_identity_from_path w p cache)))"

lemma cache_ok_step: "cache_ok w cache \<Longrightarrow> cache_ok w (snd (snd (wt_identity_from_path w p cache)))"
  by (auto simp: wt_identity_from_path_def cache_ok_def wt_cache_store_def Let_def split: option.splits)

lemma cache_ok_calls: "cache_ok w cache \<Longrightarrow> cache_ok w (identity_calls w ps cache)"
  by (induction ps arbitrary: cache) (simp_all add: cache_ok_step)

lemma lookup_fresh:
  assumes "cache_ok w cache" "probe_ci w" "length path < MAX_PATH - 1"
    "wt_cache_lookup cache path = Some i"
  shows "same_file_info i (identity_fresh w path)"
proof -
  obtain p where p: "(p, i) \<in> set cache" "wcsicmp p path"
    using assms(4) find_first_Some [of "\<lambda>e. wcsicmp (fst e) path" cache]
    by (fastforce simp: wt_cache_lookup_def)
  then obtain q where q: "i = identity_fresh w q" "p = cch_copy MAX_PATH q"
    using assms(1) by (auto simp: cache_ok_def)
  have "length p < MAX_PATH - 1" using wcsicmp_length [OF p(2)] assms(3) by simp
  then have "p = q" using q(2) by (auto simp: cch_copy_def)
  then show ?thesis using fresh_cong [OF assms(2), of q path] p(2) q(1) by simp
qed

text \<open>C15. The identity cache is transparent: whatever paths were looked up before, looking up a
  path (shorter than \<open>MAX_PATH - 1\<close> units, on a file system that ignores case) succeeds and gives the same
  publisher, product, signature, origin, location and review flag as a fresh look at the file, and the
  cache never holds more than 256 entries.\<close>

theorem identity_cache_transparent:
  assumes "probe_ci w" "path \<noteq> []" "length path < MAX_PATH - 1"
  shows "let (r, i, c) = wt_identity_from_path w path (identity_calls w ps [])
         in r = WT_OK \<and> same_file_info i (identity_fresh w path) \<and> length c \<le> WT_IDENTITY_CACHE_MAX"
proof -
  have ok: "cache_ok w (identity_calls w ps [])"
    by (rule cache_ok_calls) (simp add: cache_ok_def)
  note step = cache_ok_step [OF ok, of path]
  have len: "length (snd (snd (wt_identity_from_path w path (identity_calls w ps [])))) \<le> WT_IDENTITY_CACHE_MAX"
    using step by (simp add: cache_ok_def)
  show ?thesis
  proof (cases "wt_cache_lookup (identity_calls w ps []) path")
    case None
    then show ?thesis using len assms(2)
      by (simp add: wt_identity_from_path_def same_file_info_def Let_def)
  next
    case (Some i)
    then show ?thesis using len assms(2) lookup_fresh [OF ok assms(1,3) Some]
      by (simp add: wt_identity_from_path_def)
  qed
qed

definition demo_env :: path_env where
  "demo_env = \<lparr>pe_system_root = bsl ''C:/Windows'', pe_program_files = bsl ''C:/Program Files'',
     pe_program_files_x86 = bsl ''C:/Program Files (x86)'', pe_local_app_data = bsl ''C:/U/AppData/Local'',
     pe_app_data = bsl ''C:/U/AppData/Roaming'', pe_temp = bsl ''C:/U/T'', pe_user_profile = bsl ''C:/U''\<rparr>"

definition demo_probe :: file_probe where
  "demo_probe = \<lparr>fp_env = demo_env, fp_is_file = (\<lambda>p. True), fp_company = (\<lambda>p. ''Acme''),
     fp_product = (\<lambda>p. ''Tool''), fp_verify = (\<lambda>p. WT_SIG_SIGNED), fp_expand = Some\<rparr>"

theorem identity_cache_transparent_witness:
  "let (r, i, c) = wt_identity_from_path demo_probe (bsl ''C:/U/Downloads/X.exe'')
       (identity_calls demo_probe [bsl ''c:/u/downloads/x.EXE'', ''D''] [])
   in r = WT_OK \<and> same_file_info i (identity_fresh demo_probe (bsl ''C:/U/Downloads/X.exe'')) \<and>
      length c \<le> WT_IDENTITY_CACHE_MAX"
  by (rule identity_cache_transparent)
    (simp_all add: probe_ci_def demo_probe_def bsl_def MAX_PATH_def)

section \<open>What is flagged for review\<close>

lemma under_self: "d \<noteq> [] \<Longrightarrow> length (d @ t) < MAX_PATH \<Longrightarrow> under_dir (d @ t @ r) d t"
  by (simp add: under_dir_def cch_fits_def wt_wcs_ieq_prefix_def wcsnicmp_def)

text \<open>Review flag and location: a file that is not available is never called Microsoft's or a third party's and
  its signature is unavailable; an available one is flagged exactly for temporary and download folders or for
  a Microsoft binary outside the Windows and Program Files folders; and since the Windows folder is tested first,
  a file in the Windows folder's own Temp is filed under Windows and never flagged there as temporary.\<close>

theorem identity_review_flag:
  "let i = identity_fresh w path in
     (\<not> fp_is_file w path \<longrightarrow> \<not> fi_available i \<and> fi_origin i = WT_ORIGIN_UNKNOWN \<and>
        fi_signature i = WT_SIG_UNAVAILABLE) \<and>
     (fi_unusual_location i \<longleftrightarrow> fi_location i \<in> {WT_LOC_TEMP, WT_LOC_DOWNLOADS} \<or>
        fi_origin i = WT_ORIGIN_MICROSOFT \<and> fi_location i \<in> {WT_LOC_USER_APP_DATA, WT_LOC_OTHER}) \<and>
     (pe_system_root (fp_env w) \<noteq> [] \<and> length (pe_system_root (fp_env w)) < MAX_PATH - 1 \<and>
        path = pe_system_root (fp_env w) @ bsl ''/Temp/'' @ f
        \<longrightarrow> fi_location i = WT_LOC_WINDOWS \<and> \<not> fi_unusual_location i)"
proof -
  let ?loc = "wt_identity_classify_location (fp_env w) path"
  have i: "fi_location (identity_fresh w path) = ?loc"
    "fi_unusual_location (identity_fresh w path)
       = wt_location_is_unusual (fi_origin (identity_fresh w path)) ?loc"
    by (simp_all add: identity_fresh_def Let_def case_prod_beta)
  have u: "wt_location_is_unusual p l \<longleftrightarrow> l \<in> {WT_LOC_TEMP, WT_LOC_DOWNLOADS} \<or>
        p = WT_ORIGIN_MICROSOFT \<and> l \<in> {WT_LOC_USER_APP_DATA, WT_LOC_OTHER}" for p l
    by (cases l) (simp_all add: wt_location_is_unusual_def)
  have win: "?loc = WT_LOC_WINDOWS"
    if "pe_system_root (fp_env w) \<noteq> []" "length (pe_system_root (fp_env w)) < MAX_PATH - 1"
      "path = pe_system_root (fp_env w) @ bsl ''/Temp/'' @ f"
  proof -
    have "path = pe_system_root (fp_env w) @ bsl ''/'' @ bsl ''Temp/'' @ f"
      using that(3) by (simp add: bsl_def)
    then show ?thesis
      using under_self [of "pe_system_root (fp_env w)" "bsl ''/''" "bsl ''Temp/'' @ f"] that(1,2)
      by (auto simp: wt_identity_classify_location_def)
  qed
  have "\<not> fp_is_file w path \<longrightarrow> \<not> fi_available (identity_fresh w path) \<and>
      fi_origin (identity_fresh w path) = WT_ORIGIN_UNKNOWN \<and>
      fi_signature (identity_fresh w path) = WT_SIG_UNAVAILABLE"
    by (simp add: identity_fresh_def Let_def wt_identity_clear_def)
  then show ?thesis unfolding Let_def i u using win by auto
qed

theorem identity_review_flag_witness:
  "\<not> fi_unusual_location (identity_fresh demo_probe (bsl ''C:/Windows'' @ bsl ''/Temp/'' @ ''x.exe''))"
  using identity_review_flag [of demo_probe "bsl ''C:/Windows'' @ bsl ''/Temp/'' @ ''x.exe''" "''x.exe''"]
  by (simp add: Let_def demo_probe_def demo_env_def MAX_PATH_def bsl_def)

end
