(* ===== verification/Impact_Score.thy ===== *)
theory Impact_Score
  imports System_Model File_Identity
begin

text \<open>
  Evidence-based impact of one startup entry or task (\<open>src/core/impact_score.c\<close>). The evidence
  bits \<open>WT_IMPACT_EV_*\<close> are a set.
\<close>

datatype impact_evidence =
    EV_MEASURED | EV_HEURISTIC | EV_PUBLISHER | EV_LOCATION | EV_RUNTIME

record WT_ImpactInput =
  ii_name :: string
  ii_command :: string
  ii_measured_ms :: nat
  ii_measured_available :: bool
  ii_origin :: WT_PublisherOrigin
  ii_unusual_location :: bool
  ii_microsoft_protected :: bool
  ii_cpu_percent :: rat
  ii_working_set_bytes :: nat
  ii_disk_bytes_per_sec :: rat

record WT_ImpactScore =
  is_score :: int
  is_band :: WT_StartupImpact
  is_confidence_percent :: int
  is_evidence :: "impact_evidence list"

definition WT_IMPACT_RECOMMEND_SCORE_MIN :: int where "WT_IMPACT_RECOMMEND_SCORE_MIN = 65"
definition WT_IMPACT_RECOMMEND_CONF_MIN :: int where "WT_IMPACT_RECOMMEND_CONF_MIN = 50"

definition wt_clamp_int :: "int \<Rightarrow> int \<Rightarrow> int \<Rightarrow> int" where
  "wt_clamp_int v lo hi = (if v < lo then lo else if v > hi then hi else v)"

definition impact_heavy :: "string list" where
  "impact_heavy =
     [''docker'', ''teams'', ''onedrive'', ''steam'', ''epicgames'', ''discord'', ''spotify'', ''adobe'',
      ''creative cloud'', ''dropbox'', ''slack'', ''java'', ''razer'', ''nvidia'', ''asus'', ''icloud'',
      ''notion'', ''opera'', ''chrome'', ''msedge'', ''lghub'']"

definition impact_haystack :: "string \<Rightarrow> string \<Rightarrow> string" where
  \<comment> \<open>name and command joined by a blank in a buffer of 1200 units, ASCII letters lowered\<close>
  "impact_haystack name command =
     (let hay = cch_copy 1200 name; used = length hay;
          hay = (if used + 1 < 1200 then hay @ '' '' @ cch_copy (1200 - (used + 1)) command else hay)
      in map lower hay)"

definition wt_impact_name_heuristic_hit :: "string \<Rightarrow> string \<Rightarrow> bool" where
  "wt_impact_name_heuristic_hit name command =
     list_ex (contains_str (impact_haystack name command)) impact_heavy"

definition wt_impact_score_to_band :: "int \<Rightarrow> impact_evidence list \<Rightarrow> WT_StartupImpact" where
  "wt_impact_score_to_band score evidence =
     (if score \<le> 0 \<and> evidence = [] then WT_STARTUP_IMPACT_UNKNOWN
      else if score \<ge> 65 then WT_STARTUP_IMPACT_HIGH
      else if score \<ge> 35 then WT_STARTUP_IMPACT_MEDIUM
      else if score > 0 \<or> evidence \<noteq> [] then WT_STARTUP_IMPACT_LOW
      else WT_STARTUP_IMPACT_UNKNOWN)"

definition impact_measured :: "WT_ImpactInput \<Rightarrow> int" where
  "impact_measured i =
     (if ii_measured_available i
      then (if ii_measured_ms i \<ge> 10000 then 60 else if ii_measured_ms i \<ge> 3000 then 45
            else if ii_measured_ms i \<ge> 1000 then 25 else if ii_measured_ms i > 0 then 10 else 0)
      else 0)"

definition impact_runtime :: "WT_ImpactInput \<Rightarrow> int" where
  "impact_runtime i =
     (if ii_cpu_percent i \<ge> 15 then 20 else if ii_cpu_percent i \<ge> 5 then 10 else 0) +
     (if ii_working_set_bytes i \<ge> 500 * 1024 * 1024 then 20
      else if ii_working_set_bytes i \<ge> 200 * 1024 * 1024 then 10 else 0) +
     (if ii_disk_bytes_per_sec i \<ge> 5 * 1024 * 1024 then 15
      else if ii_disk_bytes_per_sec i \<ge> 1024 * 1024 then 10 else 0)"

definition wt_impact_score_compute :: "WT_ImpactInput \<Rightarrow> WT_ImpactScore" where
  "wt_impact_score_compute i =
     (let score = 0; conf = 0; ev = [];
          (score, conf, ev) = (if ii_measured_available i
             then (score + impact_measured i, conf + 50, ev @ [EV_MEASURED]) else (score, conf, ev));
          (score, conf, ev) = (if wt_impact_name_heuristic_hit (ii_name i) (ii_command i)
             then (score + (if ii_measured_available i then 8 else 20), conf + 10, ev @ [EV_HEURISTIC])
             else (score, conf, ev));
          (score, conf, ev) =
            (if ii_microsoft_protected i \<or> ii_origin i = WT_ORIGIN_MICROSOFT
             then (score - 15, conf + 10, ev @ [EV_PUBLISHER])
             else if ii_origin i = WT_ORIGIN_THIRD_PARTY
             then (score + 5, conf + 10, ev @ [EV_PUBLISHER]) else (score, conf, ev));
          (score, conf, ev) = (if ii_unusual_location i
             then (score + 10, conf + 10, ev @ [EV_LOCATION]) else (score, conf, ev));
          runtime = impact_runtime i;
          (score, conf, ev) = (if runtime > 0
             then (score + runtime, conf + 20, ev @ [EV_RUNTIME]) else (score, conf, ev));
          score = wt_clamp_int score 0 100; conf = wt_clamp_int conf 0 95
      in \<lparr>is_score = score, is_band = wt_impact_score_to_band score ev,
          is_confidence_percent = conf, is_evidence = ev\<rparr>)"

definition impact_input_zero :: WT_ImpactInput where
  "impact_input_zero = \<lparr>ii_name = [], ii_command = [], ii_measured_ms = 0, ii_measured_available = False,
     ii_origin = WT_ORIGIN_UNKNOWN, ii_unusual_location = False, ii_microsoft_protected = False,
     ii_cpu_percent = -1, ii_working_set_bytes = 0, ii_disk_bytes_per_sec = -1\<rparr>"

definition wt_impact_input_from_startup :: "WT_StartupEntry \<Rightarrow> WT_ImpactInput" where
  "wt_impact_input_from_startup e = impact_input_zero\<lparr>ii_name := se_name e, ii_command := se_command e,
     ii_measured_ms := se_measured_ms e, ii_measured_available := se_measured_available e,
     ii_origin := fi_origin (se_identity e), ii_unusual_location := fi_unusual_location (se_identity e)\<rparr>"

definition wt_impact_apply_to_startup :: "WT_StartupEntry \<Rightarrow> WT_ImpactScore \<Rightarrow> WT_StartupEntry" where
  "wt_impact_apply_to_startup e s = e\<lparr>se_impact := is_band s, se_impact_score := is_score s,
     se_impact_confidence := is_confidence_percent s\<rparr>"

definition wt_impact_input_from_task :: "WT_ScheduledTask \<Rightarrow> WT_ImpactInput" where
  "wt_impact_input_from_task t = impact_input_zero\<lparr>ii_name := st_name t, ii_command := st_command t,
     ii_measured_ms := st_measured_ms t, ii_measured_available := st_measured_available t,
     ii_microsoft_protected := st_is_microsoft t,
     ii_origin := (if \<not> st_is_microsoft t \<and> st_author t \<noteq> [] \<and> \<not> contains_str (st_author t) ''Microsoft''
                   then WT_ORIGIN_THIRD_PARTY
                   else if st_is_microsoft t then WT_ORIGIN_MICROSOFT else WT_ORIGIN_UNKNOWN)\<rparr>"

definition wt_impact_apply_to_task :: "WT_ScheduledTask \<Rightarrow> WT_ImpactScore \<Rightarrow> WT_ScheduledTask" where
  "wt_impact_apply_to_task t s = t\<lparr>st_impact := is_band s, st_impact_score := is_score s,
     st_impact_confidence := is_confidence_percent s\<rparr>"

definition path_base :: "string \<Rightarrow> string" where
  \<comment> \<open>what follows the last slash or backslash\<close>
  "path_base path = rev (takeWhile (\<lambda>c. c \<noteq> CHR 0x5C \<and> c \<noteq> CHR ''/'') (rev path))"

definition wt_impact_exe_basename :: "(string \<Rightarrow> string option) \<Rightarrow> string \<Rightarrow> nat \<Rightarrow> string option" where
  "wt_impact_exe_basename expand command cap =
     (let (r, path) = wt_identity_extract_path expand command MAX_PATH
      in if r \<noteq> WT_OK then None
         else let base = path_base path in if base = [] then None else Some (cch_copy cap base))"

definition proc_disk :: "WT_ProcessInfo \<Rightarrow> rat option" where
  \<comment> \<open>the rates that were measured, added up; None when neither was\<close>
  "proc_disk p =
     (let rd = pi_disk_read_bytes_per_sec p; wr = pi_disk_write_bytes_per_sec p
      in if rd \<ge> 0 \<or> wr \<ge> 0
         then Some ((if rd \<ge> 0 then rd else 0) + (if wr \<ge> 0 then wr else 0)) else None)"

fun runtime_best :: "string \<Rightarrow> WT_ProcessInfo list \<Rightarrow> bool \<times> rat \<times> nat \<times> rat \<Rightarrow> bool \<times> rat \<times> nat \<times> rat" where
  "runtime_best exe [] acc = acc"
| "runtime_best exe (p # ps) (matched, cpu, ws, disk) =
     (if \<not> wcsicmp (pi_name p) exe then runtime_best exe ps (matched, cpu, ws, disk)
      else runtime_best exe ps
        (True, if pi_cpu_percent p > cpu then pi_cpu_percent p else cpu,
         if pi_working_set_bytes p > ws then pi_working_set_bytes p else ws,
         case proc_disk p of Some d \<Rightarrow> if d > disk then d else disk | None \<Rightarrow> disk))"

definition wt_impact_attach_runtime ::
  "(string \<Rightarrow> string option) \<Rightarrow> WT_ProcessInfo list \<Rightarrow> WT_ImpactInput \<Rightarrow> WT_ImpactInput" where
  "wt_impact_attach_runtime expand procs i =
     (if procs = [] then i
      else case wt_impact_exe_basename expand (ii_command i) 260 of
        None \<Rightarrow> i
      | Some exe \<Rightarrow> (case runtime_best exe procs (False, -1, 0, -1) of
           (matched, cpu, ws, disk) \<Rightarrow>
             if \<not> matched then i
             else i\<lparr>ii_cpu_percent := cpu, ii_working_set_bytes := ws, ii_disk_bytes_per_sec := disk\<rparr>))"

section \<open>Reference score\<close>

definition impact_points :: "WT_ImpactInput \<Rightarrow> int" where
  \<comment> \<open>the unclamped score: one summand per kind of evidence\<close>
  "impact_points i =
     impact_measured i
     + (if wt_impact_name_heuristic_hit (ii_name i) (ii_command i)
        then (if ii_measured_available i then 8 else 20) else 0)
     + (if ii_microsoft_protected i \<or> ii_origin i = WT_ORIGIN_MICROSOFT then -15
        else if ii_origin i = WT_ORIGIN_THIRD_PARTY then 5 else 0)
     + (if ii_unusual_location i then 10 else 0) + impact_runtime i"

definition impact_conf_points :: "WT_ImpactInput \<Rightarrow> int" where
  "impact_conf_points i =
     (if ii_measured_available i then 50 else 0)
     + (if wt_impact_name_heuristic_hit (ii_name i) (ii_command i) then 10 else 0)
     + (if ii_microsoft_protected i \<or> ii_origin i \<noteq> WT_ORIGIN_UNKNOWN then 10 else 0)
     + (if ii_unusual_location i then 10 else 0) + (if impact_runtime i > 0 then 20 else 0)"

lemma impact_runtime_range: "0 \<le> impact_runtime i \<and> impact_runtime i \<le> 55"
  by (simp add: impact_runtime_def)

lemma compute_points:
  "is_score (wt_impact_score_compute i) = wt_clamp_int (impact_points i) 0 100"
  "is_confidence_percent (wt_impact_score_compute i) = wt_clamp_int (impact_conf_points i) 0 95"
  "is_band (wt_impact_score_compute i)
     = wt_impact_score_to_band (is_score (wt_impact_score_compute i)) (is_evidence (wt_impact_score_compute i))"
proof -
  have r: "impact_runtime i = 0 \<or> impact_runtime i > 0" using impact_runtime_range [of i] by linarith
  have m: "\<not> ii_measured_available i \<Longrightarrow> impact_measured i = 0" by (simp add: impact_measured_def)
  show "is_score (wt_impact_score_compute i) = wt_clamp_int (impact_points i) 0 100"
    using r m by (cases "ii_origin i")
      (auto simp: wt_impact_score_compute_def impact_points_def Let_def)
  show "is_confidence_percent (wt_impact_score_compute i) = wt_clamp_int (impact_conf_points i) 0 95"
    using r by (cases "ii_origin i")
      (auto simp: wt_impact_score_compute_def impact_conf_points_def Let_def)
  show "is_band (wt_impact_score_compute i)
     = wt_impact_score_to_band (is_score (wt_impact_score_compute i)) (is_evidence (wt_impact_score_compute i))"
    by (simp add: wt_impact_score_compute_def Let_def case_prod_beta)
qed

lemma score_range: "is_score (wt_impact_score_compute i) \<in> {0..100}"
  "is_confidence_percent (wt_impact_score_compute i) \<in> {0..95}"
  by (auto simp: compute_points wt_clamp_int_def)

lemma band_high_iff:
  "is_band (wt_impact_score_compute i) = WT_STARTUP_IMPACT_HIGH \<longleftrightarrow> is_score (wt_impact_score_compute i) \<ge> 65"
  unfolding compute_points(3) by (simp add: wt_impact_score_to_band_def)



end
