(* ===== verification/Startup_Tasks.thy ===== *)
theory Startup_Tasks
  imports Impact_Score
begin

text \<open>
  Startup entries (\<open>src/system/startup.c\<close>), scheduled tasks (\<open>src/system/tasks.c\<close>) and their match
  with measured boot components (\<open>wt_boot_apply_measured_startup\<close> of \<open>src/system/boot.c\<close>).

  The registry keys, folders and environment variables that are read are the record \<open>startup_world\<close>.
  The Task Scheduler is a tree of folders for the enumeration and a store from folder and name to
  definitions for the two writers; the COM calls that reach it answer as the record \<open>sched_com\<close> says.
\<close>

section \<open>Names and measured boot components\<close>

definition wt_startup_source_name :: "WT_StartupSource \<Rightarrow> string" where
  "wt_startup_source_name s = (case s of
     WT_STARTUP_SRC_HKCU_RUN \<Rightarrow> bsl ''HKCU/Run'' | WT_STARTUP_SRC_HKLM_RUN \<Rightarrow> bsl ''HKLM/Run''
   | WT_STARTUP_SRC_HKCU_RUNONCE \<Rightarrow> bsl ''HKCU/RunOnce''
   | WT_STARTUP_SRC_HKLM_RUNONCE \<Rightarrow> bsl ''HKLM/RunOnce''
   | WT_STARTUP_SRC_USER_FOLDER \<Rightarrow> ''Startup folder (user)''
   | WT_STARTUP_SRC_COMMON_FOLDER \<Rightarrow> ''Startup folder (common)'')"

definition wt_startup_impact_name :: "WT_StartupImpact \<Rightarrow> string" where
  "wt_startup_impact_name i = (case i of
     WT_STARTUP_IMPACT_LOW \<Rightarrow> ''low'' | WT_STARTUP_IMPACT_MEDIUM \<Rightarrow> ''medium''
   | WT_STARTUP_IMPACT_HIGH \<Rightarrow> ''high'' | WT_STARTUP_IMPACT_UNKNOWN \<Rightarrow> ''unknown'')"

definition wt_boot_wcs_contains_i :: "string \<Rightarrow> string \<Rightarrow> bool" where
  "wt_boot_wcs_contains_i hay needle =
     (if needle = [] then False else contains_str (map lower hay) (map lower needle))"

definition boot_component_matches :: "string \<Rightarrow> string \<Rightarrow> WT_BootComponent \<Rightarrow> bool" where
  "boot_component_matches name command c =
     (if bc_kind c \<noteq> WT_BOOT_COMP_APPLICATION \<and> bc_kind c \<noteq> WT_BOOT_COMP_DEGRADATION then False
      else if bc_duration_ms c = 0 then False
      else (name \<noteq> [] \<and> wt_boot_wcs_contains_i (bc_name c) name) \<or>
           (command \<noteq> [] \<and> wt_boot_wcs_contains_i command (bc_name c)) \<or>
           (name \<noteq> [] \<and> wt_boot_wcs_contains_i name (bc_name c)))"

definition wt_boot_apply_measured_startup :: "WT_BootReport \<Rightarrow> string \<Rightarrow> string \<Rightarrow> nat option" where
  \<comment> \<open>the milliseconds of the first match\<close>
  "wt_boot_apply_measured_startup boot name command =
     map_option bc_duration_ms (find_first (boot_component_matches name command) (br_components boot))"

section \<open>Startup entries\<close>

definition wt_startup_rescore :: "WT_StartupEntry \<Rightarrow> WT_StartupEntry" where
  "wt_startup_rescore e =
     wt_impact_apply_to_startup e (wt_impact_score_compute (wt_impact_input_from_startup e))"

definition wt_startup_add ::
  "file_probe \<Rightarrow> nat \<Rightarrow> WT_StartupSource \<Rightarrow> string \<Rightarrow> string \<Rightarrow>
   WT_StartupEntry list \<times> identity_cache \<Rightarrow> WT_StartupEntry list \<times> identity_cache" where
  "wt_startup_add w capacity source name command st =
     (case st of (out, cache) \<Rightarrow>
      if length out \<ge> capacity then (out, cache)
      else let e = zero_WT_StartupEntry\<lparr>se_source := source, se_enabled := True,
                 se_name := cch_copy 128 name, se_command := cch_copy 512 command\<rparr>;
               e = e\<lparr>se_id := cch_copy 160 (wt_startup_source_name source @ '':'' @ se_name e)\<rparr>;
               (r, i, cache1) = wt_identity_from_command w (se_command e) cache;
               e = e\<lparr>se_identity := (if r \<noteq> WT_OK
                       then zero_WT_FileIdentity\<lparr>fi_signature := WT_SIG_UNAVAILABLE, fi_origin := WT_ORIGIN_UNKNOWN\<rparr>
                       else i)\<rparr>
           in (out @ [wt_startup_rescore e], cache1))"

datatype reg_type = REG_SZ | REG_EXPAND_SZ | REG_OTHER

record startup_world =
  sw_probe :: file_probe
  sw_run_key :: "WT_StartupSource \<Rightarrow> (string \<times> reg_type \<times> string) option list option"
  sw_expand512 :: "string \<Rightarrow> string option"
  sw_getenv :: "string \<Rightarrow> string option"
  sw_dir :: "string \<Rightarrow> (string \<times> bool) list option"

fun scan_run_values ::
  "startup_world \<Rightarrow> nat \<Rightarrow> WT_StartupSource \<Rightarrow> (string \<times> reg_type \<times> string) option list \<Rightarrow>
   WT_StartupEntry list \<times> identity_cache \<Rightarrow> WT_StartupEntry list \<times> identity_cache" where
  "scan_run_values w capacity source [] st = st"
| "scan_run_values w capacity source (None # vs) st = scan_run_values w capacity source vs st"
| "scan_run_values w capacity source (Some (name, ty, data) # vs) st =
     (if ty \<noteq> REG_SZ \<and> ty \<noteq> REG_EXPAND_SZ then scan_run_values w capacity source vs st
      else let raw = (if ty = REG_EXPAND_SZ
                      then (case sw_expand512 w data of Some e \<Rightarrow> e | None \<Rightarrow> data) else data)
           in scan_run_values w capacity source vs
                (wt_startup_add (sw_probe w) capacity source name raw st))"

definition wt_scan_run_key ::
  "startup_world \<Rightarrow> nat \<Rightarrow> WT_StartupSource \<Rightarrow> WT_StartupEntry list \<times> identity_cache \<Rightarrow>
   WT_StartupEntry list \<times> identity_cache" where
  "wt_scan_run_key w capacity source st =
     (case sw_run_key w source of None \<Rightarrow> st | Some vs \<Rightarrow> scan_run_values w capacity source vs st)"

fun scan_folder_files ::
  "startup_world \<Rightarrow> nat \<Rightarrow> WT_StartupSource \<Rightarrow> string \<Rightarrow> (string \<times> bool) list \<Rightarrow>
   WT_StartupEntry list \<times> identity_cache \<Rightarrow> WT_StartupEntry list \<times> identity_cache" where
  "scan_folder_files w capacity source folder [] st = st"
| "scan_folder_files w capacity source folder ((file, is_dir) # fs) st =
     (if is_dir \<or> file = ''desktop.ini'' \<or> \<not> cch_fits MAX_PATH (folder @ bsl ''/'' @ file)
      then scan_folder_files w capacity source folder fs st
      else scan_folder_files w capacity source folder fs
             (wt_startup_add (sw_probe w) capacity source file (folder @ bsl ''/'' @ file) st))"

definition wt_scan_startup_folder ::
  "startup_world \<Rightarrow> nat \<Rightarrow> WT_StartupSource \<Rightarrow> string \<Rightarrow> string \<Rightarrow>
   WT_StartupEntry list \<times> identity_cache \<Rightarrow> WT_StartupEntry list \<times> identity_cache" where
  "wt_scan_startup_folder w capacity source env_var sfx st =
     (case sw_getenv w env_var of None \<Rightarrow> st
      | Some base \<Rightarrow>
         if base = [] \<or> length base \<ge> MAX_PATH then st
         else let folder = base @ sfx
              in if \<not> cch_fits MAX_PATH folder \<or> \<not> cch_fits MAX_PATH (folder @ bsl ''/*'') then st
                 else (case sw_dir w folder of None \<Rightarrow> st
                       | Some fs \<Rightarrow> scan_folder_files w capacity source folder fs st))"

definition wt_collect_startup_entries ::
  "startup_world \<Rightarrow> nat \<Rightarrow> identity_cache \<Rightarrow> WT_Result \<times> WT_StartupEntry list \<times> identity_cache" where
  "wt_collect_startup_entries w capacity cache =
     (if capacity = 0 then (WT_ERR_INVALID_ARGUMENT, [], cache)
      else let sfx = bsl ''/Microsoft/Windows/Start Menu/Programs/Startup'';
               st = wt_scan_run_key w capacity WT_STARTUP_SRC_HKCU_RUN ([], cache);
               st = wt_scan_run_key w capacity WT_STARTUP_SRC_HKLM_RUN st;
               st = wt_scan_run_key w capacity WT_STARTUP_SRC_HKCU_RUNONCE st;
               st = wt_scan_run_key w capacity WT_STARTUP_SRC_HKLM_RUNONCE st;
               st = wt_scan_startup_folder w capacity WT_STARTUP_SRC_USER_FOLDER ''APPDATA'' sfx st;
               st = wt_scan_startup_folder w capacity WT_STARTUP_SRC_COMMON_FOLDER ''PROGRAMDATA'' sfx st
           in (WT_OK, fst st, snd st))"

definition startup_apply_one :: "WT_BootReport \<Rightarrow> WT_StartupEntry \<Rightarrow> WT_StartupEntry" where
  "startup_apply_one boot e =
     (let e0 = e\<lparr>se_measured_ms := 0, se_measured_available := False\<rparr>
      in case wt_boot_apply_measured_startup boot (se_name e) (se_command e) of
           None \<Rightarrow> e0
         | Some ms \<Rightarrow> wt_startup_rescore (e0\<lparr>se_measured_ms := ms, se_measured_available := True\<rparr>))"

definition wt_startup_apply_measured :: "WT_BootReport \<Rightarrow> WT_StartupEntry list \<Rightarrow> WT_StartupEntry list" where
  "wt_startup_apply_measured boot entries = map (startup_apply_one boot) entries"

section \<open>Scheduled tasks: pure parts\<close>

text \<open>The delay of a logon trigger, \<open>PT30S\<close> or \<open>PT1M\<close>; every sum and product is one of 32-bit
  \<open>unsigned long\<close> values.\<close>

fun delay_digits :: "nat \<Rightarrow> string \<Rightarrow> nat \<times> string" where
  "delay_digits n [] = (n, [])"
| "delay_digits n (c # cs) =
     (if is_digit c then delay_digits (wrap32 (n * 10 + digit_val c)) cs else (n, c # cs))"

lemma delay_digits_shorter: "length (snd (delay_digits n s)) \<le> length s"
  by (induction n s rule: delay_digits.induct) auto

lemma delay_rest_shorter: "(n, q) = delay_digits 0 p \<Longrightarrow> q \<noteq> [] \<Longrightarrow> length q - Suc 0 < length p"
  using delay_digits_shorter [of 0 p] by (cases q) (auto dest: sym)

function delay_sum :: "nat \<Rightarrow> string \<Rightarrow> nat" where
  "delay_sum acc p =
     (if p = [] then acc
      else (case delay_digits 0 p of (n, q) \<Rightarrow>
        if q = [] then acc
        else if hd q = CHR ''H'' then delay_sum (wrap32 (acc + wrap32 (n * 3600))) (tl q)
        else if hd q = CHR ''M'' then delay_sum (wrap32 (acc + wrap32 (n * 60))) (tl q)
        else if hd q = CHR ''S'' then delay_sum (wrap32 (acc + n)) (tl q)
        else acc))"
  by pat_completeness auto

termination
  by (relation "measure (\<lambda>(t, p). length p)") (simp_all add: delay_rest_shorter)

declare delay_sum.simps [simp del]

definition wt_parse_iso8601_delay_seconds :: "string option \<Rightarrow> nat" where
  "wt_parse_iso8601_delay_seconds delay =
     (case delay of None \<Rightarrow> 0
      | Some d \<Rightarrow> if d = [] then 0
          else delay_sum 0 (if strncmp 2 d ''PT'' then drop 2 d else d))"

definition wt_task_format_delay :: "nat \<Rightarrow> string" where
  "wt_task_format_delay seconds = cch_copy 32 (''PT'' @ dec seconds @ ''S'')"

definition wt_task_rescore :: "WT_ScheduledTask \<Rightarrow> WT_ScheduledTask" where
  "wt_task_rescore t = wt_impact_apply_to_task t (wt_impact_score_compute (wt_impact_input_from_task t))"

definition wt_task_path_is_microsoft :: "string \<Rightarrow> string \<Rightarrow> bool" where
  "wt_task_path_is_microsoft path author =
     (contains_str path (bsl ''/Microsoft/'') \<or>
      contains_str (map lower (cch_copy 160 author)) ''microsoft'')"

definition task_blocked_fragments :: "string list" where
  "task_blocked_fragments =
     [''Defender'', ''WindowsUpdate'', ''UpdateOrchestrator'', ''WinDefend'', ''SecurityHealth'',
      ''Sense'', ''ExploitGuard'', ''Firewall'', ''BitLocker'', ''SmartScreen'', ''UsoClient'',
      ''WaaSMedic'', ''MpCmdRun'', ''Schedule Scan'', ''Windows Defender'']"

definition task_haystack :: "WT_ScheduledTask \<Rightarrow> string" where
  \<comment> \<open>\<open>StringCchCatW\<close> into 640 units, each call keeping what fits\<close>
  "task_haystack t = cch_copy 640 (st_path t @ '' '' @ st_name t @ '' '' @ st_command t)"

definition wt_task_is_protected :: "WT_ScheduledTask \<Rightarrow> bool" where
  "wt_task_is_protected t =
     (if st_is_microsoft t then True else list_ex (contains_str (task_haystack t)) task_blocked_fragments)"

definition wt_task_trigger_name :: "WT_TaskTriggerKind \<Rightarrow> string" where
  "wt_task_trigger_name k = (case k of
     WT_TASK_TRIGGER_BOOT \<Rightarrow> ''boot'' | WT_TASK_TRIGGER_LOGON \<Rightarrow> ''logon''
   | WT_TASK_TRIGGER_OTHER \<Rightarrow> ''other'' | WT_TASK_TRIGGER_NONE \<Rightarrow> ''none'')"

definition wt_task_path_from_id :: "string \<Rightarrow> nat \<Rightarrow> WT_Result \<times> string" where
  "wt_task_path_from_id i cap =
     (if cap = 0 then (WT_ERR_INVALID_ARGUMENT, [])
      else let p = (if strncmp 5 i ''task:'' then drop 5 i else i)
           in if p = [] \<or> hd p \<noteq> CHR 0x5C then (WT_ERR_INVALID_ARGUMENT, [])
              else (WT_OK, cch_copy cap p))"

section \<open>Scheduled tasks: the scheduler\<close>

datatype trigger_type = TRIGGER_BOOT | TRIGGER_LOGON | TRIGGER_ANY

datatype WT_TaskCollectFilter = WT_TASK_FILTER_STARTUP | WT_TASK_FILTER_LOGON | WT_TASK_FILTER_ALL

record task_def =
  td_author :: "string option"
  td_enabled :: bool
  td_path :: "string option"
  td_args :: "string option"
  td_triggers :: "(trigger_type \<times> string option) list"

record reg_task =
  rt_name :: "string option"
  rt_path :: "string option"
  rt_def :: "task_def option"

datatype task_folder = Task_Folder "string option" "reg_task list" "task_folder list"

definition wt_task_trigger_matches_filter ::
  "trigger_type \<Rightarrow> WT_TaskCollectFilter \<Rightarrow> bool \<times> WT_TaskTriggerKind" where
  "wt_task_trigger_matches_filter ty filt =
     (let kind = (case ty of TRIGGER_BOOT \<Rightarrow> WT_TASK_TRIGGER_BOOT
                  | TRIGGER_LOGON \<Rightarrow> WT_TASK_TRIGGER_LOGON | TRIGGER_ANY \<Rightarrow> WT_TASK_TRIGGER_OTHER)
      in (case filt of WT_TASK_FILTER_ALL \<Rightarrow> True
          | WT_TASK_FILTER_LOGON \<Rightarrow> kind = WT_TASK_TRIGGER_LOGON
          | WT_TASK_FILTER_STARTUP \<Rightarrow> kind = WT_TASK_TRIGGER_BOOT \<or> kind = WT_TASK_TRIGGER_LOGON, kind))"

definition wt_task_read_exec_action :: "task_def \<Rightarrow> string" where
  "wt_task_read_exec_action d =
     (let c = (case td_path d of None \<Rightarrow> [] | Some p \<Rightarrow> cch_copy 512 p)
      in case td_args d of None \<Rightarrow> c
         | Some a \<Rightarrow> if a = [] then c else cch_copy 512 (if c \<noteq> [] then c @ '' '' @ a else a))"

fun read_triggers_loop ::
  "WT_TaskCollectFilter \<Rightarrow> (trigger_type \<times> string option) list \<Rightarrow>
   WT_TaskTriggerKind \<times> nat \<times> bool \<Rightarrow> WT_TaskTriggerKind \<times> nat \<times> bool" where
  "read_triggers_loop filt [] st = st"
| "read_triggers_loop filt ((ty, delay) # ts) (best, secs, matches) =
     (let (m, kind) = wt_task_trigger_matches_filter ty filt;
          best1 = (if m \<and> (best = WT_TASK_TRIGGER_NONE \<or> kind = WT_TASK_TRIGGER_LOGON) then kind else best);
          secs1 = (if ty = TRIGGER_LOGON
                   then (let s = wt_parse_iso8601_delay_seconds delay in if s > secs then s else secs)
                   else secs)
      in read_triggers_loop filt ts (best1, secs1, matches \<or> m))"

definition wt_task_read_triggers ::
  "task_def \<Rightarrow> WT_TaskCollectFilter \<Rightarrow> WT_TaskTriggerKind \<times> nat \<times> bool" where
  "wt_task_read_triggers d filt = read_triggers_loop filt (td_triggers d) (WT_TASK_TRIGGER_NONE, 0, False)"

definition wt_task_add ::
  "nat \<Rightarrow> string \<Rightarrow> string \<Rightarrow> string \<Rightarrow> string \<Rightarrow> bool \<Rightarrow> WT_TaskTriggerKind \<Rightarrow> nat \<Rightarrow>
   WT_ScheduledTask list \<Rightarrow> WT_ScheduledTask list" where
  "wt_task_add capacity path name command author enabled kind delay out =
     (if length out \<ge> capacity then out
      else let t = zero_WT_ScheduledTask\<lparr>st_name := cch_copy 128 name, st_path := cch_copy 256 path,
                 st_command := cch_copy 512 command, st_author := cch_copy 128 author,
                 st_id := cch_copy 280 (''task:'' @ path), st_enabled := enabled,
                 st_trigger_kind := kind, st_delay_seconds := delay,
                 st_is_microsoft := wt_task_path_is_microsoft path author\<rparr>
           in out @ [wt_task_rescore t])"

definition collect_one_task ::
  "nat \<Rightarrow> WT_TaskCollectFilter \<Rightarrow> string \<Rightarrow> reg_task \<Rightarrow> WT_ScheduledTask list \<Rightarrow> WT_ScheduledTask list" where
  "collect_one_task capacity filt folder_path rt out =
     (let full = (case rt_path rt of
                    Some p \<Rightarrow> if p \<noteq> [] then cch_copy 256 p
                      else (case rt_name rt of Some n \<Rightarrow> cch_copy 256 (folder_path @ bsl ''/'' @ n) | None \<Rightarrow> [])
                  | None \<Rightarrow> (case rt_name rt of Some n \<Rightarrow> cch_copy 256 (folder_path @ bsl ''/'' @ n) | None \<Rightarrow> []));
          (command, author, enabled, kind, delay, matches) =
            (case rt_def rt of
               None \<Rightarrow> ([], [], True, WT_TASK_TRIGGER_NONE, 0, False)
             | Some d \<Rightarrow> (case wt_task_read_triggers d filt of (k, s, m) \<Rightarrow>
                 (wt_task_read_exec_action d,
                  (case td_author d of None \<Rightarrow> [] | Some a \<Rightarrow> cch_copy 128 a),
                  td_enabled d, k, s, m)))
      in if filt = WT_TASK_FILTER_ALL \<or> matches
         then wt_task_add capacity full (case rt_name rt of Some n \<Rightarrow> n | None \<Rightarrow> ''(unknown)'')
                command author enabled kind delay out
         else out)"

fun wt_task_collect_registered ::
  "nat \<Rightarrow> WT_TaskCollectFilter \<Rightarrow> string \<Rightarrow> reg_task list \<Rightarrow> WT_ScheduledTask list \<Rightarrow> WT_ScheduledTask list" where
  "wt_task_collect_registered capacity filt folder_path [] out = out"
| "wt_task_collect_registered capacity filt folder_path (rt # rts) out =
     (if length out \<ge> capacity then out
      else wt_task_collect_registered capacity filt folder_path rts
             (collect_one_task capacity filt folder_path rt out))"

definition sub_folder_path :: "string \<Rightarrow> string option \<Rightarrow> string" where
  "sub_folder_path folder_path name = (case name of
     Some n \<Rightarrow> if n \<noteq> []
       then (if folder_path = bsl ''/'' then cch_copy 256 (bsl ''/'' @ n)
             else cch_copy 256 (folder_path @ bsl ''/'' @ n))
       else cch_copy 256 folder_path
   | None \<Rightarrow> cch_copy 256 folder_path)"

fun wt_task_collect_folders ::
  "nat \<Rightarrow> WT_TaskCollectFilter \<Rightarrow> nat \<Rightarrow> string \<Rightarrow> task_folder \<Rightarrow> WT_ScheduledTask list \<Rightarrow> WT_ScheduledTask list"
  and collect_subfolders ::
  "nat \<Rightarrow> WT_TaskCollectFilter \<Rightarrow> nat \<Rightarrow> string \<Rightarrow> task_folder list \<Rightarrow> WT_ScheduledTask list \<Rightarrow> WT_ScheduledTask list" where
  "wt_task_collect_folders capacity filt depth path (Task_Folder nm tasks subs) out =
     (if depth > 24 \<or> length out \<ge> capacity then out
      else collect_subfolders capacity filt depth path subs
             (wt_task_collect_registered capacity filt path tasks out))"
| "collect_subfolders capacity filt depth path [] out = out"
| "collect_subfolders capacity filt depth path (Task_Folder nm tasks subs # fs) out =
     (if length out \<ge> capacity then out
      else collect_subfolders capacity filt depth path fs
             (wt_task_collect_folders capacity filt (Suc depth) (sub_folder_path path nm)
                (Task_Folder nm tasks subs) out))"

record sched_com =
  sc_connect :: WT_Result
  sc_register :: "string \<Rightarrow> string \<Rightarrow> WT_Result"

definition wt_collect_scheduled_tasks ::
  "sched_com \<Rightarrow> task_folder \<Rightarrow> nat \<Rightarrow> WT_TaskCollectFilter \<Rightarrow> WT_Result \<times> WT_ScheduledTask list" where
  "wt_collect_scheduled_tasks com tree capacity filt =
     (if capacity = 0 then (WT_ERR_INVALID_ARGUMENT, [])
      else if sc_connect com \<noteq> WT_OK then (sc_connect com, [])
      else (WT_OK, wt_task_collect_folders capacity filt 0 (bsl ''/'') tree []))"

type_synonym task_store = "(string \<times> string) \<Rightarrow> task_def option"

definition path_tail :: "string \<Rightarrow> string" where
  \<comment> \<open>what follows the last backslash (\<open>wcsrchr\<close>)\<close>
  "path_tail p = rev (takeWhile (\<lambda>c. c \<noteq> CHR 0x5C) (rev p))"

definition wt_task_split_path :: "string \<Rightarrow> nat \<Rightarrow> nat \<Rightarrow> (string \<times> string) option" where
  \<comment> \<open>None when the \<open>wmemcpy\<close> of the folder part runs past the folder buffer\<close>
  "wt_task_split_path full folder_cap name_cap =
     (let name = path_tail full; flen = length full - length name
      in if full = [] then Some ([], [])
         else if CHR 0x5C \<notin> set full then Some (bsl ''/'', cch_copy name_cap full)
         else if flen = 1 then Some (bsl ''/'', cch_copy name_cap name)
         else if flen - 1 \<ge> folder_cap then None
         else Some (take (flen - 1) full, cch_copy name_cap name))"

definition wt_task_connect ::
  "sched_com \<Rightarrow> string \<times> string \<Rightarrow> task_store \<Rightarrow> (WT_Result, task_def) sum" where
  "wt_task_connect com key store =
     (if sc_connect com \<noteq> WT_OK then Inl (sc_connect com)
      else case store key of None \<Rightarrow> Inl WT_ERR_NOT_FOUND | Some d \<Rightarrow> Inr d)"

definition wt_task_register_definition ::
  "sched_com \<Rightarrow> string \<times> string \<Rightarrow> task_def \<Rightarrow> task_store \<Rightarrow> WT_Result \<times> task_store" where
  "wt_task_register_definition com key d store =
     (let r = sc_register com (fst key) (snd key)
      in (r, if r = WT_OK then store(key := Some d) else store))"

definition wt_task_set_enabled ::
  "sched_com \<Rightarrow> string \<Rightarrow> bool \<Rightarrow> task_store \<Rightarrow> (WT_Result \<times> task_store) option" where
  "wt_task_set_enabled com path enable store =
     (if path = [] then Some (WT_ERR_INVALID_ARGUMENT, store)
      else case wt_task_split_path path 256 128 of
        None \<Rightarrow> None
      | Some key \<Rightarrow>
         (case wt_task_connect com key store of
            Inl r \<Rightarrow> Some (r, store)
          | Inr d \<Rightarrow> Some (wt_task_register_definition com key (d\<lparr>td_enabled := enable\<rparr>) store)))"

definition set_logon_delays :: "string \<Rightarrow> (trigger_type \<times> string option) list \<Rightarrow> (trigger_type \<times> string option) list" where
  "set_logon_delays delay = map (\<lambda>(ty, d). (ty, if ty = TRIGGER_LOGON then Some delay else d))"

definition wt_task_set_logon_delay ::
  "sched_com \<Rightarrow> string \<Rightarrow> nat \<Rightarrow> task_store \<Rightarrow> (WT_Result \<times> task_store) option" where
  "wt_task_set_logon_delay com path delay_seconds store =
     (if path = [] then Some (WT_ERR_INVALID_ARGUMENT, store)
      else case wt_task_split_path path 256 128 of
        None \<Rightarrow> None
      | Some key \<Rightarrow>
         (case wt_task_connect com key store of
            Inl r \<Rightarrow> Some (r, store)
          | Inr d \<Rightarrow>
             if \<not> list_ex (\<lambda>t. fst t = TRIGGER_LOGON) (td_triggers d) then Some (WT_ERR_NOT_SUPPORTED, store)
             else Some (wt_task_register_definition com key
                    (d\<lparr>td_triggers := set_logon_delays (wt_task_format_delay delay_seconds) (td_triggers d)\<rparr>)
                    store)))"

definition task_apply_one :: "WT_BootReport \<Rightarrow> WT_ScheduledTask \<Rightarrow> WT_ScheduledTask" where
  "task_apply_one boot t =
     (let t0 = t\<lparr>st_measured_ms := 0, st_measured_available := False\<rparr>
      in case wt_boot_apply_measured_startup boot (st_name t) (st_command t) of
           None \<Rightarrow> t0
         | Some ms \<Rightarrow> wt_task_rescore (t0\<lparr>st_measured_ms := ms, st_measured_available := True\<rparr>))"

definition wt_tasks_apply_measured :: "WT_BootReport \<Rightarrow> WT_ScheduledTask list \<Rightarrow> WT_ScheduledTask list" where
  "wt_tasks_apply_measured boot tasks = map (task_apply_one boot) tasks"

section \<open>What a refused task is\<close>



section \<open>Delays round trip\<close>

lemma wrap32_id [simp]: "n < 2 ^ 32 \<Longrightarrow> wrap32 n = n"
  by (simp add: wrap32_def)

lemma delay_digits_append:
  "(\<forall>c \<in> set ds. is_digit c) \<Longrightarrow> delay_digits n (ds @ r) = delay_digits (fst (delay_digits n ds)) r"
  by (induction ds arbitrary: n) auto

lemma delay_digits_dec_val: "m < 2 ^ 32 \<Longrightarrow> fst (delay_digits 0 (dec m)) = m"
proof (induction m rule: dec.induct)
  case (1 m)
  show ?case
  proof (cases "m < 10")
    case True
    then show ?thesis by (subst dec.simps) (simp add: wrap32_def)
  next
    case False
    have "fst (delay_digits 0 (dec (m div 10))) = m div 10"
      by (rule "1.IH") (use False 1 in auto)
    moreover have "m div 10 * 10 + m mod 10 = m" by simp
    ultimately show ?thesis using False 1 delay_digits_append [of "dec (m div 10)" 0 "[digit (m mod 10)]"]
      by (subst dec.simps) (simp add: dec_digits)
  qed
qed

lemma not_S_digit: "\<not> is_digit (CHR ''S'')"
  by (simp add: is_digit_def)

lemma delay_digits_dec: "m < 2 ^ 32 \<Longrightarrow> delay_digits 0 (dec m @ ''S'') = (m, ''S'')"
  using delay_digits_append [of "dec m" 0 "''S''"] delay_digits_dec_val [of m] dec_digits
  by (simp add: not_S_digit)

lemma dec_length: "m < 10 ^ k \<Longrightarrow> 0 < k \<Longrightarrow> length (dec m) \<le> k"
proof (induction k arbitrary: m)
  case (Suc k)
  show ?case
  proof (cases "m < 10")
    case True
    then show ?thesis by (subst dec.simps) simp
  next
    case False
    then have k: "0 < k" using Suc.prems(1) by (cases k) auto
    have "m div 10 < 10 ^ k" using Suc.prems(1) by (simp add: less_mult_imp_div_less mult.commute)
    from Suc.IH [OF this k] show ?thesis using False by (subst dec.simps) simp
  qed
qed simp

lemma parse_format_delay: "n < 2 ^ 32 \<Longrightarrow> wt_parse_iso8601_delay_seconds (Some (wt_task_format_delay n)) = n"
proof -
  assume n: "n < 2 ^ 32"
  have "length (dec n) \<le> 10" by (rule dec_length) (use n in simp_all)
  then have f: "wt_task_format_delay n = ''PT'' @ dec n @ ''S''"
    by (simp add: wt_task_format_delay_def)
  have e: "delay_sum n [] = n" by (subst delay_sum.simps) simp
  have "delay_sum 0 (dec n @ ''S'') = n"
    using n e by (subst delay_sum.simps) (simp add: delay_digits_dec)
  then show ?thesis by (simp add: wt_parse_iso8601_delay_seconds_def f strncmp_def)
qed

lemma read_triggers_delay:
  assumes "n < 2 ^ 32" "s \<le> n"
  shows "fst (snd (read_triggers_loop filt (set_logon_delays (wt_task_format_delay n) ts) (b, s, m)))
       = (if list_ex (\<lambda>t. fst t = TRIGGER_LOGON) ts then n else s)"
  using assms(2)
proof (induction ts arbitrary: b s m)
  case (Cons t ts)
  obtain ty d where t: "t = (ty, d)" by (cases t)
  show ?case
  proof (cases "ty = TRIGGER_LOGON")
    case True
    then show ?thesis using Cons.IH [of n] Cons.prems parse_format_delay [OF assms(1)]
      by (simp add: t set_logon_delays_def Let_def case_prod_beta)
  next
    case False
    then show ?thesis using Cons.IH [OF Cons.prems]
      by (simp add: t set_logon_delays_def Let_def case_prod_beta)
  qed
qed (simp add: set_logon_delays_def)

lemma split_path_demo: "length p < 256 \<Longrightarrow> wt_task_split_path p 256 128 \<noteq> None"
proof -
  assume "length p < 256"
  then have "length p - length (path_tail p) - 1 < 256" by simp
  then show ?thesis by (simp add: wt_task_split_path_def Let_def)
qed


definition demo_com :: sched_com where
  "demo_com = \<lparr>sc_connect = WT_OK, sc_register = (\<lambda>f n. WT_OK)\<rparr>"

definition demo_store :: task_store where
  "demo_store = [(bsl ''/V'', ''a'') \<mapsto> \<lparr>td_author = None, td_enabled = True, td_path = Some ''a.exe'', td_args = None,
     td_triggers = [(TRIGGER_LOGON, Some ''PT1M'')]\<rparr>]"


section \<open>Collected entries\<close>

definition startup_entry_ok :: "WT_StartupEntry \<Rightarrow> bool" where
  \<comment> \<open>enabled, fields within their buffers, score that of its own evidence\<close>
  "startup_entry_ok e \<longleftrightarrow> se_enabled e \<and> length (se_name e) < 128 \<and> length (se_command e) < 512 \<and>
     se_id e = wt_startup_source_name (se_source e) @ '':'' @ se_name e \<and> wt_startup_rescore e = e"

lemma source_name_short: "length (wt_startup_source_name s) \<le> 24"
  by (cases s) (simp_all add: wt_startup_source_name_def)

lemma rescore_idem: "wt_startup_rescore (wt_startup_rescore e) = wt_startup_rescore e"
  by (simp add: wt_startup_rescore_def wt_impact_apply_to_startup_def wt_impact_input_from_startup_def)

lemma rescore_sel [simp]:
  "se_enabled (wt_startup_rescore e) = se_enabled e" "se_name (wt_startup_rescore e) = se_name e"
  "se_command (wt_startup_rescore e) = se_command e" "se_id (wt_startup_rescore e) = se_id e"
  "se_source (wt_startup_rescore e) = se_source e"
  "se_measured_available (wt_startup_rescore e) = se_measured_available e"
  by (simp_all add: wt_startup_rescore_def wt_impact_apply_to_startup_def)

definition entries_ok :: "nat \<Rightarrow> WT_StartupEntry list \<times> identity_cache \<Rightarrow> bool" where
  "entries_ok capacity st \<longleftrightarrow> length (fst st) \<le> capacity \<and>
     (\<forall>e \<in> set (fst st). startup_entry_ok e \<and> \<not> se_measured_available e \<and> se_measured_ms e = 0)"

lemma startup_add_ok:
  assumes "entries_ok capacity st"
  shows "entries_ok capacity (wt_startup_add w capacity source name command st)"
proof (cases "length (fst st) \<ge> capacity")
  case True
  then show ?thesis using assms by (cases st) (simp add: wt_startup_add_def)
next
  case False
  obtain out cache where st: "st = (out, cache)" by (cases st)
  define idn where "idn = wt_identity_from_command w (cch_copy 512 command) cache"
  define i where "i = (if fst idn \<noteq> WT_OK then zero_WT_FileIdentity\<lparr>fi_signature := WT_SIG_UNAVAILABLE,
     fi_origin := WT_ORIGIN_UNKNOWN\<rparr> else fst (snd idn))"
  define e where "e = zero_WT_StartupEntry\<lparr>se_source := source, se_enabled := True,
     se_name := cch_copy 128 name, se_command := cch_copy 512 command,
     se_id := cch_copy 160 (wt_startup_source_name source @ '':'' @ cch_copy 128 name), se_identity := i\<rparr>"
  have add: "wt_startup_add w capacity source name command st = (out @ [wt_startup_rescore e], snd (snd idn))"
    using False by (simp add: wt_startup_add_def st Let_def e_def i_def idn_def case_prod_beta)
  have len: "length (cch_copy 128 name) < 128" "length (cch_copy 512 command) < 512"
    by (rule length_cch_copy; simp)+
  then have "length (wt_startup_source_name source @ '':'' @ cch_copy 128 name) < 160"
    using source_name_short [of source] by simp
  then have "startup_entry_ok (wt_startup_rescore e)"
    using len by (simp add: startup_entry_ok_def rescore_idem) (simp add: e_def)
  moreover have "\<not> se_measured_available (wt_startup_rescore e)" "se_measured_ms (wt_startup_rescore e) = 0"
    by (simp_all add: e_def wt_startup_rescore_def wt_impact_apply_to_startup_def zero_WT_StartupEntry_def)
  ultimately show ?thesis using assms False unfolding add by (auto simp: entries_ok_def st)
qed

lemma scan_values_ok: "entries_ok n st \<Longrightarrow> entries_ok n (scan_run_values w n source vs st)"
  by (induction w n source vs st rule: scan_run_values.induct) (simp_all add: startup_add_ok Let_def)

lemma scan_files_ok: "entries_ok n st \<Longrightarrow> entries_ok n (scan_folder_files w n source f fs st)"
  by (induction w n source f fs st rule: scan_folder_files.induct) (simp_all add: startup_add_ok)

lemma scan_ok: "entries_ok n st \<Longrightarrow> entries_ok n (wt_scan_run_key w n src st)"
  "entries_ok n st \<Longrightarrow> entries_ok n (wt_scan_startup_folder w n src env sfx st)"
  by (simp_all add: wt_scan_run_key_def wt_scan_startup_folder_def scan_values_ok scan_files_ok Let_def
    split: option.split)

lemma startup_apply_ok: "startup_entry_ok e \<Longrightarrow> \<not> se_measured_available e \<Longrightarrow> se_measured_ms e = 0 \<Longrightarrow>
    startup_entry_ok (startup_apply_one boot e)"
proof -
  assume a: "startup_entry_ok e" "\<not> se_measured_available e" "se_measured_ms e = 0"
  then have e: "e\<lparr>se_measured_ms := 0, se_measured_available := False\<rparr> = e" by (cases e) simp
  show ?thesis
  proof (cases "wt_boot_apply_measured_startup boot (se_name e) (se_command e)")
    case None
    then show ?thesis using a(1) by (simp only: startup_apply_one_def Let_def option.case e)
  next
    case (Some ms)
    then show ?thesis using a by (simp add: startup_apply_one_def Let_def startup_entry_ok_def rescore_idem)
  qed
qed

definition measured_by :: "WT_BootReport \<Rightarrow> WT_StartupEntry \<Rightarrow> bool" where
  \<comment> \<open>a measured delay is the duration of some boot component\<close>
  "measured_by boot e \<longleftrightarrow> (se_measured_available e \<longrightarrow>
     (\<exists>c \<in> set (br_components boot). se_measured_ms e = bc_duration_ms c))"

text \<open>C20. The startup list: a scan never holds more than \<open>capacity\<close> entries, and every entry, before and after
  the boot measurements are matched in, is enabled, keeps its fields within their buffers, has the
  identifier made of its source and name (never cut), and carries exactly the score of its own evidence; a measured delay is the duration of a boot component.\<close>

theorem collected_startup_entries:
  "let (r, es, c) = wt_collect_startup_entries w capacity cache
   in length es \<le> capacity \<and> list_all startup_entry_ok es \<and>
      list_all (\<lambda>e. startup_entry_ok e \<and> measured_by boot e) (wt_startup_apply_measured boot es)"
proof (cases "capacity = 0")
  case True
  then show ?thesis by (simp add: wt_collect_startup_entries_def wt_startup_apply_measured_def)
next
  case False
  have e: "entries_ok capacity ([], cache)" by (simp add: entries_ok_def)
  obtain r es c where es: "wt_collect_startup_entries w capacity cache = (r, es, c)"
    using prod_cases3 by blast
  have ok: "entries_ok capacity (es, c)"
  proof -
    have "entries_ok capacity (snd (wt_collect_startup_entries w capacity cache))"
      using False by (simp add: wt_collect_startup_entries_def Let_def scan_ok e)
    then show ?thesis by (simp add: es)
  qed
  have m: "\<exists>c \<in> set (br_components boot). se_measured_ms (startup_apply_one boot e) = bc_duration_ms c"
    if "se_measured_available (startup_apply_one boot e)" for e
  proof -
    have "wt_boot_apply_measured_startup boot (se_name e) (se_command e) \<noteq> None"
      using that by (auto simp: startup_apply_one_def Let_def split: option.splits)
    then obtain ms where ms: "wt_boot_apply_measured_startup boot (se_name e) (se_command e) = Some ms" by blast
    then have "se_measured_ms (startup_apply_one boot e) = ms"
      by (simp add: startup_apply_one_def Let_def wt_startup_rescore_def wt_impact_apply_to_startup_def)
    moreover obtain c where c: "find_first (boot_component_matches (se_name e) (se_command e)) (br_components boot) = Some c"
      "bc_duration_ms c = ms" using ms by (auto simp: wt_boot_apply_measured_startup_def)
    ultimately show ?thesis using find_first_Some [OF c(1)] c(2) by (intro bexI [of _ c]) simp_all
  qed
  show ?thesis using ok m
    by (auto simp: es entries_ok_def wt_startup_apply_measured_def startup_apply_ok measured_by_def list_all_iff)
qed

end
