(* ===== verification/Storage_Health.thy ===== *)
theory Storage_Health
  imports WT_Errors System_Model
begin

text \<open>
  Storage health (\<open>src/system/storage_health.c\<close>): what each physical drive answers to the storage queries, the
  status derived from it, and the report over the sixteen drive indices. The answers of \<open>DeviceIoControl\<close> are the
  record \<open>storage_device\<close>; an answer is None when the call fails or returns less than its structure.
\<close>

section \<open>Answers of a drive\<close>

datatype STORAGE_BUS_TYPE =
    BusTypeScsi | BusTypeAtapi | BusTypeAta | BusType1394 | BusTypeSsa | BusTypeFibre | BusTypeUsb | BusTypeRAID
  | BusTypeiScsi | BusTypeSas | BusTypeSata | BusTypeSd | BusTypeMmc | BusTypeVirtual | BusTypeFileBackedVirtual
  | BusTypeSpaces | BusTypeNvme | BusTypeUnknown

record device_descriptor =
  dd_size :: nat
  dd_vendor_offset :: nat
  dd_product_offset :: nat
  dd_serial_offset :: nat
  dd_bus :: STORAGE_BUS_TYPE
  dd_bytes :: string

record temperature_reply =
  tr_warning :: int
  tr_critical :: int
  tr_info_count :: nat
  tr_infos :: "int list"  \<comment> \<open>the entries the returned bytes cover\<close>

record nvme_reply =
  nv_length :: nat
  nv_offset :: nat
  nv_room :: nat  \<comment> \<open>bytes returned after the header\<close>
  nv_critical_warning :: nat
  nv_spare :: nat
  nv_spare_threshold :: nat
  nv_used :: nat
  nv_temperature :: "nat \<times> nat"

record storage_device =
  dev_descriptor :: "device_descriptor option"
  dev_seek_penalty :: "bool option"
  dev_trim :: "bool option"
  dev_temperature :: "temperature_reply option"
  dev_nvme :: "nvme_reply option"
  dev_predict :: "nat + bool"  \<comment> \<open>the Win32 error, or whether a failure is predicted\<close>

type_synonym storage_world = "nat \<Rightarrow> storage_device option"

definition wt_storage_health_status_name :: "WT_StorageHealthStatus \<Rightarrow> string" where
  "wt_storage_health_status_name s = (case s of
     WT_STORAGE_HEALTH_OK \<Rightarrow> ''ok'' | WT_STORAGE_HEALTH_WARNING \<Rightarrow> ''warning''
   | WT_STORAGE_HEALTH_DEGRADED \<Rightarrow> ''degraded'' | WT_STORAGE_HEALTH_UNAVAILABLE \<Rightarrow> ''unavailable''
   | WT_STORAGE_HEALTH_UNKNOWN \<Rightarrow> ''unknown'')"

section \<open>The queries\<close>

definition wt_storage_copy_desc_string :: "nat \<Rightarrow> device_descriptor \<Rightarrow> nat \<Rightarrow> string" where
  "wt_storage_copy_desc_string dst_count desc off =
     (if dst_count = 0 \<or> off = 0 \<or> off \<ge> dd_size desc then []
      else let s = take (dst_count - 1) (takeWhile (\<lambda>c. c \<noteq> CHR 0x00) (drop off (dd_bytes desc)));
               s = map (\<lambda>c. if (of_char c :: nat) < 0x20 \<or> (of_char c :: nat) > 0x7e then CHR ''?'' else c) s
           in rev (dropWhile (\<lambda>c. c = CHR '' '' \<or> c = CHR 0x09) (rev s)))"

definition wt_storage_bus_name :: "STORAGE_BUS_TYPE \<Rightarrow> string" where
  "wt_storage_bus_name b = (case b of
     BusTypeScsi \<Rightarrow> ''scsi'' | BusTypeAtapi \<Rightarrow> ''atapi'' | BusTypeAta \<Rightarrow> ''ata'' | BusType1394 \<Rightarrow> ''1394''
   | BusTypeSsa \<Rightarrow> ''ssa'' | BusTypeFibre \<Rightarrow> ''fibre'' | BusTypeUsb \<Rightarrow> ''usb'' | BusTypeRAID \<Rightarrow> ''raid''
   | BusTypeiScsi \<Rightarrow> ''iscsi'' | BusTypeSas \<Rightarrow> ''sas'' | BusTypeSata \<Rightarrow> ''sata'' | BusTypeSd \<Rightarrow> ''sd''
   | BusTypeMmc \<Rightarrow> ''mmc'' | BusTypeVirtual \<Rightarrow> ''virtual'' | BusTypeFileBackedVirtual \<Rightarrow> ''file_virtual''
   | BusTypeSpaces \<Rightarrow> ''spaces'' | BusTypeNvme \<Rightarrow> ''nvme'' | BusTypeUnknown \<Rightarrow> ''unknown'')"

definition wt_storage_query_media_hint :: "storage_device \<Rightarrow> string" where
  "wt_storage_query_media_hint v =
     (case dev_seek_penalty v of
        Some True \<Rightarrow> ''hdd'' | Some False \<Rightarrow> ''ssd''
      | None \<Rightarrow> (case dev_trim v of Some True \<Rightarrow> ''ssd'' | _ \<Rightarrow> ''unknown''))"

definition wt_storage_query_descriptor ::
  "storage_device \<Rightarrow> nat \<Rightarrow> WT_StorageDiskHealth \<Rightarrow> WT_Result \<times> WT_StorageDiskHealth" where
  \<comment> \<open>\<open>need\<close> is \<open>sizeof(STORAGE_DEVICE_DESCRIPTOR)\<close>\<close>
  "wt_storage_query_descriptor v need d =
     (case dev_descriptor v of None \<Rightarrow> (WT_ERR_WIN32, d)
      | Some desc \<Rightarrow>
         if dd_size desc < need then (WT_ERR_WIN32, d)
         else let model = wt_storage_copy_desc_string 128 desc (dd_product_offset desc);
                  model = (if model = [] then wt_storage_copy_desc_string 128 desc (dd_vendor_offset desc) else model)
              in (WT_OK, d\<lparr>sd_model := model,
                           sd_serial := wt_storage_copy_desc_string 64 desc (dd_serial_offset desc),
                           sd_bus_type := cch_copy 32 (wt_storage_bus_name (dd_bus desc)),
                           sd_descriptor_ok := True\<rparr>))"

definition predict_unsupported :: string where
  "predict_unsupported = ''Failure prediction not supported on this device.''"

definition wt_storage_query_predict ::
  "storage_device \<Rightarrow> WT_StorageDiskHealth \<Rightarrow> WT_Result \<times> WT_StorageDiskHealth" where
  "wt_storage_query_predict v d =
     (case dev_predict v of
        Inl err \<Rightarrow>
          (let d = d\<lparr>sd_predict_failure := -1, sd_predict_ok := False\<rparr> in
           if err = 1 \<or> err = 50 \<or> err = 1117
           then (WT_OK, d\<lparr>sd_note := cch_copy 192 predict_unsupported, sd_status := WT_STORAGE_HEALTH_UNKNOWN\<rparr>)
           else if err = 5
           then (WT_ERR_ACCESS_DENIED, d\<lparr>sd_note := cch_copy 192 ''Access denied querying failure prediction.'',
                                         sd_status := WT_STORAGE_HEALTH_UNAVAILABLE\<rparr>)
           else (WT_ERR_WIN32, d\<lparr>sd_status := WT_STORAGE_HEALTH_UNAVAILABLE\<rparr>))
      | Inr True \<Rightarrow> (WT_OK, d\<lparr>sd_predict_ok := True, sd_predict_failure := 1,
          sd_note := cch_copy 192 ''Windows reports a predicted storage failure. Back up data and check vendor diagnostics.''\<rparr>)
      | Inr False \<Rightarrow> (WT_OK, d\<lparr>sd_predict_ok := True, sd_predict_failure := 0\<rparr>))"

definition wt_storage_temp_reported :: "int \<Rightarrow> bool" where
  "wt_storage_temp_reported v \<longleftrightarrow> v mod 65536 \<noteq> 0x8000"

definition wt_storage_query_temperature :: "storage_device \<Rightarrow> WT_StorageDiskHealth \<Rightarrow> WT_StorageDiskHealth" where
  "wt_storage_query_temperature v d =
     (case dev_temperature v of None \<Rightarrow> d
      | Some t \<Rightarrow>
         (let d = (if wt_storage_temp_reported (tr_warning t)
                   then d\<lparr>sd_warning_temperature_ok := True, sd_warning_temperature_c := tr_warning t\<rparr> else d);
              d = (if wt_storage_temp_reported (tr_critical t)
                   then d\<lparr>sd_critical_temperature_ok := True, sd_critical_temperature_c := tr_critical t\<rparr> else d)
          in case find_first wt_storage_temp_reported (take (min (tr_info_count t) 8) (tr_infos t)) of
               None \<Rightarrow> d | Some c \<Rightarrow> d\<lparr>sd_temperature_ok := True, sd_temperature_c := c\<rparr>))"

definition wt_storage_query_nvme_health :: "storage_device \<Rightarrow> WT_StorageDiskHealth \<Rightarrow> WT_StorageDiskHealth" where
  "wt_storage_query_nvme_health v d =
     (case dev_nvme v of None \<Rightarrow> d
      | Some n \<Rightarrow>
         if nv_length n < 5 \<or> (nv_offset n + nv_length n) mod 2 ^ 32 > nv_room n then d
         else let d = d\<lparr>sd_smart_ok := True, sd_critical_warning := int (nv_critical_warning n),
                        sd_spare_percent := int (nv_spare n),
                        sd_spare_threshold_percent := int (nv_spare_threshold n),
                        sd_percentage_used := int (nv_used n)\<rparr>;
                  kelvin = fst (nv_temperature n) + 256 * snd (nv_temperature n)
              in if \<not> sd_temperature_ok d \<and> kelvin > 200 \<and> kelvin < 500
                 then d\<lparr>sd_temperature_ok := True, sd_temperature_c := int kelvin - 273\<rparr> else d)"

section \<open>The status of a drive\<close>

definition sensor_warning :: "WT_StorageDiskHealth \<Rightarrow> bool" where
  "sensor_warning d \<longleftrightarrow>
     sd_smart_ok d \<and> sd_critical_warning d mod 32 \<noteq> 0 \<or>
     sd_temperature_ok d \<and> sd_warning_temperature_ok d \<and> sd_temperature_c d \<ge> sd_warning_temperature_c d \<or>
     sd_smart_ok d \<and> sd_spare_percent d \<ge> 0 \<and> sd_spare_threshold_percent d \<ge> 0 \<and>
       sd_spare_percent d < sd_spare_threshold_percent d \<or>
     sd_smart_ok d \<and> sd_percentage_used d \<ge> 100"

definition wt_storage_finish_status :: "WT_StorageDiskHealth \<Rightarrow> WT_StorageDiskHealth" where
  "wt_storage_finish_status d =
     (if sd_predict_failure d = 1 then d\<lparr>sd_status := WT_STORAGE_HEALTH_DEGRADED\<rparr>
      else if sensor_warning d
      then (let d = d\<lparr>sd_status := WT_STORAGE_HEALTH_WARNING\<rparr> in
            if sd_note d = [] \<or> contains_str (sd_note d) ''not supported''
            then d\<lparr>sd_note := cch_copy 192
                   ''Temperature or NVMe health is outside the reported threshold. Back up if this persists.''\<rparr>
            else d)
      else if sd_predict_ok d \<or> sd_temperature_ok d \<or> sd_smart_ok d
      then (let d = d\<lparr>sd_status := WT_STORAGE_HEALTH_OK\<rparr> in
            if contains_str (sd_note d) ''not supported'' then d\<lparr>sd_note := []\<rparr> else d)
      else if sd_status d = WT_STORAGE_HEALTH_UNAVAILABLE then d
      else d\<lparr>sd_status := WT_STORAGE_HEALTH_UNKNOWN\<rparr>)"

definition disk_unqueried :: "nat \<Rightarrow> WT_StorageDiskHealth" where
  "disk_unqueried index = zero_WT_StorageDiskHealth\<lparr>sd_physical_drive := index, sd_predict_failure := -1,
     sd_temperature_c := -1, sd_warning_temperature_c := -1, sd_critical_temperature_c := -1,
     sd_spare_percent := -1, sd_spare_threshold_percent := -1, sd_percentage_used := -1,
     sd_critical_warning := -1, sd_status := WT_STORAGE_HEALTH_UNKNOWN,
     sd_media_hint := cch_copy 32 ''unknown'', sd_bus_type := cch_copy 32 ''unknown''\<rparr>"

definition wt_storage_probe_disk :: "storage_world \<Rightarrow> nat \<Rightarrow> nat \<Rightarrow> WT_StorageDiskHealth option" where
  "wt_storage_probe_disk w need index =
     (case w index of None \<Rightarrow> None
      | Some v \<Rightarrow>
         (let d = disk_unqueried index;
              d = snd (wt_storage_query_descriptor v need d);
              d = d\<lparr>sd_media_hint := cch_copy 32 (wt_storage_query_media_hint v)\<rparr>;
              d = wt_storage_query_temperature v d;
              d = wt_storage_query_nvme_health v d;
              (r, d) = wt_storage_query_predict v d;
              d = (if r = WT_ERR_ACCESS_DENIED \<and> \<not> sd_temperature_ok d \<and> \<not> sd_smart_ok d
                   then d\<lparr>sd_status := WT_STORAGE_HEALTH_UNAVAILABLE\<rparr> else d);
              d = wt_storage_finish_status d
          in Some (if sd_model d = [] then d\<lparr>sd_model := cch_copy 128 (''PhysicalDrive'' @ dec index)\<rparr> else d)))"

section \<open>The report\<close>

definition WT_MAX_STORAGE_DISKS :: nat where "WT_MAX_STORAGE_DISKS = 16"

definition storage_add_disk :: "WT_StorageDiskHealth \<Rightarrow> WT_StorageHealthReport \<Rightarrow> WT_StorageHealthReport" where
  "storage_add_disk d rep =
     (let rep = rep\<lparr>sh_disks := sh_disks rep @ [d]\<rparr> in
      if sd_status d = WT_STORAGE_HEALTH_DEGRADED then rep\<lparr>sh_any_degraded := True\<rparr>
      else if sd_status d = WT_STORAGE_HEALTH_WARNING then rep\<lparr>sh_any_warning := True\<rparr>
      else if sd_status d = WT_STORAGE_HEALTH_UNAVAILABLE then rep\<lparr>sh_any_unavailable := True\<rparr>
      else rep)"

fun storage_loop :: "storage_world \<Rightarrow> nat \<Rightarrow> nat list \<Rightarrow> WT_StorageHealthReport \<Rightarrow> WT_StorageHealthReport" where
  "storage_loop w need [] rep = rep"
| "storage_loop w need (i # is) rep =
     (case wt_storage_probe_disk w need i of None \<Rightarrow> storage_loop w need is rep
      | Some d \<Rightarrow> let rep = storage_add_disk d rep in
          if length (sh_disks rep) \<ge> WT_MAX_STORAGE_DISKS then rep else storage_loop w need is rep)"

definition wt_collect_storage_health :: "storage_world \<Rightarrow> nat \<Rightarrow> WT_Result \<times> WT_StorageHealthReport" where
  "wt_collect_storage_health w need =
     (let rep = storage_loop w need [0..<WT_MAX_STORAGE_DISKS] zero_WT_StorageHealthReport in
      if sh_disks rep = []
      then (WT_ERR_NOT_FOUND, rep\<lparr>sh_note := cch_copy 256
             ''No physical disks could be opened. Try an elevated shell if access was denied.''\<rparr>)
      else if sh_any_degraded rep
      then (WT_OK, rep\<lparr>sh_note := cch_copy 256
             ''At least one disk reported a predicted failure. Back up immediately and use vendor tools.''\<rparr>)
      else if sh_any_unavailable rep
      then (WT_OK, rep\<lparr>sh_note := cch_copy 256
             ''Some disks could not be queried fully (access or driver limits).''\<rparr>)
      else (WT_OK, rep\<lparr>sh_note := cch_copy 256
             ''Read-only check only. WinTune never wipes, formats, or repairs disks.''\<rparr>))"

section \<open>Facts\<close>

definition disk_matches :: "storage_device \<Rightarrow> WT_StorageDiskHealth \<Rightarrow> bool" where
  \<comment> \<open>the status a reader of the header expects, from the drive's answers and the stored sensor fields\<close>
  "disk_matches v d \<longleftrightarrow> sd_status d =
     (if dev_predict v = Inr True then WT_STORAGE_HEALTH_DEGRADED
      else if sensor_warning d then WT_STORAGE_HEALTH_WARNING
      else if dev_predict v = Inr False \<or> sd_temperature_ok d \<or> sd_smart_ok d then WT_STORAGE_HEALTH_OK
      else if dev_predict v \<in> {Inl 1, Inl 50, Inl 1117} then WT_STORAGE_HEALTH_UNKNOWN
      else WT_STORAGE_HEALTH_UNAVAILABLE)"

lemma sensor_warning_cong:
  "sensor_warning (d\<lparr>sd_status := s\<rparr>) = sensor_warning d" "sensor_warning (d\<lparr>sd_note := t\<rparr>) = sensor_warning d"
  "sensor_warning (d\<lparr>sd_model := t\<rparr>) = sensor_warning d"
  "sensor_warning (d\<lparr>sd_predict_ok := b\<rparr>) = sensor_warning d"
  "sensor_warning (d\<lparr>sd_predict_failure := f\<rparr>) = sensor_warning d"
  by (simp_all add: sensor_warning_def)

lemma finish_sel [simp]:
  "sensor_warning (wt_storage_finish_status d) = sensor_warning d"
  "sd_temperature_ok (wt_storage_finish_status d) = sd_temperature_ok d"
  "sd_smart_ok (wt_storage_finish_status d) = sd_smart_ok d"
  "sd_physical_drive (wt_storage_finish_status d) = sd_physical_drive d"
  by (simp_all add: wt_storage_finish_status_def Let_def sensor_warning_cong)

lemma finish_status:
  "sd_status (wt_storage_finish_status d) =
     (if sd_predict_failure d = 1 then WT_STORAGE_HEALTH_DEGRADED
      else if sensor_warning d then WT_STORAGE_HEALTH_WARNING
      else if sd_predict_ok d \<or> sd_temperature_ok d \<or> sd_smart_ok d then WT_STORAGE_HEALTH_OK
      else if sd_status d = WT_STORAGE_HEALTH_UNAVAILABLE then WT_STORAGE_HEALTH_UNAVAILABLE
      else WT_STORAGE_HEALTH_UNKNOWN)"
  by (simp add: wt_storage_finish_status_def Let_def)

lemma query_drive:
  "sd_physical_drive (snd (wt_storage_query_descriptor v need d)) = sd_physical_drive d"
  "sd_physical_drive (wt_storage_query_temperature v d) = sd_physical_drive d"
  "sd_physical_drive (wt_storage_query_nvme_health v d) = sd_physical_drive d"
  "sd_physical_drive (snd (wt_storage_query_predict v d)) = sd_physical_drive d"
  by (simp_all add: wt_storage_query_descriptor_def wt_storage_query_temperature_def wt_storage_query_nvme_health_def
      wt_storage_query_predict_def Let_def split: option.split sum.split bool.split)

lemma predict_facts:
  assumes "wt_storage_query_predict v d = (r, d')"
  shows "sd_predict_failure d' = 1 \<longleftrightarrow> dev_predict v = Inr True"
    and "sd_predict_ok d' \<longleftrightarrow> (\<exists>b. dev_predict v = Inr b)"
    and "(\<exists>e. dev_predict v = Inl e) \<Longrightarrow> sd_status d' = WT_STORAGE_HEALTH_UNAVAILABLE \<longleftrightarrow>
      dev_predict v \<notin> {Inl 1, Inl 50, Inl 1117}"
    and "r = WT_ERR_ACCESS_DENIED \<Longrightarrow> sd_status d' = WT_STORAGE_HEALTH_UNAVAILABLE"
  using assms
  by (auto simp: wt_storage_query_predict_def Let_def split: sum.splits bool.splits if_splits)

lemma probe_facts:
  assumes "wt_storage_probe_disk w need i = Some d"
  shows "\<exists>v. w i = Some v \<and> disk_matches v d \<and> sd_physical_drive d = i \<and> sd_model d \<noteq> []"
proof -
  obtain v where v: "w i = Some v" using assms by (auto simp: wt_storage_probe_disk_def split: option.splits)
  define d3 where "d3 = wt_storage_query_nvme_health v (wt_storage_query_temperature v
    ((snd (wt_storage_query_descriptor v need (disk_unqueried i)))
      \<lparr>sd_media_hint := cch_copy 32 (wt_storage_query_media_hint v)\<rparr>))"
  obtain r d4 where d4: "wt_storage_query_predict v d3 = (r, d4)" by (cases "wt_storage_query_predict v d3")
  note p = predict_facts [OF d4]
  define d5 where "d5 = (if r = WT_ERR_ACCESS_DENIED \<and> \<not> sd_temperature_ok d4 \<and> \<not> sd_smart_ok d4
    then d4\<lparr>sd_status := WT_STORAGE_HEALTH_UNAVAILABLE\<rparr> else d4)"
  have d5: "d5 = d4" unfolding d5_def using p(4) by auto
  define d6 where "d6 = wt_storage_finish_status d4"
  have "wt_storage_probe_disk w need i =
      Some (if sd_model d6 = [] then d6\<lparr>sd_model := cch_copy 128 (''PhysicalDrive'' @ dec i)\<rparr> else d6)"
    unfolding wt_storage_probe_disk_def v option.case Let_def d3_def [symmetric] d4 prod.case
      d5_def [symmetric] d5 d6_def ..
  then have d: "d = (if sd_model d6 = [] then d6\<lparr>sd_model := cch_copy 128 (''PhysicalDrive'' @ dec i)\<rparr> else d6)"
    using assms by simp
  have "disk_matches v d6"
    unfolding disk_matches_def d6_def finish_status finish_sel using p(1,2,3)
    by (cases "dev_predict v") auto
  then have "disk_matches v d" unfolding d disk_matches_def by (simp add: sensor_warning_cong)
  moreover have "sd_physical_drive d4 = i"
    using query_drive(4) [of v d3] unfolding d4 by (simp add: d3_def query_drive disk_unqueried_def)
  then have "sd_physical_drive d = i" by (simp add: d d6_def)
  moreover have "sd_model d \<noteq> []" by (simp add: d cch_copy_def)
  ultimately show ?thesis using v by blast
qed

text \<open>The report lists the drives that exist, in order, and its flags are the statuses of its drives.\<close>

definition report_flags :: "WT_StorageHealthReport \<Rightarrow> bool" where
  "report_flags rep \<longleftrightarrow>
     (sh_any_degraded rep \<longleftrightarrow> WT_STORAGE_HEALTH_DEGRADED \<in> set (map sd_status (sh_disks rep))) \<and>
     (sh_any_warning rep \<longleftrightarrow> WT_STORAGE_HEALTH_WARNING \<in> set (map sd_status (sh_disks rep))) \<and>
     (sh_any_unavailable rep \<longleftrightarrow> WT_STORAGE_HEALTH_UNAVAILABLE \<in> set (map sd_status (sh_disks rep)))"

lemma add_disk_flags: "report_flags rep \<Longrightarrow> report_flags (storage_add_disk d rep)"
  by (cases "sd_status d") (auto simp: report_flags_def storage_add_disk_def Let_def)

lemma add_disk_disks [simp]: "sh_disks (storage_add_disk d rep) = sh_disks rep @ [d]"
  by (simp add: storage_add_disk_def Let_def)

lemma loop_flags: "report_flags rep \<Longrightarrow> report_flags (storage_loop w need is rep)"
  by (induction "is" arbitrary: rep) (auto simp: Let_def add_disk_flags split: option.split)

lemma loop_disks:
  "length (sh_disks rep) + length is \<le> 16 \<Longrightarrow>
   sh_disks (storage_loop w need is rep) = sh_disks rep @ List.map_filter (wt_storage_probe_disk w need) is"
proof (induction "is" arbitrary: rep)
  case Nil
  then show ?case by (simp add: map_filter_simps)
next
  case (Cons i "is")
  show ?case
  proof (cases "wt_storage_probe_disk w need i")
    case None
    then show ?thesis using Cons.IH [of rep] Cons.prems by (simp add: map_filter_simps)
  next
    case (Some d)
    have "is = []" if "length (sh_disks rep) + 1 \<ge> 16" using that Cons.prems by (cases "is") auto
    then show ?thesis using Some Cons.IH [of "storage_add_disk d rep"] Cons.prems
      by (auto simp: map_filter_simps Let_def WT_MAX_STORAGE_DISKS_def)
  qed
qed

lemma collect_disks:
  "sh_disks (snd (wt_collect_storage_health w need)) = List.map_filter (wt_storage_probe_disk w need) [0..<16]"
proof -
  have "sh_disks (storage_loop w need [0..<16] zero_WT_StorageHealthReport) =
      List.map_filter (wt_storage_probe_disk w need) [0..<16]"
    using loop_disks [of zero_WT_StorageHealthReport "[0..<16]" w need] by (simp add: zero_WT_StorageHealthReport_def)
  then show ?thesis by (simp add: wt_collect_storage_health_def Let_def WT_MAX_STORAGE_DISKS_def)
qed

lemma collect_flags: "report_flags (snd (wt_collect_storage_health w need))"
proof -
  have "report_flags (storage_loop w need [0..<WT_MAX_STORAGE_DISKS] zero_WT_StorageHealthReport)"
    by (rule loop_flags) (simp add: report_flags_def zero_WT_StorageHealthReport_def)
  then show ?thesis by (simp add: wt_collect_storage_health_def Let_def report_flags_def)
qed

text \<open>C21. The storage report lists exactly the drives among the sixteen indices that can be opened, in order; each
  drive's status is the one its answers call for (a predicted failure is degraded; otherwise a sensor outside its
  threshold is a warning; otherwise a readable sensor or an answered prediction is ok; otherwise unknown or
  unavailable by the error of the prediction query), the flags of the report say which statuses occur, and the
  collection fails only when no drive could be opened.\<close>
theorem storage_report_statuses:
  "let (r, rep) = wt_collect_storage_health w need in
     map sd_physical_drive (sh_disks rep) = filter (\<lambda>i. w i \<noteq> None) [0..<16] \<and>
     list_all (\<lambda>d. disk_matches (the (w (sd_physical_drive d))) d \<and> sd_model d \<noteq> []) (sh_disks rep) \<and>
     report_flags rep \<and> (r = WT_OK \<longleftrightarrow> sh_disks rep \<noteq> []) \<and> r \<in> {WT_OK, WT_ERR_NOT_FOUND}"
proof -
  obtain r rep where c: "wt_collect_storage_health w need = (r, rep)" by fastforce
  have disks: "sh_disks rep = List.map_filter (wt_storage_probe_disk w need) [0..<16]"
    using collect_disks [of w need] c by simp
  have some: "wt_storage_probe_disk w need i \<noteq> None \<longleftrightarrow> w i \<noteq> None" for i
    by (simp add: wt_storage_probe_disk_def Let_def split: option.split prod.split)
  have a: "map sd_physical_drive (List.map_filter (wt_storage_probe_disk w need) is) = filter (\<lambda>i. w i \<noteq> None) is" for "is"
  proof (induction "is")
    case (Cons i "is")
    then show ?case using some [of i] probe_facts [of w need i]
      by (cases "wt_storage_probe_disk w need i") (auto simp: map_filter_simps)
  qed (simp add: map_filter_simps)
  have b: "list_all (\<lambda>d. disk_matches (the (w (sd_physical_drive d))) d \<and> sd_model d \<noteq> []) (sh_disks rep)"
  proof -
    have "disk_matches (the (w (sd_physical_drive d))) d \<and> sd_model d \<noteq> []" if "wt_storage_probe_disk w need i = Some d" for i d
      using probe_facts [OF that] by auto
    then show ?thesis unfolding disks list_all_iff by (auto simp: List.map_filter_def)
  qed
  have f: "(r = WT_OK \<longleftrightarrow> sh_disks rep \<noteq> []) \<and> r \<in> {WT_OK, WT_ERR_NOT_FOUND}"
    using c by (auto simp: wt_collect_storage_health_def Let_def split: if_splits)
  have g: "report_flags rep" using collect_flags [of w need] c by simp
  show ?thesis unfolding c Let_def prod.case using a [of "[0..<16]", folded disks] b f g by blast
qed

end
