(* ===== verification/Recommendations.thy ===== *)
theory Recommendations
  imports Confidence Startup_Tasks Storage_Health
begin

text \<open>
  The recommendation engine (\<open>src/core/recommendations.c\<close>): eighteen checks, each a function from the scan report
  to the list of recommendations built so far. A recommendation is appended while the list has room
  (\<open>wt_rec_add\<close>); once the list is full nothing more is appended, so the early returns of the source on
  a NULL from \<open>wt_rec_add\<close> need no case of their own.

  What the collectors a check calls itself report (reliability, maintenance, blockers, a second memory sample,
  installed apps) and the conversions from wide text are the record \<open>rec_world\<close>; storage health, startup entries
  and tasks come from the models of their collectors. \<open>rw_utf8 n\<close> is \<open>WideCharToMultiByte\<close> into a buffer of
  \<open>n\<close> bytes, \<open>rw_narrow\<close> the \<open>%ls\<close> of \<open>snprintf\<close>.
\<close>

section \<open>Recommendations\<close>

datatype WT_Severity =
    WT_SEVERITY_INFO | WT_SEVERITY_LOW | WT_SEVERITY_MEDIUM | WT_SEVERITY_HIGH | WT_SEVERITY_CRITICAL

datatype WT_Risk = WT_RISK_NONE | WT_RISK_LOW | WT_RISK_MEDIUM | WT_RISK_HIGH

record WT_Recommendation =
  rc_id :: string
  rc_title :: string
  rc_reason :: string
  rc_action :: string
  rc_severity :: WT_Severity
  rc_risk :: WT_Risk
  rc_requires_admin :: bool
  rc_rollback_available :: bool
  rc_confidence_percent :: int
  rc_confidence_basis :: string

definition WT_MAX_RECOMMENDATIONS :: nat where "WT_MAX_RECOMMENDATIONS = 32"

definition wt_severity_to_string :: "WT_Severity \<Rightarrow> string" where
  "wt_severity_to_string s = (case s of
     WT_SEVERITY_INFO \<Rightarrow> ''info'' | WT_SEVERITY_LOW \<Rightarrow> ''low'' | WT_SEVERITY_MEDIUM \<Rightarrow> ''medium''
   | WT_SEVERITY_HIGH \<Rightarrow> ''high'' | WT_SEVERITY_CRITICAL \<Rightarrow> ''critical'')"

definition wt_risk_to_string :: "WT_Risk \<Rightarrow> string" where
  "wt_risk_to_string r = (case r of
     WT_RISK_NONE \<Rightarrow> ''none'' | WT_RISK_LOW \<Rightarrow> ''low'' | WT_RISK_MEDIUM \<Rightarrow> ''medium''
   | WT_RISK_HIGH \<Rightarrow> ''high'')"

definition wt_rec_add :: "WT_Recommendation \<Rightarrow> WT_Recommendation list \<Rightarrow> WT_Recommendation list" where
  "wt_rec_add r out = (if length out \<ge> WT_MAX_RECOMMENDATIONS then out else out @ [r])"

definition wt_str_set :: "nat \<Rightarrow> string \<Rightarrow> string" where
  "wt_str_set cap s = cch_copy cap s"

definition new_rec :: "string \<Rightarrow> string \<Rightarrow> string \<Rightarrow> string \<Rightarrow> WT_Recommendation" where
  \<comment> \<open>the fields \<open>wt_rec_add\<close> presets and the four texts, cut to their buffers\<close>
  "new_rec i title reason action =
     \<lparr>rc_id = wt_str_set 64 i, rc_title = wt_str_set 128 title, rc_reason = cch_copy 512 reason,
      rc_action = cch_copy 256 action, rc_severity = WT_SEVERITY_INFO, rc_risk = WT_RISK_NONE,
      rc_requires_admin = False, rc_rollback_available = False, rc_confidence_percent = 80,
      rc_confidence_basis = []\<rparr>"

definition wt_rec_set_confidence ::
  "WT_ScanReport \<Rightarrow> WT_ConfMetric \<Rightarrow> int \<Rightarrow> WT_Recommendation \<Rightarrow> WT_Recommendation" where
  "wt_rec_set_confidence rep m base r =
     r\<lparr>rc_confidence_percent := wt_confidence_compute rep m base,
       rc_confidence_basis := wt_confidence_basis rep m 96\<rparr>"

definition rec_set_basis :: "string \<Rightarrow> WT_Recommendation \<Rightarrow> WT_Recommendation" where
  "rec_set_basis b r = r\<lparr>rc_confidence_basis := wt_str_set 96 b\<rparr>"

record rec_world =
  rw_fault_sample :: "WT_Result \<times> WT_MemoryMetrics"
  rw_storage :: storage_world
  rw_descriptor_size :: nat
  rw_reliability :: "WT_Result \<times> WT_ReliabilityReport"
  rw_maintenance :: "WT_ScanReport \<Rightarrow> WT_Result \<times> WT_MaintenanceReport"
  rw_blockers :: "WT_Result \<times> WT_BlockerReport"
  rw_startup :: startup_world
  rw_cache :: identity_cache
  rw_com :: sched_com
  rw_tasks :: task_folder
  rw_uninstall :: "(WT_Result \<times> nat) option"
  rw_utf8 :: "nat \<Rightarrow> string \<Rightarrow> string"
  rw_narrow :: "string \<Rightarrow> string"

definition em_dash :: string where
  \<comment> \<open>the dash of the source's literals, in UTF-8\<close>
  "em_dash = [CHR 0xE2, CHR 0x80, CHR 0x94]"

definition quoted :: "string \<Rightarrow> string" where
  "quoted s = CHR 0x27 # s @ [CHR 0x27]"

section \<open>Names used in the texts\<close>

definition wt_power_scheme_name :: "WT_PowerScheme \<Rightarrow> string" where
  "wt_power_scheme_name s = (case s of
     WT_POWER_BALANCED \<Rightarrow> ''Balanced'' | WT_POWER_HIGH_PERF \<Rightarrow> ''High performance''
   | WT_POWER_POWER_SAVER \<Rightarrow> ''Power saver'' | WT_POWER_ULTIMATE \<Rightarrow> ''Ultimate performance''
   | WT_POWER_UNKNOWN \<Rightarrow> ''Unknown'')"

definition wt_boot_kind_name :: "WT_BootKind \<Rightarrow> string" where
  "wt_boot_kind_name k = (case k of
     WT_BOOT_KIND_COLD \<Rightarrow> ''cold'' | WT_BOOT_KIND_WARM \<Rightarrow> ''warm'' | WT_BOOT_KIND_UNKNOWN \<Rightarrow> ''unknown'')"

text \<open>\<open>CatalogStatus\<close> of the Windows Search API counts from idle (0) to shutting down (6).\<close>

definition wt_search_status_token :: "int \<Rightarrow> string" where
  "wt_search_status_token s =
     (if s = 0 then ''idle'' else if s = 1 then ''paused'' else if s = 2 then ''recovering''
      else if s = 3 then ''full_crawl'' else if s = 4 then ''incremental_crawl''
      else if s = 5 then ''processing_notifications'' else if s = 6 then ''shutting_down''
      else ''unknown'')"

definition wt_search_backlog_notable :: "WT_SearchReport \<Rightarrow> bool" where
  "wt_search_backlog_notable r =
     (if \<not> sr_available r then False
      else (sr_status_ok r \<and> (sr_status r = 2 \<or> sr_status r = 3)) \<or>
           (sr_backlog_ok r \<and> sr_backlog_items r \<ge> 100))"

section \<open>Power\<close>

definition power_plan_check :: "WT_ScanReport \<Rightarrow> WT_Recommendation list \<Rightarrow> WT_Recommendation list" where
  "power_plan_check rep out =
     (let p = rep_power rep in
      if pw_on_ac p = 1 \<and> pw_scheme p \<noteq> WT_POWER_HIGH_PERF \<and> pw_scheme p \<noteq> WT_POWER_ULTIMATE then
        wt_rec_add (wt_rec_set_confidence rep WT_CONF_SNAPSHOT 85
          ((new_rec ''WT-POWER-001'' ''Use a higher-performance power plan while plugged in''
             (''On AC power with the '' @ quoted (wt_power_scheme_name (pw_scheme p)) @
              '' plan. While plugged in, the High performance plan can improve responsiveness for compiling, gaming, or other heavy workloads.'')
             ''wintune apply WT-POWER-001'')\<lparr>
            rc_severity := (if pw_scheme p = WT_POWER_POWER_SAVER then WT_SEVERITY_MEDIUM else WT_SEVERITY_LOW),
            rc_risk := WT_RISK_LOW, rc_rollback_available := True\<rparr>)) out
      else if pw_on_ac p = 0 \<and> (pw_scheme p = WT_POWER_HIGH_PERF \<or> pw_scheme p = WT_POWER_ULTIMATE) then
        wt_rec_add (wt_rec_set_confidence rep WT_CONF_SNAPSHOT 80
          ((new_rec ''WT-POWER-002'' ''Consider a balanced power plan on battery''
             (''Running on battery with the '' @ quoted (wt_power_scheme_name (pw_scheme p)) @
              '' plan. A Balanced plan can extend battery life with little impact on everyday tasks.'')
             ''wintune apply WT-POWER-002'')\<lparr>
            rc_severity := WT_SEVERITY_LOW, rc_risk := WT_RISK_LOW, rc_rollback_available := True\<rparr>)) out
      else out)"

definition power_cap_check :: "WT_ScanReport \<Rightarrow> WT_Recommendation list \<Rightarrow> WT_Recommendation list" where
  "power_cap_check rep out =
     (let p = rep_power rep in
      if pw_processor_capped p then
        (let cap = (if pw_on_ac p = 1 then pw_processor_max_pct_ac p else pw_processor_max_pct_dc p);
             r = new_rec ''WT-POWER-003'' ''Current power plan caps processor performance''
               (''The active '' @ quoted (wt_power_scheme_name (pw_scheme p)) @
                '' plan sets processor maximum state to '' @ dec_int (if cap \<ge> 0 then cap else 0) @
                ''% for the current power source ('' @ (if pw_on_ac p = 1 then ''AC'' else ''battery'') @
                ''). That can make the machine feel slower under load. Switching to Balanced or High performance (when plugged in) raises the cap using an existing Windows plan.'')
               (if pw_on_ac p = 1 then ''wintune apply WT-POWER-001''
                else ''Review power plan; use Balanced if on High performance.'')
         in wt_rec_add (wt_rec_set_confidence rep WT_CONF_SNAPSHOT 80
              (r\<lparr>rc_rollback_available := (pw_on_ac p = 1), rc_severity := WT_SEVERITY_INFO,
                 rc_risk := WT_RISK_LOW\<rparr>)) out)
      else out)"

definition power_discharge_check :: "WT_ScanReport \<Rightarrow> WT_Recommendation list \<Rightarrow> WT_Recommendation list" where
  "power_discharge_check rep out =
     (let p = rep_power rep in
      if pw_on_ac p = 0 \<and> pw_rate_ok p \<and> pw_discharging p = 1 \<and> pw_rate_mw p \<le> -20000 then
        (let watts = - of_int (pw_rate_mw p) / 1000;
             reason = (if pw_estimated_seconds p > 0
               then ''Battery discharge is about '' @ fmt_fixed1 watts @
                    '' W. Estimated time remaining at this rate is roughly '' @
                    dec_int (pw_estimated_seconds p div 60) @
                    '' minutes. Heavy CPU/GPU work, bright displays, or High performance plans increase drain. WinTune does not change fans or firmware.''
               else ''Battery discharge is about '' @ fmt_fixed1 watts @
                    '' W. Heavy CPU/GPU work or a High performance plan can increase drain. WinTune does not change fans or firmware.'')
         in wt_rec_add (wt_rec_set_confidence rep WT_CONF_SNAPSHOT 70
              ((new_rec ''WT-POWER-004'' ''Battery is discharging quickly'' reason
                 ''Reduce load or switch to Balanced/Power saver on battery.'')\<lparr>
                rc_severity := WT_SEVERITY_LOW\<rparr>)) out)
      else out)"

definition wt_check_power :: "WT_ScanReport \<Rightarrow> WT_Recommendation list \<Rightarrow> WT_Recommendation list" where
  "wt_check_power rep out =
     (if \<not> rep_power_ok rep then out
      else power_discharge_check rep (power_cap_check rep (power_plan_check rep out)))"

section \<open>Memory\<close>

definition memory_avail_pct :: "WT_MemoryMetrics \<Rightarrow> rat" where
  "memory_avail_pct m = of_nat (mm_available_physical_bytes m) * 100 / of_nat (mm_total_physical_bytes m)"

definition wt_check_memory :: "WT_ScanReport \<Rightarrow> WT_Recommendation list \<Rightarrow> WT_Recommendation list" where
  "wt_check_memory rep out =
     (if \<not> rep_memory_ok rep \<or> mm_total_physical_bytes (rep_memory rep) = 0 then out
      else let avail = memory_avail_pct (rep_memory rep) in
        if avail \<ge> 20 then out
        else if rep_memory_ok_samples rep > 1 \<and>
                wrap32 (rep_memory_pressure_samples rep * 2) \<le> rep_memory_ok_samples rep \<and> avail \<ge> 10
        then out
        else if \<not> wt_confidence_should_emit rep WT_CONF_MEMORY (wt_confidence_compute rep WT_CONF_MEMORY 90)
        then out
        else wt_rec_add (wt_rec_set_confidence rep WT_CONF_MEMORY 90
          ((new_rec ''WT-MEMORY-001'' ''Physical memory is running low''
             (''Only '' @ fmt_fixed1 avail @ ''% of physical memory is available ('' @
              fmt_fixed1 (mm_used_percent (rep_memory rep)) @
              ''% used). Low available memory can cause paging and slowdowns.'')
             (''Close or delay memory-heavy apps; review '' @ quoted ''wintune top'' @ '' / '' @
              quoted ''wintune memory'' @ ''.''))\<lparr>
            rc_severity := (if avail < 10 then WT_SEVERITY_HIGH else WT_SEVERITY_MEDIUM)\<rparr>)) out)"

definition wt_check_memory_commit :: "WT_ScanReport \<Rightarrow> WT_Recommendation list \<Rightarrow> WT_Recommendation list" where
  "wt_check_memory_commit rep out =
     (let m = rep_memory rep; pct = mm_commit_percent m in
      if \<not> rep_memory_ok rep \<or> \<not> mm_commit_ok m \<or> mm_commit_limit_bytes m = 0 then out
      else if pct < 85 then out
      else wt_rec_add (rec_set_basis ''GetPerformanceInfo CommitTotal/Limit''
        ((new_rec ''WT-MEMORY-002'' ''Commit charge is high''
           (''System commit charge is '' @ fmt_fixed1 pct @
            ''% of the commit limit (peak was also tracked). High commit means Windows may page heavily; this is not fixed by \"RAM cleaners\".'')
           (''Close or delay commit-heavy apps; review '' @ quoted ''wintune memory'' @ '' and '' @
            quoted ''wintune top'' @ ''. Never empty working sets as an optimization.''))\<lparr>
          rc_severity := (if pct \<ge> 90 then WT_SEVERITY_HIGH else WT_SEVERITY_MEDIUM),
          rc_confidence_percent := 88\<rparr>)) out)"

definition wt_check_memory_hard_faults ::
  "rec_world \<Rightarrow> WT_ScanReport \<Rightarrow> WT_Recommendation list \<Rightarrow> WT_Recommendation list" where
  "wt_check_memory_hard_faults w rep out =
     (if \<not> rep_memory_ok rep then out
      else let m = (if mm_hard_faults_ok (rep_memory rep) then rep_memory rep else snd (rw_fault_sample w));
               sampled = (mm_hard_faults_ok (rep_memory rep) \<or>
                          fst (rw_fault_sample w) = WT_OK \<and> mm_hard_faults_ok (snd (rw_fault_sample w)));
               avail = (if mm_total_physical_bytes m > 0 then memory_avail_pct m else 100)
        in if \<not> sampled then out
           else if mm_hard_faults_per_sec m < 200 then out
           else if mm_commit_ok m \<and> mm_commit_percent m < 85 \<and> avail \<ge> 20 then out
           else wt_rec_add (rec_set_basis (''PDH Memory'' @ bsl ''/Pages Input'' @ ''/sec'')
             ((new_rec ''WT-MEMORY-003'' ''High hard-fault (paging) rate''
                (''Memory Pages Input/sec is about '' @ fmt_fixed0 (mm_hard_faults_per_sec m) @
                 ''. Sustained hard faults mean the disk is serving page traffic, which feels like system slowness.'')
                ''Reduce concurrent heavy apps; wait for scans/backups to finish. Run: wintune memory. WinTune never trims working sets.'')\<lparr>
               rc_severity := WT_SEVERITY_MEDIUM, rc_confidence_percent := 75\<rparr>)) out)"

section \<open>Disk\<close>

fun hottest_from :: "WT_DiskVolumeMetrics option \<Rightarrow> WT_DiskVolumeMetrics list \<Rightarrow> WT_DiskVolumeMetrics option" where
  "hottest_from hot [] = hot"
| "hottest_from hot (v # vs) =
     (if \<not> dv_activity_ok v then hottest_from hot vs
      else hottest_from (case hot of None \<Rightarrow> Some v
             | Some h \<Rightarrow> if dv_active_percent v > dv_active_percent h then Some v else Some h) vs)"

definition wt_hottest_volume :: "WT_ScanReport \<Rightarrow> WT_DiskVolumeMetrics option" where
  "wt_hottest_volume rep = (if \<not> rep_disk_ok rep then None else hottest_from None (rep_volumes rep))"

definition wt_disk_sustained_hot :: "WT_ScanReport \<Rightarrow> bool" where
  "wt_disk_sustained_hot rep =
     (let good = rep_disk_active_ok_samples rep; hot = rep_disk_active_hot_samples rep in
      if \<not> rep_disk_active_ok rep then False
      else if good = 0 then rep_disk_active_percent rep \<ge> 90
      else if rep_disk_active_percent rep \<ge> 90 then True
      else wrap32 (hot * 2) > good)"

definition wt_disk_active_confidence :: "WT_ScanReport \<Rightarrow> int \<Rightarrow> int \<Rightarrow> int" where
  "wt_disk_active_confidence rep base_single base_multi =
     wt_confidence_compute rep WT_CONF_DISK
       (if rep_scan_sample_count rep \<le> 1 \<or> rep_disk_active_ok_samples rep \<le> 1 then base_single else base_multi)"

definition wt_disk_sample_suffix :: "WT_ScanReport \<Rightarrow> nat \<Rightarrow> string" where
  "wt_disk_sample_suffix rep cap =
     (let good = rep_disk_active_ok_samples rep; hot = rep_disk_active_hot_samples rep in
      if good = 0 then []
      else if rep_disk_active_max_percent rep \<ge> 0 \<and> good > 1 then
        cch_copy cap ('' Across '' @ dec good @ '' samples: average '' @ fmt_fixed0 (rep_disk_active_percent rep) @
          ''%, peak '' @ fmt_fixed0 (rep_disk_active_max_percent rep) @ ''%, '' @ dec hot @ '' of '' @ dec good @
          '' above '' @ fmt_fixed0 90 @ ''%.'')
      else if good > 1 then
        cch_copy cap ('' Across '' @ dec good @ '' samples: average '' @ fmt_fixed0 (rep_disk_active_percent rep) @
          ''%, '' @ dec hot @ '' of '' @ dec good @ '' above '' @ fmt_fixed0 90 @ ''%.'')
      else [])"

definition drive_letter :: "WT_DiskVolumeMetrics \<Rightarrow> string" where
  \<comment> \<open>\<open>(char)root_path[0]\<close>; a volume's root path is never empty\<close>
  "drive_letter v = take 1 (dv_root_path v)"

definition mb_s :: "rat \<Rightarrow> string" where
  "mb_s x = fmt_fixed1 (x / (1024 * 1024))"

definition pos_part :: "rat \<Rightarrow> rat" where
  "pos_part x = (if x > 0 then x else 0)"

definition disk_thru :: "WT_ScanReport \<Rightarrow> rat" where
  "disk_thru rep = (if rep_disk_throughput_ok rep
     then pos_part (rep_disk_read_bytes_per_sec rep) + pos_part (rep_disk_write_bytes_per_sec rep) else 0)"

definition rates_text :: "WT_ScanReport \<Rightarrow> string" where
  "rates_text rep = '' MB/s combined throughput ('' @ mb_s (rep_disk_read_bytes_per_sec rep) @ '' MB/s read, '' @
     mb_s (rep_disk_write_bytes_per_sec rep) @ '' MB/s write).''"

definition disk_total_hot :: "WT_ScanReport \<Rightarrow> bool" where
  "disk_total_hot rep = (wt_disk_sustained_hot rep \<and>
     wt_confidence_should_emit rep WT_CONF_DISK (wt_disk_active_confidence rep 70 80))"

definition disk_total_rec :: "WT_ScanReport \<Rightarrow> WT_Recommendation" where
  "disk_total_rec rep =
     (let hot = wt_hottest_volume rep; thru = disk_thru rep; note = wt_disk_sample_suffix rep 192;
          busy = (rep_disk_throughput_ok rep \<and> thru \<ge> 20 * 1024 * 1024);
          avg = fmt_fixed0 (rep_disk_active_percent rep);
          (reason, conf) =
            (case hot of
               Some v \<Rightarrow> if dv_activity_ok v \<and> busy
                 then (''Physical disk active time averaged '' @ avg @ ''% (hottest volume '' @ drive_letter v @
                       '': at '' @ fmt_fixed0 (dv_active_percent v) @ ''%) with about '' @ mb_s thru @ rates_text rep @
                       note @ '' Sustained load often comes from antivirus scans, search indexing, or backups.'',
                       wt_disk_active_confidence rep 75 85)
                 else (''Physical disk active time averaged '' @ avg @ ''%; volume '' @ drive_letter v @
                       '': was about '' @ fmt_fixed0 (dv_active_percent v) @ ''% active.'' @ note @
                       '' Sustained high disk usage often comes from antivirus scans, search indexing, or backups.'',
                       wt_disk_active_confidence rep 70 80)
             | None \<Rightarrow> if busy
                 then (''Physical disk active time averaged '' @ avg @ ''% with about '' @ mb_s thru @ rates_text rep @
                       note @ '' Sustained load often comes from antivirus scans, search indexing, or backups.'',
                       wt_disk_active_confidence rep 75 85)
                 else (''Physical disk active time averaged '' @ avg @ ''%.'' @ note @
                       '' Sustained high disk usage often comes from antivirus scans, search indexing, or backups.'',
                       wt_disk_active_confidence rep 70 80))
      in (new_rec ''WT-DISK-001'' ''Disk activity is very high'' reason
            ''Review disk-heavy processes; let scans/indexing finish.'')\<lparr>
           rc_confidence_percent := conf, rc_confidence_basis := wt_confidence_basis rep WT_CONF_DISK 96,
           rc_severity := WT_SEVERITY_MEDIUM\<rparr>)"

definition disk_volume_rec :: "WT_ScanReport \<Rightarrow> WT_DiskVolumeMetrics \<Rightarrow> WT_Recommendation" where
  "disk_volume_rec rep v =
     (let thru = (if dv_throughput_ok v then pos_part (dv_read_bytes_per_sec v) + pos_part (dv_write_bytes_per_sec v) else 0);
          reason = (if dv_throughput_ok v \<and> thru \<ge> 20 * 1024 * 1024
            then ''Drive '' @ drive_letter v @ '': LogicalDisk active time was '' @ fmt_fixed0 (dv_active_percent v) @
                 ''% with about '' @ mb_s thru @
                 '' MB/s combined throughput, while overall PhysicalDisk(_Total) was not as elevated. Pressure may be localized to this volume.''
            else ''Drive '' @ drive_letter v @ '': LogicalDisk active time was '' @ fmt_fixed0 (dv_active_percent v) @
                 ''% during the sample, while overall PhysicalDisk(_Total) was not as elevated. Pressure may be localized to this volume (backups, installs, or large file copies).'')
      in (new_rec ''WT-DISK-004'' ''One volume has very high disk activity'' reason
            ''Review activity on that volume; check top disk I/O.'')\<lparr>
           rc_severity := WT_SEVERITY_MEDIUM,
           rc_confidence_percent := (if rep_scan_sample_count rep > 1 then 80 else 70)\<rparr>)"

definition disk_thru_rec :: "WT_ScanReport \<Rightarrow> WT_Recommendation" where
  "disk_thru_rec rep =
     (new_rec ''WT-DISK-003'' ''Disk throughput is high''
        (''Physical disk throughput averaged about '' @ mb_s (disk_thru rep) @ '' MB/s ('' @
         mb_s (rep_disk_read_bytes_per_sec rep) @ '' MB/s read, '' @ mb_s (rep_disk_write_bytes_per_sec rep) @
         '' MB/s write) during the sample'' @
         (if rep_disk_queue_ok rep \<and> rep_disk_avg_queue_length rep \<ge> 4
          then ''; queue length was also elevated'' else []) @
         ''. This is normal under heavy I/O but worth reviewing if unexpected.'')
        (''Review top disk consumers with '' @ quoted ''wintune top --sort disk'' @ ''.''))\<lparr>
       rc_confidence_percent := (if rep_scan_sample_count rep > 1 then 80 else 70)\<rparr>"

fun worst_volume :: "WT_DiskVolumeMetrics option \<Rightarrow> WT_DiskVolumeMetrics list \<Rightarrow> WT_DiskVolumeMetrics option" where
  "worst_volume worst [] = worst"
| "worst_volume worst (v # vs) =
     worst_volume (if dv_free_percent v < 10 \<and>
         (case worst of None \<Rightarrow> True | Some b \<Rightarrow> dv_free_percent v < dv_free_percent b)
       then Some v else worst) vs"

definition disk_free_rec :: "WT_DiskVolumeMetrics \<Rightarrow> WT_Recommendation" where
  "disk_free_rec v =
     (new_rec ''WT-DISK-002'' ''A volume is low on free space''
        (''Drive '' @ drive_letter v @ '': has only '' @ fmt_fixed1 (dv_free_percent v) @
         ''% free space. Very low free space can slow down Windows and prevent updates.'')
        ''Free up space or move files to another volume.'')\<lparr>
       rc_severity := (if dv_free_percent v < 5 then WT_SEVERITY_HIGH else WT_SEVERITY_MEDIUM),
       rc_confidence_percent := 95\<rparr>"

definition wt_check_disk :: "WT_ScanReport \<Rightarrow> WT_Recommendation list \<Rightarrow> WT_Recommendation list" where
  "wt_check_disk rep out =
     (let hot = wt_hottest_volume rep;
          volume_hot = (case hot of None \<Rightarrow> False | Some v \<Rightarrow> dv_activity_ok v \<and> dv_active_percent v \<ge> 90);
          out1 = (if disk_total_hot rep then wt_rec_add (disk_total_rec rep) out
                  else if volume_hot then wt_rec_add (disk_volume_rec rep (the hot)) out
                  else if rep_disk_throughput_ok rep \<and> disk_thru rep \<ge> 50 * 1024 * 1024
                  then wt_rec_add (disk_thru_rec rep) out else out)
      in if rep_disk_ok rep
         then (case worst_volume None (rep_volumes rep) of None \<Rightarrow> out1 | Some v \<Rightarrow> wt_rec_add (disk_free_rec v) out1)
         else out1)"

section \<open>Storage health\<close>

definition disk_name :: "rec_world \<Rightarrow> WT_StorageDiskHealth \<Rightarrow> string" where
  "disk_name w d = (if sd_model d \<noteq> [] then rw_utf8 w 128 (sd_model d) else [])"

definition storage_failed_rec :: "rec_world \<Rightarrow> WT_StorageDiskHealth \<Rightarrow> WT_Recommendation" where
  "storage_failed_rec w d =
     rec_set_basis ''IOCTL_STORAGE_PREDICT_FAILURE''
       ((new_rec ''WT-DISK-005'' ''Storage failure prediction reported''
          (if disk_name w d \<noteq> []
           then ''PhysicalDrive'' @ dec (sd_physical_drive d) @ '' ('' @ disk_name w d @
             '') reported a predicted failure via Windows storage health. Continuing to use a failing disk risks data loss.''
           else ''PhysicalDrive'' @ dec (sd_physical_drive d) @
             '' reported a predicted failure via Windows storage health. Continuing to use a failing disk risks data loss.'')
          ''Back up important data now. Run your disk vendor's diagnostic tool. WinTune does not wipe, format, or repair disks.'')\<lparr>
         rc_severity := WT_SEVERITY_HIGH, rc_confidence_percent := 90\<rparr>)"

definition storage_warning_rec :: "rec_world \<Rightarrow> WT_StorageDiskHealth \<Rightarrow> WT_Recommendation" where
  "storage_warning_rec w d =
     rec_set_basis ''Storage temperature property or NVMe health log''
       ((new_rec ''WT-DISK-006'' ''Storage sensor is outside its threshold''
          (if sd_temperature_ok d \<and> disk_name w d \<noteq> []
           then ''PhysicalDrive'' @ dec (sd_physical_drive d) @ '' ('' @ disk_name w d @ '') reports '' @
             dec_int (sd_temperature_c d) @ '' C or an NVMe health threshold. This is advisory.''
           else if sd_temperature_ok d
           then ''PhysicalDrive'' @ dec (sd_physical_drive d) @ '' reports '' @ dec_int (sd_temperature_c d) @
             '' C or an NVMe health threshold. This is advisory.''
           else if disk_name w d \<noteq> []
           then ''PhysicalDrive'' @ dec (sd_physical_drive d) @ '' ('' @ disk_name w d @
             '') NVMe health log is outside the reported threshold. This is advisory.''
           else ''PhysicalDrive'' @ dec (sd_physical_drive d) @
             '' NVMe health log is outside the reported threshold. This is advisory.'')
          ''Check vendor diagnostics if this persists. WinTune does not wipe, format, or repair disks.'')\<lparr>
         rc_severity := WT_SEVERITY_MEDIUM, rc_confidence_percent := 70\<rparr>)"

definition wt_check_storage_health :: "rec_world \<Rightarrow> WT_Recommendation list \<Rightarrow> WT_Recommendation list" where
  "wt_check_storage_health w out =
     (let (r, health) = wt_collect_storage_health (rw_storage w) (rw_descriptor_size w) in
      if r \<noteq> WT_OK \<and> sh_disks health = [] then out
      else if \<not> sh_any_degraded health then out
      else case find_first (\<lambda>d. sd_status d = WT_STORAGE_HEALTH_DEGRADED) (sh_disks health) of
             Some d \<Rightarrow> wt_rec_add (storage_failed_rec w d) out
           | None \<Rightarrow>
              (case find_first (\<lambda>d. sd_status d = WT_STORAGE_HEALTH_WARNING) (sh_disks health) of
                 Some d \<Rightarrow> wt_rec_add (storage_warning_rec w d) out
               | None \<Rightarrow> out))"

section \<open>Reliability\<close>

definition rel_shutdown_rec :: "WT_ReliabilityReport \<Rightarrow> nat \<Rightarrow> WT_Recommendation" where
  "rel_shutdown_rec rel unexpected =
     rec_set_basis ''System Event Log 41/6008''
       ((new_rec ''WT-RELIABILITY-001'' ''Recent unexpected shutdowns detected''
          (''Event Log shows '' @ dec unexpected @ '' unexpected power/shutdown signal(s) in the last '' @
           dec_int (rr_lookback_days rel) @
           '' days (Kernel-Power 41 / Event 6008). Systems often feel slow until a clean reboot after hard power loss.'')
          ''Reboot cleanly when convenient. Check power/cables if this repeats. Run: wintune reliability'')\<lparr>
         rc_severity := (if unexpected \<ge> 2 then WT_SEVERITY_HIGH else WT_SEVERITY_MEDIUM),
         rc_confidence_percent := 85\<rparr>)"

definition rel_crash_rec :: "rec_world \<Rightarrow> WT_ReliabilityReport \<Rightarrow> nat \<Rightarrow> WT_Recommendation" where
  "rel_crash_rec w rel crashes =
     (let app = (case rr_crash_apps rel of [] \<Rightarrow> [] | a # as \<Rightarrow> rw_utf8 w 96 (ca_name a));
          reason = (if app \<noteq> []
            then dec crashes @ '' app crash/hang event(s) in the last '' @ dec_int (rr_lookback_days rel) @
                 '' days (top: '' @ app @ '' x'' @ dec (ca_count (hd (rr_crash_apps rel))) @
                 ''). Crash recovery can keep CPU and disk busy.''
            else dec crashes @ '' app crash/hang event(s) in the last '' @ dec_int (rr_lookback_days rel) @
                 '' days. Crash recovery can keep CPU and disk busy.'')
      in rec_set_basis ''Application Event Log 1000/1002''
           ((new_rec ''WT-RELIABILITY-002'' ''Repeated application crashes or hangs'' reason
              ''Update or close noisy apps. Inspect with: wintune reliability. WinTune does not repair apps.'')\<lparr>
             rc_severity := WT_SEVERITY_MEDIUM, rc_confidence_percent := 80\<rparr>))"

definition rel_dump_rec :: "WT_ReliabilityReport \<Rightarrow> bool \<Rightarrow> WT_Recommendation" where
  "rel_dump_rec rel has_dump =
     rec_set_basis ''System 1001 / local dump metadata''
       ((new_rec ''WT-RELIABILITY-003'' ''Kernel crash / dump metadata present''
          (''Found '' @ dec (rr_bugcheck_count rel) @ '' bugcheck report(s)'' @
           (if has_dump then '' and local kernel dump file(s)'' else []) @
           '' in the lookback window. A recent bugcheck can explain lingering slowness.'')
          ''Review dumps with WinDbg or vendor tools if needed. WinTune never opens or uploads dump contents. Run: wintune reliability'')\<lparr>
         rc_severity := WT_SEVERITY_HIGH, rc_confidence_percent := 88\<rparr>)"

definition wt_check_reliability :: "rec_world \<Rightarrow> WT_Recommendation list \<Rightarrow> WT_Recommendation list" where
  "wt_check_reliability w out =
     (let (r, rel) = rw_reliability w in
      if r \<noteq> WT_OK \<and> \<not> rr_events_ok rel \<and> rr_dumps rel = [] then out
      else let unexpected = wrap32 (rr_kernel_power_count rel + rr_unexpected_shutdown_count rel);
               crashes = wrap32 (rr_app_crash_count rel + rr_app_hang_count rel);
               has_bugcheck = rr_bugcheck_count rel \<ge> 1;
               has_dump = list_ex (\<lambda>d. wcsicmp (rd_location d) ''minidump'' \<or> wcsicmp (rd_location d) ''memory.dmp'')
                            (rr_dumps rel);
               out = (if unexpected \<ge> 1 then wt_rec_add (rel_shutdown_rec rel unexpected) out else out);
               out = (if crashes \<ge> 3 then wt_rec_add (rel_crash_rec w rel crashes) out else out)
           in if has_bugcheck \<or> has_dump then wt_rec_add (rel_dump_rec rel has_dump) out else out)"

section \<open>Maintenance\<close>

definition maint_defender_rec :: "WT_MaintenanceReport \<Rightarrow> WT_Recommendation" where
  "maint_defender_rec m =
     rec_set_basis ''scan hot samples + Defender process/task''
       ((new_rec ''WT-MAINT-001'' ''Defender activity overlaps busy samples''
          (''High '' @ (if mr_disk_hot m then ''disk'' else ''CPU'') @
           '' samples overlapped Microsoft Defender-related processes or scheduled scans. Security scans are important but can feel like system slowness.'')
          ''Prefer Windows Security scheduled scan outside work hours / Active hours. Do not disable Defender. Run: wintune maintenance'')\<lparr>
         rc_severity := WT_SEVERITY_MEDIUM, rc_confidence_percent := 82\<rparr>)"

definition maint_update_rec :: WT_Recommendation where
  "maint_update_rec =
     rec_set_basis ''scan hot samples + WU/servicing process/task''
       ((new_rec ''WT-MAINT-002'' ''Windows Update/servicing overlaps high load''
          ''Update Orchestrator / servicing workers were active while CPU or disk samples were hot. Installing updates during work hours can stall interactive use.''
          ''Schedule updates/reboots via Windows Update Active hours. Do not disable Windows Update. Run: wintune maintenance'')\<lparr>
         rc_severity := WT_SEVERITY_MEDIUM, rc_confidence_percent := 80\<rparr>)"

definition maint_optimize_rec :: WT_Recommendation where
  "maint_optimize_rec =
     rec_set_basis ''disk hot + optimization process/task''
       ((new_rec ''WT-MAINT-003'' ''Background optimization overlaps high disk''
          ''Search indexing, defrag/optimize, or compatibility assessment overlapped high disk active time.''
          ''Review Task Scheduler / Storage optimize schedule for off-peak hours. Do not disable security features. Run: wintune maintenance'')\<lparr>
         rc_severity := WT_SEVERITY_LOW, rc_confidence_percent := 75\<rparr>)"

definition maint_many_rec :: WT_Recommendation where
  "maint_many_rec =
     rec_set_basis ''multiple maint kinds in one window''
       ((new_rec ''WT-MAINT-004'' ''Multiple maintenance workloads concurrent''
          ''More than one maintenance class (Defender, Update, optimization) was active during the scan window.''
          ''Stagger Defender scans, updates, and Optimize Drives to idle hours when possible. Never disable security.'')\<lparr>
         rc_confidence_percent := 70\<rparr>)"

definition count_true :: "bool list \<Rightarrow> nat" where
  "count_true bs = length (filter id bs)"

definition wt_check_maintenance ::
  "rec_world \<Rightarrow> WT_ScanReport \<Rightarrow> WT_Recommendation list \<Rightarrow> WT_Recommendation list" where
  "wt_check_maintenance w rep out =
     (let (r, m) = rw_maintenance w rep in
      if r \<noteq> WT_OK then out
      else if \<not> mr_overlap m then out
      else let hot = (mr_cpu_hot m \<or> mr_disk_hot m);
               out = (if mr_defender_active m \<and> hot then wt_rec_add (maint_defender_rec m) out else out);
               out = (if mr_update_active m \<and> hot then wt_rec_add maint_update_rec out else out);
               out = (if mr_optimize_active m \<and> mr_disk_hot m then wt_rec_add maint_optimize_rec out else out)
           in if count_true [mr_defender_active m, mr_update_active m, mr_optimize_active m] \<ge> 2
              then wt_rec_add maint_many_rec out else out)"

section \<open>CPU, GPU, audio, search\<close>

definition wt_check_cpu :: "WT_ScanReport \<Rightarrow> WT_Recommendation list \<Rightarrow> WT_Recommendation list" where
  "wt_check_cpu rep out =
     (let usage = cm_total_usage_percent (rep_cpu rep);
          sustained = (if rep_cpu_ok_samples rep > 1
            then wrap32 (rep_cpu_hot_samples rep * 2) > rep_cpu_ok_samples rep \<or> usage \<ge> 85 else True);
          peak = (if rep_cpu_max_percent rep \<ge> 0 then rep_cpu_max_percent rep else usage);
          reason = (if rep_cpu_ok_samples rep > 1
            then ''Total CPU usage averaged '' @ fmt_fixed1 usage @ ''% (peak '' @ fmt_fixed1 peak @ ''%; '' @
                 dec (rep_cpu_hot_samples rep) @ '' of '' @ dec (rep_cpu_ok_samples rep) @ '' samples above '' @
                 fmt_fixed0 85 @ ''%). This is normal under active workloads but worth reviewing if unexpected.''
            else ''Total CPU usage was '' @ fmt_fixed1 usage @
                 ''% during the sample. This is normal under active workloads but worth reviewing if unexpected.'')
      in if \<not> rep_cpu_ok rep \<or> \<not> cm_available (rep_cpu rep) \<or> usage < 85 then out
         else if \<not> sustained then out
         else if \<not> wt_confidence_should_emit rep WT_CONF_CPU (wt_confidence_compute rep WT_CONF_CPU 75) then out
         else wt_rec_add (wt_rec_set_confidence rep WT_CONF_CPU 75
                (new_rec ''WT-CPU-001'' ''CPU usage is high'' reason
                   (''Review top CPU consumers with '' @ quoted ''wintune top'' @ ''.''))) out)"

fun hottest_gpu :: "WT_GpuAdapter option \<Rightarrow> WT_GpuAdapter list \<Rightarrow> WT_GpuAdapter option" where
  "hottest_gpu hot [] = hot"
| "hottest_gpu hot (a # as) =
     (if \<not> ga_utilization_ok a then hottest_gpu hot as
      else hottest_gpu (case hot of None \<Rightarrow> Some a
             | Some h \<Rightarrow> if ga_utilization_percent a > ga_utilization_percent h then Some a else Some h) as)"

definition wt_check_gpu :: "rec_world \<Rightarrow> WT_ScanReport \<Rightarrow> WT_Recommendation list \<Rightarrow> WT_Recommendation list" where
  "wt_check_gpu w rep out =
     (let g = rep_gpu rep;
          reason = (case hottest_gpu None (gm_adapters g) of
              Some hot \<Rightarrow> ''GPU engine utilization peaked around '' @ fmt_fixed0 (ga_utilization_percent hot) @
                ''% on \"'' @ rw_utf8 w 160 (ga_name hot) @
                ''\" during the sample. High GPU load can make the desktop feel laggy (compositing, browsers, games, video encode). This is informational '' @
                em_dash @ '' WinTune does not change GPU drivers or clocks.''
            | None \<Rightarrow> ''GPU engine utilization peaked around '' @ fmt_fixed0 (gm_max_utilization_percent g) @
                ''% during the sample. High GPU load can make the desktop feel laggy.'')
      in if \<not> rep_gpu_ok rep \<or> \<not> gm_utilization_ok g \<or> gm_max_utilization_percent g < 90 then out
         else if \<not> wt_confidence_should_emit rep WT_CONF_GPU (wt_confidence_compute rep WT_CONF_GPU 70) then out
         else wt_rec_add (wt_rec_set_confidence rep WT_CONF_GPU 70
                (new_rec ''WT-GPU-001'' ''GPU engines are very busy'' reason
                   ''Review GPU-heavy apps; wait for encodes/games to finish.'')) out)"

definition wt_check_audio :: "rec_world \<Rightarrow> WT_ScanReport \<Rightarrow> WT_Recommendation list \<Rightarrow> WT_Recommendation list" where
  "wt_check_audio w rep out =
     (let a = rep_audio rep in
      if \<not> rep_audio_ok rep \<or> \<not> ar_available a \<or> \<not> ar_any_exclusive a then out
      else case find_first (\<lambda>e. ae_probed e \<and> ae_exclusive e) (ar_endpoints a) of
        None \<Rightarrow> out
      | Some hit \<Rightarrow>
          (let name = (if ae_name hit \<noteq> [] then rw_utf8 w 160 (ae_name hit) else []) in
           wt_rec_add (wt_rec_set_confidence rep WT_CONF_SNAPSHOT 70
             (new_rec ''WT-AUDIO-001'' ''An audio endpoint is in exclusive mode''
                (''\"'' @ (if name \<noteq> [] then name else ''Audio endpoint'') @ ''\" ('' @
                 (if ae_render hit then ''render'' else ''capture'') @ '') '' @
                 (if ae_exclusive_only hit then ''is exclusive-only'' else ''is currently held in exclusive mode'') @
                 ''. Exclusive mode bypasses the shared audio engine and can add latency or silence other apps. This is a hint only. WinTune does not change audio devices or exclusive-mode settings.'')
                ''Close the app that took exclusive control, or clear exclusive mode in the device properties.'')) out))"

definition wt_check_search :: "WT_ScanReport \<Rightarrow> WT_Recommendation list \<Rightarrow> WT_Recommendation list" where
  "wt_check_search rep out =
     (let s = rep_search rep;
          reason = (if sr_backlog_ok s \<and> sr_status_ok s
            then ''Windows Search catalog is '' @ wt_search_status_token (sr_status s) @ '' with '' @
                 dec_int (sr_backlog_items s) @ '' item(s) still to index ('' @ dec_int (sr_incremental_count s) @
                 '' incremental, '' @ dec_int (sr_notification_count s) @ '' notifications, '' @
                 dec_int (sr_high_priority_count s) @
                 '' high priority). A large backlog can use disk and CPU until it finishes. WinTune does not disable Search.''
            else if sr_backlog_ok s
            then ''Windows Search still has '' @ dec_int (sr_backlog_items s) @
                 '' item(s) to index. A large backlog can use disk and CPU until it finishes. WinTune does not disable Search.''
            else ''Windows Search catalog is '' @ wt_search_status_token (sr_status s) @
                 ''. A full crawl or catalog recovery can use disk and CPU until it finishes. WinTune does not disable Search.'')
      in if \<not> rep_search_ok rep \<or> \<not> wt_search_backlog_notable s then out
         else wt_rec_add (wt_rec_set_confidence rep WT_CONF_SNAPSHOT 70
                (new_rec ''WT-SEARCH-001'' ''Search indexer has a backlog'' reason
                   ''Wait for indexing to finish, or narrow indexed locations in Windows Search settings. WinTune does not disable Search.'')) out)"

section \<open>Boot\<close>

definition boot_slow_conf :: "WT_BootReport \<Rightarrow> int option" where
  \<comment> \<open>Some base when a pattern of slow boots shows in the history\<close>
  "boot_slow_conf b =
     (let h = br_history b; n = length (hist_entries h) in
      if n \<ge> 2 \<and> hist_slow_count h \<ge> 2 then Some 88
      else if n \<ge> 3 \<and> hist_avg_duration_ms h \<ge> 60000 then Some 82
      else if n \<ge> 2 \<and> br_boot_duration_ms b \<ge> 60000 \<and> hist_avg_duration_ms h \<ge> 60000 then Some 78
      else None)"

definition seconds_text :: "nat \<Rightarrow> string" where
  "seconds_text ms = fmt_fixed1 (of_nat ms / 1000)"

definition boot_slow_check :: "WT_ScanReport \<Rightarrow> WT_Recommendation list \<Rightarrow> WT_Recommendation list" where
  "boot_slow_check rep out =
     (let b = rep_boot rep; h = br_history b; n = length (hist_entries h) in
      case boot_slow_conf b of None \<Rightarrow> out
      | Some conf \<Rightarrow>
         wt_rec_add ((new_rec ''WT-BOOT-001'' ''Recent boots are slower than expected''
            (''Across '' @ dec n @ '' recent boots, average duration is '' @ dec (hist_avg_duration_ms h) @ '' ms ('' @
             seconds_text (hist_avg_duration_ms h) @ '' s); '' @ dec (hist_slow_count h) @ '' of '' @ dec n @
             '' were above 60 s. Last boot was '' @ wt_boot_kind_name (br_last_boot_kind b) @ '' ('' @
             seconds_text (br_boot_duration_ms b) @
             '' s). Sustained slow boots often indicate startup apps, drivers, or disk contention '' @ em_dash @
             '' not a one-off spike.'')
            (''Run '' @ quoted ''wintune boot analyze'' @ '' and review startup apps.''))\<lparr>
           rc_severity := (if hist_avg_duration_ms h \<ge> 120000 \<or> br_boot_duration_ms b \<ge> 120000
                           then WT_SEVERITY_MEDIUM else WT_SEVERITY_LOW),
           rc_confidence_percent := wt_confidence_compute rep WT_CONF_BOOT conf,
           rc_confidence_basis := wt_confidence_basis rep WT_CONF_BOOT 96\<rparr>) out)"

definition boot_degraded_check :: "WT_ScanReport \<Rightarrow> WT_Recommendation list \<Rightarrow> WT_Recommendation list" where
  "boot_degraded_check rep out =
     (let b = rep_boot rep; h = br_history b; n = length (hist_entries h);
          base = (if n \<ge> 2 \<and> hist_degraded_count h \<ge> 2 then 88 else if n \<le> 1 then 60 else 80);
          conf = wt_confidence_compute rep WT_CONF_BOOT base
      in if br_is_degraded b \<and> wt_confidence_should_emit rep WT_CONF_BOOT conf
         then wt_rec_add ((new_rec ''WT-BOOT-002'' ''Windows detected boot performance degradation''
            (''The Diagnostic-Performance log reports boot degradation on the last '' @
             wt_boot_kind_name (br_last_boot_kind b) @ '' boot.'' @
             (if hist_degraded_count h > 1 then '' Multiple recent boots were degraded.''
              else '' Confirm with another reboot before major changes.'') @
             (if br_degradation_summary b \<noteq> [] then '' See '' @ quoted ''wintune boot analyze'' @ '' for component details.''
              else []))
            ''wintune boot analyze'')\<lparr>
           rc_severity := WT_SEVERITY_MEDIUM, rc_confidence_percent := conf,
           rc_confidence_basis := wt_confidence_basis rep WT_CONF_BOOT 96\<rparr>) out
         else out)"

definition boot_component_slow :: "WT_BootComponent \<Rightarrow> bool" where
  "boot_component_slow c = (\<not> bc_duration_ms c < 3000 \<and>
     (bc_kind c = WT_BOOT_COMP_APPLICATION \<or> bc_kind c = WT_BOOT_COMP_DEGRADATION))"

definition boot_component_check :: "WT_ScanReport \<Rightarrow> WT_Recommendation list \<Rightarrow> WT_Recommendation list" where
  "boot_component_check rep out =
     (case find_first boot_component_slow (br_components (rep_boot rep)) of None \<Rightarrow> out
      | Some c \<Rightarrow>
         wt_rec_add ((new_rec ''WT-STARTUP-001'' ''A startup component had high measured delay''
            (''Windows measured a startup component adding about '' @ dec (bc_duration_ms c) @
             '' ms during the last boot/login. '' @
             (if bc_is_disk_heavy c then ''Disk I/O during startup was reported.'' else []) @
             '' Review details with '' @ quoted ''wintune boot analyze'' @ '' and correlate entries with '' @
             quoted ''wintune startup --measured'' @ ''.'')
            ''wintune startup --measured'')\<lparr>
           rc_severity := (if bc_duration_ms c \<ge> 10000 then WT_SEVERITY_MEDIUM else WT_SEVERITY_LOW),
           rc_risk := WT_RISK_LOW, rc_confidence_percent := 75\<rparr>) out)"

definition wt_check_boot :: "WT_ScanReport \<Rightarrow> WT_Recommendation list \<Rightarrow> WT_Recommendation list" where
  "wt_check_boot rep out =
     (if \<not> rep_boot_ok rep then out
      else boot_component_check rep (boot_degraded_check rep (boot_slow_check rep out)))"

section \<open>Updates and blockers\<close>

definition update_reboot_rec :: "WT_UpdateStatus \<Rightarrow> WT_Recommendation" where
  "update_reboot_rec u =
     (new_rec ''WT-UPDATE-001'' ''A reboot is pending to finish updates or servicing''
        (''Windows reports a pending reboot'' @ (if us_reboot_wu u then '' (Windows Update)'' else []) @
         (if us_reboot_cbs u then '' (component servicing)'' else []) @
         (if us_reboot_pending_file_rename u then '' (file operations)'' else []) @
         ''. Leaving the machine without rebooting can leave updates incomplete and may keep showing restart prompts.'')
        (''Schedule a reboot when convenient; run '' @ quoted ''wintune updates'' @ ''.''))\<lparr>
       rc_severity := WT_SEVERITY_MEDIUM, rc_risk := WT_RISK_LOW, rc_confidence_percent := 95\<rparr>"

definition update_mandatory_rec :: "WT_UpdateStatus \<Rightarrow> WT_Recommendation" where
  "update_mandatory_rec u =
     (new_rec ''WT-UPDATE-002'' ''Mandatory Windows updates are pending''
        (''Windows Update reports '' @ dec (us_pending_mandatory_count u) @
         '' mandatory update(s) not yet installed. WinTune does not install updates; review them in Settings > Windows Update.'')
        ''wintune updates'')\<lparr>rc_severity := WT_SEVERITY_MEDIUM, rc_confidence_percent := 90\<rparr>"

definition update_many_rec :: "WT_UpdateStatus \<Rightarrow> WT_Recommendation" where
  "update_many_rec u =
     (new_rec ''WT-UPDATE-003'' ''Many Windows updates are pending''
        (''Windows Update reports '' @ dec (us_pending_count u) @
         '' pending update(s). Installing them during maintenance can improve security and stability.'')
        ''wintune updates'')\<lparr>rc_severity := WT_SEVERITY_LOW, rc_confidence_percent := 85\<rparr>"

definition update_service_rec :: WT_Recommendation where
  "update_service_rec =
     (new_rec ''WT-UPDATE-004'' ''Windows Update service is not running''
        ''The Windows Update service (wuauserv) is stopped. Updates cannot be checked or installed until it is running.''
        ''Start the Windows Update service or use Settings > Windows Update.'')\<lparr>
       rc_severity := WT_SEVERITY_LOW, rc_confidence_percent := 90\<rparr>"

definition wt_check_updates :: "WT_ScanReport \<Rightarrow> WT_Recommendation list \<Rightarrow> WT_Recommendation list" where
  "wt_check_updates rep out =
     (let u = rep_updates rep in
      if \<not> rep_updates_ok rep then out
      else let out = (if us_reboot_required u then wt_rec_add (update_reboot_rec u) out else out);
               out = (if us_search_available u \<and> us_pending_mandatory_count u > 0
                      then wt_rec_add (update_mandatory_rec u) out
                      else if us_search_available u \<and> us_pending_count u \<ge> 5
                      then wt_rec_add (update_many_rec u) out else out)
           in if us_wu_service_running u = 0 then wt_rec_add update_service_rec out else out)"

definition blocker_rec :: "WT_BlockerReport \<Rightarrow> WT_Recommendation" where
  "blocker_rec b =
     (new_rec ''WT-BLOCKER-001'' ''Applications or file locks may block restart''
        (''WinTune detected '' @ dec (bk_process_blocker_count b) @ '' application(s) with shutdown blocks and '' @
         dec (bk_locked_file_count b) @
         '' locked file path(s). These can prevent Windows Update or servicing from completing until they are closed.'')
        ''wintune blockers'')\<lparr>rc_severity := WT_SEVERITY_MEDIUM, rc_confidence_percent := 85\<rparr>"

definition wt_check_blockers :: "rec_world \<Rightarrow> WT_ScanReport \<Rightarrow> WT_Recommendation list \<Rightarrow> WT_Recommendation list" where
  "wt_check_blockers w rep out =
     (if \<not> rep_updates_ok rep \<or> \<not> us_reboot_required (rep_updates rep) then out
      else let (r, b) = rw_blockers w in
        if r \<noteq> WT_OK then out
        else if bk_process_blocker_count b = 0 \<and> bk_locked_file_count b = 0 then out
        else wt_rec_add (blocker_rec b) out)"

section \<open>Startup entries, tasks, installed apps\<close>

definition wt_startup_is_systemish :: "WT_StartupEntry \<Rightarrow> bool" where
  "wt_startup_is_systemish e =
     (if fi_origin (se_identity e) = WT_ORIGIN_MICROSOFT \<or>
         fi_signature (se_identity e) = WT_SIG_SIGNED_MICROSOFT then True
      else if se_command e = [] then False
      else contains_str (se_command e) (bsl ''/Windows/'') \<or> contains_str (se_command e) (bsl ''/Microsoft/'') \<or>
           contains_str (se_command e) ''Windows Defender'' \<or> contains_str (se_command e) ''SecurityHealth'')"

definition startup_rescored :: "rec_world \<Rightarrow> WT_ScanReport \<Rightarrow> WT_StartupEntry \<Rightarrow> WT_StartupEntry" where
  "startup_rescored w rep e =
     (let i = wt_impact_input_from_startup e;
          i = (if rep_processes_ok rep
               then wt_impact_attach_runtime (fp_expand (sw_probe (rw_startup w))) (rep_top_processes rep) i else i)
      in wt_impact_apply_to_startup e (wt_impact_score_compute i))"

definition startup_candidate :: "WT_StartupEntry \<Rightarrow> bool" where
  "startup_candidate e = (se_enabled e \<and> se_impact_score e \<ge> WT_IMPACT_RECOMMEND_SCORE_MIN \<and>
     se_impact_confidence e \<ge> WT_IMPACT_RECOMMEND_CONF_MIN \<and> \<not> wt_startup_is_systemish e)"

definition startup_rec :: "rec_world \<Rightarrow> WT_StartupEntry \<Rightarrow> WT_Recommendation" where
  "startup_rec w e =
     (let head = ''Startup entry '' @ quoted (rw_narrow w (se_name e)) @ '' ('' @
            wt_publisher_origin_name (fi_origin (se_identity e)) @ '') scored '' @ dec_int (se_impact_score e) @
            ''/100 impact (confidence '' @ dec_int (se_impact_confidence e) @ ''%)'';
          reason = (if se_measured_available e
            then head @ '' with about '' @ dec (se_measured_ms e) @
              '' ms measured login delay. Disabling it can reduce login time; re-enable via Task Manager or WinTune rollback.''
            else head @ '' from publisher/heuristic/runtime evidence. Disabling it can reduce login overhead; re-enable via Task Manager or WinTune rollback.'')
      in (new_rec ''WT-STARTUP-002'' ''Review disabling a high-impact startup entry'' reason
            (''wintune apply WT-STARTUP-DISABLE \"'' @ rw_narrow w (se_id e) @ ''\"''))\<lparr>
           rc_severity := WT_SEVERITY_MEDIUM, rc_risk := WT_RISK_LOW,
           rc_requires_admin := contains_str (se_id e) ''HKLM'', rc_rollback_available := True,
           rc_confidence_percent := se_impact_confidence e\<rparr>)"

definition wt_check_startup_actions ::
  "rec_world \<Rightarrow> WT_ScanReport \<Rightarrow> WT_Recommendation list \<Rightarrow> WT_Recommendation list" where
  "wt_check_startup_actions w rep out =
     (let (r, es, c) = wt_collect_startup_entries (rw_startup w) 256 (rw_cache w) in
      if r \<noteq> WT_OK then out
      else let es = (if rep_boot_ok rep then wt_startup_apply_measured (rep_boot rep) es else es);
               es = map (startup_rescored w rep) es
           in case find_first startup_candidate es of None \<Rightarrow> out
              | Some e \<Rightarrow> wt_rec_add (startup_rec w e) out)"

definition task_rescored :: "rec_world \<Rightarrow> WT_ScanReport \<Rightarrow> WT_ScheduledTask \<Rightarrow> WT_ScheduledTask" where
  "task_rescored w rep t =
     (let i = wt_impact_input_from_task t;
          i = (if rep_processes_ok rep
               then wt_impact_attach_runtime (fp_expand (sw_probe (rw_startup w))) (rep_top_processes rep) i else i)
      in wt_impact_apply_to_task t (wt_impact_score_compute i))"

definition task_candidate :: "WT_ScheduledTask \<Rightarrow> bool" where
  "task_candidate t = (st_enabled t \<and> \<not> wt_task_is_protected t \<and>
     st_impact_score t \<ge> WT_IMPACT_RECOMMEND_SCORE_MIN \<and>
     st_impact_confidence t \<ge> WT_IMPACT_RECOMMEND_CONF_MIN \<and> \<not> st_delay_seconds t > 0)"

definition task_rec :: "rec_world \<Rightarrow> WT_ScheduledTask \<Rightarrow> WT_Recommendation" where
  "task_rec w t =
     (let head = ''Logon task '' @ quoted (rw_narrow w (st_name t)) @ '' scored '' @ dec_int (st_impact_score t) @
            ''/100 impact (confidence '' @ dec_int (st_impact_confidence t) @ ''%)'';
          reason = (if st_measured_available t
            then head @ '' with about '' @ dec (st_measured_ms t) @
              '' ms measured login delay. Delaying it by 30 seconds can spread login work without removing the task.''
            else head @ ''. Delaying it by 30 seconds can spread login work without removing the task.'')
      in (new_rec ''WT-TASK-001'' ''Consider delaying a logon scheduled task'' reason
            (''wintune apply WT-TASK-DELAY \"'' @ rw_narrow w (st_id t) @ ''\" --seconds 30''))\<lparr>
           rc_severity := WT_SEVERITY_LOW, rc_risk := WT_RISK_LOW, rc_rollback_available := True,
           rc_confidence_percent := st_impact_confidence t\<rparr>)"

definition wt_check_task_actions ::
  "rec_world \<Rightarrow> WT_ScanReport \<Rightarrow> WT_Recommendation list \<Rightarrow> WT_Recommendation list" where
  "wt_check_task_actions w rep out =
     (let (r, ts) = wt_collect_scheduled_tasks (rw_com w) (rw_tasks w) 256 WT_TASK_FILTER_LOGON in
      if r \<noteq> WT_OK then out
      else let ts = (if rep_boot_ok rep then wt_tasks_apply_measured (rep_boot rep) ts else ts);
               ts = map (task_rescored w rep) ts
           in case find_first task_candidate ts of None \<Rightarrow> out
              | Some t \<Rightarrow> wt_rec_add (task_rec w t) out)"

definition wt_check_uninstall :: "rec_world \<Rightarrow> WT_Recommendation list \<Rightarrow> WT_Recommendation list" where
  "wt_check_uninstall w out =
     (case rw_uninstall w of None \<Rightarrow> out
      | Some (r, candidates) \<Rightarrow>
         if r \<noteq> WT_OK then out
         else if candidates = 0 then out
         else wt_rec_add (rec_set_basis ''ARP metadata + startup correlation''
                ((new_rec ''WT-UNINSTALL-001'' ''Review installed apps that may be safe to remove''
                   (dec candidates @ '' installed-app candidate(s) match high-impact startup entries. WinTune never uninstalls software.'')
                   ''wintune apps   (then Settings / winget - you uninstall)'')\<lparr>
                  rc_severity := WT_SEVERITY_LOW, rc_confidence_percent := 70\<rparr>)) out)"

section \<open>All checks\<close>

definition rec_checks ::
  "rec_world \<Rightarrow> WT_ScanReport \<Rightarrow> (WT_Recommendation list \<Rightarrow> WT_Recommendation list) list" where
  \<comment> \<open>the calls of \<open>wt_generate_recommendations\<close>, in order\<close>
  "rec_checks w rep =
     [wt_check_power rep, wt_check_memory rep, wt_check_memory_commit rep, wt_check_memory_hard_faults w rep,
      wt_check_disk rep, wt_check_storage_health w, wt_check_reliability w, wt_check_maintenance w rep,
      wt_check_cpu rep, wt_check_gpu w rep, wt_check_audio w rep, wt_check_search rep, wt_check_boot rep,
      wt_check_updates rep, wt_check_blockers w rep, wt_check_startup_actions w rep,
      wt_check_task_actions w rep, wt_check_uninstall w]"

definition wt_generate_recommendations ::
  "rec_world \<Rightarrow> WT_ScanReport option \<Rightarrow> WT_Result \<times> WT_Recommendation list" where
  "wt_generate_recommendations w report =
     (case report of None \<Rightarrow> (WT_ERR_INVALID_ARGUMENT, [])
      | Some rep \<Rightarrow> (WT_OK, foldl (\<lambda>out check. check out) [] (rec_checks w rep)))"

end
