(* ===== verification/Power_Plan.thy ===== *)
theory Power_Plan
  imports Recommendations Zip_Store
begin

text \<open>
  Power plans (\<open>src/system/power.c\<close>): the scheme and mode identifiers, the collector behind \<open>WT_PowerInfo\<close>, the
  identifier as text, and the two operations that switch the plan. The answers of the power API are the record
  \<open>power_api\<close>; the active plan itself is state, an identifier or none when the API fails.
\<close>

unbundle bit_operations_syntax

section \<open>Identifiers\<close>

record GUID =
  Data1 :: u32
  Data2 :: u16
  Data3 :: u16
  Data4_0 :: byte
  Data4_1 :: byte
  Data4_2 :: byte
  Data4_3 :: byte
  Data4_4 :: byte
  Data4_5 :: byte
  Data4_6 :: byte
  Data4_7 :: byte

definition WT_GUID_BALANCED :: GUID where
  "WT_GUID_BALANCED = \<lparr>Data1 = 0x381b4222, Data2 = 0xf694, Data3 = 0x41f0, Data4_0 = 0x96, Data4_1 = 0x85,
     Data4_2 = 0xff, Data4_3 = 0x5b, Data4_4 = 0xb2, Data4_5 = 0x60, Data4_6 = 0xdf, Data4_7 = 0x2e\<rparr>"

definition WT_GUID_HIGH_PERF :: GUID where
  "WT_GUID_HIGH_PERF = \<lparr>Data1 = 0x8c5e7fda, Data2 = 0xe8bf, Data3 = 0x4a96, Data4_0 = 0x9a, Data4_1 = 0x85,
     Data4_2 = 0xa6, Data4_3 = 0xe2, Data4_4 = 0x3a, Data4_5 = 0x8c, Data4_6 = 0x63, Data4_7 = 0x5c\<rparr>"

definition WT_GUID_POWER_SAVER :: GUID where
  "WT_GUID_POWER_SAVER = \<lparr>Data1 = 0xa1841308, Data2 = 0x3541, Data3 = 0x4fab, Data4_0 = 0xbc, Data4_1 = 0x81,
     Data4_2 = 0xf7, Data4_3 = 0x15, Data4_4 = 0x56, Data4_5 = 0xf2, Data4_6 = 0x0b, Data4_7 = 0x4a\<rparr>"

definition WT_GUID_ULTIMATE :: GUID where
  "WT_GUID_ULTIMATE = \<lparr>Data1 = 0xe9a42b02, Data2 = 0xd5df, Data3 = 0x448d, Data4_0 = 0xaa, Data4_1 = 0x00,
     Data4_2 = 0x03, Data4_3 = 0xf1, Data4_4 = 0x47, Data4_5 = 0x49, Data4_6 = 0xeb, Data4_7 = 0x61\<rparr>"

definition WT_GUID_MODE_BEST_EFFICIENCY :: GUID where
  "WT_GUID_MODE_BEST_EFFICIENCY = \<lparr>Data1 = 0x961cc777, Data2 = 0x2547, Data3 = 0x4f9d, Data4_0 = 0x81,
     Data4_1 = 0x74, Data4_2 = 0x7d, Data4_3 = 0x86, Data4_4 = 0x18, Data4_5 = 0x1b, Data4_6 = 0x8a, Data4_7 = 0x7a\<rparr>"

definition WT_GUID_MODE_BALANCED :: GUID where
  "WT_GUID_MODE_BALANCED = \<lparr>Data1 = 0, Data2 = 0, Data3 = 0, Data4_0 = 0, Data4_1 = 0, Data4_2 = 0,
     Data4_3 = 0, Data4_4 = 0, Data4_5 = 0, Data4_6 = 0, Data4_7 = 0\<rparr>"

definition WT_GUID_MODE_BETTER_PERFORMANCE :: GUID where
  "WT_GUID_MODE_BETTER_PERFORMANCE = \<lparr>Data1 = 0x3af9b8d9, Data2 = 0x7c97, Data3 = 0x431d, Data4_0 = 0xad,
     Data4_1 = 0x78, Data4_2 = 0x34, Data4_3 = 0xa8, Data4_4 = 0xbf, Data4_5 = 0xea, Data4_6 = 0x43, Data4_7 = 0x9f\<rparr>"

definition WT_GUID_MODE_BEST_PERFORMANCE :: GUID where
  "WT_GUID_MODE_BEST_PERFORMANCE = \<lparr>Data1 = 0xded574b5, Data2 = 0x45a0, Data3 = 0x4f42, Data4_0 = 0x87,
     Data4_1 = 0x37, Data4_2 = 0x46, Data4_3 = 0x34, Data4_4 = 0x5c, Data4_5 = 0x09, Data4_6 = 0xc2, Data4_7 = 0x38\<rparr>"

definition wt_power_scheme_guid :: "WT_PowerScheme \<Rightarrow> GUID option" where
  "wt_power_scheme_guid s = (case s of
     WT_POWER_BALANCED \<Rightarrow> Some WT_GUID_BALANCED | WT_POWER_HIGH_PERF \<Rightarrow> Some WT_GUID_HIGH_PERF
   | WT_POWER_POWER_SAVER \<Rightarrow> Some WT_GUID_POWER_SAVER | WT_POWER_ULTIMATE \<Rightarrow> Some WT_GUID_ULTIMATE
   | WT_POWER_UNKNOWN \<Rightarrow> None)"

definition wt_power_mode_token :: "WT_PowerMode \<Rightarrow> string" where
  "wt_power_mode_token m = (case m of
     WT_POWER_MODE_BEST_EFFICIENCY \<Rightarrow> ''best_efficiency'' | WT_POWER_MODE_BALANCED \<Rightarrow> ''balanced''
   | WT_POWER_MODE_BETTER_PERFORMANCE \<Rightarrow> ''better_performance''
   | WT_POWER_MODE_BEST_PERFORMANCE \<Rightarrow> ''best_performance'' | WT_POWER_MODE_UNKNOWN \<Rightarrow> ''unknown'')"

definition wt_power_mode_label :: "WT_PowerMode \<Rightarrow> string" where
  "wt_power_mode_label m = (case m of
     WT_POWER_MODE_BEST_EFFICIENCY \<Rightarrow> ''Best power efficiency'' | WT_POWER_MODE_BALANCED \<Rightarrow> ''Balanced''
   | WT_POWER_MODE_BETTER_PERFORMANCE \<Rightarrow> ''Better performance''
   | WT_POWER_MODE_BEST_PERFORMANCE \<Rightarrow> ''Best performance'' | WT_POWER_MODE_UNKNOWN \<Rightarrow> ''Unknown'')"

definition wt_power_active_mode :: "WT_PowerInfo \<Rightarrow> WT_PowerMode \<times> bool" where
  "wt_power_active_mode info =
     (if pw_on_ac info = 0 \<and> pw_mode_dc_ok info then (pw_mode_dc info, True)
      else if pw_on_ac info = 1 \<and> pw_mode_ac_ok info then (pw_mode_ac info, True)
      else (WT_POWER_MODE_UNKNOWN, False))"

definition wt_power_mode_from_guid :: "GUID \<Rightarrow> WT_PowerMode" where
  "wt_power_mode_from_guid g =
     (if g = WT_GUID_MODE_BEST_EFFICIENCY then WT_POWER_MODE_BEST_EFFICIENCY
      else if g = WT_GUID_MODE_BALANCED then WT_POWER_MODE_BALANCED
      else if g = WT_GUID_MODE_BETTER_PERFORMANCE then WT_POWER_MODE_BETTER_PERFORMANCE
      else if g = WT_GUID_MODE_BEST_PERFORMANCE then WT_POWER_MODE_BEST_PERFORMANCE
      else WT_POWER_MODE_UNKNOWN)"

section \<open>The collector\<close>

record battery_state =
  AcOnLine :: bool
  BatteryPresent :: bool
  Charging :: bool
  Discharging :: bool
  MaxCapacity :: u32
  RemainingCapacity :: u32
  Rate :: u32
  EstimatedTime :: u32

record power_status =
  ACLineStatus :: byte
  BatteryFlag :: byte
  BatteryLifePercent :: byte

text \<open>\<open>pa_friendly\<close>: None when \<open>PowerReadFriendlyName\<close> fails, \<open>Some None\<close> when it gives no bytes.
  \<open>pa_ac_index\<close> and \<open>pa_dc_index\<close>: the maximum processor state of a plan. \<open>pa_mode_ac\<close>, \<open>pa_mode_dc\<close>: None when
  the export is missing or fails. \<open>pa_set\<close>: the error of \<open>PowerSetActiveScheme\<close>, none on success.\<close>
record power_api =
  pa_friendly :: "GUID \<Rightarrow> string option option"
  pa_ac_index :: "GUID \<Rightarrow> u32 option"
  pa_dc_index :: "GUID \<Rightarrow> u32 option"
  pa_status :: "power_status option"
  pa_battery :: "battery_state option"
  pa_mode_ac :: "GUID option"
  pa_mode_dc :: "GUID option"
  pa_set :: "GUID \<Rightarrow> win_error option"

definition wt_power_read_modes :: "power_api \<Rightarrow> WT_PowerInfo \<Rightarrow> WT_PowerInfo" where
  "wt_power_read_modes api out =
     (let out = (case pa_mode_ac api of None \<Rightarrow> out
                 | Some g \<Rightarrow> out\<lparr>pw_mode_ac := wt_power_mode_from_guid g, pw_mode_ac_ok := True\<rparr>)
      in case pa_mode_dc api of None \<Rightarrow> out
         | Some g \<Rightarrow> out\<lparr>pw_mode_dc := wt_power_mode_from_guid g, pw_mode_dc_ok := True\<rparr>)"

definition wt_power_read_friendly_name :: "power_api \<Rightarrow> GUID \<Rightarrow> nat \<Rightarrow> string \<Rightarrow> string" where
  "wt_power_read_friendly_name api g count out =
     (case pa_friendly api g of Some (Some name) \<Rightarrow> cch_copy count name | _ \<Rightarrow> out)"

definition wt_power_read_throttle_max :: "power_api \<Rightarrow> GUID \<Rightarrow> bool \<Rightarrow> int" where
  "wt_power_read_throttle_max api g ac =
     (case (if ac then pa_ac_index api g else pa_dc_index api g) of
        None \<Rightarrow> - 1
      | Some v \<Rightarrow> uint (if v > 100 then 100 else v))"

definition wt_power_read_battery_budget :: "power_api \<Rightarrow> WT_PowerInfo \<Rightarrow> WT_PowerInfo" where
  "wt_power_read_battery_budget api out =
     (case pa_battery api of None \<Rightarrow> out
      | Some bat \<Rightarrow>
         if \<not> BatteryPresent bat then out\<lparr>pw_battery_present := 0\<rparr>
         else let out = out\<lparr>pw_battery_present := 1, pw_charging := (if Charging bat then 1 else 0),
                     pw_discharging := (if Discharging bat then 1 else 0), pw_rate_mw := sint (Rate bat),
                     pw_rate_ok := True\<rparr>;
                  out = (if EstimatedTime bat \<noteq> - 1 \<and> EstimatedTime bat \<noteq> 0
                         then out\<lparr>pw_estimated_seconds := sint (EstimatedTime bat)\<rparr> else out);
                  out = (if RemainingCapacity bat \<noteq> 0
                         then out\<lparr>pw_remaining_mwh := sint (RemainingCapacity bat)\<rparr> else out);
                  out = (if MaxCapacity bat \<noteq> 0 then out\<lparr>pw_full_mwh := sint (MaxCapacity bat)\<rparr> else out)
              in out\<lparr>pw_on_ac := (if AcOnLine bat then 1 else 0)\<rparr>)"

definition power_info_start :: WT_PowerInfo where
  \<comment> \<open>the fields before anything is read\<close>
  "power_info_start = zero_WT_PowerInfo\<lparr>pw_scheme := WT_POWER_UNKNOWN, pw_on_ac := - 1, pw_battery_percent := - 1,
     pw_battery_present := - 1, pw_charging := - 1, pw_discharging := - 1, pw_estimated_seconds := - 1,
     pw_remaining_mwh := - 1, pw_full_mwh := - 1, pw_processor_max_pct_ac := - 1, pw_processor_max_pct_dc := - 1,
     pw_processor_capped := False, pw_active_name := ''Unknown''\<rparr>"

definition scheme_of_guid :: "GUID \<Rightarrow> WT_PowerScheme" where
  "scheme_of_guid g =
     (if g = WT_GUID_BALANCED then WT_POWER_BALANCED else if g = WT_GUID_HIGH_PERF then WT_POWER_HIGH_PERF
      else if g = WT_GUID_POWER_SAVER then WT_POWER_POWER_SAVER
      else if g = WT_GUID_ULTIMATE then WT_POWER_ULTIMATE else WT_POWER_UNKNOWN)"

definition power_read_active :: "power_api \<Rightarrow> GUID option \<Rightarrow> WT_PowerInfo \<Rightarrow> WT_PowerInfo" where
  "power_read_active api active out =
     (case active of None \<Rightarrow> out
      | Some g \<Rightarrow> out\<lparr>pw_scheme := scheme_of_guid g,
          pw_active_name := wt_power_read_friendly_name api g 128 (pw_active_name out),
          pw_processor_max_pct_ac := wt_power_read_throttle_max api g True,
          pw_processor_max_pct_dc := wt_power_read_throttle_max api g False\<rparr>)"

definition power_read_status :: "power_api \<Rightarrow> WT_PowerInfo \<Rightarrow> WT_PowerInfo" where
  "power_read_status api out =
     (case pa_status api of None \<Rightarrow> out
      | Some st \<Rightarrow>
         let out = (if ACLineStatus st = 0 then out\<lparr>pw_on_ac := 0\<rparr>
                    else if ACLineStatus st = 1 then out\<lparr>pw_on_ac := 1\<rparr> else out);
             out = (if BatteryLifePercent st \<le> 100
                    then out\<lparr>pw_battery_percent := uint (BatteryLifePercent st)\<rparr> else out);
             out = (if BatteryFlag st = 128 then out\<lparr>pw_battery_present := 0\<rparr>
                    else if BatteryFlag st AND 0x80 = 0 \<and> BatteryLifePercent st \<le> 100
                    then (if pw_battery_present out < 0 then out\<lparr>pw_battery_present := 1\<rparr> else out)
                    else out)
         in (if BatteryFlag st AND 8 \<noteq> 0 then out\<lparr>pw_charging := 1\<rparr> else out))"

definition power_set_capped :: "WT_PowerInfo \<Rightarrow> WT_PowerInfo" where
  "power_set_capped out =
     (if pw_on_ac out = 1 \<and> pw_processor_max_pct_ac out \<ge> 0 \<and> pw_processor_max_pct_ac out < 100
      then out\<lparr>pw_processor_capped := True\<rparr>
      else if pw_on_ac out = 0 \<and> pw_processor_max_pct_dc out \<ge> 0 \<and> pw_processor_max_pct_dc out < 100
      then out\<lparr>pw_processor_capped := True\<rparr> else out)"

definition wt_collect_power_info :: "power_api \<Rightarrow> GUID option \<Rightarrow> WT_Result \<times> WT_PowerInfo" where
  "wt_collect_power_info api active =
     (WT_OK, power_set_capped (wt_power_read_modes api (wt_power_read_battery_budget api
        (power_read_status api (power_read_active api active power_info_start)))))"

definition wt_power_scheme_from_token :: "string option \<Rightarrow> WT_PowerScheme" where
  "wt_power_scheme_from_token tk =
     (case tk of None \<Rightarrow> WT_POWER_UNKNOWN
      | Some t \<Rightarrow>
         if wcsicmp t ''balanced'' then WT_POWER_BALANCED
         else if wcsicmp t ''performance'' \<or> wcsicmp t ''high'' \<or> wcsicmp t ''high-performance''
         then WT_POWER_HIGH_PERF
         else if wcsicmp t ''saver'' \<or> wcsicmp t ''powersaver'' \<or> wcsicmp t ''power-saver''
         then WT_POWER_POWER_SAVER
         else if wcsicmp t ''ultimate'' then WT_POWER_ULTIMATE else WT_POWER_UNKNOWN)"

section \<open>Identifiers as text\<close>

fun hex_upper :: "nat \<Rightarrow> nat \<Rightarrow> string" where
  \<comment> \<open>\<open>%0wX\<close> of a value below \<open>16 ^ w\<close>\<close>
  "hex_upper 0 n = []"
| "hex_upper (Suc w) n = hex_upper w (n div 16) @ [''0123456789ABCDEF'' ! (n mod 16)]"

definition hex_val :: "char \<Rightarrow> nat option" where
  "hex_val c = (let n = of_char c :: nat in
     if 48 \<le> n \<and> n \<le> 57 then Some (n - 48) else if 65 \<le> n \<and> n \<le> 70 then Some (n - 55)
     else if 97 \<le> n \<and> n \<le> 102 then Some (n - 87) else None)"

fun hex_digits :: "nat \<Rightarrow> nat \<Rightarrow> string \<Rightarrow> nat \<times> string" where
  \<comment> \<open>at most \<open>w\<close> hexadecimal digits: value so far, text left\<close>
  "hex_digits 0 acc s = (acc, s)"
| "hex_digits (Suc w) acc [] = (acc, [])"
| "hex_digits (Suc w) acc (c # cs) =
     (case hex_val c of None \<Rightarrow> (acc, c # cs) | Some d \<Rightarrow> hex_digits w (16 * acc + d) cs)"

definition scan_hex :: "nat \<Rightarrow> string \<Rightarrow> (nat \<times> string) option" where
  \<comment> \<open>\<open>%0wx\<close> of \<open>swscanf\<close>: spaces, then within \<open>w\<close> units a sign, a \<open>0x\<close> and digits, of which one is needed\<close>
  "scan_hex w s =
     (let s0 = dropWhile is_space s;
          sgn = (s0 \<noteq> [] \<and> (hd s0 = CHR ''-'' \<or> hd s0 = CHR ''+''));
          neg = (s0 \<noteq> [] \<and> hd s0 = CHR ''-'');
          (s1, w1) = (if sgn then (tl s0, w - 1) else (s0, w));
          (s2, w2) = (if 2 \<le> w1 \<and> (prefix ''0x'' s1 \<or> prefix ''0X'' s1) then (drop 2 s1, w1 - 2) else (s1, w1));
          (v, r) = hex_digits w2 0 s2
      in if length r = length s2 then None
         else Some (if neg then (2 ^ 32 - v) mod 2 ^ 32 else v, r))"

definition scan_char :: "char \<Rightarrow> string \<Rightarrow> string option" where
  \<comment> \<open>a literal of the format\<close>
  "scan_char c s = (case s of [] \<Rightarrow> None | d # r \<Rightarrow> if d = c then Some r else None)"

fun scan_items :: "(char + nat) list \<Rightarrow> string \<Rightarrow> nat list" where
  \<comment> \<open>the values \<open>swscanf\<close> assigns before the first mismatch\<close>
  "scan_items [] s = []"
| "scan_items (Inl c # fs) s = (case scan_char c s of None \<Rightarrow> [] | Some r \<Rightarrow> scan_items fs r)"
| "scan_items (Inr w # fs) s = (case scan_hex w s of None \<Rightarrow> [] | Some (v, r) \<Rightarrow> v # scan_items fs r)"

definition guid_format :: "(char + nat) list" where
  "guid_format = [Inl (CHR ''{''), Inr 8, Inl (CHR ''-''), Inr 4, Inl (CHR ''-''), Inr 4, Inl (CHR ''-''), Inr 2, Inr 2,
     Inl (CHR ''-''), Inr 2, Inr 2, Inr 2, Inr 2, Inr 2, Inr 2, Inl (CHR ''}'')]"

definition guid_text :: "GUID \<Rightarrow> string" where
  "guid_text g = ''{'' @ hex_upper 8 (unat (Data1 g)) @ ''-'' @ hex_upper 4 (unat (Data2 g)) @ ''-'' @
     hex_upper 4 (unat (Data3 g)) @ ''-'' @ hex_upper 2 (unat (Data4_0 g)) @ hex_upper 2 (unat (Data4_1 g)) @ ''-'' @
     hex_upper 2 (unat (Data4_2 g)) @ hex_upper 2 (unat (Data4_3 g)) @ hex_upper 2 (unat (Data4_4 g)) @
     hex_upper 2 (unat (Data4_5 g)) @ hex_upper 2 (unat (Data4_6 g)) @ hex_upper 2 (unat (Data4_7 g)) @ ''}''"

definition wt_guid_to_string :: "GUID \<Rightarrow> nat \<Rightarrow> WT_Result \<times> string" where
  "wt_guid_to_string g count =
     ((if cch_fits count (guid_text g) then WT_OK else WT_ERR_BUFFER_TOO_SMALL), cch_copy count (guid_text g))"

definition wt_guid_from_string :: "string \<Rightarrow> (WT_Result, GUID) sum" where
  "wt_guid_from_string s =
     (let v = scan_items guid_format s
      in if length v \<noteq> 11 then Inl WT_ERR_INVALID_ARGUMENT
         else Inr \<lparr>Data1 = of_nat (v ! 0), Data2 = of_nat (v ! 1), Data3 = of_nat (v ! 2), Data4_0 = of_nat (v ! 3),
           Data4_1 = of_nat (v ! 4), Data4_2 = of_nat (v ! 5), Data4_3 = of_nat (v ! 6), Data4_4 = of_nat (v ! 7),
           Data4_5 = of_nat (v ! 8), Data4_6 = of_nat (v ! 9), Data4_7 = of_nat (v ! 10)\<rparr>)"

definition wt_power_scheme_guid_string :: "WT_PowerScheme \<Rightarrow> nat \<Rightarrow> WT_Result \<times> string" where
  "wt_power_scheme_guid_string s count =
     (if count = 0 then (WT_ERR_INVALID_ARGUMENT, [])
      else case wt_power_scheme_guid s of None \<Rightarrow> (WT_ERR_INVALID_ARGUMENT, [])
         | Some g \<Rightarrow> wt_guid_to_string g count)"

definition wt_power_get_active_guid_string :: "GUID option \<Rightarrow> nat \<Rightarrow> WT_Result \<times> string" where
  "wt_power_get_active_guid_string active count =
     (if count = 0 then (WT_ERR_INVALID_ARGUMENT, [])
      else case active of None \<Rightarrow> (WT_ERR_WIN32, []) | Some g \<Rightarrow> wt_guid_to_string g count)"

section \<open>Switching the plan\<close>

definition power_activate :: "power_api \<Rightarrow> GUID \<Rightarrow> GUID option \<Rightarrow> WT_Result \<times> GUID option" where
  \<comment> \<open>\<open>PowerSetActiveScheme\<close> and the codes both callers make of its answer\<close>
  "power_activate api g active =
     (case pa_set api g of
        None \<Rightarrow> (WT_OK, Some g)
      | Some e \<Rightarrow> if e = ERROR_FILE_NOT_FOUND then (WT_ERR_NOT_FOUND, active)
          else if e = ERROR_ACCESS_DENIED then (WT_ERR_ACCESS_DENIED, active) else (WT_ERR_WIN32, active))"

definition wt_power_set_active_scheme ::
  "power_api \<Rightarrow> WT_PowerScheme \<Rightarrow> GUID option \<Rightarrow> WT_Result \<times> GUID option" where
  "wt_power_set_active_scheme api s active =
     (case wt_power_scheme_guid s of None \<Rightarrow> (WT_ERR_INVALID_ARGUMENT, active)
      | Some g \<Rightarrow> if pa_friendly api g = None then (WT_ERR_NOT_FOUND, active) else power_activate api g active)"

definition wt_power_set_active_guid_string ::
  "power_api \<Rightarrow> string \<Rightarrow> GUID option \<Rightarrow> WT_Result \<times> GUID option" where
  "wt_power_set_active_guid_string api s active =
     (case wt_guid_from_string s of Inl r \<Rightarrow> (r, active) | Inr g \<Rightarrow> power_activate api g active)"

section \<open>Properties\<close>

lemma hex_digit_val:
  assumes "d < 16"
  shows "hex_val (''0123456789ABCDEF'' ! d) = Some d"
proof -
  have "list_all (\<lambda>d. hex_val (''0123456789ABCDEF'' ! d) = Some d) [0..<16]" by code_simp
  then show ?thesis using assms by (simp add: list_all_iff)
qed

lemma length_hex_upper [simp]: "length (hex_upper w n) = w"
  by (induction w arbitrary: n) simp_all

lemma hex_digits_append:
  "hex_digits (length s) acc s = (v, []) \<Longrightarrow> hex_digits (length s + k) acc (s @ t) = hex_digits k v t"
  by (induction s arbitrary: acc) (auto split: option.splits)

lemma hex_digits_upper: "n < 16 ^ w \<Longrightarrow> hex_digits w acc (hex_upper w n @ r) = (acc * 16 ^ w + n, r)"
proof (induction w arbitrary: n acc r)
  case (Suc w)
  have "hex_digits w acc (hex_upper w (n div 16) @ []) = (acc * 16 ^ w + n div 16, [])"
    by (rule Suc.IH) (use Suc.prems in simp)
  then have "hex_digits (w + 1) acc (hex_upper w (n div 16) @ ''0123456789ABCDEF'' ! (n mod 16) # r)
      = hex_digits 1 (acc * 16 ^ w + n div 16) (''0123456789ABCDEF'' ! (n mod 16) # r)"
    using hex_digits_append [of "hex_upper w (n div 16)" acc "acc * 16 ^ w + n div 16" 1] by simp
  then show ?case using hex_digit_val [of "n mod 16"] by (simp add: algebra_simps)
qed simp

lemma hex_char:
  assumes "d < 16"
  shows "\<not> is_space (''0123456789ABCDEF'' ! d) \<and> ''0123456789ABCDEF'' ! d \<notin> set ''+-xX''"
proof -
  have "list_all (\<lambda>d. \<not> is_space (''0123456789ABCDEF'' ! d) \<and> ''0123456789ABCDEF'' ! d \<notin> set ''+-xX'') [0..<16]"
    by code_simp
  then show ?thesis using assms by (simp add: list_all_iff)
qed

lemma hex_upper_chars: "c \<in> set (hex_upper w n) \<Longrightarrow> \<not> is_space c \<and> c \<notin> set ''+-xX''"
proof (induction w n rule: hex_upper.induct)
  case (2 w n)
  then show ?case using hex_char [of "n mod 16"] by (cases "c \<in> set (hex_upper w (n div 16))") auto
qed simp

lemma scan_hex_upper:
  assumes "n < 16 ^ w" "2 \<le> w"
  shows "scan_hex w (hex_upper w n @ r) = Some (n, r)"
proof -
  obtain c d t where t: "hex_upper w n = c # d # t"
    using assms(2) length_hex_upper [of w n] by (metis Suc_le_length_iff numeral_2_eq_2)
  note cd = hex_upper_chars [of c w n] hex_upper_chars [of d w n]
  have v: "hex_digits w 0 (c # d # t @ r) = (n, r)"
    using hex_digits_upper [OF assms(1), of 0 r] by (simp add: t)
  have "length t + 2 = w" using arg_cong [OF t, of length] by simp
  with v cd show ?thesis by (auto simp: scan_hex_def t Let_def prefix_def)
qed

lemma guid_scan:
  "scan_hex 8 (hex_upper 8 (unat (x :: u32)) @ r) = Some (unat x, r)"
  "scan_hex 4 (hex_upper 4 (unat (y :: u16)) @ r) = Some (unat y, r)"
  "scan_hex 2 (hex_upper 2 (unat (z :: byte)) @ r) = Some (unat z, r)"
  using unsigned_less [of x, where 'a = nat] unsigned_less [of y, where 'a = nat]
    unsigned_less [of z, where 'a = nat] by (simp_all add: scan_hex_upper)

lemma guid_from_text: "wt_guid_from_string (guid_text g) = Inr g"
  unfolding wt_guid_from_string_def guid_text_def guid_format_def
  by (cases g) (simp add: scan_char_def guid_scan del: hex_upper.simps)

lemma guid_text_length: "length (guid_text g) = 38"
  by (simp add: guid_text_def del: hex_upper.simps)

lemma guid_to_string: "39 \<le> count \<Longrightarrow> wt_guid_to_string g count = (WT_OK, guid_text g)"
  by (simp add: wt_guid_to_string_def cch_fits_def guid_text_length)

lemma set_guid_text: "wt_power_set_active_guid_string api (guid_text g) active = power_activate api g active"
  by (simp add: wt_power_set_active_guid_string_def guid_from_text)

lemma power_activate_cases:
  "power_activate api g active = (WT_OK, Some g) \<or>
   (\<exists>r. power_activate api g active = (r, active) \<and> r \<noteq> WT_OK)"
  by (auto simp: power_activate_def split: option.split)

lemma collected_scheme: "pw_scheme (snd (wt_collect_power_info api active)) =
    (case active of None \<Rightarrow> WT_POWER_UNKNOWN | Some g \<Rightarrow> scheme_of_guid g)"
proof -
  have c: "pw_scheme (power_set_capped p) = pw_scheme p" for p by (simp add: power_set_capped_def)
  have m: "pw_scheme (wt_power_read_modes api p) = pw_scheme p" for p
    by (simp add: wt_power_read_modes_def Let_def split: option.split)
  have b: "pw_scheme (wt_power_read_battery_budget api p) = pw_scheme p" for p
    by (simp add: wt_power_read_battery_budget_def Let_def split: option.split)
  have s: "pw_scheme (power_read_status api p) = pw_scheme p" for p
    by (simp add: power_read_status_def Let_def split: option.split)
  show ?thesis unfolding wt_collect_power_info_def snd_conv c m b s
    by (simp add: power_read_active_def power_info_start_def split: option.split)
qed

lemma scheme_of_scheme_guid: "wt_power_scheme_guid s = Some g \<Longrightarrow> scheme_of_guid g = s"
  by (cases s) (auto simp: wt_power_scheme_guid_def scheme_of_guid_def WT_GUID_BALANCED_def WT_GUID_HIGH_PERF_def
    WT_GUID_POWER_SAVER_def WT_GUID_ULTIMATE_def)

text \<open>C27. Switching the plan: when it succeeds the collector reports the plan asked for and its identifier as
  text is the one of the scheme, when it fails the active plan is the one before; and the text taken of any active
  plan, custom ones too, switches back to exactly that plan.\<close>

theorem power_plan_switch:
  "let (r, active') = wt_power_set_active_scheme api s active in
     (if r = WT_OK
      then pw_scheme (snd (wt_collect_power_info api active')) = s \<and>
           wt_power_get_active_guid_string active' 64 = wt_power_scheme_guid_string s 64
      else active' = active) \<and>
     wt_power_set_active_guid_string api (snd (wt_power_get_active_guid_string (Some g) 64)) active' =
       power_activate api g active'"
proof -
  have t: "snd (wt_power_get_active_guid_string (Some g) 64) = guid_text g"
    by (simp add: wt_power_get_active_guid_string_def guid_to_string)
  show ?thesis
  proof (cases "wt_power_scheme_guid s")
    case None
    then show ?thesis by (simp add: wt_power_set_active_scheme_def t set_guid_text)
  next
    case (Some h)
    have ok: "pw_scheme (snd (wt_collect_power_info api (Some h))) = s"
      by (simp only: collected_scheme option.case scheme_of_scheme_guid [OF Some])
    have tx: "wt_power_get_active_guid_string (Some h) 64 = wt_power_scheme_guid_string s 64"
      by (simp add: wt_power_get_active_guid_string_def wt_power_scheme_guid_string_def Some)
    show ?thesis
      using power_activate_cases [of api h active] ok tx
      by (auto simp: wt_power_set_active_scheme_def Some t set_guid_text)
  qed
qed

definition power_info_ok :: "WT_PowerInfo \<Rightarrow> bool" where
  "power_info_ok p \<longleftrightarrow> pw_on_ac p \<in> {- 1, 0, 1} \<and> pw_battery_percent p \<in> {- 1..100} \<and>
     pw_battery_present p \<in> {- 1, 0, 1} \<and> pw_charging p \<in> {- 1, 0, 1} \<and> pw_discharging p \<in> {- 1, 0, 1} \<and>
     pw_processor_max_pct_ac p \<in> {- 1..100} \<and> pw_processor_max_pct_dc p \<in> {- 1..100} \<and>
     length (pw_active_name p) < 128"

definition capped_exactly :: "WT_PowerInfo \<Rightarrow> bool" where
  \<comment> \<open>the cap flag is that of the plan value of the power source in use\<close>
  "capped_exactly p \<longleftrightarrow> pw_processor_capped p =
     ((pw_on_ac p = 1 \<and> pw_processor_max_pct_ac p \<in> {0..<100}) \<or>
      (pw_on_ac p = 0 \<and> pw_processor_max_pct_dc p \<in> {0..<100}))"

lemma uint_above_minus1 [simp]: "- 1 \<le> uint v"
  by (rule order_trans [of _ 0]) simp_all

lemma throttle_bounds: "- 1 \<le> wt_power_read_throttle_max api g ac \<and> wt_power_read_throttle_max api g ac \<le> 100"
proof -
  have "- 1 \<le> uint (if v > 100 then 100 else v) \<and> uint (if v > 100 then 100 else v) \<le> 100" for v :: u32
    by (auto simp: word_less_def)
  then show ?thesis by (auto simp: wt_power_read_throttle_max_def split: option.split)
qed

lemma power_start_ok: "power_info_ok power_info_start" "\<not> pw_processor_capped power_info_start"
  by (simp_all add: power_info_start_def power_info_ok_def)

lemma read_active_ok:
  "power_info_ok p \<Longrightarrow> power_info_ok (power_read_active api active p)"
  "pw_processor_capped (power_read_active api active p) = pw_processor_capped p"
  using throttle_bounds [of api]
  by (auto simp: power_read_active_def power_info_ok_def wt_power_read_friendly_name_def length_cch_copy
    split: option.split)

lemma power_field_ok:
  assumes "power_info_ok p"
  shows "v \<in> {- 1, 0, 1} \<Longrightarrow> power_info_ok (p\<lparr>pw_on_ac := v\<rparr>)" "v \<in> {- 1..100} \<Longrightarrow> power_info_ok (p\<lparr>pw_battery_percent := v\<rparr>)"
    "v \<in> {- 1, 0, 1} \<Longrightarrow> power_info_ok (p\<lparr>pw_battery_present := v\<rparr>)"
    "v \<in> {- 1, 0, 1} \<Longrightarrow> power_info_ok (p\<lparr>pw_charging := v\<rparr>)"
    "v \<in> {- 1, 0, 1} \<Longrightarrow> power_info_ok (p\<lparr>pw_discharging := v\<rparr>)"
    "power_info_ok (p\<lparr>pw_rate_mw := n\<rparr>)" "power_info_ok (p\<lparr>pw_rate_ok := b\<rparr>)" "power_info_ok (p\<lparr>pw_estimated_seconds := n\<rparr>)"
    "power_info_ok (p\<lparr>pw_remaining_mwh := n\<rparr>)" "power_info_ok (p\<lparr>pw_full_mwh := n\<rparr>)"
    "power_info_ok (p\<lparr>pw_mode_ac := m\<rparr>)" "power_info_ok (p\<lparr>pw_mode_dc := m\<rparr>)"
    "power_info_ok (p\<lparr>pw_mode_ac_ok := b\<rparr>)" "power_info_ok (p\<lparr>pw_mode_dc_ok := b\<rparr>)"
  using assms by (simp_all add: power_info_ok_def)

lemma status_ok:
  "power_info_ok p \<Longrightarrow> power_info_ok (power_read_status api p)"
  "pw_processor_capped (power_read_status api p) = pw_processor_capped p"
proof -
  have "uint (BatteryLifePercent st) \<le> 100" if "BatteryLifePercent st \<le> 100" for st
    using that by (simp add: word_le_def)
  then show "power_info_ok p \<Longrightarrow> power_info_ok (power_read_status api p)"
    by (auto simp: power_read_status_def Let_def intro!: power_field_ok split: option.split)
  show "pw_processor_capped (power_read_status api p) = pw_processor_capped p"
    by (simp add: power_read_status_def Let_def split: option.split)
qed

lemma budget_ok:
  "power_info_ok p \<Longrightarrow> power_info_ok (wt_power_read_battery_budget api p)"
  "pw_processor_capped (wt_power_read_battery_budget api p) = pw_processor_capped p"
  by (simp_all add: wt_power_read_battery_budget_def power_field_ok Let_def split: option.split)

lemma modes_ok:
  "power_info_ok p \<Longrightarrow> power_info_ok (wt_power_read_modes api p)"
  "pw_processor_capped (wt_power_read_modes api p) = pw_processor_capped p"
  by (simp_all add: wt_power_read_modes_def power_field_ok Let_def split: option.split)

lemma capped_ok:
  "power_info_ok p \<Longrightarrow> power_info_ok (power_set_capped p)"
  "\<not> pw_processor_capped p \<Longrightarrow> capped_exactly (power_set_capped p)"
  by (auto simp: power_set_capped_def power_info_ok_def capped_exactly_def)

definition unknown_status :: power_status where
  "unknown_status = \<lparr>ACLineStatus = 255, BatteryFlag = 255, BatteryLifePercent = 255\<rparr>"


end
