(* ===== verification/Json_Names.thy ===== *)
theory Json_Names
  imports Recommendations Power_Plan
begin

text \<open>
  The names enumerations have in the printed reports (\<open>integrity.c\<close>, \<open>services.c\<close>, \<open>boot.c\<close>,
  \<open>search.c\<close>, \<open>network.c\<close>, \<open>reliability.c\<close>, \<open>maintenance.c\<close>), the records of \<open>services.h\<close> and of a
  process page (\<open>process.h\<close>), and the slice a page shows.
\<close>

section \<open>Services\<close>

datatype WT_ServiceState =
    WT_SVC_STATE_UNKNOWN | WT_SVC_STATE_STOPPED | WT_SVC_STATE_START_PENDING
    | WT_SVC_STATE_STOP_PENDING | WT_SVC_STATE_RUNNING | WT_SVC_STATE_CONTINUE_PENDING
    | WT_SVC_STATE_PAUSE_PENDING | WT_SVC_STATE_PAUSED

datatype WT_ServiceStartType =
    WT_SVC_START_UNKNOWN | WT_SVC_START_BOOT | WT_SVC_START_SYSTEM | WT_SVC_START_AUTO
    | WT_SVC_START_DEMAND | WT_SVC_START_DISABLED

record WT_ServiceInfo =
  sv_name :: string
  sv_display_name :: string
  sv_image_path :: string
  sv_state :: WT_ServiceState
  sv_start_type :: WT_ServiceStartType
  sv_pid :: nat
  sv_identity :: WT_FileIdentity

definition wt_service_state_name :: "WT_ServiceState \<Rightarrow> string" where
  "wt_service_state_name s = (case s of
     WT_SVC_STATE_STOPPED \<Rightarrow> ''stopped'' | WT_SVC_STATE_START_PENDING \<Rightarrow> ''start-pending''
   | WT_SVC_STATE_STOP_PENDING \<Rightarrow> ''stop-pending'' | WT_SVC_STATE_RUNNING \<Rightarrow> ''running''
   | WT_SVC_STATE_CONTINUE_PENDING \<Rightarrow> ''continue-pending''
   | WT_SVC_STATE_PAUSE_PENDING \<Rightarrow> ''pause-pending'' | WT_SVC_STATE_PAUSED \<Rightarrow> ''paused''
   | WT_SVC_STATE_UNKNOWN \<Rightarrow> ''unknown'')"

definition wt_service_start_type_name :: "WT_ServiceStartType \<Rightarrow> string" where
  "wt_service_start_type_name t = (case t of
     WT_SVC_START_BOOT \<Rightarrow> ''boot'' | WT_SVC_START_SYSTEM \<Rightarrow> ''system'' | WT_SVC_START_AUTO \<Rightarrow> ''auto''
   | WT_SVC_START_DEMAND \<Rightarrow> ''manual'' | WT_SVC_START_DISABLED \<Rightarrow> ''disabled''
   | WT_SVC_START_UNKNOWN \<Rightarrow> ''unknown'')"

text \<open>\<open>dwCurrentState\<close> and \<open>dwStartType\<close> as the service manager numbers them.\<close>

definition wt_map_state :: "nat \<Rightarrow> WT_ServiceState" where
  "wt_map_state s =
     (if s = 1 then WT_SVC_STATE_STOPPED else if s = 2 then WT_SVC_STATE_START_PENDING
      else if s = 3 then WT_SVC_STATE_STOP_PENDING else if s = 4 then WT_SVC_STATE_RUNNING
      else if s = 5 then WT_SVC_STATE_CONTINUE_PENDING else if s = 6 then WT_SVC_STATE_PAUSE_PENDING
      else if s = 7 then WT_SVC_STATE_PAUSED else WT_SVC_STATE_UNKNOWN)"

definition wt_map_start_type :: "nat \<Rightarrow> WT_ServiceStartType" where
  "wt_map_start_type t =
     (if t = 0 then WT_SVC_START_BOOT else if t = 1 then WT_SVC_START_SYSTEM
      else if t = 2 then WT_SVC_START_AUTO else if t = 3 then WT_SVC_START_DEMAND
      else if t = 4 then WT_SVC_START_DISABLED else WT_SVC_START_UNKNOWN)"

section \<open>Names\<close>

definition wt_integrity_level_name :: "WT_IntegrityLevel \<Rightarrow> string" where
  "wt_integrity_level_name l = (case l of
     WT_INTEGRITY_UNTRUSTED \<Rightarrow> ''untrusted'' | WT_INTEGRITY_LOW \<Rightarrow> ''low''
   | WT_INTEGRITY_MEDIUM \<Rightarrow> ''medium'' | WT_INTEGRITY_MEDIUM_PLUS \<Rightarrow> ''medium_plus''
   | WT_INTEGRITY_HIGH \<Rightarrow> ''high'' | WT_INTEGRITY_SYSTEM \<Rightarrow> ''system''
   | WT_INTEGRITY_PROTECTED \<Rightarrow> ''protected'' | WT_INTEGRITY_UNKNOWN \<Rightarrow> ''unknown'')"

definition wt_boot_component_kind_name :: "WT_BootComponentKind \<Rightarrow> string" where
  "wt_boot_component_kind_name k = (case k of
     WT_BOOT_COMP_SERVICE \<Rightarrow> ''service'' | WT_BOOT_COMP_DRIVER \<Rightarrow> ''driver''
   | WT_BOOT_COMP_APPLICATION \<Rightarrow> ''application'' | WT_BOOT_COMP_DEGRADATION \<Rightarrow> ''degradation''
   | WT_BOOT_COMP_UNKNOWN \<Rightarrow> ''unknown'')"

definition wt_reliability_kind_name :: "WT_ReliabilityKind \<Rightarrow> string" where
  "wt_reliability_kind_name k = (case k of
     WT_REL_KERNEL_POWER \<Rightarrow> ''kernel_power'' | WT_REL_UNEXPECTED_SHUTDOWN \<Rightarrow> ''unexpected_shutdown''
   | WT_REL_BUGCHECK \<Rightarrow> ''bugcheck'' | WT_REL_APP_CRASH \<Rightarrow> ''app_crash''
   | WT_REL_APP_HANG \<Rightarrow> ''app_hang'' | WT_REL_WER_REPORT \<Rightarrow> ''wer_report''
   | WT_REL_UNKNOWN \<Rightarrow> ''unknown'')"

definition wt_maint_kind_name :: "WT_MaintKind \<Rightarrow> string" where
  "wt_maint_kind_name k = (case k of
     WT_MAINT_DEFENDER \<Rightarrow> ''defender'' | WT_MAINT_WINDOWS_UPDATE \<Rightarrow> ''windows_update''
   | WT_MAINT_OPTIMIZATION \<Rightarrow> ''optimization'' | WT_MAINT_UNKNOWN \<Rightarrow> ''unknown'')"

definition wt_json_blocker_kind :: "WT_BlockerKind \<Rightarrow> string" where
  "wt_json_blocker_kind k = (case k of
     WT_BLOCKER_SHUTDOWN \<Rightarrow> ''shutdown'' | WT_BLOCKER_FILE_LOCK \<Rightarrow> ''file_lock'')"

definition wt_net_adapter_kind_token :: "int \<Rightarrow> string" where
  "wt_net_adapter_kind_token k =
     (if k = 1 then ''ethernet'' else if k = 2 then ''wifi'' else if k = 3 then ''vpn''
      else if k = 4 then ''virtual'' else ''other'')"

text \<open>\<open>CatalogPausedReason\<close> counts from none (0) to upgrading (10).\<close>

definition wt_search_pause_token :: "int \<Rightarrow> string" where
  "wt_search_pause_token r =
     (if r = 0 then ''none'' else if r = 1 then ''high_io'' else if r = 2 then ''high_cpu''
      else if r = 3 then ''high_notification_rate'' else if r = 4 then ''low_battery''
      else if r = 5 then ''low_memory'' else if r = 6 then ''low_disk''
      else if r = 7 then ''delayed_recovery'' else if r = 8 then ''user_active''
      else if r = 9 then ''external'' else if r = 10 then ''upgrading'' else ''unknown'')"

section \<open>Pages of the process list\<close>

definition WT_PROCESS_PAGE_MAX :: nat where "WT_PROCESS_PAGE_MAX = 32"

record WT_ProcessPageInfo =
  pg_page :: nat
  pg_page_size :: nat
  pg_page_count :: nat
  pg_total :: nat
  pg_truncated :: bool

end
