(* ===== verification/Json_Emit.thy ===== *)
theory Json_Emit
  imports Cli_Exit Json_Names
begin

text \<open>
  The report emitters of \<open>src/output/json.c\<close>, from \<open>wt_json_emit_identity\<close> to the fourteen
  \<open>wt_print_..._json\<close> functions, each as the list of writer calls it makes, in the order of the
  source (\<open>json_run\<close> executes such a list on a writer). \<open>jfld k v\<close> is \<open>wt_json_key\<close> followed by the
  calls of the value. A pointer argument that may be NULL is an option.
\<close>

section \<open>What an emitter asks of the platform\<close>

record json_env =
  je_globals :: json_globals
  je_utf8 :: "string \<Rightarrow> string option"     \<comment> \<open>\<open>WideCharToMultiByte\<close> into 1024 bytes\<close>
  je_now :: "string option"                \<comment> \<open>\<open>wt_now_iso8601_utc\<close>\<close>
  je_filetime :: "nat \<Rightarrow> string option"    \<comment> \<open>\<open>wt_format_filetime_iso8601_utc\<close>\<close>
  je_interactive :: bool
  je_remote :: bool
  je_elevated :: bool

definition jfld :: "string \<Rightarrow> json_op list \<Rightarrow> json_op list" where
  "jfld k v = Key k # v"

definition wide :: "json_env \<Rightarrow> string \<Rightarrow> json_op" where
  \<comment> \<open>\<open>wt_json_wstring\<close>\<close>
  "wide io ws = Str (case je_utf8 io ws of None \<Rightarrow> [] | Some b \<Rightarrow> b)"

definition first_n :: "nat \<Rightarrow> 'a list \<Rightarrow> 'a list" where
  \<comment> \<open>the elements a loop with index \<open>0 up to n - 1\<close> reads\<close>
  "first_n n xs = map ((!) xs) [0..<n]"

lemma wide_is_wstring: "json_do (wide io ws) w = wt_json_wstring (je_utf8 io) (Some ws) w"
  by (simp add: wide_def wt_json_string_def wt_json_wstring_def)

section \<open>The emitters\<close>

definition wt_json_emit_identity :: "json_env \<Rightarrow> WT_FileIdentity option \<Rightarrow> json_op list" where
  "wt_json_emit_identity io ident =
     jfld ''publisher'' (if ident \<noteq> None \<and> fi_publisher (the ident) \<noteq> [] then [wide io (fi_publisher (the ident))] else [Null]) @
     jfld ''product_name'' (if ident \<noteq> None \<and> fi_product_name (the ident) \<noteq> [] then [wide io (fi_product_name (the ident))] else [Null]) @
     jfld ''signature'' [Str (wt_signature_status_name (if ident \<noteq> None then fi_signature (the ident) else WT_SIG_UNAVAILABLE))] @
     jfld ''origin'' [Str (wt_publisher_origin_name (if ident \<noteq> None then fi_origin (the ident) else WT_ORIGIN_UNKNOWN))] @
     jfld ''location'' [Str (wt_install_location_name (if ident \<noteq> None then fi_location (the ident) else WT_LOC_UNKNOWN))] @
     jfld ''unusual_location'' [Bool (ident \<noteq> None \<and> fi_unusual_location (the ident))] @
     jfld ''image_path'' (if ident \<noteq> None \<and> fi_path (the ident) \<noteq> [] then [wide io (fi_path (the ident))] else [Null])"

definition wt_json_emit_process :: "json_env \<Rightarrow> WT_ProcessInfo \<Rightarrow> json_op list" where
  "wt_json_emit_process io p =
     [Begin_Object] @
     jfld ''pid'' [UInt (of_nat (pi_pid p))] @
     jfld ''parent_pid'' [UInt (of_nat (pi_parent_pid p))] @
     jfld ''session_id'' (if pi_session_ok p then [UInt (of_nat (pi_session_id p))] else [Null]) @
     jfld ''integrity'' [Str (wt_integrity_level_name (pi_integrity p))] @
     jfld ''hung'' (if pi_wait_checked p then [Bool (pi_hung p)] else [Null]) @
     jfld ''wait_cycle'' (if pi_wait_checked p then [Bool (pi_wait_cycle p)] else [Null]) @
     jfld ''name'' [wide io (pi_name p)] @
     jfld ''working_set_bytes'' [UInt (of_nat (pi_working_set_bytes p))] @
     jfld ''private_bytes'' [UInt (of_nat (pi_private_bytes p))] @
     jfld ''handle_count'' (if pi_handle_ok p then [UInt (of_nat (pi_handle_count p))] else [Null]) @
     jfld ''gdi_count'' (if pi_gdi_ok p then [UInt (of_nat (pi_gdi_count p))] else [Null]) @
     jfld ''read_bytes'' [UInt (of_nat (pi_read_bytes p))] @
     jfld ''write_bytes'' [UInt (of_nat (pi_write_bytes p))] @
     jfld ''cpu_percent'' (if pi_cpu_percent p < 0 then [Null] else [Double (pi_cpu_percent p)]) @
     jfld ''disk_read_bytes_per_sec'' (if pi_disk_read_bytes_per_sec p < 0 then [Null] else [Double (pi_disk_read_bytes_per_sec p)]) @
     jfld ''disk_write_bytes_per_sec'' (if pi_disk_write_bytes_per_sec p < 0 then [Null] else [Double (pi_disk_write_bytes_per_sec p)]) @
     jfld ''net_recv_bytes_per_sec'' (if pi_net_recv_bytes_per_sec p < 0 then [Null] else [Double (pi_net_recv_bytes_per_sec p)]) @
     jfld ''net_send_bytes_per_sec'' (if pi_net_send_bytes_per_sec p < 0 then [Null] else [Double (pi_net_send_bytes_per_sec p)]) @
     jfld ''udp_recv_bytes_per_sec'' (if pi_udp_recv_bytes_per_sec p < 0 then [Null] else [Double (pi_udp_recv_bytes_per_sec p)]) @
     jfld ''udp_send_bytes_per_sec'' (if pi_udp_send_bytes_per_sec p < 0 then [Null] else [Double (pi_udp_send_bytes_per_sec p)]) @
     wt_json_emit_identity io (Some (pi_identity p)) @
     [End_Object]"

definition wt_json_emit_schema_meta_ops :: "json_env \<Rightarrow> string \<Rightarrow> json_op list" where
  \<comment> \<open>the calls \<open>wt_json_emit_schema_meta\<close> makes\<close>
  "wt_json_emit_schema_meta_ops io document =
     jfld ''schema_version'' [Str (wt_json_emit_schema_version (je_globals io))] @
     (if g_json_emit_major (je_globals io) \<ge> 2 then
        jfld ''schema_compat_min'' [Str ''1.0.0''] @
        (if document \<noteq> [] then jfld ''document'' [Str document] else [])
      else [])"

definition wt_json_emit_envelope_head :: "json_env \<Rightarrow> string \<Rightarrow> json_op list" where
  "wt_json_emit_envelope_head io document =
     (let ts = (case je_now io of None \<Rightarrow> [] | Some t \<Rightarrow> t) in
     wt_json_emit_schema_meta_ops io document @
     jfld ''version'' [Str WT_VERSION_STRING] @
     jfld ''timestamp_utc'' [Str ts] @
     jfld ''session'' (
       [Begin_Object] @
       jfld ''interactive'' [Bool (je_interactive io)] @
       jfld ''remote'' [Bool (je_remote io)] @
       jfld ''elevated'' [Bool (je_elevated io)] @
       [End_Object]))"

definition wt_json_emit_recommendation :: "WT_Recommendation \<Rightarrow> json_op list" where
  "wt_json_emit_recommendation r =
     [Begin_Object] @
     jfld ''id'' [Str (rc_id r)] @
     jfld ''title'' [Str (rc_title r)] @
     jfld ''severity'' [Str (wt_severity_to_string (rc_severity r))] @
     jfld ''risk'' [Str (wt_risk_to_string (rc_risk r))] @
     jfld ''reason'' [Str (rc_reason r)] @
     jfld ''action'' [Str (rc_action r)] @
     jfld ''requires_admin'' [Bool (rc_requires_admin r)] @
     jfld ''rollback_available'' [Bool (rc_rollback_available r)] @
     jfld ''confidence_percent'' [UInt (of_int (rc_confidence_percent r))] @
     jfld ''confidence_basis'' (if rc_confidence_basis r \<noteq> [] then [Str (rc_confidence_basis r)] else [Null]) @
     [End_Object]"

definition wt_json_emit_recommendations_array :: "WT_Recommendation list option \<Rightarrow> json_op list" where
  "wt_json_emit_recommendations_array recs =
     jfld ''recommendations'' (
       [Begin_Array] @
       (case recs of None \<Rightarrow> [] | Some items \<Rightarrow> concat (map wt_json_emit_recommendation items)) @
       [End_Array])"

definition wt_json_emit_boot_object :: "json_env \<Rightarrow> WT_BootReport option \<Rightarrow> json_op list" where
  "wt_json_emit_boot_object io boot =
     [Begin_Object] @
     jfld ''available'' [Bool (boot \<noteq> None \<and> br_boot_duration_ms (the boot) > 0)] @
     (case boot of None \<Rightarrow> [End_Object]
      | Some boot \<Rightarrow>
       jfld ''source'' [wide io (br_source boot)] @
       jfld ''boot_duration_ms'' (if br_boot_duration_ms boot > 0 then [UInt (of_nat (br_boot_duration_ms boot))] else [Null]) @
       jfld ''main_path_ms'' (if br_main_path_ms boot > 0 then [UInt (of_nat (br_main_path_ms boot))] else [Null]) @
       jfld ''kernel_init_ms'' (if br_kernel_init_ms boot > 0 then [UInt (of_nat (br_kernel_init_ms boot))] else [Null]) @
       jfld ''driver_init_ms'' (if br_driver_init_ms boot > 0 then [UInt (of_nat (br_driver_init_ms boot))] else [Null]) @
       jfld ''post_boot_ms'' (if br_post_boot_ms boot > 0 then [UInt (of_nat (br_post_boot_ms boot))] else [Null]) @
       jfld ''is_degraded'' [Bool (br_is_degraded boot)] @
       jfld ''degradation_summary'' (if br_degradation_summary boot \<noteq> [] then [wide io (br_degradation_summary boot)] else [Null]) @
       jfld ''last_boot_kind'' [Str (wt_boot_kind_name (br_last_boot_kind boot))] @
       jfld ''history'' (
         [Begin_Object] @
         jfld ''count'' [UInt (of_nat (length (hist_entries (br_history boot))))] @
         jfld ''avg_duration_ms'' [UInt (of_nat (hist_avg_duration_ms (br_history boot)))] @
         jfld ''avg_cold_ms'' [UInt (of_nat (hist_avg_cold_ms (br_history boot)))] @
         jfld ''avg_warm_ms'' [UInt (of_nat (hist_avg_warm_ms (br_history boot)))] @
         jfld ''cold_count'' [UInt (of_nat (hist_cold_count (br_history boot)))] @
         jfld ''warm_count'' [UInt (of_nat (hist_warm_count (br_history boot)))] @
         jfld ''unknown_count'' [UInt (of_nat (hist_unknown_count (br_history boot)))] @
         jfld ''slow_count'' [UInt (of_nat (hist_slow_count (br_history boot)))] @
         jfld ''degraded_count'' [UInt (of_nat (hist_degraded_count (br_history boot)))] @
         jfld ''entries'' (
           [Begin_Array] @
           concat (map (\<lambda>e.
             [Begin_Object] @
             jfld ''kind'' [Str (wt_boot_kind_name (bh_kind e))] @
             jfld ''boot_duration_ms'' [UInt (of_nat (bh_boot_duration_ms e))] @
             jfld ''main_path_ms'' (if bh_main_path_ms e > 0 then [UInt (of_nat (bh_main_path_ms e))] else [Null]) @
             jfld ''post_boot_ms'' (if bh_post_boot_ms e > 0 then [UInt (of_nat (bh_post_boot_ms e))] else [Null]) @
             jfld ''kernel_init_ms'' [UInt (of_nat (bh_kernel_init_ms e))] @
             jfld ''is_degraded'' [Bool (bh_is_degraded e)] @
             jfld ''boot_start_utc'' (if bh_boot_start_utc e \<noteq> [] then [Str (bh_boot_start_utc e)] else [Null]) @
             [End_Object]) (hist_entries (br_history boot))) @
           [End_Array]) @
         [End_Object]) @
       jfld ''components'' (
         [Begin_Array] @
         concat (map (\<lambda>c.
           [Begin_Object] @
           jfld ''name'' [wide io (bc_name c)] @
           jfld ''detail'' [wide io (bc_detail c)] @
           jfld ''kind'' [Str (wt_boot_component_kind_name (bc_kind c))] @
           jfld ''event_id'' [UInt (of_nat (bc_event_id c))] @
           jfld ''duration_ms'' [UInt (of_nat (bc_duration_ms c))] @
           jfld ''start_offset_ms'' (if bc_start_offset_ms c > 0 then [UInt (of_nat (bc_start_offset_ms c))] else [Null]) @
           jfld ''disk_heavy'' [Bool (bc_is_disk_heavy c)] @
           jfld ''service_matched'' [Bool (bc_service_matched c)] @
           (if bc_service_matched c then
             jfld ''service_name'' [wide io (bc_service_name c)] @
             jfld ''service_state'' [Str (bc_service_state c)] @
             jfld ''service_pid'' (if bc_service_pid c > 0 then [UInt (of_nat (bc_service_pid c))] else [Null])
            else []) @
           [End_Object]) (br_components boot)) @
         [End_Array]) @
       jfld ''waterfall_total_ms'' [UInt (of_nat (br_waterfall_total_ms boot))] @
       (if br_trace_path boot \<noteq> [] then
         jfld ''trace_path'' [wide io (br_trace_path boot)]
        else []) @
       (if br_etl_event_count boot > 0 then
         jfld ''etl_event_count'' [UInt (of_nat (br_etl_event_count boot))]
        else []) @
       [End_Object])"

definition wt_json_emit_updates_object :: "json_env \<Rightarrow> WT_UpdateStatus option \<Rightarrow> json_op list" where
  "wt_json_emit_updates_object io u =
     [Begin_Object] @
     jfld ''available'' [Bool (u \<noteq> None)] @
     (case u of None \<Rightarrow> [End_Object]
      | Some u \<Rightarrow>
       jfld ''reboot_required'' [Bool (us_reboot_required u)] @
       jfld ''reboot_wu'' [Bool (us_reboot_wu u)] @
       jfld ''reboot_cbs'' [Bool (us_reboot_cbs u)] @
       jfld ''reboot_pending_file_rename'' [Bool (us_reboot_pending_file_rename u)] @
       jfld ''wu_service_running'' (if us_wu_service_running u < 0 then [Null] else [Bool (us_wu_service_running u \<noteq> 0)]) @
       jfld ''last_check_utc'' (if us_last_check_available u \<and> je_filetime io (us_last_check_utc u) \<noteq> None then [Str (the (je_filetime io (us_last_check_utc u)))] else [Null]) @
       jfld ''last_install_utc'' (if us_last_install_available u \<and> je_filetime io (us_last_install_utc u) \<noteq> None then [Str (the (je_filetime io (us_last_install_utc u)))] else [Null]) @
       jfld ''last_install_title'' [wide io (us_last_install_title u)] @
       jfld ''search_available'' [Bool (us_search_available u)] @
       jfld ''pending_count'' [UInt (of_nat (us_pending_count u))] @
       jfld ''pending_mandatory_count'' [UInt (of_nat (us_pending_mandatory_count u))] @
       jfld ''pending'' (
         [Begin_Array] @
         concat (map (\<lambda>p.
           [Begin_Object] @
           jfld ''title'' [wide io (pu_title p)] @
           jfld ''update_id'' [wide io (pu_update_id p)] @
           jfld ''mandatory'' [Bool (pu_mandatory p)] @
           jfld ''downloaded'' [Bool (pu_downloaded p)] @
           jfld ''reboot_required'' [Bool (pu_reboot_required p)] @
           [End_Object]) (first_n (us_pending_count u) (us_pending u))) @
         [End_Array]) @
       (if us_note u \<noteq> [] then
         jfld ''note'' [wide io (us_note u)]
        else []) @
       [End_Object])"

definition scan_json_scan :: "json_env \<Rightarrow> WT_ScanReport \<Rightarrow> json_op list" where
  "scan_json_scan io report =
     jfld ''scan'' (
       [Begin_Object] @
       jfld ''sample_count'' [UInt (of_nat (rep_scan_sample_count report))] @
       jfld ''sample_interval_ms'' [UInt (of_nat (rep_scan_sample_interval_ms report))] @
       jfld ''confidence'' (
         [Begin_Object] @
         jfld ''cpu_ok_samples'' [UInt (of_nat (rep_cpu_ok_samples report))] @
         jfld ''cpu_hot_samples'' [UInt (of_nat (rep_cpu_hot_samples report))] @
         jfld ''cpu_max_percent'' (if rep_cpu_max_percent report \<ge> 0 then [Double (rep_cpu_max_percent report)] else [Null]) @
         jfld ''memory_ok_samples'' [UInt (of_nat (rep_memory_ok_samples report))] @
         jfld ''memory_pressure_samples'' [UInt (of_nat (rep_memory_pressure_samples report))] @
         jfld ''disk_active_ok_samples'' [UInt (of_nat (rep_disk_active_ok_samples report))] @
         jfld ''disk_active_hot_samples'' [UInt (of_nat (rep_disk_active_hot_samples report))] @
         [End_Object]) @
       [End_Object])"

definition scan_json_system :: "json_env \<Rightarrow> WT_ScanReport \<Rightarrow> json_op list" where
  "scan_json_system io report =
     jfld ''system'' (
       [Begin_Object] @
       jfld ''available'' [Bool (rep_os_ok report)] @
       (if rep_os_ok report then
         jfld ''os'' [wide io (osi_product_name (rep_os report))] @
         jfld ''arch'' [wide io (osi_arch (rep_os report))] @
         jfld ''hostname'' [wide io (osi_hostname (rep_os report))] @
         jfld ''uptime_ms'' [UInt (of_nat (osi_uptime_ms (rep_os report)))]
        else []) @
       [End_Object])"

definition scan_json_cpu :: "json_env \<Rightarrow> WT_ScanReport \<Rightarrow> json_op list" where
  "scan_json_cpu io report =
     jfld ''cpu'' (
       [Begin_Object] @
       jfld ''available'' [Bool (rep_cpu_ok report \<and> cm_available (rep_cpu report))] @
       jfld ''logical_processors'' [UInt (of_nat (cm_logical_processor_count (rep_cpu report)))] @
       jfld ''total_usage_percent'' (if rep_cpu_ok report \<and> cm_available (rep_cpu report) then [Double (cm_total_usage_percent (rep_cpu report))] else [Null]) @
       jfld ''dpc_percent'' (if rep_cpu_ok report \<and> cm_dpc_percent (rep_cpu report) \<ge> 0 then [Double (cm_dpc_percent (rep_cpu report))] else [Null]) @
       jfld ''interrupt_percent'' (if rep_cpu_ok report \<and> cm_interrupt_percent (rep_cpu report) \<ge> 0 then [Double (cm_interrupt_percent (rep_cpu report))] else [Null]) @
       jfld ''kernel_source'' (if rep_cpu_ok report \<and> cm_kernel_source_ok (rep_cpu report) \<and> cm_kernel_source (rep_cpu report) \<noteq> [] then [Str (cm_kernel_source (rep_cpu report))] else [Null]) @
       jfld ''kernel_source_kind'' (if rep_cpu_ok report \<and> cm_kernel_source_ok (rep_cpu report) then [Str (if cm_kernel_source_is_dpc (rep_cpu report) then ''dpc'' else ''interrupt'')] else [Null]) @
       [End_Object])"

definition scan_json_memory :: "json_env \<Rightarrow> WT_ScanReport \<Rightarrow> json_op list" where
  "scan_json_memory io report =
     jfld ''memory'' (
       [Begin_Object] @
       jfld ''available'' [Bool (rep_memory_ok report)] @
       (if rep_memory_ok report then
         jfld ''total_bytes'' [UInt (of_nat (mm_total_physical_bytes (rep_memory report)))] @
         jfld ''available_bytes'' [UInt (of_nat (mm_available_physical_bytes (rep_memory report)))] @
         jfld ''used_bytes'' [UInt (of_nat (mm_used_physical_bytes (rep_memory report)))] @
         jfld ''used_percent'' [Double (mm_used_percent (rep_memory report))] @
         jfld ''commit_ok'' [Bool (mm_commit_ok (rep_memory report))] @
         (if mm_commit_ok (rep_memory report) then
           jfld ''commit_total_bytes'' [UInt (of_nat (mm_commit_total_bytes (rep_memory report)))] @
           jfld ''commit_limit_bytes'' [UInt (of_nat (mm_commit_limit_bytes (rep_memory report)))] @
           jfld ''commit_peak_bytes'' [UInt (of_nat (mm_commit_peak_bytes (rep_memory report)))] @
           jfld ''commit_percent'' [Double (mm_commit_percent (rep_memory report))]
          else []) @
         (if mm_pagefile_ok (rep_memory report) then
           jfld ''commit_available_bytes'' [UInt (of_nat (mm_commit_available_bytes (rep_memory report)))]
          else []) @
         jfld ''hard_faults_per_sec'' (if mm_hard_faults_ok (rep_memory report) \<and> mm_hard_faults_per_sec (rep_memory report) \<ge> 0 then [Double (mm_hard_faults_per_sec (rep_memory report))] else [Null]) @
         jfld ''page_faults_per_sec'' (if mm_page_faults_ok (rep_memory report) \<and> mm_page_faults_per_sec (rep_memory report) \<ge> 0 then [Double (mm_page_faults_per_sec (rep_memory report))] else [Null]) @
         jfld ''standby_bytes'' (if mm_standby_ok (rep_memory report) then [UInt (of_nat (mm_standby_bytes (rep_memory report)))] else [Null]) @
         jfld ''modified_bytes'' (if mm_modified_ok (rep_memory report) then [UInt (of_nat (mm_modified_bytes (rep_memory report)))] else [Null]) @
         jfld ''compression_bytes'' (if mm_compression_ok (rep_memory report) then [UInt (of_nat (mm_compression_bytes (rep_memory report)))] else [Null])
        else []) @
       [End_Object])"

definition scan_json_disk :: "json_env \<Rightarrow> WT_ScanReport \<Rightarrow> json_op list" where
  "scan_json_disk io report =
     jfld ''disk'' (
       [Begin_Object] @
       jfld ''available'' [Bool (rep_disk_ok report)] @
       jfld ''volumes'' (
         [Begin_Array] @
         (if rep_disk_ok report then
           concat (map (\<lambda>v.
             [Begin_Object] @
             jfld ''root'' [wide io (dv_root_path v)] @
             jfld ''total_bytes'' [UInt (of_nat (dv_total_bytes v))] @
             jfld ''free_bytes'' [UInt (of_nat (dv_free_bytes v))] @
             jfld ''free_percent'' [Double (dv_free_percent v)] @
             jfld ''active_available'' [Bool (dv_activity_ok v)] @
             jfld ''active_percent'' (if dv_activity_ok v then [Double (dv_active_percent v)] else [Null]) @
             jfld ''throughput_available'' [Bool (dv_throughput_ok v)] @
             jfld ''read_bytes_per_sec'' (if dv_throughput_ok v \<and> dv_read_bytes_per_sec v \<ge> 0 then [Double (dv_read_bytes_per_sec v)] else [Null]) @
             jfld ''write_bytes_per_sec'' (if dv_throughput_ok v \<and> dv_write_bytes_per_sec v \<ge> 0 then [Double (dv_write_bytes_per_sec v)] else [Null]) @
             jfld ''avg_queue_length'' (if dv_queue_ok v \<and> dv_avg_queue_length v \<ge> 0 then [Double (dv_avg_queue_length v)] else [Null]) @
             jfld ''read_latency_ms_p50'' (if length (dv_read_latency_samples v) > 0 \<and> dv_read_latency_ms_p50 v \<ge> 0 then [Double (dv_read_latency_ms_p50 v)] else [Null]) @
             jfld ''read_latency_ms_p95'' (if length (dv_read_latency_samples v) > 0 \<and> dv_read_latency_ms_p95 v \<ge> 0 then [Double (dv_read_latency_ms_p95 v)] else [Null]) @
             jfld ''write_latency_ms_p50'' (if length (dv_write_latency_samples v) > 0 \<and> dv_write_latency_ms_p50 v \<ge> 0 then [Double (dv_write_latency_ms_p50 v)] else [Null]) @
             jfld ''write_latency_ms_p95'' (if length (dv_write_latency_samples v) > 0 \<and> dv_write_latency_ms_p95 v \<ge> 0 then [Double (dv_write_latency_ms_p95 v)] else [Null]) @
             [End_Object]) (rep_volumes report))
          else []) @
         [End_Array]) @
       jfld ''active_available'' [Bool (rep_disk_active_ok report)] @
       jfld ''active_percent'' (if rep_disk_active_ok report then [Double (rep_disk_active_percent report)] else [Null]) @
       jfld ''active_max_percent'' (if rep_disk_active_ok report \<and> rep_disk_active_max_percent report \<ge> 0 then [Double (rep_disk_active_max_percent report)] else [Null]) @
       jfld ''active_ok_samples'' [UInt (of_nat (rep_disk_active_ok_samples report))] @
       jfld ''active_hot_samples'' [UInt (of_nat (rep_disk_active_hot_samples report))] @
       jfld ''throughput_available'' [Bool (rep_disk_throughput_ok report)] @
       jfld ''read_bytes_per_sec'' (if rep_disk_throughput_ok report \<and> rep_disk_read_bytes_per_sec report \<ge> 0 then [Double (rep_disk_read_bytes_per_sec report)] else [Null]) @
       jfld ''write_bytes_per_sec'' (if rep_disk_throughput_ok report \<and> rep_disk_write_bytes_per_sec report \<ge> 0 then [Double (rep_disk_write_bytes_per_sec report)] else [Null]) @
       jfld ''avg_queue_length'' (if rep_disk_queue_ok report \<and> rep_disk_avg_queue_length report \<ge> 0 then [Double (rep_disk_avg_queue_length report)] else [Null]) @
       jfld ''latency_available'' [Bool (rep_disk_latency_ok report)] @
       jfld ''read_latency_ms_p50'' (if length (rep_disk_read_latency_ms report) > 0 \<and> rep_disk_read_latency_ms_p50 report \<ge> 0 then [Double (rep_disk_read_latency_ms_p50 report)] else [Null]) @
       jfld ''read_latency_ms_p95'' (if length (rep_disk_read_latency_ms report) > 0 \<and> rep_disk_read_latency_ms_p95 report \<ge> 0 then [Double (rep_disk_read_latency_ms_p95 report)] else [Null]) @
       jfld ''write_latency_ms_p50'' (if length (rep_disk_write_latency_ms report) > 0 \<and> rep_disk_write_latency_ms_p50 report \<ge> 0 then [Double (rep_disk_write_latency_ms_p50 report)] else [Null]) @
       jfld ''write_latency_ms_p95'' (if length (rep_disk_write_latency_ms report) > 0 \<and> rep_disk_write_latency_ms_p95 report \<ge> 0 then [Double (rep_disk_write_latency_ms_p95 report)] else [Null]) @
       jfld ''latency_samples'' [UInt (of_nat (if length (rep_disk_read_latency_ms report) > length (rep_disk_write_latency_ms report) then length (rep_disk_read_latency_ms report) else length (rep_disk_write_latency_ms report)))] @
       [End_Object])"

definition scan_json_gpu :: "json_env \<Rightarrow> WT_ScanReport \<Rightarrow> json_op list" where
  "scan_json_gpu io report =
     jfld ''gpu'' (
       [Begin_Object] @
       jfld ''available'' [Bool (rep_gpu_ok report)] @
       jfld ''utilization_available'' [Bool (rep_gpu_ok report \<and> gm_utilization_ok (rep_gpu report))] @
       jfld ''max_utilization_percent'' (if rep_gpu_ok report \<and> gm_utilization_ok (rep_gpu report) \<and> gm_max_utilization_percent (rep_gpu report) \<ge> 0 then [Double (gm_max_utilization_percent (rep_gpu report))] else [Null]) @
       jfld ''adapters'' (
         [Begin_Array] @
         (if rep_gpu_ok report \<and> gm_adapters_ok (rep_gpu report) then
           concat (map (\<lambda>a.
             [Begin_Object] @
             jfld ''name'' [wide io (ga_name a)] @
             jfld ''dedicated_bytes'' [UInt (of_nat (ga_dedicated_bytes a))] @
             jfld ''shared_bytes'' [UInt (of_nat (ga_shared_bytes a))] @
             jfld ''utilization_available'' [Bool (ga_utilization_ok a)] @
             jfld ''utilization_percent'' (if ga_utilization_ok a then [Double (ga_utilization_percent a)] else [Null]) @
             jfld ''processes'' (
               [Begin_Array] @
               concat (map (\<lambda>use.
                 [Begin_Object] @
                 jfld ''pid'' [UInt (of_nat (gp_pid use))] @
                 jfld ''name'' (if gp_name use \<noteq> [] then [wide io (gp_name use)] else [Null]) @
                 jfld ''engine_percent'' [Double (gp_engine_percent use)] @
                 [End_Object]) (ga_processes a)) @
               [End_Array]) @
             [End_Object]) (gm_adapters (rep_gpu report)))
          else []) @
         [End_Array]) @
       jfld ''display'' (
         [Begin_Object] @
         jfld ''available'' [Bool (rep_gpu_ok report \<and> di_available (gm_display (rep_gpu report)))] @
         (if rep_gpu_ok report \<and> di_available (gm_display (rep_gpu report)) then
           jfld ''count'' [UInt (of_nat (di_display_count (gm_display (rep_gpu report))))] @
           jfld ''primary_width'' [UInt (of_nat (di_primary_width (gm_display (rep_gpu report))))] @
           jfld ''primary_height'' [UInt (of_nat (di_primary_height (gm_display (rep_gpu report))))] @
           jfld ''monitors'' (
             [Begin_Array] @
             concat (map (\<lambda>mon.
               [Begin_Object] @
               jfld ''name'' (if dm_name mon \<noteq> [] then [wide io (dm_name mon)] else [Null]) @
               jfld ''width'' [UInt (of_nat (dm_width mon))] @
               jfld ''height'' [UInt (of_nat (dm_height mon))] @
               jfld ''refresh_hz'' (if dm_refresh_hz mon \<ge> 0 then [Double (dm_refresh_hz mon)] else [Null]) @
               jfld ''hdr_supported'' (if dm_hdr_ok mon then [Bool (dm_hdr_supported mon)] else [Null]) @
               jfld ''hdr_enabled'' (if dm_hdr_ok mon then [Bool (dm_hdr_enabled mon)] else [Null]) @
               jfld ''primary'' [Bool (dm_primary mon)] @
               [End_Object]) (di_monitors (gm_display (rep_gpu report)))) @
             [End_Array])
          else []) @
         [End_Object]) @
       [End_Object])"

definition scan_json_audio :: "json_env \<Rightarrow> WT_ScanReport \<Rightarrow> json_op list" where
  "scan_json_audio io report =
     jfld ''audio'' (
       [Begin_Object] @
       jfld ''available'' [Bool (rep_audio_ok report \<and> ar_available (rep_audio report))] @
       (if rep_audio_ok report \<and> ar_available (rep_audio report) then
         jfld ''any_exclusive'' [Bool (ar_any_exclusive (rep_audio report))] @
         jfld ''endpoints'' (
           [Begin_Array] @
           concat (map (\<lambda>ep.
             [Begin_Object] @
             jfld ''name'' (if ae_name ep \<noteq> [] then [wide io (ae_name ep)] else [Null]) @
             jfld ''flow'' [Str (if ae_render ep then ''render'' else ''capture'')] @
             jfld ''default'' [Bool (ae_default_device ep)] @
             jfld ''exclusive'' (if ae_probed ep then [Bool (ae_exclusive ep)] else [Null]) @
             jfld ''exclusive_only'' (if ae_probed ep then [Bool (ae_exclusive_only ep)] else [Null]) @
             [End_Object]) (ar_endpoints (rep_audio report))) @
           [End_Array])
        else jfld ''any_exclusive'' [Null]) @
       [End_Object])"

definition scan_json_search :: "json_env \<Rightarrow> WT_ScanReport \<Rightarrow> json_op list" where
  "scan_json_search io report =
     jfld ''search'' (
       [Begin_Object] @
       jfld ''available'' [Bool (rep_search_ok report \<and> sr_available (rep_search report))] @
       jfld ''service_running'' (if rep_search_ok report \<and> sr_service_running (rep_search report) \<ge> 0 then [Bool (sr_service_running (rep_search report) \<noteq> 0)] else [Null]) @
       jfld ''status'' (if rep_search_ok report \<and> sr_status_ok (rep_search report) then [Str (wt_search_status_token (sr_status (rep_search report)))] else [Null]) @
       jfld ''paused_reason'' (if rep_search_ok report \<and> sr_paused_reason (rep_search report) \<ge> 0 then [Str (wt_search_pause_token (sr_paused_reason (rep_search report)))] else [Null]) @
       jfld ''items_indexed'' (if rep_search_ok report \<and> sr_items_ok (rep_search report) \<and> sr_items_indexed (rep_search report) \<ge> 0 then [UInt (of_int (sr_items_indexed (rep_search report)))] else [Null]) @
       jfld ''backlog_items'' (if rep_search_ok report \<and> sr_backlog_ok (rep_search report) \<and> sr_backlog_items (rep_search report) \<ge> 0 then [UInt (of_int (sr_backlog_items (rep_search report)))] else [Null]) @
       jfld ''incremental_count'' (if rep_search_ok report \<and> sr_backlog_ok (rep_search report) \<and> sr_incremental_count (rep_search report) \<ge> 0 then [UInt (of_int (sr_incremental_count (rep_search report)))] else [Null]) @
       jfld ''notification_count'' (if rep_search_ok report \<and> sr_backlog_ok (rep_search report) \<and> sr_notification_count (rep_search report) \<ge> 0 then [UInt (of_int (sr_notification_count (rep_search report)))] else [Null]) @
       jfld ''high_priority_count'' (if rep_search_ok report \<and> sr_backlog_ok (rep_search report) \<and> sr_high_priority_count (rep_search report) \<ge> 0 then [UInt (of_int (sr_high_priority_count (rep_search report)))] else [Null]) @
       [End_Object])"

definition scan_json_defender :: "json_env \<Rightarrow> WT_ScanReport \<Rightarrow> json_op list" where
  "scan_json_defender io report =
     jfld ''defender'' (
       [Begin_Object] @
       jfld ''available'' [Bool (rep_defender_ok report \<and> df_available (rep_defender report))] @
       jfld ''realtime_protection'' (if rep_defender_ok report \<and> df_realtime_ok (rep_defender report) then [Bool (df_realtime_protection (rep_defender report))] else [Null]) @
       jfld ''antivirus_enabled'' (if rep_defender_ok report \<and> df_antivirus_ok (rep_defender report) then [Bool (df_antivirus_enabled (rep_defender report))] else [Null]) @
       jfld ''service_enabled'' (if rep_defender_ok report \<and> df_service_ok (rep_defender report) then [Bool (df_service_enabled (rep_defender report))] else [Null]) @
       jfld ''signature_age_days'' (if rep_defender_ok report \<and> df_signature_age_ok (rep_defender report) \<and> df_signature_age_days (rep_defender report) \<ge> 0 then [UInt (of_int (df_signature_age_days (rep_defender report)))] else [Null]) @
       [End_Object])"

definition scan_json_network :: "json_env \<Rightarrow> WT_ScanReport \<Rightarrow> json_op list" where
  "scan_json_network io report =
     jfld ''network'' (
       [Begin_Object] @
       jfld ''available'' [Bool (rep_network_ok report)] @
       jfld ''interface_count'' (if rep_network_ok report then [UInt (of_nat (nt_interface_count (rep_network report)))] else [Null]) @
       jfld ''recv_bytes_per_sec'' (if rep_network_ok report \<and> nt_recv_bytes_per_sec (rep_network report) \<ge> 0 then [Double (nt_recv_bytes_per_sec (rep_network report))] else [Null]) @
       jfld ''send_bytes_per_sec'' (if rep_network_ok report \<and> nt_send_bytes_per_sec (rep_network report) \<ge> 0 then [Double (nt_send_bytes_per_sec (rep_network report))] else [Null]) @
       jfld ''adapters'' (
         [Begin_Array] @
         (if rep_network_ok report then
           concat (map (\<lambda>adapter.
             [Begin_Object] @
             jfld ''name'' (if na_name adapter \<noteq> [] then [wide io (na_name adapter)] else [Null]) @
             jfld ''kind'' [Str (wt_net_adapter_kind_token (na_kind adapter))] @
             jfld ''recv_bytes_per_sec'' (if na_recv_bytes_per_sec adapter \<ge> 0 then [Double (na_recv_bytes_per_sec adapter)] else [Null]) @
             jfld ''send_bytes_per_sec'' (if na_send_bytes_per_sec adapter \<ge> 0 then [Double (na_send_bytes_per_sec adapter)] else [Null]) @
             [End_Object]) (nt_adapters (rep_network report)))
          else []) @
         [End_Array]) @
       [End_Object])"

definition scan_json_power :: "json_env \<Rightarrow> WT_ScanReport \<Rightarrow> json_op list" where
  "scan_json_power io report =
     jfld ''power'' (
       [Begin_Object] @
       jfld ''available'' [Bool (rep_power_ok report)] @
       (if rep_power_ok report then
         jfld ''plan'' [Str (wt_power_scheme_name (pw_scheme (rep_power report)))] @
         jfld ''plan_name'' [wide io (pw_active_name (rep_power report))] @
         jfld ''on_ac'' (if pw_on_ac (rep_power report) < 0 then [Null] else [Bool (pw_on_ac (rep_power report) \<noteq> 0)]) @
         jfld ''battery_percent'' (if pw_battery_percent (rep_power report) < 0 then [Null] else [UInt (of_int (pw_battery_percent (rep_power report)))]) @
         jfld ''battery_present'' (if pw_battery_present (rep_power report) < 0 then [Null] else [Bool (pw_battery_present (rep_power report) \<noteq> 0)]) @
         jfld ''charging'' (if pw_charging (rep_power report) < 0 then [Null] else [Bool (pw_charging (rep_power report) \<noteq> 0)]) @
         jfld ''discharging'' (if pw_discharging (rep_power report) < 0 then [Null] else [Bool (pw_discharging (rep_power report) \<noteq> 0)]) @
         jfld ''rate_mw'' (if pw_rate_ok (rep_power report) then [Double (of_int (pw_rate_mw (rep_power report)))] else [Null]) @
         jfld ''estimated_seconds'' (if pw_estimated_seconds (rep_power report) \<ge> 0 then [UInt (of_int (pw_estimated_seconds (rep_power report)))] else [Null]) @
         jfld ''processor_max_pct_ac'' (if pw_processor_max_pct_ac (rep_power report) \<ge> 0 then [UInt (of_int (pw_processor_max_pct_ac (rep_power report)))] else [Null]) @
         jfld ''processor_max_pct_dc'' (if pw_processor_max_pct_dc (rep_power report) \<ge> 0 then [UInt (of_int (pw_processor_max_pct_dc (rep_power report)))] else [Null]) @
         jfld ''processor_capped'' [Bool (pw_processor_capped (rep_power report))] @
         jfld ''power_mode'' (if snd (wt_power_active_mode (rep_power report)) then [Str (wt_power_mode_token (fst (wt_power_active_mode (rep_power report))))] else [Null]) @
         jfld ''power_mode_ac'' (if pw_mode_ac_ok (rep_power report) then [Str (wt_power_mode_token (pw_mode_ac (rep_power report)))] else [Null]) @
         jfld ''power_mode_dc'' (if pw_mode_dc_ok (rep_power report) then [Str (wt_power_mode_token (pw_mode_dc (rep_power report)))] else [Null])
        else []) @
       [End_Object])"

definition scan_json_boot_updates :: "json_env \<Rightarrow> WT_ScanReport \<Rightarrow> json_op list" where
  "scan_json_boot_updates io report =
     jfld ''boot'' (if rep_boot_ok report then (wt_json_emit_boot_object io (Some (rep_boot report))) else (
       [Begin_Object] @
       jfld ''available'' [Bool False] @
       [End_Object])) @
     jfld ''updates'' (if rep_updates_ok report then (wt_json_emit_updates_object io (Some (rep_updates report))) else (
       [Begin_Object] @
       jfld ''available'' [Bool False] @
       [End_Object]))"

definition scan_json_processes :: "json_env \<Rightarrow> WT_ScanReport \<Rightarrow> json_op list" where
  "scan_json_processes io report =
     jfld ''processes'' (
       [Begin_Object] @
       jfld ''available'' [Bool (rep_processes_ok report)] @
       jfld ''top'' (
         [Begin_Array] @
         (if rep_processes_ok report then
           concat (map (\<lambda>p.
             (wt_json_emit_process io p)) (rep_top_processes report))
          else []) @
         [End_Array]) @
       jfld ''short_lived'' (
         [Begin_Array] @
         (if rep_processes_ok report then
           concat (map (\<lambda>lived.
             [Begin_Object] @
             jfld ''pid'' [UInt (of_nat (sl_pid lived))] @
             jfld ''parent_pid'' [UInt (of_nat (sl_parent_pid lived))] @
             jfld ''name'' (if sl_name lived \<noteq> [] then [wide io (sl_name lived)] else [Null]) @
             jfld ''exited'' [Bool (sl_exited lived)] @
             [End_Object]) (rep_short_lived report))
          else []) @
         [End_Array]) @
       [End_Object])"

definition scan_json_timing :: "json_env \<Rightarrow> WT_ScanReport \<Rightarrow> json_op list" where
  "scan_json_timing io report =
     jfld ''timing'' (
       [Begin_Object] @
       jfld ''collectors'' (
         [Begin_Array] @
         concat (map (\<lambda>id.
           [Begin_Object] @
           jfld ''name'' [Str (wt_collector_name (int id))] @
           jfld ''duration_ms'' [UInt (of_nat ((rep_collector_ms report) ! id))] @
           [End_Object]) [0..<14]) @
         [End_Array]) @
       jfld ''total_ms'' [UInt (of_nat (sum_list (map (\<lambda>id. rep_collector_ms report ! id) [0..<14])))] @
       [End_Object])"

definition wt_print_scan_report_json :: "json_env \<Rightarrow> WT_ScanReport \<Rightarrow> WT_Recommendation list option \<Rightarrow> json_op list" where
  "wt_print_scan_report_json io report recs =
     [Begin_Object] @
     wt_json_emit_envelope_head io ''scan'' @
     scan_json_scan io report @
     scan_json_system io report @
     scan_json_cpu io report @
     scan_json_memory io report @
     scan_json_disk io report @
     scan_json_gpu io report @
     scan_json_audio io report @
     scan_json_search io report @
     scan_json_defender io report @
     scan_json_network io report @
     scan_json_power io report @
     scan_json_boot_updates io report @
     scan_json_processes io report @
     scan_json_timing io report @
     wt_json_emit_recommendations_array recs @
     [End_Object]"

definition wt_print_recommendations_json :: "json_env \<Rightarrow> WT_Recommendation list option \<Rightarrow> json_op list" where
  "wt_print_recommendations_json io recs =
     [Begin_Object] @
     wt_json_emit_envelope_head io ''recommendations'' @
     wt_json_emit_recommendations_array recs @
     [End_Object]"

definition wt_print_startup_json :: "json_env \<Rightarrow> WT_StartupEntry list \<Rightarrow> json_op list" where
  "wt_print_startup_json io items =
     [Begin_Object] @
     wt_json_emit_envelope_head io ''startup'' @
     jfld ''startup'' (
       [Begin_Array] @
       concat (map (\<lambda>e.
         [Begin_Object] @
         jfld ''id'' [wide io (se_id e)] @
         jfld ''name'' [wide io (se_name e)] @
         jfld ''source'' [Str (wt_startup_source_name (se_source e))] @
         jfld ''command'' [wide io (se_command e)] @
         jfld ''enabled'' [Bool (se_enabled e)] @
         jfld ''impact'' [Str (wt_startup_impact_name (se_impact e))] @
         jfld ''impact_score'' [UInt (of_int (se_impact_score e))] @
         jfld ''impact_confidence'' [UInt (of_int (se_impact_confidence e))] @
         jfld ''measured_available'' [Bool (se_measured_available e)] @
         jfld ''measured_ms'' (if se_measured_available e then [UInt (of_nat (se_measured_ms e))] else [Null]) @
         wt_json_emit_identity io (Some (se_identity e)) @
         [End_Object]) items) @
       [End_Array]) @
     [End_Object]"

definition wt_print_tasks_json :: "json_env \<Rightarrow> WT_ScheduledTask list \<Rightarrow> json_op list" where
  "wt_print_tasks_json io items =
     [Begin_Object] @
     wt_json_emit_envelope_head io ''tasks'' @
     jfld ''tasks'' (
       [Begin_Array] @
       concat (map (\<lambda>t.
         [Begin_Object] @
         jfld ''id'' [wide io (st_id t)] @
         jfld ''name'' [wide io (st_name t)] @
         jfld ''path'' [wide io (st_path t)] @
         jfld ''command'' [wide io (st_command t)] @
         jfld ''author'' [wide io (st_author t)] @
         jfld ''enabled'' [Bool (st_enabled t)] @
         jfld ''trigger'' [Str (wt_task_trigger_name (st_trigger_kind t))] @
         jfld ''delay_seconds'' [UInt (of_nat (st_delay_seconds t))] @
         jfld ''impact'' [Str (wt_startup_impact_name (st_impact t))] @
         jfld ''impact_score'' [UInt (of_int (st_impact_score t))] @
         jfld ''impact_confidence'' [UInt (of_int (st_impact_confidence t))] @
         jfld ''protected'' [Bool (st_is_microsoft t)] @
         jfld ''measured_available'' [Bool (st_measured_available t)] @
         jfld ''measured_ms'' (if st_measured_available t then [UInt (of_nat (st_measured_ms t))] else [Null]) @
         [End_Object]) items) @
       [End_Array]) @
     [End_Object]"

definition wt_print_services_json :: "json_env \<Rightarrow> WT_ServiceInfo list \<Rightarrow> json_op list" where
  "wt_print_services_json io items =
     [Begin_Object] @
     wt_json_emit_envelope_head io ''services'' @
     jfld ''services'' (
       [Begin_Array] @
       concat (map (\<lambda>s.
         [Begin_Object] @
         jfld ''name'' [wide io (sv_name s)] @
         jfld ''display_name'' [wide io (sv_display_name s)] @
         jfld ''state'' [Str (wt_service_state_name (sv_state s))] @
         jfld ''start_type'' [Str (wt_service_start_type_name (sv_start_type s))] @
         jfld ''pid'' (if sv_pid s = 0 then [Null] else [UInt (of_nat (sv_pid s))]) @
         jfld ''configured_image'' (if sv_image_path s \<noteq> [] then [wide io (sv_image_path s)] else [Null]) @
         wt_json_emit_identity io (Some (sv_identity s)) @
         [End_Object]) items) @
       [End_Array]) @
     [End_Object]"

definition wt_print_boot_json :: "json_env \<Rightarrow> WT_BootReport option \<Rightarrow> json_op list" where
  "wt_print_boot_json io boot =
     [Begin_Object] @
     wt_json_emit_envelope_head io ''boot'' @
     jfld ''boot'' (wt_json_emit_boot_object io boot) @
     [End_Object]"

definition wt_print_updates_json :: "json_env \<Rightarrow> WT_UpdateStatus option \<Rightarrow> json_op list" where
  "wt_print_updates_json io status =
     [Begin_Object] @
     wt_json_emit_envelope_head io ''updates'' @
     jfld ''updates'' (wt_json_emit_updates_object io status) @
     [End_Object]"

definition wt_json_emit_blockers_object :: "json_env \<Rightarrow> WT_BlockerReport option \<Rightarrow> json_op list" where
  "wt_json_emit_blockers_object io r =
     [Begin_Object] @
     jfld ''available'' [Bool (r \<noteq> None)] @
     (case r of None \<Rightarrow> [End_Object]
      | Some r \<Rightarrow>
       jfld ''reboot_pending'' [Bool (bk_reboot_pending r)] @
       jfld ''reboot_wu'' [Bool (bk_reboot_wu r)] @
       jfld ''reboot_cbs'' [Bool (bk_reboot_cbs r)] @
       jfld ''reboot_pending_file_rename'' [Bool (bk_reboot_pending_file_rename r)] @
       jfld ''pending_rename_file_count'' [UInt (of_nat (bk_pending_rename_file_count r))] @
       jfld ''process_blockers'' (
         [Begin_Array] @
         concat (map (\<lambda>b.
           [Begin_Object] @
           jfld ''pid'' [UInt (of_nat (bp_pid b))] @
           jfld ''name'' [wide io (bp_name b)] @
           jfld ''app_name'' [wide io (bp_app_name b)] @
           jfld ''kind'' [Str (wt_json_blocker_kind (bp_kind b))] @
           jfld ''reason'' [wide io (bp_reason b)] @
           [End_Object]) (first_n (bk_process_blocker_count r) (bk_process_blockers r))) @
         [End_Array]) @
       jfld ''locked_files'' (
         [Begin_Array] @
         concat (map (\<lambda>lf.
           [Begin_Object] @
           jfld ''path'' [wide io (lf_path lf)] @
           jfld ''processes'' (
             [Begin_Array] @
             concat (map (\<lambda>p.
               [Begin_Object] @
               jfld ''pid'' [UInt (of_nat ((lf_pids lf) ! p))] @
               jfld ''name'' [wide io ((lf_process_names lf) ! p)] @
               [End_Object]) [0..<lf_process_count lf]) @
             [End_Array]) @
           [End_Object]) (first_n (bk_locked_file_count r) (bk_locked_files r))) @
         [End_Array]) @
       (if bk_note r \<noteq> [] then
         jfld ''note'' [wide io (bk_note r)]
        else []) @
       [End_Object])"

definition wt_print_blockers_json :: "json_env \<Rightarrow> WT_BlockerReport option \<Rightarrow> json_op list" where
  "wt_print_blockers_json io report =
     [Begin_Object] @
     wt_json_emit_envelope_head io ''blockers'' @
     jfld ''blockers'' (wt_json_emit_blockers_object io report) @
     [End_Object]"

definition wt_print_storage_json :: "json_env \<Rightarrow> WT_StorageHealthReport option \<Rightarrow> json_op list" where
  "wt_print_storage_json io report =
     [Begin_Object] @
     wt_json_emit_envelope_head io ''storage'' @
     jfld ''storage'' (
       [Begin_Object] @
       jfld ''disk_count'' [UInt (of_nat (if report \<noteq> None then length (sh_disks (the report)) else 0))] @
       jfld ''any_degraded'' [Bool (report \<noteq> None \<and> sh_any_degraded (the report))] @
       jfld ''any_warning'' [Bool (report \<noteq> None \<and> sh_any_warning (the report))] @
       jfld ''any_unavailable'' [Bool (report \<noteq> None \<and> sh_any_unavailable (the report))] @
       (if report \<noteq> None \<and> sh_note (the report) \<noteq> [] then
         jfld ''note'' [wide io (sh_note (the report))]
        else []) @
       jfld ''disks'' (
         [Begin_Array] @
         (if report \<noteq> None then
           concat (map (\<lambda>d.
             [Begin_Object] @
             jfld ''physical_drive'' [UInt (of_nat (sd_physical_drive d))] @
             jfld ''status'' [Str (wt_storage_health_status_name (sd_status d))] @
             jfld ''predict_failure'' (if sd_predict_failure d < 0 then [Null] else [Bool (sd_predict_failure d \<noteq> 0)]) @
             jfld ''model'' [wide io (sd_model d)] @
             jfld ''serial'' [wide io (sd_serial d)] @
             jfld ''bus_type'' [wide io (sd_bus_type d)] @
             jfld ''media_hint'' [wide io (sd_media_hint d)] @
             jfld ''descriptor_ok'' [Bool (sd_descriptor_ok d)] @
             jfld ''predict_ok'' [Bool (sd_predict_ok d)] @
             jfld ''temperature_c'' (if sd_temperature_ok d then [Double (of_int (sd_temperature_c d))] else [Null]) @
             jfld ''warning_temperature_c'' (if sd_warning_temperature_ok d then [Double (of_int (sd_warning_temperature_c d))] else [Null]) @
             jfld ''critical_temperature_c'' (if sd_critical_temperature_ok d then [Double (of_int (sd_critical_temperature_c d))] else [Null]) @
             jfld ''spare_percent'' (if sd_smart_ok d \<and> sd_spare_percent d \<ge> 0 then [UInt (of_int (sd_spare_percent d))] else [Null]) @
             jfld ''spare_threshold_percent'' (if sd_smart_ok d \<and> sd_spare_threshold_percent d \<ge> 0 then [UInt (of_int (sd_spare_threshold_percent d))] else [Null]) @
             jfld ''percentage_used'' (if sd_smart_ok d \<and> sd_percentage_used d \<ge> 0 then [UInt (of_int (sd_percentage_used d))] else [Null]) @
             jfld ''critical_warning'' (if sd_smart_ok d \<and> sd_critical_warning d \<ge> 0 then [UInt (of_int (sd_critical_warning d))] else [Null]) @
             (if sd_note d \<noteq> [] then
               jfld ''note'' [wide io (sd_note d)]
              else []) @
             [End_Object]) (sh_disks (the report)))
          else []) @
         [End_Array]) @
       [End_Object]) @
     jfld ''safety'' (
       [Begin_Object] @
       jfld ''read_only'' [Bool True] @
       jfld ''never_wipe_format_repair'' [Bool True] @
       [End_Object]) @
     [End_Object]"

definition wt_print_reliability_json :: "json_env \<Rightarrow> WT_ReliabilityReport option \<Rightarrow> json_op list" where
  "wt_print_reliability_json io report =
     [Begin_Object] @
     wt_json_emit_envelope_head io ''reliability'' @
     jfld ''reliability'' (
       [Begin_Object] @
       jfld ''lookback_days'' [UInt (of_int (if report \<noteq> None then rr_lookback_days (the report) else 0))] @
       jfld ''events_ok'' [Bool (report \<noteq> None \<and> rr_events_ok (the report))] @
       jfld ''dumps_ok'' [Bool (report \<noteq> None \<and> rr_dumps_ok (the report))] @
       jfld ''kernel_power_count'' [UInt (of_nat (if report \<noteq> None then rr_kernel_power_count (the report) else 0))] @
       jfld ''unexpected_shutdown_count'' [UInt (of_nat (if report \<noteq> None then rr_unexpected_shutdown_count (the report) else 0))] @
       jfld ''bugcheck_count'' [UInt (of_nat (if report \<noteq> None then rr_bugcheck_count (the report) else 0))] @
       jfld ''app_crash_count'' [UInt (of_nat (if report \<noteq> None then rr_app_crash_count (the report) else 0))] @
       jfld ''app_hang_count'' [UInt (of_nat (if report \<noteq> None then rr_app_hang_count (the report) else 0))] @
       jfld ''wer_report_count'' [UInt (of_nat (if report \<noteq> None then rr_wer_report_count (the report) else 0))] @
       (if report \<noteq> None \<and> rr_last_unexpected_utc (the report) \<noteq> [] then
         jfld ''last_unexpected_utc'' [Str (rr_last_unexpected_utc (the report))]
        else []) @
       (if report \<noteq> None \<and> rr_last_bugcheck_utc (the report) \<noteq> [] then
         jfld ''last_bugcheck_utc'' [Str (rr_last_bugcheck_utc (the report))] @
         jfld ''last_bugcheck_detail'' [wide io (rr_last_bugcheck_detail (the report))]
        else []) @
       jfld ''recent_events'' (
         [Begin_Array] @
         (if report \<noteq> None then
           concat (map (\<lambda>e.
             [Begin_Object] @
             jfld ''kind'' [Str (wt_reliability_kind_name (re_kind e))] @
             jfld ''event_id'' [UInt (of_nat (re_event_id e))] @
             jfld ''time_utc'' [Str (re_time_utc e)] @
             jfld ''detail'' [wide io (re_detail e)] @
             [End_Object]) (rr_recent (the report)))
          else []) @
         [End_Array]) @
       jfld ''crash_apps'' (
         [Begin_Array] @
         (if report \<noteq> None then
           concat (map (\<lambda>ca.
             [Begin_Object] @
             jfld ''name'' [wide io (ca_name ca)] @
             jfld ''count'' [UInt (of_nat (ca_count ca))] @
             [End_Object]) (rr_crash_apps (the report)))
          else []) @
         [End_Array]) @
       jfld ''dump_metadata'' (
         [Begin_Array] @
         (if report \<noteq> None then
           concat (map (\<lambda>d.
             [Begin_Object] @
             jfld ''name'' [wide io (rd_name d)] @
             jfld ''location'' [wide io (rd_location d)] @
             jfld ''size_bytes'' [UInt (of_nat (rd_size_bytes d))] @
             jfld ''modified_utc'' [Str (rd_modified_utc d)] @
             jfld ''is_directory'' [Bool (rd_is_directory d)] @
             [End_Object]) (rr_dumps (the report)))
          else []) @
         [End_Array]) @
       (if report \<noteq> None \<and> rr_note (the report) \<noteq> [] then
         jfld ''note'' [wide io (rr_note (the report))]
        else []) @
       [End_Object]) @
     jfld ''safety'' (
       [Begin_Object] @
       jfld ''read_only'' [Bool True] @
       jfld ''never_open_dump_contents'' [Bool True] @
       jfld ''never_upload_dumps'' [Bool True] @
       jfld ''never_claim_repair'' [Bool True] @
       [End_Object]) @
     [End_Object]"

definition wt_print_memory_json :: "json_env \<Rightarrow> WT_MemoryMetrics option \<Rightarrow> json_op list" where
  "wt_print_memory_json io m =
     [Begin_Object] @
     wt_json_emit_envelope_head io ''memory'' @
     jfld ''memory'' (
       [Begin_Object] @
       (if m \<noteq> None then
         jfld ''total_bytes'' [UInt (of_nat (mm_total_physical_bytes (the m)))] @
         jfld ''available_bytes'' [UInt (of_nat (mm_available_physical_bytes (the m)))] @
         jfld ''used_bytes'' [UInt (of_nat (mm_used_physical_bytes (the m)))] @
         jfld ''used_percent'' [Double (mm_used_percent (the m))] @
         jfld ''commit_ok'' [Bool (mm_commit_ok (the m))] @
         (if mm_commit_ok (the m) then
           jfld ''commit_total_bytes'' [UInt (of_nat (mm_commit_total_bytes (the m)))] @
           jfld ''commit_limit_bytes'' [UInt (of_nat (mm_commit_limit_bytes (the m)))] @
           jfld ''commit_peak_bytes'' [UInt (of_nat (mm_commit_peak_bytes (the m)))] @
           jfld ''commit_percent'' [Double (mm_commit_percent (the m))]
          else []) @
         (if mm_pagefile_ok (the m) then
           jfld ''commit_available_bytes'' [UInt (of_nat (mm_commit_available_bytes (the m)))]
          else []) @
         jfld ''hard_faults_per_sec'' (if mm_hard_faults_ok (the m) \<and> mm_hard_faults_per_sec (the m) \<ge> 0 then [Double (mm_hard_faults_per_sec (the m))] else [Null]) @
         jfld ''page_faults_per_sec'' (if mm_page_faults_ok (the m) \<and> mm_page_faults_per_sec (the m) \<ge> 0 then [Double (mm_page_faults_per_sec (the m))] else [Null]) @
         jfld ''standby_bytes'' (if mm_standby_ok (the m) then [UInt (of_nat (mm_standby_bytes (the m)))] else [Null]) @
         jfld ''modified_bytes'' (if mm_modified_ok (the m) then [UInt (of_nat (mm_modified_bytes (the m)))] else [Null]) @
         jfld ''compression_bytes'' (if mm_compression_ok (the m) then [UInt (of_nat (mm_compression_bytes (the m)))] else [Null])
        else []) @
       [End_Object]) @
     jfld ''safety'' (
       [Begin_Object] @
       jfld ''read_only'' [Bool True] @
       jfld ''never_empty_working_sets'' [Bool True] @
       [End_Object]) @
     [End_Object]"

definition wt_print_maintenance_json :: "json_env \<Rightarrow> WT_MaintenanceReport option \<Rightarrow> json_op list" where
  "wt_print_maintenance_json io report =
     [Begin_Object] @
     wt_json_emit_envelope_head io ''maintenance'' @
     jfld ''maintenance'' (
       [Begin_Object] @
       jfld ''scan_ok'' [Bool (report \<noteq> None \<and> mr_scan_ok (the report))] @
       jfld ''sample_count'' [UInt (of_nat (if report \<noteq> None then mr_sample_count (the report) else 0))] @
       jfld ''cpu_percent'' [Double (if report \<noteq> None then mr_cpu_percent (the report) else 0)] @
       jfld ''disk_active_percent'' [Double (if report \<noteq> None then mr_disk_active_percent (the report) else 0)] @
       jfld ''cpu_hot'' [Bool (report \<noteq> None \<and> mr_cpu_hot (the report))] @
       jfld ''disk_hot'' [Bool (report \<noteq> None \<and> mr_disk_hot (the report))] @
       jfld ''defender_active'' [Bool (report \<noteq> None \<and> mr_defender_active (the report))] @
       jfld ''update_active'' [Bool (report \<noteq> None \<and> mr_update_active (the report))] @
       jfld ''optimize_active'' [Bool (report \<noteq> None \<and> mr_optimize_active (the report))] @
       jfld ''overlap'' [Bool (report \<noteq> None \<and> mr_overlap (the report))] @
       jfld ''hits'' (
         [Begin_Array] @
         (if report \<noteq> None then
           concat (map (\<lambda>h.
             [Begin_Object] @
             jfld ''kind'' [Str (wt_maint_kind_name (mh_kind h))] @
             jfld ''source'' [wide io (mh_source h)] @
             jfld ''name'' [wide io (mh_name h)] @
             jfld ''cpu_percent'' (if mh_cpu_percent h \<ge> 0 then [Double (mh_cpu_percent h)] else [Null]) @
             jfld ''disk_bytes_per_sec'' (if mh_disk_bytes_per_sec h \<ge> 0 then [Double (mh_disk_bytes_per_sec h)] else [Null]) @
             jfld ''task_running'' [Bool (mh_task_running h)] @
             jfld ''last_run_recent'' [Bool (mh_last_run_recent h)] @
             (if mh_last_run_utc h \<noteq> [] then
               jfld ''last_run_utc'' [Str (mh_last_run_utc h)]
              else []) @
             [End_Object]) (mr_hits (the report)))
          else []) @
         [End_Array]) @
       (if report \<noteq> None \<and> mr_note (the report) \<noteq> [] then
         jfld ''note'' [wide io (mr_note (the report))]
        else []) @
       [End_Object]) @
     jfld ''safety'' (
       [Begin_Object] @
       jfld ''read_only'' [Bool True] @
       jfld ''never_disable_defender'' [Bool True] @
       jfld ''never_disable_windows_update'' [Bool True] @
       [End_Object]) @
     [End_Object]"

definition wt_json_emit_process_list :: "json_env \<Rightarrow> WT_ProcessInfo list \<Rightarrow> WT_ProcessPageInfo option \<Rightarrow> WT_ShortLivedProcess list option \<Rightarrow> json_op list" where
  "wt_json_emit_process_list io items page short_lived =
     [Begin_Object] @
     wt_json_emit_envelope_head io ''processes'' @
     (if page \<noteq> None then
       jfld ''page'' [UInt (of_nat (pg_page (the page)))] @
       jfld ''page_size'' [UInt (of_nat (pg_page_size (the page)))] @
       jfld ''page_count'' [UInt (of_nat (pg_page_count (the page)))] @
       jfld ''total'' [UInt (of_nat (pg_total (the page)))] @
       jfld ''truncated'' [Bool (pg_truncated (the page))]
      else []) @
     jfld ''processes'' (
       [Begin_Array] @
       concat (map (\<lambda>p.
         (wt_json_emit_process io p)) items) @
       [End_Array]) @
     (if short_lived \<noteq> None then
       jfld ''short_lived'' (
         [Begin_Array] @
         concat (map (\<lambda>sl.
           [Begin_Object] @
           jfld ''pid'' [UInt (of_nat (sl_pid sl))] @
           jfld ''parent_pid'' [UInt (of_nat (sl_parent_pid sl))] @
           jfld ''name'' (if sl_name sl \<noteq> [] then [wide io (sl_name sl)] else [Null]) @
           jfld ''exited'' [Bool (sl_exited sl)] @
           [End_Object]) (the short_lived)) @
         [End_Array])
      else []) @
     [End_Object]"

definition wt_print_processes_json ::
  "json_env \<Rightarrow> WT_ProcessInfo list \<Rightarrow> WT_ShortLivedProcess list option \<Rightarrow> json_op list" where
  "wt_print_processes_json io items short_lived = wt_json_emit_process_list io items None short_lived"

definition wt_print_processes_page_json ::
  "json_env \<Rightarrow> WT_ProcessInfo list \<Rightarrow> WT_ProcessPageInfo option \<Rightarrow> json_op list" where
  "wt_print_processes_page_json io items page = wt_json_emit_process_list io items page None"

lemma emit_schema_meta_ops:
  "json_run (wt_json_emit_schema_meta_ops io document) w
     = wt_json_emit_schema_meta (je_globals io) (Some document) w"
  by (simp add: wt_json_emit_schema_meta_ops_def wt_json_emit_schema_meta_def jfld_def Let_def)

end
