(* ===== verification/Stable_Sort.thy ===== *)
theory Stable_Sort
  imports WT_Prelude "HOL-Library.Multiset"
begin

text \<open>
  The insertion sort the program writes out where it orders a short list (\<open>doctor_plan.c\<close>): the
  element at \<open>i\<close> moves left past every element it is less than. \<open>shift_in\<close> is the inner loop on the reversed
  prefix, \<open>insertion_sort\<close> the outer one. The locale \<open>weak_order\<close> states what the comparison must promise, and
  \<open>keyed_less\<close> that a comparison by keys promises it.
\<close>

fun shift_in :: "('a \<Rightarrow> 'a \<Rightarrow> bool) \<Rightarrow> 'a \<Rightarrow> 'a list \<Rightarrow> 'a list" where
  "shift_in before k [] = [k]"
| "shift_in before k (x # rs) = (if before k x then x # shift_in before k rs else k # x # rs)"

definition insertion_sort :: "('a \<Rightarrow> 'a \<Rightarrow> bool) \<Rightarrow> 'a list \<Rightarrow> 'a list" where
  "insertion_sort before xs = rev (foldl (\<lambda>rs k. shift_in before k rs) [] xs)"

lemma mset_shift_in [simp]: "mset (shift_in before k rs) = add_mset k (mset rs)"
  by (induction rs) simp_all

lemma set_shift_in [simp]: "set (shift_in before k rs) = insert k (set rs)"
  by (induction rs) auto

lemma mset_insertion_sort: "mset (insertion_sort before xs) = mset xs"
proof -
  have "mset (foldl (\<lambda>rs k. shift_in before k rs) acc xs) = mset acc + mset xs" for acc
    by (induction xs arbitrary: acc) simp_all
  then show ?thesis by (simp add: insertion_sort_def)
qed

lemma length_insertion_sort [simp]: "length (insertion_sort before xs) = length xs"
  using mset_insertion_sort [of before xs] by (metis size_mset)

lemma set_insertion_sort [simp]: "set (insertion_sort before xs) = set xs"
  using mset_insertion_sort [of before xs] by (metis set_mset_mset)

lemma map_shift_in: "(\<And>a b. before (f a) (f b) = before' a b) \<Longrightarrow> shift_in before (f k) (map f rs) = map f (shift_in before' k rs)"
  by (induction rs) simp_all

locale weak_order =
  fixes before :: "'a \<Rightarrow> 'a \<Rightarrow> bool"
  assumes irreflexive: "\<not> before x x"
    and transitive: "before x y \<Longrightarrow> before y z \<Longrightarrow> before x z"
    and comparable: "before x z \<Longrightarrow> before x y \<or> before y z"
begin

definition in_order :: "'a list \<Rightarrow> bool" where
  "in_order xs \<longleftrightarrow> sorted_wrt (\<lambda>a b. \<not> before b a) xs"

definition level :: "'a \<Rightarrow> 'a \<Rightarrow> bool" where
  "level x y \<longleftrightarrow> \<not> before x y \<and> \<not> before y x"

lemma asymmetric: "before x y \<Longrightarrow> \<not> before y x"
  using transitive irreflexive by blast

lemma shift_in_order:
  assumes "sorted_wrt (\<lambda>a b. \<not> before a b) rs"
  shows "sorted_wrt (\<lambda>a b. \<not> before a b) (shift_in before k rs)"
  using assms
proof (induction rs)
  case (Cons x rs)
  show ?case
  proof (cases "before k x")
    case True
    then show ?thesis using Cons asymmetric by auto
  next
    case False
    have "\<not> before k y" if "y \<in> set rs" for y
    proof
      assume "before k y"
      then have "before k x \<or> before x y" by (rule comparable)
      then show False using False Cons.prems that by auto
    qed
    then show ?thesis using False Cons.prems by auto
  qed
qed simp

lemma insertion_sort_order: "in_order (insertion_sort before xs)"
proof -
  have "sorted_wrt (\<lambda>a b. \<not> before a b) (foldl (\<lambda>rs k. shift_in before k rs) acc xs)"
    if "sorted_wrt (\<lambda>a b. \<not> before a b) acc" for acc
    using that by (induction xs arbitrary: acc) (simp_all add: shift_in_order)
  then show ?thesis by (simp add: in_order_def insertion_sort_def sorted_wrt_rev)
qed

text \<open>Elements neither of which is less than the other keep their order.\<close>

lemma shift_in_level:
  "sorted_wrt (\<lambda>a b. \<not> before a b) rs \<Longrightarrow>
   filter (level p) (shift_in before k rs) = filter (level p) (k # rs)"
proof (induction rs)
  case (Cons x rs)
  have "\<not> (level p k \<and> level p x)" if "before k x"
    using that comparable unfolding level_def by blast
  then show ?case using Cons by auto
qed simp

lemma insertion_sort_stable: "filter (level p) (insertion_sort before xs) = filter (level p) xs"
proof -
  have "filter (level p) (foldl (\<lambda>rs k. shift_in before k rs) acc xs) = rev (filter (level p) xs) @ filter (level p) acc"
    if "sorted_wrt (\<lambda>a b. \<not> before a b) acc" for acc
    using that by (induction xs arbitrary: acc) (simp_all add: shift_in_order shift_in_level)
  then show ?thesis by (simp add: insertion_sort_def flip: rev_filter)
qed

end

locale keyed_less =
  fixes key :: "'a \<Rightarrow> 'k::linorder" and before :: "'a \<Rightarrow> 'a \<Rightarrow> bool"
  assumes less_key: "before x y \<longleftrightarrow> key x < key y"

sublocale keyed_less \<subseteq> weak_order before
  by unfold_locales (auto simp: less_key)

context keyed_less
begin

lemma in_order_keys: "in_order xs \<longleftrightarrow> sorted (map key xs)"
  by (simp add: in_order_def less_key sorted_map not_less)

lemma sorted_keys: "sorted (map key (insertion_sort before xs))"
  using insertion_sort_order in_order_keys by blast

lemma sort_is_stable_sort: "insertion_sort before xs = sort_key key xs"
proof (rule sym, rule properties_for_sort_key)
  show "mset (insertion_sort before xs) = mset xs" by (rule mset_insertion_sort)
  show "filter (\<lambda>x. key k = key x) (insertion_sort before xs) = filter (\<lambda>x. key k = key x) xs"
    if "k \<in> set (insertion_sort before xs)" for k
  proof -
    have "level k = (\<lambda>x. key k = key x)" by (auto simp: level_def less_key fun_eq_iff)
    then show ?thesis using insertion_sort_stable [of k xs] by simp
  qed
  show "sorted (map key (insertion_sort before xs))" by (rule sorted_keys)
qed

end

end
