(* ===== verification/Fleet_Pack.thy ===== *)
theory Fleet_Pack
  imports Sha256 Zip_Archive Json_Emit Stable_Sort
begin

text \<open>
  \<open>wintune fleet pack\<close> (\<open>src/fleet/fleet_pack.c\<close>): the JSON reports of a folder are hashed, listed in a
  manifest and a checksum file, and bundled in one STORE archive. Folder listing, files, clock and
  the sort of the C library are the record \<open>fleet_os\<close>; the digests come from \<open>Sha256\<close>, the archive is
  written by the operations of \<open>Zip_Store\<close>, the manifest by the writer of \<open>Json_Writer\<close>.
\<close>

definition WT_FLEET_PACK_MAX_FILES :: nat where "WT_FLEET_PACK_MAX_FILES = 512"
definition WT_FLEET_PACK_MAX_BYTES :: nat where "WT_FLEET_PACK_MAX_BYTES = 64 * 1024 * 1024"

record WT_FleetFile =
  ff_full_path :: string
  ff_zip_name :: string
  ff_base_utf8 :: string
  ff_size :: nat
  ff_crc32 :: u32
  ff_sha256 :: "byte list"

record 'h fleet_os =
  fo_zip :: zip_os
  fo_cng :: "'h cng"
  fo_attributes :: "string \<Rightarrow> win_error + bool"      \<comment> \<open>\<open>GetFileAttributesW\<close>: a directory?\<close>
  fo_find :: "string \<Rightarrow> win_error + (string \<times> bool) list"
    \<comment> \<open>\<open>FindFirstFileW\<close> and \<open>FindNextFileW\<close>: names, and whether they are directories\<close>
  fo_open :: "string \<Rightarrow> win_error + byte list"        \<comment> \<open>\<open>CreateFileW\<close> for reading, and the bytes\<close>
  fo_read :: "string \<Rightarrow> nat \<Rightarrow> bool"                  \<comment> \<open>\<open>ReadFile\<close> at an offset succeeds\<close>
  fo_utf8 :: "string \<Rightarrow> string option"               \<comment> \<open>\<open>WideCharToMultiByte\<close> without a limit\<close>
  fo_now :: "string option"
  fo_malloc :: "nat \<Rightarrow> bool"
  fo_tmpfile :: bool                                 \<comment> \<open>the temporary file of the manifest can be used\<close>
  fo_qsort :: "WT_FleetFile list \<Rightarrow> WT_FleetFile list" \<comment> \<open>\<open>qsort\<close> with \<open>wt_fleet_file_cmp\<close>\<close>

section \<open>Names\<close>

definition wt_fleet_is_skipped_name :: "string \<Rightarrow> bool" where
  "wt_fleet_is_skipped_name name \<longleftrightarrow>
     wcsicmp name ''manifest.json'' \<or> wcsicmp name ''CHECKSUMS.sha256'' \<or> wcsicmp name ''SHA256SUMS''"

definition wt_fleet_has_json_ext :: "string \<Rightarrow> bool" where
  "wt_fleet_has_json_ext name \<longleftrightarrow> length name \<ge> 5 \<and> wcsicmp (drop (length name - 5) name) ''.json''"

definition wt_fleet_wide_to_utf8 :: "'h fleet_os \<Rightarrow> string \<Rightarrow> nat \<Rightarrow> WT_Result + string" where
  "wt_fleet_wide_to_utf8 os ws cap =
     (case fo_utf8 os ws of None \<Rightarrow> Inl WT_ERR_WIN32
      | Some b \<Rightarrow> if length b < cap then Inr b else Inl WT_ERR_WIN32)"

fun stricmp :: "string \<Rightarrow> string \<Rightarrow> int" where
  \<comment> \<open>the sign of \<open>_stricmp\<close>\<close>
  "stricmp [] [] = 0"
| "stricmp [] (b # bs) = -1"
| "stricmp (a # as) [] = 1"
| "stricmp (a # as) (b # bs) =
     (if lower a = lower b then stricmp as bs
      else if (of_char (lower a) :: nat) < of_char (lower b) then -1 else 1)"

definition wt_fleet_file_cmp :: "WT_FleetFile \<Rightarrow> WT_FleetFile \<Rightarrow> int" where
  "wt_fleet_file_cmp fa fb = stricmp (ff_base_utf8 fa) (ff_base_utf8 fb)"

section \<open>Hash and checksum of one file\<close>

function fleet_hash_loop ::
  "'h cng \<Rightarrow> (nat \<Rightarrow> bool) \<Rightarrow> byte list \<Rightarrow> nat \<Rightarrow> u32 \<Rightarrow> 'h \<Rightarrow> WT_Result \<times> nat \<times> u32 \<times> 'h" where
  "fleet_hash_loop c rd src got crc h =
     (if \<not> rd got then (WT_ERR_WIN32, got, crc, h)
      else let buf = take 65536 src in
        if buf = [] then (WT_OK, got, crc, h)
        else let got1 = got + length buf in
          if got1 > WT_FLEET_PACK_MAX_BYTES then (WT_ERR_NOT_SUPPORTED, got1, crc, h)
          else let crc1 = wt_crc32_update crc buf in
            (case cng_update c h buf of
               None \<Rightarrow> (WT_ERR_WIN32, got1, crc1, h)
             | Some h1 \<Rightarrow> fleet_hash_loop c rd (drop 65536 src) got1 crc1 h1))"
  by pat_completeness auto
termination
  by (relation "measure (\<lambda>(c, rd, src, got, crc, h). length src)") auto

declare fleet_hash_loop.simps [simp del]

definition wt_fleet_hash_and_crc_file :: "'h fleet_os \<Rightarrow> WT_FleetFile \<Rightarrow> WT_Result \<times> WT_FleetFile" where
  "wt_fleet_hash_and_crc_file os f =
     (case fo_open os (ff_full_path f) of
        Inl e \<Rightarrow> (open_error_result e, f)
      | Inr src \<Rightarrow>
         (case cng_start (fo_cng os) of Inl r \<Rightarrow> (r, f)
          | Inr h \<Rightarrow>
             (case fleet_hash_loop (fo_cng os) (fo_read os (ff_full_path f)) src 0 0xffffffff h of
                (r, got, crc, h1) \<Rightarrow>
                  if r \<noteq> WT_OK then (r, f)
                  else (case cng_finish (fo_cng os) h1 of
                          None \<Rightarrow> (WT_ERR_WIN32, f)
                        | Some dig \<Rightarrow>
                            (WT_OK, f\<lparr>ff_size := got, ff_crc32 := crc XOR 0xffffffff, ff_sha256 := dig\<rparr>)))))"

section \<open>Collecting\<close>

fun fleet_collect_loop ::
  "'h fleet_os \<Rightarrow> string \<Rightarrow> (string \<times> bool) list \<Rightarrow> nat \<Rightarrow> WT_FleetFile list \<Rightarrow> WT_Result + WT_FleetFile list" where
  \<comment> \<open>the loop over the listing; \<open>cap\<close> is the capacity of the array, \<open>files\<close> what it holds\<close>
  "fleet_collect_loop os dir [] cap files = Inr files"
| "fleet_collect_loop os dir ((name, is_dir) # es) cap files =
     (if is_dir then fleet_collect_loop os dir es cap files
      else if \<not> wt_fleet_has_json_ext name then fleet_collect_loop os dir es cap files
      else if wt_fleet_is_skipped_name name then fleet_collect_loop os dir es cap files
      else if length files \<ge> WT_FLEET_PACK_MAX_FILES then Inl WT_ERR_NOT_SUPPORTED
      else
        let ncap = (if length files = cap then (if cap = 0 then 16 else cap * 2) else cap);
            path = dir @ bsl ''/'' @ name in
        if length files = cap \<and> \<not> os_alloc (fo_zip os) ncap then Inl WT_ERR_OUT_OF_MEMORY
        else if \<not> cch_fits 260 path then Inl WT_ERR_INVALID_ARGUMENT
        else (case wt_fleet_wide_to_utf8 os name 260 of
           Inl r \<Rightarrow> Inl r
         | Inr base \<Rightarrow>
            if \<not> cch_fits 280 (''reports/'' @ base) then Inl WT_ERR_INVALID_ARGUMENT
            else (case wt_fleet_hash_and_crc_file os
                    \<lparr>ff_full_path = path, ff_zip_name = ''reports/'' @ base, ff_base_utf8 = base,
                     ff_size = 0, ff_crc32 = 0, ff_sha256 = replicate 32 0\<rparr> of
                (r, f) \<Rightarrow>
                  if r \<noteq> WT_OK then Inl r
                  else if ff_size f > 0xffffffff then Inl WT_ERR_NOT_SUPPORTED
                  else fleet_collect_loop os dir es ncap (files @ [f]))))"

definition wt_fleet_collect :: "'h fleet_os \<Rightarrow> string \<Rightarrow> WT_Result + WT_FleetFile list" where
  "wt_fleet_collect os dir =
     (if \<not> cch_fits 260 (dir @ bsl ''/*'') then Inl WT_ERR_INVALID_ARGUMENT
      else (case fo_find os (dir @ bsl ''/*'') of
              Inl ERROR_FILE_NOT_FOUND \<Rightarrow> Inr []
            | Inl ERROR_PATH_NOT_FOUND \<Rightarrow> Inl WT_ERR_NOT_FOUND
            | Inl ERROR_ACCESS_DENIED \<Rightarrow> Inl WT_ERR_ACCESS_DENIED
            | Inl ERROR_OTHER \<Rightarrow> Inl WT_ERR_WIN32
            | Inr es \<Rightarrow>
                (case fleet_collect_loop os dir es 0 [] of
                   Inl r \<Rightarrow> Inl r
                 | Inr files \<Rightarrow> Inr (if length files > 1 then fo_qsort os files else files))))"

section \<open>Checksums and manifest\<close>

definition fleet_checksum_line :: "WT_FleetFile \<Rightarrow> string" where
  "fleet_checksum_line f = wt_sha256_hex (Some (ff_sha256 f)) @ ''  '' @ ff_zip_name f @ [CHR 0x0A]"

fun fleet_checksum_loop :: "'h fleet_os \<Rightarrow> WT_FleetFile list \<Rightarrow> nat \<Rightarrow> string \<Rightarrow> string option" where
  \<comment> \<open>\<open>cap\<close> is the size of the buffer, which is doubled when a line does not fit\<close>
  "fleet_checksum_loop os [] cap acc = Some acc"
| "fleet_checksum_loop os (f # fs) cap acc =
     (let line = fleet_checksum_line f in
      if \<not> cch_fits 360 line then None
      else if length acc + length line + 1 > cap then
        (let ncap = cap * 2 + length line in
         if \<not> fo_malloc os ncap then None else fleet_checksum_loop os fs ncap (acc @ line))
      else fleet_checksum_loop os fs cap (acc @ line))"

definition wt_fleet_build_checksums :: "'h fleet_os \<Rightarrow> WT_FleetFile list \<Rightarrow> string option" where
  "wt_fleet_build_checksums os files =
     (let cap = length files * 96 + 64 in
      if \<not> fo_malloc os cap then None else fleet_checksum_loop os files cap [])"

definition fleet_manifest_ops :: "WT_FleetFile list \<Rightarrow> string \<Rightarrow> json_op list" where
  "fleet_manifest_ops files created_utc =
     [Begin_Object] @
     jfld ''schema_version'' [Str ''1.0''] @
     jfld ''kind'' [Str ''wintune_fleet_pack''] @
     jfld ''tool'' [Str ''wintune''] @
     jfld ''tool_version'' [Str WT_VERSION_STRING] @
     jfld ''created_utc'' [Str created_utc] @
     jfld ''local_only'' [Bool True] @
     jfld ''upload'' [Bool False] @
     jfld ''file_count'' [UInt (of_nat (length files))] @
     jfld ''files'' (
       [Begin_Array] @
       concat (map (\<lambda>f.
         [Begin_Object] @
         jfld ''name'' [Str (ff_zip_name f)] @
         jfld ''size_bytes'' [UInt (of_nat (ff_size f))] @
         jfld ''sha256'' [Str (wt_sha256_hex (Some (ff_sha256 f)))] @
         [End_Object]) files) @
       [End_Array]) @
     [End_Object]"

definition wt_fleet_build_manifest :: "'h fleet_os \<Rightarrow> json_globals \<Rightarrow> WT_FleetFile list \<Rightarrow> string \<Rightarrow> string option" where
  "wt_fleet_build_manifest os g files created_utc =
     (if \<not> fo_tmpfile os then None
      else let text_out = jw_out (wt_json_finish (json_run (fleet_manifest_ops files created_utc)
                            (wt_json_set_compact False (wt_json_init g []))))
           in if fo_malloc os (length text_out + 1) then Some text_out else None)"

section \<open>The pack\<close>

record fleet_result =
  fr_count :: nat
  fr_zip_hex :: string
  fr_status :: string      \<comment> \<open>what was printed to \<open>status_out\<close>\<close>

definition fleet_ops :: "string \<Rightarrow> string \<Rightarrow> WT_FleetFile list \<Rightarrow> zip_op list" where
  \<comment> \<open>the calls of \<open>wt_zip_add_bytes\<close> and \<open>wt_zip_add_path\<close>, in their order\<close>
  "fleet_ops manifest checksums files =
     [Add_Bytes ''manifest.json'' (str_bytes manifest), Add_Bytes ''CHECKSUMS.sha256'' (str_bytes checksums)] @
     map (\<lambda>f. Add_Path (ff_zip_name f) (ff_full_path f) (ff_crc32 f) (of_nat (ff_size f))) files"

definition fleet_status_text :: "string \<Rightarrow> string \<Rightarrow> nat \<Rightarrow> string \<Rightarrow> string" where
  "fleet_status_text dir target reports hex =
     (let nl = [CHR 0x0A] in
      ''WinTune fleet pack'' @ nl @ ''  Input:   '' @ dir @ nl @ ''  Output:  '' @ target @ nl @
      ''  Reports: '' @ dec reports @ '' JSON file(s)'' @ nl @ ''  Local only (no upload)'' @ nl @
      (if hex \<noteq> [] then ''  ZIP SHA-256: '' @ hex @ nl else []) @
      ''  Contents: manifest.json, CHECKSUMS.sha256, reports/*'' @ nl)"

definition written_file :: "WT_ZipWriter \<Rightarrow> string \<Rightarrow> win_error + byte list" where
  \<comment> \<open>the file system after the pack, as \<open>wt_sha256_file\<close> finds it\<close>
  "written_file z p = (case zw_fs z p of None \<Rightarrow> Inl ERROR_FILE_NOT_FOUND | Some bs \<Rightarrow> Inr bs)"

definition wt_fleet_pack ::
  "'h fleet_os \<Rightarrow> json_globals \<Rightarrow> WT_ZipWriter \<Rightarrow> string option \<Rightarrow> string option \<Rightarrow>
   WT_Result \<times> WT_ZipWriter \<times> fleet_result" where
  "wt_fleet_pack os g z input_dir output_zip =
     (let none = \<lparr>fr_count = 0, fr_zip_hex = [], fr_status = []\<rparr> in
      case (input_dir, output_zip) of
        (Some dir, Some target) \<Rightarrow>
          if dir = [] \<or> target = [] then (WT_ERR_INVALID_ARGUMENT, z, none)
          else (case fo_attributes os dir of
             Inl e \<Rightarrow> (open_error_result e, z, none)
           | Inr is_dir \<Rightarrow>
              if \<not> is_dir then (WT_ERR_INVALID_ARGUMENT, z, none)
              else (case wt_fleet_collect os dir of
                 Inl r \<Rightarrow> (r, z, none)
               | Inr files \<Rightarrow>
                  if files = [] then (WT_ERR_NOT_FOUND, z, none)
                  else
                    let created = (case fo_now os of None \<Rightarrow> [] | Some t \<Rightarrow> t) in
                    (case (wt_fleet_build_checksums os files, wt_fleet_build_manifest os g files created) of
                       (Some checksums, Some manifest) \<Rightarrow>
                         (case zip_create (fo_zip os) z target (fleet_ops manifest checksums files) of
                            (r, z1) \<Rightarrow>
                              if r \<noteq> WT_OK then (r, z1, none)
                              else
                                let hex = (case wt_sha256_file (fo_cng os) (written_file z1) (fo_read os) (Some target) of
                                             (r2, dig) \<Rightarrow> if r2 = WT_OK then wt_sha256_hex dig else [])
                                in (WT_OK, z1, \<lparr>fr_count = length files, fr_zip_hex = hex,
                                      fr_status = fleet_status_text dir target (length files) hex\<rparr>))
                     | _ \<Rightarrow> (WT_ERR_OUT_OF_MEMORY, z, none))))
      | _ \<Rightarrow> (WT_ERR_INVALID_ARGUMENT, z, none))"

end
