(* ===== verification/Fleet_Theorems.thy ===== *)
theory Fleet_Theorems
  imports Fleet_Pack Json_Reader
begin

text \<open>
  What a fleet pack contains: under a file system that lets every call through, exactly the JSON
  reports of the folder, each under its name with its bytes, a manifest and a checksum file whose
  sizes and digests are those of the bytes in the archive. A pack that fails leaves no archive.
\<close>

section \<open>The reports of a folder\<close>

definition pack_names :: "(string \<times> bool) list \<Rightarrow> string list" where
  "pack_names es = map fst (filter (\<lambda>(n, is_dir). \<not> is_dir \<and> wt_fleet_has_json_ext n \<and> \<not> wt_fleet_is_skipped_name n) es)"

definition report_path :: "string \<Rightarrow> string \<Rightarrow> string" where
  "report_path dir n = dir @ bsl ''/'' @ n"

definition report_body :: "'h fleet_os \<Rightarrow> string \<Rightarrow> string \<Rightarrow> byte list" where
  "report_body os dir n = (case fo_open os (report_path dir n) of Inl _ \<Rightarrow> [] | Inr b \<Rightarrow> b)"

definition report_base :: "'h fleet_os \<Rightarrow> string \<Rightarrow> string" where
  "report_base os n = (case fo_utf8 os n of None \<Rightarrow> [] | Some b \<Rightarrow> b)"

definition packable :: "'h fleet_os \<Rightarrow> string \<Rightarrow> string \<Rightarrow> bool" where
  \<comment> \<open>readable, at most 64 MiB, and its names fit the buffers and the archive\<close>
  "packable os dir n \<longleftrightarrow>
     (case fo_open os (report_path dir n) of Inl _ \<Rightarrow> False | Inr b \<Rightarrow> length b \<le> WT_FLEET_PACK_MAX_BYTES) \<and>
     (case fo_utf8 os n of None \<Rightarrow> False | Some b \<Rightarrow> length b < 252) \<and> length (report_path dir n) < 260"

definition report_file :: "'h fleet_os \<Rightarrow> (byte list \<Rightarrow> byte list) \<Rightarrow> string \<Rightarrow> string \<Rightarrow> WT_FleetFile" where
  "report_file os sha dir n =
     \<lparr>ff_full_path = report_path dir n, ff_zip_name = ''reports/'' @ report_base os n,
      ff_base_utf8 = report_base os n, ff_size = length (report_body os dir n),
      ff_crc32 = wt_crc32_bytes (report_body os dir n), ff_sha256 = sha (report_body os dir n)\<rparr>"

definition packed_files :: "'h fleet_os \<Rightarrow> (byte list \<Rightarrow> byte list) \<Rightarrow> string \<Rightarrow> (string \<times> bool) list \<Rightarrow> WT_FleetFile list" where
  "packed_files os sha dir es =
     (let fs = map (report_file os sha dir) (pack_names es) in if length fs > 1 then fo_qsort os fs else fs)"

definition fleet_ok :: "'h fleet_os \<Rightarrow> ('h \<Rightarrow> byte list) \<Rightarrow> (byte list \<Rightarrow> byte list) \<Rightarrow> bool" where
  \<comment> \<open>no call fails, the C library sorts by permuting, a file has the same bytes when it is read again\<close>
  "fleet_ok os fed sha \<longleftrightarrow>
     zip_os_ok (fo_zip os) \<and> cng_ok (fo_cng os) fed sha \<and> fo_read os = (\<lambda>_ _. True) \<and>
     fo_malloc os = (\<lambda>_. True) \<and> fo_tmpfile os \<and> (\<forall>fs. mset (fo_qsort os fs) = mset fs) \<and>
     (\<forall>p. case fo_open os p of Inl _ \<Rightarrow> True | Inr b \<Rightarrow> os_read (fo_zip os) p = Some b)"

section \<open>Hashing and collecting\<close>

lemma fleet_hash_loop_ok:
  "cng_ok c fed sha \<Longrightarrow> rd = (\<lambda>_. True) \<Longrightarrow> got + length src \<le> WT_FLEET_PACK_MAX_BYTES \<Longrightarrow>
   \<exists>h1. fleet_hash_loop c rd src got crc h = (WT_OK, got + length src, wt_crc32_update crc src, h1) \<and>
        fed h1 = fed h @ src"
proof (induction c rd src got crc h rule: fleet_hash_loop.induct)
  case (1 c rd src got crc h)
  show ?case
  proof (cases "src = []")
    case True
    then show ?thesis using 1(3) by (simp add: fleet_hash_loop.simps)
  next
    case False
    let ?b = "take 65536 src"
    obtain h' where h': "cng_update c h ?b = Some h'" "fed h' = fed h @ ?b"
      using cng_updateE [OF 1(2)] by blast
    have fits: "\<not> got + length ?b > WT_FLEET_PACK_MAX_BYTES" using 1(4) by simp
    have "got + length ?b + length (drop 65536 src) \<le> WT_FLEET_PACK_MAX_BYTES" using 1(4) by simp
    then have "\<exists>h1. fleet_hash_loop c rd (drop 65536 src) (got + length ?b) (wt_crc32_update crc ?b) h' =
        (WT_OK, got + length ?b + length (drop 65536 src), wt_crc32_update (wt_crc32_update crc ?b) (drop 65536 src), h1) \<and>
        fed h1 = fed h' @ drop 65536 src"
      using 1(1) [OF _ refl _ refl fits refl h'(1) 1(2,3)] 1(3) False by simp
    moreover have "wt_crc32_update (wt_crc32_update crc ?b) (drop 65536 src) = wt_crc32_update crc src"
      by (simp flip: wt_crc32_update_append)
    moreover have "fed h' @ drop 65536 src = fed h @ src" using h'(2) by simp
    moreover have "got + length ?b + length (drop 65536 src) = got + length src" by simp
    moreover have "fleet_hash_loop c rd src got crc h =
        fleet_hash_loop c rd (drop 65536 src) (got + length ?b) (wt_crc32_update crc ?b) h'"
      using 1(3) False fits h'(1) by (subst fleet_hash_loop.simps) (simp add: Let_def)
    ultimately show ?thesis by metis
  qed
qed

lemma hash_file_ok:
  assumes "fleet_ok os fed sha" "fo_open os (ff_full_path f) = Inr b" "length b \<le> WT_FLEET_PACK_MAX_BYTES"
  shows "wt_fleet_hash_and_crc_file os f =
    (WT_OK, f\<lparr>ff_size := length b, ff_crc32 := wt_crc32_bytes b, ff_sha256 := sha b\<rparr>)"
proof -
  have c: "cng_ok (fo_cng os) fed sha" and rd: "fo_read os p = (\<lambda>_. True)" for p
    using assms(1) by (simp_all add: fleet_ok_def)
  obtain h where h: "cng_start (fo_cng os) = Inr h" "fed h = []" using cng_start_ok [OF c] by blast
  obtain h1 where "fleet_hash_loop (fo_cng os) (fo_read os (ff_full_path f)) b 0 0xffffffff h =
      (WT_OK, length b, wt_crc32_update 0xffffffff b, h1)" "fed h1 = b"
    using fleet_hash_loop_ok [OF c rd, of 0 b "ff_full_path f" "0xffffffff" h] assms(3) h(2) by auto
  then show ?thesis using assms(2) h(1) cng_finish_ok [OF c]
    by (simp add: wt_fleet_hash_and_crc_file_def wt_crc32_bytes_def)
qed

lemma packableE:
  assumes "packable os dir n"
  shows "fo_open os (report_path dir n) = Inr (report_body os dir n)"
    "length (report_body os dir n) \<le> WT_FLEET_PACK_MAX_BYTES"
    "fo_utf8 os n = Some (report_base os n)" "length (report_base os n) < 252"
    "length (report_path dir n) < 260"
  using assms by (auto simp: packable_def report_body_def report_base_def split: sum.splits option.splits)

lemma collect_loop_ok:
  assumes env: "fleet_ok os fed sha"
  shows "list_all (packable os dir) (pack_names es) \<Longrightarrow> length files + length (pack_names es) \<le> WT_FLEET_PACK_MAX_FILES \<Longrightarrow>
    fleet_collect_loop os dir es cap files = Inr (files @ map (report_file os sha dir) (pack_names es))"
proof (induction es arbitrary: cap files)
  case Nil
  then show ?case by (simp add: pack_names_def)
next
  case (Cons e es)
  obtain n d where e: "e = (n, d)" by (cases e)
  show ?case
  proof (cases "d \<or> \<not> wt_fleet_has_json_ext n \<or> wt_fleet_is_skipped_name n")
    case True
    then have "pack_names (e # es) = pack_names es" by (auto simp: pack_names_def e)
    then show ?thesis using True Cons by (auto simp: e)
  next
    case False
    then have names: "pack_names (e # es) = n # pack_names es" by (simp add: pack_names_def e)
    have p: "packable os dir n" using Cons.prems(1) names by simp
    note f = packableE [OF p]
    have os: "os_alloc (fo_zip os) k" for k using env by (simp add: fleet_ok_def zip_os_ok_def)
    have utf8: "wt_fleet_wide_to_utf8 os n 260 = Inr (report_base os n)"
      using f(3,4) by (simp add: wt_fleet_wide_to_utf8_def)
    have hash: "wt_fleet_hash_and_crc_file os
        \<lparr>ff_full_path = report_path dir n, ff_zip_name = ''reports/'' @ report_base os n,
         ff_base_utf8 = report_base os n, ff_size = 0, ff_crc32 = 0, ff_sha256 = replicate 32 0\<rparr>
        = (WT_OK, report_file os sha dir n)"
      using hash_file_ok [OF env, of "\<lparr>ff_full_path = report_path dir n, ff_zip_name = ''reports/'' @ report_base os n,
         ff_base_utf8 = report_base os n, ff_size = 0, ff_crc32 = 0, ff_sha256 = replicate 32 0\<rparr>"] f(1,2)
      by (simp add: report_file_def)
    have size: "\<not> ff_size (report_file os sha dir n) > 0xffffffff" and room: "\<not> length files \<ge> WT_FLEET_PACK_MAX_FILES"
      using f(2) Cons.prems(2) names by (simp_all add: report_file_def WT_FLEET_PACK_MAX_BYTES_def)
    have "fleet_collect_loop os dir (e # es) cap files = fleet_collect_loop os dir es
        (if length files = cap then (if cap = 0 then 16 else cap * 2) else cap) (files @ [report_file os sha dir n])"
      using False room os utf8 hash size f(4,5)
      by (simp add: e Let_def cch_fits_def report_path_def)
    then show ?thesis using Cons names by simp
  qed
qed

lemma collect_ok:
  assumes "fleet_ok os fed sha" "cch_fits 260 (dir @ bsl ''/*'')" "fo_find os (dir @ bsl ''/*'') = Inr es"
    and "list_all (packable os dir) (pack_names es)" "length (pack_names es) \<le> WT_FLEET_PACK_MAX_FILES"
  shows "wt_fleet_collect os dir = Inr (packed_files os sha dir es)"
  using assms(2,3) collect_loop_ok [OF assms(1), of dir es "[]" 0] assms(4,5)
  by (simp add: wt_fleet_collect_def packed_files_def Let_def)

lemma packed_files_mset:
  assumes "fleet_ok os fed sha"
  shows "mset (packed_files os sha dir es) = mset (map (report_file os sha dir) (pack_names es))"
  using assms by (simp add: packed_files_def Let_def fleet_ok_def)

section \<open>Checksums and manifest\<close>

definition checksum_text :: "(byte list \<Rightarrow> byte list) \<Rightarrow> (string \<times> byte list) list \<Rightarrow> string" where
  \<comment> \<open>one line per archive member, in the format of \<open>sha256sum\<close>\<close>
  "checksum_text sha ms = concat (map (\<lambda>(n, b). wt_sha256_hex (Some (sha b)) @ ''  '' @ n @ [CHR 0x0A]) ms)"

definition manifest_doc :: "(byte list \<Rightarrow> byte list) \<Rightarrow> string \<Rightarrow> (string \<times> byte list) list \<Rightarrow> json_value" where
  "manifest_doc sha created ms =
     JObj [(''schema_version'', JStr ''1.0''), (''kind'', JStr ''wintune_fleet_pack''), (''tool'', JStr ''wintune''),
       (''tool_version'', JStr WT_VERSION_STRING), (''created_utc'', JStr created), (''local_only'', JBool True),
       (''upload'', JBool False), (''file_count'', JUInt (of_nat (length ms))),
       (''files'', JArr (map (\<lambda>(n, b). JObj [(''name'', JStr n), (''size_bytes'', JUInt (of_nat (length b))),
          (''sha256'', JStr (wt_sha256_hex (Some (sha b))))]) ms))]"

definition pack_members :: "'h fleet_os \<Rightarrow> string \<Rightarrow> string list \<Rightarrow> (string \<times> byte list) list" where
  "pack_members os dir ns = map (\<lambda>n. (''reports/'' @ report_base os n, report_body os dir n)) ns"

lemma checksum_loop_ok:
  "fo_malloc os = (\<lambda>_. True) \<Longrightarrow> list_all (\<lambda>f. length (ff_zip_name f) < 280) fs \<Longrightarrow>
   fleet_checksum_loop os fs cap acc = Some (acc @ concat (map fleet_checksum_line fs))"
  by (induction os fs cap acc rule: fleet_checksum_loop.induct)
     (auto simp: Let_def cch_fits_def fleet_checksum_line_def length_hex)

lemma manifest_ops_doc:
  "fleet_manifest_ops (map (report_file os sha dir) ns) created
    = ops_of (manifest_doc sha created (pack_members os dir ns))"
proof -
  have elems: "concat (map (\<lambda>f. [Begin_Object] @ jfld ''name'' [Str (ff_zip_name f)] @
         jfld ''size_bytes'' [UInt (of_nat (ff_size f))] @
         jfld ''sha256'' [Str (wt_sha256_hex (Some (ff_sha256 f)))] @ [End_Object]) (map (report_file os sha dir) ns))
      = ops_elems (map (\<lambda>(n, b). JObj [(''name'', JStr n), (''size_bytes'', JUInt (of_nat (length b))),
          (''sha256'', JStr (wt_sha256_hex (Some (sha b))))]) (pack_members os dir ns))"
    by (induction ns) (simp_all add: pack_members_def report_file_def jfld_def)
  show ?thesis unfolding fleet_manifest_ops_def elems
    by (simp add: manifest_doc_def jfld_def pack_members_def)
qed

lemma manifest_height: "height (manifest_doc sha created ms) \<le> 3"
proof -
  have "height_elems (map (\<lambda>(n, b). JObj [(''name'', JStr n), (''size_bytes'', JUInt (of_nat (length b))),
          (''sha256'', JStr (wt_sha256_hex (Some (sha b))))]) ms) \<le> 1"
    by (induction ms) auto
  then show ?thesis by (simp add: manifest_doc_def)
qed

lemma as_read_manifest: "as_read (manifest_doc sha created ms) = manifest_doc sha created ms"
  by (auto simp: manifest_doc_def)

definition plain_globals :: "json_globals \<Rightarrow> json_globals" where
  "plain_globals g = g\<lparr>g_json_compact := False\<rparr>"

lemma set_compact_init: "wt_json_set_compact False (wt_json_init g out) = wt_json_init (plain_globals g) out"
  by (simp add: wt_json_set_compact_def wt_json_init_def plain_globals_def)

definition manifest_text :: "(byte list \<Rightarrow> byte list) \<Rightarrow> string \<Rightarrow> (string \<times> byte list) list \<Rightarrow> string" where
  "manifest_text sha created ms = render False 0 (manifest_doc sha created ms) @ [CHR 0x0A]"

lemma manifest_built:
  assumes "fo_tmpfile os" "fo_malloc os = (\<lambda>_. True)" "fleet_manifest_ops files created = ops_of (manifest_doc sha created ms)"
  shows "wt_fleet_build_manifest os g files created = Some (manifest_text sha created ms)"
proof -
  have "height (manifest_doc sha created ms) \<le> WT_JSON_MAX_DEPTH"
    using manifest_height [of sha created ms] by (simp add: WT_JSON_MAX_DEPTH_def)
  from run_document [OF this, of "plain_globals g" "[]"] show ?thesis
    using assms by (simp add: wt_fleet_build_manifest_def set_compact_init manifest_text_def plain_globals_def)
qed

lemma manifest_reads: "read_document (manifest_text sha created ms) = Some (manifest_doc sha created ms)"
  unfolding manifest_text_def
  by (subst read_rendered_document) (simp_all add: as_read_manifest blank_def is_space_def)

section \<open>The archive\<close>

definition pack_created :: "'h fleet_os \<Rightarrow> string" where
  "pack_created os = (case fo_now os of None \<Rightarrow> [] | Some t \<Rightarrow> t)"

definition file_members :: "'h fleet_os \<Rightarrow> WT_FleetFile list \<Rightarrow> (string \<times> byte list) list" where
  "file_members os files = map (\<lambda>f. (ff_zip_name f, the (os_read (fo_zip os) (ff_full_path f)))) files"

definition pack_ops :: "'h fleet_os \<Rightarrow> (byte list \<Rightarrow> byte list) \<Rightarrow> WT_FleetFile list \<Rightarrow> zip_op list" where
  "pack_ops os sha files =
     (let ms = file_members os files
      in fleet_ops (manifest_text sha (pack_created os) ms) (checksum_text sha ms) files)"

lemma map_of_mset: "mset ys = image_mset f M \<Longrightarrow> \<exists>zs. mset zs = M \<and> ys = map f zs"
proof (induction ys arbitrary: M)
  case Nil
  then show ?case by simp
next
  case (Cons y ys)
  then have "image_mset f M = add_mset y (mset ys)" by simp
  then obtain M1 a where M: "M = add_mset a M1" "f a = y" "image_mset f M1 = mset ys"
    using msed_map_invR by metis
  then obtain zs where "mset zs = M1" "ys = map f zs" using Cons.IH [of M1] by auto
  then show ?case using M by (intro exI [of _ "a # zs"]) simp
qed

lemma packed_permutation:
  assumes "fleet_ok os fed sha"
  obtains ns where "packed_files os sha dir es = map (report_file os sha dir) ns" "mset ns = mset (pack_names es)"
  using map_of_mset [of "packed_files os sha dir es" "report_file os sha dir" "mset (pack_names es)"]
    packed_files_mset [OF assms, of dir es] by auto

lemma archived_body:
  assumes "fleet_ok os fed sha" "packable os dir n"
  shows "os_read (fo_zip os) (report_path dir n) = Some (report_body os dir n)"
proof -
  have "case fo_open os (report_path dir n) of Inl _ \<Rightarrow> True
      | Inr b \<Rightarrow> os_read (fo_zip os) (report_path dir n) = Some b"
    using assms(1) by (simp add: fleet_ok_def)
  then show ?thesis using packableE(1) [OF assms(2)] by simp
qed

lemma file_members_map:
  assumes "fleet_ok os fed sha" "list_all (packable os dir) ns"
  shows "file_members os (map (report_file os sha dir) ns) = pack_members os dir ns"
  using assms(2) archived_body [OF assms(1)]
  by (simp add: file_members_def pack_members_def report_file_def list_all_iff)

lemma archive_bytes_member:
  assumes "op \<in> set ops" "op_member os op = Some (n, crc, body)"
  shows "length body \<le> archive_bytes os ops"
proof -
  have "length (local_rec (n, crc, body)) \<le> length (locals (map (the \<circ> op_member os) ops))"
    using assms by (induction ops) (auto simp: locals_def)
  then show ?thesis by (simp add: archive_bytes_def)
qed

lemma fleet_ops_ok:
  assumes env: "fleet_ok os fed sha" and ns: "list_all (packable os dir) ns"
    and small: "archive_bytes (fo_zip os) (fleet_ops m c (map (report_file os sha dir) ns)) < 2 ^ 32"
  shows "list_all (op_ok (fo_zip os)) (fleet_ops m c (map (report_file os sha dir) ns))"
    "map (\<lambda>op. case the (op_member (fo_zip os) op) of (name, crc, body) \<Rightarrow> (str_bytes name, body))
       (fleet_ops m c (map (report_file os sha dir) ns))
     = map (\<lambda>(n, b). (str_bytes n, b))
        ((''manifest.json'', str_bytes m) # (''CHECKSUMS.sha256'', str_bytes c) # pack_members os dir ns)"
proof -
  let ?ops = "fleet_ops m c (map (report_file os sha dir) ns)"
  have rep: "op_member (fo_zip os) (Add_Path (ff_zip_name f) (ff_full_path f) (ff_crc32 f) (of_nat (ff_size f)))
      = Some (''reports/'' @ report_base os n, wt_crc32_bytes (report_body os dir n), report_body os dir n)
      \<and> length (report_base os n) < 252 \<and> length (report_body os dir n) < 2 ^ 32"
    if "n \<in> set ns" "f = report_file os sha dir n" for n f
  proof -
    have p: "packable os dir n" using ns that(1) by (simp add: list_all_iff)
    have "length (report_body os dir n) < 2 ^ 32"
      using packableE(2) [OF p] by (simp add: WT_FLEET_PACK_MAX_BYTES_def)
    then show ?thesis using that(2) packableE(4) [OF p] archived_body [OF env p]
      by (simp add: report_file_def unat_of_nat)
  qed
  have "length (str_bytes m) < 2 ^ 32" "length (str_bytes c) < 2 ^ 32"
    using archive_bytes_member [of "Add_Bytes ''manifest.json'' (str_bytes m)" ?ops "fo_zip os"]
      archive_bytes_member [of "Add_Bytes ''CHECKSUMS.sha256'' (str_bytes c)" ?ops "fo_zip os"] small
    by (simp_all add: fleet_ops_def)
  then show "list_all (op_ok (fo_zip os)) ?ops"
    using rep by (auto simp: fleet_ops_def op_ok_def list_all_iff)
  show "map (\<lambda>op. case the (op_member (fo_zip os) op) of (name, crc, body) \<Rightarrow> (str_bytes name, body)) ?ops
     = map (\<lambda>(n, b). (str_bytes n, b))
        ((''manifest.json'', str_bytes m) # (''CHECKSUMS.sha256'', str_bytes c) # pack_members os dir ns)"
    using rep by (simp add: fleet_ops_def pack_members_def)
qed

lemma checksums_of_members:
  "concat (map fleet_checksum_line (map (report_file os sha dir) ns)) = checksum_text sha (pack_members os dir ns)"
  by (induction ns) (simp_all add: checksum_text_def pack_members_def fleet_checksum_line_def report_file_def)

lemma checksums_built:
  assumes "fleet_ok os fed sha" "list_all (packable os dir) ns"
  shows "wt_fleet_build_checksums os (map (report_file os sha dir) ns) = Some (checksum_text sha (pack_members os dir ns))"
proof -
  have m: "fo_malloc os = (\<lambda>_. True)" using assms(1) by (simp add: fleet_ok_def)
  have "list_all (\<lambda>f. length (ff_zip_name f) < 280) (map (report_file os sha dir) ns)"
    using assms(2) packableE(4) by (fastforce simp: list_all_iff report_file_def)
  from checksum_loop_ok [OF m this] show ?thesis
    unfolding checksums_of_members by (simp add: wt_fleet_build_checksums_def m Let_def)
qed

lemma pattern_fits:
  assumes "pack_names es \<noteq> []" "list_all (packable os dir) (pack_names es)"
  shows "cch_fits 260 (dir @ bsl ''/*'')"
proof -
  obtain n ns where n: "pack_names es = n # ns" using assms(1) by (cases "pack_names es") auto
  have "n \<in> set (pack_names es)" using n by simp
  then have "length n \<ge> 5" by (auto simp: pack_names_def wt_fleet_has_json_ext_def)
  moreover have "length (report_path dir n) < 260" using assms(2) n packableE(5) [of os dir n] by simp
  ultimately show ?thesis by (simp add: report_path_def cch_fits_def)
qed

lemma zip_digest:
  assumes "fleet_ok os fed sha" "zw_fs z target = Some bs"
  shows "wt_sha256_file (fo_cng os) (written_file z) (fo_read os) (Some target) = (WT_OK, Some (sha bs))"
  using sha256_file_ok [of "fo_cng os" fed sha "written_file z" target bs "fo_read os"] assms
  by (simp add: fleet_ok_def written_file_def)

text \<open>C36. A fleet pack is what it says: when no call fails, for 1 to 512 readable reports of at most
  64 MiB and an archive below 4 GiB, packing succeeds; the archive reads back as the manifest, the
  checksum file and exactly the JSON reports of the folder (neither folders, other files nor old
  manifests) with their bytes; the manifest is JSON that lists, and the checksum file lists, for every
  stored report its name, its size and the SHA-256 of the bytes in the archive; and the digest
  reported for the archive is that of the file on disk.\<close>

theorem fleet_pack_archive:
  assumes env: "fleet_ok os fed sha" and dir: "dir \<noteq> []" "fo_attributes os dir = Inr True"
    and es: "fo_find os (dir @ bsl ''/*'') = Inr es"
    and ns: "pack_names es \<noteq> []" "length (pack_names es) \<le> WT_FLEET_PACK_MAX_FILES" "list_all (packable os dir) (pack_names es)"
    and target: "target \<noteq> []" "os_create (fo_zip os) target = None"
    and small: "archive_bytes (fo_zip os) (pack_ops os sha (packed_files os sha dir es)) < 2 ^ 32"
  shows "\<exists>z' bs ms m c st.
    wt_fleet_pack os g z (Some dir) (Some target) =
      (WT_OK, z', \<lparr>fr_count = length ms, fr_zip_hex = wt_sha256_hex (Some (sha bs)), fr_status = st\<rparr>) \<and>
    zw_fs z' target = Some bs \<and>
    unzip bs = Some (map (\<lambda>(n, b). (str_bytes n, b))
      ((''manifest.json'', str_bytes m) # (''CHECKSUMS.sha256'', str_bytes c) # ms)) \<and>
    mset ms = mset (pack_members os dir (pack_names es)) \<and>
    read_document m = Some (manifest_doc sha (pack_created os) ms) \<and> c = checksum_text sha ms"
proof -
  obtain ps where ps: "packed_files os sha dir es = map (report_file os sha dir) ps" "mset ps = mset (pack_names es)"
    using packed_permutation [OF env] .
  have ok: "list_all (packable os dir) ps"
    using ns(3) ps(2) by (metis list_all_iff mset_eq_setD)
  have len: "length ps = length (pack_names es)" "ps \<noteq> []" using ps(2) ns(1) by (metis size_mset, force)
  let ?ms = "pack_members os dir ps"
  let ?m = "manifest_text sha (pack_created os) ?ms"
  let ?c = "checksum_text sha ?ms"
  let ?ops = "fleet_ops ?m ?c (map (report_file os sha dir) ps)"
  have small': "archive_bytes (fo_zip os) ?ops < 2 ^ 32"
    using small by (simp only: ps(1) pack_ops_def Let_def file_members_map [OF env ok])
  note ops = fleet_ops_ok [OF env ok small']
  have "zip_os_ok (fo_zip os)" using env by (simp add: fleet_ok_def)
  moreover have "length ?ops \<le> 0xffff" using ns(2) len(1) by (simp add: fleet_ops_def WT_FLEET_PACK_MAX_FILES_def)
  ultimately obtain z' bs where z': "zip_create (fo_zip os) z target ?ops = (WT_OK, z')" "zw_fs z' target = Some bs"
      and un: "unzip bs = Some (map (\<lambda>(n, b). (str_bytes n, b))
        ((''manifest.json'', str_bytes ?m) # (''CHECKSUMS.sha256'', str_bytes ?c) # ?ms))"
    using zip_archive_reads [OF _ target(2,1) ops(1) _ small', of z] ops(2) by auto
  have collect: "wt_fleet_collect os dir = Inr (map (report_file os sha dir) ps)"
    using collect_ok [OF env pattern_fits [OF ns(1,3)] es ns(3,2)] ps(1) by simp
  have built: "wt_fleet_build_manifest os g (map (report_file os sha dir) ps) (pack_created os) = Some ?m"
    using env by (intro manifest_built manifest_ops_doc) (simp_all add: fleet_ok_def)
  have "wt_fleet_pack os g z (Some dir) (Some target) =
      (WT_OK, z', \<lparr>fr_count = length ?ms, fr_zip_hex = wt_sha256_hex (Some (sha bs)),
        fr_status = fleet_status_text dir target (length ?ms) (wt_sha256_hex (Some (sha bs)))\<rparr>)"
    using dir target(1) collect len(2) checksums_built [OF env ok] built z' zip_digest [OF env z'(2)]
    by (simp add: wt_fleet_pack_def Let_def pack_created_def [symmetric] pack_members_def)
  moreover have "mset ?ms = mset (pack_members os dir (pack_names es))"
    using ps(2) by (simp add: pack_members_def)
  ultimately show ?thesis using z'(2) un manifest_reads by blast
qed

lemma fleet_pack_failure_clean:
  assumes "wt_fleet_pack os g z dir (Some target) = (r, z', res)" "r \<noteq> WT_OK"
    and "os_create (fo_zip os) target = None" "target \<noteq> []" "length target < 520"
  shows "z' = z \<or> zw_fs z' target = None"
proof (cases "\<exists>ops. zip_create (fo_zip os) z target ops = (r, z')")
  case True
  then obtain ops where "zip_create (fo_zip os) z target ops = (r, z')" by blast
  from zip_failure_clean [OF this assms(2-5)] show ?thesis by simp
next
  case False
  then show ?thesis using assms(1,2)
    by (auto simp: wt_fleet_pack_def Let_def split: option.splits sum.splits if_splits prod.splits)
qed

section \<open>A folder with two reports\<close>

definition demo_cng :: "byte list cng" where
  "demo_cng = \<lparr>cng_provider = True, cng_object = True, cng_heap = True, cng_create = Some [],
     cng_update = (\<lambda>h bs. Some (h @ bs)), cng_finish = (\<lambda>h. Some (replicate 32 (of_nat (length h))))\<rparr>"

definition demo_sha :: "byte list \<Rightarrow> byte list" where
  "demo_sha bs = replicate 32 (of_nat (length bs))"

definition demo_listing :: "(string \<times> bool) list" where
  "demo_listing = [(''old'', True), (''b.json'', False), (''notes.txt'', False), (''Manifest.JSON'', False), (''a.JSON'', False)]"

definition demo_files :: "string \<Rightarrow> byte list option" where
  "demo_files p = (if p = ''r'' @ bsl ''/b.json'' then Some [123, 125]
     else if p = ''r'' @ bsl ''/a.JSON'' then Some [91, 93, 10] else None)"

definition demo_fleet :: "byte list fleet_os" where
  "demo_fleet = \<lparr>fo_zip = demo_os\<lparr>os_read := demo_files\<rparr>, fo_cng = demo_cng, fo_attributes = (\<lambda>_. Inr True),
     fo_find = (\<lambda>_. Inr demo_listing),
     fo_open = (\<lambda>p. case demo_files p of None \<Rightarrow> Inl ERROR_FILE_NOT_FOUND | Some b \<Rightarrow> Inr b),
     fo_read = (\<lambda>_ _. True), fo_utf8 = Some, fo_now = None, fo_malloc = (\<lambda>_. True), fo_tmpfile = True,
     fo_qsort = insertion_sort (\<lambda>a b. wt_fleet_file_cmp a b < 0)\<rparr>"

lemma demo_fleet_ok: "fleet_ok demo_fleet (\<lambda>h. h) demo_sha"
  by (auto simp: fleet_ok_def cng_ok_def demo_fleet_def demo_cng_def demo_sha_def demo_os_def zip_os_ok_def
    mset_insertion_sort split: option.splits)

lemma demo_names: "pack_names demo_listing = [''b.json'', ''a.JSON'']"
  by (simp add: pack_names_def demo_listing_def wt_fleet_has_json_ext_def wt_fleet_is_skipped_name_def
    wcsicmp_def lower_def char_of_def bit_0)

definition demo_report :: "string \<Rightarrow> byte list \<Rightarrow> WT_FleetFile" where
  "demo_report n b = \<lparr>ff_full_path = ''r'' @ bsl ''/'' @ n, ff_zip_name = ''reports/'' @ n, ff_base_utf8 = n,
     ff_size = length b, ff_crc32 = wt_crc32_bytes b, ff_sha256 = demo_sha b\<rparr>"

lemma demo_paths: "report_path ''r'' n = ''r'' @ bsl ''/'' @ n"
  by (simp add: report_path_def)

lemma demo_bodies:
  "fo_open demo_fleet (report_path ''r'' ''b.json'') = Inr [123, 125]"
  "fo_open demo_fleet (report_path ''r'' ''a.JSON'') = Inr [91, 93, 10]"
  by (simp_all add: demo_fleet_def demo_files_def report_path_def bsl_def)

lemma demo_report_file:
  "report_file demo_fleet demo_sha ''r'' ''b.json'' = demo_report ''b.json'' [123, 125]"
  "report_file demo_fleet demo_sha ''r'' ''a.JSON'' = demo_report ''a.JSON'' [91, 93, 10]"
  unfolding report_file_def demo_report_def report_body_def demo_bodies
  by (simp_all add: report_base_def report_path_def demo_fleet_def)

lemma demo_packed:
  "packed_files demo_fleet demo_sha ''r'' demo_listing = [demo_report ''a.JSON'' [91, 93, 10], demo_report ''b.json'' [123, 125]]"
  by (simp add: packed_files_def demo_names demo_report_file)
    (simp add: demo_fleet_def demo_report_def insertion_sort_def wt_fleet_file_cmp_def lower_def char_of_def bit_0)

lemma demo_packable: "list_all (packable demo_fleet ''r'') (pack_names demo_listing)"
  by (simp add: demo_names packable_def demo_bodies WT_FLEET_PACK_MAX_BYTES_def)
    (simp add: demo_fleet_def report_path_def)

lemma json_quote_length: "length (json_quote s) \<le> 6 * length s + 2"
proof -
  have "length (json_escape_char c) \<le> 6" for c by (simp add: json_escape_char_def hex4_def)
  then have "length (concat (map json_escape_char s)) \<le> 6 * length s"
    by (induction s) (simp_all add: add_mono)
  then show ?thesis by (simp add: json_quote_def)
qed

lemma demo_manifest_length:
  "length (manifest_text demo_sha [] [(''reports/a.JSON'', [91, 93, 10]), (''reports/b.json'', [123, 125])]) < 10000"
proof -
  let ?q = "\<lambda>s. length (json_quote s)"
  have hex: "?q (wt_sha256_hex (Some d)) \<le> 386" for d
    using json_quote_length [of "wt_sha256_hex (Some d)"] by (simp add: length_hex)
  have quote: "length s \<le> 20 \<Longrightarrow> ?q s \<le> 122" for s using json_quote_length [of s] by simp
  have "?q ''schema_version'' \<le> 122" "?q ''1.0'' \<le> 122" "?q ''kind'' \<le> 122" "?q ''wintune_fleet_pack'' \<le> 122"
    "?q ''tool'' \<le> 122" "?q ''wintune'' \<le> 122" "?q ''tool_version'' \<le> 122" "?q WT_VERSION_STRING \<le> 122"
    "?q ''created_utc'' \<le> 122" "?q [] \<le> 122" "?q ''local_only'' \<le> 122" "?q ''upload'' \<le> 122"
    "?q ''file_count'' \<le> 122" "?q ''files'' \<le> 122" "?q ''name'' \<le> 122" "?q ''size_bytes'' \<le> 122"
    "?q ''sha256'' \<le> 122" "?q ''reports/a.JSON'' \<le> 122" "?q ''reports/b.json'' \<le> 122"
    by (simp_all add: quote WT_VERSION_STRING_def)
  then show ?thesis
    using hex [of "demo_sha [91, 93, 10]"] hex [of "demo_sha [123, 125]"]
    by (simp add: manifest_text_def manifest_doc_def newline_indent_def dec.simps [of 2] dec.simps [of 3])
qed

lemma demo_archive_small:
  "archive_bytes (fo_zip demo_fleet) (pack_ops demo_fleet demo_sha (packed_files demo_fleet demo_sha ''r'' demo_listing)) < 2 ^ 32"
proof -
  have f: "fo_zip demo_fleet = demo_os\<lparr>os_read := demo_files\<rparr>" "pack_created demo_fleet = []"
    by (simp_all add: demo_fleet_def pack_created_def)
  have b: "demo_files (ff_full_path (demo_report ''a.JSON'' c)) = Some [91, 93, 10]"
    "demo_files (ff_full_path (demo_report ''b.json'' c)) = Some [123, 125]" for c
    by (simp_all add: demo_files_def demo_report_def bsl_def)
  have sel: "ff_zip_name (demo_report n c) = ''reports/'' @ n" "ff_size (demo_report n c) = length c"
    "ff_crc32 (demo_report n c) = wt_crc32_bytes c" for n c
    by (simp_all add: demo_report_def)
  have ms: "file_members demo_fleet [demo_report ''a.JSON'' [91, 93, 10], demo_report ''b.json'' [123, 125]]
      = [(''reports/a.JSON'', [91, 93, 10]), (''reports/b.json'', [123, 125])]"
    by (simp add: file_members_def f b sel)
  have "length (checksum_text demo_sha [(''reports/a.JSON'', [91, 93, 10]), (''reports/b.json'', [123, 125])]) < 10000"
    by (simp add: checksum_text_def length_hex)
  then show ?thesis unfolding demo_packed pack_ops_def Let_def ms
    using demo_manifest_length by (simp add: archive_bytes_def fleet_ops_def locals_def f b sel)
qed

text \<open>The two reports of the folder \<open>r\<close>, one of them named in capitals; the folder, the text file and the old
  manifest beside them are left out.\<close>

theorem fleet_pack_archive_witness:
  "\<exists>z' bs ms m c st.
    wt_fleet_pack demo_fleet json_globals_init demo_writer (Some ''r'') (Some ''o.zip'') =
      (WT_OK, z', \<lparr>fr_count = length ms, fr_zip_hex = wt_sha256_hex (Some (demo_sha bs)), fr_status = st\<rparr>) \<and>
    zw_fs z' ''o.zip'' = Some bs \<and>
    unzip bs = Some (map (\<lambda>(n, b). (str_bytes n, b))
      ((''manifest.json'', str_bytes m) # (''CHECKSUMS.sha256'', str_bytes c) # ms)) \<and>
    mset ms = mset (pack_members demo_fleet ''r'' [''b.json'', ''a.JSON'']) \<and>
    read_document m = Some (manifest_doc demo_sha [] ms) \<and> c = checksum_text demo_sha ms"
proof -
  have "fo_attributes demo_fleet ''r'' = Inr True" "fo_find demo_fleet (''r'' @ bsl ''/*'') = Inr demo_listing"
    "os_create (fo_zip demo_fleet) ''o.zip'' = None" "pack_created demo_fleet = []"
    by (simp_all add: demo_fleet_def demo_os_def pack_created_def)
  then show ?thesis
    using fleet_pack_archive [OF demo_fleet_ok _ _ _ _ _ demo_packable _ _ demo_archive_small,
        of "''o.zip''" json_globals_init demo_writer]
    by (simp add: demo_names WT_FLEET_PACK_MAX_FILES_def)
qed

end
