(* ===== verification/Json_Docs.thy ===== *)
theory Json_Docs
  imports Json_Emit "HOL-Library.Sublist"
begin

text \<open>
  Every report the emitters of \<open>json.c\<close> print is one JSON document. The judgements \<open>value_ops\<close>,
  \<open>member_ops\<close>, \<open>closing_ops\<close> and \<open>elem_ops\<close> say of a list of writer calls that it is a value, members,
  the rest of an object with its closing brace, or elements, of a document that nests at most
  \<open>n\<close> deep, in which no object has the same key twice. Their rules follow the shape of the
  emitters, so each emitter is judged by resolution.
\<close>

section \<open>Documents without duplicate keys\<close>

fun unique :: "json_value \<Rightarrow> bool"
  and unique_members :: "(string \<times> json_value) list \<Rightarrow> bool"
  and unique_elems :: "json_value list \<Rightarrow> bool" where
  "unique (JObj ms) \<longleftrightarrow> distinct (map fst ms) \<and> unique_members ms"
| "unique (JArr vs) \<longleftrightarrow> unique_elems vs"
| "unique _ \<longleftrightarrow> True"
| "unique_members [] \<longleftrightarrow> True"
| "unique_members ((k, v) # ms) \<longleftrightarrow> unique v \<and> unique_members ms"
| "unique_elems [] \<longleftrightarrow> True"
| "unique_elems (v # vs) \<longleftrightarrow> unique v \<and> unique_elems vs"

definition value_ops :: "nat \<Rightarrow> json_op list \<Rightarrow> bool" where
  "value_ops n ops \<longleftrightarrow> (\<exists>v. ops = ops_of v \<and> height v \<le> n \<and> unique v)"

definition member_ops :: "nat \<Rightarrow> json_op list \<Rightarrow> string list \<Rightarrow> bool" where
  \<comment> \<open>the keys are among \<open>ks\<close>, in that order\<close>
  "member_ops n ops ks \<longleftrightarrow> (\<exists>ms. ops = ops_members ms \<and> height_members ms \<le> n \<and> unique_members ms \<and>
     subseq (map fst ms) ks)"

definition closing_ops :: "nat \<Rightarrow> json_op list \<Rightarrow> string list \<Rightarrow> bool" where
  "closing_ops n ops ks \<longleftrightarrow> (\<exists>body. ops = body @ [End_Object] \<and> member_ops n body ks)"

definition elem_ops :: "nat \<Rightarrow> json_op list \<Rightarrow> bool" where
  "elem_ops n ops \<longleftrightarrow> (\<exists>vs. ops = ops_elems vs \<and> height_elems vs \<le> n \<and> unique_elems vs)"

lemma height_members_append [simp]:
  "height_members (xs @ ys) = max (height_members xs) (height_members ys)"
  by (induction xs) auto

lemma unique_members_append [simp]:
  "unique_members (xs @ ys) \<longleftrightarrow> unique_members xs \<and> unique_members ys"
  by (induction xs) auto

lemma ops_elems_append [simp]: "ops_elems (xs @ ys) = ops_elems xs @ ops_elems ys"
  by (induction xs) auto

lemma height_elems_append [simp]:
  "height_elems (xs @ ys) = max (height_elems xs) (height_elems ys)"
  by (induction xs) auto

lemma unique_elems_append [simp]:
  "unique_elems (xs @ ys) \<longleftrightarrow> unique_elems xs \<and> unique_elems ys"
  by (induction xs) auto

text \<open>Values.\<close>

lemma value_atom:
  "value_ops n [Str s]" "value_ops n [UInt k]" "value_ops n [Double x]" "value_ops n [Bool b]"
  "value_ops n [Null]" "value_ops n [wide io ws]"
proof -
  have "value_ops n (ops_of v) \<longleftrightarrow> True" if "height v = 0" "unique v" for v
    using that by (auto simp: value_ops_def)
  from this [of "JStr s"] this [of "JUInt k"] this [of "JDouble x"] this [of "JBool b"] this [of JNull]
    this [of "JStr (case je_utf8 io ws of None \<Rightarrow> [] | Some b \<Rightarrow> b)"]
  show "value_ops n [Str s]" "value_ops n [UInt k]" "value_ops n [Double x]" "value_ops n [Bool b]"
    "value_ops n [Null]" "value_ops n [wide io ws]"
    by (simp_all add: wide_def)
qed

lemma value_if: "value_ops n x \<Longrightarrow> value_ops n y \<Longrightarrow> value_ops n (if c then x else y)"
  by simp

lemma value_object:
  assumes "closing_ops n r ks" "distinct ks"
  shows "value_ops (Suc n) ([Begin_Object] @ r)"
proof -
  obtain ms where r: "r = ops_members ms @ [End_Object]" and ms: "height_members ms \<le> n"
      "unique_members ms" "subseq (map fst ms) ks"
    using assms(1) by (auto simp: closing_ops_def member_ops_def)
  have "distinct (map fst ms)" using assms(2) ms(3) by (auto simp: subseq_conv_nths)
  then show ?thesis unfolding value_ops_def
    using ms r by (intro exI [of _ "JObj ms"]) simp
qed

lemma value_array: "elem_ops n es \<Longrightarrow> value_ops (Suc n) ([Begin_Array] @ es @ [End_Array])"
proof -
  assume "elem_ops n es"
  then obtain vs where "es = ops_elems vs" "height_elems vs \<le> n" "unique_elems vs"
    by (auto simp: elem_ops_def)
  then show ?thesis unfolding value_ops_def by (intro exI [of _ "JArr vs"]) simp
qed

text \<open>Members, and members up to the closing brace.\<close>

lemma member_one: "value_ops n v \<Longrightarrow> member_ops n (jfld k v) [k]"
proof -
  assume "value_ops n v"
  then obtain d where "v = ops_of d" "height d \<le> n" "unique d" by (auto simp: value_ops_def)
  then show ?thesis unfolding member_ops_def by (intro exI [of _ "[(k, d)]"]) (simp add: jfld_def)
qed

lemma member_seq:
  assumes "member_ops n x ks" "member_ops n y ls"
  shows "member_ops n (x @ y) (ks @ ls)"
proof -
  obtain ms ns where "x = ops_members ms" "y = ops_members ns"
    "height_members ms \<le> n" "height_members ns \<le> n" "unique_members ms" "unique_members ns"
    "subseq (map fst ms) ks" "subseq (map fst ns) ls"
    using assms unfolding member_ops_def by blast
  then show ?thesis unfolding member_ops_def
    by (intro exI [of _ "ms @ ns"]) (simp add: list_emb_append_mono)
qed

lemma member_none: "member_ops n [] ks"
  by (auto simp: member_ops_def intro!: exI [of _ "[]"])

lemma member_more: "member_ops n x ks \<Longrightarrow> subseq ks ls \<Longrightarrow> member_ops n x ls"
  unfolding member_ops_def by (metis subseq_order.trans)

lemma member_opt: "member_ops n x ks \<Longrightarrow> member_ops n (if c then x else []) ks"
  by (simp add: member_none)

lemma member_if: "member_ops n x ks \<Longrightarrow> member_ops n y ls \<Longrightarrow> subseq ls ks \<Longrightarrow>
    member_ops n (if c then x else y) ks"
  by (auto intro: member_more)

lemma closing_end: "closing_ops n [End_Object] []"
  by (auto simp: closing_ops_def intro!: exI [of _ "[]"] member_none)

lemma closing_seq: "member_ops n x ks \<Longrightarrow> closing_ops n r ls \<Longrightarrow> closing_ops n (x @ r) (ks @ ls)"
  unfolding closing_ops_def using member_seq by (metis append.assoc)

lemma closing_fld: "value_ops n v \<Longrightarrow> closing_ops n r ls \<Longrightarrow> closing_ops n (jfld k v @ r) (k # ls)"
  using closing_seq [OF member_one] by fastforce

lemma member_fld: "value_ops n v \<Longrightarrow> member_ops n r ls \<Longrightarrow> member_ops n (jfld k v @ r) (k # ls)"
  using member_seq [OF member_one] by fastforce

lemma closing_more: "closing_ops n x ks \<Longrightarrow> subseq ks ls \<Longrightarrow> closing_ops n x ls"
  unfolding closing_ops_def by (blast intro: member_more)

lemma closing_option:
  assumes "\<And>x. closing_ops n (f x) ks"
  shows "closing_ops n (case opt of None \<Rightarrow> [End_Object] | Some x \<Rightarrow> f x) ks"
  using assms closing_more [OF closing_end] by (cases opt) auto

text \<open>Elements.\<close>

lemma elem_none: "elem_ops n []"
  by (auto simp: elem_ops_def intro!: exI [of _ "[]"])

lemma elem_all:
  assumes "\<And>x. value_ops n (f x)"
  shows "elem_ops n (concat (map f xs))"
proof (induction xs)
  case Nil
  then show ?case by (simp add: elem_none)
next
  case (Cons x xs)
  obtain v where "f x = ops_of v" "height v \<le> n" "unique v"
    using assms [of x] by (auto simp: value_ops_def)
  moreover obtain vs where "concat (map f xs) = ops_elems vs" "height_elems vs \<le> n" "unique_elems vs"
    using Cons by (auto simp: elem_ops_def)
  ultimately show ?case unfolding elem_ops_def
    by (intro exI [of _ "v # vs"]) simp
qed

lemma elem_opt: "elem_ops n x \<Longrightarrow> elem_ops n (if c then x else [])"
  by (simp add: elem_none)

lemma elem_option: "(\<And>xs. elem_ops n (f xs)) \<Longrightarrow> elem_ops n (case opt of None \<Rightarrow> [] | Some xs \<Rightarrow> f xs)"
  by (cases opt) (simp_all add: elem_none)

lemma closing_opt: "member_ops n x ks \<Longrightarrow> closing_ops n r ls \<Longrightarrow> closing_ops n ((if c then x else []) @ r) (ks @ ls)"
  by (rule closing_seq [OF member_opt])

lemma member_seq_opt: "member_ops n x ks \<Longrightarrow> member_ops n r ls \<Longrightarrow> member_ops n ((if c then x else []) @ r) (ks @ ls)"
  by (rule member_seq [OF member_opt])

lemmas json_judgement =
  value_atom value_if value_array elem_opt elem_option elem_all closing_end closing_fld closing_option
  closing_opt member_fld member_seq_opt member_opt member_one

text \<open>The parts that several reports share.\<close>

lemma identity_members:
  "member_ops n (wt_json_emit_identity io ident)
     [''publisher'', ''product_name'', ''signature'', ''origin'', ''location'', ''unusual_location'', ''image_path'']"
  unfolding wt_json_emit_identity_def by (rule json_judgement)+

lemma process_value: "value_ops (Suc n) (wt_json_emit_process io p)"
  unfolding wt_json_emit_process_def
  by (rule json_judgement value_object closing_seq [OF identity_members] | simp)+

lemma recommendation_value: "value_ops (Suc n) (wt_json_emit_recommendation r)"
  unfolding wt_json_emit_recommendation_def by (rule json_judgement value_object | simp)+

lemma recommendations_members:
  "member_ops (Suc (Suc n)) (wt_json_emit_recommendations_array recs) [''recommendations'']"
  unfolding wt_json_emit_recommendations_array_def
  by (rule json_judgement value_object recommendation_value)+

lemma boot_value: "value_ops (Suc (Suc (Suc (Suc n)))) (wt_json_emit_boot_object io boot)"
  unfolding wt_json_emit_boot_object_def
  by (rule json_judgement value_object | simp)+

lemma updates_value: "value_ops (Suc (Suc (Suc n))) (wt_json_emit_updates_object io u)"
  unfolding wt_json_emit_updates_object_def
  by (rule json_judgement value_object | simp)+

lemma blockers_value: "value_ops (Suc (Suc (Suc (Suc (Suc n))))) (wt_json_emit_blockers_object io r)"
  unfolding wt_json_emit_blockers_object_def
  by (rule json_judgement value_object | simp)+

text \<open>The sections of the scan report.\<close>

lemma scan_scan_members: "member_ops (Suc (Suc n)) (scan_json_scan io report) [''scan'']"
  unfolding scan_json_scan_def
  by (rule json_judgement value_object | simp)+

lemma scan_system_members: "member_ops (Suc n) (scan_json_system io report) [''system'']"
  unfolding scan_json_system_def
  by (rule json_judgement value_object | simp)+

lemma scan_cpu_members: "member_ops (Suc n) (scan_json_cpu io report) [''cpu'']"
  unfolding scan_json_cpu_def
  by (rule json_judgement value_object | simp)+

lemma scan_memory_members: "member_ops (Suc n) (scan_json_memory io report) [''memory'']"
  unfolding scan_json_memory_def
  by (rule json_judgement value_object | simp)+

lemma scan_disk_members: "member_ops (Suc (Suc (Suc n))) (scan_json_disk io report) [''disk'']"
  unfolding scan_json_disk_def
  by (rule json_judgement value_object | simp)+

lemma scan_gpu_members: "member_ops (Suc (Suc (Suc (Suc (Suc n))))) (scan_json_gpu io report) [''gpu'']"
  unfolding scan_json_gpu_def
  by (rule json_judgement value_object | simp)+

lemma scan_audio_members: "member_ops (Suc (Suc (Suc n))) (scan_json_audio io report) [''audio'']"
  unfolding scan_json_audio_def
  by (rule json_judgement value_object closing_seq [OF member_if] | simp)+

lemma scan_search_members: "member_ops (Suc n) (scan_json_search io report) [''search'']"
  unfolding scan_json_search_def
  by (rule json_judgement value_object | simp)+

lemma scan_defender_members: "member_ops (Suc n) (scan_json_defender io report) [''defender'']"
  unfolding scan_json_defender_def
  by (rule json_judgement value_object | simp)+

lemma scan_network_members: "member_ops (Suc (Suc (Suc n))) (scan_json_network io report) [''network'']"
  unfolding scan_json_network_def
  by (rule json_judgement value_object | simp)+

lemma scan_power_members: "member_ops (Suc n) (scan_json_power io report) [''power'']"
  unfolding scan_json_power_def
  by (rule json_judgement value_object | simp)+

lemma scan_processes_members: "member_ops (Suc (Suc (Suc n))) (scan_json_processes io report) [''processes'']"
  unfolding scan_json_processes_def
  by (rule json_judgement value_object process_value | simp)+

lemma scan_timing_members: "member_ops (Suc (Suc (Suc n))) (scan_json_timing io report) [''timing'']"
  unfolding scan_json_timing_def
  by (rule json_judgement value_object | simp)+

lemma scan_boot_updates_members:
  "member_ops (Suc (Suc (Suc (Suc n)))) (scan_json_boot_updates io report) [''boot'', ''updates'']"
  unfolding scan_json_boot_updates_def
  by (rule json_judgement value_object boot_value updates_value | simp)+

section \<open>The fourteen reports\<close>

datatype json_report =
    Scan_Doc WT_ScanReport "WT_Recommendation list option"
  | Recommendations_Doc "WT_Recommendation list option"
  | Startup_Doc "WT_StartupEntry list"
  | Tasks_Doc "WT_ScheduledTask list"
  | Services_Doc "WT_ServiceInfo list"
  | Boot_Doc "WT_BootReport option"
  | Updates_Doc "WT_UpdateStatus option"
  | Blockers_Doc "WT_BlockerReport option"
  | Storage_Doc "WT_StorageHealthReport option"
  | Reliability_Doc "WT_ReliabilityReport option"
  | Memory_Doc "WT_MemoryMetrics option"
  | Maintenance_Doc "WT_MaintenanceReport option"
  | Processes_Doc "WT_ProcessInfo list" "WT_ShortLivedProcess list option"
  | Page_Doc "WT_ProcessInfo list" "WT_ProcessPageInfo option"

definition report_name :: "json_report \<Rightarrow> string" where
  "report_name d = (case d of
     Scan_Doc _ _ \<Rightarrow> ''scan''
   | Recommendations_Doc _ \<Rightarrow> ''recommendations''
   | Startup_Doc _ \<Rightarrow> ''startup''
   | Tasks_Doc _ \<Rightarrow> ''tasks''
   | Services_Doc _ \<Rightarrow> ''services''
   | Boot_Doc _ \<Rightarrow> ''boot''
   | Updates_Doc _ \<Rightarrow> ''updates''
   | Blockers_Doc _ \<Rightarrow> ''blockers''
   | Storage_Doc _ \<Rightarrow> ''storage''
   | Reliability_Doc _ \<Rightarrow> ''reliability''
   | Memory_Doc _ \<Rightarrow> ''memory''
   | Maintenance_Doc _ \<Rightarrow> ''maintenance''
   | Processes_Doc _ _ \<Rightarrow> ''processes'' | Page_Doc _ _ \<Rightarrow> ''processes'')"

definition report_ops :: "json_env \<Rightarrow> json_report \<Rightarrow> json_op list" where
  "report_ops io d = (case d of
     Scan_Doc rep recs \<Rightarrow> wt_print_scan_report_json io rep recs
   | Recommendations_Doc x \<Rightarrow> wt_print_recommendations_json io x
   | Startup_Doc x \<Rightarrow> wt_print_startup_json io x
   | Tasks_Doc x \<Rightarrow> wt_print_tasks_json io x
   | Services_Doc x \<Rightarrow> wt_print_services_json io x
   | Boot_Doc x \<Rightarrow> wt_print_boot_json io x
   | Updates_Doc x \<Rightarrow> wt_print_updates_json io x
   | Blockers_Doc x \<Rightarrow> wt_print_blockers_json io x
   | Storage_Doc x \<Rightarrow> wt_print_storage_json io x
   | Reliability_Doc x \<Rightarrow> wt_print_reliability_json io x
   | Memory_Doc x \<Rightarrow> wt_print_memory_json io x
   | Maintenance_Doc x \<Rightarrow> wt_print_maintenance_json io x
   | Processes_Doc items lived \<Rightarrow> wt_print_processes_json io items lived
   | Page_Doc items page \<Rightarrow> wt_print_processes_page_json io items page)"

definition report_text :: "json_env \<Rightarrow> json_report \<Rightarrow> string" where
  \<comment> \<open>\<open>wt_json_init\<close>, the calls, \<open>wt_json_finish\<close>, on an empty stream\<close>
  "report_text io d = jw_out (wt_json_finish (json_run (report_ops io d) (wt_json_init (je_globals io) [])))"

definition envelope_doc :: "json_env \<Rightarrow> string \<Rightarrow> (string \<times> json_value) list" where
  \<comment> \<open>the head every report starts with\<close>
  "envelope_doc io name =
     (''schema_version'', JStr (wt_json_emit_schema_version (je_globals io))) #
     (if g_json_emit_major (je_globals io) \<ge> 2
      then [(''schema_compat_min'', JStr ''1.0.0''), (''document'', JStr name)] else []) @
     [(''version'', JStr WT_VERSION_STRING),
      (''timestamp_utc'', JStr (case je_now io of None \<Rightarrow> [] | Some t \<Rightarrow> t)),
      (''session'', JObj [(''interactive'', JBool (je_interactive io)), (''remote'', JBool (je_remote io)),
         (''elevated'', JBool (je_elevated io))])]"

definition envelope_keys :: "string list" where
  "envelope_keys = [''schema_version'', ''schema_compat_min'', ''document'', ''version'', ''timestamp_utc'', ''session'']"

lemma envelope_ops: "name \<noteq> [] \<Longrightarrow> wt_json_emit_envelope_head io name = ops_members (envelope_doc io name)"
  by (simp add: wt_json_emit_envelope_head_def wt_json_emit_schema_meta_ops_def envelope_doc_def jfld_def Let_def)

lemma envelope_facts:
  "height_members (envelope_doc io name) \<le> Suc n" "unique_members (envelope_doc io name)"
  "subseq (map fst (envelope_doc io name)) envelope_keys"
  by (simp_all add: envelope_doc_def envelope_keys_def)

definition report_shape :: "json_env \<Rightarrow> json_op list \<Rightarrow> string \<Rightarrow> bool" where
  "report_shape io ops name \<longleftrightarrow> (\<exists>rest ks. ops = [Begin_Object] @ wt_json_emit_envelope_head io name @ rest \<and>
     closing_ops 5 rest ks \<and> distinct (envelope_keys @ ks))"

lemma report_shapeI:
  assumes "closing_ops (Suc (Suc (Suc (Suc (Suc 0))))) rest ks" "distinct (envelope_keys @ ks)"
  shows "report_shape io ([Begin_Object] @ wt_json_emit_envelope_head io name @ rest) name"
  unfolding report_shape_def using assms by (intro exI [of _ rest] exI [of _ ks]) (simp add: eval_nat_numeral)

lemma report_shape_doc:
  assumes "report_shape io ops name" "name \<noteq> []"
  obtains ms where "ops = ops_of (JObj (envelope_doc io name @ ms))"
    "height (JObj (envelope_doc io name @ ms)) \<le> 6" "unique (JObj (envelope_doc io name @ ms))"
proof -
  obtain rest ks ms where ops: "ops = [Begin_Object] @ wt_json_emit_envelope_head io name @ rest"
      and d: "distinct (envelope_keys @ ks)" and rest: "rest = ops_members ms @ [End_Object]"
      and ms: "height_members ms \<le> 5" "unique_members ms" "subseq (map fst ms) ks"
    using assms(1) by (auto simp: report_shape_def closing_ops_def member_ops_def)
  have "subseq (map fst (envelope_doc io name @ ms)) (envelope_keys @ ks)"
    using envelope_facts(3) ms(3) by (simp add: list_emb_append_mono)
  then have "distinct (map fst (envelope_doc io name @ ms))"
    using d subseq_conv_nths by (metis distinct_nthsI)
  then show ?thesis
    using that [of ms] ops rest ms envelope_facts(1) [of io name 4] envelope_facts(2) [of io name] assms(2)
    by (simp add: envelope_ops)
qed

lemma nested_fold: "(xs @ ys) @ zs = xs @ ys @ zs" by simp

lemmas report_judgement =
  json_judgement value_object closing_seq [OF recommendations_members]
  boot_value updates_value blockers_value process_value

lemma scan_shape: "report_shape io (wt_print_scan_report_json io rep recs) ''scan''"
  unfolding wt_print_scan_report_json_def
  by (rule report_shapeI closing_seq [OF recommendations_members] closing_end
      closing_seq [OF scan_scan_members]
      closing_seq [OF scan_system_members]
      closing_seq [OF scan_cpu_members]
      closing_seq [OF scan_memory_members]
      closing_seq [OF scan_disk_members]
      closing_seq [OF scan_gpu_members]
      closing_seq [OF scan_audio_members]
      closing_seq [OF scan_search_members]
      closing_seq [OF scan_defender_members]
      closing_seq [OF scan_network_members]
      closing_seq [OF scan_power_members]
      closing_seq [OF scan_boot_updates_members]
      closing_seq [OF scan_processes_members]
      closing_seq [OF scan_timing_members]
    | simp add: envelope_keys_def)+

lemma recommendations_shape: "report_shape io (wt_print_recommendations_json io x) ''recommendations''"
  unfolding wt_print_recommendations_json_def
  by (rule report_shapeI report_judgement | simp add: envelope_keys_def)+

lemma startup_shape: "report_shape io (wt_print_startup_json io x) ''startup''"
  unfolding wt_print_startup_json_def
  by (rule report_shapeI report_judgement closing_seq [OF identity_members] | simp add: envelope_keys_def)+

lemma tasks_shape: "report_shape io (wt_print_tasks_json io x) ''tasks''"
  unfolding wt_print_tasks_json_def
  by (rule report_shapeI report_judgement | simp add: envelope_keys_def)+

lemma services_shape: "report_shape io (wt_print_services_json io x) ''services''"
  unfolding wt_print_services_json_def
  by (rule report_shapeI report_judgement closing_seq [OF identity_members] | simp add: envelope_keys_def)+

lemma boot_shape: "report_shape io (wt_print_boot_json io x) ''boot''"
  unfolding wt_print_boot_json_def
  by (rule report_shapeI report_judgement | simp add: envelope_keys_def)+

lemma updates_shape: "report_shape io (wt_print_updates_json io x) ''updates''"
  unfolding wt_print_updates_json_def
  by (rule report_shapeI report_judgement | simp add: envelope_keys_def)+

lemma blockers_shape: "report_shape io (wt_print_blockers_json io x) ''blockers''"
  unfolding wt_print_blockers_json_def
  by (rule report_shapeI report_judgement | simp add: envelope_keys_def)+

lemma storage_shape: "report_shape io (wt_print_storage_json io x) ''storage''"
  unfolding wt_print_storage_json_def
  by (rule report_shapeI report_judgement | simp add: envelope_keys_def)+

lemma reliability_shape: "report_shape io (wt_print_reliability_json io x) ''reliability''"
  unfolding wt_print_reliability_json_def
  by (rule report_shapeI report_judgement | simp add: envelope_keys_def)+

lemma memory_shape: "report_shape io (wt_print_memory_json io x) ''memory''"
  unfolding wt_print_memory_json_def
  by (rule report_shapeI report_judgement | simp add: envelope_keys_def)+

lemma maintenance_shape: "report_shape io (wt_print_maintenance_json io x) ''maintenance''"
  unfolding wt_print_maintenance_json_def
  by (rule report_shapeI report_judgement | simp add: envelope_keys_def)+

lemma processes_shape: "report_shape io (wt_json_emit_process_list io items page lived) ''processes''"
  unfolding wt_json_emit_process_list_def
  by (rule report_shapeI report_judgement | simp add: envelope_keys_def)+

lemma report_ops_shape: "report_shape io (report_ops io d) (report_name d)"
  by (cases d) (simp_all add: report_ops_def report_name_def scan_shape recommendations_shape startup_shape tasks_shape services_shape boot_shape updates_shape blockers_shape storage_shape reliability_shape memory_shape maintenance_shape
    processes_shape wt_print_processes_json_def wt_print_processes_page_json_def)

text \<open>C35. Every report the program prints as JSON, whatever the collectors measured and whatever
  bytes the names hold, is one document: the writer ends on level 0 after exactly the document's
  text and a newline, the document starts with the envelope of the schema the caller selected,
  no object in it has a key twice, it nests at most six deep, and a JSON reader gives it back
  with every double as the tenths it is printed as.\<close>

theorem report_documents:
  "\<exists>ms. let v = JObj (envelope_doc io (report_name d) @ ms);
           w = json_run (report_ops io d) (wt_json_init (je_globals io) [])
       in jw_depth w = 0 \<and> report_text io d = render (g_json_compact (je_globals io)) 0 v @ [CHR 0x0A] \<and>
          unique v \<and> height v \<le> 6 \<and> read_document (report_text io d) = Some (as_read v)"
proof -
  have name: "report_name d \<noteq> []" by (cases d) (simp_all add: report_name_def)
  obtain ms where ops: "report_ops io d = ops_of (JObj (envelope_doc io (report_name d) @ ms))"
      and h: "height (JObj (envelope_doc io (report_name d) @ ms)) \<le> 6"
      and u: "unique (JObj (envelope_doc io (report_name d) @ ms))"
    using report_shape_doc [OF report_ops_shape name] by blast
  let ?v = "JObj (envelope_doc io (report_name d) @ ms)"
  let ?c = "g_json_compact (je_globals io)"
  have run: "jw_depth (json_run (report_ops io d) (wt_json_init (je_globals io) [])) = 0"
      and text_eq: "report_text io d = render ?c 0 ?v @ [CHR 0x0A]"
    using run_document [of ?v "je_globals io" "[]"] h unfolding report_text_def ops
    by (simp_all only: WT_JSON_MAX_DEPTH_def append_Nil)
  have "read_document (report_text io d) = Some (as_read ?v)"
    unfolding text_eq by (rule read_rendered_document) (simp add: blank_def is_space_def)
  then show ?thesis using run text_eq u h unfolding Let_def by (intro exI [of _ ms] conjI)
qed

end
