(* ===== verification/Rec_Theorems.thy ===== *)
theory Rec_Theorems
  imports Recommendations
begin

text \<open>
  What the recommendation engine guarantees: no recommendation is lost or repeated, every text fits its buffer,
  and every action that would change the system can be rolled back.
\<close>

section \<open>A single recommendation\<close>

definition rec_fits :: "WT_Recommendation \<Rightarrow> bool" where
  "rec_fits r \<longleftrightarrow> length (rc_id r) < 64 \<and> length (rc_title r) < 128 \<and> length (rc_reason r) < 512 \<and>
     length (rc_action r) < 256 \<and> length (rc_confidence_basis r) < 96"

definition rec_safe :: "WT_Recommendation \<Rightarrow> bool" where
  \<comment> \<open>low risk at most, never critical; an apply command is offered exactly when it can be rolled back\<close>
  "rec_safe r \<longleftrightarrow> rc_risk r \<in> {WT_RISK_NONE, WT_RISK_LOW} \<and> rc_severity r \<noteq> WT_SEVERITY_CRITICAL \<and>
     rc_confidence_percent r \<in> {40..95} \<and>
     (prefix ''wintune apply '' (rc_action r) \<longleftrightarrow> rc_rollback_available r) \<and>
     (rc_requires_admin r \<longrightarrow> rc_rollback_available r) \<and>
     (rc_id r \<in> {''WT-POWER-001'', ''WT-POWER-002''} \<longrightarrow> rc_rollback_available r)"

definition rec_ok :: "WT_Recommendation \<Rightarrow> bool" where
  "rec_ok r \<longleftrightarrow> rec_fits r \<and> rec_safe r"

lemma new_rec_sel [simp]:
  "rc_id (new_rec i t r a) = cch_copy 64 i" "rc_title (new_rec i t r a) = cch_copy 128 t"
  "rc_reason (new_rec i t r a) = cch_copy 512 r" "rc_action (new_rec i t r a) = cch_copy 256 a"
  "rc_severity (new_rec i t r a) = WT_SEVERITY_INFO" "rc_risk (new_rec i t r a) = WT_RISK_NONE"
  "rc_requires_admin (new_rec i t r a) = False" "rc_rollback_available (new_rec i t r a) = False"
  "rc_confidence_percent (new_rec i t r a) = 80" "rc_confidence_basis (new_rec i t r a) = []"
  by (simp_all add: new_rec_def wt_str_set_def)

lemma set_confidence_sel [simp]:
  "rc_id (wt_rec_set_confidence rep m b r) = rc_id r" "rc_title (wt_rec_set_confidence rep m b r) = rc_title r"
  "rc_reason (wt_rec_set_confidence rep m b r) = rc_reason r"
  "rc_action (wt_rec_set_confidence rep m b r) = rc_action r"
  "rc_severity (wt_rec_set_confidence rep m b r) = rc_severity r" "rc_risk (wt_rec_set_confidence rep m b r) = rc_risk r"
  "rc_requires_admin (wt_rec_set_confidence rep m b r) = rc_requires_admin r"
  "rc_rollback_available (wt_rec_set_confidence rep m b r) = rc_rollback_available r"
  "rc_confidence_percent (wt_rec_set_confidence rep m b r) = wt_confidence_compute rep m b"
  "rc_confidence_basis (wt_rec_set_confidence rep m b r) = wt_confidence_basis rep m 96"
  by (simp_all add: wt_rec_set_confidence_def)

lemma set_basis_sel [simp]:
  "rc_id (rec_set_basis b r) = rc_id r" "rc_title (rec_set_basis b r) = rc_title r"
  "rc_reason (rec_set_basis b r) = rc_reason r" "rc_action (rec_set_basis b r) = rc_action r"
  "rc_severity (rec_set_basis b r) = rc_severity r" "rc_risk (rec_set_basis b r) = rc_risk r"
  "rc_requires_admin (rec_set_basis b r) = rc_requires_admin r"
  "rc_rollback_available (rec_set_basis b r) = rc_rollback_available r"
  "rc_confidence_percent (rec_set_basis b r) = rc_confidence_percent r"
  "rc_confidence_basis (rec_set_basis b r) = cch_copy 96 b"
  by (simp_all add: rec_set_basis_def wt_str_set_def)

lemma copy_short [simp]:
  "length (cch_copy 64 s) < 64" "length (cch_copy 128 s) < 128" "length (cch_copy 512 s) < 512"
  "length (cch_copy 256 s) < 256" "length (cch_copy 96 s) < 96"
  by (simp_all add: length_cch_copy)

lemma basis_short [simp]: "length (wt_confidence_basis rep m 96) < 96"
  by (rule basis_fits) simp

lemma conf_in [simp]: "40 \<le> wt_confidence_compute rep m b" "wt_confidence_compute rep m b \<le> 95"
  using confidence_range by auto

lemma prefix_copy: "length p \<le> 255 \<Longrightarrow> prefix p (cch_copy 256 s) \<longleftrightarrow> prefix p s"
  by (auto simp: cch_copy_def prefix_def intro: order.trans) (metis append.assoc append_take_drop_id)

lemma apply_prefix [simp]: "prefix ''wintune apply '' (cch_copy 256 s) \<longleftrightarrow> prefix ''wintune apply '' s"
  by (rule prefix_copy) simp

section \<open>A check\<close>

definition adds :: "WT_Recommendation list \<Rightarrow> WT_Recommendation list \<Rightarrow> WT_Recommendation list" where
  "adds rs out = foldl (\<lambda>acc r. wt_rec_add r acc) out rs"

text \<open>A check is well behaved when what it adds does not depend on what is there already, is at most \<open>n\<close> items
  with identifiers from \<open>ids\<close> in that order, and every item is in order.\<close>

definition check_ok ::
  "(WT_Recommendation list \<Rightarrow> WT_Recommendation list) \<Rightarrow> nat \<Rightarrow> string list \<Rightarrow> bool" where
  "check_ok f n ids \<longleftrightarrow> (\<forall>out. f out = adds (f []) out) \<and> length (f []) \<le> n \<and>
     subseq (map rc_id (f [])) ids \<and> (\<forall>r \<in> set (f []). rec_ok r)"

lemma adds_simps [simp]:
  "adds [] out = out" "adds (r # rs) out = adds rs (wt_rec_add r out)"
  "adds (xs @ ys) out = adds ys (adds xs out)"
  by (simp_all add: adds_def)

lemma add_first [simp]: "wt_rec_add r [] = [r]"
  by (simp add: wt_rec_add_def WT_MAX_RECOMMENDATIONS_def)

lemma adds_room: "length out + length rs \<le> 32 \<Longrightarrow> adds rs out = out @ rs"
  by (induction rs arbitrary: out) (simp_all add: wt_rec_add_def WT_MAX_RECOMMENDATIONS_def)

text \<open>One rule for each construct the checks are written with.\<close>

lemma check_def:
  assumes "\<And>out. f out = g out" "check_ok g n ids"
  shows "check_ok f n ids"
proof -
  have "f = g" using assms(1) by (rule ext)
  with assms(2) show ?thesis by simp
qed

lemma check_none: "check_ok (\<lambda>out. out) n ids"
  by (simp add: check_ok_def)

lemma check_one: "rec_ok r \<Longrightarrow> rc_id r \<in> set ids \<Longrightarrow> 1 \<le> n \<Longrightarrow> check_ok (\<lambda>out. wt_rec_add r out) n ids"
  by (simp add: check_ok_def subseq_singleton_left)

lemma check_if: "(b \<Longrightarrow> check_ok f n ids) \<Longrightarrow> (\<not> b \<Longrightarrow> check_ok g n ids) \<Longrightarrow>
    check_ok (\<lambda>out. if b then f out else g out) n ids"
  by (cases b) simp_all

lemma check_option: "(x = None \<Longrightarrow> check_ok f n ids) \<Longrightarrow> (\<And>v. x = Some v \<Longrightarrow> check_ok (g v) n ids) \<Longrightarrow>
    check_ok (\<lambda>out. case x of None \<Rightarrow> f out | Some v \<Rightarrow> g v out) n ids"
  by (cases x) simp_all

lemma check_pair: "(\<And>a b. x = (a, b) \<Longrightarrow> check_ok (g a b) n ids) \<Longrightarrow>
    check_ok (\<lambda>out. case x of (a, b) \<Rightarrow> g a b out) n ids"
  by (cases x) simp_all

lemma check_value: "(\<And>v. v = x \<Longrightarrow> check_ok (g v) n ids) \<Longrightarrow> check_ok (\<lambda>out. let v = x in g v out) n ids"
  by simp

lemma check_okD:
  assumes "check_ok f n ids"
  shows check_adds: "f out = adds (f []) out" and check_len: "length (f []) \<le> n"
    and check_ids: "subseq (map rc_id (f [])) ids" and check_recs: "\<forall>r \<in> set (f []). rec_ok r"
proof -
  note d = assms [unfolded check_ok_def]
  show "f out = adds (f []) out" by (rule d [THEN conjunct1, THEN spec])
  show "length (f []) \<le> n" by (rule d [THEN conjunct2, THEN conjunct1])
  show "subseq (map rc_id (f [])) ids" by (rule d [THEN conjunct2, THEN conjunct2, THEN conjunct1])
  show "\<forall>r \<in> set (f []). rec_ok r" by (rule d [THEN conjunct2, THEN conjunct2, THEN conjunct2])
qed

lemma check_seq:
  assumes f: "check_ok f n is" and g: "check_ok g m js" and nm: "n + m \<le> 32"
  shows "check_ok (\<lambda>out. g (f out)) (n + m) (is @ js)"
proof -
  have len: "length (f []) + length (g []) \<le> 32"
    using check_len [OF f] check_len [OF g] nm by linarith
  have gf: "g (f []) = f [] @ g []"
    using check_adds [OF g, of "f []"] adds_room [OF len] by (rule trans)
  have dist: "g (f out) = adds (f [] @ g []) out" for out
    by (subst check_adds [OF g], subst check_adds [OF f]) (rule adds_simps(3) [symmetric])
  show ?thesis
    unfolding check_ok_def gf
    using check_len [OF f] check_len [OF g] check_ids [OF f] check_ids [OF g] check_recs [OF f] check_recs [OF g] dist
    by (auto simp del: adds_simps intro: list_emb_append_mono)
qed

lemma check_let:
  "check_ok f n is \<Longrightarrow> check_ok g m js \<Longrightarrow> n + m \<le> 32 \<Longrightarrow> check_ok (\<lambda>out. let v = f out in g v) (n + m) (is @ js)"
  unfolding Let_def by (rule check_seq)

lemmas check_rules = check_none check_one check_if check_option check_pair check_value

lemmas rec_ok_defs = rec_ok_def rec_fits_def rec_safe_def

section \<open>The eighteen checks\<close>

lemma power_ok: "check_ok (wt_check_power rep) 3
    [''WT-POWER-001'', ''WT-POWER-002'', ''WT-POWER-003'', ''WT-POWER-004'']"
proof -
  have a: "check_ok (power_plan_check rep) 1 [''WT-POWER-001'', ''WT-POWER-002'']"
    by (rule check_def [OF power_plan_check_def], intro check_rules) (simp_all add: rec_ok_defs)
  have b: "check_ok (power_cap_check rep) 1 [''WT-POWER-003'']"
    by (rule check_def [OF power_cap_check_def], intro check_rules) (simp_all add: rec_ok_defs)
  have c: "check_ok (power_discharge_check rep) 1 [''WT-POWER-004'']"
    by (rule check_def [OF power_discharge_check_def], intro check_rules) (simp_all add: rec_ok_defs)
  have d: "check_ok (\<lambda>out. power_discharge_check rep (power_cap_check rep (power_plan_check rep out))) 3
    [''WT-POWER-001'', ''WT-POWER-002'', ''WT-POWER-003'', ''WT-POWER-004'']"
    using check_seq [OF check_seq [OF a b] c] by (simp add: numeral_3_eq_3)
  show ?thesis
    by (rule check_def [OF wt_check_power_def], (rule check_if check_none d)+)
qed

lemma memory_ok: "check_ok (wt_check_memory rep) 1 [''WT-MEMORY-001'']"
  by (rule check_def [OF wt_check_memory_def], intro check_rules) (simp_all add: rec_ok_defs)

lemma commit_ok: "check_ok (wt_check_memory_commit rep) 1 [''WT-MEMORY-002'']"
  by (rule check_def [OF wt_check_memory_commit_def], intro check_rules) (simp_all add: rec_ok_defs)

lemma hard_faults_ok: "check_ok (wt_check_memory_hard_faults w rep) 1 [''WT-MEMORY-003'']"
  by (rule check_def [OF wt_check_memory_hard_faults_def], intro check_rules) (simp_all add: rec_ok_defs)

lemma disk_recs_ok:
  "rec_ok (disk_volume_rec rep v)" "rc_id (disk_volume_rec rep v) = ''WT-DISK-004''"
  "rec_ok (disk_thru_rec rep)" "rc_id (disk_thru_rec rep) = ''WT-DISK-003''"
  "rec_ok (disk_free_rec v)" "rc_id (disk_free_rec v) = ''WT-DISK-002''"
  unfolding disk_volume_rec_def disk_thru_rec_def disk_free_rec_def Let_def
  by (simp_all add: rec_ok_defs)

lemma disk_total_ok: "rec_ok (disk_total_rec rep)" "rc_id (disk_total_rec rep) = ''WT-DISK-001''"
proof -
  have "rec_ok ((new_rec ''WT-DISK-001'' ''Disk activity is very high'' reason
      ''Review disk-heavy processes; let scans/indexing finish.'')\<lparr>
        rc_confidence_percent := wt_confidence_compute rep WT_CONF_DISK base,
        rc_confidence_basis := wt_confidence_basis rep WT_CONF_DISK 96, rc_severity := WT_SEVERITY_MEDIUM\<rparr>)"
    for reason base
    by (simp add: rec_ok_defs)
  then show "rec_ok (disk_total_rec rep)"
    unfolding disk_total_rec_def Let_def wt_disk_active_confidence_def
    by (cases "wt_hottest_volume rep") (simp_all del: append_Cons)
  show "rc_id (disk_total_rec rep) = ''WT-DISK-001''"
    unfolding disk_total_rec_def Let_def by (simp split: prod.split)
qed

lemma disk_ok: "check_ok (wt_check_disk rep) 2 [''WT-DISK-001'', ''WT-DISK-003'', ''WT-DISK-004'', ''WT-DISK-002'']"
proof -
  have "check_ok (\<lambda>out. if disk_total_hot rep then wt_rec_add (disk_total_rec rep) out
        else if b then wt_rec_add (disk_volume_rec rep v) out
        else if c then wt_rec_add (disk_thru_rec rep) out else out) 1
      [''WT-DISK-001'', ''WT-DISK-003'', ''WT-DISK-004'']" for b c v
    by (intro check_rules) (simp_all add: disk_recs_ok disk_total_ok)
  moreover have "check_ok (\<lambda>out. if rep_disk_ok rep
         then (case worst_volume None (rep_volumes rep) of None \<Rightarrow> out | Some v \<Rightarrow> wt_rec_add (disk_free_rec v) out)
         else out) 1 [''WT-DISK-002'']"
    by (intro check_rules) (simp_all add: disk_recs_ok)
  ultimately have "check_ok (wt_check_disk rep) (1 + 1)
      ([''WT-DISK-001'', ''WT-DISK-003'', ''WT-DISK-004''] @ [''WT-DISK-002''])"
    by (intro check_def [OF wt_check_disk_def] check_value check_let) simp_all
  then show ?thesis by (simp only: append.simps one_add_one)
qed

lemma storage_recs_ok:
  "rec_ok (storage_failed_rec w d)" "rc_id (storage_failed_rec w d) = ''WT-DISK-005''"
  "rec_ok (storage_warning_rec w d)" "rc_id (storage_warning_rec w d) = ''WT-DISK-006''"
  unfolding storage_failed_rec_def storage_warning_rec_def by (simp_all add: rec_ok_defs)

lemma storage_ok: "check_ok (wt_check_storage_health w) 1 [''WT-DISK-005'', ''WT-DISK-006'']"
  by (rule check_def [OF wt_check_storage_health_def], intro check_rules) (simp_all add: storage_recs_ok)

lemma rel_recs_ok:
  "rec_ok (rel_shutdown_rec rel n)" "rc_id (rel_shutdown_rec rel n) = ''WT-RELIABILITY-001''"
  "rec_ok (rel_crash_rec w rel n)" "rc_id (rel_crash_rec w rel n) = ''WT-RELIABILITY-002''"
  "rec_ok (rel_dump_rec rel b)" "rc_id (rel_dump_rec rel b) = ''WT-RELIABILITY-003''"
  unfolding rel_shutdown_rec_def rel_crash_rec_def rel_dump_rec_def Let_def by (simp_all add: rec_ok_defs)

lemma maint_recs_ok:
  "rec_ok (maint_defender_rec m)" "rc_id (maint_defender_rec m) = ''WT-MAINT-001''"
  "rec_ok maint_update_rec" "rc_id maint_update_rec = ''WT-MAINT-002''"
  "rec_ok maint_optimize_rec" "rc_id maint_optimize_rec = ''WT-MAINT-003''"
  "rec_ok maint_many_rec" "rc_id maint_many_rec = ''WT-MAINT-004''"
  unfolding maint_defender_rec_def maint_update_rec_def maint_optimize_rec_def maint_many_rec_def
  by (simp_all add: rec_ok_defs)

text \<open>The chains of optional recommendations: each link adds at most one.\<close>

lemma check_opt_rec:
  "rec_ok r \<Longrightarrow> rc_id r = i \<Longrightarrow> check_ok (\<lambda>out. if b then wt_rec_add r out else out) 1 [i]"
  by (intro check_rules) simp_all

lemma check_chain:
  assumes "rec_ok r" "rc_id r = i" "check_ok g n ids" "n < 32"
  shows "check_ok (\<lambda>out. let v = (if b then wt_rec_add r out else out) in g v) (Suc n) (i # ids)"
  using check_let [OF check_opt_rec [OF assms(1,2), of b] assms(3)] assms(4) by simp

lemma reliability_ok: "check_ok (wt_check_reliability w) 3
    [''WT-RELIABILITY-001'', ''WT-RELIABILITY-002'', ''WT-RELIABILITY-003'']"
  unfolding numeral_3_eq_3
  by (rule check_def [OF wt_check_reliability_def],
      intro check_pair check_if check_none check_value check_chain check_opt_rec [unfolded One_nat_def])
    (simp_all add: rel_recs_ok)

lemma four_Suc: "(4::nat) = Suc (Suc (Suc (Suc 0)))"
  by simp

lemma maintenance_ok: "check_ok (wt_check_maintenance w rep) 4
    [''WT-MAINT-001'', ''WT-MAINT-002'', ''WT-MAINT-003'', ''WT-MAINT-004'']"
  unfolding four_Suc
  by (rule check_def [OF wt_check_maintenance_def],
      intro check_pair check_if check_none check_value check_chain check_opt_rec [unfolded One_nat_def])
    (simp_all add: maint_recs_ok)

lemma cpu_ok: "check_ok (wt_check_cpu rep) 1 [''WT-CPU-001'']"
  by (rule check_def [OF wt_check_cpu_def], intro check_rules) (simp_all add: rec_ok_defs)

lemma gpu_ok: "check_ok (wt_check_gpu w rep) 1 [''WT-GPU-001'']"
  by (rule check_def [OF wt_check_gpu_def], intro check_rules) (simp_all add: rec_ok_defs)

lemma audio_ok: "check_ok (wt_check_audio w rep) 1 [''WT-AUDIO-001'']"
  by (rule check_def [OF wt_check_audio_def], intro check_rules) (simp_all add: rec_ok_defs)

lemma search_ok: "check_ok (wt_check_search rep) 1 [''WT-SEARCH-001'']"
  by (rule check_def [OF wt_check_search_def], intro check_rules) (simp_all add: rec_ok_defs)

lemma boot_ok: "check_ok (wt_check_boot rep) 3 [''WT-BOOT-001'', ''WT-BOOT-002'', ''WT-STARTUP-001'']"
proof -
  have a: "check_ok (boot_slow_check rep) 1 [''WT-BOOT-001'']"
    by (rule check_def [OF boot_slow_check_def], intro check_rules) (simp_all add: rec_ok_defs)
  have b: "check_ok (boot_degraded_check rep) 1 [''WT-BOOT-002'']"
    by (rule check_def [OF boot_degraded_check_def], intro check_rules) (simp_all add: rec_ok_defs)
  have c: "check_ok (boot_component_check rep) 1 [''WT-STARTUP-001'']"
    by (rule check_def [OF boot_component_check_def], intro check_rules) (simp_all add: rec_ok_defs)
  have d: "check_ok (\<lambda>out. boot_component_check rep (boot_degraded_check rep (boot_slow_check rep out))) 3
    [''WT-BOOT-001'', ''WT-BOOT-002'', ''WT-STARTUP-001'']"
    using check_seq [OF check_seq [OF a b] c] by (simp add: numeral_3_eq_3)
  show ?thesis
    by (rule check_def [OF wt_check_boot_def], (rule check_if check_none d)+)
qed

lemma update_recs_ok:
  "rec_ok (update_reboot_rec u)" "rc_id (update_reboot_rec u) = ''WT-UPDATE-001''"
  "rec_ok (update_mandatory_rec u)" "rc_id (update_mandatory_rec u) = ''WT-UPDATE-002''"
  "rec_ok (update_many_rec u)" "rc_id (update_many_rec u) = ''WT-UPDATE-003''"
  "rec_ok update_service_rec" "rc_id update_service_rec = ''WT-UPDATE-004''"
  "rec_ok (blocker_rec b)" "rc_id (blocker_rec b) = ''WT-BLOCKER-001''"
  unfolding update_reboot_rec_def update_mandatory_rec_def update_many_rec_def update_service_rec_def blocker_rec_def
  by (simp_all add: rec_ok_defs)

lemma updates_ok: "check_ok (wt_check_updates rep) 3
    [''WT-UPDATE-001'', ''WT-UPDATE-002'', ''WT-UPDATE-003'', ''WT-UPDATE-004'']"
proof -
  have a: "check_ok (\<lambda>out. if b then wt_rec_add (update_mandatory_rec u) out
      else if c then wt_rec_add (update_many_rec u) out else out) 1 [''WT-UPDATE-002'', ''WT-UPDATE-003'']" for b c u
    by (intro check_rules) (simp_all add: update_recs_ok)
  have c: "check_ok (\<lambda>out. if b then wt_rec_add update_service_rec out else out) 1 [''WT-UPDATE-004'']" for b
    by (intro check_rules) (simp_all add: update_recs_ok)
  have d: "check_ok (\<lambda>out. let v = (if b then wt_rec_add (update_mandatory_rec u) out
      else if c then wt_rec_add (update_many_rec u) out else out)
      in if b' then wt_rec_add update_service_rec v else v) (Suc (Suc 0))
      [''WT-UPDATE-002'', ''WT-UPDATE-003'', ''WT-UPDATE-004'']" for b b' c u
    using check_let [OF a c] by simp
  show ?thesis unfolding numeral_3_eq_3
    by (rule check_def [OF wt_check_updates_def], intro check_if check_none check_value check_chain d)
      (simp_all add: update_recs_ok)
qed

lemma blockers_ok: "check_ok (wt_check_blockers w rep) 1 [''WT-BLOCKER-001'']"
  by (rule check_def [OF wt_check_blockers_def], intro check_rules) (simp_all add: update_recs_ok)

lemma uninstall_ok: "check_ok (wt_check_uninstall w) 1 [''WT-UNINSTALL-001'']"
  by (rule check_def [OF wt_check_uninstall_def], intro check_rules) (simp_all add: rec_ok_defs)

lemma startup_rec_ok:
  assumes "find_first startup_candidate (map (startup_rescored w rep) es) = Some e"
  shows "rec_ok (startup_rec w e)"
proof -
  obtain e' where e: "e = startup_rescored w rep e'" and cand: "startup_candidate e"
    using find_first_Some [OF assms] by auto
  have "50 \<le> se_impact_confidence e" using cand by (simp add: startup_candidate_def WT_IMPACT_RECOMMEND_CONF_MIN_def)
  moreover have "se_impact_confidence e \<le> 95"
    using score_range(2) unfolding e startup_rescored_def by (simp add: wt_impact_apply_to_startup_def Let_def)
  ultimately show ?thesis unfolding startup_rec_def Let_def by (simp add: rec_ok_defs)
qed

lemma startup_ok: "check_ok (wt_check_startup_actions w rep) 1 [''WT-STARTUP-002'']"
proof -
  have "rc_id (startup_rec w e) = ''WT-STARTUP-002''" for e
    unfolding startup_rec_def Let_def by simp
  then show ?thesis
    by (intro check_def [OF wt_check_startup_actions_def] check_rules startup_rec_ok) (simp_all only: set_simps, auto)
qed

lemma task_rec_ok:
  assumes "find_first task_candidate (map (task_rescored w rep) ts) = Some t"
  shows "rec_ok (task_rec w t)"
proof -
  obtain t' where t: "t = task_rescored w rep t'" and cand: "task_candidate t"
    using find_first_Some [OF assms] by auto
  have "50 \<le> st_impact_confidence t" using cand by (simp add: task_candidate_def WT_IMPACT_RECOMMEND_CONF_MIN_def)
  moreover have "st_impact_confidence t \<le> 95"
    using score_range(2) unfolding t task_rescored_def by (simp add: wt_impact_apply_to_task_def Let_def)
  ultimately show ?thesis unfolding task_rec_def Let_def by (simp add: rec_ok_defs)
qed

lemma task_ok: "check_ok (wt_check_task_actions w rep) 1 [''WT-TASK-001'']"
proof -
  have "rc_id (task_rec w t) = ''WT-TASK-001''" for t
    unfolding task_rec_def Let_def by simp
  then show ?thesis
    by (intro check_def [OF wt_check_task_actions_def] check_rules task_rec_ok) (simp_all only: set_simps, auto)
qed

section \<open>All checks together\<close>

lemma checks_ok:
  assumes "list_all2 (\<lambda>f (n, ids). check_ok f n ids) fs specs" "sum_list (map fst specs) \<le> 32"
  shows "check_ok (\<lambda>out. foldl (\<lambda>out f. f out) out fs) (sum_list (map fst specs)) (concat (map snd specs)) \<and>
    foldl (\<lambda>out f. f out) [] fs = concat (map (\<lambda>f. f []) fs)"
  using assms
proof (induction fs specs rule: list_all2_induct)
  case Nil
  then show ?case by (simp add: check_none)
next
  case (Cons f fs s specs)
  let ?g = "\<lambda>out. foldl (\<lambda>out f. f out) out fs"
  obtain n ids where s: "s = (n, ids)" by (cases s)
  have f: "check_ok f n ids" using Cons.hyps s by simp
  have g: "check_ok ?g (sum_list (map fst specs)) (concat (map snd specs))"
    and gnil: "?g [] = concat (map (\<lambda>f. f []) fs)"
    using Cons.IH Cons.prems s by simp_all
  have room: "n + sum_list (map fst specs) \<le> 32" using Cons.prems s by simp
  have "length (f []) + length (?g []) \<le> 32"
    using check_len [OF f] check_len [OF g] room by linarith
  then have "?g (f []) = f [] @ ?g []"
    using check_adds [OF g, of "f []"] adds_room [of "f []" "?g []"] by (simp only:)
  then show ?case using check_seq [OF f g room] gnil s by simp
qed

definition rec_specs :: "(nat \<times> string list) list" where
  "rec_specs =
     [(3, [''WT-POWER-001'', ''WT-POWER-002'', ''WT-POWER-003'', ''WT-POWER-004'']), (1, [''WT-MEMORY-001'']),
      (1, [''WT-MEMORY-002'']), (1, [''WT-MEMORY-003'']),
      (2, [''WT-DISK-001'', ''WT-DISK-003'', ''WT-DISK-004'', ''WT-DISK-002'']),
      (1, [''WT-DISK-005'', ''WT-DISK-006'']),
      (3, [''WT-RELIABILITY-001'', ''WT-RELIABILITY-002'', ''WT-RELIABILITY-003'']),
      (4, [''WT-MAINT-001'', ''WT-MAINT-002'', ''WT-MAINT-003'', ''WT-MAINT-004'']), (1, [''WT-CPU-001'']),
      (1, [''WT-GPU-001'']), (1, [''WT-AUDIO-001'']), (1, [''WT-SEARCH-001'']),
      (3, [''WT-BOOT-001'', ''WT-BOOT-002'', ''WT-STARTUP-001'']),
      (3, [''WT-UPDATE-001'', ''WT-UPDATE-002'', ''WT-UPDATE-003'', ''WT-UPDATE-004'']),
      (1, [''WT-BLOCKER-001'']), (1, [''WT-STARTUP-002'']), (1, [''WT-TASK-001'']), (1, [''WT-UNINSTALL-001''])]"

lemma rec_specs_facts: "sum_list (map fst rec_specs) = 30" "distinct (concat (map snd rec_specs))"
  by code_simp+

lemma rec_checks_specs: "list_all2 (\<lambda>f (n, ids). check_ok f n ids) (rec_checks w rep) rec_specs"
  unfolding rec_checks_def rec_specs_def
  by (simp only: list_all2_Cons list_all2_Nil prod.case power_ok memory_ok commit_ok hard_faults_ok disk_ok storage_ok
      reliability_ok maintenance_ok cpu_ok gpu_ok audio_ok search_ok boot_ok updates_ok blockers_ok startup_ok task_ok
      uninstall_ok simp_thms)

lemma subseq_distinct: "subseq xs ys \<Longrightarrow> distinct ys \<Longrightarrow> distinct xs"
  by (auto simp: subseq_conv_nths intro: distinct_nthsI)

lemma generate_facts:
  assumes "rs = snd (wt_generate_recommendations w (Some rep))"
  shows "rs = concat (map (\<lambda>check. check []) (rec_checks w rep))" "length rs \<le> 30" "distinct (map rc_id rs)"
    "\<forall>r \<in> set rs. rec_ok r"
proof -
  let ?f = "\<lambda>out. foldl (\<lambda>out f. f out) out (rec_checks w rep)"
  have rs: "rs = ?f []" using assms by (simp add: wt_generate_recommendations_def)
  note all = checks_ok [OF rec_checks_specs, unfolded rec_specs_facts(1)]
  have ok: "check_ok ?f 30 (concat (map snd rec_specs))" using all by (rule conjunct1) simp
  show "rs = concat (map (\<lambda>check. check []) (rec_checks w rep))"
    unfolding rs using all by (rule conjunct2) simp
  show "length rs \<le> 30" unfolding rs by (rule check_len [OF ok])
  show "distinct (map rc_id rs)" unfolding rs
    using check_ids [OF ok] rec_specs_facts(2) by (rule subseq_distinct)
  show "\<forall>r \<in> set rs. rec_ok r" unfolding rs by (rule check_recs [OF ok])
qed

text \<open>C22. The recommendation engine: given a report it returns OK and exactly what each of its eighteen checks adds
  on its own, in order (the list of 32 never fills up: at most 30), no identifier twice; every recommendation fits
  its buffers, has at most low risk, a confidence between 40 and 95, names \<open>wintune apply\<close> as its action exactly
  when a rollback exists, and asks for administrator rights only then.\<close>
theorem recommendations_complete_and_safe:
  "let (r, rs) = wt_generate_recommendations w (Some rep) in
     r = WT_OK \<and> rs = concat (map (\<lambda>check. check []) (rec_checks w rep)) \<and> length rs \<le> 30 \<and>
     distinct (map rc_id rs) \<and> list_all rec_ok rs"
proof -
  obtain r rs where g: "wt_generate_recommendations w (Some rep) = (r, rs)" by fastforce
  then have "rs = snd (wt_generate_recommendations w (Some rep))" by simp
  note f = generate_facts [OF this]
  have "r = WT_OK" using g by (simp add: wt_generate_recommendations_def)
  then show ?thesis unfolding g Let_def prod.case list_all_iff using f by blast
qed

text \<open>Which check a recommendation comes from can be read off its identifier.\<close>

lemma id_from_check:
  assumes "list_all2 (\<lambda>f (n, ids). check_ok f n ids) fs specs" "i \<in> rc_id ` set (concat (map (\<lambda>f. f []) fs))"
  shows "\<exists>k < length fs. i \<in> rc_id ` set ((fs ! k) []) \<and> i \<in> set (snd (specs ! k))"
proof -
  obtain r f where r: "f \<in> set fs" "r \<in> set (f [])" "i = rc_id r" using assms(2) by auto
  obtain k where k: "k < length fs" "f = fs ! k" using r(1) by (auto simp: in_set_conv_nth)
  obtain n ids where s: "specs ! k = (n, ids)" by (cases "specs ! k")
  have "check_ok (fs ! k) n ids" using list_all2_nthD [OF assms(1) k(1)] s by simp
  then have "subseq (map rc_id (f [])) ids" using check_ids k(2) by blast
  then have "set (map rc_id (f [])) \<subseteq> set ids" unfolding subseq_conv_nths using set_nths_subset by fastforce
  moreover have "i \<in> set (map rc_id (f []))" using r by simp
  ultimately have "i \<in> set ids" by blast
  with k s r show ?thesis by auto
qed

lemma spec_index:
  assumes "k < 18" "i \<in> set (snd (rec_specs ! k))"
  shows "i = ''WT-DISK-006'' \<longrightarrow> k = 5" "i = ''WT-CPU-001'' \<longrightarrow> k = 8"
proof -
  have "\<forall>k \<in> set [0..<18]. (''WT-DISK-006'' \<in> set (snd (rec_specs ! k)) \<longrightarrow> k = 5) \<and>
     (''WT-CPU-001'' \<in> set (snd (rec_specs ! k)) \<longrightarrow> k = 8)"
    by code_simp
  then show "i = ''WT-DISK-006'' \<longrightarrow> k = 5" "i = ''WT-CPU-001'' \<longrightarrow> k = 8" using assms by auto
qed

lemma generated_ids:
  assumes "i \<in> set (map rc_id (snd (wt_generate_recommendations w (Some rep))))"
  shows "\<exists>k < 18. i \<in> rc_id ` set ((rec_checks w rep ! k) []) \<and> i \<in> set (snd (rec_specs ! k))"
proof -
  have "length (rec_checks w rep) = 18" by (simp add: rec_checks_def)
  moreover have "i \<in> rc_id ` set (concat (map (\<lambda>check. check []) (rec_checks w rep)))"
    using assms generate_facts(1) [of _ w rep] by simp
  ultimately show ?thesis using id_from_check [OF rec_checks_specs, of i w rep] by simp
qed

lemma storage_warning_unreachable: "''WT-DISK-006'' \<notin> rc_id ` set (wt_check_storage_health w [])"
proof -
  obtain r health where c: "wt_collect_storage_health (rw_storage w) (rw_descriptor_size w) = (r, health)" by fastforce
  have "sh_any_degraded health \<longleftrightarrow> (\<exists>d \<in> set (sh_disks health). sd_status d = WT_STORAGE_HEALTH_DEGRADED)"
    using collect_flags [of "rw_storage w" "rw_descriptor_size w"] c by (force simp: report_flags_def)
  then have "sh_any_degraded health \<Longrightarrow> find_first (\<lambda>d. sd_status d = WT_STORAGE_HEALTH_DEGRADED) (sh_disks health) \<noteq> None"
    by (simp add: find_first_None)
  then show ?thesis unfolding wt_check_storage_health_def c
    by (auto simp: storage_recs_ok split: option.split)
qed

text \<open>C23. Two rules of the engine do not do what they are written for: the storage warning WT-DISK-006 is never
  given, whatever the drives answer, because its check returns early unless some drive is degraded and a degraded
  drive takes the branch before it; and WT-CPU-001 is given on an average of 85 percent and enough confidence alone,
  because the test for sustained load always passes there.\<close>
theorem dead_recommendation_rules:
  "''WT-DISK-006'' \<notin> set (map rc_id (snd (wt_generate_recommendations w (Some rep)))) \<and>
   (''WT-CPU-001'' \<in> set (map rc_id (snd (wt_generate_recommendations w (Some rep)))) \<longleftrightarrow>
      rep_cpu_ok rep \<and> cm_available (rep_cpu rep) \<and> cm_total_usage_percent (rep_cpu rep) \<ge> 85 \<and>
      wt_confidence_should_emit rep WT_CONF_CPU (wt_confidence_compute rep WT_CONF_CPU 75))"
proof -
  have at: "rec_checks w rep ! 5 = wt_check_storage_health w" "rec_checks w rep ! 8 = wt_check_cpu rep"
    by (simp_all add: rec_checks_def)
  have no: "''WT-DISK-006'' \<notin> set (map rc_id (snd (wt_generate_recommendations w (Some rep))))"
    using generated_ids spec_index(1) storage_warning_unreachable at(1) by metis
  have cpu: "''WT-CPU-001'' \<in> rc_id ` set (wt_check_cpu rep []) \<longleftrightarrow>
      rep_cpu_ok rep \<and> cm_available (rep_cpu rep) \<and> cm_total_usage_percent (rep_cpu rep) \<ge> 85 \<and>
      wt_confidence_should_emit rep WT_CONF_CPU (wt_confidence_compute rep WT_CONF_CPU 75)"
    by (auto simp: wt_check_cpu_def Let_def)
  have "''WT-CPU-001'' \<in> set (map rc_id (snd (wt_generate_recommendations w (Some rep)))) \<longleftrightarrow>
      ''WT-CPU-001'' \<in> rc_id ` set (wt_check_cpu rep [])"
  proof
    assume "''WT-CPU-001'' \<in> set (map rc_id (snd (wt_generate_recommendations w (Some rep))))"
    then show "''WT-CPU-001'' \<in> rc_id ` set (wt_check_cpu rep [])"
      using generated_ids spec_index(2) at(2) by metis
  next
    have "wt_check_cpu rep \<in> set (rec_checks w rep)" by (simp add: rec_checks_def)
    moreover assume "''WT-CPU-001'' \<in> rc_id ` set (wt_check_cpu rep [])"
    ultimately show "''WT-CPU-001'' \<in> set (map rc_id (snd (wt_generate_recommendations w (Some rep))))"
      using generate_facts(1) [of _ w rep] by force
  qed
  then show ?thesis using no cpu by blast
qed

end
