(* ===== verification/Json_Text.thy ===== *)
theory Json_Text
  imports Json_Reader
begin

text \<open>
  JSON the program prints without the writer of \<open>json.c\<close>: \<open>fprintf\<close> of one member per line
  (\<open>doctor_plan.c\<close>, \<open>rollback.c\<close>). \<open>json_lines\<close> and \<open>json_items\<close> are that layout; a text \<open>reads\<close> as a value when
  the reader gives the value back from it wherever it stands in a document.
\<close>

section \<open>The layout\<close>

definition spaces_text :: "nat \<Rightarrow> string" where
  "spaces_text n = replicate n (CHR '' '')"

definition nl :: string where "nl = [CHR 0x0A]"

definition qkey :: "string \<Rightarrow> string" where
  \<comment> \<open>a key or a text the source writes between quotes without escaping it\<close>
  "qkey s = CHR 0x22 # s @ [CHR 0x22]"

fun json_lines :: "nat \<Rightarrow> (string \<times> string) list \<Rightarrow> string" where
  "json_lines ind [] = []"
| "json_lines ind [(k, t)] = spaces_text ind @ qkey k @ '': '' @ t @ nl"
| "json_lines ind ((k, t) # m # ms) = spaces_text ind @ qkey k @ '': '' @ t @ '','' @ nl @ json_lines ind (m # ms)"

fun json_items :: "nat \<Rightarrow> string list \<Rightarrow> string" where
  "json_items ind [] = []"
| "json_items ind [t] = spaces_text ind @ t @ nl"
| "json_items ind (t # u # us) = spaces_text ind @ t @ '','' @ nl @ json_items ind (u # us)"

definition json_object_text :: "nat \<Rightarrow> (string \<times> string) list \<Rightarrow> string" where
  \<comment> \<open>an object whose closing brace stands \<open>ind\<close> columns in, its members two further\<close>
  "json_object_text ind ms = ''{'' @ nl @ json_lines (ind + 2) ms @ spaces_text ind @ ''}''"

definition json_array_text :: "nat \<Rightarrow> string list \<Rightarrow> string" where
  "json_array_text ind ts = ''['' @ nl @ json_items (ind + 2) ts @ spaces_text ind @ '']''"

definition json_bool_text :: "bool \<Rightarrow> string" where
  "json_bool_text b = (if b then ''true'' else ''false'')"

section \<open>Reading it\<close>

definition reads :: "json_value \<Rightarrow> string \<Rightarrow> bool" where
  "reads v t \<longleftrightarrow> (\<forall>n ws r. length t \<le> n \<longrightarrow> blank ws \<longrightarrow> number_ends r \<longrightarrow> read_value n (ws @ t @ r) = Some (v, r)) \<and>
     t \<noteq> [] \<and> \<not> is_space (hd t) \<and> hd t \<noteq> CHR '']''"

definition plain_key :: "string \<Rightarrow> bool" where
  "plain_key k \<longleftrightarrow> (\<forall>c \<in> set k. json_escape_char c = [c])"

lemma blank_append [simp]: "blank (a @ b) \<longleftrightarrow> blank a \<and> blank b"
  by (auto simp: blank_def)

lemma blank_spaces [simp]: "blank (spaces_text n)" "blank nl"
  by (simp_all add: blank_def spaces_text_def nl_def is_space_def)

lemma qkey_quote: "plain_key k \<Longrightarrow> qkey k = json_quote k"
  by (induction k) (auto simp: plain_key_def qkey_def json_quote_def)

lemma reads_render: "reads (as_read v) (render c d v)"
  unfolding reads_def
  using render_starts [of c d v] fuel_enough(1) [of v c d] read_render(1) [of v _ _ _ c d]
  by (metis le_trans)

lemma reads_string: "reads (JStr s) (json_quote s)"
  using reads_render [of "JStr s" True 0] by simp

lemma reads_quoted:
  assumes "\<And>r. read_string (e @ CHR 0x22 # r) = Some (s, r)"
  shows "reads (JStr s) (CHR 0x22 # e @ [CHR 0x22])"
  unfolding reads_def
proof (intro conjI allI impI)
  fix n ws r
  assume n: "length (CHR 0x22 # e @ [CHR 0x22]) \<le> n" and ws: "blank ws"
  obtain m where m: "n = Suc m" using n by (cases n) simp_all
  have "atom_text (CHR 0x22 # e @ CHR 0x22 # r)" by (simp add: atom_text_def spaces)
  from atom_text_read [OF this ws, of m]
  show "read_value n (ws @ (CHR 0x22 # e @ [CHR 0x22]) @ r) = Some (JStr s, r)"
    using assms by (simp add: m read_atom_def del: read_value.simps)
qed (simp_all add: spaces)

lemma reads_key: "plain_key k \<Longrightarrow> reads (JStr k) (qkey k)"
  by (simp add: qkey_quote reads_string)

lemma reads_nat: "n < 2 ^ 64 \<Longrightarrow> reads (JUInt (of_nat n)) (dec n)"
  using reads_render [of "JUInt (of_nat n)" True 0] by (simp add: unat_of_nat take_bit_nat_eq_self)

lemma reads_bool: "reads (JBool b) (json_bool_text b)"
  using reads_render [of "JBool b" True 0] by (simp add: json_bool_text_def)

lemma reads_null: "reads JNull ''null''"
  using reads_render [of JNull True 0] by simp

lemma expect_lines [simp]:
  "expect c (spaces_text n @ s) = expect c s" "expect c (nl @ s) = expect c s" "expect c (CHR '' '' # s) = expect c s"
  by (simp_all add: expect_blank expect_space is_space_def)

lemma expect_text: "reads v t \<Longrightarrow> expect (CHR '']'') (t @ r) = None"
  by (cases t) (auto simp: reads_def expect_Cons)

text \<open>The texts of members and elements, first or after others.\<close>

lemma read_value_blank: "blank ws \<Longrightarrow> read_value n (ws @ s) = read_value n s"
  by (cases n; cases "expect (CHR ''{'') s"; cases "expect (CHR ''['') s") (simp_all add: expect_blank skip_blank)

lemma read_members_blank: "blank ws \<Longrightarrow> read_members n True (ws @ s) = read_members n True s"
  by (cases n; cases "expect (CHR ''}'') s") (simp_all add: expect_blank)

lemma read_elems_blank: "blank ws \<Longrightarrow> read_elems n True (ws @ s) = read_elems n True s"
  by (cases n; cases "expect (CHR '']'') s") (simp_all add: expect_blank read_value_blank)

lemma read_lines:
  assumes "list_all2 (\<lambda>(k, v) (k', t). k = k' \<and> plain_key k \<and> reads v t) ms ts" "ms \<noteq> []"
    "Suc (length (json_lines ind ts)) \<le> n"
  shows "read_members n True (json_lines ind ts @ spaces_text i2 @ CHR ''}'' # r) = Some (ms, r) \<and>
    read_members n False ('','' @ nl @ json_lines ind ts @ spaces_text i2 @ CHR ''}'' # r) = Some (ms, r)"
  using assms
proof (induction ms ts arbitrary: n rule: list_all2_induct)
  case Nil
  then show ?case by simp
next
  case (Cons m ms t ts)
  obtain k v tx where kv: "m = (k, v)" "t = (k, tx)" "plain_key k" "reads v tx"
    using Cons.hyps(1) by (cases m; cases t) auto
  obtain n' where n: "n = Suc n'" using Cons.prems by (cases n) simp_all
  obtain n'' where n2: "n' = Suc n''" using Cons.prems n kv by (cases n'; cases ts) (simp_all add: qkey_def)
  let ?close = "spaces_text i2 @ CHR ''}'' # r"
  define rest where "rest = (if ts = [] then nl @ ?close else '','' @ nl @ json_lines ind ts @ ?close)"
  have shape: "json_lines ind ((k, tx) # ts) @ ?close = spaces_text ind @ json_quote k @ '': '' @ tx @ rest"
    using kv by (cases ts) (simp_all add: rest_def qkey_quote)
  have len: "length tx \<le> n'"
    using Cons.prems n kv by (cases ts) simp_all
  have "number_ends (nl @ ?close)"
    using number_ends_blank [of "nl @ spaces_text i2" "CHR ''}'' # r"] by (simp add: number_ends_Cons not_digits)
  then have ends: "number_ends rest" by (simp add: rest_def number_ends_Cons not_digits)
  have val: "read_value n' ('' '' @ tx @ rest) = Some (v, rest)"
    using kv(4) len ends blank_simps(3) unfolding reads_def by blast
  have later: "read_members n' False rest = Some (ms, r)"
  proof (cases "ts = []")
    case True
    then have "ms = []" using Cons.hyps(2) by simp
    then show ?thesis using True n2 by (simp add: rest_def expect_Cons spaces)
  next
    case False
    have "ms \<noteq> []" using False Cons.hyps(2) by auto
    moreover have "Suc (length (json_lines ind ts)) \<le> n'"
      using False Cons.prems n kv by (auto simp: neq_Nil_conv)
    ultimately show ?thesis using Cons.IH [of n'] False by (simp add: rest_def)
  qed
  show ?case unfolding kv(1,2) shape n using val later
    by (simp add: expect_quote expect_Cons spaces read_string_escaped)
qed

lemma reads_object:
  assumes "list_all2 (\<lambda>(k, v) (k', t). k = k' \<and> plain_key k \<and> reads v t) ms ts" "ms \<noteq> []"
  shows "reads (JObj ms) (json_object_text ind ts)"
  unfolding reads_def
proof (intro conjI allI impI)
  fix n ws r
  assume n: "length (json_object_text ind ts) \<le> n" and ws: "blank ws"
  then obtain n' where n': "n = Suc n'" by (cases n) (simp_all add: json_object_text_def)
  have "Suc (length (json_lines (ind + 2) ts)) \<le> n'" using n n' by (simp add: json_object_text_def nl_def)
  from read_lines [OF assms this] show "read_value n (ws @ json_object_text ind ts @ r) = Some (JObj ms, r)"
    using ws read_members_blank [of nl n' "json_lines (ind + 2) ts @ spaces_text ind @ CHR ''}'' # r"]
    by (simp add: n' json_object_text_def expect_blank expect_Cons spaces)
qed (simp_all add: json_object_text_def spaces)

lemma read_items:
  assumes "list_all2 reads vs ts" "vs \<noteq> []" "Suc (length (json_items ind ts)) \<le> n"
  shows "read_elems n True (json_items ind ts @ spaces_text i2 @ CHR '']'' # r) = Some (vs, r) \<and>
    read_elems n False ('','' @ nl @ json_items ind ts @ spaces_text i2 @ CHR '']'' # r) = Some (vs, r)"
  using assms
proof (induction vs ts arbitrary: n rule: list_all2_induct)
  case Nil
  then show ?case by simp
next
  case (Cons v vs t ts)
  obtain n' where n: "n = Suc n'" using Cons.prems by (cases n) simp_all
  obtain n'' where n2: "n' = Suc n''" using Cons.prems n by (cases n'; cases ts) (simp_all add: nl_def)
  let ?close = "spaces_text i2 @ CHR '']'' # r"
  define rest where "rest = (if ts = [] then nl @ ?close else '','' @ nl @ json_items ind ts @ ?close)"
  have shape: "json_items ind (t # ts) @ ?close = spaces_text ind @ t @ rest"
    by (cases ts) (simp_all add: rest_def)
  have len: "length t \<le> n'" using Cons.prems n by (cases ts) simp_all
  have "number_ends (nl @ ?close)"
    using number_ends_blank [of "nl @ spaces_text i2" "CHR '']'' # r"] by (simp add: number_ends_Cons not_digits)
  then have ends: "number_ends rest" by (simp add: rest_def number_ends_Cons not_digits)
  have val: "read_value n' (t @ rest) = Some (v, rest)"
    using Cons.hyps(1) len ends unfolding reads_def by (metis append_Nil blank_simps(1))
  have br: "expect (CHR '']'') (t @ rest) = None" using Cons.hyps(1) by (rule expect_text)
  have later: "read_elems n' False rest = Some (vs, r)"
  proof (cases "ts = []")
    case True
    then have "vs = []" using Cons.hyps(2) by simp
    then show ?thesis using True n2 by (simp add: rest_def expect_Cons spaces)
  next
    case False
    have "vs \<noteq> []" using False Cons.hyps(2) by auto
    moreover have "Suc (length (json_items ind ts)) \<le> n'"
      using False Cons.prems n by (auto simp: neq_Nil_conv nl_def)
    ultimately show ?thesis using Cons.IH [of n'] False by (simp add: rest_def)
  qed
  show ?case unfolding shape n using val later br
    by (simp add: expect_Cons spaces read_value_blank)
qed

text \<open>Arrays may be empty; the objects of the program never are.\<close>

lemma reads_array: "list_all2 reads vs ts \<Longrightarrow> reads (JArr vs) (json_array_text ind ts)"
  unfolding reads_def [of "JArr vs"]
proof (intro conjI allI impI)
  fix n ws r
  assume vs: "list_all2 reads vs ts" and n: "length (json_array_text ind ts) \<le> n" and ws: "blank ws"
  then obtain n' where n': "n = Suc n'" by (cases n) (simp_all add: json_array_text_def)
  have "read_elems n' True (json_items (ind + 2) ts @ spaces_text ind @ CHR '']'' # r) = Some (vs, r)"
  proof (cases "vs = []")
    case True
    then show ?thesis using vs n n' by (cases n') (simp_all add: json_array_text_def expect_Cons spaces)
  next
    case False
    have "Suc (length (json_items (ind + 2) ts)) \<le> n'" using n n' by (simp add: json_array_text_def nl_def)
    from read_items [OF vs False this] show ?thesis by blast
  qed
  then show "read_value n (ws @ json_array_text ind ts @ r) = Some (JArr vs, r)"
    using ws read_elems_blank [of nl n' "json_items (ind + 2) ts @ spaces_text ind @ CHR '']'' # r"]
    by (simp add: n' json_array_text_def expect_blank expect_Cons spaces)
qed (simp_all add: json_array_text_def spaces)

lemma reads_document: "reads v t \<Longrightarrow> blank ws \<Longrightarrow> read_document (t @ ws) = Some v"
proof -
  assume t: "reads v t" and ws: "blank ws"
  have e: "number_ends ws" using number_ends_blank [OF ws, of "[]"] by (simp add: number_ends_def)
  have "read_value (Suc (length (t @ ws))) ([] @ t @ ws) = Some (v, ws)"
  proof -
    have "length t \<le> Suc (length (t @ ws))" by simp
    with t e show ?thesis unfolding reads_def using blank_simps(1) by blast
  qed
  moreover have "skip_ws ws = []" using skip_blank [OF ws, of "[]"] by (simp add: skip_ws_def)
  ultimately show ?thesis by (simp add: read_document_def del: read_value.simps)
qed

end
