(* ===== verification/Doctor_Plan.thy ===== *)
theory Doctor_Plan
  imports Rec_Theorems Json_Text Stable_Sort "HOL-Library.Product_Lexorder"
begin

text \<open>
  The guided doctor plan (\<open>src/core/doctor_plan.c\<close>): the recommendations as an ordered checklist, each step with the
  step it waits for, printed as text or JSON. The comparison of steps is an instance of \<open>keyed_less\<close>.
\<close>

section \<open>Severities are ordered\<close>

fun severity_rank :: "WT_Severity \<Rightarrow> nat" where
  "severity_rank WT_SEVERITY_INFO = 0"
| "severity_rank WT_SEVERITY_LOW = 1"
| "severity_rank WT_SEVERITY_MEDIUM = 2"
| "severity_rank WT_SEVERITY_HIGH = 3"
| "severity_rank WT_SEVERITY_CRITICAL = 4"

lemma severity_rank_inj: "severity_rank a = severity_rank b \<Longrightarrow> a = b"
  by (cases a; cases b) simp_all

instantiation WT_Severity :: linorder
begin

definition less_eq_WT_Severity :: "WT_Severity \<Rightarrow> WT_Severity \<Rightarrow> bool" where
  "less_eq_WT_Severity a b \<longleftrightarrow> severity_rank a \<le> severity_rank b"

definition less_WT_Severity :: "WT_Severity \<Rightarrow> WT_Severity \<Rightarrow> bool" where
  "less_WT_Severity a b \<longleftrightarrow> severity_rank a < severity_rank b"

instance
  by standard (auto simp: less_eq_WT_Severity_def less_WT_Severity_def severity_rank_inj)

end

section \<open>Steps\<close>

record WT_DoctorPlanStep =
  ds_order :: nat
  ds_rec_id :: string
  ds_title :: string
  ds_command :: string
  ds_depends_on :: string
  ds_note :: string
  ds_severity :: WT_Severity
  ds_risk :: WT_Risk
  ds_requires_admin :: bool
  ds_rollback_available :: bool
  ds_confidence_percent :: int
  ds_applyable :: bool

record WT_DoctorPlan =
  dp_steps :: "WT_DoctorPlanStep list"
  dp_applyable_count :: nat
  dp_review_count :: nat

definition WT_MAX_DOCTOR_STEPS :: nat where "WT_MAX_DOCTOR_STEPS = WT_MAX_RECOMMENDATIONS"

definition wt_doctor_plan_init :: WT_DoctorPlan where
  "wt_doctor_plan_init = \<lparr>dp_steps = [], dp_applyable_count = 0, dp_review_count = 0\<rparr>"

definition wt_doctor_severity_name :: "WT_Severity \<Rightarrow> string" where
  "wt_doctor_severity_name s = (case s of
     WT_SEVERITY_INFO \<Rightarrow> ''info'' | WT_SEVERITY_LOW \<Rightarrow> ''low'' | WT_SEVERITY_MEDIUM \<Rightarrow> ''medium''
   | WT_SEVERITY_HIGH \<Rightarrow> ''high'' | WT_SEVERITY_CRITICAL \<Rightarrow> ''critical'')"

definition wt_doctor_risk_name :: "WT_Risk \<Rightarrow> string" where
  "wt_doctor_risk_name r = (case r of
     WT_RISK_NONE \<Rightarrow> ''none'' | WT_RISK_LOW \<Rightarrow> ''low'' | WT_RISK_MEDIUM \<Rightarrow> ''medium'' | WT_RISK_HIGH \<Rightarrow> ''high'')"

definition wt_doctor_step_is_applyable :: "WT_Recommendation \<Rightarrow> bool" where
  "wt_doctor_step_is_applyable r =
     (if rc_action r = [] then False
      else if rc_id r = ''WT-POWER-001'' \<or> rc_id r = ''WT-POWER-002'' then True
      else strncmp 31 (rc_action r) ''wintune apply WT-STARTUP-DISABLE'' \<or>
           strncmp 29 (rc_action r) ''wintune apply WT-STARTUP-DELAY'' \<or>
           strncmp 28 (rc_action r) ''wintune apply WT-TASK-DISABLE'' \<or>
           strncmp 26 (rc_action r) ''wintune apply WT-TASK-DELAY'')"

definition id_is :: "string \<Rightarrow> string \<Rightarrow> bool" where
  \<comment> \<open>\<open>strncmp(id, p, strlen(p)) == 0\<close>\<close>
  "id_is p i \<longleftrightarrow> strncmp (length p) i p"

definition wt_doctor_category_rank :: "string \<Rightarrow> nat" where
  "wt_doctor_category_rank i =
     (if id_is ''WT-BLOCKER-'' i then 10
      else if id_is ''WT-UPDATE-'' i then 15
      else if id_is ''WT-POWER-'' i then 20
      else if id_is ''WT-MEMORY-'' i \<or> id_is ''WT-DISK-'' i \<or> id_is ''WT-CPU-'' i \<or> id_is ''WT-GPU-'' i \<or>
              id_is ''WT-RELIABILITY-'' i \<or> id_is ''WT-MAINT-'' i then 30
      else if id_is ''WT-BOOT-'' i then 40
      else if id_is ''WT-STARTUP-'' i then 50
      else if id_is ''WT-UNINSTALL-'' i then 55
      else if id_is ''WT-TASK-'' i then 60
      else 80)"

definition wt_doctor_step_less :: "WT_DoctorPlanStep \<Rightarrow> WT_DoctorPlanStep \<Rightarrow> bool" where
  "wt_doctor_step_less a b =
     (let ra = wt_doctor_category_rank (ds_rec_id a); rb = wt_doctor_category_rank (ds_rec_id b) in
      if ra \<noteq> rb then ra < rb
      else if ds_severity a \<noteq> ds_severity b then ds_severity a > ds_severity b
      else if ds_applyable a \<noteq> ds_applyable b then ds_applyable a > ds_applyable b
      else ds_rec_id a < ds_rec_id b)"

definition wt_doctor_fill_note :: "WT_DoctorPlanStep \<Rightarrow> WT_DoctorPlanStep" where
  "wt_doctor_fill_note s = s\<lparr>ds_note :=
     (if ds_applyable s
      then cch_copy 192 (''Confirm this apply separately'' @ (if ds_requires_admin s then '' (admin required)'' else []) @
             ''. Preview with --dry-run first if unsure.'')
      else cch_copy 192 ''Review only - no automatic apply. Follow the command.'')\<rparr>"

definition doctor_step :: "WT_Recommendation \<Rightarrow> WT_DoctorPlanStep" where
  "doctor_step r = wt_doctor_fill_note
     \<lparr>ds_order = 0, ds_rec_id = cch_copy 64 (rc_id r), ds_title = cch_copy 128 (rc_title r),
      ds_command = cch_copy 256 (rc_action r), ds_depends_on = [], ds_note = [],
      ds_severity = rc_severity r, ds_risk = rc_risk r, ds_requires_admin = rc_requires_admin r,
      ds_rollback_available = rc_rollback_available r, ds_confidence_percent = rc_confidence_percent r,
      ds_applyable = wt_doctor_step_is_applyable r\<rparr>"

section \<open>The order of the steps\<close>

definition doctor_key :: "WT_DoctorPlanStep \<Rightarrow> nat \<times> nat \<times> bool \<times> string" where
  "doctor_key s = (wt_doctor_category_rank (ds_rec_id s), 4 - severity_rank (ds_severity s), \<not> ds_applyable s, ds_rec_id s)"

interpretation doctor: keyed_less doctor_key wt_doctor_step_less
proof
  show "wt_doctor_step_less a b \<longleftrightarrow> doctor_key a < doctor_key b" for a b
    by (cases "ds_severity a"; cases "ds_severity b")
      (auto simp: wt_doctor_step_less_def doctor_key_def Let_def less_WT_Severity_def)
qed

section \<open>What a step waits for\<close>

record depend_state =
  last_blocker :: "string option"
  last_power :: "string option"
  last_startup :: "string option"

definition first_of :: "string option \<Rightarrow> string option \<Rightarrow> string" where
  "first_of a b = (case a of Some x \<Rightarrow> x | None \<Rightarrow> (case b of Some y \<Rightarrow> y | None \<Rightarrow> []))"

definition step_depends :: "depend_state \<Rightarrow> WT_DoctorPlanStep \<Rightarrow> string" where
  "step_depends d s =
     (let i = ds_rec_id s in cch_copy 64 (
      if id_is ''WT-UPDATE-'' i \<and> last_blocker d \<noteq> None then first_of (last_blocker d) None
      else if id_is ''WT-POWER-'' i \<and> last_blocker d \<noteq> None then first_of (last_blocker d) None
      else if id_is ''WT-STARTUP-'' i then first_of (last_power d) (last_blocker d)
      else if id_is ''WT-TASK-'' i then first_of (last_startup d) (last_power d)
      else if id_is ''WT-BOOT-'' i \<and> last_startup d \<noteq> None then first_of (last_startup d) None
      else []))"

definition depend_next :: "depend_state \<Rightarrow> WT_DoctorPlanStep \<Rightarrow> depend_state" where
  "depend_next d s =
     (let i = ds_rec_id s in
      if id_is ''WT-BLOCKER-'' i then d\<lparr>last_blocker := Some i\<rparr>
      else if id_is ''WT-POWER-'' i \<and> ds_applyable s then d\<lparr>last_power := Some i\<rparr>
      else if id_is ''WT-STARTUP-'' i then d\<lparr>last_startup := Some i\<rparr>
      else d)"

fun assign_depends :: "depend_state \<Rightarrow> WT_DoctorPlanStep list \<Rightarrow> WT_DoctorPlanStep list" where
  "assign_depends d [] = []"
| "assign_depends d (s # ss) = s\<lparr>ds_depends_on := step_depends d s\<rparr> # assign_depends (depend_next d s) ss"

definition wt_doctor_assign_depends :: "WT_DoctorPlanStep list \<Rightarrow> WT_DoctorPlanStep list" where
  "wt_doctor_assign_depends = assign_depends \<lparr>last_blocker = None, last_power = None, last_startup = None\<rparr>"

section \<open>The plan\<close>

definition number_steps :: "WT_DoctorPlanStep list \<Rightarrow> WT_DoctorPlanStep list" where
  "number_steps ss = map (\<lambda>(i, s). s\<lparr>ds_order := i + 1\<rparr>) (zip [0..<length ss] ss)"

definition wt_doctor_plan_build :: "WT_Recommendation list option \<Rightarrow> WT_Result \<times> WT_DoctorPlan" where
  "wt_doctor_plan_build recs =
     (case recs of None \<Rightarrow> (WT_ERR_INVALID_ARGUMENT, wt_doctor_plan_init)
      | Some rs \<Rightarrow>
         (let steps = map doctor_step (take WT_MAX_DOCTOR_STEPS rs)
          in (WT_OK, \<lparr>dp_steps = wt_doctor_assign_depends (number_steps (insertion_sort wt_doctor_step_less steps)),
                      dp_applyable_count = length (filter ds_applyable steps),
                      dp_review_count = length (filter (\<lambda>s. \<not> ds_applyable s) steps)\<rparr>)))"

section \<open>Printing\<close>

definition doctor_step_text :: "WT_DoctorPlanStep \<Rightarrow> string" where
  "doctor_step_text s =
     dec (ds_order s) @ ''. ['' @ ds_rec_id s @ ''] '' @ ds_title s @ '' - '' @
       (if ds_applyable s then ''APPLY'' else ''REVIEW'') @ nl @
     ''   Severity: '' @ wt_doctor_severity_name (ds_severity s) @ ''  Risk: '' @ wt_doctor_risk_name (ds_risk s) @
       ''  Confidence: '' @ dec_int (ds_confidence_percent s) @ ''%'' @ nl @
     (if ds_depends_on s \<noteq> [] then ''   After: '' @ ds_depends_on s @ nl else []) @
     ''   Command: '' @ ds_command s @ nl @
     (if ds_applyable s then ''   Preview: '' @ ds_command s @ '' --dry-run'' @ nl else []) @
     ''   Note: '' @ ds_note s @ nl @ nl"

definition wt_doctor_plan_print_text :: "WT_DoctorPlan \<Rightarrow> string" where
  "wt_doctor_plan_print_text p =
     nl @ ''Guided Doctor Plan'' @ nl @ ''------------------'' @ nl @
     dec (length (dp_steps p)) @ '' step(s): '' @ dec (dp_applyable_count p) @ '' can be applied with confirmation, '' @
     dec (dp_review_count p) @ '' review-only.'' @ nl @
     ''WinTune never applies the whole plan in one shot - confirm each mutating step (or use --dry-run to preview).'' @
     nl @ nl @
     (if dp_steps p = []
      then ''No steps. Nothing needs attention based on the current samples.'' @ nl
      else concat (map doctor_step_text (dp_steps p)))"

definition doctor_esc_char :: "char \<Rightarrow> string" where
  "doctor_esc_char c =
     (if c = CHR 0x22 \<or> c = CHR 0x5C then [CHR 0x5C, c]
      else if (of_char c :: nat) < 0x20 then CHR 0x5C # CHR ''u'' # hex4 (of_char c)
      else [c])"

definition wt_json_esc :: "string \<Rightarrow> string" where
  "wt_json_esc s = concat (map doctor_esc_char s)"

definition esc_text :: "string \<Rightarrow> string" where
  "esc_text s = CHR 0x22 # wt_json_esc s @ [CHR 0x22]"

definition doctor_step_json :: "WT_DoctorPlanStep \<Rightarrow> string" where
  "doctor_step_json s = json_object_text 6
     [(''order'', dec (ds_order s)), (''id'', esc_text (ds_rec_id s)), (''title'', esc_text (ds_title s)),
      (''command'', esc_text (ds_command s)),
      (''depends_on'', if ds_depends_on s \<noteq> [] then esc_text (ds_depends_on s) else ''null''),
      (''severity'', qkey (wt_doctor_severity_name (ds_severity s))),
      (''risk'', qkey (wt_doctor_risk_name (ds_risk s))),
      (''requires_admin'', json_bool_text (ds_requires_admin s)),
      (''rollback_available'', json_bool_text (ds_rollback_available s)),
      (''confidence_percent'', dec_int (ds_confidence_percent s)),
      (''applyable'', json_bool_text (ds_applyable s)),
      (''confirm_required'', json_bool_text (ds_applyable s)),
      (''note'', esc_text (ds_note s))]"

definition wt_doctor_plan_print_json :: "WT_DoctorPlan \<Rightarrow> string" where
  "wt_doctor_plan_print_json p = json_object_text 0
     [(''command'', qkey ''doctor''),
      (''guided_plan'', json_object_text 2
         [(''step_count'', dec (length (dp_steps p))), (''applyable_count'', dec (dp_applyable_count p)),
          (''review_count'', dec (dp_review_count p)),
          (''note'', qkey ''Confirm each apply separately. Never fix-everything with a single --yes.''),
          (''steps'', json_array_text 4 (map doctor_step_json (dp_steps p)))])] @ nl"

section \<open>The plan is ordered\<close>

definition step_core :: "WT_DoctorPlanStep \<Rightarrow> WT_DoctorPlanStep" where
  \<comment> \<open>a step without its number and its dependency\<close>
  "step_core s = s\<lparr>ds_order := 0, ds_depends_on := []\<rparr>"

fun waits_back :: "string set \<Rightarrow> WT_DoctorPlanStep list \<Rightarrow> bool" where
  \<comment> \<open>every step waits for nothing or for a step before it\<close>
  "waits_back seen [] = True"
| "waits_back seen (s # ss) = (ds_depends_on s \<in> insert [] seen \<and> waits_back (insert (ds_rec_id s) seen) ss)"

definition boot_waits_not :: "WT_DoctorPlanStep \<Rightarrow> bool" where
  "boot_waits_not s \<longleftrightarrow> (id_is ''WT-BOOT-'' (ds_rec_id s) \<longrightarrow> ds_depends_on s = [])"

lemma step_core_doctor: "step_core (doctor_step r) = doctor_step r"
  by (simp add: step_core_def doctor_step_def wt_doctor_fill_note_def)

lemma assign_core: "map step_core (assign_depends d ss) = map step_core ss"
  by (induction ss arbitrary: d) (simp_all add: step_core_def)

lemma assign_order: "map ds_order (assign_depends d ss) = map ds_order ss"
  by (induction ss arbitrary: d) simp_all

lemma assign_ids: "map ds_rec_id (assign_depends d ss) = map ds_rec_id ss"
  by (induction ss arbitrary: d) simp_all

lemma number_core: "map step_core (number_steps ss) = map step_core ss"
  by (auto simp: number_steps_def step_core_def case_prod_beta map_snd_zip_take intro: nth_equalityI)

lemma number_order: "map ds_order (number_steps ss) = [1..<Suc (length ss)]"
  by (rule nth_equalityI) (simp_all add: number_steps_def case_prod_beta del: upt_Suc)

lemma number_ids: "map ds_rec_id (number_steps ss) = map ds_rec_id ss"
  by (auto simp: number_steps_def case_prod_beta intro: nth_equalityI)

definition depend_ok :: "string set \<Rightarrow> depend_state \<Rightarrow> bool" where
  "depend_ok seen d \<longleftrightarrow> set_option (last_blocker d) \<union> set_option (last_power d) \<union> set_option (last_startup d) \<subseteq> seen"

lemma first_of_in: "set_option a \<union> set_option b \<subseteq> seen \<Longrightarrow> first_of a b \<in> insert [] seen"
  by (auto simp: first_of_def split: option.split)

lemma step_depends_in:
  assumes "depend_ok seen d" "\<forall>i \<in> seen. length i < 64"
  shows "step_depends d s \<in> insert [] seen"
proof -
  have c: "cch_copy 64 x \<in> insert [] seen" if "x \<in> insert [] seen" for x using that assms(2) by auto
  have o: "set_option (last_blocker d) \<subseteq> seen" "set_option (last_power d) \<subseteq> seen" "set_option (last_startup d) \<subseteq> seen"
    using assms(1) by (simp_all add: depend_ok_def)
  show ?thesis unfolding step_depends_def Let_def
    by (rule c) (use o in \<open>simp add: first_of_in insertI1 del: insert_iff\<close>)
qed

lemma depend_next_ok: "depend_ok seen d \<Longrightarrow> depend_ok (insert (ds_rec_id s) seen) (depend_next d s)"
  by (auto simp: depend_ok_def depend_next_def Let_def)

lemma assign_waits_back:
  "depend_ok seen d \<Longrightarrow> \<forall>i \<in> seen. length i < 64 \<Longrightarrow> \<forall>s \<in> set ss. length (ds_rec_id s) < 64 \<Longrightarrow>
   waits_back seen (assign_depends d ss)"
proof (induction ss arbitrary: seen d)
  case (Cons s ss)
  then show ?case using step_depends_in [of seen d s] depend_next_ok [of seen d s] by simp
qed simp

lemma id_is_apart: "id_is p i \<Longrightarrow> take (length q) p \<noteq> take (length p) q \<Longrightarrow> \<not> id_is q i"
  by (simp add: id_is_def strncmp_def) (metis take_all_iff le_refl take_take min.commute)

lemma boot_rank: "id_is ''WT-BOOT-'' i \<Longrightarrow> wt_doctor_category_rank i = 40"
  by (simp add: wt_doctor_category_rank_def id_is_apart [of "''WT-BOOT-''"])

lemma startup_rank: "id_is ''WT-STARTUP-'' i \<Longrightarrow> wt_doctor_category_rank i = 50"
  by (simp add: wt_doctor_category_rank_def id_is_apart [of "''WT-STARTUP-''"])

lemma boot_no_wait:
  assumes "sorted (map (wt_doctor_category_rank \<circ> ds_rec_id) ss)"
    "last_startup d \<noteq> None \<Longrightarrow> \<forall>s \<in> set ss. 50 \<le> wt_doctor_category_rank (ds_rec_id s)"
  shows "list_all boot_waits_not (assign_depends d ss)"
  using assms
proof (induction ss arbitrary: d)
  case (Cons s ss)
  have "boot_waits_not (s\<lparr>ds_depends_on := step_depends d s\<rparr>)"
  proof (cases "id_is ''WT-BOOT-'' (ds_rec_id s)")
    case True
    then have "last_startup d = None" using Cons.prems(2) boot_rank [OF True] by fastforce
    moreover have "\<not> id_is p (ds_rec_id s)" if "p \<in> {''WT-UPDATE-'', ''WT-POWER-'', ''WT-STARTUP-'', ''WT-TASK-''}" for p
      using that by (auto intro!: id_is_apart [OF True])
    ultimately show ?thesis by (simp add: boot_waits_not_def step_depends_def Let_def)
  qed (simp add: boot_waits_not_def)
  moreover have "\<forall>t \<in> set ss. 50 \<le> wt_doctor_category_rank (ds_rec_id t)" if "last_startup (depend_next d s) \<noteq> None"
  proof (cases "last_startup d = None")
    case True
    then have "id_is ''WT-STARTUP-'' (ds_rec_id s)" using that by (auto simp: depend_next_def Let_def split: if_splits)
    then have "wt_doctor_category_rank (ds_rec_id s) = 50" by (rule startup_rank)
    then show ?thesis using Cons.prems(1) by auto
  next
    case False
    then show ?thesis using Cons.prems(2) by auto
  qed
  ultimately show ?case using Cons.IH [of "depend_next d s"] Cons.prems(1) by simp
qed simp

lemma number_rank: "map (wt_doctor_category_rank \<circ> ds_rec_id) (number_steps ss) = map (wt_doctor_category_rank \<circ> ds_rec_id) ss"
  using number_ids [of ss] by (metis map_map)

text \<open>C24. The guided plan: built from at most 32 recommendations, it holds each of them once, in the order of
  category, falling severity, applyable first, identifier (the insertion sort is the stable sort by that key); the
  steps are numbered from 1, the two counts add up to them, a step waits for nothing or for a step before it, and
  a boot step never waits (its branch asks for a startup step before it, and boot steps come first).\<close>
theorem doctor_plan_ordered:
  "let (r, plan) = wt_doctor_plan_build (Some rs); steps = map doctor_step (take 32 rs) in
     r = WT_OK \<and> map step_core (dp_steps plan) = sort_key doctor_key steps \<and>
     map ds_order (dp_steps plan) = [1..<Suc (length steps)] \<and>
     dp_applyable_count plan + dp_review_count plan = length steps \<and>
     waits_back {} (dp_steps plan) \<and> list_all boot_waits_not (dp_steps plan)"
proof -
  define steps where "steps = map doctor_step (take 32 rs)"
  define ss where "ss = number_steps (insertion_sort wt_doctor_step_less steps)"
  define d where "d = \<lparr>last_blocker = None, last_power = None, last_startup = None :: string option\<rparr>"
  have "map step_core (assign_depends d ss) = map step_core (insertion_sort wt_doctor_step_less steps)"
    by (simp add: ss_def assign_core number_core)
  also have "\<dots> = sort_key doctor_key steps"
  proof -
    have "map step_core xs = xs" if "set xs \<subseteq> set steps" for xs
      using that step_core_doctor by (intro map_idI) (auto simp: steps_def)
    then show ?thesis unfolding doctor.sort_is_stable_sort by simp
  qed
  finally have core: "map step_core (assign_depends d ss) = sort_key doctor_key steps" .
  have num: "map ds_order (assign_depends d ss) = [1..<Suc (length steps)]"
    by (simp only: ss_def assign_order number_order length_insertion_sort)
  have short: "\<forall>s \<in> set ss. length (ds_rec_id s) < 64"
  proof -
    have "ds_rec_id ` set ss = ds_rec_id ` set steps"
      using arg_cong [OF number_ids, of set "insertion_sort wt_doctor_step_less steps"] by (simp add: ss_def)
    moreover have "\<forall>i \<in> ds_rec_id ` set steps. length i < 64"
      by (auto simp: steps_def doctor_step_def wt_doctor_fill_note_def length_cch_copy)
    ultimately show ?thesis by (metis image_eqI)
  qed
  have waits: "waits_back {} (assign_depends d ss)"
    by (rule assign_waits_back) (use short in \<open>simp_all add: depend_ok_def d_def\<close>)
  have "sorted (map (wt_doctor_category_rank \<circ> ds_rec_id) ss)"
  proof -
    have "sorted (map doctor_key (insertion_sort wt_doctor_step_less steps))" by (rule doctor.sorted_keys)
    then have "sorted (map fst (map doctor_key (insertion_sort wt_doctor_step_less steps)))"
      by (auto simp: sorted_wrt_map less_eq_prod_def elim!: sorted_wrt_mono_rel [rotated])
    moreover have "fst \<circ> doctor_key = wt_doctor_category_rank \<circ> ds_rec_id" by (auto simp: doctor_key_def)
    ultimately show ?thesis by (simp add: ss_def number_rank)
  qed
  then have boot: "list_all boot_waits_not (assign_depends d ss)"
    by (rule boot_no_wait) (simp add: d_def)
  have b: "wt_doctor_plan_build (Some rs) = (WT_OK, \<lparr>dp_steps = assign_depends d ss,
      dp_applyable_count = length (filter ds_applyable steps),
      dp_review_count = length (filter (\<lambda>s. \<not> ds_applyable s) steps)\<rparr>)"
    by (simp add: wt_doctor_plan_build_def Let_def ss_def steps_def d_def wt_doctor_assign_depends_def
        WT_MAX_DOCTOR_STEPS_def WT_MAX_RECOMMENDATIONS_def)
  show ?thesis
    unfolding b Let_def prod.case WT_DoctorPlan.simps steps_def [symmetric]
    using core num waits boot sum_length_filter_compl [of ds_applyable steps] by blast
qed

section \<open>The plan of the recommendations\<close>

definition reversible_step :: "WT_DoctorPlanStep \<Rightarrow> bool" where
  "reversible_step s \<longleftrightarrow> (ds_applyable s \<longrightarrow>
     ds_rollback_available s \<and> ds_risk s \<in> {WT_RISK_NONE, WT_RISK_LOW} \<and> prefix ''wintune apply '' (ds_command s))"

lemma strncmp_prefix: "strncmp n s t \<Longrightarrow> length p \<le> n \<Longrightarrow> prefix p t \<Longrightarrow> prefix p s"
proof -
  assume c: "strncmp n s t" and n: "length p \<le> n" and p: "prefix p t"
  have "prefix p (take n t)" using p n by (auto simp: prefix_def)
  then have "prefix p (take n s)" using c by (simp add: strncmp_def)
  then show ?thesis using take_is_prefix prefix_order.trans by blast
qed

lemma applyable_rollback:
  assumes "rec_ok r" "wt_doctor_step_is_applyable r"
  shows "rc_rollback_available r"
proof (cases "rc_id r = ''WT-POWER-001'' \<or> rc_id r = ''WT-POWER-002''")
  case True
  then show ?thesis using assms(1) by (auto simp: rec_ok_def rec_safe_def)
next
  case False
  then have "prefix ''wintune apply '' (rc_action r)"
    using assms(2) by (auto simp: wt_doctor_step_is_applyable_def elim!: strncmp_prefix split: if_splits)
  then show ?thesis using assms(1) by (simp add: rec_ok_def rec_safe_def)
qed

lemma doctor_step_sel:
  "rec_ok r \<Longrightarrow> ds_rec_id (doctor_step r) = rc_id r" "rec_ok r \<Longrightarrow> ds_command (doctor_step r) = rc_action r"
  "ds_applyable (doctor_step r) = wt_doctor_step_is_applyable r"
  "ds_rollback_available (doctor_step r) = rc_rollback_available r" "ds_risk (doctor_step r) = rc_risk r"
  by (simp_all add: doctor_step_def wt_doctor_fill_note_def rec_ok_def rec_fits_def)

lemma reversible_doctor:
  assumes "rec_ok r"
  shows "reversible_step (doctor_step r)"
proof -
  have "rc_risk r \<in> {WT_RISK_NONE, WT_RISK_LOW}" "prefix ''wintune apply '' (rc_action r) \<longleftrightarrow> rc_rollback_available r"
    using assms by (simp_all add: rec_ok_def rec_safe_def)
  then show ?thesis unfolding reversible_step_def doctor_step_sel(1,2) [OF assms] doctor_step_sel(3-5)
    using applyable_rollback [OF assms] by blast
qed

text \<open>C25. From scan to plan: the plan made of the engine's recommendations has one step for each of them, and every
  step it offers to apply names an apply command, is of low risk and can be rolled back.\<close>
theorem doctor_offers_reversible_steps:
  "let rs = snd (wt_generate_recommendations w (Some rep)); (r, plan) = wt_doctor_plan_build (Some rs) in
     r = WT_OK \<and> mset (map ds_rec_id (dp_steps plan)) = mset (map rc_id rs) \<and>
     list_all reversible_step (dp_steps plan)"
proof -
  define rs where "rs = snd (wt_generate_recommendations w (Some rep))"
  note g = generate_facts [OF rs_def]
  have t: "take WT_MAX_DOCTOR_STEPS rs = rs"
    using g(2) by (simp add: WT_MAX_DOCTOR_STEPS_def WT_MAX_RECOMMENDATIONS_def)
  define plan where "plan = snd (wt_doctor_plan_build (Some rs))"
  define ss where "ss = insertion_sort wt_doctor_step_less (map doctor_step rs)"
  have plan: "dp_steps plan = wt_doctor_assign_depends (number_steps ss)"
    unfolding plan_def wt_doctor_plan_build_def by (simp add: Let_def t ss_def)
  have ids: "map ds_rec_id (dp_steps plan) = map ds_rec_id ss"
    unfolding plan wt_doctor_assign_depends_def by (simp add: assign_ids number_ids)
  have "mset (map ds_rec_id ss) = mset (map rc_id rs)"
  proof -
    have "mset (map ds_rec_id ss) = image_mset ds_rec_id (mset (map doctor_step rs))"
      by (simp only: ss_def mset_insertion_sort mset_map)
    also have "\<dots> = mset (map (ds_rec_id \<circ> doctor_step) rs)" by (simp add: multiset.map_comp)
    also have "map (ds_rec_id \<circ> doctor_step) rs = map rc_id rs" using g(4) doctor_step_sel(1) by simp
    finally show ?thesis .
  qed
  moreover have "list_all reversible_step (dp_steps plan)"
  proof -
    have core: "map step_core (dp_steps plan) = map step_core ss"
      unfolding plan wt_doctor_assign_depends_def by (simp add: assign_core number_core)
    have "reversible_step (step_core s) \<longleftrightarrow> reversible_step s" for s
      by (simp add: reversible_step_def step_core_def)
    then have "list_all reversible_step (dp_steps plan) \<longleftrightarrow> list_all reversible_step (map step_core (dp_steps plan))"
      by (simp add: list_all_iff)
    also have "\<dots>" unfolding core list_all_iff using g(4) reversible_doctor
      \<open>\<And>s. reversible_step (step_core s) \<longleftrightarrow> reversible_step s\<close> by (auto simp: ss_def)
    finally show ?thesis .
  qed
  moreover have "wt_doctor_plan_build (Some rs) = (WT_OK, plan)"
    by (simp add: plan_def wt_doctor_plan_build_def Let_def)
  ultimately show ?thesis unfolding rs_def [symmetric] Let_def by (simp only: ids prod.case simp_thms)
qed

section \<open>The JSON of a plan\<close>

definition doctor_step_doc :: "WT_DoctorPlanStep \<Rightarrow> json_value" where
  "doctor_step_doc s = JObj
     [(''order'', JUInt (of_nat (ds_order s))), (''id'', JStr (ds_rec_id s)), (''title'', JStr (ds_title s)),
      (''command'', JStr (ds_command s)),
      (''depends_on'', if ds_depends_on s \<noteq> [] then JStr (ds_depends_on s) else JNull),
      (''severity'', JStr (wt_doctor_severity_name (ds_severity s))),
      (''risk'', JStr (wt_doctor_risk_name (ds_risk s))),
      (''requires_admin'', JBool (ds_requires_admin s)),
      (''rollback_available'', JBool (ds_rollback_available s)),
      (''confidence_percent'', JUInt (of_nat (nat (ds_confidence_percent s)))),
      (''applyable'', JBool (ds_applyable s)),
      (''confirm_required'', JBool (ds_applyable s)),
      (''note'', JStr (ds_note s))]"

definition doctor_doc :: "WT_DoctorPlan \<Rightarrow> json_value" where
  "doctor_doc p = JObj
     [(''command'', JStr ''doctor''),
      (''guided_plan'', JObj
         [(''step_count'', JUInt (of_nat (length (dp_steps p)))), (''applyable_count'', JUInt (of_nat (dp_applyable_count p))),
          (''review_count'', JUInt (of_nat (dp_review_count p))),
          (''note'', JStr ''Confirm each apply separately. Never fix-everything with a single --yes.''),
          (''steps'', JArr (map doctor_step_doc (dp_steps p)))])]"

lemma read_doctor_esc:
  "read_string (doctor_esc_char c @ r) = (case read_string r of None \<Rightarrow> None | Some (t, q) \<Rightarrow> Some (c # t, q))"
proof (cases "c \<noteq> CHR 0x22 \<and> c \<noteq> CHR 0x5C \<and> (of_char c :: nat) < 0x20")
  case True
  then show ?thesis using read_u_hex4 [of "of_char c" r]
    by (simp add: doctor_esc_char_def read_string_Cons read_escape_def)
next
  case False
  then show ?thesis by (auto simp: doctor_esc_char_def read_string_Cons read_escape_def)
qed

lemma reads_esc: "reads (JStr s) (esc_text s)"
proof -
  have "read_string (wt_json_esc s @ CHR 0x22 # r) = Some (s, r)" for r
    by (induction s) (simp_all add: wt_json_esc_def read_string_Cons read_doctor_esc)
  then show ?thesis unfolding esc_text_def by (rule reads_quoted)
qed

lemma reads_severity: "reads (JStr (wt_doctor_severity_name v)) (qkey (wt_doctor_severity_name v))"
  by (rule reads_key, cases v) (simp_all add: wt_doctor_severity_name_def plain_key_def json_escape_char_def)

lemma reads_risk: "reads (JStr (wt_doctor_risk_name k)) (qkey (wt_doctor_risk_name k))"
  by (rule reads_key, cases k) (simp_all add: wt_doctor_risk_name_def plain_key_def json_escape_char_def)

lemma reads_confidence: "0 \<le> c \<Longrightarrow> c < 2 ^ 64 \<Longrightarrow> reads (JUInt (of_nat (nat c))) (dec_int c)"
  using reads_nat [of "nat c"] by (simp add: dec_int_def nat_less_iff)

lemma reads_step:
  assumes "0 \<le> ds_confidence_percent s" "ds_confidence_percent s < 2 ^ 64" "ds_order s < 2 ^ 64"
  shows "reads (doctor_step_doc s) (doctor_step_json s)"
  unfolding doctor_step_doc_def doctor_step_json_def
  by (rule reads_object)
    (simp_all add: plain_key_def json_escape_char_def reads_esc reads_severity reads_risk reads_bool reads_null
      reads_nat [OF assms(3)] reads_confidence [OF assms(1,2)])

lemma plan_steps_facts:
  assumes "\<forall>r \<in> set rs. rec_ok r" "plan = snd (wt_doctor_plan_build (Some rs))"
  shows "length (dp_steps plan) \<le> 32" "dp_applyable_count plan \<le> 32" "dp_review_count plan \<le> 32"
    "\<forall>s \<in> set (dp_steps plan). 0 \<le> ds_confidence_percent s \<and> ds_confidence_percent s \<le> 95 \<and> ds_order s \<le> 32"
proof -
  define steps where "steps = map doctor_step (take 32 rs)"
  have m: "WT_MAX_DOCTOR_STEPS = 32" by (simp add: WT_MAX_DOCTOR_STEPS_def WT_MAX_RECOMMENDATIONS_def)
  have plan: "dp_steps plan = wt_doctor_assign_depends (number_steps (insertion_sort wt_doctor_step_less steps))"
    "dp_applyable_count plan = length (filter ds_applyable steps)"
    "dp_review_count plan = length (filter (\<lambda>s. \<not> ds_applyable s) steps)"
    unfolding assms(2) wt_doctor_plan_build_def steps_def m by (simp_all add: Let_def)
  have len: "length steps \<le> 32" by (simp add: steps_def)
  then show "dp_applyable_count plan \<le> 32" "dp_review_count plan \<le> 32"
    using length_filter_le [of ds_applyable steps] length_filter_le [of "\<lambda>s. \<not> ds_applyable s" steps]
    by (simp_all only: plan)
  have core: "map step_core (dp_steps plan) = map step_core (insertion_sort wt_doctor_step_less steps)"
    unfolding plan wt_doctor_assign_depends_def by (simp add: assign_core number_core)
  have ord: "map ds_order (dp_steps plan) = [1..<Suc (length steps)]"
    unfolding plan wt_doctor_assign_depends_def by (simp only: assign_order number_order length_insertion_sort)
  show "length (dp_steps plan) \<le> 32" using len arg_cong [OF ord, of length] by (simp del: upt_Suc)
  show "\<forall>s \<in> set (dp_steps plan). 0 \<le> ds_confidence_percent s \<and> ds_confidence_percent s \<le> 95 \<and> ds_order s \<le> 32"
  proof
    fix s assume s: "s \<in> set (dp_steps plan)"
    have "ds_order s \<in> set [1..<Suc (length steps)]" using s unfolding ord [symmetric] by simp
    then have "ds_order s \<le> 32" using len by (auto simp del: upt_Suc)
    moreover have "step_core s \<in> set (map step_core (insertion_sort wt_doctor_step_less steps))"
      using s unfolding core [symmetric] by simp
    then obtain r where r: "r \<in> set rs" "step_core s = step_core (doctor_step r)"
      by (auto simp: steps_def dest: in_set_takeD)
    have "ds_confidence_percent (step_core t) = ds_confidence_percent t" for t by (simp add: step_core_def)
    then have "ds_confidence_percent s = ds_confidence_percent (doctor_step r)" using r(2) by metis
    then have "ds_confidence_percent s = rc_confidence_percent r \<and> rec_ok r"
      using assms(1) r(1) by (simp add: doctor_step_def wt_doctor_fill_note_def)
    then have "0 \<le> ds_confidence_percent s \<and> ds_confidence_percent s \<le> 95"
      by (auto simp: rec_ok_def rec_safe_def)
    ultimately show "0 \<le> ds_confidence_percent s \<and> ds_confidence_percent s \<le> 95 \<and> ds_order s \<le> 32"
      by simp
  qed
qed

text \<open>C26. The JSON of the plan, written by hand with its own escapes, is well formed whatever the texts hold: a JSON
  reader gives back the command, the counts and every field of every step, a missing dependency as null.\<close>
theorem doctor_json_reads:
  "let rs = snd (wt_generate_recommendations w (Some rep)); plan = snd (wt_doctor_plan_build (Some rs)) in
     read_document (wt_doctor_plan_print_json plan) = Some (doctor_doc plan)"
proof -
  define rs where "rs = snd (wt_generate_recommendations w (Some rep))"
  define plan where "plan = snd (wt_doctor_plan_build (Some rs))"
  note f = plan_steps_facts [OF generate_facts(4) [OF rs_def] plan_def]
  have steps: "list_all2 reads (map doctor_step_doc (dp_steps plan)) (map doctor_step_json (dp_steps plan))"
    using f(4) by (auto simp: list.rel_map list_all2_same intro!: reads_step)
  have guided: "reads (JObj [(''step_count'', JUInt (of_nat (length (dp_steps plan)))),
      (''applyable_count'', JUInt (of_nat (dp_applyable_count plan))),
      (''review_count'', JUInt (of_nat (dp_review_count plan))),
      (''note'', JStr ''Confirm each apply separately. Never fix-everything with a single --yes.''),
      (''steps'', JArr (map doctor_step_doc (dp_steps plan)))])
    (json_object_text 2 [(''step_count'', dec (length (dp_steps plan))), (''applyable_count'', dec (dp_applyable_count plan)),
          (''review_count'', dec (dp_review_count plan)),
          (''note'', qkey ''Confirm each apply separately. Never fix-everything with a single --yes.''),
          (''steps'', json_array_text 4 (map doctor_step_json (dp_steps plan)))])"
    by (rule reads_object) (use f(1-3) in
      \<open>simp_all add: plain_key_def json_escape_char_def reads_nat reads_key reads_array [OF steps]\<close>)
  have "reads (doctor_doc plan) (json_object_text 0 [(''command'', qkey ''doctor''),
      (''guided_plan'', json_object_text 2 [(''step_count'', dec (length (dp_steps plan))),
          (''applyable_count'', dec (dp_applyable_count plan)),
          (''review_count'', dec (dp_review_count plan)),
          (''note'', qkey ''Confirm each apply separately. Never fix-everything with a single --yes.''),
          (''steps'', json_array_text 4 (map doctor_step_json (dp_steps plan)))])])"
    unfolding doctor_doc_def
    by (rule reads_object) (simp_all add: plain_key_def json_escape_char_def reads_key guided)
  from reads_document [OF this, of nl] show ?thesis
    unfolding rs_def [symmetric] plan_def [symmetric] Let_def wt_doctor_plan_print_json_def by simp
qed

end
