(* ===== verification/Rollback_Store.thy ===== *)
theory Rollback_Store
  imports Power_Plan Json_Text
begin

text \<open>
  The state the actions change, and the rollback records (\<open>src/actions/rollback.c\<close> up to \<open>wt_rollback_list\<close>,
  the directories of \<open>src/platform/paths.c\<close>, the confirmation of \<open>safe_actions.c\<close>).

  \<open>machine\<close> is the state: the active power plan, the values under the \<open>StartupApproved\<close> keys, the stored tasks,
  the files, the commands sent to services, the identity cache, the number of clock readings and service polls, and
  what is left to read from standard input. \<open>action_env\<close> holds the answers of Windows, which the actions do not
  change: the codes of the registry, task, service and power calls, the environment, the clock, the conversion
  between UTF-8 and wide text. Names of registry keys and values are compared without case.
\<close>

section \<open>State and environment\<close>

datatype hive = HKEY_LOCAL_MACHINE | HKEY_CURRENT_USER

datatype svc_command = SVC_STOP | SVC_START

datatype svc_open = SVC_OPENED | SVC_MISSING | SVC_DENIED

record systemtime =
  wYear :: nat
  wMonth :: nat
  wDay :: nat
  wHour :: nat
  wMinute :: nat
  wSecond :: nat
  wMilliseconds :: nat

record machine =
  mc_plan :: "GUID option"
  mc_registry :: "hive \<times> string \<times> string \<Rightarrow> byte list option"
  mc_tasks :: task_store
  mc_files :: "string \<Rightarrow> string option"
  mc_services :: "(string \<times> svc_command) list"
  mc_cache :: identity_cache
  mc_clock :: nat
  mc_polls :: nat
  mc_input :: string

record action_env =
  ae_power :: power_api
  ae_startup :: startup_world
  ae_com :: sched_com
  ae_tree :: "task_store \<Rightarrow> task_folder"
  ae_reg_create :: "hive \<Rightarrow> string \<Rightarrow> win_error option"
  ae_reg_set :: "hive \<Rightarrow> string \<Rightarrow> string \<Rightarrow> win_error option"
  ae_reg_open :: "hive \<Rightarrow> string \<Rightarrow> bool"
  ae_elevated :: bool
  ae_interactive :: bool
  ae_localappdata :: string
  ae_mkdir :: "string \<Rightarrow> bool"
  ae_create_file :: "string \<Rightarrow> bool"
  ae_find_json :: "(string \<Rightarrow> string option) \<Rightarrow> string \<Rightarrow> (string \<times> bool) list"
  ae_local_time :: "nat \<Rightarrow> systemtime"
  ae_utc_time :: "nat \<Rightarrow> systemtime"
  ae_utf8 :: "nat \<Rightarrow> string \<Rightarrow> string"
  ae_wide :: "nat \<Rightarrow> string \<Rightarrow> string"
  ae_scm :: bool
  ae_open_service :: "string \<Rightarrow> svc_open"
  ae_query :: "(string \<times> svc_command) list \<Rightarrow> nat \<Rightarrow> string \<Rightarrow> (nat \<times> nat) option"
  ae_control :: "(string \<times> svc_command) list \<Rightarrow> string \<Rightarrow> svc_command \<Rightarrow> bool"

section \<open>Confirmation\<close>

fun fgets_line :: "nat \<Rightarrow> string \<Rightarrow> string \<times> string" where
  \<comment> \<open>\<open>fgets\<close> with room for \<open>n\<close> units: up to and with the newline, the rest stays in the stream\<close>
  "fgets_line 0 s = ([], s)"
| "fgets_line (Suc n) [] = ([], [])"
| "fgets_line (Suc n) (c # cs) =
     (if c = CHR 0x0A then ([c], cs) else (case fgets_line n cs of (l, r) \<Rightarrow> (c # l, r)))"

fun answer_is_yes :: "string \<Rightarrow> bool" where
  "answer_is_yes [] = False"
| "answer_is_yes (c # cs) =
     (if c = CHR '' '' \<or> c = CHR 0x09 then answer_is_yes cs else c = CHR ''y'' \<or> c = CHR ''Y'')"

definition wt_action_confirm :: "action_env \<Rightarrow> bool \<Rightarrow> machine \<Rightarrow> bool \<times> machine" where
  "wt_action_confirm env assume_yes m =
     (if assume_yes then (True, m)
      else if \<not> ae_interactive env then (False, m)
      else if mc_input m = [] then (False, m)
      else (case fgets_line 15 (mc_input m) of (l, r) \<Rightarrow> (answer_is_yes l, m\<lparr>mc_input := r\<rparr>)))"

section \<open>Directories\<close>

definition wt_paths_user_data_dir :: "action_env \<Rightarrow> nat \<Rightarrow> WT_Result \<times> string" where
  "wt_paths_user_data_dir env count =
     (if count = 0 then (WT_ERR_INVALID_ARGUMENT, [])
      else let base = ae_localappdata env
           in if length base = 0 \<or> length base \<ge> MAX_PATH then (WT_ERR_NOT_FOUND, [])
              else if \<not> cch_fits count (base @ bsl ''/WinTune'') then (WT_ERR_BUFFER_TOO_SMALL, cch_copy count (base @ bsl ''/WinTune''))
              else (WT_OK, base @ bsl ''/WinTune''))"

definition wt_paths_rollback_dir :: "action_env \<Rightarrow> nat \<Rightarrow> WT_Result \<times> string" where
  "wt_paths_rollback_dir env count =
     (if count = 0 then (WT_ERR_INVALID_ARGUMENT, [])
      else case wt_paths_user_data_dir env MAX_PATH of (r, base) \<Rightarrow>
        if r \<noteq> WT_OK then (r, [])
        else if \<not> cch_fits count (base @ bsl ''/rollback'') then (WT_ERR_BUFFER_TOO_SMALL, cch_copy count (base @ bsl ''/rollback''))
        else (WT_OK, base @ bsl ''/rollback''))"

fun dir_prefixes :: "string \<Rightarrow> string \<Rightarrow> string list" where
  \<comment> \<open>the directories the loop creates: up to each separator, the drive root apart\<close>
  "dir_prefixes before [] = []"
| "dir_prefixes before (c # cs) =
     (if (c = CHR 0x5C \<or> c = CHR ''/'') \<and> before \<noteq> [] \<and> last before \<noteq> CHR '':'' then [before] else []) @
     dir_prefixes (before @ [c]) cs"

definition wt_paths_ensure_dir :: "action_env \<Rightarrow> string \<Rightarrow> WT_Result" where
  "wt_paths_ensure_dir env dir =
     (if dir = [] then WT_ERR_INVALID_ARGUMENT
      else if \<not> cch_fits MAX_PATH dir then WT_ERR_BUFFER_TOO_SMALL
      else if list_all (ae_mkdir env) (dir_prefixes [] dir @ [dir]) then WT_OK else WT_ERR_WIN32)"

section \<open>Records\<close>

record WT_RollbackRecord =
  rr_id :: string
  rr_timestamp_utc :: string
  rr_action_type :: string
  rr_action_id :: string
  rr_description :: string
  rr_previous_value :: string
  rr_new_value :: string

definition zero_WT_RollbackRecord :: WT_RollbackRecord where
  "zero_WT_RollbackRecord = \<lparr>rr_id = [], rr_timestamp_utc = [], rr_action_type = [], rr_action_id = [],
     rr_description = [], rr_previous_value = [], rr_new_value = []\<rparr>"

definition dec_pad :: "nat \<Rightarrow> nat \<Rightarrow> string" where
  \<comment> \<open>\<open>%0wu\<close>\<close>
  "dec_pad w n = replicate (w - length (dec n)) (CHR ''0'') @ dec n"

definition rollback_esc_char :: "char \<Rightarrow> string" where
  "rollback_esc_char c =
     (if c = CHR 0x22 then [CHR 0x5C, CHR 0x22] else if c = CHR 0x5C then [CHR 0x5C, CHR 0x5C]
      else if c = CHR 0x0A then [CHR 0x5C, CHR ''n''] else if c = CHR 0x0D then [CHR 0x5C, CHR ''r'']
      else if c = CHR 0x09 then [CHR 0x5C, CHR ''t'']
      else if (of_char c :: nat) < 0x20 then CHR 0x5C # CHR ''u'' # hex4 (of_char c) else [c])"

definition rollback_escaped :: "string \<Rightarrow> string" where
  "rollback_escaped s = concat (map rollback_esc_char s)"

definition wt_json_field_w :: "action_env \<Rightarrow> string \<Rightarrow> string \<Rightarrow> bool \<Rightarrow> string" where
  "wt_json_field_w env key val trailing_comma =
     ''  '' @ qkey key @ '': '' @ [CHR 0x22] @ rollback_escaped (ae_utf8 env 1024 val) @ [CHR 0x22] @
     (if trailing_comma then '','' else []) @ nl"

definition get_pattern :: "string \<Rightarrow> string" where
  "get_pattern key = qkey key"

fun get_chars :: "string \<Rightarrow> string" where
  \<comment> \<open>the loop over the value: up to the closing quote, escapes undone\<close>
  "get_chars [] = []"
| "get_chars [c] = (if c = CHR 0x22 then [] else [c])"
| "get_chars (c # e # cs) =
     (if c = CHR 0x22 then []
      else if c = CHR 0x5C
      then (if e = CHR ''n'' then CHR 0x0A else if e = CHR ''t'' then CHR 0x09
            else if e = CHR ''r'' then CHR 0x0D else e) # get_chars cs
      else c # get_chars (e # cs))"

definition wt_json_get :: "string \<Rightarrow> string \<Rightarrow> nat \<Rightarrow> bool \<times> string" where
  "wt_json_get buf key cap =
     (if cap = 0 then (False, [])
      else if \<not> cch_fits 96 (get_pattern key) then (False, [])
      else case strstr buf (get_pattern key) of
        None \<Rightarrow> (False, [])
      | Some p \<Rightarrow>
         (case dropWhile (\<lambda>c. c = CHR '' '' \<or> c = CHR '':'' \<or> c = CHR 0x09) (drop (length (get_pattern key)) p) of
            [] \<Rightarrow> (False, [])
          | c # q \<Rightarrow> if c \<noteq> CHR 0x22 then (False, []) else (True, cch_copy cap (get_chars q))))"

definition wt_rollback_record_path :: "action_env \<Rightarrow> string \<Rightarrow> nat \<Rightarrow> WT_Result \<times> string" where
  "wt_rollback_record_path env rid cap =
     (case wt_paths_rollback_dir env MAX_PATH of (r, dir) \<Rightarrow>
        if r \<noteq> WT_OK then (r, [])
        else let p = dir @ bsl ''/'' @ rid @ ''.json''
             in if \<not> cch_fits cap p then (WT_ERR_BUFFER_TOO_SMALL, cch_copy cap p) else (WT_OK, p))"

definition record_id :: "systemtime \<Rightarrow> string" where
  "record_id lt = cch_copy 48 (dec_pad 4 (wYear lt) @ dec_pad 2 (wMonth lt) @ dec_pad 2 (wDay lt) @ ''-'' @
     dec_pad 2 (wHour lt) @ dec_pad 2 (wMinute lt) @ dec_pad 2 (wSecond lt) @ ''-'' @ dec_pad 3 (wMilliseconds lt))"

definition record_timestamp :: "systemtime \<Rightarrow> string" where
  "record_timestamp ut = cch_copy 32 (dec_pad 4 (wYear ut) @ ''-'' @ dec_pad 2 (wMonth ut) @ ''-'' @
     dec_pad 2 (wDay ut) @ ''T'' @ dec_pad 2 (wHour ut) @ '':'' @ dec_pad 2 (wMinute ut) @ '':'' @
     dec_pad 2 (wSecond ut) @ ''Z'')"

definition record_text :: "action_env \<Rightarrow> WT_RollbackRecord \<Rightarrow> string" where
  "record_text env rec = ''{'' @ nl @ wt_json_field_w env ''id'' (rr_id rec) True @
     ''  '' @ qkey ''timestamp_utc'' @ '': '' @ qkey (rr_timestamp_utc rec) @ '','' @ nl @
     wt_json_field_w env ''action_id'' (rr_action_id rec) True @
     wt_json_field_w env ''action_type'' (rr_action_type rec) True @
     wt_json_field_w env ''description'' (rr_description rec) True @
     wt_json_field_w env ''previous_value'' (rr_previous_value rec) True @
     wt_json_field_w env ''new_value'' (rr_new_value rec) True @
     wt_json_field_w env ''rollback_command'' (cch_copy 128 (''wintune rollback apply '' @ rr_id rec)) False @
     ''}'' @ nl"

definition wt_rollback_write ::
  "action_env \<Rightarrow> WT_RollbackRecord \<Rightarrow> machine \<Rightarrow> WT_Result \<times> WT_RollbackRecord \<times> machine" where
  "wt_rollback_write env rec m =
     (case wt_paths_rollback_dir env MAX_PATH of (r, dir) \<Rightarrow>
        if r \<noteq> WT_OK then (r, rec, m)
        else if wt_paths_ensure_dir env dir \<noteq> WT_OK then (wt_paths_ensure_dir env dir, rec, m)
        else let rec = rec\<lparr>rr_id := record_id (ae_local_time env (mc_clock m)),
                   rr_timestamp_utc := record_timestamp (ae_utc_time env (mc_clock m))\<rparr>;
                 m = m\<lparr>mc_clock := Suc (mc_clock m)\<rparr>
             in (case wt_rollback_record_path env (rr_id rec) MAX_PATH of (r, path) \<Rightarrow>
                   if r \<noteq> WT_OK then (r, rec, m)
                   else if \<not> ae_create_file env path then (WT_ERR_WIN32, rec, m)
                   else (WT_OK, rec, m\<lparr>mc_files := (mc_files m)(path := Some (record_text env rec))\<rparr>)))"

definition wt_read_file_utf8 :: "machine \<Rightarrow> string \<Rightarrow> string option" where
  \<comment> \<open>the buffer as a C string, none above 1 MiB\<close>
  "wt_read_file_utf8 m path =
     (case mc_files m path of None \<Rightarrow> None
      | Some t \<Rightarrow> if length t > 2 ^ 20 then None else Some (takeWhile (\<lambda>c. c \<noteq> CHR 0x00) t))"

section \<open>Listing\<close>

definition pad_right :: "nat \<Rightarrow> string \<Rightarrow> string" where
  \<comment> \<open>\<open>%-ws\<close>\<close>
  "pad_right w s = s @ replicate (w - length s) (CHR '' '')"

definition list_item_json :: "string \<Rightarrow> string" where
  "list_item_json buf =
     (let get = (\<lambda>key cap. snd (wt_json_get buf key cap));
          field = (\<lambda>key v. ''    '' @ qkey key @ '': '' @ [CHR 0x22] @ v @ [CHR 0x22])
      in ''  {'' @ nl @ field ''id'' (get ''id'' 64) @ '','' @ nl @
         field ''timestamp_utc'' (get ''timestamp_utc'' 40) @ '','' @ nl @
         field ''action_type'' (get ''action_type'' 80) @ '','' @ nl @
         field ''action_id'' (rollback_escaped (get ''action_id'' 128)) @ '','' @ nl @
         field ''description'' (rollback_escaped (get ''description'' 256)) @ '','' @ nl @
         field ''previous_value'' (rollback_escaped (get ''previous_value'' 512)) @ '','' @ nl @
         field ''new_value'' (rollback_escaped (get ''new_value'' 512)) @ nl @ ''  }'')"

definition list_item_text :: "string \<Rightarrow> string" where
  "list_item_text buf =
     (let get = (\<lambda>key cap. snd (wt_json_get buf key cap)); aid = get ''action_id'' 128;
          front = ''  '' @ pad_right 22 (get ''id'' 64) @ '' '' @ pad_right 20 (get ''timestamp_utc'' 40) @ '' ''
      in if aid \<noteq> [] then front @ ''['' @ aid @ ''] '' @ get ''description'' 256 @ nl
         else front @ get ''description'' 256 @ nl)"

fun list_records :: "machine \<Rightarrow> string \<Rightarrow> (string \<times> bool) list \<Rightarrow> string list" where
  \<comment> \<open>the buffers of the files that can be read\<close>
  "list_records m dir [] = []"
| "list_records m dir ((name, is_dir) # fs) =
     (if is_dir \<or> \<not> cch_fits MAX_PATH (dir @ bsl ''/'' @ name) then list_records m dir fs
      else case wt_read_file_utf8 m (dir @ bsl ''/'' @ name) of
        None \<Rightarrow> list_records m dir fs
      | Some buf \<Rightarrow> buf # list_records m dir fs)"

fun joined :: "string \<Rightarrow> string list \<Rightarrow> string" where
  "joined sep [] = []"
| "joined sep [t] = t"
| "joined sep (t # u # us) = t @ sep @ joined sep (u # us)"

definition wt_rollback_list :: "action_env \<Rightarrow> bool \<Rightarrow> machine \<Rightarrow> WT_Result \<times> string" where
  "wt_rollback_list env json m =
     (case wt_paths_rollback_dir env MAX_PATH of (r, dir) \<Rightarrow>
        if r \<noteq> WT_OK then (r, [])
        else if \<not> cch_fits MAX_PATH (dir @ bsl ''/*.json'') then (WT_ERR_BUFFER_TOO_SMALL, [])
        else let bufs = list_records m dir (ae_find_json env (mc_files m) dir)
             in (WT_OK,
                 if json
                 then ''['' @ nl @ joined ('','' @ nl) (map list_item_json bufs) @ (if bufs \<noteq> [] then nl @ '']'' @ nl else '']'' @ nl)
                 else ''Rollback Records'' @ nl @ nl @ concat (map list_item_text bufs) @
                   (if bufs = [] then ''  No rollback records found.'' @ nl
                    else nl @ ''Apply one with: wintune rollback apply <id>'' @ nl)))"

section \<open>A record is read back\<close>

definition plain_word :: "string \<Rightarrow> bool" where
  "plain_word k \<longleftrightarrow> k \<noteq> [] \<and> hd k \<notin> set '', :'' \<and> hd k \<noteq> CHR 0x0A \<and>
     list_all (\<lambda>c. c \<noteq> CHR 0x22 \<and> c \<noteq> CHR 0x5C \<and> rollback_esc_char c = [c]) k"

definition keeps_key :: "string \<Rightarrow> string \<Rightarrow> bool" where
  \<comment> \<open>the text neither is the key nor ends in a quote and the key, so its escaped form hides no pattern\<close>
  "keeps_key k v \<longleftrightarrow> v \<noteq> k \<and> \<not> suffix (CHR 0x22 # k) v"

definition soft_text :: "string \<Rightarrow> bool" where
  \<comment> \<open>the control characters the reader undoes\<close>
  "soft_text v \<longleftrightarrow> list_all (\<lambda>c. 0x20 \<le> (of_char c :: nat) \<or> c \<in> {CHR 0x0A, CHR 0x0D, CHR 0x09}) v"

lemma escaped_Cons: "rollback_escaped (c # s) = rollback_esc_char c @ rollback_escaped s"
  "rollback_escaped [] = []"
  by (simp_all add: rollback_escaped_def)

lemma escaped_plain: "plain_word k \<Longrightarrow> rollback_escaped k = k"
proof -
  assume "plain_word k"
  then have "map rollback_esc_char k = map (\<lambda>c. [c]) k" by (simp add: plain_word_def list_all_iff)
  moreover have "concat (map (\<lambda>c. [c]) k) = k" by (induction k) simp_all
  ultimately show ?thesis by (simp only: rollback_escaped_def)
qed

lemma esc_char_hd: "rollback_esc_char c = [c] \<and> c \<noteq> CHR 0x22 \<and> c \<noteq> CHR 0x5C \<or>
    (\<exists>t. rollback_esc_char c = CHR 0x5C # t \<and> (c = CHR 0x22 \<and> t = [CHR 0x22] \<or> CHR 0x22 \<notin> set t))"
proof -
  have "CHR 0x22 \<notin> set (hex4 n)" for n
  proof -
    have "list_all (\<lambda>d. hexdigit d \<noteq> CHR 0x22) [0..<16]" by code_simp
    then have "hexdigit (d mod 16) \<noteq> CHR 0x22" for d by (simp add: list_all_iff)
    from this [symmetric] show ?thesis by (simp add: hex4_def)
  qed
  note h = this [of "of_char c"]
  show ?thesis
    unfolding rollback_esc_char_def using h
    by (cases "c = CHR 0x22"; cases "c = CHR 0x5C"; cases "c = CHR 0x0A"; cases "c = CHR 0x0D"; cases "c = CHR 0x09") simp_all
qed

lemma escaped_prefix:
  assumes "list_all (\<lambda>c. c \<noteq> CHR 0x22 \<and> c \<noteq> CHR 0x5C \<and> rollback_esc_char c = [c]) k"
  shows "prefix (k @ [CHR 0x22]) (rollback_escaped v @ CHR 0x22 # r) \<longleftrightarrow> v = k"
  using assms
proof (induction k arbitrary: v)
  case Nil
  then show ?case using esc_char_hd [of "hd v"] by (cases v) (auto simp: escaped_Cons)
next
  case (Cons a k)
  show ?case
  proof (cases v)
    case (Cons c u)
    then show ?thesis using esc_char_hd [of c] Cons.prems Cons.IH [of u] by (auto simp: escaped_Cons)
  qed (use Cons.prems in \<open>simp add: escaped_Cons\<close>)
qed

lemma strstr_drop: "CHR 0x22 \<notin> set t \<Longrightarrow> strstr (t @ s) (CHR 0x22 # p) = strstr s (CHR 0x22 # p)"
  by (induction t) auto

lemma strstr_escaped:
  assumes k: "plain_word k" and v: "\<not> suffix (CHR 0x22 # k) v"
  shows "strstr (rollback_escaped v @ CHR 0x22 # r) (qkey k) = strstr (CHR 0x22 # r) (qkey k)"
  using v
proof (induction v)
  case (Cons c v)
  have v: "\<not> suffix (CHR 0x22 # k) v" using Cons.prems by (auto simp: suffix_Cons)
  show ?case
  proof (cases "c = CHR 0x22")
    case True
    have "v \<noteq> k" using Cons.prems True by auto
    then have "\<not> prefix (k @ [CHR 0x22]) (rollback_escaped v @ CHR 0x22 # r)"
      using escaped_prefix k by (simp add: plain_word_def)
    moreover have "rollback_escaped (c # v) = CHR 0x5C # CHR 0x22 # rollback_escaped v"
      by (simp add: True escaped_Cons rollback_esc_char_def)
    ultimately show ?thesis using Cons.IH [OF v] by (simp add: qkey_def)
  next
    case False
    then have "CHR 0x22 \<notin> set (rollback_esc_char c)" using esc_char_hd [of c] by auto
    from strstr_drop [OF this] show ?thesis using Cons.IH [OF v] by (simp add: escaped_Cons qkey_def)
  qed
qed (simp add: escaped_Cons)

lemma strstr_quoted:
  assumes "plain_word k" "keeps_key k v" "c \<in> set '',:'' \<or> c = CHR 0x0A"
  shows "strstr (CHR 0x22 # rollback_escaped v @ CHR 0x22 # c # r) (qkey k) = strstr (c # r) (qkey k)"
proof -
  have "\<not> prefix (k @ [CHR 0x22]) (rollback_escaped v @ CHR 0x22 # c # r)"
    using escaped_prefix assms by (simp add: plain_word_def keeps_key_def)
  moreover have "\<not> prefix (k @ [CHR 0x22]) (c # r)"
    using assms(1,3) by (cases k) (auto simp: plain_word_def)
  ultimately show ?thesis
    using strstr_escaped [OF assms(1), of v "c # r"] assms(2) by (simp add: keeps_key_def qkey_def)
qed

definition field_line :: "string \<Rightarrow> string \<Rightarrow> string" where
  "field_line key v = ''  '' @ qkey key @ '': '' @ [CHR 0x22] @ rollback_escaped v @ [CHR 0x22]"

lemma strstr_field_line:
  assumes k: "plain_word k" "plain_word key" "key \<noteq> k" and v: "keeps_key k v" and c: "c \<in> set '',:'' \<or> c = CHR 0x0A"
  shows "strstr (field_line key v @ c # r) (qkey k) = strstr (c # r) (qkey k)"
proof -
  have "CHR 0x22 \<notin> set key" using k(2) by (auto simp: plain_word_def list_all_iff)
  then have "keeps_key k key" using k(3) set_mono_suffix [of "CHR 0x22 # k" key] by (auto simp: keeps_key_def)
  from strstr_quoted [OF k(1) this, of "CHR '':''" "'' '' @ CHR 0x22 # rollback_escaped v @ CHR 0x22 # c # r"]
  show ?thesis
    using strstr_quoted [OF k(1) v c, of r] strstr_drop [of "'': ''" "CHR 0x22 # rollback_escaped v @ CHR 0x22 # c # r" "k @ [CHR 0x22]"]
    by (simp add: field_line_def qkey_def escaped_plain [OF k(2)])
qed

lemma strstr_separator: "strstr ('','' @ nl @ s) (qkey k) = strstr s (qkey k)" "strstr (nl @ s) (qkey k) = strstr s (qkey k)"
  "strstr (''{'' @ nl @ s) (qkey k) = strstr s (qkey k)"
  by (simp_all add: qkey_def nl_def)

lemma get_chars_step: "c \<noteq> CHR 0x22 \<Longrightarrow> c \<noteq> CHR 0x5C \<Longrightarrow> get_chars (c # s) = c # get_chars s"
  "get_chars (CHR 0x22 # s) = []"
  by (cases s; simp)+

lemma get_chars_escaped: "soft_text v \<Longrightarrow> get_chars (rollback_escaped v @ CHR 0x22 # r) = v"
proof (induction v)
  case (Cons c v)
  then show ?case
    by (cases "c = CHR 0x22 \<or> c = CHR 0x5C \<or> c = CHR 0x0A \<or> c = CHR 0x0D \<or> c = CHR 0x09")
      (auto simp: soft_text_def escaped_Cons rollback_esc_char_def get_chars_step)
qed (simp add: escaped_Cons get_chars_step)

lemma wt_json_get_field:
  assumes "strstr buf (qkey k) = strstr (field_line k v @ r) (qkey k)" "soft_text v" "0 < cap" "length k < 94"
  shows "wt_json_get buf k cap = (True, cch_copy cap v)"
proof -
  have "strstr (field_line k v @ r) (qkey k) = Some (qkey k @ '': '' @ CHR 0x22 # rollback_escaped v @ CHR 0x22 # r)"
    by (simp add: field_line_def qkey_def)
  then show ?thesis
    using assms get_chars_escaped [OF assms(2), of r] by (simp add: wt_json_get_def get_pattern_def cch_fits_def qkey_def)
qed

definition record_fields :: "action_env \<Rightarrow> WT_RollbackRecord \<Rightarrow> (string \<times> string) list" where
  "record_fields env rec =
     [(''id'', ae_utf8 env 1024 (rr_id rec)), (''timestamp_utc'', rr_timestamp_utc rec),
      (''action_id'', ae_utf8 env 1024 (rr_action_id rec)), (''action_type'', ae_utf8 env 1024 (rr_action_type rec)),
      (''description'', ae_utf8 env 1024 (rr_description rec)),
      (''previous_value'', ae_utf8 env 1024 (rr_previous_value rec)), (''new_value'', ae_utf8 env 1024 (rr_new_value rec))]"

definition record_keys :: "string list" where
  "record_keys = [''id'', ''timestamp_utc'', ''action_id'', ''action_type'', ''description'', ''previous_value'', ''new_value'']"

definition clean_text :: "string \<Rightarrow> bool" where
  "clean_text v \<longleftrightarrow> soft_text v \<and> list_all (\<lambda>k. keeps_key k v) record_keys"

definition field_lines :: "(string \<times> string) list \<Rightarrow> string" where
  "field_lines fs = concat (map (\<lambda>(k, v). field_line k v @ '','' @ nl) fs)"

lemma record_keys_plain: "list_all plain_word record_keys" "list_all (\<lambda>k. length k < 94) record_keys" "distinct record_keys"
  by code_simp+

lemma record_keys_of: "map fst (record_fields env rec) = record_keys"
  by (simp add: record_fields_def record_keys_def)

lemma strstr_lines:
  assumes "plain_word k" "(k, v) \<in> set fs" "list_all (plain_word \<circ> fst) fs" "distinct (map fst fs)"
    "list_all (keeps_key k \<circ> snd) fs"
  shows "\<exists>r. strstr (field_lines fs @ t) (qkey k) = strstr (field_line k v @ r) (qkey k)"
  using assms(2-5)
proof (induction fs)
  case (Cons f fs)
  obtain k' v' where f: "f = (k', v')" by (cases f)
  show ?case
  proof (cases "k' = k")
    case True
    then have "v' = v" using Cons.prems(1,3) by (auto simp: f rev_image_eqI)
    then show ?thesis using True by (auto simp: f field_lines_def)
  next
    case False
    then have "strstr (field_lines (f # fs) @ t) (qkey k) = strstr (field_lines fs @ t) (qkey k)"
      using strstr_field_line [OF assms(1), of k' v' "CHR '',''" "nl @ field_lines fs @ t"] Cons.prems
        strstr_separator(1) [of "field_lines fs @ t" k]
      by (simp add: f field_lines_def)
    then show ?thesis using Cons.IH Cons.prems False by (auto simp: f)
  qed
qed simp

definition codec_ok :: "action_env \<Rightarrow> bool" where
  \<comment> \<open>what is used of \<open>WideCharToMultiByte\<close> and its inverse: the result and its NUL fit, wide text is no longer than
     its bytes, ASCII stays what it is\<close>
  "codec_ok env \<longleftrightarrow> (\<forall>n s. 0 < n \<longrightarrow> length (ae_utf8 env n s) < n) \<and> (\<forall>n s. length (ae_wide env n s) \<le> length s) \<and>
     (\<forall>n s. list_all (\<lambda>c. (of_char c :: nat) < 128) s \<and> length s < n \<longrightarrow> ae_utf8 env n s = s \<and> ae_wide env n s = s)"

lemma codec_ascii: "codec_ok env \<Longrightarrow> list_all (\<lambda>c. (of_char c :: nat) < 128) s \<Longrightarrow> length s < n \<Longrightarrow>
    ae_utf8 env n s = s \<and> ae_wide env n s = s"
  by (simp add: codec_ok_def)

text \<open>The time stamps are digits and separators.\<close>

definition stamp_char :: "char \<Rightarrow> bool" where
  "stamp_char c \<longleftrightarrow> is_digit c \<or> c \<in> set ''-:TZ''"

lemma stamp_char_facts: "stamp_char c \<Longrightarrow> rollback_esc_char c = [c] \<and> c \<noteq> CHR 0x22 \<and> (of_char c :: nat) < 128 \<and> 0x20 \<le> (of_char c :: nat)"
proof -
  assume s: "stamp_char c"
  show ?thesis
  proof (cases "is_digit c")
    case True
    then have n: "48 \<le> (of_char c :: nat)" "(of_char c :: nat) \<le> 57" by (simp_all add: is_digit_def)
    then have "c \<noteq> CHR 0x22" "c \<noteq> CHR 0x5C" "c \<noteq> CHR 0x0A" "c \<noteq> CHR 0x0D" "c \<noteq> CHR 0x09" by auto
    then show ?thesis using n by (simp add: rollback_esc_char_def)
  next
    case False
    then have "c = CHR ''-'' \<or> c = CHR '':'' \<or> c = CHR ''T'' \<or> c = CHR ''Z''" using s by (simp add: stamp_char_def)
    then show ?thesis by (elim disjE) (simp_all add: rollback_esc_char_def)
  qed
qed

lemma dec_pad_stamp: "list_all stamp_char (dec_pad w n)"
  using dec_digits by (auto simp: dec_pad_def list_all_iff stamp_char_def is_digit_def)

lemma stamps: "list_all stamp_char (record_id lt)" "list_all stamp_char (record_timestamp ut)"
proof -
  have t: "list_all P s \<Longrightarrow> list_all P (cch_copy n s)" for P n and s :: string
    using set_cch_copy [of n s] by (auto simp: list_all_iff)
  have "stamp_char (CHR ''-'')" "stamp_char (CHR '':'')" "stamp_char (CHR ''T'')" "stamp_char (CHR ''Z'')"
    by (simp_all add: stamp_char_def)
  note c = this
  show "list_all stamp_char (record_id lt)" unfolding record_id_def by (rule t) (simp add: dec_pad_stamp c)
  show "list_all stamp_char (record_timestamp ut)"
    unfolding record_timestamp_def by (rule t) (simp add: dec_pad_stamp c)
qed

lemma stamp_facts:
  assumes "list_all stamp_char s"
  shows "rollback_escaped s = s" "clean_text s" "list_all (\<lambda>c. (of_char c :: nat) < 128) s"
proof -
  have f: "\<forall>c \<in> set s. rollback_esc_char c = [c] \<and> c \<noteq> CHR 0x22 \<and> (of_char c :: nat) < 128 \<and> 0x20 \<le> (of_char c :: nat)"
    using assms stamp_char_facts by (simp add: list_all_iff)
  show "rollback_escaped s = s" using f by (induction s) (auto simp: escaped_Cons)
  show "list_all (\<lambda>c. (of_char c :: nat) < 128) s" using f by (simp add: list_all_iff)
  have "keeps_key k s" if "k \<in> set record_keys" for k
  proof -
    have "list_all (\<lambda>k. k \<noteq> [] \<and> \<not> stamp_char (hd k)) record_keys" by code_simp
    then have "k \<noteq> []" "\<not> stamp_char (hd k)" using that by (simp_all add: list_all_iff)
    then have "s \<noteq> k" using assms by (cases k) auto
    moreover have "CHR 0x22 \<notin> set s" using f by blast
    ultimately show ?thesis by (auto simp: keeps_key_def suffix_def)
  qed
  moreover have "soft_text s" unfolding soft_text_def list_all_iff using f by blast
  ultimately show "clean_text s" unfolding clean_text_def list_all_iff by blast
qed

lemma field_w_line: "wt_json_field_w env k v True = field_line k (ae_utf8 env 1024 v) @ '','' @ nl"
  by (simp only: wt_json_field_w_def field_line_def append_assoc if_True)

lemma record_text_lines:
  assumes "list_all stamp_char (rr_timestamp_utc rec)"
  shows "\<exists>t. record_text env rec = ''{'' @ nl @ field_lines (record_fields env rec) @ t"
proof -
  have ts: "''  '' @ qkey k @ '': '' @ qkey (rr_timestamp_utc rec) @ s = field_line k (rr_timestamp_utc rec) @ s" for k s
    using stamp_facts(1) [OF assms] by (simp add: field_line_def qkey_def)
  show ?thesis
    unfolding record_text_def field_lines_def record_fields_def field_w_line ts list.map prod.case concat.simps
      append_assoc append_Nil
    by (intro exI) (rule refl)
qed

lemma hexdigit_not: "list_all (\<lambda>d. hexdigit d \<noteq> c) [0..<16] \<Longrightarrow> c \<notin> set (hex4 n)"
proof -
  assume "list_all (\<lambda>d. hexdigit d \<noteq> c) [0..<16]"
  then have "hexdigit (d mod 16) \<noteq> c" for d by (simp add: list_all_iff)
  from this [symmetric] show ?thesis by (simp add: hex4_def)
qed

lemma escaped_no_nul: "CHR 0x00 \<notin> set (rollback_escaped s)"
proof -
  have "list_all (\<lambda>d. hexdigit d \<noteq> CHR 0x00) [0..<16]" by code_simp
  note h = hexdigit_not [OF this]
  have "CHR 0x00 \<notin> set (rollback_esc_char c)" for c
  proof (cases "c = CHR 0x00")
    case True
    then show ?thesis using h [of 0] by (simp add: rollback_esc_char_def)
  qed (use h [of "of_char c"] in \<open>simp add: rollback_esc_char_def\<close>)
  then show ?thesis by (simp add: rollback_escaped_def)
qed

lemma escaped_length: "length (rollback_escaped s) \<le> 6 * length s"
proof (induction s)
  case (Cons c s)
  have "length (rollback_esc_char c) \<le> 6" by (simp add: rollback_esc_char_def hex4_def)
  then show ?case using Cons by (simp add: escaped_Cons)
qed (simp add: escaped_Cons)

lemma field_w_facts:
  assumes "codec_ok env"
  shows "length (wt_json_field_w env k v tc) \<le> length k + 6150"
    "CHR 0x00 \<notin> set k \<Longrightarrow> CHR 0x00 \<notin> set (wt_json_field_w env k v tc)"
proof -
  have "length (rollback_escaped (ae_utf8 env 1024 v)) \<le> 6 * 1023"
    using escaped_length [of "ae_utf8 env 1024 v"] assms by (auto simp: codec_ok_def dest!: spec [of _ 1024] spec [of _ v])
  then show "length (wt_json_field_w env k v tc) \<le> length k + 6150"
    by (simp add: wt_json_field_w_def qkey_def nl_def)
  show "CHR 0x00 \<notin> set k \<Longrightarrow> CHR 0x00 \<notin> set (wt_json_field_w env k v tc)"
    using escaped_no_nul by (simp add: wt_json_field_w_def qkey_def nl_def)
qed

lemma record_text_facts:
  assumes "codec_ok env" "list_all stamp_char (rr_timestamp_utc rec)" "length (rr_timestamp_utc rec) < 32"
  shows "length (record_text env rec) \<le> 2 ^ 20" "takeWhile (\<lambda>c. c \<noteq> CHR 0x00) (record_text env rec) = record_text env rec"
proof -
  note f = field_w_facts [OF assms(1)]
  show "length (record_text env rec) \<le> 2 ^ 20"
    using assms(3) f(1) [of "''id''" "rr_id rec" True] f(1) [of "''action_id''" "rr_action_id rec" True]
      f(1) [of "''action_type''" "rr_action_type rec" True] f(1) [of "''description''" "rr_description rec" True]
      f(1) [of "''previous_value''" "rr_previous_value rec" True] f(1) [of "''new_value''" "rr_new_value rec" True]
      f(1) [of "''rollback_command''" "cch_copy 128 (''wintune rollback apply '' @ rr_id rec)" False]
    by (simp add: record_text_def qkey_def nl_def)
  have "CHR 0x00 \<notin> set (rr_timestamp_utc rec)"
    using assms(2) by (auto simp: list_all_iff stamp_char_def is_digit_def)
  then have "CHR 0x00 \<notin> set (record_text env rec)"
    by (simp add: record_text_def f(2) qkey_def nl_def)
  then show "takeWhile (\<lambda>c. c \<noteq> CHR 0x00) (record_text env rec) = record_text env rec"
    by (auto simp: takeWhile_eq_all_conv)
qed

lemma record_get:
  assumes "(k, v) \<in> set (record_fields env rec)" "list_all (clean_text \<circ> snd) (record_fields env rec)"
    "list_all stamp_char (rr_timestamp_utc rec)" "0 < cap"
  shows "wt_json_get (record_text env rec) k cap = (True, cch_copy cap v)"
proof -
  obtain t where t: "record_text env rec = ''{'' @ nl @ field_lines (record_fields env rec) @ t"
    using record_text_lines [OF assms(3)] by blast
  have k: "k \<in> set record_keys" using assms(1) record_keys_of [of env rec] by (metis fst_conv image_eqI list.set_map)
  have kp: "plain_word k" "length k < 94" using k record_keys_plain by (auto simp: list_all_iff)
  have p: "list_all (plain_word \<circ> fst) (record_fields env rec)" "distinct (map fst (record_fields env rec))"
    using record_keys_plain by (simp_all add: record_keys_of list.pred_map [symmetric])
  have "list_all (keeps_key k \<circ> snd) (record_fields env rec)"
    using assms(2) k by (auto simp: list_all_iff clean_text_def)
  from strstr_lines [OF kp(1) assms(1) p this, of t] obtain r where
    "strstr (record_text env rec) (qkey k) = strstr (field_line k v @ r) (qkey k)"
    unfolding t strstr_separator by blast
  moreover have "soft_text v" using assms(1,2) by (auto simp: list_all_iff clean_text_def)
  ultimately show ?thesis using wt_json_get_field kp(2) assms(4) by blast
qed

definition record_clean :: "action_env \<Rightarrow> WT_RollbackRecord \<Rightarrow> bool" where
  \<comment> \<open>of the fields an action fills: no control characters the reader does not know, no key as a text\<close>
  "record_clean env rec \<longleftrightarrow> list_all clean_text (map (ae_utf8 env 1024)
     [rr_action_id rec, rr_action_type rec, rr_description rec, rr_previous_value rec, rr_new_value rec])"

definition with_stamp :: "action_env \<Rightarrow> machine \<Rightarrow> WT_RollbackRecord \<Rightarrow> WT_RollbackRecord" where
  "with_stamp env m rec = rec\<lparr>rr_id := record_id (ae_local_time env (mc_clock m)),
     rr_timestamp_utc := record_timestamp (ae_utc_time env (mc_clock m))\<rparr>"

lemma rollback_write_OK:
  assumes "wt_rollback_write env rec m = (WT_OK, rec', m')"
  obtains path where "rec' = with_stamp env m rec" "wt_rollback_record_path env (rr_id rec') MAX_PATH = (WT_OK, path)"
    "m' = m\<lparr>mc_clock := Suc (mc_clock m), mc_files := (mc_files m)(path \<mapsto> record_text env rec')\<rparr>"
  using assms
  by (auto simp: wt_rollback_write_def Let_def with_stamp_def split: prod.splits if_splits)

lemma stamped_fields:
  assumes "codec_ok env" "record_clean env rec"
  shows "list_all (clean_text \<circ> snd) (record_fields env (with_stamp env m rec))"
    "list_all stamp_char (rr_timestamp_utc (with_stamp env m rec))" "length (rr_timestamp_utc (with_stamp env m rec)) < 32"
    "ae_utf8 env 1024 (rr_id (with_stamp env m rec)) = rr_id (with_stamp env m rec)"
proof -
  let ?i = "record_id (ae_local_time env (mc_clock m))"
  have "length ?i < 48" unfolding record_id_def by (rule length_cch_copy) simp
  then have i: "ae_utf8 env 1024 ?i = ?i"
    using codec_ascii [OF assms(1) stamp_facts(3) [OF stamps(1)], of "ae_local_time env (mc_clock m)" 1024] by simp
  show "list_all (clean_text \<circ> snd) (record_fields env (with_stamp env m rec))"
    using assms(2) stamp_facts(2) [OF stamps(1)] stamp_facts(2) [OF stamps(2)]
    by (simp add: record_clean_def record_fields_def with_stamp_def i)
  show "list_all stamp_char (rr_timestamp_utc (with_stamp env m rec))" by (simp add: with_stamp_def stamps)
  show "length (rr_timestamp_utc (with_stamp env m rec)) < 32"
    unfolding with_stamp_def by (simp add: record_timestamp_def length_cch_copy)
  show "ae_utf8 env 1024 (rr_id (with_stamp env m rec)) = rr_id (with_stamp env m rec)" by (simp add: with_stamp_def i)
qed

definition reads_fields :: "action_env \<Rightarrow> WT_RollbackRecord \<Rightarrow> string \<Rightarrow> nat \<Rightarrow> bool" where
  \<comment> \<open>every field of the record is found under its key, cut to the buffer it is read into\<close>
  "reads_fields env rec buf cap \<longleftrightarrow>
     list_all (\<lambda>(k, v). wt_json_get buf k cap = (True, cch_copy cap v)) (record_fields env rec)"

lemma written_record_reads:
  assumes "wt_rollback_write env rec m = (WT_OK, rec', m')" "codec_ok env" "record_clean env rec"
  obtains path where "rec' = with_stamp env m rec" "wt_rollback_record_path env (rr_id rec') MAX_PATH = (WT_OK, path)"
    "m' = m\<lparr>mc_clock := Suc (mc_clock m), mc_files := (mc_files m)(path \<mapsto> record_text env rec')\<rparr>"
    "wt_read_file_utf8 m' path = Some (record_text env rec')"
    "\<forall>cap > 0. reads_fields env rec' (record_text env rec') cap"
proof -
  from assms(1) obtain path where w: "rec' = with_stamp env m rec"
      "wt_rollback_record_path env (rr_id rec') MAX_PATH = (WT_OK, path)"
      "m' = m\<lparr>mc_clock := Suc (mc_clock m), mc_files := (mc_files m)(path \<mapsto> record_text env rec')\<rparr>"
    by (rule rollback_write_OK)
  note f = stamped_fields [OF assms(2,3), of m, folded w(1)]
  have "wt_read_file_utf8 m' path = Some (record_text env rec')"
    using record_text_facts [OF assms(2) f(2,3)] by (simp add: w(3) wt_read_file_utf8_def)
  moreover have "reads_fields env rec' (record_text env rec') cap" if "0 < cap" for cap
    using record_get [OF _ f(1,2) that] by (auto simp: reads_fields_def list_all_iff)
  ultimately show ?thesis using that w by blast
qed

text \<open>C29. Rollback records: a record that was written is a file of its own under the rollback directory, nothing
  else of the machine has changed but the clock, and reading the file back finds every field, identifier and time
  stamp included, cut to the buffer it is read into.\<close>

theorem record_roundtrip:
  assumes "codec_ok env" "record_clean env rec" "wt_rollback_write env rec m = (WT_OK, rec', m')" "0 < cap"
  shows "\<exists>path buf. wt_rollback_record_path env (rr_id rec') MAX_PATH = (WT_OK, path) \<and>
     m' = m\<lparr>mc_clock := Suc (mc_clock m), mc_files := mc_files m'\<rparr> \<and>
     (\<exists>txt. mc_files m' = (mc_files m)(path \<mapsto> txt)) \<and>
     wt_read_file_utf8 m' path = Some buf \<and> reads_fields env rec' buf cap"
proof -
  from assms(3,1,2) obtain path where "rec' = with_stamp env m rec" "wt_rollback_record_path env (rr_id rec') MAX_PATH = (WT_OK, path)"
    "m' = m\<lparr>mc_clock := Suc (mc_clock m), mc_files := (mc_files m)(path \<mapsto> record_text env rec')\<rparr>"
    "wt_read_file_utf8 m' path = Some (record_text env rec')"
    "\<forall>cap > 0. reads_fields env rec' (record_text env rec') cap"
    by (rule written_record_reads)
  then show ?thesis using assms(4) by (intro exI [of _ path] exI [of _ "record_text env rec'"]) auto
qed

definition demo_power :: power_api where
  "demo_power = \<lparr>pa_friendly = (\<lambda>g. Some (Some ''Plan'')), pa_ac_index = (\<lambda>g. Some 100), pa_dc_index = (\<lambda>g. Some 100),
     pa_status = None, pa_battery = None, pa_mode_ac = None, pa_mode_dc = None, pa_set = (\<lambda>g. None)\<rparr>"

definition demo_startup :: startup_world where
  "demo_startup = \<lparr>sw_probe = demo_probe,
     sw_run_key = (\<lambda>s. if s = WT_STARTUP_SRC_HKCU_RUN then Some [Some (''Vendor'', REG_SZ, bsl ''C:/v.exe'')] else None),
     sw_expand512 = Some, sw_getenv = (\<lambda>v. None), sw_dir = (\<lambda>d. None)\<rparr>"

definition demo_time :: "nat \<Rightarrow> systemtime" where
  "demo_time n = \<lparr>wYear = 2026, wMonth = 6, wDay = 11, wHour = 11, wMinute = 59, wSecond = n mod 60, wMilliseconds = 0\<rparr>"

definition demo_actions :: action_env where
  "demo_actions = \<lparr>ae_power = demo_power, ae_startup = demo_startup, ae_com = demo_com,
     ae_tree = (\<lambda>st. Task_Folder None (case st (bsl ''/V'', ''a'') of None \<Rightarrow> []
        | Some d \<Rightarrow> [\<lparr>rt_name = Some ''a'', rt_path = Some (bsl ''/V/a''), rt_def = Some d\<rparr>]) []),
     ae_reg_create = (\<lambda>h k. None), ae_reg_set = (\<lambda>h k v. None), ae_reg_open = (\<lambda>h k. True), ae_elevated = True,
     ae_interactive = False, ae_localappdata = bsl ''C:/u'', ae_mkdir = (\<lambda>d. True), ae_create_file = (\<lambda>f. True),
     ae_find_json = (\<lambda>fs d. []), ae_local_time = demo_time, ae_utc_time = demo_time, ae_utf8 = cch_copy, ae_wide = cch_copy,
     ae_scm = True, ae_open_service = (\<lambda>s. SVC_OPENED), ae_query = (\<lambda>log n s. Some (if log = [] then 4 else 1, 7)),
     ae_control = (\<lambda>log s c. True)\<rparr>"

definition demo_machine :: machine where
  "demo_machine = \<lparr>mc_plan = Some WT_GUID_BALANCED, mc_registry = (\<lambda>v. None), mc_tasks = demo_store, mc_files = (\<lambda>f. None),
     mc_services = [], mc_cache = [], mc_clock = 0, mc_polls = 0, mc_input = []\<rparr>"

lemma demo_codec: "codec_ok demo_actions"
  by (auto simp: codec_ok_def demo_actions_def cch_copy_def)

definition demo_record :: WT_RollbackRecord where
  "demo_record = zero_WT_RollbackRecord\<lparr>rr_action_type := ''power_plan_change'', rr_action_id := ''WT-POWER-002'',
     rr_description := CHR 0x22 # ''plan'' @ [CHR 0x22], rr_previous_value := ''{1}'', rr_new_value := ''{2}''\<rparr>"

theorem record_roundtrip_witness:
  "\<exists>rec' m' path buf. wt_rollback_write demo_actions demo_record demo_machine = (WT_OK, rec', m') \<and>
     wt_rollback_record_path demo_actions (rr_id rec') MAX_PATH = (WT_OK, path) \<and>
     wt_read_file_utf8 m' path = Some buf \<and> reads_fields demo_actions rec' buf 256"
proof -
  have "fst (wt_rollback_write demo_actions demo_record demo_machine) = WT_OK" by code_simp
  then obtain rec' m' where w: "wt_rollback_write demo_actions demo_record demo_machine = (WT_OK, rec', m')"
    by (cases "wt_rollback_write demo_actions demo_record demo_machine") auto
  have "record_clean demo_actions demo_record" by code_simp
  from record_roundtrip [OF demo_codec this w, of 256] w show ?thesis by auto
qed

end
