(* ===== verification/Safe_Actions.thy ===== *)
theory Safe_Actions
  imports Rollback_Store
begin

text \<open>
  The actions that change the machine (\<open>src/actions/safe_actions.c\<close>): the power plan, a service restart, the
  \<open>StartupApproved\<close> values of startup entries, the enabled flag and the logon delay of scheduled tasks. Each asks
  for confirmation before its one change and writes a rollback record after it. An action gives its result code,
  the message for the caller (cut to \<open>cap\<close> units) and the new state; it gives None when it would not return (the wait
  loop) or write past a buffer (the task path). An identifier that is NULL is the empty one. \<open>malloc\<close> is taken
  to succeed.
\<close>

unbundle bit_operations_syntax

type_synonym action_result = "WT_Result \<times> string \<times> machine"

definition in_quotes :: "string \<Rightarrow> string" where
  "in_quotes s = CHR 0x27 # s @ [CHR 0x27]"

section \<open>Power plan\<close>

definition power_record :: "WT_PowerScheme \<Rightarrow> WT_PowerScheme \<Rightarrow> string \<Rightarrow> string \<Rightarrow> WT_RollbackRecord" where
  "power_record cur target prev_guid new_guid = zero_WT_RollbackRecord\<lparr>
     rr_action_type := ''power_plan_change'',
     rr_action_id := (if target = WT_POWER_BALANCED \<or> target = WT_POWER_POWER_SAVER then ''WT-POWER-002'' else ''WT-POWER-001''),
     rr_description := cch_copy 256 (''Power plan: '' @ wt_power_scheme_name cur @ '' -> '' @ wt_power_scheme_name target),
     rr_previous_value := cch_copy 256 prev_guid, rr_new_value := cch_copy 256 new_guid\<rparr>"

definition wt_action_set_power_plan ::
  "action_env \<Rightarrow> WT_PowerScheme \<Rightarrow> bool \<Rightarrow> nat \<Rightarrow> machine \<Rightarrow> action_result" where
  "wt_action_set_power_plan env target assume_yes cap m =
     (if target = WT_POWER_UNKNOWN then (WT_ERR_INVALID_ARGUMENT, [], m)
      else case wt_collect_power_info (ae_power env) (mc_plan m) of (cr, cur) \<Rightarrow>
        if cr \<noteq> WT_OK then (WT_ERR_WIN32, cch_copy cap ''Could not read the current power plan.'', m)
        else if pw_scheme cur = target
        then (WT_OK, cch_copy cap (''Power plan is already '' @ in_quotes (wt_power_scheme_name target) @ ''. No change made.''), m)
        else let prev_guid = snd (wt_power_get_active_guid_string (mc_plan m) 64)
             in case wt_action_confirm env assume_yes m of (yes, m) \<Rightarrow>
          if \<not> yes then (WT_ERR_CANCELLED, cch_copy cap ''Cancelled. Power plan unchanged.'', m)
          else case wt_power_set_active_scheme (ae_power env) target (mc_plan m) of (r, plan) \<Rightarrow>
            if r = WT_ERR_NOT_FOUND
            then (r, cch_copy cap (''The '' @ in_quotes (wt_power_scheme_name target) @ '' power plan does not exist on this system.''), m\<lparr>mc_plan := plan\<rparr>)
            else if r \<noteq> WT_OK
            then (r, cch_copy cap (''Failed to switch power plan ('' @ wt_result_to_string r @ '').''), m\<lparr>mc_plan := plan\<rparr>)
            else let m = m\<lparr>mc_plan := plan\<rparr>;
                     new_guid = snd (wt_power_get_active_guid_string (mc_plan m) 64)
                 in case wt_rollback_write env (power_record (pw_scheme cur) target prev_guid new_guid) m of (rr, rec, m) \<Rightarrow>
                   (WT_OK, cch_copy cap (''Switched power plan to '' @ CHR 0x27 # wt_power_scheme_name target @ CHR 0x27 #
                      (if rr = WT_OK then ''. Rollback id: '' @ rr_id rec else ''. (rollback record not saved)'')), m))"

section \<open>Service restart\<close>

definition protected_services :: "string list" where
  "protected_services =
     [''RpcSs'', ''DcomLaunch'', ''RpcEptMapper'', ''LSM'', ''Power'', ''WinDefend'', ''WdNisSvc'', ''Sense'', ''MpsSvc'', ''BFE'',
      ''SecurityHealthService'', ''wscsvc'', ''CryptSvc'', ''gpsvc'', ''Schedule'', ''ProfSvc'', ''Themes'', ''Winmgmt'',
      ''EventLog'', ''PlugPlay'', ''wuauserv'', ''UsoSvc'', ''WaaSMedicSvc'', ''TrustedInstaller'', ''msiserver'']"

definition wt_service_is_protected :: "string \<Rightarrow> bool" where
  "wt_service_is_protected name = list_ex (wcsicmp name) protected_services"

definition SERVICE_STOPPED :: nat where "SERVICE_STOPPED = 1"
definition SERVICE_RUNNING :: nat where "SERVICE_RUNNING = 4"

definition wt_service_dw_state_name :: "nat \<Rightarrow> string" where
  "wt_service_dw_state_name state =
     (if state = 1 then ''Stopped'' else if state = 2 then ''StartPending'' else if state = 3 then ''StopPending''
      else if state = 4 then ''Running'' else if state = 5 then ''ContinuePending''
      else if state = 6 then ''PausePending'' else if state = 7 then ''Paused'' else ''Unknown'')"

definition wt_service_query_snapshot :: "action_env \<Rightarrow> string \<Rightarrow> machine \<Rightarrow> (nat \<times> nat) option \<times> machine" where
  "wt_service_query_snapshot env name m =
     (ae_query env (mc_services m) (mc_polls m) name, m\<lparr>mc_polls := Suc (mc_polls m)\<rparr>)"

partial_function (option) wait_state ::
  "action_env \<Rightarrow> string \<Rightarrow> nat \<Rightarrow> u32 \<Rightarrow> u32 \<Rightarrow> machine \<Rightarrow> (bool \<times> machine) option" where
  "wait_state env name desired timeout_ms waited m =
     (if \<not> waited < timeout_ms then Some (False, m)
      else case wt_service_query_snapshot env name m of (q, m1) \<Rightarrow>
        (case q of None \<Rightarrow> Some (False, m1)
         | Some (state, pid) \<Rightarrow>
             if state = desired then Some (True, m1)
             else wait_state env name desired timeout_ms (waited + 200) m1))"

declare wait_state.simps [code]

definition wt_service_wait_state :: "action_env \<Rightarrow> string \<Rightarrow> nat \<Rightarrow> u32 \<Rightarrow> machine \<Rightarrow> (bool \<times> machine) option" where
  "wt_service_wait_state env name desired timeout_ms m = wait_state env name desired timeout_ms 0 m"

definition wt_service_command :: "action_env \<Rightarrow> string \<Rightarrow> svc_command \<Rightarrow> machine \<Rightarrow> bool \<times> machine" where
  \<comment> \<open>\<open>ControlService(SERVICE_CONTROL_STOP)\<close> and \<open>StartServiceW\<close>: a command that is accepted is in the log\<close>
  "wt_service_command env name c m =
     (if ae_control env (mc_services m) name c then (True, m\<lparr>mc_services := mc_services m @ [(name, c)]\<rparr>) else (False, m))"

definition restart_stop ::
  "action_env \<Rightarrow> string \<Rightarrow> nat \<Rightarrow> nat \<Rightarrow> machine \<Rightarrow> (WT_Result \<times> string \<times> machine) option" where
  \<comment> \<open>the first half: stop a service that is not stopped and wait for it\<close>
  "restart_stop env name pre_state cap m =
     (if pre_state = SERVICE_STOPPED then Some (WT_OK, [], m)
      else case wt_service_command env name SVC_STOP m of (sent, m) \<Rightarrow>
        if \<not> sent then Some (WT_ERR_WIN32, cch_copy cap (''Failed to stop service '' @ in_quotes name @ ''.''), m)
        else case wt_service_wait_state env name SERVICE_STOPPED 15000 m of
               None \<Rightarrow> None
             | Some (stopped, m) \<Rightarrow>
                 if \<not> stopped
                 then Some (WT_ERR_TIMEOUT, cch_copy cap (''Service '' @ in_quotes name @ '' did not stop within the timeout.''), m)
                 else Some (WT_OK, [], m))"

definition restart_record :: "string \<Rightarrow> nat \<times> nat \<Rightarrow> nat \<times> nat \<Rightarrow> WT_RollbackRecord" where
  "restart_record name before after = zero_WT_RollbackRecord\<lparr>
     rr_action_type := ''service_restart'', rr_action_id := cch_copy 64 name,
     rr_description := cch_copy 256 (''Service restart '' @ in_quotes name @ '': '' @ wt_service_dw_state_name (fst before) @
        '' pid '' @ dec (snd before) @ '' -> '' @ wt_service_dw_state_name (fst after) @ '' pid '' @ dec (snd after)),
     rr_previous_value := cch_copy 256 (name @ ''|'' @ wt_service_dw_state_name (fst before) @ ''|'' @ dec (snd before)),
     rr_new_value := cch_copy 256 (name @ ''|'' @ wt_service_dw_state_name (fst after) @ ''|'' @ dec (snd after))\<rparr>"

definition restart_start :: "action_env \<Rightarrow> string \<Rightarrow> nat \<times> nat \<Rightarrow> nat \<Rightarrow> machine \<Rightarrow> action_result option" where
  \<comment> \<open>the second half: start, wait, and the audit record\<close>
  "restart_start env name before cap m =
     (case wt_service_command env name SVC_START m of (sent, m) \<Rightarrow>
        if \<not> sent then Some (WT_ERR_WIN32, cch_copy cap (''Failed to start service '' @ in_quotes name @ ''.''), m)
        else case wt_service_wait_state env name SERVICE_RUNNING 15000 m of
               None \<Rightarrow> None
             | Some (running, m) \<Rightarrow>
                 if \<not> running
                 then Some (WT_ERR_TIMEOUT, cch_copy cap (''Service '' @ in_quotes name @ '' was started but is not yet running.''), m)
                 else case wt_service_query_snapshot env name m of (q, m) \<Rightarrow>
                   (case wt_rollback_write env (restart_record name before (case q of None \<Rightarrow> (0, 0) | Some sp \<Rightarrow> sp)) m of
                      (rr, rec, m) \<Rightarrow>
                        Some (WT_OK, cch_copy cap (if rr = WT_OK
                            then ''Service '' @ in_quotes name @ '' restarted. Audit/rollback id: '' @ rr_id rec @
                                 '' (restart is not reversible to the prior process).''
                            else ''Service '' @ in_quotes name @ '' restarted. (audit record not saved)''), m)))"

definition wt_action_restart_service ::
  "action_env \<Rightarrow> string \<Rightarrow> bool \<Rightarrow> nat \<Rightarrow> machine \<Rightarrow> action_result option" where
  "wt_action_restart_service env name assume_yes cap m =
     (if name = [] then Some (WT_ERR_INVALID_ARGUMENT, [], m)
      else if wt_service_is_protected name
      then Some (WT_ERR_NOT_SUPPORTED, cch_copy cap (''Refusing to restart '' @ in_quotes name @
             '': it is a critical/security service and restarting it could destabilize Windows.''), m)
      else if \<not> ae_elevated env
      then Some (WT_ERR_ACCESS_DENIED, cch_copy cap ''Restarting a service requires administrator privileges.'', m)
      else if \<not> ae_scm env
      then Some (WT_ERR_WIN32, cch_copy cap ''Could not open the Service Control Manager.'', m)
      else case ae_open_service env name of
        SVC_MISSING \<Rightarrow> Some (WT_ERR_NOT_FOUND, cch_copy cap (''No service named '' @ in_quotes name @ '' exists.''), m)
      | SVC_DENIED \<Rightarrow> Some (WT_ERR_WIN32, cch_copy cap (''Could not open service '' @ in_quotes name @ ''.''), m)
      | SVC_OPENED \<Rightarrow>
         (case wt_service_query_snapshot env name m of (q, m) \<Rightarrow>
            case q of
              None \<Rightarrow> Some (WT_ERR_WIN32, cch_copy cap (''Could not query status for service '' @ in_quotes name @ ''.''), m)
            | Some before \<Rightarrow>
               (case wt_action_confirm env assume_yes m of (yes, m) \<Rightarrow>
                  if \<not> yes then Some (WT_ERR_CANCELLED, cch_copy cap (''Cancelled. Service '' @ in_quotes name @ '' not restarted.''), m)
                  else case restart_stop env name (fst before) cap m of
                         None \<Rightarrow> None
                       | Some (r, msg, m) \<Rightarrow>
                           if r \<noteq> WT_OK then Some (r, msg, m) else restart_start env name before cap m)))"

section \<open>Startup entries\<close>

definition WT_APPROVED_RUN :: string where
  "WT_APPROVED_RUN = bsl ''Software/Microsoft/Windows/CurrentVersion/Explorer/StartupApproved/Run''"

definition WT_APPROVED_FOLDER :: string where
  "WT_APPROVED_FOLDER = bsl ''Software/Microsoft/Windows/CurrentVersion/Explorer/StartupApproved/StartupFolder''"

definition wt_hive_from_tag :: "string \<Rightarrow> hive" where
  "wt_hive_from_tag tag = (if wcsicmp tag ''HKLM'' then HKEY_LOCAL_MACHINE else HKEY_CURRENT_USER)"

definition reg_value :: "hive \<Rightarrow> string \<Rightarrow> string \<Rightarrow> hive \<times> string \<times> string" where
  "reg_value h subkey name = (h, map lower subkey, map lower name)"

definition write_blob ::
  "action_env \<Rightarrow> string \<Rightarrow> string \<Rightarrow> string \<Rightarrow> byte list \<Rightarrow> machine \<Rightarrow> WT_Result \<times> machine" where
  \<comment> \<open>open or create the key, set the binary value\<close>
  "write_blob env hive_tag subkey value_name blob m =
     (let h = wt_hive_from_tag hive_tag
      in case ae_reg_create env h subkey of
           Some e \<Rightarrow> (if e = ERROR_ACCESS_DENIED then WT_ERR_ACCESS_DENIED else WT_ERR_WIN32, m)
         | None \<Rightarrow>
            (case ae_reg_set env h subkey value_name of
               Some e \<Rightarrow> (if e = ERROR_ACCESS_DENIED then WT_ERR_ACCESS_DENIED else WT_ERR_WIN32, m)
             | None \<Rightarrow> (WT_OK, m\<lparr>mc_registry := (mc_registry m)(reg_value h subkey value_name \<mapsto> blob)\<rparr>)))"

definition approved_blob :: "bool \<Rightarrow> byte list" where
  "approved_blob enabled = (if enabled then 0x02 else 0x03) # replicate 11 0"

definition wt_startup_write_approved ::
  "action_env \<Rightarrow> string \<Rightarrow> string \<Rightarrow> string \<Rightarrow> bool \<Rightarrow> machine \<Rightarrow> WT_Result \<times> machine" where
  "wt_startup_write_approved env hive_tag subkey value_name enabled m =
     write_blob env hive_tag subkey value_name (approved_blob enabled) m"

definition wt_startup_approved_location :: "WT_StartupSource \<Rightarrow> (WT_Result, string \<times> string) sum" where
  "wt_startup_approved_location src = (case src of
     WT_STARTUP_SRC_HKCU_RUN \<Rightarrow> Inr (''HKCU'', WT_APPROVED_RUN)
   | WT_STARTUP_SRC_HKLM_RUN \<Rightarrow> Inr (''HKLM'', WT_APPROVED_RUN)
   | WT_STARTUP_SRC_USER_FOLDER \<Rightarrow> Inr (''HKCU'', WT_APPROVED_FOLDER)
   | WT_STARTUP_SRC_COMMON_FOLDER \<Rightarrow> Inr (''HKLM'', WT_APPROVED_FOLDER)
   | _ \<Rightarrow> Inl WT_ERR_NOT_SUPPORTED)"

definition wt_startup_read_enabled :: "action_env \<Rightarrow> string \<Rightarrow> string \<Rightarrow> string \<Rightarrow> machine \<Rightarrow> bool" where
  \<comment> \<open>a value of more than 12 bytes does not fit the buffer: the query fails\<close>
  "wt_startup_read_enabled env hive_tag subkey value_name m =
     (let h = wt_hive_from_tag hive_tag
      in if \<not> ae_reg_open env h subkey then True
         else case mc_registry m (reg_value h subkey value_name) of
           None \<Rightarrow> True
         | Some blob \<Rightarrow> if length blob \<le> 12 \<and> 1 \<le> length blob then hd blob AND 1 = 0 else True)"

definition WT_MAX_STARTUP_ENTRIES :: nat where "WT_MAX_STARTUP_ENTRIES = 256"
definition WT_MAX_SCHEDULED_TASKS :: nat where "WT_MAX_SCHEDULED_TASKS = 256"

definition collect_entries :: "action_env \<Rightarrow> machine \<Rightarrow> WT_Result \<times> WT_StartupEntry list \<times> machine" where
  "collect_entries env m =
     (case wt_collect_startup_entries (ae_startup env) WT_MAX_STARTUP_ENTRIES (mc_cache m) of
        (r, es, cache) \<Rightarrow> (r, es, m\<lparr>mc_cache := cache\<rparr>))"

definition wt_startup_find_entry :: "string \<Rightarrow> WT_StartupEntry list \<Rightarrow> WT_StartupEntry option" where
  "wt_startup_find_entry i entries = find_first (\<lambda>e. wcsicmp (se_id e) i) entries"

definition state_word :: "bool \<Rightarrow> string" where
  "state_word b = (if b then ''enabled'' else ''disabled'')"

definition approved_value :: "string \<Rightarrow> string \<Rightarrow> string \<Rightarrow> string \<Rightarrow> string" where
  \<comment> \<open>the text \<open>%s|%s|%s|%s\<close> of a record\<close>
  "approved_value hive_tag subkey name v = cch_copy 256 (hive_tag @ ''|'' @ subkey @ ''|'' @ name @ ''|'' @ v)"

definition approved_record :: "string \<Rightarrow> string \<Rightarrow> string \<Rightarrow> string \<Rightarrow> bool \<Rightarrow> bool \<Rightarrow> WT_RollbackRecord" where
  "approved_record i hive_tag subkey name prev enable = zero_WT_RollbackRecord\<lparr>
     rr_action_type := ''startup_approved'', rr_action_id := cch_copy 64 i,
     rr_description := cch_copy 256 (''Startup '' @ in_quotes name @ '': '' @ state_word prev @ '' -> '' @ state_word enable),
     rr_previous_value := approved_value hive_tag subkey name (if prev then ''02'' else ''03''),
     rr_new_value := approved_value hive_tag subkey name (if enable then ''02'' else ''03'')\<rparr>"

definition wt_action_set_startup_enabled ::
  "action_env \<Rightarrow> string \<Rightarrow> bool \<Rightarrow> bool \<Rightarrow> nat \<Rightarrow> machine \<Rightarrow> action_result" where
  "wt_action_set_startup_enabled env i enable assume_yes cap m =
     (if i = [] then (WT_ERR_INVALID_ARGUMENT, [], m)
      else case collect_entries env m of (r, entries, m) \<Rightarrow>
        if r \<noteq> WT_OK then (WT_ERR_WIN32, cch_copy cap ''Could not read startup entries.'', m)
        else case wt_startup_find_entry i entries of
          None \<Rightarrow> (WT_ERR_NOT_FOUND, cch_copy cap (''No startup entry with id '' @ in_quotes i @
                     ''. List ids with '' @ in_quotes ''wintune startup'' @ ''.''), m)
        | Some entry \<Rightarrow>
           (case wt_startup_approved_location (se_source entry) of
              Inl loc \<Rightarrow> (loc, cch_copy cap (''This startup entry'' @ CHR 0x27 #
                            ''s source is not supported for enable/disable in v1.''), m)
            | Inr (hive_tag, subkey) \<Rightarrow>
               (let name = cch_copy 256 (se_name entry)
                in if wcsicmp hive_tag ''HKLM'' \<and> \<not> ae_elevated env
                   then (WT_ERR_ACCESS_DENIED, cch_copy cap ''Changing this machine-wide startup entry requires administrator privileges.'', m)
                   else let prev = wt_startup_read_enabled env hive_tag subkey name m
                   in if enable = prev
                   then (WT_OK, cch_copy cap (''Startup entry '' @ in_quotes (se_name entry) @ '' is already '' @ state_word enable @ ''.''), m)
                   else case wt_action_confirm env assume_yes m of (yes, m) \<Rightarrow>
                     if \<not> yes then (WT_ERR_CANCELLED, cch_copy cap ''Cancelled. Startup entry unchanged.'', m)
                     else case wt_startup_write_approved env hive_tag subkey name enable m of (wr, m) \<Rightarrow>
                       if wr \<noteq> WT_OK
                       then (wr, cch_copy cap (''Failed to update startup entry ('' @ wt_result_to_string wr @ '').''), m)
                       else case wt_rollback_write env (approved_record i hive_tag subkey name prev enable) m of (rr, rec, m) \<Rightarrow>
                         (WT_OK, cch_copy cap (''Startup entry '' @ in_quotes (se_name entry) @ '' '' @ state_word enable @
                            (if rr = WT_OK then ''. Rollback id: '' @ rr_id rec else ''. (rollback not saved)'')), m))))"

definition delayed_blob :: "nat \<Rightarrow> byte list" where
  \<comment> \<open>flag 6, the milliseconds as a little-endian DWORD at offset 4\<close>
  "delayed_blob delay_seconds = (let ms = of_nat delay_seconds * 1000 :: u32
     in [0x06, 0, 0, 0, ucast ms, ucast (drop_bit 8 ms), ucast (drop_bit 16 ms), ucast (drop_bit 24 ms), 0, 0, 0, 0])"

definition wt_startup_write_delayed ::
  "action_env \<Rightarrow> string \<Rightarrow> string \<Rightarrow> string \<Rightarrow> nat \<Rightarrow> machine \<Rightarrow> WT_Result \<times> machine" where
  "wt_startup_write_delayed env hive_tag subkey value_name delay_seconds m =
     write_blob env hive_tag subkey value_name (delayed_blob delay_seconds) m"

definition startup_delay_record :: "string \<Rightarrow> string \<Rightarrow> string \<Rightarrow> string \<Rightarrow> nat \<Rightarrow> WT_RollbackRecord" where
  "startup_delay_record i hive_tag subkey name delay = zero_WT_RollbackRecord\<lparr>
     rr_action_type := ''startup_delay'', rr_action_id := cch_copy 64 i,
     rr_description := cch_copy 256 (''Startup delay '' @ in_quotes name @ '': '' @ dec delay @ '' s''),
     rr_previous_value := approved_value hive_tag subkey name ''immediate'',
     rr_new_value := approved_value hive_tag subkey name (''delay:'' @ dec delay)\<rparr>"

definition wt_action_set_startup_delay ::
  "action_env \<Rightarrow> string \<Rightarrow> nat \<Rightarrow> bool \<Rightarrow> nat \<Rightarrow> machine \<Rightarrow> action_result" where
  "wt_action_set_startup_delay env i delay assume_yes cap m =
     (if i = [] \<or> delay = 0 then (WT_ERR_INVALID_ARGUMENT, [], m)
      else case collect_entries env m of (r, entries, m) \<Rightarrow>
        if r \<noteq> WT_OK then (WT_ERR_WIN32, cch_copy cap ''Could not read startup entries.'', m)
        else case wt_startup_find_entry i entries of
          None \<Rightarrow> (WT_ERR_NOT_FOUND, cch_copy cap (''No startup entry with id '' @ in_quotes i @
                     ''. List ids with '' @ in_quotes ''wintune startup'' @ ''.''), m)
        | Some entry \<Rightarrow>
           (case wt_startup_approved_location (se_source entry) of
              Inl loc \<Rightarrow> (loc, cch_copy cap ''Delayed start is not supported for this startup source.'', m)
            | Inr (hive_tag, subkey) \<Rightarrow>
               (if wcsicmp hive_tag ''HKLM'' \<and> \<not> ae_elevated env then (WT_ERR_ACCESS_DENIED, [], m)
                else case wt_action_confirm env assume_yes m of (yes, m) \<Rightarrow>
                  if \<not> yes then (WT_ERR_CANCELLED, cch_copy cap ''Cancelled. Startup entry unchanged.'', m)
                  else case wt_startup_write_delayed env hive_tag subkey (se_name entry) delay m of (wr, m) \<Rightarrow>
                    if wr \<noteq> WT_OK
                    then (wr, cch_copy cap (''Failed to set startup delay ('' @ wt_result_to_string wr @ '').''), m)
                    else case wt_rollback_write env (startup_delay_record i hive_tag subkey (se_name entry) delay) m of (rr, rec, m) \<Rightarrow>
                      (WT_OK, cch_copy cap (''Startup entry '' @ in_quotes (se_name entry) @ '' delayed by '' @ dec delay @
                         (if rr = WT_OK then '' s. Rollback id: '' @ rr_id rec else '' s. (rollback not saved)'')), m))))"

section \<open>Scheduled tasks\<close>

definition wt_task_find_entry :: "action_env \<Rightarrow> string \<Rightarrow> machine \<Rightarrow> WT_ScheduledTask option" where
  "wt_task_find_entry env i m =
     (case wt_collect_scheduled_tasks (ae_com env) (ae_tree env (mc_tasks m)) WT_MAX_SCHEDULED_TASKS WT_TASK_FILTER_ALL of
        (r, ts) \<Rightarrow> if r \<noteq> WT_OK then None else find_first (\<lambda>t. wcsicmp (st_id t) i) ts)"

definition no_such_task :: "string \<Rightarrow> string" where
  "no_such_task i = ''No scheduled task with id '' @ in_quotes i @ ''. List ids with '' @ in_quotes ''wintune tasks list'' @ ''.''"

definition task_enabled_record :: "string \<Rightarrow> string \<Rightarrow> string \<Rightarrow> bool \<Rightarrow> bool \<Rightarrow> WT_RollbackRecord" where
  "task_enabled_record i path name prev enable = zero_WT_RollbackRecord\<lparr>
     rr_action_type := ''task_enabled'', rr_action_id := cch_copy 64 i,
     rr_description := cch_copy 256 (''Task '' @ in_quotes name @ '': '' @ state_word prev @ '' -> '' @ state_word enable),
     rr_previous_value := cch_copy 256 (path @ ''|'' @ (if prev then ''1'' else ''0'')),
     rr_new_value := cch_copy 256 (path @ ''|'' @ (if enable then ''1'' else ''0''))\<rparr>"

definition wt_action_set_task_enabled ::
  "action_env \<Rightarrow> string \<Rightarrow> bool \<Rightarrow> bool \<Rightarrow> nat \<Rightarrow> machine \<Rightarrow> action_result option" where
  "wt_action_set_task_enabled env i enable assume_yes cap m =
     (if i = [] then Some (WT_ERR_INVALID_ARGUMENT, [], m)
      else case wt_task_find_entry env i m of
        None \<Rightarrow> Some (WT_ERR_NOT_FOUND, cch_copy cap (no_such_task i), m)
      | Some task \<Rightarrow>
         if wt_task_is_protected task
         then Some (WT_ERR_NOT_SUPPORTED, cch_copy cap ''Refusing to change a protected Microsoft/security task.'', m)
         else case wt_task_path_from_id i 256 of (pr, path) \<Rightarrow>
           if pr \<noteq> WT_OK then Some (WT_ERR_INVALID_ARGUMENT, [], m)
           else if enable = st_enabled task
           then Some (WT_OK, cch_copy cap (''Task '' @ in_quotes (st_name task) @ '' is already '' @ state_word enable @ ''.''), m)
           else case wt_action_confirm env assume_yes m of (yes, m) \<Rightarrow>
             if \<not> yes then Some (WT_ERR_CANCELLED, cch_copy cap ''Cancelled. Task unchanged.'', m)
             else case wt_task_set_enabled (ae_com env) path enable (mc_tasks m) of
               None \<Rightarrow> None
             | Some (wr, tasks) \<Rightarrow>
                 if wr \<noteq> WT_OK
                 then Some (wr, cch_copy cap (''Failed to update task ('' @ wt_result_to_string wr @ '').''), m\<lparr>mc_tasks := tasks\<rparr>)
                 else case wt_rollback_write env (task_enabled_record i path (st_name task) (st_enabled task) enable)
                             (m\<lparr>mc_tasks := tasks\<rparr>) of (rr, rec, m) \<Rightarrow>
                   Some (WT_OK, cch_copy cap (''Task '' @ in_quotes (st_name task) @ '' '' @ state_word enable @
                      (if rr = WT_OK then ''. Rollback id: '' @ rr_id rec else ''. (rollback not saved)'')), m))"

definition task_delay_record :: "string \<Rightarrow> string \<Rightarrow> string \<Rightarrow> nat \<Rightarrow> nat \<Rightarrow> WT_RollbackRecord" where
  "task_delay_record i path name prev delay = zero_WT_RollbackRecord\<lparr>
     rr_action_type := ''task_delay'', rr_action_id := cch_copy 64 i,
     rr_description := cch_copy 256 (''Task delay '' @ in_quotes name @ '': '' @ dec delay @ '' s''),
     rr_previous_value := cch_copy 256 (path @ ''|delay:'' @ dec prev),
     rr_new_value := cch_copy 256 (path @ ''|delay:'' @ dec delay)\<rparr>"

definition wt_action_set_task_delay ::
  "action_env \<Rightarrow> string \<Rightarrow> nat \<Rightarrow> bool \<Rightarrow> nat \<Rightarrow> machine \<Rightarrow> action_result option" where
  "wt_action_set_task_delay env i delay assume_yes cap m =
     (if i = [] \<or> delay = 0 then Some (WT_ERR_INVALID_ARGUMENT, [], m)
      else case wt_task_find_entry env i m of
        None \<Rightarrow> Some (WT_ERR_NOT_FOUND, cch_copy cap (no_such_task i), m)
      | Some task \<Rightarrow>
         if wt_task_is_protected task
         then Some (WT_ERR_NOT_SUPPORTED, cch_copy cap ''Refusing to change a protected Microsoft/security task.'', m)
         else if st_trigger_kind task \<noteq> WT_TASK_TRIGGER_LOGON
         then Some (WT_ERR_NOT_SUPPORTED, cch_copy cap (''Task '' @ in_quotes (st_name task) @
                '' has no logon trigger; delay applies to logon-triggered tasks only.''), m)
         else case wt_task_path_from_id i 256 of (pr, path) \<Rightarrow>
           if pr \<noteq> WT_OK then Some (WT_ERR_INVALID_ARGUMENT, [], m)
           else case wt_action_confirm env assume_yes m of (yes, m) \<Rightarrow>
             if \<not> yes then Some (WT_ERR_CANCELLED, cch_copy cap ''Cancelled. Task unchanged.'', m)
             else case wt_task_set_logon_delay (ae_com env) path delay (mc_tasks m) of
               None \<Rightarrow> None
             | Some (wr, tasks) \<Rightarrow>
                 if wr \<noteq> WT_OK
                 then Some (wr, cch_copy cap (''Failed to set task delay ('' @ wt_result_to_string wr @ '').''), m\<lparr>mc_tasks := tasks\<rparr>)
                 else case wt_rollback_write env (task_delay_record i path (st_name task) (st_delay_seconds task) delay)
                             (m\<lparr>mc_tasks := tasks\<rparr>) of (rr, rec, m) \<Rightarrow>
                   Some (WT_OK, cch_copy cap (''Task '' @ in_quotes (st_name task) @ '' logon delay set to '' @ dec delay @
                      (if rr = WT_OK then '' s. Rollback id: '' @ rr_id rec else '' s. (rollback not saved)'')), m))"

end
