(* ===== verification/Action_Map.thy ===== *)
theory Action_Map
  imports Safe_Actions
begin

text \<open>
  Undoing a recorded action (\<open>wt_rollback_apply\<close> of \<open>src/actions/rollback.c\<close>) and the apply command
  (\<open>src/actions/action_map.c\<close>, \<open>src/actions/apply.c\<close>): the table from recommendation ids to actions, the advisory
  ids, and the dispatch of a request. The texts printed to the console are left out.
\<close>

section \<open>Undoing a record\<close>

fun split_bar :: "string \<Rightarrow> string list" where
  "split_bar [] = [[]]"
| "split_bar (c # cs) =
     (if c = CHR ''|'' then [] # split_bar cs
      else (case split_bar cs of [] \<Rightarrow> [[c]] | t # ts \<Rightarrow> (c # t) # ts))"

definition bar_tokens :: "nat \<Rightarrow> string \<Rightarrow> string list" where
  \<comment> \<open>the first tokens of \<open>wcstok_s\<close> with the separator \<open>|\<close>, which gives no empty token\<close>
  "bar_tokens n s = take n (filter (\<lambda>t. t \<noteq> []) (split_bar s))"

definition undo_power :: "action_env \<Rightarrow> string \<Rightarrow> machine \<Rightarrow> WT_Result \<times> machine" where
  "undo_power env prev m =
     (case wt_power_set_active_guid_string (ae_power env) (ae_wide env 256 prev) (mc_plan m) of
        (r, plan) \<Rightarrow> (r, m\<lparr>mc_plan := plan\<rparr>))"

definition undo_startup_approved :: "action_env \<Rightarrow> string \<Rightarrow> machine \<Rightarrow> WT_Result \<times> machine" where
  "undo_startup_approved env prev m =
     (case bar_tokens 4 (ae_wide env 512 prev) of
        [tag, subkey, name, v] \<Rightarrow> wt_startup_write_approved env tag subkey name (v = ''02'') m
      | _ \<Rightarrow> (WT_ERR_INVALID_ARGUMENT, m))"

definition undo_task_enabled :: "action_env \<Rightarrow> string \<Rightarrow> machine \<Rightarrow> (WT_Result \<times> machine) option" where
  "undo_task_enabled env prev m =
     (case bar_tokens 2 (ae_wide env 512 prev) of
        [path, v] \<Rightarrow> map_option (\<lambda>(r, tasks). (r, m\<lparr>mc_tasks := tasks\<rparr>))
                       (wt_task_set_enabled (ae_com env) path (v = ''1'') (mc_tasks m))
      | _ \<Rightarrow> Some (WT_ERR_INVALID_ARGUMENT, m))"

definition undo_task_delay :: "action_env \<Rightarrow> string \<Rightarrow> machine \<Rightarrow> (WT_Result \<times> machine) option" where
  "undo_task_delay env prev m =
     (let w = ae_wide env 512 prev
      in case strchr w (CHR ''|'') of None \<Rightarrow> Some (WT_ERR_INVALID_ARGUMENT, m)
         | Some p \<Rightarrow>
            let path = take (length w - length p) w; part = tl p;
                seconds = (if strncmp 6 part ''delay:'' then (case strtoul (drop 6 part) of None \<Rightarrow> 0 | Some n \<Rightarrow> n) else 0)
            in map_option (\<lambda>(r, tasks). (r, m\<lparr>mc_tasks := tasks\<rparr>))
                 (wt_task_set_logon_delay (ae_com env) path seconds (mc_tasks m)))"

definition undo_startup_delay :: "action_env \<Rightarrow> string \<Rightarrow> machine \<Rightarrow> WT_Result \<times> machine" where
  "undo_startup_delay env prev m =
     (case bar_tokens 4 (ae_wide env 512 prev) of
        tag # subkey # name # _ \<Rightarrow> wt_startup_write_approved env tag subkey name True m
      | _ \<Rightarrow> (WT_ERR_INVALID_ARGUMENT, m))"

definition wt_rollback_apply :: "action_env \<Rightarrow> string \<Rightarrow> bool \<Rightarrow> machine \<Rightarrow> (WT_Result \<times> machine) option" where
  "wt_rollback_apply env rid assume_yes m =
     (if rid = [] then Some (WT_ERR_INVALID_ARGUMENT, m)
      else case wt_rollback_record_path env rid MAX_PATH of (r, path) \<Rightarrow>
        if r \<noteq> WT_OK then Some (r, m)
        else case wt_read_file_utf8 m path of
          None \<Rightarrow> Some (WT_ERR_NOT_FOUND, m)
        | Some buf \<Rightarrow>
           (let ty = snd (wt_json_get buf ''action_type'' 80); prev = snd (wt_json_get buf ''previous_value'' 256);
                confirmed = (\<lambda>undo. case wt_action_confirm env assume_yes m of (yes, m) \<Rightarrow>
                               if \<not> yes then Some (WT_ERR_CANCELLED, m) else undo m)
            in if ty = ''power_plan_change'' then confirmed (\<lambda>m. Some (undo_power env prev m))
               else if ty = ''startup_approved'' then confirmed (\<lambda>m. Some (undo_startup_approved env prev m))
               else if ty = ''task_enabled'' then confirmed (undo_task_enabled env prev)
               else if ty = ''task_delay'' then confirmed (undo_task_delay env prev)
               else if ty = ''startup_delay'' then confirmed (\<lambda>m. Some (undo_startup_delay env prev m))
               else Some (WT_ERR_NOT_SUPPORTED, m)))"

section \<open>The apply command\<close>

datatype WT_ApplyKind =
    WT_APPLY_NONE | WT_APPLY_POWER_SCHEME | WT_APPLY_STARTUP_DISABLE | WT_APPLY_STARTUP_DELAY
  | WT_APPLY_TASK_DISABLE | WT_APPLY_TASK_DELAY | WT_APPLY_ADVISORY

record WT_ApplySpec =
  as_rec_id :: string
  as_kind :: WT_ApplyKind
  as_power_scheme :: WT_PowerScheme
  as_default_delay_seconds :: nat

record WT_ApplyRequest =
  rq_rec_id :: string
  rq_target_id :: string
  rq_delay_seconds :: nat
  rq_assume_yes :: bool
  rq_msg_cap :: nat

definition g_apply_specs :: "WT_ApplySpec list" where
  "g_apply_specs =
     [\<lparr>as_rec_id = ''WT-POWER-001'', as_kind = WT_APPLY_POWER_SCHEME, as_power_scheme = WT_POWER_HIGH_PERF, as_default_delay_seconds = 0\<rparr>,
      \<lparr>as_rec_id = ''WT-POWER-002'', as_kind = WT_APPLY_POWER_SCHEME, as_power_scheme = WT_POWER_BALANCED, as_default_delay_seconds = 0\<rparr>,
      \<lparr>as_rec_id = ''WT-STARTUP-DISABLE'', as_kind = WT_APPLY_STARTUP_DISABLE, as_power_scheme = WT_POWER_UNKNOWN, as_default_delay_seconds = 0\<rparr>,
      \<lparr>as_rec_id = ''WT-STARTUP-DELAY'', as_kind = WT_APPLY_STARTUP_DELAY, as_power_scheme = WT_POWER_UNKNOWN, as_default_delay_seconds = 30\<rparr>,
      \<lparr>as_rec_id = ''WT-TASK-DISABLE'', as_kind = WT_APPLY_TASK_DISABLE, as_power_scheme = WT_POWER_UNKNOWN, as_default_delay_seconds = 0\<rparr>,
      \<lparr>as_rec_id = ''WT-TASK-DELAY'', as_kind = WT_APPLY_TASK_DELAY, as_power_scheme = WT_POWER_UNKNOWN, as_default_delay_seconds = 30\<rparr>]"

definition g_advisory_ids :: "string list" where
  "g_advisory_ids =
     [''WT-MEMORY-001'', ''WT-MEMORY-002'', ''WT-MEMORY-003'', ''WT-DISK-001'', ''WT-DISK-002'', ''WT-DISK-003'',
      ''WT-DISK-004'', ''WT-DISK-005'', ''WT-RELIABILITY-001'', ''WT-RELIABILITY-002'', ''WT-RELIABILITY-003'',
      ''WT-MAINT-001'', ''WT-MAINT-002'', ''WT-MAINT-003'', ''WT-MAINT-004'', ''WT-CPU-001'', ''WT-GPU-001'',
      ''WT-POWER-003'', ''WT-POWER-004'', ''WT-BOOT-001'', ''WT-BOOT-002'', ''WT-STARTUP-001'', ''WT-UPDATE-001'',
      ''WT-UPDATE-002'', ''WT-UPDATE-003'', ''WT-UPDATE-004'', ''WT-BLOCKER-001'', ''WT-STARTUP-002'', ''WT-TASK-001'',
      ''WT-UNINSTALL-001'']"

definition wt_apply_spec_lookup :: "string \<Rightarrow> WT_ApplySpec option" where
  "wt_apply_spec_lookup rid =
     (if rid = [] then None else find_first (\<lambda>s. wcsicmp rid (as_rec_id s)) g_apply_specs)"

definition wt_apply_is_advisory_rec_id :: "string \<Rightarrow> bool" where
  "wt_apply_is_advisory_rec_id rid = list_ex (wcsicmp rid) g_advisory_ids"

definition wt_apply_spec_count :: nat where "wt_apply_spec_count = length g_apply_specs"

definition wt_apply_spec_at :: "nat \<Rightarrow> WT_ApplySpec option" where
  "wt_apply_spec_at i = (if i \<ge> length g_apply_specs then None else Some (g_apply_specs ! i))"

definition needs_target :: "WT_ApplyRequest \<Rightarrow> string \<Rightarrow> string \<Rightarrow> string" where
  "needs_target req what example =
     in_quotes (rq_rec_id req) @ '' requires a '' @ what @ ''.'' @ nl @ ''Usage: wintune apply '' @ example"

definition apply_other :: "WT_ApplyRequest \<Rightarrow> machine \<Rightarrow> action_result option" where
  \<comment> \<open>ids with no action: advisory or unknown\<close>
  "apply_other req m =
     (if wt_apply_is_advisory_rec_id (rq_rec_id req)
      then Some (WT_ERR_NOT_SUPPORTED, cch_copy (rq_msg_cap req) (in_quotes (rq_rec_id req) @
             '' is advisory: it has no automatic action. Follow the steps shown by '' @ in_quotes ''wintune recommend'' @ ''.''), m)
      else Some (WT_ERR_NOT_FOUND, cch_copy (rq_msg_cap req) (in_quotes (rq_rec_id req) @
             '' is not a recognized recommendation id. Run '' @ in_quotes ''wintune recommend'' @ '' to see current ids.''), m))"

definition apply_spec :: "action_env \<Rightarrow> WT_ApplyRequest \<Rightarrow> WT_ApplySpec \<Rightarrow> machine \<Rightarrow> action_result option" where
  \<comment> \<open>the switch on the kind of the table entry\<close>
  "apply_spec env req spec m =
     (let cap = rq_msg_cap req; yes = rq_assume_yes req; target = rq_target_id req;
          delay = (if rq_delay_seconds req = 0 then as_default_delay_seconds spec else rq_delay_seconds req);
          missing = (\<lambda>what example. Some (WT_ERR_INVALID_ARGUMENT, cch_copy cap (needs_target req what example), m))
      in case as_kind spec of
           WT_APPLY_POWER_SCHEME \<Rightarrow> Some (wt_action_set_power_plan env (as_power_scheme spec) yes cap m)
         | WT_APPLY_STARTUP_DISABLE \<Rightarrow>
             if target = [] then missing ''startup entry id'' ''WT-STARTUP-DISABLE <startup-id>''
             else Some (wt_action_set_startup_enabled env target False yes cap m)
         | WT_APPLY_STARTUP_DELAY \<Rightarrow>
             if target = [] then missing ''startup entry id'' ''WT-STARTUP-DELAY <startup-id> --seconds 30''
             else Some (wt_action_set_startup_delay env target delay yes cap m)
         | WT_APPLY_TASK_DISABLE \<Rightarrow>
             if target = [] then missing ''task id'' ''WT-TASK-DISABLE <task-id>''
             else wt_action_set_task_enabled env target False yes cap m
         | WT_APPLY_TASK_DELAY \<Rightarrow>
             if target = [] then missing ''task id'' ''WT-TASK-DELAY <task-id> --seconds 30''
             else wt_action_set_task_delay env target delay yes cap m
         | _ \<Rightarrow> apply_other req m)"

definition wt_apply_from_request :: "action_env \<Rightarrow> WT_ApplyRequest \<Rightarrow> machine \<Rightarrow> action_result option" where
  "wt_apply_from_request env req m =
     (if rq_rec_id req = []
      then Some (WT_ERR_INVALID_ARGUMENT, cch_copy (rq_msg_cap req)
             ''Usage: wintune apply <id> [target-id]  (e.g. WT-POWER-001 or WT-STARTUP-DISABLE <id>)'', m)
      else case wt_apply_spec_lookup (rq_rec_id req) of
        Some spec \<Rightarrow> apply_spec env req spec m
      | None \<Rightarrow> apply_other req m)"

definition wt_apply_recommendation_ex :: "action_env \<Rightarrow> WT_ApplyRequest \<Rightarrow> machine \<Rightarrow> action_result option" where
  "wt_apply_recommendation_ex env req m = wt_apply_from_request env req m"

definition wt_apply_recommendation ::
  "action_env \<Rightarrow> string \<Rightarrow> string \<Rightarrow> nat \<Rightarrow> bool \<Rightarrow> nat \<Rightarrow> machine \<Rightarrow> action_result option" where
  "wt_apply_recommendation env rid target delay assume_yes cap m =
     wt_apply_from_request env \<lparr>rq_rec_id = rid, rq_target_id = target, rq_delay_seconds = delay,
       rq_assume_yes = assume_yes, rq_msg_cap = cap\<rparr> m"

end
