(* ===== verification/Delay_Plan.thy ===== *)
theory Delay_Plan
  imports Action_Map
begin

text \<open>
  The staggered delay plan (\<open>src/actions/delay_plan.c\<close>): which startup entries and tasks it takes, which it excludes
  as security software, the delays it hands out, and the application of the plan item by item. \<open>boot\<close> is what
  \<open>wt_collect_boot_from_event_log\<close> gives: its result and the report.
\<close>

datatype WT_DelayPlanKind = WT_DELAY_KIND_STARTUP | WT_DELAY_KIND_TASK

record WT_DelayPlanItem =
  di_id :: string
  di_name :: string
  di_kind :: WT_DelayPlanKind
  di_delay_seconds :: nat
  di_recommended :: bool
  di_excluded :: bool
  di_exclude_reason :: string
  di_impact_score :: int
  di_measured_ms :: nat
  di_origin :: WT_PublisherOrigin

record WT_DelayPlan =
  dl_items :: "WT_DelayPlanItem list"
  dl_recommended_count :: nat
  dl_excluded_count :: nat
  dl_base_seconds :: nat
  dl_stagger_seconds :: nat
  dl_include_tasks :: bool

definition WT_MAX_DELAY_PLAN_ITEMS :: nat where "WT_MAX_DELAY_PLAN_ITEMS = 64"
definition WT_DELAY_PLAN_DEFAULT_BASE_SEC :: nat where "WT_DELAY_PLAN_DEFAULT_BASE_SEC = 30"
definition WT_DELAY_PLAN_STAGGER_SEC :: nat where "WT_DELAY_PLAN_STAGGER_SEC = 15"
definition WT_DELAY_PLAN_MAX_SEC :: nat where "WT_DELAY_PLAN_MAX_SEC = 300"

definition wt_delay_plan_init :: WT_DelayPlan where
  "wt_delay_plan_init = \<lparr>dl_items = [], dl_recommended_count = 0, dl_excluded_count = 0,
     dl_base_seconds = WT_DELAY_PLAN_DEFAULT_BASE_SEC, dl_stagger_seconds = WT_DELAY_PLAN_STAGGER_SEC,
     dl_include_tasks = False\<rparr>"

definition wt_delay_plan_kind_name :: "WT_DelayPlanKind \<Rightarrow> string" where
  "wt_delay_plan_kind_name k = (case k of WT_DELAY_KIND_STARTUP \<Rightarrow> ''startup'' | WT_DELAY_KIND_TASK \<Rightarrow> ''task'')"

section \<open>What the plan takes\<close>

definition to_upper :: "char \<Rightarrow> char" where
  \<comment> \<open>\<open>_wcsupr\<close> in the C locale\<close>
  "to_upper c = (let n = of_char c :: nat in if 97 \<le> n \<and> n \<le> 122 then char_of (n - 32) else c)"

definition wt_delay_wcs_has_i :: "string option \<Rightarrow> string \<Rightarrow> bool" where
  "wt_delay_wcs_has_i hay needle =
     (case hay of None \<Rightarrow> False
      | Some h \<Rightarrow> if needle = [] then False else contains_str (map to_upper h) (map to_upper needle))"

definition delay_blocked :: "string list" where
  "delay_blocked = [''SecurityHealth'', ''Windows Defender'', ''WindowsSecurity'', ''MsMpEng'', ''Sense'', ''SmartScreen'',
     ''NisSrv'', ''WdNisSvc'', ''WinDefend'', ''SecurityHealthSystray'', ''Windows Security'']"

definition wt_delay_plan_is_security_blocked :: "string option \<Rightarrow> string option \<Rightarrow> WT_FileIdentity option \<Rightarrow> bool" where
  "wt_delay_plan_is_security_blocked name command idn =
     (if list_ex (\<lambda>b. wt_delay_wcs_has_i name b \<or> wt_delay_wcs_has_i command b) delay_blocked then True
      else case idn of None \<Rightarrow> False
      | Some i \<Rightarrow>
         if fi_signature i = WT_SIG_SIGNED_MICROSOFT \<or> fi_origin i = WT_ORIGIN_MICROSOFT
         then (if wt_delay_wcs_has_i name ''Defender'' \<or> wt_delay_wcs_has_i name ''Security'' \<or>
                  wt_delay_wcs_has_i (Some (fi_product_name i)) ''Defender'' \<or>
                  wt_delay_wcs_has_i (Some (fi_product_name i)) ''Security Health'' then True
               else fi_location i = WT_LOC_WINDOWS \<and>
                  (wt_delay_wcs_has_i command (bsl ''/System32/SecurityHealth'') \<or>
                   wt_delay_wcs_has_i command (bsl ''/System32/smartscreen'')))
         else False)"

definition wt_delay_startup_supported :: "WT_StartupSource \<Rightarrow> bool" where
  "wt_delay_startup_supported src \<longleftrightarrow> src = WT_STARTUP_SRC_HKCU_RUN \<or> src = WT_STARTUP_SRC_HKLM_RUN \<or>
     src = WT_STARTUP_SRC_USER_FOLDER \<or> src = WT_STARTUP_SRC_COMMON_FOLDER"

definition wt_delay_should_recommend_startup :: "WT_StartupEntry \<Rightarrow> bool" where
  "wt_delay_should_recommend_startup e =
     (if \<not> se_enabled e then False
      else if \<not> wt_delay_startup_supported (se_source e) then False
      else if wt_delay_plan_is_security_blocked (Some (se_name e)) (Some (se_command e)) (Some (se_identity e)) then False
      else if fi_origin (se_identity e) = WT_ORIGIN_THIRD_PARTY then True
      else if se_impact e = WT_STARTUP_IMPACT_HIGH \<or> se_impact e = WT_STARTUP_IMPACT_MEDIUM then True
      else if se_impact_score e \<ge> 40 then True
      else se_measured_available e \<and> se_measured_ms e \<ge> 2000)"

definition wt_delay_should_recommend_task :: "WT_ScheduledTask \<Rightarrow> bool" where
  "wt_delay_should_recommend_task t =
     (if \<not> st_enabled t then False
      else if st_is_microsoft t then False
      else if st_trigger_kind t \<noteq> WT_TASK_TRIGGER_LOGON \<and> st_trigger_kind t \<noteq> WT_TASK_TRIGGER_BOOT then False
      else if wt_delay_plan_is_security_blocked (Some (st_name t)) (Some (st_command t)) None then False
      else if st_impact t = WT_STARTUP_IMPACT_HIGH \<or> st_impact t = WT_STARTUP_IMPACT_MEDIUM \<or> st_impact_score t \<ge> 40 then True
      else if st_measured_available t \<and> st_measured_ms t \<ge> 2000 then True
      else True)"

section \<open>Building\<close>

definition wt_delay_plan_add :: "WT_DelayPlanItem \<Rightarrow> WT_DelayPlan \<Rightarrow> WT_DelayPlan option" where
  \<comment> \<open>None when the plan is full\<close>
  "wt_delay_plan_add it plan =
     (if length (dl_items plan) \<ge> WT_MAX_DELAY_PLAN_ITEMS then None else Some (plan\<lparr>dl_items := dl_items plan @ [it]\<rparr>))"

definition delay_counted :: "bool \<Rightarrow> WT_DelayPlan \<Rightarrow> WT_DelayPlan" where
  "delay_counted security plan =
     (if security then plan\<lparr>dl_excluded_count := Suc (dl_excluded_count plan)\<rparr>
      else plan\<lparr>dl_recommended_count := Suc (dl_recommended_count plan)\<rparr>)"

definition startup_item :: "WT_StartupEntry \<Rightarrow> bool \<Rightarrow> WT_DelayPlanItem" where
  "startup_item e security = \<lparr>di_id = cch_copy 280 (se_id e), di_name = cch_copy 128 (se_name e),
     di_kind = WT_DELAY_KIND_STARTUP, di_delay_seconds = 0, di_recommended = (\<not> security), di_excluded = security,
     di_exclude_reason = (if security then cch_copy 96 ''Microsoft security / health (never auto-delayed)'' else []),
     di_impact_score = se_impact_score e, di_measured_ms = (if se_measured_available e then se_measured_ms e else 0),
     di_origin = fi_origin (se_identity e)\<rparr>"

definition task_item :: "WT_ScheduledTask \<Rightarrow> bool \<Rightarrow> WT_DelayPlanItem" where
  "task_item t security = \<lparr>di_id = cch_copy 280 (st_id t), di_name = cch_copy 128 (st_name t),
     di_kind = WT_DELAY_KIND_TASK, di_delay_seconds = 0, di_recommended = (\<not> security), di_excluded = security,
     di_exclude_reason = (if security then cch_copy 96 ''Microsoft / security task (never auto-delayed)'' else []),
     di_impact_score = st_impact_score t, di_measured_ms = (if st_measured_available t then st_measured_ms t else 0),
     di_origin = (if st_is_microsoft t then WT_ORIGIN_MICROSOFT else WT_ORIGIN_THIRD_PARTY)\<rparr>"

fun delay_add_entries :: "WT_StartupEntry list \<Rightarrow> WT_DelayPlan \<Rightarrow> WT_DelayPlan" where
  "delay_add_entries [] plan = plan"
| "delay_add_entries (e # es) plan =
     (let security = wt_delay_plan_is_security_blocked (Some (se_name e)) (Some (se_command e)) (Some (se_identity e));
          recommend = (\<not> security \<and> wt_delay_should_recommend_startup e)
      in if \<not> se_enabled e \<or> \<not> wt_delay_startup_supported (se_source e) then delay_add_entries es plan
         else if \<not> security \<and> \<not> recommend then delay_add_entries es plan
         else case wt_delay_plan_add (startup_item e security) plan of
           None \<Rightarrow> plan
         | Some plan \<Rightarrow> delay_add_entries es (delay_counted security plan))"

fun delay_add_tasks :: "WT_ScheduledTask list \<Rightarrow> WT_DelayPlan \<Rightarrow> WT_DelayPlan" where
  "delay_add_tasks [] plan = plan"
| "delay_add_tasks (t # ts) plan =
     (let security = (st_is_microsoft t \<or> wt_delay_plan_is_security_blocked (Some (st_name t)) (Some (st_command t)) None);
          recommend = (\<not> security \<and> wt_delay_should_recommend_task t)
      in if \<not> st_enabled t then delay_add_tasks ts plan
         else if \<not> security \<and> \<not> recommend then delay_add_tasks ts plan
         else case wt_delay_plan_add (task_item t security) plan of
           None \<Rightarrow> plan
         | Some plan \<Rightarrow> delay_add_tasks ts (delay_counted security plan))"

fun stagger_items :: "nat \<Rightarrow> nat \<Rightarrow> nat \<Rightarrow> WT_DelayPlanItem list \<Rightarrow> WT_DelayPlanItem list" where
  \<comment> \<open>\<open>unsigned long\<close> sums; the second number counts the recommended items so far\<close>
  "stagger_items base stagger n [] = []"
| "stagger_items base stagger n (it # its) =
     (if \<not> di_recommended it then it\<lparr>di_delay_seconds := 0\<rparr> # stagger_items base stagger n its
      else let d = wrap32 (base + wrap32 (n * stagger))
           in it\<lparr>di_delay_seconds := (if d > WT_DELAY_PLAN_MAX_SEC then WT_DELAY_PLAN_MAX_SEC else d)\<rparr> #
              stagger_items base stagger (Suc n) its)"

definition wt_delay_assign_stagger :: "WT_DelayPlan \<Rightarrow> WT_DelayPlan" where
  "wt_delay_assign_stagger plan =
     plan\<lparr>dl_items := stagger_items (dl_base_seconds plan) (dl_stagger_seconds plan) 0 (dl_items plan)\<rparr>"

definition wt_delay_plan_build ::
  "action_env \<Rightarrow> WT_Result \<times> WT_BootReport \<Rightarrow> nat \<Rightarrow> bool \<Rightarrow> machine \<Rightarrow> WT_Result \<times> WT_DelayPlan \<times> machine" where
  "wt_delay_plan_build env boot base_seconds include_tasks m =
     (let plan = wt_delay_plan_init\<lparr>dl_base_seconds := (if base_seconds > 0 then base_seconds else WT_DELAY_PLAN_DEFAULT_BASE_SEC),
            dl_include_tasks := include_tasks\<rparr>
      in case collect_entries env m of (r, entries, m) \<Rightarrow>
        if r \<noteq> WT_OK then (r, plan, m)
        else let entries = (if fst boot = WT_OK then wt_startup_apply_measured (snd boot) entries else entries);
                 plan = delay_add_entries entries plan;
                 plan = (if include_tasks
                   then (case wt_collect_scheduled_tasks (ae_com env) (ae_tree env (mc_tasks m)) WT_MAX_SCHEDULED_TASKS
                                WT_TASK_FILTER_STARTUP of
                           (tr, tasks) \<Rightarrow>
                             if tr \<noteq> WT_OK then plan
                             else delay_add_tasks (if br_boot_duration_ms (snd boot) > 0
                                    then wt_tasks_apply_measured (snd boot) tasks else tasks) plan)
                   else plan)
             in (WT_OK, wt_delay_assign_stagger plan, m))"

section \<open>Applying\<close>

record delay_tally =
  ta_applied :: nat
  ta_skipped :: nat
  ta_failed :: nat

definition apply_delay_item :: "action_env \<Rightarrow> WT_DelayPlanItem \<Rightarrow> bool \<Rightarrow> machine \<Rightarrow> action_result option" where
  "apply_delay_item env it assume_yes m =
     (if di_kind it = WT_DELAY_KIND_STARTUP
      then Some (wt_action_set_startup_delay env (di_id it) (di_delay_seconds it) assume_yes 256 m)
      else wt_action_set_task_delay env (di_id it) (di_delay_seconds it) assume_yes 256 m)"

definition tally_result :: "WT_Result \<Rightarrow> delay_tally \<Rightarrow> delay_tally" where
  "tally_result r t =
     (if r = WT_OK then t\<lparr>ta_applied := Suc (ta_applied t)\<rparr>
      else if r = WT_ERR_CANCELLED then t\<lparr>ta_skipped := Suc (ta_skipped t)\<rparr>
      else t\<lparr>ta_failed := Suc (ta_failed t)\<rparr>)"

fun apply_delay_items ::
  "action_env \<Rightarrow> bool \<Rightarrow> WT_DelayPlanItem list \<Rightarrow> delay_tally \<times> machine \<Rightarrow> (delay_tally \<times> machine) option" where
  "apply_delay_items env assume_yes [] st = Some st"
| "apply_delay_items env assume_yes (it # its) (t, m) =
     (if \<not> di_recommended it \<or> di_delay_seconds it = 0 then apply_delay_items env assume_yes its (t, m)
      else if wt_delay_plan_is_security_blocked (Some (di_name it)) None None
      then apply_delay_items env assume_yes its (t\<lparr>ta_skipped := Suc (ta_skipped t)\<rparr>, m)
      else case apply_delay_item env it assume_yes m of
        None \<Rightarrow> None
      | Some (r, msg, m) \<Rightarrow> apply_delay_items env assume_yes its (tally_result r t, m))"

definition delay_summary :: "delay_tally \<Rightarrow> string" where
  "delay_summary t = cch_copy 384 (''Delay plan finished: '' @ dec (ta_applied t) @ '' applied, '' @ dec (ta_skipped t) @
     '' skipped, '' @ dec (ta_failed t) @ '' failed. Use '' @ in_quotes ''wintune rollback list'' @ '' to undo.'')"

definition wt_delay_plan_apply :: "action_env \<Rightarrow> WT_DelayPlan \<Rightarrow> bool \<Rightarrow> nat \<Rightarrow> machine \<Rightarrow> action_result option" where
  "wt_delay_plan_apply env plan assume_yes cap m =
     (if dl_recommended_count plan = 0
      then Some (WT_OK, cch_copy cap ''No recommended delay candidates. Nothing to apply.'', m)
      else case (if assume_yes then (True, m) else wt_action_confirm env False m) of (yes, m) \<Rightarrow>
        if \<not> yes then Some (WT_ERR_CANCELLED, cch_copy cap ''Cancelled. No delays applied.'', m)
        else case apply_delay_items env assume_yes (dl_items plan) (\<lparr>ta_applied = 0, ta_skipped = 0, ta_failed = 0\<rparr>, m) of
          None \<Rightarrow> None
        | Some (t, m) \<Rightarrow>
            Some (if ta_applied t = 0 \<and> ta_failed t > 0 then WT_ERR_WIN32
                  else if ta_applied t = 0 \<and> ta_skipped t > 0 then WT_ERR_CANCELLED else WT_OK,
                  cch_copy cap (delay_summary t), m))"

end
