(* ===== verification/Action_Theorems.thy ===== *)
theory Action_Theorems
  imports Delay_Plan
begin

text \<open>
  What holds of every action: the wait loop of a service restart returns; the locale \<open>action_rel\<close> states which basic
  changes a predicate on machines must survive, its lemmas carry the predicate through each action once, and its two
  interpretations give the consent property (nothing changes when the answer is no) and the frame property
  (what no action touches), which rule induction extends to every session of actions.
\<close>

section \<open>The wait loop\<close>

definition sees_state :: "action_env \<Rightarrow> string \<Rightarrow> nat \<Rightarrow> machine \<Rightarrow> nat \<Rightarrow> bool" where
  \<comment> \<open>poll \<open>j\<close> from now reports the state and no poll before it fails\<close>
  "sees_state env name desired m j \<longleftrightarrow>
     (\<exists>pid. ae_query env (mc_services m) (mc_polls m + j) name = Some (desired, pid)) \<and>
     (\<forall>i < j. ae_query env (mc_services m) (mc_polls m + i) name \<noteq> None)"

definition polled :: "nat \<Rightarrow> machine \<Rightarrow> machine" where
  "polled k m = m\<lparr>mc_polls := mc_polls m + k\<rparr>"

lemma polled_simps [simp]: "polled 0 m = m" "polled j (polled k m) = polled (k + j) m"
  by (simp_all add: polled_def add.assoc)

lemma sees_0: "sees_state env name d m 0 \<longleftrightarrow> (\<exists>pid. ae_query env (mc_services m) (mc_polls m) name = Some (d, pid))"
  by (simp add: sees_state_def)

lemma sees_Suc: "sees_state env name d m (Suc j) \<longleftrightarrow>
    ae_query env (mc_services m) (mc_polls m) name \<noteq> None \<and> sees_state env name d (polled 1 m) j"
  by (auto simp: sees_state_def polled_def less_Suc_eq_0_disj)

lemma snapshot_polled: "wt_service_query_snapshot env name m = (ae_query env (mc_services m) (mc_polls m) name, polled 1 m)"
  by (simp add: wt_service_query_snapshot_def polled_def)

lemma ex_Suc_split: "(\<exists>j::nat. w + 200 * j < T \<and> P j) \<longleftrightarrow> w < T \<and> P 0 \<or> (\<exists>j. w + 200 + 200 * j < T \<and> P (Suc j))"
proof
  assume "\<exists>j. w + 200 * j < T \<and> P j"
  then obtain j where "w + 200 * j < T" "P j" by blast
  then show "w < T \<and> P 0 \<or> (\<exists>j. w + 200 + 200 * j < T \<and> P (Suc j))" by (cases j) auto
next
  assume "w < T \<and> P 0 \<or> (\<exists>j. w + 200 + 200 * j < T \<and> P (Suc j))"
  then show "\<exists>j. w + 200 * j < T \<and> P j"
  proof
    assume "\<exists>j. w + 200 + 200 * j < T \<and> P (Suc j)"
    then obtain j where "w + 200 * Suc j < T \<and> P (Suc j)" by (auto simp: algebra_simps)
    then show ?thesis by blast
  qed (intro exI [of _ 0], simp)
qed

lemma wait_state_returns:
  assumes "T \<le> 2 ^ 32 - 200"
  shows "w < 2 ^ 32 \<Longrightarrow> T \<le> w + 200 * n \<Longrightarrow>
    \<exists>b k. wait_state env name d (of_nat T) (of_nat w) m = Some (b, polled k m) \<and> k \<le> n \<and>
      b = (\<exists>j. w + 200 * j < T \<and> sees_state env name d m j)"
proof (induction n arbitrary: w m)
  case 0
  then have "\<not> (of_nat w :: u32) < of_nat T"
    using assms by (simp add: word_less_nat_alt unat_of_nat take_bit_nat_eq_self)
  then have "wait_state env name d (of_nat T) (of_nat w) m = Some (False, polled 0 m)"
    by (subst wait_state.simps) simp
  then show ?case using 0 by auto
next
  case (Suc n)
  have lt: "(of_nat w :: u32) < of_nat T \<longleftrightarrow> w < T"
    using assms Suc.prems by (simp add: word_less_nat_alt unat_of_nat take_bit_nat_eq_self)
  show ?case
  proof (cases "w < T")
    case False
    then have "wait_state env name d (of_nat T) (of_nat w) m = Some (False, polled 0 m)"
      by (subst wait_state.simps) (simp add: lt)
    then show ?thesis using False by (intro exI [of _ False] exI [of _ 0]) simp
  next
    case True
    show ?thesis
    proof (cases "ae_query env (mc_services m) (mc_polls m) name")
      case None
      then have "wait_state env name d (of_nat T) (of_nat w) m = Some (False, polled 1 m)"
        by (subst wait_state.simps) (simp add: lt True snapshot_polled)
      then show ?thesis using None by (auto simp: ex_Suc_split sees_0 sees_Suc intro!: exI [of _ 1])
    next
      case (Some sp)
      show ?thesis
      proof (cases "fst sp = d")
        case True
        then have "wait_state env name d (of_nat T) (of_nat w) m = Some (True, polled 1 m)"
          by (subst wait_state.simps) (simp add: lt \<open>w < T\<close> snapshot_polled Some case_prod_beta)
        moreover have "\<exists>j. w + 200 * j < T \<and> sees_state env name d m j"
          using True Some \<open>w < T\<close> by (intro exI [of _ 0]) (cases sp, simp add: sees_0)
        ultimately show ?thesis by (intro exI [of _ True] exI [of _ 1]) simp
      next
        case False
        have "wait_state env name d (of_nat T) (of_nat w) m =
            wait_state env name d (of_nat T) (of_nat (w + 200)) (polled 1 m)"
          by (subst wait_state.simps) (simp add: lt True snapshot_polled Some False case_prod_beta)
        moreover obtain b k where "wait_state env name d (of_nat T) (of_nat (w + 200)) (polled 1 m)
            = Some (b, polled k (polled 1 m))" "k \<le> n"
          "b = (\<exists>j. w + 200 + 200 * j < T \<and> sees_state env name d (polled 1 m) j)"
          using Suc.IH [of "w + 200" "polled 1 m"] Suc.prems assms True by auto
        moreover have "\<not> sees_state env name d m 0" using Some False by (cases sp) (simp add: sees_0)
        moreover have "sees_state env name d m (Suc j) = sees_state env name d (polled 1 m) j" for j
          using Some by (simp add: sees_Suc)
        ultimately show ?thesis
          by (intro exI [of _ b] exI [of _ "Suc k"]) (simp add: ex_Suc_split [of w T])
      qed
    qed
  qed
qed

lemma wt_service_wait_returns:
  "\<exists>b k. wt_service_wait_state env name d 15000 m = Some (b, polled k m) \<and> k \<le> 75 \<and>
     b = (\<exists>j < 75. sees_state env name d m j)"
proof -
  have "(200 * j < 15000) = (j < 75)" for j :: nat by auto
  then show ?thesis
    using wait_state_returns [of 15000 0 75 env name d m] by (simp add: wt_service_wait_state_def)
qed

section \<open>One predicate through every action\<close>

lemma confirm_input: "\<exists>i. snd (wt_action_confirm env y m) = m\<lparr>mc_input := i\<rparr>"
proof (cases "y \<or> \<not> ae_interactive env \<or> mc_input m = []")
  case True
  then have "snd (wt_action_confirm env y m) = m\<lparr>mc_input := mc_input m\<rparr>" by (auto simp: wt_action_confirm_def)
  then show ?thesis by blast
qed (auto simp: wt_action_confirm_def case_prod_beta)

lemma confirm_same_input:
  "mc_input m' = mc_input m \<Longrightarrow> fst (wt_action_confirm env y m') = fst (wt_action_confirm env y m)"
  by (simp add: wt_action_confirm_def case_prod_beta)

lemma collect_cache: "\<exists>c. snd (snd (collect_entries env m)) = m\<lparr>mc_cache := c\<rparr>"
  by (auto simp: collect_entries_def case_prod_beta)

lemma task_writers_dom:
  "wt_task_set_enabled com path en st = Some (r, st') \<Longrightarrow> dom st' = dom st"
  "wt_task_set_logon_delay com path n st = Some (r, st') \<Longrightarrow> dom st' = dom st"
  by (auto simp: wt_task_set_enabled_def wt_task_set_logon_delay_def wt_task_register_definition_def wt_task_connect_def
    Let_def split: if_splits option.splits sum.splits)

locale action_rel =
  fixes env :: action_env and R :: "machine \<Rightarrow> bool" and consented :: bool
  assumes input: "R m \<Longrightarrow> R (m\<lparr>mc_input := i\<rparr>)"
    and cache: "R m \<Longrightarrow> R (m\<lparr>mc_cache := c\<rparr>)"
    and polls: "R m \<Longrightarrow> R (m\<lparr>mc_polls := k\<rparr>)"
    and plan: "consented \<Longrightarrow> R m \<Longrightarrow> R (m\<lparr>mc_plan := p\<rparr>)"
    and blob: "consented \<Longrightarrow> R m \<Longrightarrow> length b = 12 \<Longrightarrow> R (m\<lparr>mc_registry := (mc_registry m)(v \<mapsto> b)\<rparr>)"
    and tasks: "consented \<Longrightarrow> R m \<Longrightarrow> dom t = dom (mc_tasks m) \<Longrightarrow> R (m\<lparr>mc_tasks := t\<rparr>)"
    and service: "consented \<Longrightarrow> R m \<Longrightarrow> \<not> wt_service_is_protected s \<Longrightarrow> R (m\<lparr>mc_services := mc_services m @ [(s, x)]\<rparr>)"
    and clock: "consented \<Longrightarrow> R m \<Longrightarrow> R (m\<lparr>mc_clock := n\<rparr>)"
    and filed: "consented \<Longrightarrow> R m \<Longrightarrow> wt_rollback_record_path env rid MAX_PATH = (WT_OK, f) \<Longrightarrow>
      R (m\<lparr>mc_files := (mc_files m)(f \<mapsto> w)\<rparr>)"
begin

lemma confirm: "R m \<Longrightarrow> R (snd (wt_action_confirm env y m))"
  using confirm_input [of env y m] input by auto

lemma collect: "R m \<Longrightarrow> R (snd (snd (collect_entries env m)))"
  using collect_cache [of env m] cache by auto

lemma write_record: "consented \<Longrightarrow> R m \<Longrightarrow> R (snd (snd (wt_rollback_write env rec m)))"
  using clock [of m "Suc (mc_clock m)"]
    filed [of "m\<lparr>mc_clock := Suc (mc_clock m)\<rparr>" "record_id (ae_local_time env (mc_clock m))"]
  by (auto simp: wt_rollback_write_def Let_def split: prod.split)

lemma write_registry: "consented \<Longrightarrow> R m \<Longrightarrow> length b = 12 \<Longrightarrow> R (snd (write_blob env tag sk vn b m))"
  by (auto simp: write_blob_def Let_def blob split: option.split)

lemma write_approved: "consented \<Longrightarrow> R m \<Longrightarrow> R (snd (wt_startup_write_approved env tag sk vn b m))"
  by (simp add: wt_startup_write_approved_def write_registry approved_blob_def)

lemma write_delayed: "consented \<Longrightarrow> R m \<Longrightarrow> R (snd (wt_startup_write_delayed env tag sk vn n m))"
  by (simp add: wt_startup_write_delayed_def write_registry delayed_blob_def Let_def)

lemma power_plan:
  assumes "R m" "fst (wt_action_confirm env y m) \<Longrightarrow> consented"
  shows "R (snd (snd (wt_action_set_power_plan env t y cap m)))"
  using assms by (auto simp: wt_action_set_power_plan_def Let_def case_prod_beta confirm intro!: write_record plan)

lemma startup_enabled:
  assumes "R m" "fst (wt_action_confirm env y m) \<Longrightarrow> consented"
  shows "R (snd (snd (wt_action_set_startup_enabled env i e y cap m)))"
proof -
  define m1 where "m1 = snd (snd (collect_entries env m))"
  have m1: "R m1" "fst (wt_action_confirm env y m1) \<Longrightarrow> consented"
    using collect [OF assms(1)] confirm_same_input [of m1 m] collect_cache [of env m] assms(2) by (auto simp: m1_def)
  show ?thesis
    unfolding wt_action_set_startup_enabled_def case_prod_beta Let_def m1_def [symmetric]
    using assms(1) m1 by (auto intro!: write_record write_approved confirm split: option.split sum.split)
qed

lemma startup_delay:
  assumes "R m" "fst (wt_action_confirm env y m) \<Longrightarrow> consented"
  shows "R (snd (snd (wt_action_set_startup_delay env i d y cap m)))"
proof -
  define m1 where "m1 = snd (snd (collect_entries env m))"
  have m1: "R m1" "fst (wt_action_confirm env y m1) \<Longrightarrow> consented"
    using collect [OF assms(1)] confirm_same_input [of m1 m] collect_cache [of env m] assms(2) by (auto simp: m1_def)
  show ?thesis
    unfolding wt_action_set_startup_delay_def case_prod_beta Let_def m1_def [symmetric]
    using assms(1) m1 by (auto intro!: write_record write_delayed confirm split: option.split sum.split)
qed

lemma task_enabled:
  assumes "wt_action_set_task_enabled env i e y cap m = Some (r, msg, m')"
    "R m" "fst (wt_action_confirm env y m) \<Longrightarrow> consented"
  shows "R m'"
  using assms write_record tasks confirm
  by (auto simp: wt_action_set_task_enabled_def Let_def case_prod_beta dest!: task_writers_dom
    split: if_splits option.splits)

lemma task_delay:
  assumes "wt_action_set_task_delay env i d y cap m = Some (r, msg, m')"
    "R m" "fst (wt_action_confirm env y m) \<Longrightarrow> consented"
  shows "R m'"
  using assms write_record tasks confirm
  by (auto simp: wt_action_set_task_delay_def Let_def case_prod_beta dest!: task_writers_dom
    split: if_splits option.splits)

lemma stop_service:
  assumes "restart_stop env name pre cap m = Some (r, msg, m')" "R m" consented "\<not> wt_service_is_protected name"
  shows "R m'"
proof -
  obtain b k where w: "wt_service_wait_state env name SERVICE_STOPPED 15000 (m\<lparr>mc_services := mc_services m @ [(name, SVC_STOP)]\<rparr>)
      = Some (b, polled k (m\<lparr>mc_services := mc_services m @ [(name, SVC_STOP)]\<rparr>))"
    using wt_service_wait_returns by blast
  have "R (polled k (m\<lparr>mc_services := mc_services m @ [(name, SVC_STOP)]\<rparr>))"
    unfolding polled_def by (intro polls service assms)
  then show ?thesis using assms(1,2)
    by (auto simp: restart_stop_def wt_service_command_def w split: if_splits)
qed

lemma start_service:
  assumes "restart_start env name before cap m = Some (r, msg, m')" "R m" consented "\<not> wt_service_is_protected name"
  shows "R m'"
proof -
  let ?m = "m\<lparr>mc_services := mc_services m @ [(name, SVC_START)]\<rparr>"
  obtain b k where w: "wt_service_wait_state env name SERVICE_RUNNING 15000 ?m = Some (b, polled k ?m)"
    using wt_service_wait_returns by blast
  have p: "R (polled j ?m)" for j
    unfolding polled_def by (intro polls service assms)
  then show ?thesis using assms(1,2) write_record [OF assms(3)]
    by (auto simp: restart_start_def wt_service_command_def w snapshot_polled case_prod_beta split: if_splits)
qed

lemma restart:
  assumes "wt_action_restart_service env name y cap m = Some (r, msg, m')"
    "R m" "fst (wt_action_confirm env y m) \<Longrightarrow> consented"
  shows "R m'"
proof -
  have p: "R (polled 1 m)" using polls [OF assms(2)] by (simp add: polled_def)
  have c: "fst (wt_action_confirm env y (polled 1 m)) \<Longrightarrow> consented"
    using assms(3) confirm_same_input [of "polled 1 m" m] by (simp add: polled_def)
  show ?thesis
    using assms(1,2) p c confirm [OF p] stop_service start_service
    by (auto simp: wt_action_restart_service_def snapshot_polled case_prod_beta split: if_splits option.splits svc_open.splits)
qed

lemma undo_tasks:
  assumes "consented" "R m"
  shows "undo_task_enabled env prev m = Some (r, m') \<Longrightarrow> R m'" "undo_task_delay env prev m = Some (r, m') \<Longrightarrow> R m'"
  using assms tasks
  by (auto simp: undo_task_enabled_def undo_task_delay_def Let_def dest!: task_writers_dom split: list.splits option.splits)

lemma undo_others:
  assumes "consented" "R m"
  shows "R (snd (undo_power env prev m))" "R (snd (undo_startup_approved env prev m))" "R (snd (undo_startup_delay env prev m))"
  using assms plan write_approved
  by (auto simp: undo_power_def undo_startup_approved_def undo_startup_delay_def case_prod_beta split: list.splits)

lemma rollback:
  assumes "wt_rollback_apply env rid y m = Some (r, m')" "R m" "fst (wt_action_confirm env y m) \<Longrightarrow> consented"
  shows "R m'"
proof -
  have c: "R (snd (wt_action_confirm env y m))" by (rule confirm [OF assms(2)])
  show ?thesis
    using assms(1,2,3) c undo_tasks [OF _ c] undo_others [OF _ c]
    by (auto simp: wt_rollback_apply_def Let_def case_prod_beta split: if_splits option.splits)
      (metis snd_conv)+
qed

lemma request:
  assumes "wt_apply_from_request env req m = Some (r, msg, m')" "R m"
    "fst (wt_action_confirm env (rq_assume_yes req) m) \<Longrightarrow> consented"
  shows "R m'"
proof -
  note p = power_plan [OF assms(2,3)] startup_enabled [OF assms(2,3)] startup_delay [OF assms(2,3)]
  have other: "apply_other req m = Some (r, msg, m') \<Longrightarrow> R m'"
    using assms(2) by (auto simp: apply_other_def split: if_splits)
  show ?thesis
  proof (cases "rq_rec_id req = []")
    case True
    then show ?thesis using assms(1,2) by (simp add: wt_apply_from_request_def)
  next
    case False
    show ?thesis
    proof (cases "wt_apply_spec_lookup (rq_rec_id req)")
      case None
      then show ?thesis using assms(1) False other by (simp add: wt_apply_from_request_def)
    next
      case (Some spec)
      then have a: "apply_spec env req spec m = Some (r, msg, m')" using assms(1) False by (simp add: wt_apply_from_request_def)
      show ?thesis
      proof (cases "as_kind spec")
        case WT_APPLY_POWER_SCHEME
        then show ?thesis using a p(1) by (auto simp: apply_spec_def) (metis snd_conv)
      next
        case WT_APPLY_STARTUP_DISABLE
        then show ?thesis using a p(2) assms(2) by (auto simp: apply_spec_def Let_def split: if_splits) (metis snd_conv)
      next
        case WT_APPLY_STARTUP_DELAY
        then show ?thesis using a p(3) assms(2) by (auto simp: apply_spec_def Let_def split: if_splits) (metis snd_conv)+
      next
        case WT_APPLY_TASK_DISABLE
        then show ?thesis using a task_enabled [OF _ assms(2,3)] assms(2) by (auto simp: apply_spec_def Let_def split: if_splits)
      next
        case WT_APPLY_TASK_DELAY
        then show ?thesis using a task_delay [OF _ assms(2,3)] assms(2) by (auto simp: apply_spec_def Let_def split: if_splits)
      qed (use a other in \<open>simp_all add: apply_spec_def Let_def\<close>)
    qed
  qed
qed

lemma delay_items:
  assumes "apply_delay_items env y its (t, m) = Some (t', m')" "R m" consented
  shows "R m'"
  using assms(1,2)
proof (induction its arbitrary: t m)
  case (Cons it its)
  have item: "R mi" if "apply_delay_item env it y m = Some (r, msg, mi)" for r msg mi
    using that task_delay [of _ _ y 256 m r msg mi] startup_delay [of m y "di_id it" "di_delay_seconds it" 256] Cons.prems(2) assms(3)
    by (auto simp: apply_delay_item_def split: if_splits)
  show ?case using Cons item by (auto split: if_splits option.splits)
qed simp

lemma delay_plan:
  assumes "wt_delay_plan_apply env plan y cap m = Some (r, msg, m')" "R m"
    "fst (wt_action_confirm env y m) \<Longrightarrow> consented"
  shows "R m'"
proof -
  have "y \<Longrightarrow> fst (wt_action_confirm env y m)" by (simp add: wt_action_confirm_def)
  then show ?thesis
    using assms delay_items confirm [OF assms(2), of y]
    by (auto simp: wt_delay_plan_apply_def case_prod_beta split: if_splits option.splits)
qed

end

section \<open>Actions as steps\<close>

inductive action_step :: "action_env \<Rightarrow> bool \<Rightarrow> machine \<Rightarrow> machine \<Rightarrow> bool" for env yes where
  apply_request: "wt_apply_from_request env req m = Some (r, msg, m') \<Longrightarrow> rq_assume_yes req = yes \<Longrightarrow> action_step env yes m m'"
| undo_record: "wt_rollback_apply env rid yes m = Some (r, m') \<Longrightarrow> action_step env yes m m'"
| restart_service: "wt_action_restart_service env name yes cap m = Some (r, msg, m') \<Longrightarrow> action_step env yes m m'"
| apply_delays: "wt_delay_plan_apply env plan yes cap m = Some (r, msg, m') \<Longrightarrow> action_step env yes m m'"
| set_plan: "wt_action_set_power_plan env t yes cap m = (r, msg, m') \<Longrightarrow> action_step env yes m m'"
| set_startup: "wt_action_set_startup_enabled env i e yes cap m = (r, msg, m') \<Longrightarrow> action_step env yes m m'"
| set_task: "wt_action_set_task_enabled env i e yes cap m = Some (r, msg, m') \<Longrightarrow> action_step env yes m m'"

inductive session :: "action_env \<Rightarrow> machine \<Rightarrow> machine \<Rightarrow> bool" for env where
  start: "session env m m"
| typed: "session env m m1 \<Longrightarrow> session env m (m1\<lparr>mc_input := i\<rparr>)"
| acted: "session env m m1 \<Longrightarrow> action_step env yes m1 m2 \<Longrightarrow> session env m m2"

context action_rel begin

lemma step:
  assumes "action_step env yes m m'" "R m" "fst (wt_action_confirm env yes m) \<Longrightarrow> consented"
  shows "R m'"
  using assms(1)
proof (cases rule: action_step.cases)
  case (apply_request req r msg)
  then show ?thesis using request assms(2,3) by blast
next
  case (set_plan t cap r msg)
  then show ?thesis using power_plan [OF assms(2), where y = yes and t = t and cap = cap] assms(3) by simp
next
  case (set_startup i e cap r msg)
  then show ?thesis using startup_enabled [OF assms(2), where y = yes and i = i and e = e and cap = cap] assms(3) by simp
next
  case (undo_record rid r)
  then show ?thesis using rollback [OF _ assms(2,3)] by simp
next
  case (restart_service name cap r msg)
  then show ?thesis using restart [OF _ assms(2,3)] by simp
next
  case (apply_delays plan cap r msg)
  then show ?thesis using delay_plan [OF _ assms(2,3)] by simp
next
  case (set_task i e cap r msg)
  then show ?thesis using task_enabled [OF _ assms(2,3)] by simp
qed

end

definition persistent :: "machine \<Rightarrow> _" where
  "persistent m = (mc_plan m, mc_registry m, mc_tasks m, mc_files m, mc_services m)"

interpretation refused: action_rel env "\<lambda>m. persistent m = persistent m0" False for env m0
  by unfold_locales (auto simp: persistent_def)

definition frame :: "action_env \<Rightarrow> machine \<Rightarrow> machine \<Rightarrow> bool" where
  \<comment> \<open>what stays, and of what kind the changes are\<close>
  "frame env m0 m \<longleftrightarrow> dom (mc_tasks m) = dom (mc_tasks m0) \<and>
     (\<exists>cmds. mc_services m = mc_services m0 @ cmds \<and> list_all (\<lambda>(s, c). \<not> wt_service_is_protected s) cmds) \<and>
     (\<forall>v. mc_registry m v = mc_registry m0 v \<or> (\<exists>b. mc_registry m v = Some b \<and> length b = 12)) \<and>
     (\<forall>f. mc_files m f = mc_files m0 f \<or>
        (mc_files m f \<noteq> None \<and> (\<exists>rid. wt_rollback_record_path env rid MAX_PATH = (WT_OK, f))))"

interpretation framed: action_rel env "frame env m0" True for env m0
  by unfold_locales (auto simp: frame_def)

text \<open>C30. Consent: when the user does not agree (no \<open>--yes\<close>, and a session that is not interactive or an answer whose
  first non-blank is not y), no action, rollback, restart or delay plan changes the power plan, a registry
  value, a task, a file or a service.\<close>

theorem nothing_without_consent:
  assumes "action_step env yes m m'" "\<not> fst (wt_action_confirm env yes m)"
  shows "persistent m' = persistent m"
  using refused.step [OF assms(1), of m] assms(2) by simp

text \<open>C31. Sessions: whatever actions follow one another, with whatever answers, no task is created or deleted, no command is
  sent to a protected service, a registry value that changed holds a 12-byte flag, and a file that changed is a
  rollback record; records are never deleted.\<close>

theorem session_frame:
  "session env m m' \<Longrightarrow> frame env m m'"
proof (induction rule: session.induct)
  case (start m)
  then show ?case by (auto simp: frame_def)
next
  case (typed m m1 i)
  then show ?case by (simp add: framed.input)
next
  case (acted m m1 yes m2)
  then show ?case using framed.step by blast
qed

definition demo_request :: WT_ApplyRequest where
  "demo_request = \<lparr>rq_rec_id = ''wt-power-001'', rq_target_id = [], rq_delay_seconds = 0, rq_assume_yes = False, rq_msg_cap = 200\<rparr>"

lemma demo_lookup: "wt_apply_spec_lookup ''wt-power-001'' = Some \<lparr>as_rec_id = ''WT-POWER-001'', as_kind = WT_APPLY_POWER_SCHEME,
    as_power_scheme = WT_POWER_HIGH_PERF, as_default_delay_seconds = 0\<rparr>"
  by code_simp

lemma balanced_is_not: "scheme_of_guid WT_GUID_BALANCED = WT_POWER_BALANCED" "wt_power_scheme_guid WT_POWER_HIGH_PERF = Some WT_GUID_HIGH_PERF"
  by (simp_all add: scheme_of_guid_def wt_power_scheme_guid_def)

lemma demo_scheme: "pw_scheme (snd (wt_collect_power_info demo_power (Some WT_GUID_BALANCED))) = WT_POWER_BALANCED"
  "fst (wt_collect_power_info demo_power (Some WT_GUID_BALANCED)) = WT_OK"
  by (simp only: collected_scheme option.case balanced_is_not) (simp add: wt_collect_power_info_def)

lemma demo_refused: "wt_action_confirm demo_actions False demo_machine = (False, demo_machine)"
  "wt_action_confirm demo_actions True demo_machine = (True, demo_machine)"
  by (simp_all add: wt_action_confirm_def demo_actions_def)

lemma demo_fields: "ae_power demo_actions = demo_power" "mc_plan demo_machine = Some WT_GUID_BALANCED"
  "pa_set demo_power g = None" "pa_friendly demo_power g = Some (Some ''Plan'')"
  by (simp_all add: demo_actions_def demo_machine_def demo_power_def)

lemmas demo_power_run = wt_apply_from_request_def demo_request_def demo_lookup apply_spec_def wt_action_set_power_plan_def
  demo_fields demo_scheme demo_refused case_prod_beta Let_def wt_power_set_active_scheme_def balanced_is_not power_activate_def

lemma rollback_write_plan: "mc_plan (snd (snd (wt_rollback_write env rec m))) = mc_plan m"
  by (auto simp: wt_rollback_write_def Let_def split: prod.split)

theorem nothing_without_consent_witness:
  "\<exists>msg m'. wt_apply_from_request demo_actions demo_request demo_machine = Some (WT_ERR_CANCELLED, msg, m') \<and>
     persistent m' = persistent demo_machine"
proof -
  obtain msg m' where r: "wt_apply_from_request demo_actions demo_request demo_machine = Some (WT_ERR_CANCELLED, msg, m')"
    by (simp add: demo_power_run)
  have "action_step demo_actions False demo_machine m'"
    by (rule action_step.apply_request [OF r]) (simp add: demo_request_def)
  moreover have "\<not> fst (wt_action_confirm demo_actions False demo_machine)" by (simp add: demo_refused)
  ultimately show ?thesis using nothing_without_consent r by blast
qed

theorem session_frame_witness:
  "\<exists>m'. session demo_actions demo_machine m' \<and> mc_plan m' = Some WT_GUID_HIGH_PERF \<and> frame demo_actions demo_machine m'"
proof -
  let ?r = "wt_apply_from_request demo_actions (demo_request\<lparr>rq_assume_yes := True\<rparr>) demo_machine"
  have "map_option (\<lambda>(r, msg, m). mc_plan m) ?r = Some (Some WT_GUID_HIGH_PERF)"
    by (simp add: demo_power_run rollback_write_plan)
  then obtain r msg m' where r: "?r = Some (r, msg, m')" "mc_plan m' = Some WT_GUID_HIGH_PERF" by auto
  have "session demo_actions demo_machine m'"
    by (rule session.acted [OF session.start action_step.apply_request [OF r(1) refl]])
  then show ?thesis using session_frame r(2) by blast
qed

section \<open>Every action returns\<close>

lemma task_path_short: "wt_task_path_from_id i 256 = (r, p) \<Longrightarrow> length p < 256"
  by (auto simp: wt_task_path_from_id_def Let_def length_cch_copy split: if_splits)

lemma task_writers_in_bounds:
  assumes "length p < 256"
  shows "wt_task_set_enabled com p e st \<noteq> None" "wt_task_set_logon_delay com p n st \<noteq> None"
  using split_path_demo [OF assms]
  by (auto simp: wt_task_set_enabled_def wt_task_set_logon_delay_def split: option.split sum.split)

lemma task_actions_return:
  "wt_action_set_task_enabled env i e y cap m \<noteq> None" "wt_action_set_task_delay env i d y cap m \<noteq> None"
proof -
  have s: "length (snd (wt_task_path_from_id i 256)) < 256" using task_path_short surjective_pairing by metis
  note b = task_writers_in_bounds [OF s]
  show "wt_action_set_task_enabled env i e y cap m \<noteq> None"
    using b(1) by (auto simp: wt_action_set_task_enabled_def case_prod_beta simp del: not_None_eq split: option.split)
  show "wt_action_set_task_delay env i d y cap m \<noteq> None"
    using b(2) by (auto simp: wt_action_set_task_delay_def case_prod_beta simp del: not_None_eq split: option.split)
qed

lemma request_returns: "wt_apply_from_request env req m \<noteq> None"
  using task_actions_return
  by (auto simp: wt_apply_from_request_def apply_spec_def apply_other_def Let_def simp del: not_None_eq
    split: option.split WT_ApplyKind.split)

lemma delay_items_return: "apply_delay_items env y its st \<noteq> None"
proof (induction its arbitrary: st)
  case (Cons it its)
  obtain t m where st: "st = (t, m)" by (cases st)
  have "apply_delay_item env it y m \<noteq> None"
    using task_actions_return by (simp add: apply_delay_item_def del: not_None_eq)
  then show ?case using Cons.IH by (auto simp: st simp del: not_None_eq split: option.split)
qed simp

lemma split_bar_short: "t \<in> set (split_bar s) \<Longrightarrow> length t \<le> length s"
  by (induction s arbitrary: t) (auto split: list.splits if_splits, fastforce+)

lemma bar_tokens_short: "t \<in> set (bar_tokens n s) \<Longrightarrow> length t \<le> length s"
  using split_bar_short in_set_takeD [of t n "filter (\<lambda>t. t \<noteq> []) (split_bar s)"] by (auto simp: bar_tokens_def)

lemma json_get_length: "0 < cap \<Longrightarrow> length (snd (wt_json_get buf k cap)) < cap"
  by (auto simp: wt_json_get_def length_cch_copy split: option.split list.split)

lemma undo_tasks_return:
  assumes "codec_ok env" "length prev < 256"
  shows "undo_task_enabled env prev m \<noteq> None" "undo_task_delay env prev m \<noteq> None"
proof -
  have "length (ae_wide env 512 prev) \<le> length prev" using assms(1) by (simp add: codec_ok_def)
  then have w: "length (ae_wide env 512 prev) < 256" using assms(2) by simp
  have "length p < 256" if "bar_tokens 2 (ae_wide env 512 prev) = [p, v]" for p v
    using bar_tokens_short [of p 2 "ae_wide env 512 prev"] w that by simp
  then show "undo_task_enabled env prev m \<noteq> None"
    using task_writers_in_bounds(1)
    by (auto simp: undo_task_enabled_def simp del: not_None_eq split: list.split)
  have "\<exists>a b. wt_task_set_logon_delay com (take n (ae_wide env 512 prev)) k st = Some (a, b)" for com n k st
    using task_writers_in_bounds(2) [of "take n (ae_wide env 512 prev)" com k st] w by auto
  then show "undo_task_delay env prev m \<noteq> None" by (auto simp: undo_task_delay_def Let_def split: option.split)
qed

lemma rollback_returns: "codec_ok env \<Longrightarrow> wt_rollback_apply env rid y m \<noteq> None"
  using undo_tasks_return [OF _ json_get_length [of 256]]
  by (auto simp: wt_rollback_apply_def Let_def case_prod_beta simp del: not_None_eq split: option.split)

lemma delay_plan_returns: "wt_delay_plan_apply env plan y cap m \<noteq> None"
  using delay_items_return by (auto simp: wt_delay_plan_apply_def case_prod_beta simp del: not_None_eq split: option.split)

lemma confirm_polls: "mc_polls (snd (wt_action_confirm env y m)) = mc_polls m"
  using confirm_input [of env y m] by auto

lemma write_polls: "mc_polls (snd (snd (wt_rollback_write env rec m))) = mc_polls m"
  by (auto simp: wt_rollback_write_def Let_def split: prod.split)

lemma command_polls: "mc_polls (snd (wt_service_command env name c m)) = mc_polls m"
  by (simp add: wt_service_command_def)

lemma polls_polled: "mc_polls (polled k m) = mc_polls m + k"
  by (simp add: polled_def)

lemma stop_returns: "\<exists>r msg m'. restart_stop env name pre cap m = Some (r, msg, m') \<and> mc_polls m' \<le> mc_polls m + 75"
proof -
  define m1 where "m1 = snd (wt_service_command env name SVC_STOP m)"
  obtain b k where "wt_service_wait_state env name SERVICE_STOPPED 15000 m1 = Some (b, polled k m1)" "k \<le> 75"
    using wt_service_wait_returns by blast
  then show ?thesis
    using command_polls [of env name SVC_STOP m]
    by (auto simp: restart_stop_def case_prod_beta m1_def [symmetric] polled_def)
qed

lemma start_returns: "\<exists>r msg m'. restart_start env name before cap m = Some (r, msg, m') \<and> mc_polls m' \<le> mc_polls m + 76"
proof -
  define m1 where "m1 = snd (wt_service_command env name SVC_START m)"
  obtain b k where "wt_service_wait_state env name SERVICE_RUNNING 15000 m1 = Some (b, polled k m1)" "k \<le> 75"
    using wt_service_wait_returns by blast
  then show ?thesis
    using command_polls [of env name SVC_START m]
    by (auto simp: restart_start_def case_prod_beta m1_def [symmetric] snapshot_polled write_polls)
      (simp_all add: polled_def)
qed

lemma restart_returns:
  "\<exists>r msg m'. wt_action_restart_service env name y cap m = Some (r, msg, m') \<and> mc_polls m' \<le> mc_polls m + 152"
proof -
  define m1 where "m1 = snd (wt_action_confirm env y (polled (Suc 0) m))"
  have m1: "mc_polls m1 = Suc (mc_polls m)" by (simp add: m1_def confirm_polls polled_def)
  have "\<exists>r msg m'. (case restart_stop env name pre cap m1 of None \<Rightarrow> None
      | Some (r, msg, m) \<Rightarrow> if r \<noteq> WT_OK then Some (r, msg, m) else restart_start env name before cap m) = Some (r, msg, m') \<and>
      mc_polls m' \<le> mc_polls m + 152" for pre before
  proof -
    obtain r msg m2 where s: "restart_stop env name pre cap m1 = Some (r, msg, m2)" "mc_polls m2 \<le> mc_polls m + 76"
      using stop_returns [of env name pre cap m1] m1 by auto
    obtain r' msg' m3 where "restart_start env name before cap m2 = Some (r', msg', m3)" "mc_polls m3 \<le> mc_polls m2 + 76"
      using start_returns by blast
    then show ?thesis using s by (cases "r = WT_OK") auto
  qed
  note halves = this
  show ?thesis
    using halves m1
    by (cases "ae_query env (mc_services m) (mc_polls m) name"; cases "ae_open_service env name")
      (auto simp: wt_action_restart_service_def snapshot_polled case_prod_beta m1_def [symmetric] polls_polled)
qed

text \<open>C32. Every action returns: an apply request, a rollback and a delay plan always come to a result and never
  write past a task path buffer, and a service restart, whatever the service manager answers, polls at most 152 times
  (once before, 75 times 200 ms for each of its two waits, once after).\<close>

theorem actions_return:
  assumes "codec_ok env"
  shows "wt_apply_from_request env req m \<noteq> None \<and> wt_rollback_apply env rid yes m \<noteq> None \<and>
     wt_delay_plan_apply env plan yes cap m \<noteq> None \<and>
     (\<exists>r msg m'. wt_action_restart_service env name yes cap m = Some (r, msg, m') \<and> mc_polls m' \<le> mc_polls m + 152)"
  using request_returns rollback_returns [OF assms] delay_plan_returns restart_returns by blast

theorem actions_return_witness:
  "\<exists>r msg m'. wt_action_restart_service demo_actions ''Spooler'' True 200 demo_machine = Some (r, msg, m') \<and>
     mc_polls m' \<le> 152"
  using actions_return [OF demo_codec, of demo_request demo_machine "''x''" True wt_delay_plan_init 200 "''Spooler''"]
  by (simp add: demo_machine_def)

end
