(* ===== verification/Rollback_Theorems.thy ===== *)
theory Rollback_Theorems
  imports Action_Theorems
begin

text \<open>
  Action then rollback: what the record of an action brings back. The locale \<open>setting\<close> is the contract of a value that
  is read and written, \<open>exact_setting\<close> that of one whose old value restores the whole state; the power plan and the
  \<open>StartupApproved\<close> flag are their interpretations. The record itself is carried through the file by the
  lemmas of \<open>Rollback_Store\<close>.
\<close>

section \<open>Settings\<close>

locale setting =
  fixes get :: "'s \<Rightarrow> 'v" and put :: "'v \<Rightarrow> 's \<Rightarrow> WT_Result \<times> 's"
  assumes stored: "put v s = (WT_OK, s') \<Longrightarrow> get s' = v"
    and kept: "put v s = (r, s') \<Longrightarrow> r \<noteq> WT_OK \<Longrightarrow> s' = s"
begin

lemma restored: "put v s = (WT_OK, s1) \<Longrightarrow> put (get s) s1 = (r, s2) \<Longrightarrow> get s2 = (if r = WT_OK then get s else v)"
  by (metis stored kept)

end

locale exact_setting = setting +
  assumes last_wins: "put v s = (WT_OK, s1) \<Longrightarrow> put (get s) s1 = (WT_OK, s2) \<Longrightarrow> s2 = s"

definition put_plan :: "power_api \<Rightarrow> GUID option \<Rightarrow> GUID option \<Rightarrow> WT_Result \<times> GUID option" where
  \<comment> \<open>the plan as a setting: nothing to switch to is an invalid argument\<close>
  "put_plan api p active = (case p of None \<Rightarrow> (WT_ERR_INVALID_ARGUMENT, active) | Some g \<Rightarrow> power_activate api g active)"

lemma put_plan_cases:
  "(\<exists>g. p = Some g \<and> put_plan api p active = (WT_OK, Some g)) \<or> (\<exists>r. put_plan api p active = (r, active) \<and> r \<noteq> WT_OK)"
proof (cases p)
  case (Some g)
  then show ?thesis using power_activate_cases [of api g active] by (simp add: put_plan_def)
qed (simp add: put_plan_def)

interpretation plan: exact_setting "\<lambda>active. active" "put_plan api" for api
proof
  show "s' = v" if "put_plan api v s = (WT_OK, s')" for v s s'
    using put_plan_cases [of v api s] that by auto
  show "s' = s" if "put_plan api v s = (r, s')" "r \<noteq> WT_OK" for v s r s'
    using put_plan_cases [of v api s] that by auto
  show "s2 = s" if "put_plan api v s = (WT_OK, s1)" "put_plan api s s1 = (WT_OK, s2)" for v s s1 s2
    using put_plan_cases [of s api s1] that by auto
qed

definition approved_flag :: "string \<Rightarrow> string \<Rightarrow> string \<Rightarrow> machine \<Rightarrow> bool" where
  "approved_flag tag subkey name m =
     (case mc_registry m (reg_value (wt_hive_from_tag tag) subkey name) of
        None \<Rightarrow> True | Some blob \<Rightarrow> if length blob \<le> 12 \<and> 1 \<le> length blob then hd blob AND 1 = 0 else True)"

lemma read_enabled_flag: "ae_reg_open env (wt_hive_from_tag tag) subkey \<Longrightarrow>
    wt_startup_read_enabled env tag subkey name m = approved_flag tag subkey name m"
  by (simp add: wt_startup_read_enabled_def approved_flag_def Let_def)

lemma write_approved_cases: "wt_startup_write_approved env tag subkey name b m =
    (WT_OK, m\<lparr>mc_registry := (mc_registry m)(reg_value (wt_hive_from_tag tag) subkey name \<mapsto> approved_blob b)\<rparr>) \<or>
    (\<exists>r. wt_startup_write_approved env tag subkey name b m = (r, m) \<and> r \<noteq> WT_OK)"
  by (auto simp: wt_startup_write_approved_def write_blob_def Let_def split: option.split)

interpretation approved: setting "approved_flag tag subkey name" "wt_startup_write_approved env tag subkey name" for env tag subkey name
proof
  show "wt_startup_write_approved env tag subkey name v s = (WT_OK, s') \<Longrightarrow> approved_flag tag subkey name s' = v" for v s s'
    using write_approved_cases [of env tag subkey name v s] by (auto simp: approved_flag_def approved_blob_def)
  show "wt_startup_write_approved env tag subkey name v s = (r, s') \<Longrightarrow> r \<noteq> WT_OK \<Longrightarrow> s' = s" for v s r s'
    using write_approved_cases [of env tag subkey name v s] by auto
qed

section \<open>Records of plain texts\<close>

definition plain_text :: "string \<Rightarrow> bool" where
  \<comment> \<open>printable ASCII without a double quote\<close>
  "plain_text s \<longleftrightarrow> list_all (\<lambda>c. 0x20 \<le> (of_char c :: nat) \<and> (of_char c :: nat) < 128 \<and> c \<noteq> CHR 0x22) s"

lemma plain_text_simps [simp]: "plain_text []" "plain_text (a @ b) \<longleftrightarrow> plain_text a \<and> plain_text b"
  "plain_text (c # s) \<longleftrightarrow> 0x20 \<le> (of_char c :: nat) \<and> (of_char c :: nat) < 128 \<and> c \<noteq> CHR 0x22 \<and> plain_text s"
  by (simp_all add: plain_text_def)

lemma plain_copy: "plain_text s \<Longrightarrow> plain_text (cch_copy n s)"
  using set_cch_copy [of n s] by (auto simp: plain_text_def list_all_iff)

lemma plain_clean:
  assumes "plain_text s" "s \<notin> set record_keys"
  shows "clean_text s"
proof -
  have "CHR 0x22 \<notin> set s" using assms(1) by (auto simp: plain_text_def list_all_iff)
  then have "keeps_key k s" if "k \<in> set record_keys" for k
    using that assms(2) set_mono_suffix [of "CHR 0x22 # k" s] by (auto simp: keeps_key_def)
  moreover have "soft_text s" using assms(1) by (simp add: soft_text_def plain_text_def list_all_iff)
  ultimately show ?thesis by (simp add: clean_text_def list_all_iff)
qed

lemma plain_codec:
  assumes "codec_ok env" "plain_text s" "length s < n"
  shows "ae_utf8 env n s = s" "ae_wide env n s = s"
  using codec_ascii [OF assms(1), of s n] assms(2,3) by (auto simp: plain_text_def list_all_iff)

definition plain_record :: "WT_RollbackRecord \<Rightarrow> bool" where
  "plain_record rec \<longleftrightarrow> list_all (\<lambda>s. plain_text s \<and> s \<notin> set record_keys \<and> length s < 256)
     [rr_action_id rec, rr_action_type rec, rr_description rec, rr_previous_value rec, rr_new_value rec]"

lemma plain_record_clean: "codec_ok env \<Longrightarrow> plain_record rec \<Longrightarrow> record_clean env rec"
  by (simp add: plain_record_def record_clean_def plain_codec plain_clean)

lemma record_id_nonempty: "record_id t \<noteq> []"
  by (simp add: record_id_def cch_copy_def dec_pad_def)

text \<open>A record just written is found and read by \<open>wt_rollback_apply\<close>.\<close>

lemma apply_written:
  assumes "codec_ok env" "plain_record rec" "wt_rollback_write env rec m = (WT_OK, rec', m')"
    "length (rr_action_type rec) < 80" "wt_action_confirm env yes m' = (True, m'')"
  shows "wt_rollback_apply env (rr_id rec') yes m' =
    (let ty = rr_action_type rec; prev = rr_previous_value rec in
     if ty = ''power_plan_change'' then Some (undo_power env prev m'')
     else if ty = ''startup_approved'' then Some (undo_startup_approved env prev m'')
     else if ty = ''task_enabled'' then undo_task_enabled env prev m''
     else if ty = ''task_delay'' then undo_task_delay env prev m''
     else if ty = ''startup_delay'' then Some (undo_startup_delay env prev m'')
     else Some (WT_ERR_NOT_SUPPORTED, m'))"
proof -
  obtain path where w: "rec' = with_stamp env m rec" "wt_rollback_record_path env (rr_id rec') MAX_PATH = (WT_OK, path)"
    "wt_read_file_utf8 m' path = Some (record_text env rec')" "\<forall>cap > 0. reads_fields env rec' (record_text env rec') cap"
    using written_record_reads [OF assms(3,1) plain_record_clean [OF assms(1,2)]] by blast
  have f: "rr_action_type rec' = rr_action_type rec" "rr_previous_value rec' = rr_previous_value rec"
    by (simp_all add: w(1) with_stamp_def)
  have u: "ae_utf8 env 1024 (rr_action_type rec) = rr_action_type rec" "ae_utf8 env 1024 (rr_previous_value rec) = rr_previous_value rec"
    "length (rr_previous_value rec) < 256"
    using assms(2) plain_codec(1) [OF assms(1)] by (simp_all add: plain_record_def)
  have "wt_json_get (record_text env rec') ''action_type'' 80 = (True, rr_action_type rec)"
    "wt_json_get (record_text env rec') ''previous_value'' 256 = (True, rr_previous_value rec)"
    using w(4) [rule_format, of 80] w(4) [rule_format, of 256] u assms(4) by (simp_all add: reads_fields_def record_fields_def f)
  moreover have "rr_id rec' \<noteq> []" by (simp add: w(1) with_stamp_def record_id_nonempty)
  ultimately show ?thesis
    using assms(5) by (simp add: wt_rollback_apply_def w(2,3) Let_def)
qed

definition store_ready :: "action_env \<Rightarrow> machine \<Rightarrow> bool" where
  \<comment> \<open>the rollback directory can be made and the next record be created in it\<close>
  "store_ready env m \<longleftrightarrow> fst (wt_rollback_write env zero_WT_RollbackRecord m) = WT_OK"

lemma write_code: "mc_clock m' = mc_clock m \<Longrightarrow> fst (wt_rollback_write env rec m') = fst (wt_rollback_write env rec0 m)"
  by (auto simp: wt_rollback_write_def Let_def split: prod.split)

lemma store_ready_write:
  assumes "store_ready env m" "mc_clock m' = mc_clock m"
  obtains rec' m2 where "wt_rollback_write env rec m' = (WT_OK, rec', m2)" "rr_id rec' = record_id (ae_local_time env (mc_clock m))"
    "m2 = m'\<lparr>mc_clock := mc_clock m2, mc_files := mc_files m2\<rparr>"
proof -
  obtain r rec' m2 where w: "wt_rollback_write env rec m' = (r, rec', m2)" by (cases "wt_rollback_write env rec m'")
  have "r = WT_OK" using assms write_code [of m' m env rec zero_WT_RollbackRecord] w by (simp add: store_ready_def)
  with w have ok: "wt_rollback_write env rec m' = (WT_OK, rec', m2)" by simp
  obtain path where "rec' = with_stamp env m' rec"
    "m2 = m'\<lparr>mc_clock := Suc (mc_clock m'), mc_files := (mc_files m')(path \<mapsto> record_text env rec')\<rparr>"
    using rollback_write_OK [OF ok] by blast
  then have "rec' = with_stamp env m' rec" "m2 = m'\<lparr>mc_clock := mc_clock m2, mc_files := mc_files m2\<rparr>"
    by simp_all
  then show ?thesis using that ok assms(2) by (simp add: with_stamp_def)
qed

lemma confirm_yes: "wt_action_confirm env True m = (True, m)"
  by (simp add: wt_action_confirm_def)

lemma confirm_frame: "mc_clock (snd (wt_action_confirm env y m)) = mc_clock m" "mc_plan (snd (wt_action_confirm env y m)) = mc_plan m"
  "mc_registry (snd (wt_action_confirm env y m)) = mc_registry m"
  using confirm_input [of env y m] by auto

section \<open>The power plan\<close>

lemma guid_text_plain: "plain_text (guid_text g)"
proof -
  have "list_all (\<lambda>d. plain_text [''0123456789ABCDEF'' ! d]) [0..<16]" by code_simp
  then have d: "plain_text [''0123456789ABCDEF'' ! (n mod 16)]" for n by (simp add: list_all_iff del: plain_text_simps)
  have "plain_text (hex_upper w n)" for w n
    by (induction w n rule: hex_upper.induct) (use d in \<open>simp_all del: plain_text_simps(3)\<close>)
  then show ?thesis by (simp add: guid_text_def del: hex_upper.simps)
qed

lemma power_record_plain:
  assumes "new = guid_text h"
  shows "plain_record (power_record cur t (guid_text g) new)"
proof -
  have g: "guid_text x \<notin> set record_keys" for x by (simp add: guid_text_def record_keys_def)
  have n: "plain_text (wt_power_scheme_name x)" "length (wt_power_scheme_name x) \<le> 20" for x
    by (cases x; simp add: wt_power_scheme_name_def)+
  have d: "plain_text (''Power plan: '' @ wt_power_scheme_name cur @ '' -> '' @ wt_power_scheme_name t)"
    by (simp add: n)
  have l: "length (''Power plan: '' @ wt_power_scheme_name cur @ '' -> '' @ wt_power_scheme_name t) < 256"
    using n(2) [of cur] n(2) [of t] by simp
  show ?thesis
    using g d l by (simp add: plain_record_def power_record_def assms guid_text_plain guid_text_length record_keys_def
      zero_WT_RollbackRecord_def)
qed

lemma set_scheme_some: "\<exists>h. snd (wt_power_set_active_scheme api t (Some g)) = Some h"
proof -
  have "\<exists>h. snd (power_activate api x (Some g)) = Some h" for x
    using power_activate_cases [of api x "Some g"] by auto
  then show ?thesis by (simp add: wt_power_set_active_scheme_def split: option.split)
qed

text \<open>C33. Undoing a power plan change: after a switch that succeeded and whose record could be stored, rolling the record
  back (with --yes, and when Windows accepts the switch) makes exactly the plan active that was active before, a custom
  plan too, and changes nothing else.\<close>

theorem power_rollback_restores:
  assumes "codec_ok env" "store_ready env m" "mc_plan m = Some g" "pa_set (ae_power env) g = None"
    "wt_action_set_power_plan env t yes cap m = (WT_OK, msg, m1)" "mc_plan m1 \<noteq> Some g"
  shows "wt_rollback_apply env (record_id (ae_local_time env (mc_clock m))) True m1 =
    Some (WT_OK, m1\<lparr>mc_plan := Some g\<rparr>)"
proof -
  define cur where "cur = pw_scheme (snd (wt_collect_power_info (ae_power env) (Some g)))"
  define m0 where "m0 = snd (wt_action_confirm env yes m)"
  define p where "p = snd (wt_power_set_active_scheme (ae_power env) t (Some g))"
  note m0 = confirm_frame [of env yes m, folded m0_def]
  have pm: "mc_plan m0 = Some g" using m0(2) assms(3) by simp
  obtain h where h: "p = Some h" and set: "fst (wt_power_set_active_scheme (ae_power env) t (Some g)) = WT_OK"
    "fst (wt_action_confirm env yes m)" "t \<noteq> WT_POWER_UNKNOWN" "cur \<noteq> t"
    "m1 = snd (snd (wt_rollback_write env (power_record cur t (guid_text g) (snd (wt_power_get_active_guid_string p 64))) (m0\<lparr>mc_plan := p\<rparr>)))"
  proof -
    have "snd (wt_power_get_active_guid_string (Some g) 64) = guid_text g"
      by (simp add: wt_power_get_active_guid_string_def guid_to_string)
    then have "fst (wt_power_set_active_scheme (ae_power env) t (Some g)) = WT_OK \<and> fst (wt_action_confirm env yes m) \<and>
      t \<noteq> WT_POWER_UNKNOWN \<and> cur \<noteq> t \<and>
      m1 = snd (snd (wt_rollback_write env (power_record cur t (guid_text g) (snd (wt_power_get_active_guid_string p 64))) (m0\<lparr>mc_plan := p\<rparr>)))"
      using assms(5,6) pm assms(3) unfolding wt_action_set_power_plan_def Let_def case_prod_beta
      by (auto simp: cur_def [symmetric] m0_def [symmetric] p_def split: if_splits)
    moreover have "\<exists>h. p = Some h" by (simp add: p_def set_scheme_some)
    ultimately show ?thesis using that by blast
  qed
  have new: "snd (wt_power_get_active_guid_string p 64) = guid_text h"
    by (simp add: h wt_power_get_active_guid_string_def guid_to_string)
  have "mc_clock (m0\<lparr>mc_plan := p\<rparr>) = mc_clock m" using m0(1) by simp
  from store_ready_write [OF assms(2) this, where rec = "power_record cur t (guid_text g) (guid_text h)"]
  obtain rec' m2 where w: "wt_rollback_write env (power_record cur t (guid_text g) (guid_text h)) (m0\<lparr>mc_plan := p\<rparr>) = (WT_OK, rec', m2)"
    "rr_id rec' = record_id (ae_local_time env (mc_clock m))" by blast
  have m1: "m1 = m2" using set(5) w(1) by (simp add: new)
  have u: "undo_power env (guid_text g) m1 = (WT_OK, m1\<lparr>mc_plan := Some g\<rparr>)"
    using plain_codec(2) [OF assms(1) guid_text_plain, of g 256] assms(4)
    by (simp add: undo_power_def guid_text_length set_guid_text power_activate_def)
  show ?thesis
    using apply_written [OF assms(1) power_record_plain [OF refl] w(1) _ confirm_yes] u
    by (simp add: w(2) m1 power_record_def guid_text_length)
qed

lemma demo_store_ready: "store_ready demo_actions demo_machine"
proof -
  have "fst (wt_rollback_write demo_actions zero_WT_RollbackRecord demo_machine) = WT_OK" by code_simp
  then show ?thesis by (simp add: store_ready_def)
qed

theorem power_rollback_restores_witness:
  "\<exists>msg m1. wt_action_set_power_plan demo_actions WT_POWER_HIGH_PERF True 200 demo_machine = (WT_OK, msg, m1) \<and>
     mc_plan m1 = Some WT_GUID_HIGH_PERF \<and>
     wt_rollback_apply demo_actions (record_id (demo_time 0)) True m1 = Some (WT_OK, m1\<lparr>mc_plan := Some WT_GUID_BALANCED\<rparr>)"
proof -
  let ?r = "wt_action_set_power_plan demo_actions WT_POWER_HIGH_PERF True 200 demo_machine"
  have "fst ?r = WT_OK \<and> mc_plan (snd (snd ?r)) = Some WT_GUID_HIGH_PERF"
    by (simp add: demo_power_run rollback_write_plan)
  then obtain msg m1 where r: "?r = (WT_OK, msg, m1)" "mc_plan m1 = Some WT_GUID_HIGH_PERF" by (cases ?r) auto
  have ne: "mc_plan m1 \<noteq> Some WT_GUID_BALANCED" unfolding r(2) by (simp add: WT_GUID_HIGH_PERF_def WT_GUID_BALANCED_def)
  have t: "ae_local_time demo_actions (mc_clock demo_machine) = demo_time 0"
    by (simp add: demo_actions_def demo_machine_def)
  have "pa_set (ae_power demo_actions) WT_GUID_BALANCED = None" by (simp add: demo_fields)
  from power_rollback_restores [OF demo_codec demo_store_ready demo_fields(2) this r(1) ne] r show ?thesis
    unfolding t by blast
qed

section \<open>Startup entries\<close>

lemma split_bar_plain: "CHR ''|'' \<notin> set s \<Longrightarrow> split_bar s = [s]"
  by (induction s) auto

lemma split_bar_field: "CHR ''|'' \<notin> set a \<Longrightarrow> split_bar (a @ CHR ''|'' # s) = a # split_bar s"
  by (induction a) auto

lemma split_bar_nonempty: "split_bar s \<noteq> []"
  by (induction s) (auto split: list.split)

definition approved_location_text :: "string \<Rightarrow> string \<Rightarrow> bool" where
  \<comment> \<open>the tags and keys of \<open>wt_startup_approved_location\<close>\<close>
  "approved_location_text tag subkey \<longleftrightarrow> (tag = ''HKCU'' \<or> tag = ''HKLM'') \<and> (subkey = WT_APPROVED_RUN \<or> subkey = WT_APPROVED_FOLDER)"

lemma location_text: "wt_startup_approved_location src = Inr (tag, subkey) \<Longrightarrow> approved_location_text tag subkey"
  by (cases src) (auto simp: wt_startup_approved_location_def approved_location_text_def)

lemma location_facts:
  assumes "approved_location_text tag subkey"
  shows "plain_text tag" "plain_text subkey" "CHR ''|'' \<notin> set tag" "CHR ''|'' \<notin> set subkey" "tag \<noteq> []" "subkey \<noteq> []"
    "length tag = 4" "length subkey \<le> 80" "hd tag = CHR ''H''"
proof -
  have k: "plain_text WT_APPROVED_RUN \<and> CHR ''|'' \<notin> set WT_APPROVED_RUN \<and> WT_APPROVED_RUN \<noteq> [] \<and> length WT_APPROVED_RUN \<le> 80"
    "plain_text WT_APPROVED_FOLDER \<and> CHR ''|'' \<notin> set WT_APPROVED_FOLDER \<and> WT_APPROVED_FOLDER \<noteq> [] \<and> length WT_APPROVED_FOLDER \<le> 80"
    by (simp_all add: WT_APPROVED_RUN_def WT_APPROVED_FOLDER_def bsl_def)
  show "plain_text tag" "plain_text subkey" "CHR ''|'' \<notin> set tag" "CHR ''|'' \<notin> set subkey" "tag \<noteq> []" "subkey \<noteq> []"
    "length tag = 4" "length subkey \<le> 80" "hd tag = CHR ''H''"
    using assms k by (auto simp: approved_location_text_def)
qed

lemma approved_value_whole:
  assumes "approved_location_text tag subkey" "length name < 128" "length v \<le> 20"
  shows "approved_value tag subkey name v = tag @ ''|'' @ subkey @ ''|'' @ name @ ''|'' @ v"
    "length (approved_value tag subkey name v) < 256"
  using location_facts(7,8) [OF assms(1)] assms(2,3) by (simp_all add: approved_value_def)

lemma approved_tokens:
  assumes "approved_location_text tag subkey"
  shows "bar_tokens 4 (tag @ ''|'' @ subkey @ ''|'' @ name @ ''|'' @ v) =
    tag # subkey # take 2 (filter (\<lambda>t. t \<noteq> []) (split_bar (name @ ''|'' @ v)))"
  using location_facts [OF assms] by (simp add: bar_tokens_def split_bar_field)

lemma approved_record_plain:
  assumes "approved_location_text tag subkey" "length name < 128" "plain_text name" "plain_text i" "cch_copy 64 i \<notin> set record_keys"
  shows "plain_record (approved_record i tag subkey name prev enable)"
proof -
  note f = location_facts [OF assms(1)]
  have s: "plain_text (state_word b)" "length (state_word b) \<le> 8" for b by (simp_all add: state_word_def)
  have d: "plain_text (''Startup '' @ in_quotes name @ '': '' @ state_word prev @ '' -> '' @ state_word enable)"
    "length (''Startup '' @ in_quotes name @ '': '' @ state_word prev @ '' -> '' @ state_word enable) < 256"
    using s(2) [of prev] s(2) [of enable] assms(2,3) by (simp_all add: s(1) in_quotes_def)
  have v: "plain_text (approved_value tag subkey name (if b then ''02'' else ''03''))"
    "length (approved_value tag subkey name (if b then ''02'' else ''03'')) < 256"
    "approved_value tag subkey name (if b then ''02'' else ''03'') \<notin> set record_keys" for b
    using f assms(3) approved_value_whole [OF assms(1,2), of "if b then ''02'' else ''03''"]
    by (auto simp: record_keys_def)
  have k: "''Startup '' @ in_quotes name @ '': '' @ state_word prev @ '' -> '' @ state_word enable \<notin> set record_keys"
    "''startup_approved'' \<notin> set record_keys" by (simp_all add: record_keys_def)
  show ?thesis
    using d v k assms(5) plain_copy [OF assms(4), of 64]
    by (simp add: plain_record_def approved_record_def zero_WT_RollbackRecord_def cch_copy_def [of 64])
qed

lemma collected_names_short:
  assumes "e \<in> set (fst (snd (collect_entries env m)))"
  shows "length (se_name e) < 128"
proof -
  have "entries_ok WT_MAX_STARTUP_ENTRIES (snd (wt_collect_startup_entries (ae_startup env) WT_MAX_STARTUP_ENTRIES (mc_cache m)))"
  proof -
    have "entries_ok n ([], cache)" for n cache by (simp add: entries_ok_def)
    then show ?thesis by (simp add: wt_collect_startup_entries_def WT_MAX_STARTUP_ENTRIES_def Let_def scan_ok)
  qed
  then show ?thesis using assms
    by (auto simp: collect_entries_def case_prod_beta entries_ok_def startup_entry_ok_def)
qed

lemma read_enabled_cong: "mc_registry m' = mc_registry m \<Longrightarrow>
    wt_startup_read_enabled env tag subkey name m' = wt_startup_read_enabled env tag subkey name m"
  by (simp only: wt_startup_read_enabled_def)

lemma startup_change_facts:
  assumes "wt_action_set_startup_enabled env i enable yes cap m = (WT_OK, msg, m1)"
    "wt_startup_find_entry i (fst (snd (collect_entries env m))) = Some e"
    "wt_startup_approved_location (se_source e) = Inr (tag, subkey)"
    "wt_startup_read_enabled env tag subkey (se_name e) m \<noteq> enable" "store_ready env m"
  obtains m0 rec' where "mc_registry m0 = (mc_registry m)(reg_value (wt_hive_from_tag tag) subkey (se_name e) \<mapsto> approved_blob enable)"
    "wt_rollback_write env (approved_record i tag subkey (se_name e) (\<not> enable) enable) m0 = (WT_OK, rec', m1)"
    "rr_id rec' = record_id (ae_local_time env (mc_clock m))" "m1 = m0\<lparr>mc_clock := mc_clock m1, mc_files := mc_files m1\<rparr>"
    "wt_startup_write_approved env tag subkey (se_name e) b m1 = (WT_OK, m1\<lparr>mc_registry :=
       (mc_registry m1)(reg_value (wt_hive_from_tag tag) subkey (se_name e) \<mapsto> approved_blob b)\<rparr>)"
proof -
  define mc where "mc = snd (snd (collect_entries env m))"
  define mf where "mf = snd (wt_action_confirm env yes mc)"
  have mc: "mc_clock mc = mc_clock m" "mc_registry mc = mc_registry m" "fst (collect_entries env m) = WT_OK \<or> True"
    using collect_cache [of env m] by (auto simp: mc_def)
  have mf: "mc_clock mf = mc_clock m" "mc_registry mf = mc_registry m"
    using confirm_frame [of env yes mc] mc by (simp_all add: mf_def)
  have name: "cch_copy 256 (se_name e) = se_name e"
    using collected_names_short find_first_Some assms(2) by (force simp: wt_startup_find_entry_def)
  have prev: "wt_startup_read_enabled env tag subkey (se_name e) mc = (\<not> enable)"
    using assms(4) read_enabled_cong [OF mc(2)] by simp
  define mw where "mw = snd (wt_startup_write_approved env tag subkey (se_name e) enable mf)"
  have w: "fst (wt_startup_write_approved env tag subkey (se_name e) enable mf) = WT_OK \<and>
    m1 = snd (snd (wt_rollback_write env (approved_record i tag subkey (se_name e) (\<not> enable) enable) mw))"
    using assms(1-3) prev
    by (auto simp: wt_action_set_startup_enabled_def case_prod_beta Let_def name
      mc_def [symmetric] mf_def [symmetric] mw_def split: if_splits)
  have mw: "mw = mf\<lparr>mc_registry := (mc_registry mf)(reg_value (wt_hive_from_tag tag) subkey (se_name e) \<mapsto> approved_blob enable)\<rparr>"
    using w write_approved_cases [of env tag subkey "se_name e" enable mf] by (auto simp: mw_def)
  have "mc_clock mw = mc_clock m" using mf by (simp add: mw)
  from store_ready_write [OF assms(5) this, where rec = "approved_record i tag subkey (se_name e) (\<not> enable) enable"]
  obtain rec' m2 where r: "wt_rollback_write env (approved_record i tag subkey (se_name e) (\<not> enable) enable) mw = (WT_OK, rec', m2)"
    "rr_id rec' = record_id (ae_local_time env (mc_clock m))" "m2 = mw\<lparr>mc_clock := mc_clock m2, mc_files := mc_files m2\<rparr>" by blast
  have m1: "m1 = m2" using w r(1) by simp
  have "wt_startup_write_approved env tag subkey (se_name e) b m1 = (WT_OK, m1\<lparr>mc_registry :=
       (mc_registry m1)(reg_value (wt_hive_from_tag tag) subkey (se_name e) \<mapsto> approved_blob b)\<rparr>)" for b
    using w by (auto simp: wt_startup_write_approved_def write_blob_def Let_def split: option.splits if_splits)
  then show ?thesis using that [of mw rec'] r mf by (simp add: m1 mw)
qed


definition vendor_id :: string where "vendor_id = bsl ''hkcu/run:vendor''"

lemma demo_entry:
  "\<exists>e. wt_startup_find_entry vendor_id (fst (snd (collect_entries demo_actions demo_machine))) = Some e \<and>
     se_name e = ''Vendor'' \<and> se_source e = WT_STARTUP_SRC_HKCU_RUN"
  "fst (collect_entries demo_actions demo_machine) = WT_OK"
proof -
  have run: "wt_scan_run_key demo_startup 256 s st = (if s = WT_STARTUP_SRC_HKCU_RUN
      then wt_startup_add demo_probe 256 s ''Vendor'' (bsl ''C:/v.exe'') st else st)"
    "wt_scan_startup_folder demo_startup 256 s v f st = st" for s st v f
    by (simp_all add: wt_scan_run_key_def wt_scan_startup_folder_def demo_startup_def)
  have "\<exists>e c. wt_startup_add demo_probe 256 WT_STARTUP_SRC_HKCU_RUN ''Vendor'' (bsl ''C:/v.exe'') ([], mc_cache demo_machine) = ([e], c) \<and>
      se_name e = ''Vendor'' \<and> se_source e = WT_STARTUP_SRC_HKCU_RUN \<and> wcsicmp (se_id e) vendor_id"
    by (simp add: wt_startup_add_def case_prod_beta Let_def wt_startup_source_name_def bsl_def vendor_id_def wcsicmp_def lower_def char_of_def bit_0)
  then obtain e c where e: "wt_startup_add demo_probe 256 WT_STARTUP_SRC_HKCU_RUN ''Vendor'' (bsl ''C:/v.exe'') ([], mc_cache demo_machine) = ([e], c)"
    "se_name e = ''Vendor''" "se_source e = WT_STARTUP_SRC_HKCU_RUN" "wcsicmp (se_id e) vendor_id" by blast
  have "ae_startup demo_actions = demo_startup" by (simp add: demo_actions_def)
  then have c: "collect_entries demo_actions demo_machine = (WT_OK, [e], demo_machine\<lparr>mc_cache := c\<rparr>)"
    by (simp add: collect_entries_def wt_collect_startup_entries_def run e(1) WT_MAX_STARTUP_ENTRIES_def Let_def)
  show "\<exists>e. wt_startup_find_entry vendor_id (fst (snd (collect_entries demo_actions demo_machine))) = Some e \<and>
     se_name e = ''Vendor'' \<and> se_source e = WT_STARTUP_SRC_HKCU_RUN"
    using e by (simp add: c wt_startup_find_entry_def)
  show "fst (collect_entries demo_actions demo_machine) = WT_OK" by (simp add: c)
qed


end
