(* ===== verification/Collectors.thy ===== *)
theory Collectors
  imports Report_Model
begin

text \<open>
  The collectors that turn counters of Windows into the records of a scan: volumes and disk activity
  (\<open>src/metrics/disk.c\<close>), memory (\<open>memory.c\<close>), processor (\<open>cpu.c\<close>), network adapters (\<open>network.c\<close> up to
  \<open>wt_net_merge_sample\<close>) and the single counter of \<open>pdh_utils.c\<close>. What PDH, the memory status and the interface table
  answer are records of values (\<open>disk_pdh\<close>, \<open>mem_api\<close>, \<open>cpu_api\<close>, \<open>MIB_IF_ROW2\<close>); a counter that could not be added is
  None, one added without a value \<open>Some None\<close>. Queries kept open between samples (\<open>wt_pdh_cache_...\<close>) change no
  value and have no counterpart here. Floating point is exact, as everywhere in the report model.
\<close>

section \<open>Counters\<close>

type_synonym 'v pdh_counter = "('v \<times> bool) option option"
  \<comment> \<open>the value, and whether its status is valid or new data\<close>

definition wt_pdh_read_double :: "rat pdh_counter \<Rightarrow> rat \<times> bool" where
  "wt_pdh_read_double c = (case c of Some (Some (v, status)) \<Rightarrow> (v, True) | _ \<Rightarrow> (0, False))"

record pdh_single =
  ps_open :: bool
  ps_counter :: "rat pdh_counter"
  ps_first :: bool
  ps_second :: bool

definition wt_pdh_sample_single :: "pdh_single \<Rightarrow> WT_Result \<times> rat" where
  "wt_pdh_sample_single p =
     (if \<not> ps_open p \<or> ps_counter p = None \<or> \<not> ps_first p \<or> \<not> ps_second p then (WT_ERR_PDH, 0)
      else if snd (wt_pdh_read_double (ps_counter p)) then (WT_OK, fst (wt_pdh_read_double (ps_counter p)))
      else (WT_ERR_PDH, 0))"

definition at_least_0 :: "rat \<Rightarrow> rat" where
  "at_least_0 v = (if v < 0 then 0 else v)"

section \<open>Disk\<close>

definition WT_MAX_VOLUMES :: nat where "WT_MAX_VOLUMES = 32"
definition WT_DISK_LATENCY_CAP :: nat where "WT_DISK_LATENCY_CAP = 32"

record disk_api =
  dk_mask :: nat                                   \<comment> \<open>\<open>GetLogicalDrives\<close>\<close>
  dk_fixed :: "string \<Rightarrow> bool"
  dk_space :: "string \<Rightarrow> (nat \<times> nat) option"        \<comment> \<open>total and free bytes\<close>

fun disk_volume_loop :: "disk_api \<Rightarrow> nat \<Rightarrow> nat list \<Rightarrow> WT_DiskVolumeMetrics list \<Rightarrow> WT_DiskVolumeMetrics list" where
  "disk_volume_loop api capacity [] out = out"
| "disk_volume_loop api capacity (i # js) out =
     (if length out \<ge> capacity then out
      else let root_path = char_of (65 + i) # bsl '':/'' in
        if \<not> bit (dk_mask api) i \<or> \<not> dk_fixed api root_path then disk_volume_loop api capacity js out
        else case dk_space api root_path of
          None \<Rightarrow> disk_volume_loop api capacity js out
        | Some (total_bytes, total_free) \<Rightarrow>
            disk_volume_loop api capacity js (out @ [zero_WT_DiskVolumeMetrics\<lparr>
              dv_root_path := root_path, dv_total_bytes := total_bytes, dv_free_bytes := total_free,
              dv_free_percent := (if total_bytes > 0 then of_nat total_free * 100 / of_nat total_bytes else 0),
              dv_active_percent := -1, dv_read_bytes_per_sec := -1, dv_write_bytes_per_sec := -1,
              dv_avg_queue_length := -1, dv_read_latency_ms_p50 := -1, dv_read_latency_ms_p95 := -1,
              dv_write_latency_ms_p50 := -1, dv_write_latency_ms_p95 := -1\<rparr>]))"

definition wt_collect_disk_volumes :: "disk_api \<Rightarrow> nat \<Rightarrow> WT_Result \<times> WT_DiskVolumeMetrics list" where
  "wt_collect_disk_volumes api capacity =
     (if capacity = 0 then (WT_ERR_INVALID_ARGUMENT, [])
      else if dk_mask api = 0 then (WT_ERR_WIN32, [])
      else (WT_OK, disk_volume_loop api capacity [0..<26] []))"

definition wt_disk_volume_letter :: "WT_DiskVolumeMetrics \<Rightarrow> char option" where
  "wt_disk_volume_letter v = (case dv_root_path v of [] \<Rightarrow> None
     | c # r \<Rightarrow> let n = of_char c :: nat
         in if (65 \<le> n \<and> n \<le> 90) \<or> (97 \<le> n \<and> n \<le> 122) then Some c else None)"

record WT_VolCounters =
  vc_active :: "rat pdh_counter"
  vc_read :: "rat pdh_counter"
  vc_write :: "rat pdh_counter"
  vc_queue :: "rat pdh_counter"
  vc_read_latency :: "rat pdh_counter"
  vc_write_latency :: "rat pdh_counter"

definition zero_WT_VolCounters :: WT_VolCounters where
  "zero_WT_VolCounters = \<lparr>vc_active = None, vc_read = None, vc_write = None, vc_queue = None,
     vc_read_latency = None, vc_write_latency = None\<rparr>"

record WT_DiskIoMetrics =
  di_active_percent :: rat
  di_read_bytes_per_sec :: rat
  di_write_bytes_per_sec :: rat
  di_avg_queue_length :: rat
  di_read_latency_ms :: rat
  di_write_latency_ms :: rat
  di_active_ok :: bool
  di_throughput_ok :: bool
  di_queue_ok :: bool
  di_latency_ok :: bool

definition disk_io_init :: WT_DiskIoMetrics where
  "disk_io_init = \<lparr>di_active_percent = 0, di_read_bytes_per_sec = 0, di_write_bytes_per_sec = 0,
     di_avg_queue_length = -1, di_read_latency_ms = -1, di_write_latency_ms = -1, di_active_ok = False,
     di_throughput_ok = False, di_queue_ok = False, di_latency_ok = False\<rparr>"

definition wt_disk_nearest_rank :: "rat list \<Rightarrow> rat \<Rightarrow> rat" where
  \<comment> \<open>\<open>sorted\<close> holds \<open>n\<close> values; up to 32 of them the products of the doubles 0.50 and 0.95 truncate to the same rank\<close>
  "wt_disk_nearest_rank xs p =
     (let n = length xs;
          scaled = p * of_nat n;
          rank = nat \<lfloor>scaled\<rfloor>;
          rank = (if of_nat rank \<noteq> scaled then rank + 1 else rank);
          rank = (if rank < 1 then 1 else rank);
          rank = (if rank > n then n else rank)
      in xs ! (rank - 1))"

definition wt_disk_latency_push :: "nat \<Rightarrow> rat \<Rightarrow> rat list \<times> rat \<times> rat \<Rightarrow> rat list \<times> rat \<times> rat" where
  \<comment> \<open>the samples with their p50 and p95\<close>
  "wt_disk_latency_push cap latency_ms st =
     (case st of (samples, p50, p95) \<Rightarrow>
        if cap = 0 \<or> latency_ms < 0 then (samples, p50, p95)
        else let cap = (if cap > WT_DISK_LATENCY_CAP then WT_DISK_LATENCY_CAP else cap);
                 samples = (if length samples < cap then samples @ [latency_ms] else samples)
             in if samples = [] then (samples, p50, p95)
                else (samples, wt_disk_nearest_rank (sort samples) (1 / 2), wt_disk_nearest_rank (sort samples) (19 / 20)))"

definition wt_disk_latency_ms :: "rat \<Rightarrow> rat option" where
  "wt_disk_latency_ms seconds =
     (if seconds < 0 then None else if seconds * 1000 > 60000 then None else Some (seconds * 1000))"

definition counter_latency :: "rat pdh_counter \<Rightarrow> rat option" where
  "counter_latency c = (case wt_pdh_read_double c of (v, ok) \<Rightarrow> if ok then wt_disk_latency_ms v else None)"

definition wt_disk_apply_total :: "WT_VolCounters \<Rightarrow> WT_DiskIoMetrics \<Rightarrow> WT_DiskIoMetrics" where
  "wt_disk_apply_total c out =
     (let (active, ok_active) = wt_pdh_read_double (vc_active c);
          (read_bps, ok_read) = wt_pdh_read_double (vc_read c);
          (write_bps, ok_write) = wt_pdh_read_double (vc_write c);
          (queue, ok_queue) = wt_pdh_read_double (vc_queue c);
          out = (if ok_active then out\<lparr>di_active_percent := at_least_0 active, di_active_ok := True\<rparr> else out);
          out = (if ok_read \<or> ok_write
                 then out\<lparr>di_read_bytes_per_sec := (if ok_read then at_least_0 read_bps else 0),
                        di_write_bytes_per_sec := (if ok_write then at_least_0 write_bps else 0),
                        di_throughput_ok := True\<rparr> else out);
          out = (if ok_queue then out\<lparr>di_avg_queue_length := at_least_0 queue, di_queue_ok := True\<rparr> else out);
          out = out\<lparr>di_read_latency_ms := -1, di_write_latency_ms := -1\<rparr>;
          out = (case counter_latency (vc_read_latency c) of None \<Rightarrow> out
                 | Some ms \<Rightarrow> out\<lparr>di_read_latency_ms := ms, di_latency_ok := True\<rparr>)
      in (case counter_latency (vc_write_latency c) of None \<Rightarrow> out
          | Some ms \<Rightarrow> out\<lparr>di_write_latency_ms := ms, di_latency_ok := True\<rparr>))"

definition push_read_latency :: "rat \<Rightarrow> WT_DiskVolumeMetrics \<Rightarrow> WT_DiskVolumeMetrics" where
  "push_read_latency ms v =
     (case wt_disk_latency_push WT_DISK_LATENCY_CAP ms
             (dv_read_latency_samples v, dv_read_latency_ms_p50 v, dv_read_latency_ms_p95 v) of
        (s, a, b) \<Rightarrow> v\<lparr>dv_read_latency_samples := s, dv_read_latency_ms_p50 := a, dv_read_latency_ms_p95 := b\<rparr>)"

definition push_write_latency :: "rat \<Rightarrow> WT_DiskVolumeMetrics \<Rightarrow> WT_DiskVolumeMetrics" where
  "push_write_latency ms v =
     (case wt_disk_latency_push WT_DISK_LATENCY_CAP ms
             (dv_write_latency_samples v, dv_write_latency_ms_p50 v, dv_write_latency_ms_p95 v) of
        (s, a, b) \<Rightarrow> v\<lparr>dv_write_latency_samples := s, dv_write_latency_ms_p50 := a, dv_write_latency_ms_p95 := b\<rparr>)"

definition wt_disk_apply_volume :: "WT_DiskVolumeMetrics \<Rightarrow> WT_VolCounters \<Rightarrow> WT_DiskVolumeMetrics" where
  "wt_disk_apply_volume v s =
     (let (a, ok_a) = wt_pdh_read_double (vc_active s);
          (r, ok_r) = wt_pdh_read_double (vc_read s);
          (w, ok_w) = wt_pdh_read_double (vc_write s);
          (q, ok_q) = wt_pdh_read_double (vc_queue s);
          v = (if ok_a then v\<lparr>dv_active_percent := at_least_0 a, dv_activity_ok := True\<rparr> else v);
          v = (if ok_r \<or> ok_w
               then v\<lparr>dv_read_bytes_per_sec := (if ok_r then at_least_0 r else 0),
                      dv_write_bytes_per_sec := (if ok_w then at_least_0 w else 0),
                      dv_throughput_ok := True\<rparr> else v);
          v = (if ok_q then v\<lparr>dv_avg_queue_length := at_least_0 q, dv_queue_ok := True\<rparr> else v);
          v = (case counter_latency (vc_read_latency s) of None \<Rightarrow> v | Some ms \<Rightarrow> push_read_latency ms v)
      in (case counter_latency (vc_write_latency s) of None \<Rightarrow> v | Some ms \<Rightarrow> push_write_latency ms v))"

record disk_pdh =
  dp_open :: bool
  dp_total :: WT_VolCounters                       \<comment> \<open>\<open>PhysicalDisk(_Total)\<close>\<close>
  dp_volume :: "char \<Rightarrow> WT_VolCounters"            \<comment> \<open>\<open>LogicalDisk(c:)\<close>\<close>
  dp_first :: bool                                 \<comment> \<open>the two \<open>PdhCollectQueryData\<close>\<close>
  dp_second :: bool
  dp_single :: pdh_single

definition volume_counters :: "disk_pdh \<Rightarrow> WT_DiskVolumeMetrics \<Rightarrow> WT_VolCounters" where
  "volume_counters pdh v = (case wt_disk_volume_letter v of None \<Rightarrow> zero_WT_VolCounters | Some c \<Rightarrow> dp_volume pdh c)"

definition vol_counted :: "WT_VolCounters \<Rightarrow> bool" where
  "vol_counted s \<longleftrightarrow> vc_active s \<noteq> None \<or> vc_read s \<noteq> None \<or> vc_write s \<noteq> None"

definition wt_collect_disk_io_ex ::
  "disk_pdh \<Rightarrow> bool \<Rightarrow> WT_DiskVolumeMetrics list \<Rightarrow> WT_Result \<times> WT_DiskIoMetrics \<times> WT_DiskVolumeMetrics list" where
  \<comment> \<open>\<open>want_total\<close>: \<open>total_out\<close> is not NULL\<close>
  "wt_collect_disk_io_ex pdh want_total volumes =
     (if \<not> want_total \<and> volumes = [] then (WT_ERR_INVALID_ARGUMENT, disk_io_init, volumes)
      else if \<not> dp_open pdh then (WT_ERR_PDH, disk_io_init, volumes)
      else let c = (if want_total then dp_total pdh else zero_WT_VolCounters);
               slots = map (volume_counters pdh) volumes;
               vol_added = length (filter vol_counted slots)
           in if \<not> vol_counted c \<and> vol_added = 0 then (WT_ERR_PDH, disk_io_init, volumes)
              else if \<not> dp_first pdh \<or> \<not> dp_second pdh then (WT_ERR_PDH, disk_io_init, volumes)
              else let total_out = (if want_total then wt_disk_apply_total c disk_io_init else disk_io_init);
                       volumes = map2 wt_disk_apply_volume volumes slots
                   in (if (want_total \<and> (di_active_ok total_out \<or> di_throughput_ok total_out \<or>
                              di_queue_ok total_out \<or> di_latency_ok total_out)) \<or> vol_added > 0
                       then WT_OK else WT_ERR_PDH, total_out, volumes))"

definition wt_collect_disk_io :: "disk_pdh \<Rightarrow> WT_Result \<times> WT_DiskIoMetrics" where
  "wt_collect_disk_io pdh = (case wt_collect_disk_io_ex pdh True [] of (r, io, vs) \<Rightarrow> (r, io))"

definition wt_collect_disk_activity :: "disk_pdh \<Rightarrow> WT_Result \<times> rat" where
  "wt_collect_disk_activity pdh =
     (case wt_collect_disk_io pdh of (r, io) \<Rightarrow>
        if r \<noteq> WT_OK \<or> \<not> di_active_ok io
        then (case wt_pdh_sample_single (dp_single pdh) of (r, value) \<Rightarrow>
                if r \<noteq> WT_OK then (r, 0) else (WT_OK, at_least_0 value))
        else (WT_OK, di_active_percent io))"

section \<open>Memory\<close>

record mem_status =
  ms_total_phys :: nat
  ms_avail_phys :: nat
  ms_total_page_file :: nat
  ms_avail_page_file :: nat

record perf_info =
  pf_page_size :: nat
  pf_commit_total :: nat
  pf_commit_limit :: nat
  pf_commit_peak :: nat

record mem_api =
  ma_status :: "mem_status option"
  ma_perf :: "perf_info option"
  ma_open :: bool
  ma_collect :: bool
  ma_standby :: "int pdh_counter list"             \<comment> \<open>the three standby lists\<close>
  ma_modified :: "int pdh_counter"
  ma_compression :: "int pdh_counter"
  ma_processes :: "(string \<times> nat) list"           \<comment> \<open>the process snapshot, empty when it failed\<close>
  ma_working_set :: "nat \<Rightarrow> nat option"

definition wt_memory_clear_optional :: "WT_MemoryMetrics \<Rightarrow> WT_MemoryMetrics" where
  "wt_memory_clear_optional m = m\<lparr>mm_commit_ok := False, mm_commit_total_bytes := 0, mm_commit_limit_bytes := 0,
     mm_commit_peak_bytes := 0, mm_commit_percent := 0, mm_pagefile_ok := False, mm_commit_available_bytes := 0,
     mm_hard_faults_ok := False, mm_hard_faults_per_sec := -1, mm_page_faults_ok := False, mm_page_faults_per_sec := -1,
     mm_standby_ok := False, mm_standby_bytes := 0, mm_modified_ok := False, mm_modified_bytes := 0,
     mm_compression_ok := False, mm_compression_bytes := 0\<rparr>"

definition memory_page_file :: "mem_status \<Rightarrow> WT_MemoryMetrics \<Rightarrow> WT_MemoryMetrics" where
  "memory_page_file st m =
     (let m = m\<lparr>mm_pagefile_ok := True, mm_commit_available_bytes := ms_avail_page_file st\<rparr>
      in if \<not> mm_commit_ok m \<and> ms_total_page_file st > 0
         then let m = m\<lparr>mm_commit_limit_bytes := ms_total_page_file st\<rparr>;
                  m = (if ms_total_page_file st \<ge> ms_avail_page_file st
                       then m\<lparr>mm_commit_total_bytes := ms_total_page_file st - ms_avail_page_file st\<rparr> else m)
              in m\<lparr>mm_commit_percent := of_nat (mm_commit_total_bytes m) * 100 / of_nat (ms_total_page_file st),
                   mm_commit_ok := True\<rparr>
         else m)"

definition wt_memory_fill_commit :: "mem_api \<Rightarrow> mem_status \<Rightarrow> WT_MemoryMetrics \<Rightarrow> WT_MemoryMetrics" where
  "wt_memory_fill_commit api st m =
     (let m = memory_page_file st m
      in case ma_perf api of None \<Rightarrow> m
         | Some p \<Rightarrow>
            (let page = (if pf_page_size p = 0 then 4096 else pf_page_size p);
                 m = m\<lparr>mm_commit_ok := True, mm_commit_total_bytes := pf_commit_total p * page mod 2 ^ 64,
                       mm_commit_limit_bytes := pf_commit_limit p * page mod 2 ^ 64,
                       mm_commit_peak_bytes := pf_commit_peak p * page mod 2 ^ 64\<rparr>
             in if mm_commit_limit_bytes m > 0
                then m\<lparr>mm_commit_percent := of_nat (mm_commit_total_bytes m) * 100 / of_nat (mm_commit_limit_bytes m)\<rparr>
                else m))"

definition wt_memory_counter_bytes :: "int pdh_counter \<Rightarrow> nat \<Rightarrow> nat option" where
  "wt_memory_counter_bytes c cap =
     (case c of Some (Some (v, status)) \<Rightarrow>
        if \<not> status \<or> v < 0 \<or> (cap > 0 \<and> nat v > cap) then None else Some (nat v)
      | _ \<Rightarrow> None)"

definition wt_memory_read_lists :: "mem_api \<Rightarrow> WT_MemoryMetrics \<Rightarrow> WT_MemoryMetrics" where
  "wt_memory_read_lists api m =
     (if \<not> ma_open api \<or> \<not> ma_collect api then m
      else let cap = mm_total_physical_bytes m;
               parts = List.map_filter (\<lambda>c. wt_memory_counter_bytes c cap) (ma_standby api);
               total = sum_list parts mod 2 ^ 64;
               m = (if length parts = 3 \<and> (cap = 0 \<or> total \<le> cap)
                    then m\<lparr>mm_standby_ok := True, mm_standby_bytes := total\<rparr> else m);
               m = (case wt_memory_counter_bytes (ma_modified api) cap of None \<Rightarrow> m
                    | Some b \<Rightarrow> m\<lparr>mm_modified_ok := True, mm_modified_bytes := b\<rparr>)
           in (case wt_memory_counter_bytes (ma_compression api) cap of None \<Rightarrow> m
               | Some b \<Rightarrow> m\<lparr>mm_compression_ok := True, mm_compression_bytes := b\<rparr>))"

definition wt_memory_read_compression :: "mem_api \<Rightarrow> WT_MemoryMetrics \<Rightarrow> WT_MemoryMetrics" where
  "wt_memory_read_compression api m =
     (let cap = mm_total_physical_bytes m
      in case find_first (\<lambda>(name, pid). wcsicmp name ''Memory Compression'') (ma_processes api) of
           None \<Rightarrow> m
         | Some (name, pid) \<Rightarrow>
            if pid = 0 then m
            else case ma_working_set api pid of
                None \<Rightarrow> m
              | Some ws \<Rightarrow> if ws > 0 \<and> (cap = 0 \<or> ws \<le> cap)
                           then m\<lparr>mm_compression_ok := True, mm_compression_bytes := ws\<rparr> else m)"

definition wt_collect_memory_metrics :: "mem_api \<Rightarrow> WT_Result \<times> WT_MemoryMetrics" where
  "wt_collect_memory_metrics api =
     (let m = wt_memory_clear_optional zero_WT_MemoryMetrics
      in case ma_status api of
           None \<Rightarrow> (WT_ERR_WIN32, m)
         | Some st \<Rightarrow>
            (let m = m\<lparr>mm_total_physical_bytes := ms_total_phys st, mm_available_physical_bytes := ms_avail_phys st,
                       mm_used_physical_bytes := (if ms_total_phys st \<ge> ms_avail_phys st
                                                  then ms_total_phys st - ms_avail_phys st else 0)\<rparr>;
                 m = m\<lparr>mm_used_percent := (if ms_total_phys st > 0
                         then of_nat (mm_used_physical_bytes m) * 100 / of_nat (ms_total_phys st) else 0)\<rparr>;
                 m = wt_memory_read_lists api (wt_memory_fill_commit api st m)
             in (WT_OK, if \<not> mm_compression_ok m then wt_memory_read_compression api m else m)))"

definition wt_collect_memory_metrics_ex :: "mem_api \<Rightarrow> (nat \<Rightarrow> pdh_single) \<Rightarrow> (nat \<Rightarrow> pdh_single) \<Rightarrow> nat \<Rightarrow> WT_Result \<times> WT_MemoryMetrics" where
  \<comment> \<open>the counters of hard faults and of all faults, by the length of the sample\<close>
  "wt_collect_memory_metrics_ex api hard all fault_sample_ms =
     (case wt_collect_memory_metrics api of (r, m) \<Rightarrow>
        if r \<noteq> WT_OK then (r, m)
        else if fault_sample_ms = 0 then (WT_OK, m)
        else case wt_pdh_sample_single (hard fault_sample_ms) of (hr, h) \<Rightarrow>
          if hr \<noteq> WT_OK then (WT_OK, m)
          else let m = m\<lparr>mm_hard_faults_ok := True, mm_hard_faults_per_sec := h\<rparr>
               in case wt_pdh_sample_single (all (if fault_sample_ms > 200 then 200 else fault_sample_ms)) of (ar, a) \<Rightarrow>
                    (WT_OK, if ar = WT_OK then m\<lparr>mm_page_faults_ok := True, mm_page_faults_per_sec := a\<rparr> else m))"

section \<open>Processor\<close>

record cpu_api =
  ca_processors :: nat
  ca_open :: bool
  ca_total :: "rat pdh_counter"
  ca_dpc :: "rat pdh_counter"
  ca_interrupt :: "rat pdh_counter"
  ca_first :: bool
  ca_second :: bool

definition wt_cpu_clamp :: "rat \<Rightarrow> rat" where
  "wt_cpu_clamp v = (if v < 0 then 0 else if v > 100 then 100 else v)"

definition wt_cpu_read_counter :: "rat pdh_counter \<Rightarrow> rat option" where
  "wt_cpu_read_counter c =
     (case c of Some (Some (v, status)) \<Rightarrow> if status then Some (wt_cpu_clamp v) else None | _ \<Rightarrow> None)"

definition wt_collect_cpu_metrics :: "cpu_api \<Rightarrow> WT_CpuMetrics \<Rightarrow> WT_Result \<times> WT_CpuMetrics" where
  "wt_collect_cpu_metrics api out =
     (let out = out\<lparr>cm_total_usage_percent := -1, cm_available := False, cm_dpc_percent := -1,
            cm_interrupt_percent := -1, cm_kernel_source_ok := False, cm_kernel_source_is_dpc := False,
            cm_kernel_source := [], cm_logical_processor_count := ca_processors api\<rparr>
      in if \<not> ca_open api \<or> ca_total api = None \<or> \<not> ca_first api \<or> \<not> ca_second api then (WT_ERR_PDH, out)
         else case wt_cpu_read_counter (ca_total api) of
             None \<Rightarrow> (WT_ERR_PDH, out)
           | Some usage \<Rightarrow>
              (let out = out\<lparr>cm_total_usage_percent := usage, cm_available := True\<rparr>;
                   out = (case wt_cpu_read_counter (ca_dpc api) of None \<Rightarrow> out | Some d \<Rightarrow> out\<lparr>cm_dpc_percent := d\<rparr>)
               in (WT_OK, case wt_cpu_read_counter (ca_interrupt api) of
                            None \<Rightarrow> out | Some q \<Rightarrow> out\<lparr>cm_interrupt_percent := q\<rparr>)))"

record WT_KernelImage =
  ki_dpc_count :: nat
  ki_isr_count :: nat
  ki_name :: string

fun kernel_pick_loop :: "WT_KernelImage list \<Rightarrow> (WT_KernelImage option \<times> nat \<times> bool) \<Rightarrow> (WT_KernelImage option \<times> nat \<times> bool)" where
  \<comment> \<open>the best image so far, its count, whether the count is of DPCs\<close>
  "kernel_pick_loop [] st = st"
| "kernel_pick_loop (k # ks) (best, best_count, best_is_dpc) =
     (let (best, best_count, best_is_dpc) =
            (if ki_dpc_count k > best_count then (Some k, ki_dpc_count k, True) else (best, best_count, best_is_dpc));
          (best, best_count, best_is_dpc) =
            (if ki_isr_count k > best_count then (Some k, ki_isr_count k, False) else (best, best_count, best_is_dpc))
      in kernel_pick_loop ks (best, best_count, best_is_dpc))"

definition wt_kernel_pick_source :: "WT_KernelImage list \<Rightarrow> WT_CpuMetrics \<Rightarrow> WT_CpuMetrics" where
  "wt_kernel_pick_source images cpu =
     (case kernel_pick_loop images (None, 0, True) of (best, best_count, best_is_dpc) \<Rightarrow>
        case best of None \<Rightarrow> cpu
        | Some k \<Rightarrow>
            if best_count < 5 then cpu
            else cpu\<lparr>cm_kernel_source := cch_copy 64 (ki_name k), cm_kernel_source_is_dpc := best_is_dpc,
                     cm_kernel_source_ok := True\<rparr>)"

definition wt_cpu_attribute_kernel_source ::
  "WT_KernelImage list option \<Rightarrow> rat \<Rightarrow> rat \<Rightarrow> WT_CpuMetrics \<Rightarrow> WT_CpuMetrics" where
  \<comment> \<open>the images a kernel trace counted events for, None when no trace could start\<close>
  "wt_cpu_attribute_kernel_source trace user_cpu_max user_cpu_sum cpu =
     (if \<not> cm_available cpu then cpu
      else let cpu = cpu\<lparr>cm_kernel_source_ok := False, cm_kernel_source_is_dpc := False, cm_kernel_source := []\<rparr>
        in if cm_total_usage_percent cpu < 50 then cpu
           else if cm_dpc_percent cpu < 0 \<or> cm_interrupt_percent cpu < 0 then cpu
           else if cm_dpc_percent cpu + cm_interrupt_percent cpu < 10 then cpu
           else if user_cpu_max < 0 \<or> user_cpu_sum < 0 then cpu
           else if user_cpu_max \<ge> 15 \<or> user_cpu_sum \<ge> 25 then cpu
           else case trace of None \<Rightarrow> cpu | Some images \<Rightarrow> wt_kernel_pick_source images cpu)"

section \<open>Network\<close>

definition WT_MAX_NET_ADAPTERS :: nat where "WT_MAX_NET_ADAPTERS = 16"
definition WT_NET_KIND_OTHER :: int where "WT_NET_KIND_OTHER = 0"
definition WT_NET_KIND_ETHERNET :: int where "WT_NET_KIND_ETHERNET = 1"
definition WT_NET_KIND_WIFI :: int where "WT_NET_KIND_WIFI = 2"
definition WT_NET_KIND_VPN :: int where "WT_NET_KIND_VPN = 3"
definition WT_NET_KIND_VIRTUAL :: int where "WT_NET_KIND_VIRTUAL = 4"

record MIB_IF_ROW2 =
  if_InterfaceIndex :: nat
  if_Alias :: string
  if_Description :: string
  if_Type :: nat                \<comment> \<open>6 Ethernet, 23 PPP, 24 loopback, 53 proprietary virtual, 71 wireless, 131 tunnel\<close>
  if_Hardware :: bool
  if_Filter :: bool
  if_Up :: bool
  if_InOctets :: nat
  if_OutOctets :: nat

definition wt_net_adapter_kind :: "MIB_IF_ROW2 \<Rightarrow> int" where
  "wt_net_adapter_kind row =
     (if contains_str (if_Alias row) ''vEthernet'' \<or> contains_str (if_Alias row) ''Virtual Switch'' \<or>
         contains_str (if_Description row) ''Hyper-V''
      then WT_NET_KIND_VIRTUAL
      else if if_Type row = 131 \<or> if_Type row = 23 \<or> if_Type row = 53 then WT_NET_KIND_VPN
      else if if_Type row = 71 then WT_NET_KIND_WIFI
      else if if_Type row = 6 then (if \<not> if_Hardware row then WT_NET_KIND_VIRTUAL else WT_NET_KIND_ETHERNET)
      else WT_NET_KIND_OTHER)"

definition wt_net_include_row :: "MIB_IF_ROW2 \<Rightarrow> bool" where
  "wt_net_include_row row \<longleftrightarrow> if_Type row \<noteq> 24 \<and> if_Up row \<and> \<not> if_Filter row"

definition wt_net_copy_name :: "MIB_IF_ROW2 \<Rightarrow> string" where
  "wt_net_copy_name row = cch_copy 64 (if if_Alias row = [] then if_Description row else if_Alias row)"

definition wt_net_adapter_octets :: "WT_NetAdapter \<Rightarrow> nat" where
  "wt_net_adapter_octets a = (na_in_bytes a + na_out_bytes a) mod 2 ^ 64"

definition quietest :: "WT_NetAdapter list \<Rightarrow> nat" where
  "quietest items = foldl (\<lambda>quiet i. if wt_net_adapter_octets (items ! i) < wt_net_adapter_octets (items ! quiet)
     then i else quiet) 0 [1..<length items]"

definition wt_net_keep_busiest :: "WT_NetAdapter \<Rightarrow> WT_NetAdapter list \<Rightarrow> WT_NetAdapter list" where
  "wt_net_keep_busiest candidate items =
     (if length items < WT_MAX_NET_ADAPTERS then items @ [candidate]
      else let quiet = quietest items
           in if wt_net_adapter_octets candidate > wt_net_adapter_octets (items ! quiet)
              then items[quiet := candidate] else items)"

definition clear_adapter :: "WT_NetAdapter \<Rightarrow> WT_NetAdapter" where
  "clear_adapter a = a\<lparr>na_recv_bytes_per_sec := -1, na_send_bytes_per_sec := -1\<rparr>"

definition wt_net_clear_rates :: "WT_NetTotals \<Rightarrow> WT_NetTotals" where
  "wt_net_clear_rates t = t\<lparr>nt_recv_bytes_per_sec := -1, nt_send_bytes_per_sec := -1,
     nt_adapters := map clear_adapter (nt_adapters t)\<rparr>"

definition net_row_adapter :: "MIB_IF_ROW2 \<Rightarrow> WT_NetAdapter" where
  "net_row_adapter row = zero_WT_NetAdapter\<lparr>na_if_index := if_InterfaceIndex row, na_kind := wt_net_adapter_kind row,
     na_in_bytes := if_InOctets row, na_out_bytes := if_OutOctets row, na_recv_bytes_per_sec := -1,
     na_send_bytes_per_sec := -1, na_name := wt_net_copy_name row\<rparr>"

definition wt_collect_net_totals :: "MIB_IF_ROW2 list option \<Rightarrow> WT_Result \<times> WT_NetTotals" where
  "wt_collect_net_totals table =
     (let out = wt_net_clear_rates zero_WT_NetTotals
      in case table of None \<Rightarrow> (WT_ERR_WIN32, out)
         | Some rows \<Rightarrow>
            (let adapters = sort_key na_if_index (foldl (\<lambda>items row. wt_net_keep_busiest (net_row_adapter row) items) []
                   (filter wt_net_include_row rows))
             in (WT_OK, out\<lparr>nt_adapters := adapters, nt_interface_count := length adapters,
                   nt_in_bytes := sum_list (map na_in_bytes adapters) mod 2 ^ 64,
                   nt_out_bytes := sum_list (map na_out_bytes adapters) mod 2 ^ 64\<rparr>)))"

definition wt_net_delta_rate :: "nat \<Rightarrow> nat \<Rightarrow> rat \<Rightarrow> rat" where
  "wt_net_delta_rate before after seconds =
     (if seconds \<le> 0 then -1 else if after < before then 0 else of_nat (after - before) / seconds)"

definition wt_net_find_adapter :: "WT_NetTotals \<Rightarrow> nat \<Rightarrow> WT_NetAdapter option" where
  "wt_net_find_adapter t if_index = find_first (\<lambda>a. na_if_index a = if_index) (nt_adapters t)"

definition wt_net_apply_rates :: "WT_NetTotals option \<Rightarrow> WT_NetTotals \<Rightarrow> nat \<Rightarrow> WT_NetTotals" where
  "wt_net_apply_rates before after elapsed_ms =
     (let out = wt_net_clear_rates after
      in case before of None \<Rightarrow> out
         | Some b \<Rightarrow>
            if elapsed_ms = 0 then out
            else let seconds = of_nat elapsed_ms / 1000 in
              out\<lparr>nt_recv_bytes_per_sec := wt_net_delta_rate (nt_in_bytes b) (nt_in_bytes after) seconds,
                  nt_send_bytes_per_sec := wt_net_delta_rate (nt_out_bytes b) (nt_out_bytes after) seconds,
                  nt_adapters := map (\<lambda>a. case wt_net_find_adapter b (na_if_index a) of
                      None \<Rightarrow> a
                    | Some prior \<Rightarrow>
                        a\<lparr>na_recv_bytes_per_sec := wt_net_delta_rate (na_in_bytes prior) (na_in_bytes a) seconds,
                          na_send_bytes_per_sec := wt_net_delta_rate (na_out_bytes prior) (na_out_bytes a) seconds\<rparr>)
                    (nt_adapters out)\<rparr>)"

definition wt_net_average_rate :: "rat \<Rightarrow> rat \<Rightarrow> nat \<Rightarrow> rat" where
  "wt_net_average_rate previous sample sample_index =
     (if sample < 0 then previous
      else if previous < 0 \<or> sample_index = 0 then sample
      else (previous * of_nat sample_index + sample) / of_nat (sample_index + 1))"

definition wt_net_merge_sample :: "WT_NetTotals \<Rightarrow> nat \<Rightarrow> WT_NetTotals \<Rightarrow> WT_NetTotals" where
  "wt_net_merge_sample sample sample_index acc =
     (if sample_index = 0 then acc
      else sample\<lparr>
        nt_recv_bytes_per_sec := wt_net_average_rate (nt_recv_bytes_per_sec acc) (nt_recv_bytes_per_sec sample) sample_index,
        nt_send_bytes_per_sec := wt_net_average_rate (nt_send_bytes_per_sec acc) (nt_send_bytes_per_sec sample) sample_index,
        nt_adapters := map (\<lambda>a. case wt_net_find_adapter acc (na_if_index a) of
            None \<Rightarrow> a
          | Some prior \<Rightarrow>
              a\<lparr>na_recv_bytes_per_sec := wt_net_average_rate (na_recv_bytes_per_sec prior) (na_recv_bytes_per_sec a) sample_index,
                na_send_bytes_per_sec := wt_net_average_rate (na_send_bytes_per_sec prior) (na_send_bytes_per_sec a) sample_index\<rparr>)
          (nt_adapters sample)\<rparr>)"

end
