(* ===== verification/Scan_Run.thy ===== *)
theory Scan_Run
  imports Collectors Power_Plan
begin

text \<open>
  The scan (\<open>src/core/scan.c\<close>): one pass over the collectors, with the time each took, and the merge of repeated
  passes into the running means, maxima, counts and latency percentiles of the report. \<open>scan_env\<close> holds what Windows
  answers during one pass; the collectors this library does not model (GPU, audio, search, Defender, boot, updates,
  the process list) enter as the result and record they return.
\<close>

section \<open>What one pass asks\<close>

definition WT_SCAN_DEFAULT_SAMPLE_MS :: nat where "WT_SCAN_DEFAULT_SAMPLE_MS = 500"
definition WT_SCAN_DEFAULT_TOP_LIMIT :: nat where "WT_SCAN_DEFAULT_TOP_LIMIT = 10"
definition WT_SCAN_DEFAULT_SAMPLE_COUNT :: nat where "WT_SCAN_DEFAULT_SAMPLE_COUNT = 1"
definition WT_SCAN_DEFAULT_SAMPLE_INTERVAL_MS :: nat where "WT_SCAN_DEFAULT_SAMPLE_INTERVAL_MS = 1000"
definition WT_SCAN_MAX_SAMPLES :: nat where "WT_SCAN_MAX_SAMPLES = 32"
definition WT_MAX_TOP_PROCESSES :: nat where "WT_MAX_TOP_PROCESSES = 32"
definition WT_MAX_SHORT_LIVED :: nat where "WT_MAX_SHORT_LIVED = 16"

datatype WT_CollectorId =
    WT_COLLECTOR_OS | WT_COLLECTOR_MEMORY | WT_COLLECTOR_CPU | WT_COLLECTOR_NETWORK | WT_COLLECTOR_DISK
  | WT_COLLECTOR_DISK_IO | WT_COLLECTOR_POWER | WT_COLLECTOR_GPU | WT_COLLECTOR_AUDIO | WT_COLLECTOR_SEARCH
  | WT_COLLECTOR_DEFENDER | WT_COLLECTOR_BOOT | WT_COLLECTOR_UPDATES | WT_COLLECTOR_PROCESSES

definition WT_COLLECTOR_COUNT :: nat where "WT_COLLECTOR_COUNT = 14"

definition collector_index :: "WT_CollectorId \<Rightarrow> nat" where
  "collector_index c = (case c of
     WT_COLLECTOR_OS \<Rightarrow> 0 | WT_COLLECTOR_MEMORY \<Rightarrow> 1 | WT_COLLECTOR_CPU \<Rightarrow> 2 | WT_COLLECTOR_NETWORK \<Rightarrow> 3
   | WT_COLLECTOR_DISK \<Rightarrow> 4 | WT_COLLECTOR_DISK_IO \<Rightarrow> 5 | WT_COLLECTOR_POWER \<Rightarrow> 6 | WT_COLLECTOR_GPU \<Rightarrow> 7
   | WT_COLLECTOR_AUDIO \<Rightarrow> 8 | WT_COLLECTOR_SEARCH \<Rightarrow> 9 | WT_COLLECTOR_DEFENDER \<Rightarrow> 10 | WT_COLLECTOR_BOOT \<Rightarrow> 11
   | WT_COLLECTOR_UPDATES \<Rightarrow> 12 | WT_COLLECTOR_PROCESSES \<Rightarrow> 13)"

record WT_ScanOptions =
  so_cpu_sample_ms :: nat
  so_sample_count :: nat
  so_sample_interval_ms :: nat
  so_top_limit :: nat

record process_sample =
  pr_result :: WT_Result
  pr_processes :: "WT_ProcessInfo list"
  pr_user_cpu_max :: rat
  pr_user_cpu_sum :: rat
  pr_short_lived :: "WT_ShortLivedProcess list"

record scan_env =
  sc_freq :: nat                                     \<comment> \<open>ticks per second, 0 when there is no counter\<close>
  sc_clock :: "nat \<Rightarrow> nat \<times> nat option"              \<comment> \<open>the readings around the timed steps, in order\<close>
  sc_os :: "WT_Result \<times> WT_OsInfo"
  sc_memory :: mem_api
  sc_net_before :: "MIB_IF_ROW2 list option"
  sc_net_after :: "MIB_IF_ROW2 list option"
  sc_net_elapsed :: nat
  sc_cpu :: cpu_api
  sc_disk :: disk_api
  sc_disk_io :: disk_pdh
  sc_disk_again :: disk_pdh                          \<comment> \<open>the fallback's collection\<close>
  sc_power :: power_api
  sc_plan :: "GUID option"
  sc_gpu :: "nat \<Rightarrow> WT_Result \<times> WT_GpuMetrics"
  sc_audio :: "WT_Result \<times> WT_AudioReport"
  sc_search :: "WT_Result \<times> WT_SearchReport"
  sc_defender :: "WT_Result \<times> WT_DefenderReport"
  sc_boot :: "WT_Result \<times> WT_BootReport"
  sc_updates :: "WT_Result \<times> WT_UpdateStatus"
  sc_processes :: "nat \<Rightarrow> nat \<Rightarrow> process_sample"
  sc_trace :: "WT_KernelImage list option"

section \<open>Timing\<close>

definition wt_scan_elapsed_ms :: "nat \<Rightarrow> nat \<times> nat option \<Rightarrow> nat" where
  "wt_scan_elapsed_ms freq clock =
     (case clock of (start, stop) \<Rightarrow>
        if freq = 0 then 0
        else case stop of None \<Rightarrow> 0
          | Some e \<Rightarrow> if e < start then 0
              else wrap32 ((((e - start) * 1000 mod 2 ^ 64 + freq div 2) mod 2 ^ 64) div freq))"

definition sat32 :: "nat \<Rightarrow> nat" where
  "sat32 n = (if n > 2 ^ 32 - 1 then 2 ^ 32 - 1 else n)"

definition wt_scan_time_add :: "WT_CollectorId \<Rightarrow> nat \<Rightarrow> nat \<times> nat option \<Rightarrow> WT_ScanReport \<Rightarrow> WT_ScanReport" where
  "wt_scan_time_add c freq clock report =
     (let i = collector_index c;
          ms = wt_scan_elapsed_ms freq clock
      in report\<lparr>rep_collector_ms := (rep_collector_ms report)[i := sat32 (rep_collector_ms report ! i + ms)]\<rparr>)"

definition timed :: "scan_env \<Rightarrow> nat \<Rightarrow> WT_CollectorId \<Rightarrow> WT_ScanReport \<Rightarrow> WT_ScanReport" where
  \<comment> \<open>the time of the \<open>k\<close>th timed step\<close>
  "timed env k c report = wt_scan_time_add c (sc_freq env) (sc_clock env k) report"

section \<open>One pass\<close>

definition cpu_sampled :: "WT_ScanReport \<Rightarrow> bool" where
  "cpu_sampled s \<longleftrightarrow> rep_cpu_ok s \<and> cm_available (rep_cpu s)"

definition memory_pressed :: "WT_MemoryMetrics \<Rightarrow> bool" where
  "memory_pressed m \<longleftrightarrow> mm_total_physical_bytes m > 0 \<and>
     (of_nat (mm_available_physical_bytes m) * 100 / of_nat (mm_total_physical_bytes m) :: rat) < 20"

definition scan_os_memory :: "scan_env \<Rightarrow> WT_ScanReport \<Rightarrow> WT_ScanReport" where
  "scan_os_memory env r =
     (let r = timed env 0 WT_COLLECTOR_OS (r\<lparr>rep_os := snd (sc_os env), rep_os_ok := (fst (sc_os env) = WT_OK)\<rparr>)
      in case wt_collect_memory_metrics (sc_memory env) of (mr, m) \<Rightarrow>
           timed env 1 WT_COLLECTOR_MEMORY (r\<lparr>rep_memory := m, rep_memory_ok := (mr = WT_OK)\<rparr>))"

definition scan_net_cpu :: "scan_env \<Rightarrow> nat \<Rightarrow> WT_ScanReport \<Rightarrow> WT_ScanReport" where
  "scan_net_cpu env sample_ms r =
     (case wt_collect_net_totals (sc_net_before env) of (br, before) \<Rightarrow>
        let r = timed env 2 WT_COLLECTOR_NETWORK r
        in case wt_collect_cpu_metrics (sc_cpu env) (rep_cpu r) of (cr, c) \<Rightarrow>
          let r = timed env 3 WT_COLLECTOR_CPU (r\<lparr>rep_cpu := c, rep_cpu_ok := (cr = WT_OK)\<rparr>)
          in case wt_collect_net_totals (sc_net_after env) of (ar, after) \<Rightarrow>
            timed env 4 WT_COLLECTOR_NETWORK
              (if br = WT_OK \<and> ar = WT_OK
               then r\<lparr>rep_network := wt_net_apply_rates (Some before) after (wrap32 (sc_net_elapsed env)),
                      rep_network_ok := True\<rparr>
               else r\<lparr>rep_network_ok := False\<rparr>))"

definition scan_sample_stats :: "WT_ScanReport \<Rightarrow> WT_ScanReport" where
  "scan_sample_stats r = r\<lparr>
     rep_cpu_ok_samples := (if cpu_sampled r then 1 else 0),
     rep_cpu_max_percent := (if cpu_sampled r then cm_total_usage_percent (rep_cpu r) else -1),
     rep_cpu_hot_samples := (if cpu_sampled r \<and> cm_total_usage_percent (rep_cpu r) \<ge> 85 then 1 else 0),
     rep_memory_ok_samples := (if rep_memory_ok r then 1 else 0),
     rep_memory_max_used_percent := (if rep_memory_ok r then mm_used_percent (rep_memory r) else -1),
     rep_memory_pressure_samples := (if rep_memory_ok r \<and> memory_pressed (rep_memory r) then 1 else 0)\<rparr>"

definition scan_disk :: "scan_env \<Rightarrow> WT_ScanReport \<Rightarrow> WT_ScanReport" where
  "scan_disk env r =
     (case wt_collect_disk_volumes (sc_disk env) WT_MAX_VOLUMES of (dr, volumes) \<Rightarrow>
        timed env 5 WT_COLLECTOR_DISK (r\<lparr>rep_volumes := volumes, rep_disk_ok := (dr = WT_OK)\<rparr>))"

definition push_report_read :: "rat \<Rightarrow> WT_ScanReport \<Rightarrow> WT_ScanReport" where
  "push_report_read ms r =
     (case wt_disk_latency_push WT_DISK_LATENCY_CAP ms
             (rep_disk_read_latency_ms r, rep_disk_read_latency_ms_p50 r, rep_disk_read_latency_ms_p95 r) of
        (s, a, b) \<Rightarrow> r\<lparr>rep_disk_read_latency_ms := s, rep_disk_read_latency_ms_p50 := a, rep_disk_read_latency_ms_p95 := b\<rparr>)"

definition push_report_write :: "rat \<Rightarrow> WT_ScanReport \<Rightarrow> WT_ScanReport" where
  "push_report_write ms r =
     (case wt_disk_latency_push WT_DISK_LATENCY_CAP ms
             (rep_disk_write_latency_ms r, rep_disk_write_latency_ms_p50 r, rep_disk_write_latency_ms_p95 r) of
        (s, a, b) \<Rightarrow> r\<lparr>rep_disk_write_latency_ms := s, rep_disk_write_latency_ms_p50 := a, rep_disk_write_latency_ms_p95 := b\<rparr>)"

definition scan_disk_io_read :: "WT_DiskIoMetrics \<Rightarrow> WT_ScanReport \<Rightarrow> WT_ScanReport" where
  "scan_disk_io_read io r =
     (let r = r\<lparr>rep_disk_active_ok := di_active_ok io, rep_disk_active_percent := di_active_percent io,
            rep_disk_active_max_percent := (if di_active_ok io then di_active_percent io else -1),
            rep_disk_active_ok_samples := (if di_active_ok io then 1 else 0),
            rep_disk_active_hot_samples := (if di_active_ok io \<and> di_active_percent io \<ge> 90 then 1 else 0),
            rep_disk_throughput_ok := di_throughput_ok io,
            rep_disk_read_bytes_per_sec := (if di_throughput_ok io then di_read_bytes_per_sec io else -1),
            rep_disk_write_bytes_per_sec := (if di_throughput_ok io then di_write_bytes_per_sec io else -1),
            rep_disk_queue_ok := di_queue_ok io,
            rep_disk_avg_queue_length := (if di_queue_ok io then di_avg_queue_length io else -1)\<rparr>;
          r = (if di_read_latency_ms io \<ge> 0 then push_report_read (di_read_latency_ms io) r else r);
          r = (if di_write_latency_ms io \<ge> 0 then push_report_write (di_write_latency_ms io) r else r)
      in r\<lparr>rep_disk_latency_ok := (rep_disk_read_latency_ms r \<noteq> [] \<or> rep_disk_write_latency_ms r \<noteq> [])\<rparr>)"

definition scan_disk_io_fallback :: "WT_Result \<times> rat \<Rightarrow> WT_ScanReport \<Rightarrow> WT_ScanReport" where
  "scan_disk_io_fallback activity r =
     (let ok = (fst activity = WT_OK) in
      r\<lparr>rep_disk_active_ok := ok, rep_disk_active_percent := snd activity,
        rep_disk_active_max_percent := (if ok then snd activity else -1),
        rep_disk_active_ok_samples := (if ok then 1 else 0),
        rep_disk_active_hot_samples := (if ok \<and> snd activity \<ge> 90 then 1 else 0),
        rep_disk_throughput_ok := False, rep_disk_queue_ok := False, rep_disk_read_bytes_per_sec := -1,
        rep_disk_write_bytes_per_sec := -1, rep_disk_avg_queue_length := -1, rep_disk_latency_ok := False,
        rep_disk_read_latency_ms_p50 := -1, rep_disk_read_latency_ms_p95 := -1,
        rep_disk_write_latency_ms_p50 := -1, rep_disk_write_latency_ms_p95 := -1\<rparr>)"

definition scan_disk_io :: "scan_env \<Rightarrow> WT_ScanReport \<Rightarrow> WT_ScanReport" where
  "scan_disk_io env r =
     (case wt_collect_disk_io_ex (sc_disk_io env) True (if rep_disk_ok r then rep_volumes r else []) of (ir, io, volumes) \<Rightarrow>
        let r = r\<lparr>rep_volumes := (if rep_disk_ok r then volumes else rep_volumes r)\<rparr>
        in timed env 6 WT_COLLECTOR_DISK_IO
             (if ir = WT_OK then scan_disk_io_read io r
              else scan_disk_io_fallback (wt_collect_disk_activity (sc_disk_again env)) r))"

definition scan_sections :: "scan_env \<Rightarrow> nat \<Rightarrow> WT_ScanReport \<Rightarrow> WT_ScanReport" where
  "scan_sections env sample_ms r =
     (let (wr, w) = wt_collect_power_info (sc_power env) (sc_plan env);
          r = timed env 7 WT_COLLECTOR_POWER (r\<lparr>rep_power := w, rep_power_ok := (wr = WT_OK)\<rparr>);
          (gr, g) = sc_gpu env sample_ms;
          r = timed env 8 WT_COLLECTOR_GPU (r\<lparr>rep_gpu := g, rep_gpu_ok := (gr = WT_OK)\<rparr>);
          (ar, a) = sc_audio env;
          r = timed env 9 WT_COLLECTOR_AUDIO (r\<lparr>rep_audio := a, rep_audio_ok := (ar = WT_OK)\<rparr>);
          (sr, s) = sc_search env;
          r = timed env 10 WT_COLLECTOR_SEARCH (r\<lparr>rep_search := s, rep_search_ok := (sr = WT_OK)\<rparr>);
          (dr, d) = sc_defender env;
          r = timed env 11 WT_COLLECTOR_DEFENDER (r\<lparr>rep_defender := d, rep_defender_ok := (dr = WT_OK)\<rparr>);
          (br, b) = sc_boot env;
          r = timed env 12 WT_COLLECTOR_BOOT (r\<lparr>rep_boot := b\<rparr>);
          r = r\<lparr>rep_boot_ok := (br = WT_OK)\<rparr>;
          (ur, u) = sc_updates env;
          r = timed env 13 WT_COLLECTOR_UPDATES (r\<lparr>rep_updates := u\<rparr>)
      in r\<lparr>rep_updates_ok := (ur = WT_OK)\<rparr>)"

definition wt_scan_collect_top_processes :: "scan_env \<Rightarrow> nat \<Rightarrow> nat \<Rightarrow> WT_ScanReport \<Rightarrow> WT_ScanReport" where
  "wt_scan_collect_top_processes env top_limit sample_ms r =
     (let p = sc_processes env (if top_limit > WT_MAX_TOP_PROCESSES then WT_MAX_TOP_PROCESSES else top_limit) sample_ms
      in if pr_result p \<noteq> WT_OK then r
         else let r = r\<lparr>rep_top_processes := pr_processes p, rep_short_lived := pr_short_lived p, rep_processes_ok := True\<rparr>
              in if cpu_sampled r
                 then r\<lparr>rep_cpu := wt_cpu_attribute_kernel_source (sc_trace env) (pr_user_cpu_max p) (pr_user_cpu_sum p) (rep_cpu r)\<rparr>
                 else r)"

definition wt_run_scan_once :: "WT_ScanOptions option \<Rightarrow> scan_env \<Rightarrow> WT_ScanReport \<Rightarrow> WT_Result \<times> WT_ScanReport" where
  "wt_run_scan_once opts env r =
     (let sample_ms = (case opts of None \<Rightarrow> WT_SCAN_DEFAULT_SAMPLE_MS
                       | Some c \<Rightarrow> if so_cpu_sample_ms c > 0 then so_cpu_sample_ms c else WT_SCAN_DEFAULT_SAMPLE_MS);
          top_limit = (case opts of None \<Rightarrow> WT_SCAN_DEFAULT_TOP_LIMIT
                       | Some c \<Rightarrow> if so_top_limit c > 0 then so_top_limit c else WT_SCAN_DEFAULT_TOP_LIMIT);
          r = scan_os_memory env r;
          r = scan_net_cpu env sample_ms r;
          r = scan_sample_stats r;
          r = scan_disk env r;
          r = scan_disk_io env r;
          r = scan_sections env sample_ms r
      in (WT_OK, timed env 14 WT_COLLECTOR_PROCESSES (wt_scan_collect_top_processes env top_limit sample_ms r)))"

section \<open>Merging the passes\<close>

definition running_mean :: "rat \<Rightarrow> nat \<Rightarrow> rat \<Rightarrow> rat" where
  "running_mean mean n x = (mean * of_nat n + x) / of_nat (n + 1)"

definition merge_first :: "WT_ScanReport \<Rightarrow> WT_ScanReport \<Rightarrow> WT_ScanReport" where
  "merge_first acc sample = sample\<lparr>
     rep_scan_sample_count := rep_scan_sample_count acc,
     rep_scan_sample_interval_ms := rep_scan_sample_interval_ms acc,
     rep_disk_active_ok_samples := (if rep_disk_active_ok sample then 1 else 0),
     rep_disk_active_hot_samples := (if rep_disk_active_ok sample \<and> rep_disk_active_percent sample \<ge> 90 then 1 else 0),
     rep_disk_active_max_percent := (if rep_disk_active_ok sample then rep_disk_active_percent sample else -1),
     rep_cpu_ok_samples := (if cpu_sampled sample then 1 else 0),
     rep_cpu_hot_samples := (if cpu_sampled sample \<and> cm_total_usage_percent (rep_cpu sample) \<ge> 85 then 1 else 0),
     rep_cpu_max_percent := (if cpu_sampled sample then cm_total_usage_percent (rep_cpu sample) else -1),
     rep_memory_ok_samples := (if rep_memory_ok sample then 1 else 0),
     rep_memory_pressure_samples := (if rep_memory_ok sample \<and> memory_pressed (rep_memory sample) then 1 else 0),
     rep_memory_max_used_percent := (if rep_memory_ok sample then mm_used_percent (rep_memory sample) else -1)\<rparr>"

definition merge_optional_mean :: "rat \<Rightarrow> nat \<Rightarrow> rat \<Rightarrow> rat" where
  \<comment> \<open>DPC and interrupt time: -1 when not read\<close>
  "merge_optional_mean mean n x = (if x \<ge> 0 then (if mean \<ge> 0 then running_mean mean n x else x) else mean)"

definition merge_cpu_metrics :: "nat \<Rightarrow> WT_CpuMetrics \<Rightarrow> WT_CpuMetrics \<Rightarrow> WT_CpuMetrics" where
  "merge_cpu_metrics n s c =
     (let c = c\<lparr>cm_total_usage_percent := running_mean (cm_total_usage_percent c) n (cm_total_usage_percent s)\<rparr>;
          c = c\<lparr>cm_dpc_percent := merge_optional_mean (cm_dpc_percent c) n (cm_dpc_percent s)\<rparr>;
          c = c\<lparr>cm_interrupt_percent := merge_optional_mean (cm_interrupt_percent c) n (cm_interrupt_percent s)\<rparr>
      in if cm_kernel_source_ok s
         then c\<lparr>cm_kernel_source_ok := True, cm_kernel_source_is_dpc := cm_kernel_source_is_dpc s,
                cm_kernel_source := cm_kernel_source s\<rparr>
         else c)"

definition merge_cpu :: "WT_ScanReport \<Rightarrow> WT_ScanReport \<Rightarrow> WT_ScanReport" where
  "merge_cpu s acc =
     (if \<not> cpu_sampled s then acc
      else let usage = cm_total_usage_percent (rep_cpu s);
               acc = (if rep_cpu_ok acc
                      then acc\<lparr>rep_cpu := merge_cpu_metrics (rep_cpu_ok_samples acc) (rep_cpu s) (rep_cpu acc)\<rparr>
                      else acc\<lparr>rep_cpu := (rep_cpu s)\<lparr>cm_available := True\<rparr>, rep_cpu_ok := True\<rparr>);
               acc = acc\<lparr>rep_cpu_ok_samples := rep_cpu_ok_samples acc + 1\<rparr>;
               acc = (if rep_cpu_max_percent acc < 0 \<or> usage > rep_cpu_max_percent acc
                      then acc\<lparr>rep_cpu_max_percent := usage\<rparr> else acc)
           in if usage \<ge> 85 then acc\<lparr>rep_cpu_hot_samples := rep_cpu_hot_samples acc + 1\<rparr> else acc)"

definition merge_memory_metrics :: "nat \<Rightarrow> WT_MemoryMetrics \<Rightarrow> WT_MemoryMetrics \<Rightarrow> WT_MemoryMetrics" where
  \<comment> \<open>every field but the averaged one is the sample's\<close>
  "merge_memory_metrics n s m = m\<lparr>
     mm_used_percent := running_mean (mm_used_percent m) n (mm_used_percent s),
     mm_available_physical_bytes := mm_available_physical_bytes s, mm_used_physical_bytes := mm_used_physical_bytes s,
     mm_total_physical_bytes := mm_total_physical_bytes s, mm_commit_ok := mm_commit_ok s,
     mm_commit_total_bytes := mm_commit_total_bytes s, mm_commit_limit_bytes := mm_commit_limit_bytes s,
     mm_commit_peak_bytes := mm_commit_peak_bytes s, mm_commit_percent := mm_commit_percent s,
     mm_pagefile_ok := mm_pagefile_ok s, mm_commit_available_bytes := mm_commit_available_bytes s,
     mm_hard_faults_ok := mm_hard_faults_ok s, mm_hard_faults_per_sec := mm_hard_faults_per_sec s,
     mm_page_faults_ok := mm_page_faults_ok s, mm_page_faults_per_sec := mm_page_faults_per_sec s,
     mm_standby_ok := mm_standby_ok s, mm_standby_bytes := mm_standby_bytes s, mm_modified_ok := mm_modified_ok s,
     mm_modified_bytes := mm_modified_bytes s, mm_compression_ok := mm_compression_ok s,
     mm_compression_bytes := mm_compression_bytes s\<rparr>"

definition merge_memory :: "WT_ScanReport \<Rightarrow> WT_ScanReport \<Rightarrow> WT_ScanReport" where
  "merge_memory s acc =
     (if \<not> rep_memory_ok s then acc
      else let used = mm_used_percent (rep_memory s);
               acc = (if rep_memory_ok acc
                      then acc\<lparr>rep_memory := merge_memory_metrics (rep_memory_ok_samples acc) (rep_memory s) (rep_memory acc)\<rparr>
                      else acc\<lparr>rep_memory := rep_memory s, rep_memory_ok := True\<rparr>);
               acc = acc\<lparr>rep_memory_ok_samples := rep_memory_ok_samples acc + 1\<rparr>;
               acc = (if rep_memory_max_used_percent acc < 0 \<or> used > rep_memory_max_used_percent acc
                      then acc\<lparr>rep_memory_max_used_percent := used\<rparr> else acc)
           in if memory_pressed (rep_memory s)
              then acc\<lparr>rep_memory_pressure_samples := rep_memory_pressure_samples acc + 1\<rparr> else acc)"

definition merge_disk_active :: "WT_ScanReport \<Rightarrow> WT_ScanReport \<Rightarrow> WT_ScanReport" where
  "merge_disk_active s acc =
     (if \<not> rep_disk_active_ok s then acc
      else let active = rep_disk_active_percent s;
               acc = (if rep_disk_active_ok acc
                      then acc\<lparr>rep_disk_active_percent :=
                             running_mean (rep_disk_active_percent acc) (rep_disk_active_ok_samples acc) active\<rparr>
                      else acc\<lparr>rep_disk_active_percent := active, rep_disk_active_ok := True\<rparr>);
               acc = acc\<lparr>rep_disk_active_ok_samples := rep_disk_active_ok_samples acc + 1\<rparr>;
               acc = (if rep_disk_active_max_percent acc < 0 \<or> active > rep_disk_active_max_percent acc
                      then acc\<lparr>rep_disk_active_max_percent := active\<rparr> else acc)
           in if active \<ge> 90 then acc\<lparr>rep_disk_active_hot_samples := rep_disk_active_hot_samples acc + 1\<rparr> else acc)"

definition merge_disk_rates :: "nat \<Rightarrow> WT_ScanReport \<Rightarrow> WT_ScanReport \<Rightarrow> WT_ScanReport" where
  "merge_disk_rates i s acc =
     (let acc = (if rep_disk_throughput_ok s \<and> rep_disk_throughput_ok acc
                 then acc\<lparr>rep_disk_read_bytes_per_sec := running_mean (rep_disk_read_bytes_per_sec acc) i (rep_disk_read_bytes_per_sec s),
                        rep_disk_write_bytes_per_sec := running_mean (rep_disk_write_bytes_per_sec acc) i (rep_disk_write_bytes_per_sec s)\<rparr>
                 else acc)
      in if rep_disk_queue_ok s \<and> rep_disk_queue_ok acc
         then acc\<lparr>rep_disk_avg_queue_length := running_mean (rep_disk_avg_queue_length acc) i (rep_disk_avg_queue_length s)\<rparr>
         else acc)"

definition merge_volume :: "nat \<Rightarrow> WT_DiskVolumeMetrics \<Rightarrow> WT_DiskVolumeMetrics \<Rightarrow> WT_DiskVolumeMetrics" where
  "merge_volume i a s =
     (let a = (if dv_activity_ok a \<and> dv_activity_ok s
               then a\<lparr>dv_active_percent := running_mean (dv_active_percent a) i (dv_active_percent s)\<rparr> else a);
          a = (if dv_throughput_ok a \<and> dv_throughput_ok s
               then a\<lparr>dv_read_bytes_per_sec := running_mean (dv_read_bytes_per_sec a) i (dv_read_bytes_per_sec s),
                      dv_write_bytes_per_sec := running_mean (dv_write_bytes_per_sec a) i (dv_write_bytes_per_sec s)\<rparr>
               else a);
          a = (if dv_queue_ok a \<and> dv_queue_ok s
               then a\<lparr>dv_avg_queue_length := running_mean (dv_avg_queue_length a) i (dv_avg_queue_length s)\<rparr> else a);
          a = (case dv_read_latency_samples s of [] \<Rightarrow> a | ms # r \<Rightarrow> push_read_latency ms a)
      in (case dv_write_latency_samples s of [] \<Rightarrow> a | ms # r \<Rightarrow> push_write_latency ms a))"

definition merge_volumes :: "nat \<Rightarrow> WT_ScanReport \<Rightarrow> WT_ScanReport \<Rightarrow> WT_ScanReport" where
  "merge_volumes i s acc =
     (if rep_disk_ok s \<and> rep_disk_ok acc \<and> length (rep_volumes s) = length (rep_volumes acc)
      then acc\<lparr>rep_volumes := map2 (merge_volume i) (rep_volumes acc) (rep_volumes s)\<rparr> else acc)"

definition merge_latency :: "WT_ScanReport \<Rightarrow> WT_ScanReport \<Rightarrow> WT_ScanReport" where
  "merge_latency s acc =
     (let acc = (case rep_disk_read_latency_ms s of [] \<Rightarrow> acc | ms # r \<Rightarrow> push_report_read ms acc);
          acc = (case rep_disk_write_latency_ms s of [] \<Rightarrow> acc | ms # r \<Rightarrow> push_report_write ms acc)
      in acc\<lparr>rep_disk_latency_ok := (rep_disk_read_latency_ms acc \<noteq> [] \<or> rep_disk_write_latency_ms acc \<noteq> [])\<rparr>)"

fun merge_short_lived :: "WT_ShortLivedProcess list \<Rightarrow> WT_ShortLivedProcess list \<Rightarrow> WT_ShortLivedProcess list" where
  "merge_short_lived [] known = known"
| "merge_short_lived (p # ps) known =
     (if length known < WT_MAX_SHORT_LIVED
      then merge_short_lived ps (if list_ex (\<lambda>k. sl_pid k = sl_pid p) known then known else known @ [p])
      else known)"

definition merge_sections :: "nat \<Rightarrow> WT_ScanReport \<Rightarrow> WT_ScanReport \<Rightarrow> WT_ScanReport" where
  "merge_sections i s acc =
     (let acc = (if rep_audio_ok s then acc\<lparr>rep_audio := rep_audio s, rep_audio_ok := True\<rparr> else acc);
          acc = (if rep_search_ok s then acc\<lparr>rep_search := rep_search s, rep_search_ok := True\<rparr> else acc);
          acc = (if rep_defender_ok s then acc\<lparr>rep_defender := rep_defender s, rep_defender_ok := True\<rparr> else acc);
          acc = (if rep_processes_ok s
                 then acc\<lparr>rep_short_lived := merge_short_lived (rep_short_lived s) (rep_short_lived acc)\<rparr> else acc)
      in if rep_network_ok s
         then acc\<lparr>rep_network := (if rep_network_ok acc then wt_net_merge_sample (rep_network s) i (rep_network acc)
                                  else rep_network s), rep_network_ok := True\<rparr>
         else acc)"

definition merge_times :: "WT_ScanReport \<Rightarrow> WT_ScanReport \<Rightarrow> WT_ScanReport" where
  "merge_times s acc = acc\<lparr>rep_collector_ms := map2 (\<lambda>a b. sat32 (a + b)) (rep_collector_ms acc) (rep_collector_ms s)\<rparr>"

definition wt_scan_merge_sample :: "nat \<Rightarrow> WT_ScanReport \<Rightarrow> WT_ScanReport \<Rightarrow> WT_ScanReport" where
  "wt_scan_merge_sample i s acc =
     (if i = 0 then merge_first acc s
      else merge_times s (merge_sections i s (merge_latency s (merge_volumes i s (merge_disk_rates i s
             (merge_disk_active s (merge_memory s (merge_cpu s acc))))))))"

section \<open>The scan\<close>

definition scan_sample_count :: "WT_ScanOptions option \<Rightarrow> nat" where
  "scan_sample_count opts =
     (let n = (case opts of None \<Rightarrow> WT_SCAN_DEFAULT_SAMPLE_COUNT
               | Some c \<Rightarrow> if so_sample_count c > 0 then so_sample_count c else WT_SCAN_DEFAULT_SAMPLE_COUNT);
          n = (if n > WT_SCAN_MAX_SAMPLES then WT_SCAN_MAX_SAMPLES else n)
      in if n = 0 then WT_SCAN_DEFAULT_SAMPLE_COUNT else n)"

fun scan_loop :: "WT_ScanOptions option \<Rightarrow> (nat \<Rightarrow> scan_env) \<Rightarrow> nat list \<Rightarrow> WT_ScanReport \<Rightarrow> WT_Result \<times> WT_ScanReport" where
  "scan_loop opts env [] report = (WT_OK, report)"
| "scan_loop opts env (i # js) report =
     (case wt_run_scan_once opts (env i) wt_scan_report_init of (r, sample) \<Rightarrow>
        if r \<noteq> WT_OK then (r, report)
        else scan_loop opts env js (wt_scan_merge_sample i sample report))"

definition wt_run_scan :: "WT_ScanOptions option \<Rightarrow> (nat \<Rightarrow> scan_env) \<Rightarrow> WT_Result \<times> WT_ScanReport" where
  \<comment> \<open>\<open>env i\<close> is what pass \<open>i\<close> meets\<close>
  "wt_run_scan opts env =
     (let n = scan_sample_count opts;
          interval = (case opts of None \<Rightarrow> WT_SCAN_DEFAULT_SAMPLE_INTERVAL_MS
                      | Some c \<Rightarrow> if so_sample_interval_ms c > 0 then so_sample_interval_ms c
                                  else WT_SCAN_DEFAULT_SAMPLE_INTERVAL_MS)
      in scan_loop opts env [0..<n] (wt_scan_report_init\<lparr>rep_scan_sample_count := n, rep_scan_sample_interval_ms := interval\<rparr>))"

end
