(* ===== verification/Scan_Theorems.thy ===== *)
theory Scan_Theorems
  imports Scan_Run
begin

text \<open>
  What a scan of several passes reports: the running means of \<open>wt_scan_merge_sample\<close> are the arithmetic means of the
  passes that had a reading, its maxima and counts are theirs, and its latency percentiles are those of all their
  latencies. The locales \<open>sampled_statistic\<close> and \<open>latency_statistic\<close> state what a group of fields must promise of one
  merge; the processor, memory and disk fields are their interpretations.
\<close>

section \<open>Means, maxima, counts\<close>

definition mean_or :: "rat \<Rightarrow> rat list \<Rightarrow> rat" where
  "mean_or d xs = (if xs = [] then d else sum_list xs / of_nat (length xs))"

definition max_or :: "rat \<Rightarrow> rat list \<Rightarrow> rat" where
  "max_or d xs = (if xs = [] then d else Max (set xs))"

type_synonym statistic = "bool \<times> nat \<times> nat \<times> rat \<times> rat"
  \<comment> \<open>read at all, passes that read it, passes above the threshold, maximum, mean\<close>

definition summary :: "rat \<Rightarrow> ('s \<Rightarrow> bool) \<Rightarrow> ('s \<Rightarrow> bool) \<Rightarrow> ('s \<Rightarrow> rat) \<Rightarrow> 's list \<Rightarrow> statistic" where
  "summary d sampled hot val ss =
     (let xs = filter sampled ss in
      (xs \<noteq> [], length xs, length (filter hot xs), max_or (-1) (map val xs), mean_or d (map val xs)))"

definition stat_step :: "bool \<Rightarrow> rat \<Rightarrow> statistic \<Rightarrow> statistic" where
  "stat_step hot x st = (case st of (ok, n, h, m, a) \<Rightarrow>
     (True, n + 1, if hot then h + 1 else h, if m < 0 \<or> x > m then x else m, if ok then running_mean a n x else x))"

lemma running_mean_snoc: "running_mean (mean_or d xs) (length xs) x = mean_or d (xs @ [x])"
  by (simp add: running_mean_def mean_or_def)

lemma max_or_snoc:
  assumes "\<forall>y \<in> set xs. 0 \<le> y" "0 \<le> x"
  shows "(if max_or (-1) xs < 0 \<or> x > max_or (-1) xs then x else max_or (-1) xs) = max_or (-1) (xs @ [x])"
proof (cases "xs = []")
  case False
  define M where "M = Max (set xs)"
  have "0 \<le> M" using False assms(1) Max_in [of "set xs"] by (simp add: M_def)
  moreover have "Max (insert x (set xs)) = max x M" using False by (simp add: M_def)
  ultimately show ?thesis using False by (simp add: max_or_def max_def flip: M_def)
qed (simp add: max_or_def)

lemma summary_snoc:
  assumes "\<forall>s \<in> set ss. sampled s \<longrightarrow> 0 \<le> val s" "sampled s" "0 \<le> val s"
  shows "summary d sampled hot val (ss @ [s]) = stat_step (hot s) (val s) (summary d sampled hot val ss)"
proof -
  let ?xs = "filter sampled ss"
  have ge: "\<forall>y \<in> set (map val ?xs). 0 \<le> y" using assms(1) by auto
  have mean: "mean_or d (map val ?xs @ [val s]) =
      (if ?xs \<noteq> [] then running_mean (mean_or d (map val ?xs)) (length ?xs) (val s) else val s)"
    using running_mean_snoc [of d "map val ?xs" "val s"] by (auto simp: mean_or_def)
  show ?thesis
    using assms(2) max_or_snoc [OF ge assms(3), symmetric] mean
    by (simp add: summary_def stat_step_def Let_def)
qed

section \<open>A pass and its readings\<close>

definition percentiles :: "rat list \<Rightarrow> rat list \<times> rat \<times> rat" where
  "percentiles xs = (if xs = [] then (xs, -1, -1)
     else (xs, wt_disk_nearest_rank (sort xs) (1 / 2), wt_disk_nearest_rank (sort xs) (19 / 20)))"

definition cpu_stats :: "WT_ScanReport \<Rightarrow> statistic" where
  "cpu_stats r = (rep_cpu_ok r, rep_cpu_ok_samples r, rep_cpu_hot_samples r, rep_cpu_max_percent r, cm_total_usage_percent (rep_cpu r))"

definition memory_stats :: "WT_ScanReport \<Rightarrow> statistic" where
  "memory_stats r = (rep_memory_ok r, rep_memory_ok_samples r, rep_memory_pressure_samples r, rep_memory_max_used_percent r,
     mm_used_percent (rep_memory r))"

definition disk_stats :: "WT_ScanReport \<Rightarrow> statistic" where
  "disk_stats r = (rep_disk_active_ok r, rep_disk_active_ok_samples r, rep_disk_active_hot_samples r,
     rep_disk_active_max_percent r, rep_disk_active_percent r)"

definition read_latencies :: "WT_ScanReport \<Rightarrow> rat list \<times> rat \<times> rat" where
  "read_latencies r = (rep_disk_read_latency_ms r, rep_disk_read_latency_ms_p50 r, rep_disk_read_latency_ms_p95 r)"

definition write_latencies :: "WT_ScanReport \<Rightarrow> rat list \<times> rat \<times> rat" where
  "write_latencies r = (rep_disk_write_latency_ms r, rep_disk_write_latency_ms_p50 r, rep_disk_write_latency_ms_p95 r)"

definition one_latency :: "rat list \<times> rat \<times> rat \<Rightarrow> bool" where
  "one_latency l \<longleftrightarrow> length (fst l) \<le> 1 \<and> (\<forall>ms \<in> set (fst l). 0 \<le> ms) \<and> l = percentiles (fst l)"

definition times_ok :: "WT_ScanReport \<Rightarrow> bool" where
  "times_ok r \<longleftrightarrow> length (rep_collector_ms r) = 14 \<and> (\<forall>t \<in> set (rep_collector_ms r). t \<le> 2 ^ 32 - 1)"

definition pass_ok :: "WT_ScanReport \<Rightarrow> bool" where
  "pass_ok s \<longleftrightarrow>
     (if rep_cpu_ok s then cm_available (rep_cpu s) \<and> 0 \<le> cm_total_usage_percent (rep_cpu s)
      else cm_total_usage_percent (rep_cpu s) = -1) \<and>
     (if rep_memory_ok s then 0 \<le> mm_used_percent (rep_memory s) else mm_used_percent (rep_memory s) = 0) \<and>
     (if rep_disk_active_ok s then 0 \<le> rep_disk_active_percent s else rep_disk_active_percent s = 0) \<and>
     one_latency (read_latencies s) \<and> one_latency (write_latencies s) \<and> times_ok s"

section \<open>One merge\<close>

locale sampled_statistic =
  fixes sampled :: "WT_ScanReport \<Rightarrow> bool" and hot :: "WT_ScanReport \<Rightarrow> bool" and val :: "WT_ScanReport \<Rightarrow> rat"
    and d :: rat and stats :: "WT_ScanReport \<Rightarrow> statistic"
  assumes first_pass: "pass_ok s \<Longrightarrow> stats (merge_first acc s) = summary d sampled hot val [s]"
    and next_pass: "i \<noteq> 0 \<Longrightarrow> stats (wt_scan_merge_sample i s acc) =
      (if sampled s then stat_step (hot s) (val s) (stats acc) else stats acc)"
    and reading: "pass_ok s \<Longrightarrow> sampled s \<Longrightarrow> 0 \<le> val s"
begin

lemma merged_stats:
  assumes "\<And>i. pass_ok (S i)"
  shows "stats (fold (\<lambda>i. wt_scan_merge_sample i (S i)) [0..<Suc n] r) = summary d sampled hot val (map S [0..<Suc n])"
proof (induction n)
  case 0
  show ?case using first_pass [OF assms] by (simp add: wt_scan_merge_sample_def)
next
  case (Suc n)
  let ?ss = "map S [0..<Suc n]"
  have ge: "\<forall>s \<in> set ?ss. sampled s \<longrightarrow> 0 \<le> val s" using reading assms by auto
  have "map S [0..<Suc (Suc n)] = ?ss @ [S (Suc n)]" by simp
  then show ?case
    using Suc next_pass [of "Suc n" "S (Suc n)"] summary_snoc [OF ge, of "S (Suc n)" d hot] reading [OF assms]
    by (cases "sampled (S (Suc n))") (simp_all add: summary_def)
qed

end

locale latency_statistic =
  fixes lat :: "WT_ScanReport \<Rightarrow> rat list \<times> rat \<times> rat"
  assumes first_pass: "lat (merge_first acc s) = lat s"
    and next_pass: "i \<noteq> 0 \<Longrightarrow> lat (wt_scan_merge_sample i s acc) =
      (case fst (lat s) of [] \<Rightarrow> lat acc | ms # r \<Rightarrow> wt_disk_latency_push WT_DISK_LATENCY_CAP ms (lat acc))"
    and reading: "pass_ok s \<Longrightarrow> one_latency (lat s)"
begin

lemma merged_latencies:
  assumes "\<And>i. pass_ok (S i)" "n < 32"
  shows "lat (fold (\<lambda>i. wt_scan_merge_sample i (S i)) [0..<Suc n] r) = percentiles (concat (map (\<lambda>i. fst (lat (S i))) [0..<Suc n])) \<and>
    length (concat (map (\<lambda>i. fst (lat (S i))) [0..<Suc n])) \<le> Suc n"
  using assms(2)
proof (induction n)
  case 0
  show ?case using first_pass reading [OF assms(1), of 0] by (simp add: wt_scan_merge_sample_def one_latency_def)
next
  case (Suc n)
  let ?ls = "concat (map (\<lambda>i. fst (lat (S i))) [0..<Suc n])"
  have IH: "lat (fold (\<lambda>i. wt_scan_merge_sample i (S i)) [0..<Suc n] r) = percentiles ?ls" "length ?ls \<le> Suc n"
    using Suc by simp_all
  have one: "one_latency (lat (S (Suc n)))" by (rule reading [OF assms(1)])
  show ?case
  proof (cases "fst (lat (S (Suc n)))")
    case Nil
    then show ?thesis using IH next_pass [of "Suc n" "S (Suc n)"] by simp
  next
    case (Cons ms rest)
    then have ms: "fst (lat (S (Suc n))) = [ms]" "0 \<le> ms" using one by (auto simp: one_latency_def)
    have "wt_disk_latency_push WT_DISK_LATENCY_CAP ms (percentiles ?ls) = percentiles (?ls @ [ms])"
      using ms(2) IH(2) Suc.prems by (simp add: wt_disk_latency_push_def percentiles_def WT_DISK_LATENCY_CAP_def Let_def)
    then show ?thesis using IH ms(1) next_pass [of "Suc n" "S (Suc n)"] by simp
  qed
qed

end

text \<open>Which fields each part of the merge leaves alone.\<close>

lemmas stat_defs = cpu_stats_def memory_stats_def disk_stats_def read_latencies_def write_latencies_def

lemma frame_cpu: "memory_stats (merge_cpu s acc) = memory_stats acc" "disk_stats (merge_cpu s acc) = disk_stats acc"
  "read_latencies (merge_cpu s acc) = read_latencies acc" "write_latencies (merge_cpu s acc) = write_latencies acc"
  "rep_collector_ms (merge_cpu s acc) = rep_collector_ms acc" "rep_scan_sample_count (merge_cpu s acc) = rep_scan_sample_count acc"
  by (simp_all add: merge_cpu_def stat_defs Let_def)

lemma frame_memory: "cpu_stats (merge_memory s acc) = cpu_stats acc" "disk_stats (merge_memory s acc) = disk_stats acc"
  "read_latencies (merge_memory s acc) = read_latencies acc" "write_latencies (merge_memory s acc) = write_latencies acc"
  "rep_collector_ms (merge_memory s acc) = rep_collector_ms acc" "rep_scan_sample_count (merge_memory s acc) = rep_scan_sample_count acc"
  by (simp_all add: merge_memory_def stat_defs Let_def)

lemma frame_active: "cpu_stats (merge_disk_active s acc) = cpu_stats acc" "memory_stats (merge_disk_active s acc) = memory_stats acc"
  "read_latencies (merge_disk_active s acc) = read_latencies acc" "write_latencies (merge_disk_active s acc) = write_latencies acc"
  "rep_collector_ms (merge_disk_active s acc) = rep_collector_ms acc" "rep_scan_sample_count (merge_disk_active s acc) = rep_scan_sample_count acc"
  by (simp_all add: merge_disk_active_def stat_defs Let_def)

lemma frame_rates: "cpu_stats (merge_disk_rates i s acc) = cpu_stats acc" "memory_stats (merge_disk_rates i s acc) = memory_stats acc"
  "disk_stats (merge_disk_rates i s acc) = disk_stats acc"
  "read_latencies (merge_disk_rates i s acc) = read_latencies acc" "write_latencies (merge_disk_rates i s acc) = write_latencies acc"
  "rep_collector_ms (merge_disk_rates i s acc) = rep_collector_ms acc" "rep_scan_sample_count (merge_disk_rates i s acc) = rep_scan_sample_count acc"
  by (simp_all add: merge_disk_rates_def stat_defs Let_def)

lemma frame_volumes: "cpu_stats (merge_volumes i s acc) = cpu_stats acc" "memory_stats (merge_volumes i s acc) = memory_stats acc"
  "disk_stats (merge_volumes i s acc) = disk_stats acc"
  "read_latencies (merge_volumes i s acc) = read_latencies acc" "write_latencies (merge_volumes i s acc) = write_latencies acc"
  "rep_collector_ms (merge_volumes i s acc) = rep_collector_ms acc" "rep_scan_sample_count (merge_volumes i s acc) = rep_scan_sample_count acc"
  by (simp_all add: merge_volumes_def stat_defs)

lemma frame_latency: "cpu_stats (merge_latency s acc) = cpu_stats acc" "memory_stats (merge_latency s acc) = memory_stats acc"
  "disk_stats (merge_latency s acc) = disk_stats acc"
  "rep_collector_ms (merge_latency s acc) = rep_collector_ms acc" "rep_scan_sample_count (merge_latency s acc) = rep_scan_sample_count acc"
  by (simp_all add: merge_latency_def push_report_read_def push_report_write_def stat_defs Let_def split: list.split prod.split)

lemma frame_sections: "cpu_stats (merge_sections i s acc) = cpu_stats acc" "memory_stats (merge_sections i s acc) = memory_stats acc"
  "disk_stats (merge_sections i s acc) = disk_stats acc"
  "read_latencies (merge_sections i s acc) = read_latencies acc" "write_latencies (merge_sections i s acc) = write_latencies acc"
  "rep_collector_ms (merge_sections i s acc) = rep_collector_ms acc" "rep_scan_sample_count (merge_sections i s acc) = rep_scan_sample_count acc"
  by (simp_all add: merge_sections_def stat_defs Let_def)

lemma frame_times: "cpu_stats (merge_times s acc) = cpu_stats acc" "memory_stats (merge_times s acc) = memory_stats acc"
  "disk_stats (merge_times s acc) = disk_stats acc"
  "read_latencies (merge_times s acc) = read_latencies acc" "write_latencies (merge_times s acc) = write_latencies acc"
  "rep_scan_sample_count (merge_times s acc) = rep_scan_sample_count acc"
  by (simp_all add: merge_times_def stat_defs)

lemmas merge_frames = frame_cpu frame_memory frame_active frame_rates frame_volumes frame_latency frame_sections frame_times

lemma read_latency_merged: "read_latencies (merge_latency s acc) =
    (case rep_disk_read_latency_ms s of [] \<Rightarrow> read_latencies acc
     | ms # r \<Rightarrow> wt_disk_latency_push WT_DISK_LATENCY_CAP ms (read_latencies acc))"
  by (simp add: merge_latency_def push_report_read_def push_report_write_def read_latencies_def Let_def split: list.split prod.split)

lemma write_latency_merged: "write_latencies (merge_latency s acc) =
    (case rep_disk_write_latency_ms s of [] \<Rightarrow> write_latencies acc
     | ms # r \<Rightarrow> wt_disk_latency_push WT_DISK_LATENCY_CAP ms (write_latencies acc))"
  by (simp add: merge_latency_def push_report_read_def push_report_write_def write_latencies_def Let_def split: list.split prod.split)

interpretation cpu_statistic: sampled_statistic cpu_sampled "\<lambda>s. 85 \<le> cm_total_usage_percent (rep_cpu s)"
  "\<lambda>s. cm_total_usage_percent (rep_cpu s)" "-1" cpu_stats
proof
  show "cpu_stats (merge_first acc s) = summary (-1) cpu_sampled (\<lambda>s. 85 \<le> cm_total_usage_percent (rep_cpu s))
      (\<lambda>s. cm_total_usage_percent (rep_cpu s)) [s]" if "pass_ok s" for s acc
    using that by (auto simp: merge_first_def cpu_stats_def summary_def pass_ok_def cpu_sampled_def max_or_def mean_or_def)
  show "cpu_stats (wt_scan_merge_sample i s acc) =
      (if cpu_sampled s then stat_step (85 \<le> cm_total_usage_percent (rep_cpu s)) (cm_total_usage_percent (rep_cpu s)) (cpu_stats acc)
       else cpu_stats acc)" if "i \<noteq> 0" for i s acc
    using that by (simp add: wt_scan_merge_sample_def merge_frames)
      (simp add: merge_cpu_def merge_cpu_metrics_def cpu_stats_def stat_step_def Let_def)
qed (simp add: pass_ok_def cpu_sampled_def)

interpretation memory_statistic: sampled_statistic rep_memory_ok "\<lambda>s. memory_pressed (rep_memory s)"
  "\<lambda>s. mm_used_percent (rep_memory s)" 0 memory_stats
proof
  show "memory_stats (merge_first acc s) = summary 0 rep_memory_ok (\<lambda>s. memory_pressed (rep_memory s))
      (\<lambda>s. mm_used_percent (rep_memory s)) [s]" if "pass_ok s" for s acc
    using that by (auto simp: merge_first_def memory_stats_def summary_def pass_ok_def max_or_def mean_or_def)
  show "memory_stats (wt_scan_merge_sample i s acc) =
      (if rep_memory_ok s then stat_step (memory_pressed (rep_memory s)) (mm_used_percent (rep_memory s)) (memory_stats acc)
       else memory_stats acc)" if "i \<noteq> 0" for i s acc
  proof -
    have "memory_stats (merge_memory s acc') =
        (if rep_memory_ok s then stat_step (memory_pressed (rep_memory s)) (mm_used_percent (rep_memory s)) (memory_stats acc')
         else memory_stats acc')" for acc'
      by (simp add: merge_memory_def merge_memory_metrics_def memory_stats_def stat_step_def Let_def)
    then show ?thesis using that by (simp add: wt_scan_merge_sample_def merge_frames)
  qed
qed (simp add: pass_ok_def)

interpretation disk_statistic: sampled_statistic rep_disk_active_ok "\<lambda>s. 90 \<le> rep_disk_active_percent s"
  rep_disk_active_percent 0 disk_stats
proof
  show "disk_stats (merge_first acc s) = summary 0 rep_disk_active_ok (\<lambda>s. 90 \<le> rep_disk_active_percent s)
      rep_disk_active_percent [s]" if "pass_ok s" for s acc
    using that by (auto simp: merge_first_def disk_stats_def summary_def pass_ok_def max_or_def mean_or_def)
  show "disk_stats (wt_scan_merge_sample i s acc) =
      (if rep_disk_active_ok s then stat_step (90 \<le> rep_disk_active_percent s) (rep_disk_active_percent s) (disk_stats acc)
       else disk_stats acc)" if "i \<noteq> 0" for i s acc
  proof -
    have "disk_stats (merge_disk_active s acc') =
        (if rep_disk_active_ok s then stat_step (90 \<le> rep_disk_active_percent s) (rep_disk_active_percent s) (disk_stats acc')
         else disk_stats acc')" for acc'
      by (simp add: merge_disk_active_def disk_stats_def stat_step_def Let_def)
    then show ?thesis using that by (simp add: wt_scan_merge_sample_def merge_frames)
  qed
qed (simp add: pass_ok_def)

lemma latencies_fst: "fst (read_latencies s) = rep_disk_read_latency_ms s" "fst (write_latencies s) = rep_disk_write_latency_ms s"
  by (simp_all add: read_latencies_def write_latencies_def)

interpretation reads_statistic: latency_statistic read_latencies
proof
  show "read_latencies (wt_scan_merge_sample i s acc) = (case fst (read_latencies s) of [] \<Rightarrow> read_latencies acc
      | ms # r \<Rightarrow> wt_disk_latency_push WT_DISK_LATENCY_CAP ms (read_latencies acc))" if "i \<noteq> 0" for i s acc
    using that by (simp add: wt_scan_merge_sample_def frame_times frame_sections read_latency_merged latencies_fst split: list.split)
      (simp add: merge_frames)
qed (simp_all add: merge_first_def read_latencies_def pass_ok_def)

interpretation writes_statistic: latency_statistic write_latencies
proof
  show "write_latencies (wt_scan_merge_sample i s acc) = (case fst (write_latencies s) of [] \<Rightarrow> write_latencies acc
      | ms # r \<Rightarrow> wt_disk_latency_push WT_DISK_LATENCY_CAP ms (write_latencies acc))" if "i \<noteq> 0" for i s acc
    using that by (simp add: wt_scan_merge_sample_def frame_times frame_sections write_latency_merged latencies_fst split: list.split)
      (simp add: merge_frames)
qed (simp_all add: merge_first_def write_latencies_def pass_ok_def)

section \<open>Times\<close>

lemma sat32_facts: "sat32 (sat32 a + b) = sat32 (a + b)" "sat32 a \<le> 2 ^ 32 - 1" "a \<le> 2 ^ 32 - 1 \<Longrightarrow> sat32 a = a"
  by (auto simp: sat32_def)

definition times_sum :: "WT_ScanReport list \<Rightarrow> nat list" where
  "times_sum ss = map (\<lambda>c. sat32 (sum_list (map (\<lambda>s. rep_collector_ms s ! c) ss))) [0..<WT_COLLECTOR_COUNT]"

lemma merged_times:
  assumes "\<And>i. pass_ok (S i)"
  shows "rep_collector_ms (fold (\<lambda>i. wt_scan_merge_sample i (S i)) [0..<Suc n] r) = times_sum (map S [0..<Suc n])"
proof (induction n)
  case 0
  have "times_ok (S 0)" using assms by (simp add: pass_ok_def)
  then show ?case
    by (auto simp: wt_scan_merge_sample_def merge_first_def times_sum_def times_ok_def WT_COLLECTOR_COUNT_def sat32_facts(3)
      intro!: nth_equalityI)
next
  case (Suc n)
  have t: "times_ok (S (Suc n))" using assms by (simp add: pass_ok_def)
  have "rep_collector_ms (wt_scan_merge_sample (Suc n) (S (Suc n)) acc) =
      map2 (\<lambda>a b. sat32 (a + b)) (rep_collector_ms acc) (rep_collector_ms (S (Suc n)))" for acc
    by (simp add: wt_scan_merge_sample_def merge_times_def merge_frames)
  then show ?case
    using Suc t by (auto simp: times_sum_def times_ok_def WT_COLLECTOR_COUNT_def sat32_facts(1) add.assoc intro!: nth_equalityI)
qed

lemma merged_count: "rep_scan_sample_count (fold (\<lambda>i. wt_scan_merge_sample i (S i)) js r) = rep_scan_sample_count r"
  by (induction js arbitrary: r) (simp_all add: wt_scan_merge_sample_def merge_frames merge_first_def)

section \<open>Every pass reads what the merge relies on\<close>

lemma timed_simps [simp]:
  "cpu_stats (timed env k c r) = cpu_stats r" "memory_stats (timed env k c r) = memory_stats r"
  "disk_stats (timed env k c r) = disk_stats r" "read_latencies (timed env k c r) = read_latencies r"
  "write_latencies (timed env k c r) = write_latencies r" "rep_cpu (timed env k c r) = rep_cpu r"
  "rep_cpu_ok (timed env k c r) = rep_cpu_ok r" "rep_memory (timed env k c r) = rep_memory r"
  "rep_memory_ok (timed env k c r) = rep_memory_ok r" "rep_disk_active_ok (timed env k c r) = rep_disk_active_ok r"
  "rep_disk_active_percent (timed env k c r) = rep_disk_active_percent r"
  by (simp_all add: timed_def wt_scan_time_add_def stat_defs Let_def)

lemma timed_times: "times_ok r \<Longrightarrow> times_ok (timed env k c r)"
  using sat32_facts(2)
  by (auto simp: timed_def wt_scan_time_add_def times_ok_def Let_def dest!: subsetD [OF set_update_subset_insert])

definition pass_cpu :: "WT_ScanReport \<Rightarrow> bool" where
  "pass_cpu s \<longleftrightarrow> (if rep_cpu_ok s then cm_available (rep_cpu s) \<and> 0 \<le> cm_total_usage_percent (rep_cpu s)
     else cm_total_usage_percent (rep_cpu s) = -1)"

definition pass_memory :: "WT_ScanReport \<Rightarrow> bool" where
  "pass_memory s \<longleftrightarrow> (if rep_memory_ok s then 0 \<le> mm_used_percent (rep_memory s) else mm_used_percent (rep_memory s) = 0)"

definition pass_disk :: "WT_ScanReport \<Rightarrow> bool" where
  "pass_disk s \<longleftrightarrow> (if rep_disk_active_ok s then 0 \<le> rep_disk_active_percent s else rep_disk_active_percent s = 0) \<and>
     one_latency (read_latencies s) \<and> one_latency (write_latencies s)"

lemma pass_ok_parts: "pass_ok s \<longleftrightarrow> pass_cpu s \<and> pass_memory s \<and> pass_disk s \<and> times_ok s"
  by (auto simp: pass_ok_def pass_cpu_def pass_memory_def pass_disk_def)

lemma cpu_collected:
  assumes "wt_collect_cpu_metrics api c0 = (r, c)"
  shows "if r = WT_OK then cm_available c \<and> 0 \<le> cm_total_usage_percent c else cm_total_usage_percent c = -1"
proof -
  have "0 \<le> u" if "wt_cpu_read_counter k = Some u" for k u
    using that by (auto simp: wt_cpu_read_counter_def wt_cpu_clamp_def split: option.splits if_splits)
  then show ?thesis
    using assms by (auto simp: wt_collect_cpu_metrics_def Let_def split: if_splits option.splits)
qed

lemma memory_untouched: "mm_used_percent (wt_memory_fill_commit api st m) = mm_used_percent m"
  "mm_used_percent (wt_memory_read_lists api m) = mm_used_percent m"
  "mm_used_percent (wt_memory_read_compression api m) = mm_used_percent m"
  by (auto simp: wt_memory_fill_commit_def memory_page_file_def wt_memory_read_lists_def wt_memory_read_compression_def Let_def
    split: option.split)

lemma memory_collected:
  assumes "wt_collect_memory_metrics api = (r, m)"
  shows "if r = WT_OK then 0 \<le> mm_used_percent m else mm_used_percent m = 0"
  using assms
  by (auto simp: wt_collect_memory_metrics_def memory_untouched wt_memory_clear_optional_def zero_WT_MemoryMetrics_def Let_def
    split: option.splits if_splits)

lemma apply_total_active:
  "di_active_ok (wt_disk_apply_total c disk_io_init) = snd (wt_pdh_read_double (vc_active c))"
  "di_active_percent (wt_disk_apply_total c disk_io_init) =
     (if snd (wt_pdh_read_double (vc_active c)) then at_least_0 (fst (wt_pdh_read_double (vc_active c))) else 0)"
  by (simp_all add: wt_disk_apply_total_def disk_io_init_def Let_def case_prod_beta split: option.split)

lemma disk_io_read:
  assumes "wt_collect_disk_io_ex pdh w vs = (r, io, vs')"
  shows "if di_active_ok io then 0 \<le> di_active_percent io else di_active_percent io = 0"
proof -
  have "io = disk_io_init \<or> (\<exists>c. io = wt_disk_apply_total c disk_io_init)"
    using assms by (simp add: wt_collect_disk_io_ex_def Let_def split: if_splits) blast+
  moreover have "\<not> di_active_ok disk_io_init" "di_active_percent disk_io_init = 0" by (simp_all add: disk_io_init_def)
  ultimately show ?thesis by (auto simp: apply_total_active at_least_0_def)
qed

lemma activity_read:
  assumes "wt_collect_disk_activity pdh = (r, a)"
  shows "if r = WT_OK then 0 \<le> a else a = 0"
proof -
  obtain r1 io vs where io: "wt_collect_disk_io_ex pdh True [] = (r1, io, vs)" by (metis prod_cases3)
  from disk_io_read [OF io] assms show ?thesis
    by (auto simp: wt_collect_disk_activity_def wt_collect_disk_io_def io at_least_0_def split: if_splits prod.splits)
qed

lemma os_memory_ok:
  assumes "times_ok r"
  shows "pass_memory (scan_os_memory env r)" "times_ok (scan_os_memory env r)"
    "disk_stats (scan_os_memory env r) = disk_stats r" "read_latencies (scan_os_memory env r) = read_latencies r"
    "write_latencies (scan_os_memory env r) = write_latencies r"
proof -
  obtain mr m where m: "wt_collect_memory_metrics (sc_memory env) = (mr, m)" by fastforce
  show "pass_memory (scan_os_memory env r)"
    using memory_collected [OF m] by (simp add: scan_os_memory_def m pass_memory_def Let_def)
  have "times_ok (r\<lparr>rep_os := a, rep_os_ok := b\<rparr>)" "times_ok r' \<Longrightarrow> times_ok (r'\<lparr>rep_memory := m, rep_memory_ok := b\<rparr>)" for a b r'
    using assms by (simp_all add: times_ok_def)
  then show "times_ok (scan_os_memory env r)" by (simp add: scan_os_memory_def m timed_times Let_def)
qed (simp_all add: scan_os_memory_def stat_defs timed_def wt_scan_time_add_def Let_def case_prod_beta)

lemma net_cpu_ok:
  assumes "times_ok r"
  shows "pass_cpu (scan_net_cpu env ms r)" "times_ok (scan_net_cpu env ms r)"
    "memory_stats (scan_net_cpu env ms r) = memory_stats r"
    "disk_stats (scan_net_cpu env ms r) = disk_stats r" "read_latencies (scan_net_cpu env ms r) = read_latencies r"
    "write_latencies (scan_net_cpu env ms r) = write_latencies r"
proof -
  obtain cr c where c: "wt_collect_cpu_metrics (sc_cpu env) (rep_cpu r) = (cr, c)" by fastforce
  show "pass_cpu (scan_net_cpu env ms r)"
    using cpu_collected [OF c] by (simp add: scan_net_cpu_def c pass_cpu_def Let_def case_prod_beta)
  have "times_ok r' \<Longrightarrow> times_ok (r'\<lparr>rep_cpu := a, rep_cpu_ok := b\<rparr>)" "times_ok r' \<Longrightarrow> times_ok (r'\<lparr>rep_network := n, rep_network_ok := b\<rparr>)"
      "times_ok r' \<Longrightarrow> times_ok (r'\<lparr>rep_network_ok := b\<rparr>)" for a b n r'
    by (simp_all add: times_ok_def)
  then show "times_ok (scan_net_cpu env ms r)" using assms by (simp add: scan_net_cpu_def c timed_times Let_def case_prod_beta)
qed (simp_all add: scan_net_cpu_def stat_defs timed_def wt_scan_time_add_def Let_def case_prod_beta)

definition pass_frame :: "WT_ScanReport \<Rightarrow> WT_ScanReport \<Rightarrow> bool" where
  \<comment> \<open>a step that leaves the readings of processor and memory alone\<close>
  "pass_frame r r' \<longleftrightarrow> (pass_cpu r \<longrightarrow> pass_cpu r') \<and> (pass_memory r \<longrightarrow> pass_memory r') \<and> (times_ok r \<longrightarrow> times_ok r')"

lemma pass_frame_trans: "pass_frame a b \<Longrightarrow> pass_frame b c \<Longrightarrow> pass_frame a c"
  by (simp add: pass_frame_def)

lemma pass_frameI:
  assumes "rep_cpu r' = rep_cpu r" "rep_cpu_ok r' = rep_cpu_ok r" "memory_stats r' = memory_stats r"
    "rep_collector_ms r' = rep_collector_ms r"
  shows "pass_frame r r'"
  using assms by (simp add: pass_frame_def pass_cpu_def pass_memory_def memory_stats_def times_ok_def)

lemma pass_frame_timed: "pass_frame r r' \<Longrightarrow> pass_frame r (timed env k c r')"
  using timed_times by (simp add: pass_frame_def pass_cpu_def pass_memory_def)

lemma pass_disk_timed: "pass_disk (timed env k c r) = pass_disk r"
  by (simp add: pass_disk_def)

lemma sample_stats_ok: "pass_cpu (scan_sample_stats r) = pass_cpu r" "pass_memory (scan_sample_stats r) = pass_memory r"
  "times_ok (scan_sample_stats r) = times_ok r" "read_latencies (scan_sample_stats r) = read_latencies r"
  "write_latencies (scan_sample_stats r) = write_latencies r"
  by (simp_all add: scan_sample_stats_def pass_cpu_def pass_memory_def times_ok_def stat_defs)

lemma scan_disk_ok: "pass_frame r (scan_disk env r)" "read_latencies (scan_disk env r) = read_latencies r"
  "write_latencies (scan_disk env r) = write_latencies r"
proof -
  show "pass_frame r (scan_disk env r)"
    unfolding scan_disk_def case_prod_beta by (intro pass_frame_timed pass_frameI) (simp_all add: memory_stats_def)
qed (simp_all add: scan_disk_def stat_defs timed_def wt_scan_time_add_def Let_def case_prod_beta)

lemma first_push: "0 \<le> ms \<Longrightarrow> one_latency (wt_disk_latency_push WT_DISK_LATENCY_CAP ms (percentiles []))"
  "one_latency (percentiles [])"
  by (simp_all add: one_latency_def percentiles_def wt_disk_latency_push_def WT_DISK_LATENCY_CAP_def Let_def)

lemma pushed_reads: "read_latencies (push_report_read ms r) = wt_disk_latency_push WT_DISK_LATENCY_CAP ms (read_latencies r)"
  "write_latencies (push_report_read ms r) = write_latencies r" "disk_stats (push_report_read ms r) = disk_stats r"
  "rep_cpu (push_report_read ms r) = rep_cpu r" "rep_cpu_ok (push_report_read ms r) = rep_cpu_ok r"
  "memory_stats (push_report_read ms r) = memory_stats r" "rep_collector_ms (push_report_read ms r) = rep_collector_ms r"
  by (simp_all add: push_report_read_def stat_defs split: prod.split)

lemma pushed_writes: "write_latencies (push_report_write ms r) = wt_disk_latency_push WT_DISK_LATENCY_CAP ms (write_latencies r)"
  "read_latencies (push_report_write ms r) = read_latencies r" "disk_stats (push_report_write ms r) = disk_stats r"
  "rep_cpu (push_report_write ms r) = rep_cpu r" "rep_cpu_ok (push_report_write ms r) = rep_cpu_ok r"
  "memory_stats (push_report_write ms r) = memory_stats r" "rep_collector_ms (push_report_write ms r) = rep_collector_ms r"
  by (simp_all add: push_report_write_def stat_defs split: prod.split)

lemma disk_part: "pass_disk r \<longleftrightarrow> (if fst (disk_stats r) then 0 \<le> snd (snd (snd (snd (disk_stats r)))) else snd (snd (snd (snd (disk_stats r)))) = 0) \<and>
    one_latency (read_latencies r) \<and> one_latency (write_latencies r)"
  by (simp add: pass_disk_def disk_stats_def)

lemma latency_flag: "read_latencies (r\<lparr>rep_disk_latency_ok := b\<rparr>) = read_latencies r" "write_latencies (r\<lparr>rep_disk_latency_ok := b\<rparr>) = write_latencies r"
  "disk_stats (r\<lparr>rep_disk_latency_ok := b\<rparr>) = disk_stats r" "memory_stats (r\<lparr>rep_disk_latency_ok := b\<rparr>) = memory_stats r"
  by (simp_all add: stat_defs)

lemma io_read_ok:
  assumes "if di_active_ok io then 0 \<le> di_active_percent io else di_active_percent io = 0"
    "read_latencies r = percentiles []" "write_latencies r = percentiles []"
  shows "pass_disk (scan_disk_io_read io r)" "pass_frame r (scan_disk_io_read io r)"
proof -
  define r1 where "r1 = r\<lparr>rep_disk_active_ok := di_active_ok io, rep_disk_active_percent := di_active_percent io,
            rep_disk_active_max_percent := (if di_active_ok io then di_active_percent io else -1),
            rep_disk_active_ok_samples := (if di_active_ok io then 1 else 0),
            rep_disk_active_hot_samples := (if di_active_ok io \<and> di_active_percent io \<ge> 90 then 1 else 0),
            rep_disk_throughput_ok := di_throughput_ok io,
            rep_disk_read_bytes_per_sec := (if di_throughput_ok io then di_read_bytes_per_sec io else -1),
            rep_disk_write_bytes_per_sec := (if di_throughput_ok io then di_write_bytes_per_sec io else -1),
            rep_disk_queue_ok := di_queue_ok io,
            rep_disk_avg_queue_length := (if di_queue_ok io then di_avg_queue_length io else -1)\<rparr>"
  have d: "disk_stats r1 = (di_active_ok io, if di_active_ok io then 1 else 0,
      if di_active_ok io \<and> di_active_percent io \<ge> 90 then 1 else 0, if di_active_ok io then di_active_percent io else -1, di_active_percent io)"
    and l: "read_latencies r1 = percentiles []" "write_latencies r1 = percentiles []"
    and f: "rep_cpu r1 = rep_cpu r" "rep_cpu_ok r1 = rep_cpu_ok r" "memory_stats r1 = memory_stats r" "rep_collector_ms r1 = rep_collector_ms r"
    using assms(2,3) by (simp_all add: r1_def stat_defs)
  show "pass_disk (scan_disk_io_read io r)"
    using assms(1) first_push
    by (simp add: scan_disk_io_read_def Let_def latency_flag pushed_reads pushed_writes disk_part d l flip: r1_def)
  show "pass_frame r (scan_disk_io_read io r)"
    by (rule pass_frameI) (simp_all add: scan_disk_io_read_def Let_def latency_flag pushed_reads pushed_writes f flip: r1_def)
qed

lemma io_fallback_ok:
  assumes "if fst a = WT_OK then 0 \<le> snd a else snd a = 0" "read_latencies r = percentiles []" "write_latencies r = percentiles []"
  shows "pass_disk (scan_disk_io_fallback a r)" "pass_frame r (scan_disk_io_fallback a r)"
proof -
  have "read_latencies (scan_disk_io_fallback a r) = percentiles []" "write_latencies (scan_disk_io_fallback a r) = percentiles []"
    using assms(2,3) by (simp_all add: scan_disk_io_fallback_def read_latencies_def write_latencies_def percentiles_def Let_def)
  then show "pass_disk (scan_disk_io_fallback a r)"
    using assms(1) first_push(2) by (simp add: pass_disk_def) (simp add: scan_disk_io_fallback_def Let_def)
  show "pass_frame r (scan_disk_io_fallback a r)"
    by (rule pass_frameI) (simp_all add: scan_disk_io_fallback_def memory_stats_def Let_def)
qed

lemma scan_disk_io_ok:
  assumes "read_latencies r = percentiles []" "write_latencies r = percentiles []"
  shows "pass_disk (scan_disk_io env r)" "pass_frame r (scan_disk_io env r)"
proof -
  let ?io = "wt_collect_disk_io_ex (sc_disk_io env) True (if rep_disk_ok r then rep_volumes r else [])"
  obtain ir io vs where io: "?io = (ir, io, vs)" by (metis prod_cases3)
  define r1 where "r1 = r\<lparr>rep_volumes := (if rep_disk_ok r then vs else rep_volumes r)\<rparr>"
  have l: "read_latencies r1 = percentiles []" "write_latencies r1 = percentiles []" and f: "pass_frame r r1"
    using assms by (simp_all add: r1_def stat_defs pass_frameI)
  have a: "if fst (wt_collect_disk_activity p) = WT_OK then 0 \<le> snd (wt_collect_disk_activity p)
      else snd (wt_collect_disk_activity p) = 0" for p
    using activity_read [of p] by (cases "wt_collect_disk_activity p") simp
  have eq: "scan_disk_io env r = timed env 6 WT_COLLECTOR_DISK_IO (if ir = WT_OK then scan_disk_io_read io r1
      else scan_disk_io_fallback (wt_collect_disk_activity (sc_disk_again env)) r1)"
    by (simp add: scan_disk_io_def io Let_def r1_def)
  show "pass_disk (scan_disk_io env r)"
    using io_read_ok(1) [OF disk_io_read [OF io] l] io_fallback_ok(1) [OF a l] by (simp add: eq pass_disk_timed)
  show "pass_frame r (scan_disk_io env r)"
    using io_read_ok(2) [OF disk_io_read [OF io] l] io_fallback_ok(2) [OF a l] f
    by (simp add: eq pass_frame_timed pass_frame_trans [of r r1])
qed

definition section_frame :: "WT_ScanReport \<Rightarrow> WT_ScanReport \<Rightarrow> bool" where
  "section_frame r r' \<longleftrightarrow> (pass_disk r \<longrightarrow> pass_disk r') \<and> pass_frame r r'"

lemma section_frame_trans: "section_frame a b \<Longrightarrow> section_frame b c \<Longrightarrow> section_frame a c"
  using pass_frame_trans by (auto simp: section_frame_def)

lemma section_frame_timed: "section_frame r r' \<Longrightarrow> section_frame r (timed env k c r')"
  by (simp add: section_frame_def pass_disk_timed pass_frame_timed)

lemma section_frameI:
  assumes "disk_stats r' = disk_stats r" "read_latencies r' = read_latencies r" "write_latencies r' = write_latencies r"
    "rep_cpu r' = rep_cpu r" "rep_cpu_ok r' = rep_cpu_ok r" "memory_stats r' = memory_stats r"
    "rep_collector_ms r' = rep_collector_ms r"
  shows "section_frame r r'"
  using assms pass_frameI by (simp add: section_frame_def disk_part)

lemma section_updates:
  "section_frame r (r\<lparr>rep_power := w, rep_power_ok := b\<rparr>)" "section_frame r (r\<lparr>rep_gpu := g, rep_gpu_ok := b\<rparr>)"
  "section_frame r (r\<lparr>rep_audio := a, rep_audio_ok := b\<rparr>)" "section_frame r (r\<lparr>rep_search := sr, rep_search_ok := b\<rparr>)"
  "section_frame r (r\<lparr>rep_defender := d, rep_defender_ok := b\<rparr>)" "section_frame r (r\<lparr>rep_boot := bo\<rparr>)"
  "section_frame r (r\<lparr>rep_boot_ok := b\<rparr>)" "section_frame r (r\<lparr>rep_updates := u\<rparr>)" "section_frame r (r\<lparr>rep_updates_ok := b\<rparr>)"
  "section_frame r (r\<lparr>rep_top_processes := ps, rep_short_lived := sl, rep_processes_ok := b\<rparr>)"
  by (rule section_frameI; simp add: stat_defs)+

lemma sections_ok: "section_frame r (scan_sections env ms r)"
  unfolding scan_sections_def Let_def case_prod_beta
  by (rule section_frame_trans [OF _ section_updates(9)] section_frame_timed section_updates
      section_frame_trans [OF _ section_updates(8)] section_frame_trans [OF _ section_updates(7)]
      section_frame_trans [OF _ section_updates(6)] section_frame_trans [OF _ section_updates(5)]
      section_frame_trans [OF _ section_updates(4)] section_frame_trans [OF _ section_updates(3)]
      section_frame_trans [OF _ section_updates(2)])+

lemma attributed: "cm_available (wt_cpu_attribute_kernel_source t a b c) = cm_available c"
  "cm_total_usage_percent (wt_cpu_attribute_kernel_source t a b c) = cm_total_usage_percent c"
  by (simp_all add: wt_cpu_attribute_kernel_source_def wt_kernel_pick_source_def Let_def case_prod_beta split: option.split)

lemma attributed_frame: "section_frame r (r\<lparr>rep_cpu := wt_cpu_attribute_kernel_source t a b (rep_cpu r)\<rparr>)"
  by (simp add: section_frame_def pass_frame_def pass_cpu_def pass_memory_def times_ok_def attributed disk_part stat_defs)

lemma top_ok: "section_frame r (wt_scan_collect_top_processes env n ms r)"
proof -
  let ?r1 = "r\<lparr>rep_top_processes := ps, rep_short_lived := sl, rep_processes_ok := True\<rparr>"
  have "section_frame r r" by (rule section_frameI) simp_all
  then show ?thesis
    using section_updates(10) section_frame_trans [OF section_updates(10) attributed_frame]
    by (simp add: wt_scan_collect_top_processes_def Let_def)
qed

lemma pass_is_ok: "pass_ok (snd (wt_run_scan_once opts env wt_scan_report_init))" "fst (wt_run_scan_once opts env r) = WT_OK"
proof -
  let ?r0 = wt_scan_report_init
  have t0: "times_ok ?r0" and l0: "read_latencies ?r0 = percentiles []" "write_latencies ?r0 = percentiles []"
    by (simp_all add: times_ok_def wt_scan_report_init_def zero_WT_ScanReport_def stat_defs percentiles_def)
  define ms where "ms = (case opts of None \<Rightarrow> WT_SCAN_DEFAULT_SAMPLE_MS
                       | Some c \<Rightarrow> if so_cpu_sample_ms c > 0 then so_cpu_sample_ms c else WT_SCAN_DEFAULT_SAMPLE_MS)"
  define r1 where "r1 = scan_os_memory env ?r0"
  define r2 where "r2 = scan_net_cpu env ms r1"
  define r3 where "r3 = scan_disk env (scan_sample_stats r2)"
  have 1: "pass_memory r1" "times_ok r1" "read_latencies r1 = percentiles []" "write_latencies r1 = percentiles []"
    using os_memory_ok [OF t0] l0 by (simp_all add: r1_def)
  have 2: "pass_cpu r2" "pass_memory r2" "times_ok r2" "read_latencies r2 = percentiles []" "write_latencies r2 = percentiles []"
    using net_cpu_ok [OF 1(2)] 1 by (simp_all add: r2_def pass_memory_def memory_stats_def)
  have 3: "pass_cpu r3" "pass_memory r3" "times_ok r3" "read_latencies r3 = percentiles []" "write_latencies r3 = percentiles []"
    using 2 scan_disk_ok(1) [of "scan_sample_stats r2" env] scan_disk_ok(2,3) [of env "scan_sample_stats r2"] by (simp_all add: r3_def sample_stats_ok pass_frame_def)
  have 4: "pass_ok (scan_disk_io env r3)"
    using scan_disk_io_ok [OF 3(4,5)] 3(1-3) by (simp add: pass_ok_parts pass_frame_def)
  have "section_frame (scan_disk_io env r3) (timed env 14 WT_COLLECTOR_PROCESSES
      (wt_scan_collect_top_processes env n ms (scan_sections env ms (scan_disk_io env r3))))" for n
    by (rule section_frame_timed [OF section_frame_trans [OF sections_ok top_ok]])
  then have "pass_ok (timed env 14 WT_COLLECTOR_PROCESSES
      (wt_scan_collect_top_processes env n ms (scan_sections env ms (scan_disk_io env r3))))" for n
    using 4 by (simp add: section_frame_def pass_frame_def pass_ok_parts)
  then show "pass_ok (snd (wt_run_scan_once opts env ?r0))"
    by (simp add: wt_run_scan_once_def Let_def r1_def r2_def r3_def flip: ms_def)
qed (simp add: wt_run_scan_once_def Let_def)

section \<open>The scan\<close>

lemma scan_loop_fold: "scan_loop opts env js r = (WT_OK,
    fold (\<lambda>i. wt_scan_merge_sample i (snd (wt_run_scan_once opts (env i) wt_scan_report_init))) js r)"
  using pass_is_ok(2) by (induction js arbitrary: r) (simp_all add: case_prod_beta)

lemma sample_count_bounds: "1 \<le> scan_sample_count opts \<and> scan_sample_count opts \<le> 32"
  by (simp add: scan_sample_count_def WT_SCAN_DEFAULT_SAMPLE_COUNT_def WT_SCAN_MAX_SAMPLES_def Let_def split: option.split)

definition scan_passes :: "WT_ScanOptions option \<Rightarrow> (nat \<Rightarrow> scan_env) \<Rightarrow> WT_ScanReport list" where
  "scan_passes opts env = map (\<lambda>i. snd (wt_run_scan_once opts (env i) wt_scan_report_init)) [0..<scan_sample_count opts]"


end
