(* ===== verification/Service_Policy.thy ===== *)
theory Service_Policy
  imports Rollback_Store Json_Docs Scan_Run
begin

text \<open>
  The policy of the WinTune service and the files it keeps under \<open>%ProgramData%\<close> (\<open>src/service/service_policy.c\<close>,
  \<open>src/platform/paths.c\<close>), and the scan it caches (\<open>wt_service_run_scan_and_cache\<close> of \<open>service_dispatch.c\<close>).
  The files are those of \<open>machine\<close>; \<open>service_env\<close> adds what Windows decides about them and what the scans meet.
\<close>

section \<open>State and environment\<close>

record service_env =
  sx_action :: action_env
  sx_programdata :: string
  sx_open :: "string \<Rightarrow> bool"                         \<comment> \<open>\<open>CreateFileW\<close> for reading, and the read\<close>
  sx_write :: "string \<Rightarrow> bool"                        \<comment> \<open>\<open>WriteFile\<close> after the file was created\<close>
  sx_delete :: "string \<Rightarrow> win_error option"
  sx_move :: "string \<Rightarrow> string \<Rightarrow> bool"
  sx_scan :: "nat \<Rightarrow> nat \<Rightarrow> scan_env"                  \<comment> \<open>pass \<open>i\<close> of the \<open>k\<close>th scan of the process\<close>
  sx_recs :: rec_world
  sx_json :: json_env
  sx_text :: "WT_ScanReport \<Rightarrow> WT_Recommendation list option \<Rightarrow> string"   \<comment> \<open>\<open>wt_print_scan_report_text_to\<close>\<close>
  sx_summary :: "WT_Recommendation list \<Rightarrow> string"     \<comment> \<open>\<open>wt_print_doctor_summary_text\<close>\<close>
  sx_now :: "nat \<Rightarrow> string option"                    \<comment> \<open>\<open>wt_now_iso8601_utc\<close>, by clock reading\<close>
  sx_wide :: "nat \<Rightarrow> string \<Rightarrow> string option"         \<comment> \<open>\<open>MultiByteToWideChar\<close> into so many units\<close>

record service_state =
  ss_machine :: machine
  ss_scans :: nat

section \<open>Paths\<close>

definition wt_paths_program_data_dir :: "service_env \<Rightarrow> nat \<Rightarrow> WT_Result \<times> string" where
  "wt_paths_program_data_dir x count =
     (if count = 0 then (WT_ERR_INVALID_ARGUMENT, [])
      else let base = sx_programdata x
           in if length base = 0 \<or> length base \<ge> MAX_PATH then (WT_ERR_NOT_FOUND, [])
              else if \<not> cch_fits count (base @ bsl ''/WinTune'') then (WT_ERR_BUFFER_TOO_SMALL, cch_copy count (base @ bsl ''/WinTune''))
              else (WT_OK, base @ bsl ''/WinTune''))"

definition data_file :: "service_env \<Rightarrow> string \<Rightarrow> nat \<Rightarrow> WT_Result \<times> string" where
  \<comment> \<open>a file of the directory, as the three path functions build it\<close>
  "data_file x name count =
     (case wt_paths_program_data_dir x MAX_PATH of (r, dir) \<Rightarrow>
        if r \<noteq> WT_OK then (r, [])
        else if \<not> cch_fits count (dir @ bsl ''/'' @ name)
        then (WT_ERR_BUFFER_TOO_SMALL, cch_copy count (dir @ bsl ''/'' @ name))
        else (WT_OK, dir @ bsl ''/'' @ name))"

definition wt_paths_last_scan_file :: "service_env \<Rightarrow> nat \<Rightarrow> WT_Result \<times> string" where
  "wt_paths_last_scan_file x count = data_file x ''last_scan.json'' count"

definition wt_service_policy_path :: "service_env \<Rightarrow> nat \<Rightarrow> WT_Result \<times> string" where
  "wt_service_policy_path x count =
     (if count = 0 then (WT_ERR_INVALID_ARGUMENT, []) else data_file x ''service_policy.json'' count)"

section \<open>Files\<close>

definition put_file :: "string \<Rightarrow> string option \<Rightarrow> machine \<Rightarrow> machine" where
  "put_file path t m = m\<lparr>mc_files := (mc_files m)(path := t)\<rparr>"

definition create_and_write :: "service_env \<Rightarrow> string \<Rightarrow> string \<Rightarrow> machine \<Rightarrow> WT_Result \<times> machine" where
  \<comment> \<open>\<open>CREATE_ALWAYS\<close> empties the file before the write\<close>
  "create_and_write x path body m =
     (if \<not> ae_create_file (sx_action x) path then (WT_ERR_WIN32, m)
      else if sx_write x path then (WT_OK, put_file path (Some body) m)
      else (WT_ERR_WIN32, put_file path (Some []) m))"

definition delete_file :: "service_env \<Rightarrow> string \<Rightarrow> machine \<Rightarrow> win_error option \<times> machine" where
  "delete_file x path m =
     (if mc_files m path = None then (Some ERROR_FILE_NOT_FOUND, m)
      else case sx_delete x path of Some e \<Rightarrow> (Some e, m) | None \<Rightarrow> (None, put_file path None m))"

definition move_file :: "service_env \<Rightarrow> string \<Rightarrow> string \<Rightarrow> machine \<Rightarrow> bool \<times> machine" where
  \<comment> \<open>\<open>MoveFileExW\<close> with \<open>MOVEFILE_REPLACE_EXISTING\<close>\<close>
  "move_file x a b m =
     (case mc_files m a of None \<Rightarrow> (False, m)
      | Some t \<Rightarrow> if sx_move x a b then (True, put_file b (Some t) (put_file a None m)) else (False, m))"

section \<open>The policy\<close>

definition WT_SERVICE_POLICY_NAME_MAX :: nat where "WT_SERVICE_POLICY_NAME_MAX = 32"

record WT_ServicePolicy =
  sp_name :: string
  sp_scan_interval_ms :: nat
  sp_sample_count :: nat
  sp_top_process_limit :: nat
  sp_history_keep :: nat

definition wt_service_policy_defaults :: WT_ServicePolicy where
  "wt_service_policy_defaults = \<lparr>sp_name = cch_copy WT_SERVICE_POLICY_NAME_MAX ''balanced'',
     sp_scan_interval_ms = 15 * 60 * 1000, sp_sample_count = 3, sp_top_process_limit = 10, sp_history_keep = 2\<rparr>"

definition wt_service_policy_set :: "string \<Rightarrow> nat \<Rightarrow> nat \<Rightarrow> nat \<Rightarrow> nat \<Rightarrow> WT_ServicePolicy" where
  "wt_service_policy_set name interval_ms samples top_limit history =
     (let out = \<lparr>sp_name = cch_copy WT_SERVICE_POLICY_NAME_MAX name, sp_scan_interval_ms = interval_ms,
            sp_sample_count = samples, sp_top_process_limit = top_limit, sp_history_keep = history\<rparr>;
          out = (if sp_history_keep out > 8 then out\<lparr>sp_history_keep := 8\<rparr> else out);
          out = (if sp_sample_count out = 0 then out\<lparr>sp_sample_count := 1\<rparr> else out)
      in if sp_top_process_limit out = 0 then out\<lparr>sp_top_process_limit := 5\<rparr> else out)"

definition wt_service_policy_from_name :: "string option \<Rightarrow> (WT_Result, WT_ServicePolicy) sum" where
  "wt_service_policy_from_name name =
     (let named = (\<lambda>w. case name of None \<Rightarrow> False | Some n \<Rightarrow> wcsicmp n w) in
      if name = None \<or> name = Some [] \<or> named ''balanced'' \<or> named ''default''
      then Inr (wt_service_policy_set ''balanced'' (15 * 60 * 1000) 3 10 2)
      else if named ''performance'' \<or> named ''perf'' then Inr (wt_service_policy_set ''performance'' (5 * 60 * 1000) 5 15 3)
      else if named ''light'' \<or> named ''battery'' then Inr (wt_service_policy_set ''light'' (60 * 60 * 1000) 1 5 1)
      else if named ''on-demand'' \<or> named ''ondemand'' \<or> named ''manual'' then Inr (wt_service_policy_set ''on-demand'' 0 3 10 1)
      else Inl WT_ERR_NOT_FOUND)"

definition wt_policy_extract_uint :: "string \<Rightarrow> string \<Rightarrow> nat option" where
  "wt_policy_extract_uint json key =
     (let pat = cch_copy 64 (qkey key) in
      case strstr json pat of None \<Rightarrow> None
      | Some pos \<Rightarrow>
         (case strchr (drop (length pat) pos) (CHR '':'') of None \<Rightarrow> None
          | Some colon \<Rightarrow> strtoul (tl colon)))"

definition first_quoted :: "string \<Rightarrow> string option" where
  \<comment> \<open>the text between the next two quotes\<close>
  "first_quoted s =
     (case strchr s (CHR 0x22) of None \<Rightarrow> None
      | Some q1 \<Rightarrow> (case strchr (tl q1) (CHR 0x22) of None \<Rightarrow> None
          | Some q2 \<Rightarrow> Some (takeWhile (\<lambda>c. c \<noteq> CHR 0x22) (tl q1))))"

definition wt_policy_extract_name :: "string \<Rightarrow> nat \<Rightarrow> string option" where
  "wt_policy_extract_name json cap =
     (if cap = 0 then None
      else case strstr json (qkey ''name'') of None \<Rightarrow> None
      | Some pos \<Rightarrow>
         (case strchr pos (CHR '':'') of None \<Rightarrow> None
          | Some colon \<Rightarrow> map_option (cch_copy cap) (first_quoted colon)))"

definition policy_read :: "string \<Rightarrow> WT_ServicePolicy" where
  \<comment> \<open>the fields found in the file, the defaults for the rest\<close>
  "policy_read buf =
     (let out = wt_service_policy_defaults;
          out = (case wt_policy_extract_name buf WT_SERVICE_POLICY_NAME_MAX of None \<Rightarrow> out
                 | Some name \<Rightarrow> out\<lparr>sp_name := cch_copy WT_SERVICE_POLICY_NAME_MAX name\<rparr>);
          out = (case wt_policy_extract_uint buf ''scan_interval_ms'' of None \<Rightarrow> out
                 | Some v \<Rightarrow> out\<lparr>sp_scan_interval_ms := v\<rparr>);
          out = (case wt_policy_extract_uint buf ''sample_count'' of None \<Rightarrow> out
                 | Some v \<Rightarrow> if v > 0 then out\<lparr>sp_sample_count := v\<rparr> else out);
          out = (case wt_policy_extract_uint buf ''top_process_limit'' of None \<Rightarrow> out
                 | Some v \<Rightarrow> if v > 0 then out\<lparr>sp_top_process_limit := v\<rparr> else out)
      in (case wt_policy_extract_uint buf ''history_keep'' of None \<Rightarrow> out
          | Some v \<Rightarrow> out\<lparr>sp_history_keep := (if v > 8 then 8 else v)\<rparr>))"

definition wt_service_policy_load :: "service_env \<Rightarrow> machine \<Rightarrow> WT_ServicePolicy" where
  \<comment> \<open>every path returns \<open>WT_OK\<close>\<close>
  "wt_service_policy_load x m =
     (case wt_service_policy_path x MAX_PATH of (r, path) \<Rightarrow>
        if r \<noteq> WT_OK then wt_service_policy_defaults
        else case mc_files m path of None \<Rightarrow> wt_service_policy_defaults
          | Some t \<Rightarrow>
             (if \<not> sx_open x path \<or> t = [] \<or> length t > 64 * 1024 then wt_service_policy_defaults
              else policy_read (takeWhile (\<lambda>c. c \<noteq> CHR 0x00) t)))"

definition policy_text :: "WT_ServicePolicy \<Rightarrow> string" where
  "policy_text p = cch_copy 512
     (''{'' @ nl @
      ''  '' @ qkey ''version'' @ '': 1,'' @ nl @
      ''  '' @ qkey ''name'' @ '': '' @ qkey (sp_name p) @ '','' @ nl @
      ''  '' @ qkey ''scan_interval_ms'' @ '': '' @ dec (sp_scan_interval_ms p) @ '','' @ nl @
      ''  '' @ qkey ''sample_count'' @ '': '' @ dec (sp_sample_count p) @ '','' @ nl @
      ''  '' @ qkey ''top_process_limit'' @ '': '' @ dec (sp_top_process_limit p) @ '','' @ nl @
      ''  '' @ qkey ''history_keep'' @ '': '' @ dec (sp_history_keep p) @ nl @
      ''}'' @ nl)"

definition wt_service_policy_save :: "service_env \<Rightarrow> WT_ServicePolicy \<Rightarrow> machine \<Rightarrow> WT_Result \<times> machine" where
  "wt_service_policy_save x p m =
     (if sp_name p = [] then (WT_ERR_INVALID_ARGUMENT, m)
      else case wt_paths_program_data_dir x MAX_PATH of (r, dir) \<Rightarrow>
        if r \<noteq> WT_OK then (r, m)
        else if wt_paths_ensure_dir (sx_action x) dir \<noteq> WT_OK then (wt_paths_ensure_dir (sx_action x) dir, m)
        else case wt_service_policy_path x MAX_PATH of (r, path) \<Rightarrow>
          if r \<noteq> WT_OK then (r, m) else create_and_write x path (policy_text p) m)"

definition remove_file :: "service_env \<Rightarrow> string \<Rightarrow> machine \<Rightarrow> WT_Result \<times> machine" where
  "remove_file x path m =
     (if mc_files m path = None then (WT_OK, m)
      else case delete_file x path m of (e, m) \<Rightarrow>
        case e of None \<Rightarrow> (WT_OK, m)
        | Some err \<Rightarrow> (if err = ERROR_FILE_NOT_FOUND then WT_OK else WT_ERR_WIN32, m))"

definition wt_service_policy_remove :: "service_env \<Rightarrow> machine \<Rightarrow> WT_Result \<times> machine" where
  "wt_service_policy_remove x m =
     (case wt_service_policy_path x MAX_PATH of (r, path) \<Rightarrow>
        if r \<noteq> WT_OK then (r, m) else remove_file x path m)"

definition wt_service_policy_describe :: "WT_ServicePolicy option \<Rightarrow> string" where
  "wt_service_policy_describe p =
     (case p of None \<Rightarrow> ''unknown''
      | Some q \<Rightarrow>
         if sp_name q = ''performance'' then ''Frequent scans (5 min), deeper samples''
         else if sp_name q = ''light'' then ''Infrequent scans (60 min), light samples''
         else if sp_name q = ''on-demand'' then ''No periodic scans; start + IPC only''
         else ''Balanced periodic scans (15 min)'')"

section \<open>The cached scans\<close>

definition slot_path :: "string \<Rightarrow> nat \<Rightarrow> string" where
  "slot_path dir i = dir @ bsl ''/last_scan.'' @ dec i @ ''.json''"

fun rotate_loop :: "service_env \<Rightarrow> string \<Rightarrow> nat \<Rightarrow> machine \<Rightarrow> WT_Result \<times> machine" where
  \<comment> \<open>\<open>for (i = keep; i >= 2; --i)\<close>; the result of each move is ignored\<close>
  "rotate_loop x dir 0 m = (WT_OK, m)"
| "rotate_loop x dir (Suc i) m =
     (if i = 0 then (WT_OK, m)
      else if \<not> cch_fits MAX_PATH (slot_path dir i) \<or> \<not> cch_fits MAX_PATH (slot_path dir (Suc i))
      then (WT_ERR_BUFFER_TOO_SMALL, m)
      else rotate_loop x dir i (snd (move_file x (slot_path dir i) (slot_path dir (Suc i)) m)))"

definition wt_service_policy_rotate_last_scan :: "service_env \<Rightarrow> WT_ServicePolicy \<Rightarrow> machine \<Rightarrow> WT_Result \<times> machine" where
  "wt_service_policy_rotate_last_scan x p m =
     (case wt_paths_last_scan_file x MAX_PATH of (r, current) \<Rightarrow>
        if r \<noteq> WT_OK then (r, m)
        else if mc_files m current = None then (WT_OK, m)
        else if sp_history_keep p = 0 then (WT_OK, m)
        else case wt_paths_program_data_dir x MAX_PATH of (r, dir) \<Rightarrow>
          if r \<noteq> WT_OK then (r, m)
          else if \<not> cch_fits MAX_PATH (slot_path dir (sp_history_keep p)) then (WT_ERR_BUFFER_TOO_SMALL, m)
          else let m = snd (delete_file x (slot_path dir (sp_history_keep p)) m)
               in case rotate_loop x dir (sp_history_keep p) m of (r, m) \<Rightarrow>
                 if r \<noteq> WT_OK then (r, m)
                 else if \<not> cch_fits MAX_PATH (slot_path dir 1) then (WT_ERR_BUFFER_TOO_SMALL, m)
                 else (WT_OK, snd (move_file x current (slot_path dir 1) m)))"

definition service_scan :: "service_env \<Rightarrow> WT_ScanOptions \<Rightarrow> nat \<Rightarrow> WT_ScanReport" where
  "service_scan x opts k = snd (wt_run_scan (Some opts) (sx_scan x k))"

definition cached_scan_text :: "service_env \<Rightarrow> WT_ServicePolicy \<Rightarrow> nat \<Rightarrow> string" where
  "cached_scan_text x p k =
     (let report = service_scan x \<lparr>so_cpu_sample_ms = 0, so_sample_count = sp_sample_count p,
            so_sample_interval_ms = 0, so_top_limit = sp_top_process_limit p\<rparr> k
      in report_text (sx_json x) (Scan_Doc report (Some (snd (wt_generate_recommendations (sx_recs x) (Some report))))))"

definition wt_service_run_scan_and_cache :: "service_env \<Rightarrow> service_state \<Rightarrow> service_state" where
  "wt_service_run_scan_and_cache x st =
     (let m = ss_machine st;
          p = wt_service_policy_load x m;
          json = cached_scan_text x p (ss_scans st);
          m = (case wt_paths_last_scan_file x MAX_PATH of (r, path) \<Rightarrow>
                 if r \<noteq> WT_OK then m
                 else let m = snd (wt_service_policy_rotate_last_scan x p m)
                      in if ae_create_file (sx_action x) path then put_file path (Some json) m else m)
      in st\<lparr>ss_machine := m, ss_scans := Suc (ss_scans st)\<rparr>)"

definition wt_service_scan_interval_ms :: "service_env \<Rightarrow> machine \<Rightarrow> nat" where
  "wt_service_scan_interval_ms x m = sp_scan_interval_ms (wt_service_policy_load x m)"

end
