(* ===== verification/Service_Ipc.thy ===== *)
theory Service_Ipc
  imports Service_Policy
begin

text \<open>
  The named pipe between the command line and the service (\<open>src/platform/service_ipc.c\<close>): the mode of its access
  list, the loops that write and read whole buffers, and the frames, a magic number and a length before the text.
  \<open>pipe_os\<close> decides how many bytes each \<open>WriteFile\<close> and \<open>ReadFile\<close> moves; a read with nothing left to come fails, as on
  a pipe the peer has closed.
\<close>

section \<open>Access modes\<close>

datatype WT_IpcAclMode = WT_IPC_ACL_ADMIN | WT_IPC_ACL_ADMIN_ONLY

definition wt_service_ipc_acl_from_name :: "string option \<Rightarrow> (WT_Result, WT_IpcAclMode) sum" where
  "wt_service_ipc_acl_from_name name =
     (let named = (\<lambda>w. case name of None \<Rightarrow> False | Some n \<Rightarrow> wcsicmp n w) in
      if name = None \<or> name = Some [] \<or> named ''admin'' \<or> named ''default'' \<or> named ''local-admin''
      then Inr WT_IPC_ACL_ADMIN
      else if named ''admin-only'' \<or> named ''adminonly'' \<or> named ''strict'' then Inr WT_IPC_ACL_ADMIN_ONLY
      else Inl WT_ERR_NOT_FOUND)"

definition wt_service_ipc_acl_name :: "WT_IpcAclMode \<Rightarrow> string" where
  "wt_service_ipc_acl_name mode = (if mode = WT_IPC_ACL_ADMIN_ONLY then ''admin-only'' else ''admin'')"

definition wt_service_ipc_acl_describe :: "WT_IpcAclMode \<Rightarrow> string" where
  "wt_service_ipc_acl_describe mode =
     (if mode = WT_IPC_ACL_ADMIN_ONLY then ''SYSTEM + local Administrators only; deny Everyone/Network''
      else ''SYSTEM + local Administrators (default)'')"

definition WT_IPC_SDDL_ADMIN :: string where
  "WT_IPC_SDDL_ADMIN = ''O:BAG:BAD:(A;;GA;;;SY)(A;;GA;;;BA)''"

definition WT_IPC_SDDL_ADMIN_ONLY :: string where
  "WT_IPC_SDDL_ADMIN_ONLY = ''O:BAG:BAD:P(A;;GA;;;SY)(A;;GA;;;BA)(D;;GA;;;WD)(D;;GA;;;AN)(D;;GA;;;NU)''"

definition wt_service_ipc_acl_sddl :: "WT_IpcAclMode \<Rightarrow> string" where
  "wt_service_ipc_acl_sddl mode = (if mode = WT_IPC_ACL_ADMIN_ONLY then WT_IPC_SDDL_ADMIN_ONLY else WT_IPC_SDDL_ADMIN)"

definition wt_service_ipc_acl_path :: "service_env \<Rightarrow> nat \<Rightarrow> WT_Result \<times> string" where
  "wt_service_ipc_acl_path x count =
     (if count = 0 then (WT_ERR_INVALID_ARGUMENT, []) else data_file x ''pipe_acl.json'' count)"

definition wt_service_ipc_acl_load :: "service_env \<Rightarrow> machine \<Rightarrow> WT_IpcAclMode" where
  \<comment> \<open>every path returns \<open>WT_OK\<close>; the first 255 bytes of the file are read\<close>
  "wt_service_ipc_acl_load x m =
     (case wt_service_ipc_acl_path x MAX_PATH of (r, path) \<Rightarrow>
        if r \<noteq> WT_OK then WT_IPC_ACL_ADMIN
        else case mc_files m path of None \<Rightarrow> WT_IPC_ACL_ADMIN
          | Some t \<Rightarrow>
             (if \<not> sx_open x path \<or> t = [] then WT_IPC_ACL_ADMIN
              else let buf = takeWhile (\<lambda>c. c \<noteq> CHR 0x00) (take 255 t)
                in if contains_str buf ''admin-only'' \<or> contains_str buf ''adminonly'' \<or> contains_str buf ''strict''
                   then WT_IPC_ACL_ADMIN_ONLY else WT_IPC_ACL_ADMIN))"

definition acl_text :: "WT_IpcAclMode \<Rightarrow> string" where
  "acl_text mode = cch_copy 256
     (''{'' @ nl @
      ''  '' @ qkey ''version'' @ '': 1,'' @ nl @
      ''  '' @ qkey ''mode'' @ '': '' @ qkey (wt_service_ipc_acl_name mode) @ '','' @ nl @
      ''  '' @ qkey ''description'' @ '': '' @ qkey (wt_service_ipc_acl_describe mode) @ '','' @ nl @
      ''  '' @ qkey ''reject_remote'' @ '': true'' @ nl @
      ''}'' @ nl)"

definition wt_service_ipc_acl_save :: "service_env \<Rightarrow> WT_IpcAclMode \<Rightarrow> machine \<Rightarrow> WT_Result \<times> machine" where
  "wt_service_ipc_acl_save x mode m =
     (case wt_paths_program_data_dir x MAX_PATH of (r, dir) \<Rightarrow>
        if r \<noteq> WT_OK then (r, m)
        else if wt_paths_ensure_dir (sx_action x) dir \<noteq> WT_OK then (wt_paths_ensure_dir (sx_action x) dir, m)
        else case wt_service_ipc_acl_path x MAX_PATH of (r, path) \<Rightarrow>
          if r \<noteq> WT_OK then (r, m) else create_and_write x path (acl_text mode) m)"

definition wt_service_ipc_acl_remove :: "service_env \<Rightarrow> machine \<Rightarrow> WT_Result \<times> machine" where
  "wt_service_ipc_acl_remove x m =
     (case wt_service_ipc_acl_path x MAX_PATH of (r, path) \<Rightarrow>
        if r \<noteq> WT_OK then (r, m) else remove_file x path m)"

definition wt_service_ipc_print_access_denied :: string where
  "wt_service_ipc_print_access_denied =
     ''Access to the WinTune named pipe was denied by the pipe ACL.'' @ nl @
     ''The service accepts only local SYSTEM / Administrators (and rejects remote clients).'' @ nl @
     ''Run an elevated shell, or use a process in the Administrators group.'' @ nl @
     ''Check mode: wintune service status   (pipe_acl: admin | admin-only)'' @ nl @
     ''Change mode (admin): wintune service set-pipe-acl admin'' @ nl"

section \<open>Bytes through the pipe\<close>

definition WT_IPC_MAGIC :: u32 where "WT_IPC_MAGIC = 0x31504957"
definition IPC_REQUEST_MAX :: nat where "IPC_REQUEST_MAX = 1024 * 1024"
definition IPC_RESPONSE_MAX :: nat where "IPC_RESPONSE_MAX = 16 * 1024 * 1024"

definition wt_ipc_map_create_error :: "nat \<Rightarrow> WT_Result" where
  \<comment> \<open>5 access denied, 1314 privilege not held, 2 file not found, 231 pipe busy\<close>
  "wt_ipc_map_create_error err =
     (if err = 5 \<or> err = 1314 then WT_ERR_ACCESS_DENIED
      else if err = 2 \<or> err = 231 then (if err = 2 then WT_ERR_NOT_FOUND else WT_ERR_TIMEOUT)
      else WT_ERR_WIN32)"

record pipe_os =
  po_write :: "nat \<Rightarrow> nat \<Rightarrow> nat option"     \<comment> \<open>call number, bytes offered; None when \<open>WriteFile\<close> fails\<close>
  po_read :: "nat \<Rightarrow> nat \<Rightarrow> nat option"      \<comment> \<open>call number, bytes wanted\<close>

record pipe_end =
  pe_in :: "byte list"                     \<comment> \<open>what is still to come from the peer\<close>
  pe_out :: "byte list"                    \<comment> \<open>what was written to it\<close>
  pe_calls :: nat

definition next_call :: "pipe_end \<Rightarrow> pipe_end" where
  "next_call e = e\<lparr>pe_calls := Suc (pe_calls e)\<rparr>"

function wt_ipc_write_all :: "pipe_os \<Rightarrow> byte list \<Rightarrow> pipe_end \<Rightarrow> WT_Result \<times> pipe_end" where
  "wt_ipc_write_all os data e =
     (if data = [] then (WT_OK, e)
      else case po_write os (pe_calls e) (length data) of
        None \<Rightarrow> (WT_ERR_WIN32, next_call e)
      | Some n \<Rightarrow>
          (if n = 0 then (WT_ERR_WIN32, next_call e)
           else wt_ipc_write_all os (drop n data) ((next_call e)\<lparr>pe_out := pe_out e @ take n data\<rparr>)))"
  by pat_completeness auto
termination
  by (relation "measure (\<lambda>(os, data, e). length data)") auto

declare wt_ipc_write_all.simps [simp del]

function wt_ipc_read_all :: "pipe_os \<Rightarrow> nat \<Rightarrow> pipe_end \<Rightarrow> WT_Result \<times> byte list \<times> pipe_end" where
  \<comment> \<open>the bytes read so far come with every result\<close>
  "wt_ipc_read_all os len e =
     (if len = 0 then (WT_OK, [], e)
      else if pe_in e = [] then (WT_ERR_WIN32, [], next_call e)
      else case po_read os (pe_calls e) len of
        None \<Rightarrow> (WT_ERR_WIN32, [], next_call e)
      | Some n \<Rightarrow>
          (if n = 0 then (WT_ERR_TIMEOUT, [], next_call e)
           else let got = take (min n len) (pe_in e) in
             (case wt_ipc_read_all os (len - length got) ((next_call e)\<lparr>pe_in := drop (length got) (pe_in e)\<rparr>) of
                (r, later, e') \<Rightarrow> (r, got @ later, e'))))"
  by pat_completeness auto
termination
  by (relation "measure (\<lambda>(os, len, e). len)") auto

declare wt_ipc_read_all.simps [simp del]

section \<open>Frames\<close>

definition ipc_header :: "nat \<Rightarrow> byte list" where
  \<comment> \<open>\<open>WT_IpcHeader\<close> in memory: two little-endian 32-bit words\<close>
  "ipc_header len = wt_zip_put_u32 WT_IPC_MAGIC @ wt_zip_put_u32 (of_nat len)"

definition header_magic :: "byte list \<Rightarrow> nat" where "header_magic h = le_nat (take 4 h)"
definition header_length :: "byte list \<Rightarrow> nat" where "header_length h = le_nat (drop 4 h)"

definition bytes_str :: "byte list \<Rightarrow> string" where
  "bytes_str bs = map (\<lambda>b. char_of (unat b)) bs"

definition ipc_send :: "pipe_os \<Rightarrow> string \<Rightarrow> pipe_end \<Rightarrow> WT_Result \<times> pipe_end" where
  "ipc_send os body e =
     (case wt_ipc_write_all os (ipc_header (length body)) e of (r, e) \<Rightarrow>
        if r \<noteq> WT_OK then (r, e) else wt_ipc_write_all os (str_bytes body) e)"

record pipe_client =
  pl_os :: pipe_os
  pl_wait :: "nat option"                  \<comment> \<open>the error of \<open>WaitNamedPipeW\<close>\<close>
  pl_open :: "nat option"                  \<comment> \<open>the error of \<open>CreateFileW\<close>\<close>

definition wt_service_ipc_call :: "pipe_client \<Rightarrow> (byte list \<Rightarrow> byte list) \<Rightarrow> string \<Rightarrow> (WT_Result, string) sum" where
  \<comment> \<open>\<open>peer\<close>: what the service sends back for the bytes it received\<close>
  "wt_service_ipc_call c peer request =
     (case pl_wait c of Some err \<Rightarrow> Inl (wt_ipc_map_create_error err)
      | None \<Rightarrow>
         (case pl_open c of Some err \<Rightarrow> Inl (wt_ipc_map_create_error err)
          | None \<Rightarrow>
             (if length request > IPC_REQUEST_MAX then Inl WT_ERR_INVALID_ARGUMENT
              else case ipc_send (pl_os c) request \<lparr>pe_in = [], pe_out = [], pe_calls = 0\<rparr> of (r, e) \<Rightarrow>
                if r \<noteq> WT_OK then Inl r
                else case wt_ipc_read_all (pl_os c) 8 (e\<lparr>pe_in := peer (pe_out e)\<rparr>) of (r, h, e) \<Rightarrow>
                  if r \<noteq> WT_OK then Inl r
                  else if header_magic h \<noteq> unat WT_IPC_MAGIC \<or> header_length h = 0 \<or> header_length h > IPC_RESPONSE_MAX
                  then Inl WT_ERR_UNKNOWN
                  else case wt_ipc_read_all (pl_os c) (header_length h) e of (r, body, e) \<Rightarrow>
                    if r \<noteq> WT_OK then Inl r else Inr (bytes_str body))))"

definition wt_service_ipc_send_response :: "pipe_os \<Rightarrow> string \<Rightarrow> pipe_end \<Rightarrow> WT_Result \<times> pipe_end" where
  "wt_service_ipc_send_response os response e =
     (if length response > IPC_RESPONSE_MAX then (WT_ERR_BUFFER_TOO_SMALL, e) else ipc_send os response e)"

definition wt_service_ipc_read_request :: "pipe_os \<Rightarrow> pipe_end \<Rightarrow> (WT_Result, string) sum \<times> pipe_end" where
  "wt_service_ipc_read_request os e =
     (case wt_ipc_read_all os 8 e of (r, h, e) \<Rightarrow>
        if r \<noteq> WT_OK then (Inl r, e)
        else if header_magic h \<noteq> unat WT_IPC_MAGIC \<or> header_length h = 0 \<or> header_length h > IPC_REQUEST_MAX
        then (Inl WT_ERR_INVALID_ARGUMENT, e)
        else case wt_ipc_read_all os (header_length h) e of (r, body, e) \<Rightarrow>
          if r \<noteq> WT_OK then (Inl r, e) else (Inr (bytes_str body), e))"

section \<open>A frame arrives whole\<close>

definition pipe_moves :: "pipe_os \<Rightarrow> bool" where
  \<comment> \<open>every call moves something, however little\<close>
  "pipe_moves os \<longleftrightarrow> (\<forall>k n. 0 < n \<longrightarrow> po_write os k n \<notin> {None, Some 0} \<and> po_read os k n \<notin> {None, Some 0})"

lemma write_all_ok:
  assumes "pipe_moves os"
  shows "\<exists>k. wt_ipc_write_all os data e = (WT_OK, e\<lparr>pe_out := pe_out e @ data, pe_calls := k\<rparr>)"
proof (induction "length data" arbitrary: data e rule: less_induct)
  case less
  show ?case
  proof (cases "data = []")
    case True
    have "e\<lparr>pe_out := pe_out e, pe_calls := pe_calls e\<rparr> = e" by simp
    then show ?thesis using True by (metis append_Nil2 wt_ipc_write_all.simps)
  next
    case False
    then obtain n where n: "po_write os (pe_calls e) (length data) = Some n" "0 < n"
      using assms unfolding pipe_moves_def by (metis gr0I insertCI length_greater_0_conv not_None_eq)
    let ?e = "(next_call e)\<lparr>pe_out := pe_out e @ take n data\<rparr>"
    have "length (drop n data) < length data" using n False by simp
    from less [OF this, of ?e] obtain k where
      "wt_ipc_write_all os (drop n data) ?e = (WT_OK, ?e\<lparr>pe_out := pe_out ?e @ drop n data, pe_calls := k\<rparr>)" by blast
    then show ?thesis
      using False n by (simp add: wt_ipc_write_all.simps [of os data e] next_call_def) (rule exI, rule refl)
  qed
qed

lemma read_all_ok:
  assumes "pipe_moves os"
  shows "\<exists>k. wt_ipc_read_all os (length data) (e\<lparr>pe_in := data @ rest\<rparr>) = (WT_OK, data, e\<lparr>pe_in := rest, pe_calls := k\<rparr>)"
proof (induction "length data" arbitrary: data e rule: less_induct)
  case less
  show ?case
  proof (cases "data = []")
    case True
    then have "wt_ipc_read_all os (length data) (e\<lparr>pe_in := data @ rest\<rparr>) = (WT_OK, data, e\<lparr>pe_in := rest, pe_calls := pe_calls e\<rparr>)"
      by (simp add: wt_ipc_read_all.simps [of os 0])
    then show ?thesis by blast
  next
    case False
    then obtain n where n: "po_read os (pe_calls e) (length data) = Some n" "0 < n"
      using assms unfolding pipe_moves_def by (metis gr0I insertCI length_greater_0_conv not_None_eq)
    let ?got = "take n data" and ?e = "next_call e"
    have lt: "length (drop n data) < length data" using n False by simp
    have got: "take (min n (length data)) (data @ rest) = ?got" by (simp add: min_def)
    have split: "drop (length ?got) (data @ rest) = drop n data @ rest" by (simp add: min_def)
    from less [OF lt, of ?e] obtain k where
      r: "wt_ipc_read_all os (length (drop n data)) (?e\<lparr>pe_in := drop n data @ rest\<rparr>) =
        (WT_OK, drop n data, ?e\<lparr>pe_in := rest, pe_calls := k\<rparr>)" by blast
    have len: "length data - length ?got = length (drop n data)" by simp
    have "wt_ipc_read_all os (length data) (e\<lparr>pe_in := data @ rest\<rparr>) =
        (WT_OK, ?got @ drop n data, ?e\<lparr>pe_in := rest, pe_calls := k\<rparr>)"
      using False n r
      by (cases "n < length data") (simp_all add: wt_ipc_read_all.simps [of os "length data"] got split len Let_def next_call_def min_absorb2)
    then show ?thesis by (auto simp: next_call_def)
  qed
qed

lemma header_fields:
  assumes "n < 2 ^ 32"
  shows "length (ipc_header n) = 8" "header_magic (ipc_header n) = unat WT_IPC_MAGIC" "header_length (ipc_header n) = n"
  using assms by (simp_all add: ipc_header_def header_magic_def header_length_def unat_of_nat)

lemma unat_of_char: "unat (of_char c :: byte) = of_char c"
proof -
  have "(of_char c :: byte) = of_nat (of_char c)" by (simp add: of_nat_of_char)
  moreover have "(of_char c :: nat) < 256" by simp
  ultimately show ?thesis by (simp add: unat_of_nat take_bit_nat_eq_self)
qed

lemma bytes_str_inverse [simp]: "bytes_str (str_bytes s) = s"
  by (induction s) (simp_all add: bytes_str_def str_bytes_def unat_of_char)

lemma ipc_send_ok:
  assumes "pipe_moves os"
  shows "\<exists>k. ipc_send os body e = (WT_OK, e\<lparr>pe_out := pe_out e @ ipc_header (length body) @ str_bytes body, pe_calls := k\<rparr>)"
proof -
  obtain k where 1: "wt_ipc_write_all os (ipc_header (length body)) e =
      (WT_OK, e\<lparr>pe_out := pe_out e @ ipc_header (length body), pe_calls := k\<rparr>)"
    using write_all_ok [OF assms] by blast
  let ?e = "e\<lparr>pe_out := pe_out e @ ipc_header (length body), pe_calls := k\<rparr>"
  obtain k2 where "wt_ipc_write_all os (str_bytes body) ?e = (WT_OK, ?e\<lparr>pe_out := pe_out ?e @ str_bytes body, pe_calls := k2\<rparr>)"
    using write_all_ok [OF assms] by blast
  then show ?thesis by (auto simp: ipc_send_def 1)
qed

lemma frame_received:
  assumes "pipe_moves os" "length body < 2 ^ 32"
  obtains e1 e2 where
    "wt_ipc_read_all os 8 (e\<lparr>pe_in := ipc_header (length body) @ str_bytes body @ rest\<rparr>) = (WT_OK, ipc_header (length body), e1)"
    "wt_ipc_read_all os (length body) e1 = (WT_OK, str_bytes body, e2)"
proof -
  obtain k where 1: "wt_ipc_read_all os 8 (e\<lparr>pe_in := ipc_header (length body) @ str_bytes body @ rest\<rparr>) =
      (WT_OK, ipc_header (length body), e\<lparr>pe_in := str_bytes body @ rest, pe_calls := k\<rparr>)"
    using read_all_ok [OF assms(1), where data = "ipc_header (length body)" and e = e and rest = "str_bytes body @ rest"] header_fields(1) [OF assms(2)]
    by auto
  have eq: "(e\<lparr>pe_calls := k\<rparr>)\<lparr>pe_in := str_bytes body @ rest\<rparr> = e\<lparr>pe_in := str_bytes body @ rest, pe_calls := k\<rparr>" by simp
  obtain k2 where "wt_ipc_read_all os (length (str_bytes body)) (e\<lparr>pe_in := str_bytes body @ rest, pe_calls := k\<rparr>) =
      (WT_OK, str_bytes body, (e\<lparr>pe_calls := k\<rparr>)\<lparr>pe_in := rest, pe_calls := k2\<rparr>)"
    using read_all_ok [OF assms(1), where data = "str_bytes body" and e = "e\<lparr>pe_calls := k\<rparr>" and rest = rest]
    unfolding eq by blast
  then have "wt_ipc_read_all os (length body) (e\<lparr>pe_in := str_bytes body @ rest, pe_calls := k\<rparr>) =
      (WT_OK, str_bytes body, (e\<lparr>pe_calls := k\<rparr>)\<lparr>pe_in := rest, pe_calls := k2\<rparr>)"
    by (simp add: str_bytes_def)
  with 1 show thesis by (rule that)
qed

lemma request_received:
  assumes "pipe_moves os" "body \<noteq> []" "length body \<le> IPC_REQUEST_MAX"
  shows "fst (wt_service_ipc_read_request os (e\<lparr>pe_in := ipc_header (length body) @ str_bytes body\<rparr>)) = Inr body"
proof -
  have l: "length body < 2 ^ 32" using assms(3) by (simp add: IPC_REQUEST_MAX_def)
  obtain e1 e2 where "wt_ipc_read_all os 8 (e\<lparr>pe_in := ipc_header (length body) @ str_bytes body @ []\<rparr>) =
      (WT_OK, ipc_header (length body), e1)" "wt_ipc_read_all os (length body) e1 = (WT_OK, str_bytes body, e2)"
    by (rule frame_received [OF assms(1) l])
  then show ?thesis
    using assms(2,3) header_fields(2,3) [OF l] by (simp add: wt_service_ipc_read_request_def)
qed

lemma read_all_out: "wt_ipc_read_all os len e = (r, bs, e') \<Longrightarrow> pe_out e' = pe_out e"
proof (induction os len e arbitrary: bs e' rule: wt_ipc_read_all.induct)
  case (1 os len e)
  show ?case
    using 1(2) 1(1) by (subst (asm) wt_ipc_read_all.simps)
      (auto simp: next_call_def Let_def split: if_splits option.splits prod.splits)
qed

lemma read_request_out: "pe_out (snd (wt_service_ipc_read_request os e)) = pe_out e"
  by (auto simp: wt_service_ipc_read_request_def dest!: read_all_out split: prod.splits)

lemma call_answered:
  assumes "pipe_moves (pl_os c)" "pl_wait c = None" "pl_open c = None" "length request \<le> IPC_REQUEST_MAX"
    and "peer (ipc_header (length request) @ str_bytes request) = ipc_header (length body) @ str_bytes body"
    and "body \<noteq> []" "length body \<le> IPC_RESPONSE_MAX"
  shows "wt_service_ipc_call c peer request = Inr body"
proof -
  have l: "length body < 2 ^ 32" using assms(7) by (simp add: IPC_RESPONSE_MAX_def)
  let ?e0 = "\<lparr>pe_in = [], pe_out = [], pe_calls = 0\<rparr> :: pipe_end"
  obtain k where s: "ipc_send (pl_os c) request ?e0 =
      (WT_OK, ?e0\<lparr>pe_out := ipc_header (length request) @ str_bytes request, pe_calls := k\<rparr>)"
    using ipc_send_ok [OF assms(1), of request ?e0] by auto
  let ?e = "\<lparr>pe_in = [], pe_out = ipc_header (length request) @ str_bytes request, pe_calls = k\<rparr> :: pipe_end"
  obtain e1 e2 where "wt_ipc_read_all (pl_os c) 8 (?e\<lparr>pe_in := ipc_header (length body) @ str_bytes body @ []\<rparr>) =
      (WT_OK, ipc_header (length body), e1)" "wt_ipc_read_all (pl_os c) (length body) e1 = (WT_OK, str_bytes body, e2)"
    by (rule frame_received [OF assms(1) l])
  then show ?thesis
    using assms(2-) header_fields(2,3) [OF l] by (simp add: wt_service_ipc_call_def s)
qed

end
