(* ===== verification/Service_Dispatch.thy ===== *)
theory Service_Dispatch
  imports Service_Ipc Action_Map
begin

text \<open>
  The requests of the service (\<open>src/service/service_dispatch.c\<close>, \<open>wt_service_handle_pipe\<close> of \<open>service_main.c\<close>): the
  fields read from the text of a request, the action each command runs on the machine, and the response. The actions
  are those of \<open>Safe_Actions\<close> and \<open>Action_Map\<close>; \<open>dispatched\<close> is None only where one of them would not return. The
  scan report as text (\<open>text.c\<close>) is a parameter of \<open>service_env\<close>, the JSON report is \<open>report_text\<close>.
\<close>

section \<open>Reading a request\<close>

definition wt_json_extract_cmd :: "string \<Rightarrow> nat \<Rightarrow> string option" where
  "wt_json_extract_cmd json cap =
     (if cap = 0 then None
      else case strstr json (qkey ''cmd'') of None \<Rightarrow> None
      | Some key \<Rightarrow>
         (case strchr key (CHR '':'') of None \<Rightarrow> None
          | Some colon \<Rightarrow>
             (case first_quoted colon of None \<Rightarrow> None
              | Some c \<Rightarrow> if length c \<ge> cap then None else Some c)))"

definition after_colon :: "string \<Rightarrow> string \<Rightarrow> string option" where
  \<comment> \<open>from the first colon after the key in quotes\<close>
  "after_colon json field =
     (let pat = cch_copy 64 (qkey field) in
      case strstr json pat of None \<Rightarrow> None
      | Some key \<Rightarrow> strchr (drop (length pat) key) (CHR '':''))"

definition wt_json_extract_int :: "string \<Rightarrow> string \<Rightarrow> int option" where
  "wt_json_extract_int json field = map_option (\<lambda>colon. strtol (tl colon)) (after_colon json field)"

definition wt_json_extract_string_field :: "string \<Rightarrow> string \<Rightarrow> string option" where
  "wt_json_extract_string_field json field =
     (case after_colon json field of None \<Rightarrow> None | Some colon \<Rightarrow> first_quoted colon)"

definition int_field :: "string \<Rightarrow> string \<Rightarrow> int \<Rightarrow> int" where
  \<comment> \<open>the variable keeps its initial value when the field is missing\<close>
  "int_field json field d = (case wt_json_extract_int json field of None \<Rightarrow> d | Some v \<Rightarrow> v)"

definition wt_json_wants_text_format :: "string \<Rightarrow> bool" where
  "wt_json_wants_text_format json \<longleftrightarrow>
     contains_str json (qkey ''format'' @ '':'' @ qkey ''text'') \<or> contains_str json (qkey ''format'' @ '': '' @ qkey ''text'')"

section \<open>Responses\<close>

definition json_pair :: "string \<Rightarrow> string \<Rightarrow> string" where
  "json_pair k v = qkey k @ '':'' @ v"

definition wt_service_make_action_response :: "string \<Rightarrow> WT_Result \<Rightarrow> string \<Rightarrow> string" where
  \<comment> \<open>the message goes between quotes as it is\<close>
  "wt_service_make_action_response cmd result msg = cch_copy 768
     (if result = WT_OK
      then ''{'' @ json_pair ''ok'' ''true'' @ '','' @ json_pair ''cmd'' (qkey cmd) @ '','' @
           json_pair ''message'' (qkey (if msg \<noteq> [] then msg else ''ok'')) @ ''}''
      else ''{'' @ json_pair ''ok'' ''false'' @ '','' @ json_pair ''cmd'' (qkey cmd) @ '','' @
           json_pair ''error'' (qkey (wt_result_to_string result)) @ '','' @ json_pair ''message'' (qkey msg) @ ''}'')"

definition wt_service_make_error :: "string \<Rightarrow> string" where
  "wt_service_make_error msg = cch_copy 512 (''{'' @ json_pair ''ok'' ''false'' @ '','' @ json_pair ''error'' (qkey msg) @ ''}'')"

definition ping_response :: "service_env \<Rightarrow> string" where
  "ping_response x = cch_copy 256 (''{'' @ json_pair ''ok'' ''true'' @ '','' @ json_pair ''cmd'' (qkey ''pong'') @ '','' @
     json_pair ''version'' (qkey WT_VERSION_STRING) @ '','' @
     json_pair ''elevated'' (json_bool_text (ae_elevated (sx_action x))) @ ''}'')"

definition status_response :: "service_env \<Rightarrow> machine \<Rightarrow> string" where
  "status_response x m =
     (let ts = (case sx_now x (mc_clock m) of None \<Rightarrow> [] | Some t \<Rightarrow> cch_copy 32 t);
          has_scan = (case wt_paths_last_scan_file x MAX_PATH of (r, path) \<Rightarrow> r = WT_OK \<and> mc_files m path \<noteq> None);
          p = wt_service_policy_load x m
      in cch_copy 768 (''{'' @ json_pair ''ok'' ''true'' @ '','' @ json_pair ''cmd'' (qkey ''status'') @ '','' @
           json_pair ''running'' ''true'' @ '','' @ json_pair ''elevated'' (json_bool_text (ae_elevated (sx_action x))) @ '','' @
           json_pair ''last_scan_cached'' (json_bool_text has_scan) @ '','' @ json_pair ''policy'' (qkey (sp_name p)) @ '','' @
           json_pair ''scan_interval_ms'' (dec (sp_scan_interval_ms p)) @ '','' @
           json_pair ''sample_count'' (dec (sp_sample_count p)) @ '','' @
           json_pair ''history_keep'' (dec (sp_history_keep p)) @ '','' @
           json_pair ''pipe_acl'' (qkey (wt_service_ipc_acl_name (wt_service_ipc_acl_load x m))) @ '','' @
           json_pair ''reject_remote'' ''true'' @ '','' @ json_pair ''timestamp_utc'' (qkey ts) @ ''}''))"

section \<open>The commands\<close>

type_synonym served = "(WT_Result \<times> string \<times> service_state) option"

definition answered :: "string \<Rightarrow> service_state \<Rightarrow> served" where
  "answered text st = Some (WT_OK, text, st)"

definition acted :: "string \<Rightarrow> (WT_Result \<times> string \<times> machine) option \<Rightarrow> service_state \<Rightarrow> served" where
  \<comment> \<open>the response to an action's result and message\<close>
  "acted cmd res st =
     (case res of None \<Rightarrow> None
      | Some (r, msg, m) \<Rightarrow> answered (wt_service_make_action_response cmd r msg) (st\<lparr>ss_machine := m\<rparr>))"

definition wt_service_scan_writer :: "service_env \<Rightarrow> bool \<Rightarrow> bool \<Rightarrow> bool \<Rightarrow> WT_ScanReport \<Rightarrow> string" where
  "wt_service_scan_writer x include_recs doctor_summary text_format report =
     (let recs = (if include_recs then snd (wt_generate_recommendations (sx_recs x) (Some report)) else [])
      in if text_format
         then sx_text x report (if include_recs then Some recs else None) @ (if doctor_summary then sx_summary x recs else [])
         else report_text (sx_json x) (Scan_Doc report (if include_recs then Some recs else None)))"

definition serve_scan :: "service_env \<Rightarrow> string \<Rightarrow> string \<Rightarrow> service_state \<Rightarrow> served" where
  "serve_scan x cmd json st =
     (let interval = int_field json ''interval_ms'' 0;
          report = service_scan x \<lparr>so_cpu_sample_ms = (if interval > 0 then nat interval else 0), so_sample_count = 0,
            so_sample_interval_ms = 0, so_top_limit = 0\<rparr> (ss_scans st);
          doctor = (cmd = ''doctor'');
          body = wt_service_scan_writer x doctor doctor (wt_json_wants_text_format json) report
      in answered body (wt_service_run_scan_and_cache x (st\<lparr>ss_scans := Suc (ss_scans st)\<rparr>)))"

definition serve_power_set :: "service_env \<Rightarrow> string \<Rightarrow> service_state \<Rightarrow> served" where
  "serve_power_set x json st =
     (case wt_json_extract_string_field json ''plan'' of
        None \<Rightarrow> answered (wt_service_make_error ''power_set requires plan'') st
      | Some plan \<Rightarrow>
         (case sx_wide x 64 plan of
            None \<Rightarrow> answered (wt_service_make_error ''invalid plan'') st
          | Some wplan \<Rightarrow>
             (let target = wt_power_scheme_from_token (Some wplan) in
              if target = WT_POWER_UNKNOWN then answered (wt_service_make_error ''unknown power plan'') st
              else acted ''power_set''
                     (Some (wt_action_set_power_plan (sx_action x) target (int_field json ''yes'' 0 \<noteq> 0) 512 (ss_machine st))) st)))"

definition serve_restart_service :: "service_env \<Rightarrow> string \<Rightarrow> service_state \<Rightarrow> served" where
  "serve_restart_service x json st =
     (case wt_json_extract_string_field json ''name'' of
        None \<Rightarrow> answered (wt_service_make_error ''restart_service requires name'') st
      | Some name \<Rightarrow>
         (case sx_wide x 256 name of
            None \<Rightarrow> answered (wt_service_make_error ''invalid name'') st
          | Some wname \<Rightarrow> acted ''restart_service''
              (wt_action_restart_service (sx_action x) wname (int_field json ''yes'' 0 \<noteq> 0) 512 (ss_machine st)) st))"

definition serve_startup_set :: "service_env \<Rightarrow> string \<Rightarrow> service_state \<Rightarrow> served" where
  "serve_startup_set x json st =
     (case wt_json_extract_string_field json ''id'' of
        None \<Rightarrow> answered (wt_service_make_error ''startup_set requires id'') st
      | Some i \<Rightarrow>
         (case sx_wide x 256 i of
            None \<Rightarrow> answered (wt_service_make_error ''invalid id'') st
          | Some wid \<Rightarrow> acted ''startup_set''
              (Some (wt_action_set_startup_enabled (sx_action x) wid (int_field json ''enable'' 1 \<noteq> 0)
                 (int_field json ''yes'' 0 \<noteq> 0) 512 (ss_machine st))) st))"

definition serve_startup_delay :: "service_env \<Rightarrow> string \<Rightarrow> service_state \<Rightarrow> served" where
  "serve_startup_delay x json st =
     (case wt_json_extract_string_field json ''id'' of
        None \<Rightarrow> answered (wt_service_make_error ''startup_delay requires id'') st
      | Some i \<Rightarrow>
         (let delay = int_field json ''delay_seconds'' 0 in
          if delay \<le> 0 then answered (wt_service_make_error ''startup_delay requires delay_seconds'') st
          else case sx_wide x 256 i of
            None \<Rightarrow> answered (wt_service_make_error ''invalid id'') st
          | Some wid \<Rightarrow> acted ''startup_delay''
              (Some (wt_action_set_startup_delay (sx_action x) wid (nat delay)
                 (int_field json ''yes'' 0 \<noteq> 0) 512 (ss_machine st))) st))"

definition serve_task_set :: "service_env \<Rightarrow> string \<Rightarrow> service_state \<Rightarrow> served" where
  "serve_task_set x json st =
     (case wt_json_extract_string_field json ''id'' of
        None \<Rightarrow> answered (wt_service_make_error ''task_set requires id'') st
      | Some i \<Rightarrow>
         (let yes = (int_field json ''yes'' 0 \<noteq> 0);
              delay = int_field json ''delay_seconds'' 0
          in case sx_wide x 256 i of
            None \<Rightarrow> answered (wt_service_make_error ''invalid id'') st
          | Some wid \<Rightarrow> acted ''task_set''
              (if delay > 0 then wt_action_set_task_delay (sx_action x) wid (nat delay) yes 512 (ss_machine st)
               else wt_action_set_task_enabled (sx_action x) wid (int_field json ''enable'' 1 \<noteq> 0) yes 512 (ss_machine st)) st))"

definition serve_apply :: "service_env \<Rightarrow> string \<Rightarrow> service_state \<Rightarrow> served" where
  "serve_apply x json st =
     (case wt_json_extract_string_field json ''id'' of
        None \<Rightarrow> answered (wt_service_make_error ''apply requires id'') st
      | Some i \<Rightarrow>
         (let target_id = wt_json_extract_string_field json ''target_id'';
              delay = int_field json ''delay_seconds'' 0
          in case sx_wide x 64 i of
            None \<Rightarrow> answered (wt_service_make_error ''invalid id'') st
          | Some wid \<Rightarrow>
             (case (if target_id = None \<or> target_id = Some [] then Some [] else sx_wide x 256 (the target_id)) of
                None \<Rightarrow> answered (wt_service_make_error ''invalid target_id'') st
              | Some wtarget \<Rightarrow> acted ''apply''
                  (wt_apply_recommendation (sx_action x) wid wtarget (if delay > 0 then nat delay else 0)
                     (int_field json ''yes'' 0 \<noteq> 0) 512 (ss_machine st)) st)))"

definition wt_service_handle_request :: "service_env \<Rightarrow> string \<Rightarrow> service_state \<Rightarrow> served" where
  "wt_service_handle_request x json st =
     (case wt_json_extract_cmd json 64 of
        None \<Rightarrow> answered (wt_service_make_error ''missing cmd'') st
      | Some cmd \<Rightarrow>
         if cmd = ''ping'' then answered (ping_response x) st
         else if cmd = ''status''
         then answered (status_response x (ss_machine st))
                (st\<lparr>ss_machine := (ss_machine st)\<lparr>mc_clock := Suc (mc_clock (ss_machine st))\<rparr>\<rparr>)
         else if cmd = ''scan'' \<or> cmd = ''doctor'' then serve_scan x cmd json st
         else if cmd = ''power_set'' then serve_power_set x json st
         else if cmd = ''restart_service'' then serve_restart_service x json st
         else if cmd = ''startup_set'' then serve_startup_set x json st
         else if cmd = ''startup_delay'' then serve_startup_delay x json st
         else if cmd = ''task_set'' then serve_task_set x json st
         else if cmd = ''apply'' then serve_apply x json st
         else answered (wt_service_make_error ''unknown cmd'') st)"

section \<open>One connection\<close>

definition wt_service_handle_pipe :: "service_env \<Rightarrow> pipe_os \<Rightarrow> pipe_end \<Rightarrow> service_state \<Rightarrow> (pipe_end \<times> service_state) option" where
  "wt_service_handle_pipe x os e st =
     (case wt_service_ipc_read_request os e of (req, e) \<Rightarrow>
        case req of Inl r \<Rightarrow> Some (e, st)
        | Inr json \<Rightarrow>
           (case wt_service_handle_request x (takeWhile (\<lambda>c. c \<noteq> CHR 0x00) json) st of
              None \<Rightarrow> None
            | Some (r, resp, st) \<Rightarrow>
                Some (snd (wt_service_ipc_send_response os
                  (if r = WT_OK then resp
                   else ''{'' @ json_pair ''ok'' ''false'' @ '','' @ json_pair ''error'' (qkey ''handler failed'') @ ''}'') e), st)))"

end
