(* ===== verification/Service_Client.thy ===== *)
theory Service_Client
  imports Service_Dispatch
begin

text \<open>
  The client of the service (\<open>src/platform/service_client.c\<close>): the request each function sends and what it takes from
  the response. \<open>client_env\<close> is the pipe, what the service sends back, and the conversion to UTF-8.
\<close>

record client_env =
  cl_pipe :: pipe_client
  cl_peer :: "byte list \<Rightarrow> byte list"
  cl_utf8 :: "nat \<Rightarrow> string \<Rightarrow> string option"     \<comment> \<open>\<open>WideCharToMultiByte\<close> into so many bytes\<close>

definition wt_service_client_extract_message :: "string \<Rightarrow> nat \<Rightarrow> string \<Rightarrow> string" where
  \<comment> \<open>the buffer keeps its text when there is no message\<close>
  "wt_service_client_extract_message resp cap msg =
     (if cap = 0 then msg
      else case strstr resp (qkey ''message'') of None \<Rightarrow> msg
      | Some key \<Rightarrow>
         (case strchr key (CHR '':'') of None \<Rightarrow> msg
          | Some colon \<Rightarrow> (case first_quoted colon of None \<Rightarrow> msg | Some t \<Rightarrow> cch_copy cap t)))"

definition response_ok :: "string \<Rightarrow> bool" where
  "response_ok resp \<longleftrightarrow> contains_str resp (qkey ''ok'' @ '':true'')"

definition wt_service_client_action :: "client_env \<Rightarrow> string \<Rightarrow> nat \<Rightarrow> string \<Rightarrow> WT_Result \<times> string" where
  "wt_service_client_action c req cap msg =
     (case wt_service_ipc_call (cl_pipe c) (cl_peer c) req of
        Inl r \<Rightarrow> (r, msg)
      | Inr body \<Rightarrow>
         (let resp = takeWhile (\<lambda>ch. ch \<noteq> CHR 0x00) body in
          (if response_ok resp then WT_OK else WT_ERR_UNKNOWN, wt_service_client_extract_message resp cap msg)))"

definition wt_service_client_ping :: "client_env \<Rightarrow> WT_Result" where
  "wt_service_client_ping c =
     (case wt_service_ipc_call (cl_pipe c) (cl_peer c) (''{'' @ json_pair ''cmd'' (qkey ''ping'') @ ''}'') of
        Inl r \<Rightarrow> r
      | Inr body \<Rightarrow> if response_ok (takeWhile (\<lambda>ch. ch \<noteq> CHR 0x00) body) then WT_OK else WT_ERR_UNKNOWN)"

definition wt_service_client_is_available :: "client_env \<Rightarrow> bool" where
  "wt_service_client_is_available c \<longleftrightarrow> wt_service_client_ping c = WT_OK"

definition wt_service_client_ipc_error_message :: "WT_Result \<Rightarrow> string" where
  "wt_service_client_ipc_error_message r =
     (if r = WT_ERR_ACCESS_DENIED
      then ''Named-pipe ACL denied this process. Run elevated, or adjust: wintune service set-pipe-acl admin''
      else if r = WT_ERR_NOT_FOUND
      then ''WinTune service is not reachable. Install/start: wintune service install && wintune service start''
      else if r = WT_ERR_TIMEOUT then ''WinTune service pipe is busy or timed out.''
      else ''WinTune service IPC failed.'')"

definition flag_digit :: "bool \<Rightarrow> string" where
  "flag_digit b = (if b then ''1'' else ''0'')"

definition request_text :: "nat \<Rightarrow> (string \<times> string) list \<Rightarrow> string" where
  \<comment> \<open>\<open>snprintf\<close> of the members into so many bytes\<close>
  "request_text cap ms = cch_copy cap (''{'' @ joined '','' (map (\<lambda>(k, v). json_pair k v) ms) @ ''}'')"

definition scan_request :: "bool \<Rightarrow> int \<Rightarrow> bool \<Rightarrow> string" where
  "scan_request doctor_mode interval_ms text_format =
     request_text 160 ([(''cmd'', qkey (if doctor_mode then ''doctor'' else ''scan''))] @
       (if interval_ms > 0 then [(''interval_ms'', dec_int interval_ms)] else []) @
       (if text_format then [(''format'', qkey ''text'')] else []))"

definition wt_service_client_scan :: "client_env \<Rightarrow> bool \<Rightarrow> int \<Rightarrow> bool \<Rightarrow> WT_Result \<times> string" where
  "wt_service_client_scan c doctor_mode interval_ms text_format =
     (case wt_service_ipc_call (cl_pipe c) (cl_peer c) (scan_request doctor_mode interval_ms text_format) of
        Inl r \<Rightarrow> (r, [])
      | Inr body \<Rightarrow> (WT_OK, body @ (if body = [] \<or> last body \<noteq> CHR 0x0A then nl else [])))"

definition apply_members :: "string \<Rightarrow> string \<Rightarrow> nat \<Rightarrow> bool \<Rightarrow> (string \<times> string) list" where
  "apply_members i target delay yes =
     [(''cmd'', qkey ''apply''), (''id'', qkey i)] @ (if target \<noteq> [] then [(''target_id'', qkey target)] else []) @
     (if delay > 0 then [(''delay_seconds'', dec delay)] else []) @ [(''yes'', flag_digit yes)]"

definition wt_service_client_apply ::
  "client_env \<Rightarrow> string \<Rightarrow> string \<Rightarrow> nat \<Rightarrow> bool \<Rightarrow> nat \<Rightarrow> string \<Rightarrow> WT_Result \<times> string" where
  \<comment> \<open>an empty target is none\<close>
  "wt_service_client_apply c i target delay_seconds assume_yes cap msg =
     (case cl_utf8 c 128 i of None \<Rightarrow> (WT_ERR_INVALID_ARGUMENT, msg)
      | Some id8 \<Rightarrow>
         (case (if target = [] then Some [] else cl_utf8 c 256 target) of None \<Rightarrow> (WT_ERR_INVALID_ARGUMENT, msg)
          | Some target8 \<Rightarrow>
             wt_service_client_action c (request_text 512 (apply_members id8 target8 delay_seconds assume_yes)) cap msg))"

definition wt_service_client_power_set :: "client_env \<Rightarrow> string \<Rightarrow> bool \<Rightarrow> nat \<Rightarrow> string \<Rightarrow> WT_Result \<times> string" where
  "wt_service_client_power_set c plan_token assume_yes cap msg =
     (case cl_utf8 c 64 plan_token of None \<Rightarrow> (WT_ERR_INVALID_ARGUMENT, msg)
      | Some p \<Rightarrow> wt_service_client_action c
          (request_text 256 [(''cmd'', qkey ''power_set''), (''plan'', qkey p), (''yes'', flag_digit assume_yes)]) cap msg)"

definition wt_service_client_restart_service :: "client_env \<Rightarrow> string \<Rightarrow> bool \<Rightarrow> nat \<Rightarrow> string \<Rightarrow> WT_Result \<times> string" where
  "wt_service_client_restart_service c name assume_yes cap msg =
     (case cl_utf8 c 256 name of None \<Rightarrow> (WT_ERR_INVALID_ARGUMENT, msg)
      | Some n \<Rightarrow> wt_service_client_action c
          (request_text 384 [(''cmd'', qkey ''restart_service''), (''name'', qkey n), (''yes'', flag_digit assume_yes)]) cap msg)"

definition wt_service_client_startup_set :: "client_env \<Rightarrow> string \<Rightarrow> bool \<Rightarrow> bool \<Rightarrow> nat \<Rightarrow> string \<Rightarrow> WT_Result \<times> string" where
  "wt_service_client_startup_set c i enable assume_yes cap msg =
     (case cl_utf8 c 256 i of None \<Rightarrow> (WT_ERR_INVALID_ARGUMENT, msg)
      | Some id8 \<Rightarrow> wt_service_client_action c
          (request_text 384 [(''cmd'', qkey ''startup_set''), (''id'', qkey id8), (''enable'', flag_digit enable),
             (''yes'', flag_digit assume_yes)]) cap msg)"

definition wt_service_client_startup_delay :: "client_env \<Rightarrow> string \<Rightarrow> nat \<Rightarrow> bool \<Rightarrow> nat \<Rightarrow> string \<Rightarrow> WT_Result \<times> string" where
  "wt_service_client_startup_delay c i delay_seconds assume_yes cap msg =
     (if delay_seconds = 0 then (WT_ERR_INVALID_ARGUMENT, msg)
      else case cl_utf8 c 256 i of None \<Rightarrow> (WT_ERR_INVALID_ARGUMENT, msg)
      | Some id8 \<Rightarrow> wt_service_client_action c
          (request_text 384 [(''cmd'', qkey ''startup_delay''), (''id'', qkey id8), (''delay_seconds'', dec delay_seconds),
             (''yes'', flag_digit assume_yes)]) cap msg)"

definition wt_service_client_task_set :: "client_env \<Rightarrow> string \<Rightarrow> bool \<Rightarrow> nat \<Rightarrow> bool \<Rightarrow> nat \<Rightarrow> string \<Rightarrow> WT_Result \<times> string" where
  "wt_service_client_task_set c i enable delay_seconds assume_yes cap msg =
     (case cl_utf8 c 256 i of None \<Rightarrow> (WT_ERR_INVALID_ARGUMENT, msg)
      | Some id8 \<Rightarrow> wt_service_client_action c
          (request_text 384 ([(''cmd'', qkey ''task_set''), (''id'', qkey id8)] @
             (if delay_seconds > 0 then [(''delay_seconds'', dec delay_seconds)] else [(''enable'', flag_digit enable)]) @
             [(''yes'', flag_digit assume_yes)])) cap msg)"

end
