(* ===== verification/Service_Requests.thy ===== *)
theory Service_Requests
  imports Service_Client
begin

text \<open>
  A request read back: the texts the client writes are members between quotes and commas, and the searches of the
  service find each of them, as long as no value holds a quote or is itself the name of a field. With the frames of
  \<open>Service_Ipc\<close> that gives the whole way from a call of the client to the action the service runs.
\<close>

section \<open>Searching a request\<close>

definition field_names :: "string list" where
  "field_names = [''cmd'', ''plan'', ''name'', ''id'', ''enable'', ''yes'', ''delay_seconds'', ''target_id'']"

definition no_quote :: "string \<Rightarrow> bool" where
  "no_quote s \<longleftrightarrow> CHR 0x22 \<notin> set s"

definition key_word :: "string \<Rightarrow> bool" where
  "key_word k \<longleftrightarrow> no_quote k \<and> k \<noteq> [] \<and> hd k \<notin> set '',}:{'' \<and> length k < 60"

definition request_value :: "string \<Rightarrow> bool" where
  \<comment> \<open>a number, or a text that is no field name, in quotes\<close>
  "request_value v \<longleftrightarrow> no_quote v \<or> (\<exists>s. v = qkey s \<and> no_quote s \<and> s \<notin> set field_names)"

definition request_members :: "(string \<times> string) list \<Rightarrow> bool" where
  "request_members ms \<longleftrightarrow> (\<forall>(k, v) \<in> set ms. k \<in> set field_names \<and> request_value v) \<and> distinct (map fst ms)"

lemma field_names_words: "k \<in> set field_names \<Longrightarrow> key_word k"
proof -
  have "list_all key_word field_names" by code_simp
  then show "k \<in> set field_names \<Longrightarrow> key_word k" by (simp add: list_all_iff)
qed

lemma skip_piece:
  assumes "no_quote p" "no_quote k" "p \<noteq> k"
  shows "strstr (CHR 0x22 # p @ CHR 0x22 # s) (qkey k) = strstr (CHR 0x22 # s) (qkey k)"
proof -
  have until: "takeWhile (\<lambda>c. c \<noteq> CHR 0x22) (q @ CHR 0x22 # t) = q" if "no_quote q" for q t
    using that by (subst takeWhile_append2) (auto simp: no_quote_def)
  have "\<not> prefix (k @ [CHR 0x22]) (p @ CHR 0x22 # s)"
  proof
    assume "prefix (k @ [CHR 0x22]) (p @ CHR 0x22 # s)"
    then obtain t where "p @ CHR 0x22 # s = k @ CHR 0x22 # t" by (auto simp: prefix_def)
    then have "p = k" using until [OF assms(1), of s] until [OF assms(2), of t] by simp
    then show False using assms(3) by simp
  qed
  then show ?thesis
    using strstr_drop [of p "CHR 0x22 # s" "k @ [CHR 0x22]"] assms(1) by (simp add: qkey_def no_quote_def)
qed

lemma skip_quote:
  assumes "key_word k" "c \<in> set '',}:{''"
  shows "strstr (CHR 0x22 # c # s) (qkey k) = strstr (c # s) (qkey k)"
  using assms by (cases k) (auto simp: key_word_def qkey_def)

lemma skip_member:
  assumes "key_word k" "no_quote k'" "k' \<noteq> k" "no_quote v \<or> (\<exists>s. v = qkey s \<and> no_quote s \<and> s \<noteq> k)" "c \<in> set '',}''"
  shows "strstr (json_pair k' v @ c # r) (qkey k) = strstr (c # r) (qkey k)"
proof -
  have k: "no_quote k" using assms(1) by (simp add: key_word_def)
  have 1: "strstr (json_pair k' v @ c # r) (qkey k) = strstr (CHR '':'' # v @ c # r) (qkey k)"
    using skip_piece [OF assms(2) k assms(3), of "CHR '':'' # v @ c # r"] skip_quote [OF assms(1), of "CHR '':''" "v @ c # r"]
    by (simp add: json_pair_def qkey_def)
  show ?thesis
  proof (cases "no_quote v")
    case True
    then show ?thesis using 1 strstr_drop [of "CHR '':'' # v" "c # r" "k @ [CHR 0x22]"] by (simp add: no_quote_def qkey_def)
  next
    case False
    then obtain s where s: "v = qkey s" "no_quote s" "s \<noteq> k" using assms(4) by auto
    have "strstr (CHR '':'' # v @ c # r) (qkey k) = strstr (CHR 0x22 # s @ CHR 0x22 # c # r) (qkey k)"
      by (simp add: s(1) qkey_def)
    then show ?thesis
      using 1 skip_piece [OF s(2) k s(3), of "c # r"] skip_quote [OF assms(1), of c r] assms(5) by auto
  qed
qed

definition members_text :: "(string \<times> string) list \<Rightarrow> string" where
  "members_text ms = joined '','' (map (\<lambda>(k, v). json_pair k v) ms) @ ''}''"

lemma members_text_simps: "members_text [] = ''}''" "members_text [(k, v)] = json_pair k v @ ''}''"
  "members_text ((k, v) # m # ms) = json_pair k v @ CHR '','' # members_text (m # ms)"
  by (simp_all add: members_text_def)

lemma members_step:
  obtains c r where "members_text ((k, v) # ms) = json_pair k v @ c # r" "c \<in> set '',}''"
    "c # r = (if ms = [] then ''}'' else CHR '','' # members_text ms)"
  by (cases ms) (auto simp: members_text_simps)

lemma skip_comma: "key_word k \<Longrightarrow> strstr (CHR '','' # s) (qkey k) = strstr s (qkey k)" "strstr (CHR ''{'' # s) (qkey k) = strstr s (qkey k)"
  "strstr ''}'' (qkey k) = None"
  by (simp_all add: qkey_def)

lemma value_not_key: "request_value v \<Longrightarrow> k \<in> set field_names \<Longrightarrow> no_quote v \<or> (\<exists>s. v = qkey s \<and> no_quote s \<and> s \<noteq> k)"
  by (auto simp: request_value_def)

lemma search_members:
  assumes "k \<in> set field_names" "request_members ms"
  shows "case map_of ms k of
      None \<Rightarrow> strstr (members_text ms) (qkey k) = None
    | Some v \<Rightarrow> \<exists>c r. strstr (members_text ms) (qkey k) = Some (json_pair k v @ c # r) \<and> c \<in> set '',}''"
  using assms(2)
proof (induction ms)
  case Nil
  show ?case by (simp add: members_text_simps qkey_def)
next
  case (Cons m ms)
  obtain k' v where m: "m = (k', v)" by (cases m)
  have ms: "request_members ms" and k': "k' \<in> set field_names" and v: "request_value v"
    using Cons.prems by (auto simp: m request_members_def)
  obtain c r where cr: "members_text ((k', v) # ms) = json_pair k' v @ c # r" "c \<in> set '',}''"
      "c # r = (if ms = [] then ''}'' else CHR '','' # members_text ms)"
    by (rule members_step [of k' v ms])
  show ?case
  proof (cases "k' = k")
    case True
    have "strstr (json_pair k v @ c # r) (qkey k) = Some (json_pair k v @ c # r)" by (simp add: json_pair_def qkey_def)
    then show ?thesis using cr(1,2) True by (auto simp: m)
  next
    case False
    have "strstr (members_text ((k', v) # ms)) (qkey k) = strstr (c # r) (qkey k)"
      using skip_member [OF field_names_words [OF assms(1)] _ False value_not_key [OF v assms(1)] cr(2), of r] field_names_words [OF k'] cr(1)
      by (simp add: key_word_def)
    also have "\<dots> = strstr (members_text ms) (qkey k)"
      using cr(3) skip_comma [of k] field_names_words [OF assms(1)] by (cases "ms = []") (simp_all add: members_text_simps)
    finally show ?thesis using Cons.IH [OF ms] False by (simp add: m split: option.splits)
  qed
qed

lemma field_after_colon:
  assumes "k \<in> set field_names" "request_members ms"
  shows "case map_of ms k of
      None \<Rightarrow> after_colon (CHR ''{'' # members_text ms) k = None
    | Some v \<Rightarrow> \<exists>c r. after_colon (CHR ''{'' # members_text ms) k = Some (CHR '':'' # v @ c # r) \<and> c \<in> set '',}''"
proof -
  have pat: "cch_copy 64 (qkey k) = qkey k" using field_names_words [OF assms(1)] by (simp add: key_word_def qkey_def)
  have "strchr (CHR '':'' # s) (CHR '':'') = Some (CHR '':'' # s)" for s using strchr_append [of "CHR '':''" "[]" s] by simp
  then show ?thesis
    using search_members [OF assms] unfolding after_colon_def Let_def pat
    by (auto simp: skip_comma json_pair_def qkey_def split: option.splits)
qed

lemma first_quoted_qkey: "no_quote s \<Longrightarrow> first_quoted (CHR '':'' # qkey s @ r) = Some s"
proof -
  assume s: "no_quote s"
  have "strchr (CHR '':'' # CHR 0x22 # s @ CHR 0x22 # r) (CHR 0x22) = Some (CHR 0x22 # s @ CHR 0x22 # r)"
    using strchr_append [of "CHR 0x22" "'':''" "s @ CHR 0x22 # r"] by simp
  moreover have "strchr (s @ CHR 0x22 # r) (CHR 0x22) = Some (CHR 0x22 # r)"
    using strchr_append [of "CHR 0x22" s r] s by (simp add: no_quote_def)
  moreover have "takeWhile (\<lambda>c. c \<noteq> CHR 0x22) (s @ CHR 0x22 # r) = s"
    using s by (subst takeWhile_append2) (auto simp: no_quote_def)
  ultimately show ?thesis by (simp add: first_quoted_def qkey_def)
qed

lemma read_text_field:
  assumes "request_members ms" "map_of ms k = Some (qkey s)" "k \<in> set field_names" "no_quote s"
  shows "wt_json_extract_string_field (CHR ''{'' # members_text ms) k = Some s"
proof -
  obtain c r where "after_colon (CHR ''{'' # members_text ms) k = Some (CHR '':'' # qkey s @ c # r)"
    using field_after_colon [OF assms(3,1)] assms(2) by auto
  then show ?thesis using first_quoted_qkey [OF assms(4)] by (simp add: wt_json_extract_string_field_def)
qed

lemma read_missing_field:
  assumes "request_members ms" "map_of ms k = None" "k \<in> set field_names"
  shows "wt_json_extract_string_field (CHR ''{'' # members_text ms) k = None" "int_field (CHR ''{'' # members_text ms) k d = d"
  using field_after_colon [OF assms(3,1)] assms(2)
  by (simp_all add: wt_json_extract_string_field_def int_field_def wt_json_extract_int_def)

lemma strtol_dec:
  assumes "n < 2 ^ 31" "\<not> is_digit c"
  shows "strtol (dec n @ c # r) = int n"
proof -
  have nz: "\<not> is_space (hd (dec n))" "hd (dec n) \<noteq> CHR ''-''" "hd (dec n) \<noteq> CHR ''+''"
    using digit_not_special [OF dec_hd_digit] by auto
  have dw: "dropWhile is_space (dec n @ c # r) = dec n @ c # r"
    using nz(1) by (cases "dec n") auto
  have "fst (digits_val 0 (dec n @ c # r)) = n" using digits_val_dec [of "c # r" n] assms(2) by simp
  then show ?thesis using nz assms(1) by (simp add: strtol_def dw Let_def)
qed

lemma read_number_field:
  assumes "request_members ms" "map_of ms k = Some (dec n)" "k \<in> set field_names" "n < 2 ^ 31"
  shows "int_field (CHR ''{'' # members_text ms) k d = int n"
proof -
  obtain c r where f: "after_colon (CHR ''{'' # members_text ms) k = Some (CHR '':'' # dec n @ c # r)" "c \<in> set '',}''"
    using field_after_colon [OF assms(3,1)] assms(2) by auto
  have "\<not> is_digit c" using f(2) by (auto simp: is_digit_def)
  then show ?thesis using f(1) strtol_dec [OF assms(4)] by (simp add: int_field_def wt_json_extract_int_def)
qed

section \<open>The calls of the client\<close>

datatype client_call =
    Call_Apply string string nat bool
  | Call_Power string bool
  | Call_Restart string bool
  | Call_Startup_Set string bool bool
  | Call_Startup_Delay string nat bool
  | Call_Task_Set string bool nat bool

fun client_do :: "client_env \<Rightarrow> client_call \<Rightarrow> nat \<Rightarrow> string \<Rightarrow> WT_Result \<times> string" where
  "client_do c (Call_Apply i target delay yes) cap msg = wt_service_client_apply c i target delay yes cap msg"
| "client_do c (Call_Power plan yes) cap msg = wt_service_client_power_set c plan yes cap msg"
| "client_do c (Call_Restart name yes) cap msg = wt_service_client_restart_service c name yes cap msg"
| "client_do c (Call_Startup_Set i enable yes) cap msg = wt_service_client_startup_set c i enable yes cap msg"
| "client_do c (Call_Startup_Delay i delay yes) cap msg = wt_service_client_startup_delay c i delay yes cap msg"
| "client_do c (Call_Task_Set i enable delay yes) cap msg = wt_service_client_task_set c i enable delay yes cap msg"

fun direct_action :: "action_env \<Rightarrow> client_call \<Rightarrow> machine \<Rightarrow> (WT_Result \<times> string \<times> machine) option" where
  \<comment> \<open>the action the caller asked for, run on the spot\<close>
  "direct_action env (Call_Apply i target delay yes) m = wt_apply_recommendation env i target delay yes 512 m"
| "direct_action env (Call_Power plan yes) m =
     Some (wt_action_set_power_plan env (wt_power_scheme_from_token (Some plan)) yes 512 m)"
| "direct_action env (Call_Restart name yes) m = wt_action_restart_service env name yes 512 m"
| "direct_action env (Call_Startup_Set i enable yes) m = Some (wt_action_set_startup_enabled env i enable yes 512 m)"
| "direct_action env (Call_Startup_Delay i delay yes) m = Some (wt_action_set_startup_delay env i delay yes 512 m)"
| "direct_action env (Call_Task_Set i enable delay yes) m =
     (if delay > 0 then wt_action_set_task_delay env i delay yes 512 m
      else wt_action_set_task_enabled env i enable yes 512 m)"

fun call_members :: "client_call \<Rightarrow> (string \<times> string) list" where
  "call_members (Call_Apply i target delay yes) = apply_members i target delay yes"
| "call_members (Call_Power plan yes) = [(''cmd'', qkey ''power_set''), (''plan'', qkey plan), (''yes'', flag_digit yes)]"
| "call_members (Call_Restart name yes) = [(''cmd'', qkey ''restart_service''), (''name'', qkey name), (''yes'', flag_digit yes)]"
| "call_members (Call_Startup_Set i enable yes) =
     [(''cmd'', qkey ''startup_set''), (''id'', qkey i), (''enable'', flag_digit enable), (''yes'', flag_digit yes)]"
| "call_members (Call_Startup_Delay i delay yes) =
     [(''cmd'', qkey ''startup_delay''), (''id'', qkey i), (''delay_seconds'', dec delay), (''yes'', flag_digit yes)]"
| "call_members (Call_Task_Set i enable delay yes) =
     [(''cmd'', qkey ''task_set''), (''id'', qkey i)] @
     (if delay > 0 then [(''delay_seconds'', dec delay)] else [(''enable'', flag_digit enable)]) @ [(''yes'', flag_digit yes)]"

fun call_name :: "client_call \<Rightarrow> string" where
  "call_name (Call_Apply i target delay yes) = ''apply''"
| "call_name (Call_Power plan yes) = ''power_set''"
| "call_name (Call_Restart name yes) = ''restart_service''"
| "call_name (Call_Startup_Set i enable yes) = ''startup_set''"
| "call_name (Call_Startup_Delay i delay yes) = ''startup_delay''"
| "call_name (Call_Task_Set i enable delay yes) = ''task_set''"

definition wire_text :: "nat \<Rightarrow> string \<Rightarrow> bool" where
  \<comment> \<open>ASCII that fits, with no quote, and not the name of a field\<close>
  "wire_text n s \<longleftrightarrow> no_quote s \<and> s \<notin> set field_names \<and> list_all (\<lambda>ch. 0 < (of_char ch :: nat) \<and> (of_char ch :: nat) < 128) s \<and>
     length s < n"

fun call_ok :: "client_call \<Rightarrow> bool" where
  "call_ok (Call_Apply i target delay yes) = (wire_text 64 i \<and> wire_text 256 target \<and> delay < 2 ^ 31)"
| "call_ok (Call_Power plan yes) = (wire_text 64 plan \<and> wt_power_scheme_from_token (Some plan) \<noteq> WT_POWER_UNKNOWN)"
| "call_ok (Call_Restart name yes) = wire_text 256 name"
| "call_ok (Call_Startup_Set i enable yes) = wire_text 256 i"
| "call_ok (Call_Startup_Delay i delay yes) = (wire_text 256 i \<and> 0 < delay \<and> delay < 2 ^ 31)"
| "call_ok (Call_Task_Set i enable delay yes) = (wire_text 256 i \<and> delay < 2 ^ 31)"

definition wide_ok :: "service_env \<Rightarrow> bool" where
  "wide_ok x \<longleftrightarrow> (\<forall>n s. list_all (\<lambda>ch. (of_char ch :: nat) < 128) s \<and> length s < n \<longrightarrow> sx_wide x n s = Some s)"

definition utf8_ok :: "client_env \<Rightarrow> bool" where
  "utf8_ok c \<longleftrightarrow> (\<forall>n s. list_all (\<lambda>ch. (of_char ch :: nat) < 128) s \<and> length s < n \<longrightarrow> cl_utf8 c n s = Some s)"

lemma wire_converted:
  assumes "wire_text n s"
  shows "wide_ok x \<Longrightarrow> sx_wide x n s = Some s" "utf8_ok c \<Longrightarrow> n \<le> k \<Longrightarrow> cl_utf8 c k s = Some s"
  using assms by (auto simp: wide_ok_def utf8_ok_def wire_text_def list_all_iff)

lemma flag_digit_dec: "flag_digit b = dec (if b then 1 else 0)"
proof -
  have "''1'' = dec 1" "''0'' = dec 0" by code_simp+
  then show ?thesis by (cases b) (simp_all add: flag_digit_def del: dec.simps)
qed

lemma dec_no_quote: "no_quote (dec n)"
  using dec_digits digit_not_special by (fastforce simp: no_quote_def)

lemma request_values:
  "no_quote s \<and> s \<notin> set field_names \<Longrightarrow> request_value (qkey s)" "request_value (dec n)" "request_value (flag_digit b)"
  using dec_no_quote by (auto simp: request_value_def flag_digit_dec simp del: dec.simps)

lemma call_name_text: "no_quote (call_name call) \<and> call_name call \<notin> set field_names" "length (call_name call) < 16"
  "list_all (\<lambda>ch. ch \<noteq> CHR 0x00) (call_name call)"
  by (cases call; simp add: no_quote_def field_names_def)+

lemma wire_value: "wire_text n s \<Longrightarrow> request_value (qkey s)"
  by (rule request_values(1)) (simp add: wire_text_def)

lemma members_ok: "call_ok call \<Longrightarrow> request_members (call_members call)"
  using request_values(1) [OF call_name_text(1) [of call]]
  by (cases call) (auto simp: request_members_def field_names_def apply_members_def request_values(2,3) wire_value simp del: dec.simps)

lemma cmd_read:
  assumes "no_quote cmd" "length cmd < 64"
  shows "wt_json_extract_cmd (CHR ''{'' # members_text ((''cmd'', qkey cmd) # ms)) 64 = Some cmd"
proof -
  obtain c r where t: "members_text ((''cmd'', qkey cmd) # ms) = json_pair ''cmd'' (qkey cmd) @ c # r"
    using members_step [of "''cmd''" "qkey cmd" ms] by metis
  let ?t = "CHR 0x22 # ''cmd'' @ CHR 0x22 # CHR '':'' # qkey cmd @ c # r"
  have 1: "strstr (CHR ''{'' # members_text ((''cmd'', qkey cmd) # ms)) (qkey ''cmd'') = Some ?t"
    unfolding t by (simp add: json_pair_def qkey_def)
  have 2: "strchr ?t (CHR '':'') = Some (CHR '':'' # qkey cmd @ c # r)"
    using strchr_append [of "CHR '':''" "CHR 0x22 # ''cmd'' @ [CHR 0x22]" "qkey cmd @ c # r"] by simp
  show ?thesis
    using 1 2 first_quoted_qkey [OF assms(1), of "c # r"] assms(2) by (simp add: wt_json_extract_cmd_def)
qed

lemma request_runs:
  assumes "call_ok call" "wide_ok x"
  shows "wt_service_handle_request x (CHR ''{'' # members_text (call_members call)) st =
    acted (call_name call) (direct_action (sx_action x) call (ss_machine st)) st"
proof -
  define T where "T = CHR ''{'' # members_text (call_members call)"
  note ms = members_ok [OF assms(1)]
  have cmd: "wt_json_extract_cmd T 64 = Some (call_name call)"
    unfolding T_def using cmd_read by (cases call) (auto simp: no_quote_def apply_members_def)
  have yes: "int_field T ''yes'' 0 \<noteq> 0 \<longleftrightarrow> y" if "map_of (call_members call) ''yes'' = Some (flag_digit y)" for y
    using read_number_field [OF ms, folded T_def, of "''yes''" "if y then 1 else 0" 0] that
    by (simp add: flag_digit_dec field_names_def del: dec.simps)
  have enable: "int_field T ''enable'' 1 \<noteq> 0 \<longleftrightarrow> e" if "map_of (call_members call) ''enable'' = Some (flag_digit e)" for e
    using read_number_field [OF ms, folded T_def, of "''enable''" "if e then 1 else 0" 1] that
    by (simp add: flag_digit_dec field_names_def del: dec.simps)
  have delay: "int_field T ''delay_seconds'' 0 = int d"
    if "map_of (call_members call) ''delay_seconds'' = (if d > 0 then Some (dec d) else None)" "d < 2 ^ 31" for d
    using read_number_field [OF ms, folded T_def, of "''delay_seconds''" d 0] read_missing_field(2) [OF ms, folded T_def, of "''delay_seconds''" 0] that
    by (cases "d = 0") (simp_all add: field_names_def del: dec.simps)
  note fields = read_text_field [OF ms, folded T_def] read_missing_field(1) [OF ms, folded T_def]
  note run = wt_service_handle_request_def cmd
  have "wt_service_handle_request x T st = acted (call_name call) (direct_action (sx_action x) call (ss_machine st)) st"
  proof (cases call)
    case (Call_Apply i target d y)
    then have w: "wire_text 64 i" "wire_text 256 target" "d < 2 ^ 31" using assms(1) by simp_all
    have "wt_json_extract_string_field T ''id'' = Some i"
      using fields(1) [of "''id''" i] w(1) by (simp add: Call_Apply apply_members_def field_names_def wire_text_def)
    moreover have "target \<noteq> [] \<Longrightarrow> wt_json_extract_string_field T ''target_id'' = Some target"
      by (rule fields(1)) (use w(2) in \<open>simp_all add: Call_Apply apply_members_def field_names_def wire_text_def\<close>)
    moreover have "target = [] \<Longrightarrow> wt_json_extract_string_field T ''target_id'' = None"
      by (rule fields(2)) (simp_all add: Call_Apply apply_members_def field_names_def)
    moreover have "int_field T ''yes'' 0 \<noteq> 0 \<longleftrightarrow> y" by (rule yes) (simp add: Call_Apply apply_members_def)
    moreover have "int_field T ''delay_seconds'' 0 = int d" by (rule delay) (use w(3) in \<open>simp_all add: Call_Apply apply_members_def del: dec.simps\<close>)
    ultimately show ?thesis
      using wire_converted(1) [OF w(1) assms(2)] wire_converted(1) [OF w(2) assms(2)]
      by (cases "target = []") (simp_all add: run serve_apply_def Call_Apply)
  next
    case (Call_Power plan y)
    then have w: "wire_text 64 plan" "wt_power_scheme_from_token (Some plan) \<noteq> WT_POWER_UNKNOWN" using assms(1) by simp_all
    have "wt_json_extract_string_field T ''plan'' = Some plan"
      using fields(1) [of "''plan''" plan] w(1) by (simp add: Call_Power field_names_def wire_text_def)
    moreover have "int_field T ''yes'' 0 \<noteq> 0 \<longleftrightarrow> y" by (rule yes) (simp add: Call_Power)
    ultimately show ?thesis
      using wire_converted(1) [OF w(1) assms(2)] w(2) by (simp add: run serve_power_set_def Call_Power)
  next
    case (Call_Restart name y)
    then have w: "wire_text 256 name" using assms(1) by simp
    have "wt_json_extract_string_field T ''name'' = Some name"
      using fields(1) [of "''name''" name] w by (simp add: Call_Restart field_names_def wire_text_def)
    moreover have "int_field T ''yes'' 0 \<noteq> 0 \<longleftrightarrow> y" by (rule yes) (simp add: Call_Restart)
    ultimately show ?thesis
      using wire_converted(1) [OF w assms(2)] by (simp add: run serve_restart_service_def Call_Restart)
  next
    case (Call_Startup_Set i e y)
    then have w: "wire_text 256 i" using assms(1) by simp
    have "wt_json_extract_string_field T ''id'' = Some i"
      using fields(1) [of "''id''" i] w by (simp add: Call_Startup_Set field_names_def wire_text_def)
    moreover have "int_field T ''yes'' 0 \<noteq> 0 \<longleftrightarrow> y" by (rule yes) (simp add: Call_Startup_Set)
    moreover have "int_field T ''enable'' 1 \<noteq> 0 \<longleftrightarrow> e" by (rule enable) (simp add: Call_Startup_Set)
    ultimately show ?thesis
      using wire_converted(1) [OF w assms(2)] by (simp add: run serve_startup_set_def Call_Startup_Set)
  next
    case (Call_Startup_Delay i d y)
    then have w: "wire_text 256 i" "0 < d" "d < 2 ^ 31" using assms(1) by simp_all
    have "wt_json_extract_string_field T ''id'' = Some i"
      using fields(1) [of "''id''" i] w(1) by (simp add: Call_Startup_Delay field_names_def wire_text_def)
    moreover have "int_field T ''yes'' 0 \<noteq> 0 \<longleftrightarrow> y" by (rule yes) (simp add: Call_Startup_Delay)
    moreover have "int_field T ''delay_seconds'' 0 = int d" by (rule delay) (use w in \<open>simp_all add: Call_Startup_Delay del: dec.simps\<close>)
    ultimately show ?thesis
      using wire_converted(1) [OF w(1) assms(2)] w(2) by (simp add: run serve_startup_delay_def Call_Startup_Delay)
  next
    case (Call_Task_Set i e d y)
    then have w: "wire_text 256 i" "d < 2 ^ 31" using assms(1) by simp_all
    have "wt_json_extract_string_field T ''id'' = Some i"
      using fields(1) [of "''id''" i] w(1) by (simp add: Call_Task_Set field_names_def wire_text_def)
    moreover have "int_field T ''yes'' 0 \<noteq> 0 \<longleftrightarrow> y" by (rule yes) (simp add: Call_Task_Set)
    moreover have "int_field T ''delay_seconds'' 0 = int d" by (rule delay) (use w(2) in \<open>simp_all add: Call_Task_Set del: dec.simps\<close>)
    moreover have "d = 0 \<Longrightarrow> int_field T ''enable'' 1 \<noteq> 0 \<longleftrightarrow> e" by (rule enable) (simp add: Call_Task_Set)
    ultimately show ?thesis
      using wire_converted(1) [OF w(1) assms(2)] by (auto simp: run serve_task_set_def Call_Task_Set)
  qed
  then show ?thesis by (simp only: T_def)
qed

end
