(* ===== verification/Service_History.thy ===== *)
theory Service_History
  imports Service_Policy
begin

text \<open>
  The files of the service as an abstract history: \<open>history x k m\<close> lists the cached scan and its \<open>k\<close> older copies, the
  newest first. One cached scan puts its report in front and drops the oldest; so after any number of scans the files
  hold the last \<open>k + 1\<close> reports in order.
\<close>

section \<open>The files of the history\<close>

definition data_dir :: "service_env \<Rightarrow> string" where
  "data_dir x = sx_programdata x @ bsl ''/WinTune''"

definition current_path :: "service_env \<Rightarrow> string" where
  "current_path x = data_dir x @ bsl ''/last_scan.json''"

definition policy_path :: "service_env \<Rightarrow> string" where
  "policy_path x = data_dir x @ bsl ''/service_policy.json''"

definition history_path :: "service_env \<Rightarrow> nat \<Rightarrow> string" where
  "history_path x i = (if i = 0 then current_path x else slot_path (data_dir x) i)"

definition history :: "service_env \<Rightarrow> nat \<Rightarrow> machine \<Rightarrow> string option list" where
  "history x k m = map (\<lambda>i. mc_files m (history_path x i)) [0..<Suc k]"

definition files_work :: "service_env \<Rightarrow> bool" where
  \<comment> \<open>the directory is set and leaves room for the names; no call on these files is refused\<close>
  "files_work x \<longleftrightarrow> sx_programdata x \<noteq> [] \<and> length (sx_programdata x) < 220 \<and> ae_create_file (sx_action x) = (\<lambda>p. True) \<and>
     sx_delete x = (\<lambda>p. None) \<and> sx_move x = (\<lambda>a b. True)"

lemma dec_inj: "dec a = dec b \<Longrightarrow> a = b"
  using digits_val_dec_0 by metis

lemma dec_small: "i \<le> 8 \<Longrightarrow> length (dec i) = 1"
  by (subst dec.simps) simp

lemma slot_inj: "slot_path dir a = slot_path dir b \<longleftrightarrow> a = b"
  using dec_inj by (auto simp: slot_path_def)

lemma dec_not_j: "dec i @ s \<noteq> CHR ''j'' # t"
proof
  assume "dec i @ s = CHR ''j'' # t"
  then have "hd (dec i) = CHR ''j''" by (cases "dec i") auto
  then show False using dec_hd_digit [of i] by (simp add: is_digit_def)
qed

lemma paths_differ: "slot_path (data_dir x) i \<noteq> current_path x" "slot_path (data_dir x) i \<noteq> policy_path x"
  "current_path x \<noteq> policy_path x"
  using dec_not_j by (auto simp: slot_path_def current_path_def policy_path_def bsl_def)

lemma history_path_inj: "history_path x i = history_path x j \<longleftrightarrow> i = j"
  using paths_differ(1) [of x] by (auto simp: history_path_def slot_inj) metis+

lemma files_work_paths:
  assumes "files_work x"
  shows "wt_paths_program_data_dir x MAX_PATH = (WT_OK, data_dir x)"
    "wt_paths_last_scan_file x MAX_PATH = (WT_OK, current_path x)"
    "wt_service_policy_path x MAX_PATH = (WT_OK, policy_path x)"
    "i \<le> 8 \<Longrightarrow> cch_fits MAX_PATH (slot_path (data_dir x) i)"
  using assms dec_small [of i]
  by (simp_all add: files_work_def wt_paths_program_data_dir_def wt_paths_last_scan_file_def wt_service_policy_path_def
    data_file_def data_dir_def current_path_def policy_path_def slot_path_def cch_fits_def MAX_PATH_def bsl_def)

section \<open>The rotation\<close>

fun shifted :: "(nat \<Rightarrow> string) \<Rightarrow> nat \<Rightarrow> (string \<Rightarrow> string option) \<Rightarrow> string \<Rightarrow> string option" where
  \<comment> \<open>\<open>slot (i + 1)\<close> takes over from \<open>slot i\<close>, for \<open>1 \<le> i < n\<close>\<close>
  "shifted slot 0 f = f"
| "shifted slot (Suc i) f = (if i = 0 then f else shifted slot i (f(slot i := None, slot (Suc i) := f (slot i))))"

lemma rotate_is_shift:
  assumes "files_work x" "n \<le> 8" "mc_files m (slot_path (data_dir x) n) = None"
  shows "rotate_loop x (data_dir x) n m = (WT_OK, m\<lparr>mc_files := shifted (slot_path (data_dir x)) n (mc_files m)\<rparr>)"
  using assms(2,3)
proof (induction n arbitrary: m)
  case (Suc i)
  let ?s = "slot_path (data_dir x)"
  let ?f = "(mc_files m)(?s i := None, ?s (Suc i) := mc_files m (?s i))"
  have move: "snd (move_file x (?s i) (?s (Suc i)) m) = m\<lparr>mc_files := ?f\<rparr>"
  proof (cases "mc_files m (?s i)")
    case None
    then have "?f = mc_files m" using Suc.prems(2) by auto
    then show ?thesis using None by (simp add: move_file_def)
  qed (use assms(1) in \<open>simp add: move_file_def files_work_def put_file_def\<close>)
  show ?case
  proof (cases "i = 0")
    case False
    have "mc_files (m\<lparr>mc_files := ?f\<rparr>) (?s i) = None" by (simp add: slot_inj)
    from Suc.IH [OF _ this] show ?thesis
      using False Suc.prems(1) files_work_paths(4) [OF assms(1)] by (simp add: move fun_upd_def)
  qed simp
qed simp

lemma shifted_slots:
  assumes "\<And>a b. slot a = slot b \<longleftrightarrow> a = b"
  shows "shifted slot n f (slot i) =
    (if 2 \<le> i \<and> i \<le> n then f (slot (i - 1)) else if i = 1 \<and> 2 \<le> n then None else f (slot i))"
  using assms by (induction n arbitrary: f i) auto

lemma shifted_other: "(\<And>i. p \<noteq> slot i) \<Longrightarrow> shifted slot n f p = f p"
  by (induction n arbitrary: f) auto

lemma put_absent: "mc_files m p = None \<Longrightarrow> put_file p None m = m"
  by (simp add: put_file_def fun_upd_idem)

definition rotated :: "service_env \<Rightarrow> nat \<Rightarrow> (string \<Rightarrow> string option) \<Rightarrow> string \<Rightarrow> string option" where
  "rotated x k f = (if k = 0 \<or> f (current_path x) = None then f
     else (shifted (slot_path (data_dir x)) k (f(slot_path (data_dir x) k := None)))
            (current_path x := None, slot_path (data_dir x) 1 := f (current_path x)))"

lemma rotate_files:
  assumes x: "files_work x" and k: "sp_history_keep p \<le> 8"
  shows "wt_service_policy_rotate_last_scan x p m = (WT_OK, m\<lparr>mc_files := rotated x (sp_history_keep p) (mc_files m)\<rparr>)"
proof (cases "sp_history_keep p = 0 \<or> mc_files m (current_path x) = None")
  case True
  then show ?thesis
    by (auto simp: wt_service_policy_rotate_last_scan_def files_work_paths [OF x] rotated_def)
next
  case False
  let ?k = "sp_history_keep p" and ?s = "slot_path (data_dir x)"
  obtain t where t: "mc_files m (current_path x) = Some t" using False by auto
  let ?m1 = "put_file (?s ?k) None m"
  have del: "snd (delete_file x (?s ?k) m) = ?m1"
    using x by (auto simp: delete_file_def files_work_def put_absent)
  have r: "rotate_loop x (data_dir x) ?k ?m1 = (WT_OK, ?m1\<lparr>mc_files := shifted ?s ?k (mc_files ?m1)\<rparr>)"
    by (rule rotate_is_shift [OF x k]) (simp add: put_file_def)
  have cur: "shifted ?s ?k (mc_files ?m1) (current_path x) = Some t"
    using shifted_other [of "current_path x" ?s ?k] paths_differ(1) t by (metis fun_upd_other machine.select_convs(4) machine.surjective machine.update_convs(4) put_file_def)
  have mv: "move_file x (current_path x) (?s 1) (?m1\<lparr>mc_files := shifted ?s ?k (mc_files ?m1)\<rparr>) =
      (True, m\<lparr>mc_files := rotated x ?k (mc_files m)\<rparr>)"
    using False x t cur by (simp add: move_file_def files_work_def put_file_def rotated_def)
  show ?thesis
    using False t mv files_work_paths(4) [OF x k] files_work_paths(4) [OF x, of 1]
    by (simp add: wt_service_policy_rotate_last_scan_def files_work_paths(1-3) [OF x] del r)
qed

section \<open>One more scan\<close>

definition scans_kept :: "service_env \<Rightarrow> machine \<Rightarrow> nat" where
  "scans_kept x m = sp_history_keep (wt_service_policy_load x m)"

lemma kept_bound: "scans_kept x m \<le> 8"
  by (auto simp: scans_kept_def wt_service_policy_load_def policy_read_def wt_service_policy_defaults_def Let_def
    split: prod.split option.split)

lemma policy_only_its_file:
  "files_work x \<Longrightarrow> mc_files m' (policy_path x) = mc_files m (policy_path x) \<Longrightarrow>
   wt_service_policy_load x m' = wt_service_policy_load x m"
  by (simp add: wt_service_policy_load_def files_work_paths)

lemma rotated_history:
  assumes "mc_files m (current_path x) = None \<Longrightarrow> history x k m = replicate (Suc k) None" "0 < i" "i \<le> k"
  shows "rotated x k (mc_files m) (history_path x i) = mc_files m (history_path x (i - 1))"
proof (cases "mc_files m (current_path x)")
  case None
  have slots: "mc_files m (history_path x j) = None" if "j \<le> k" for j
    using arg_cong [OF assms(1) [OF None], of "\<lambda>h. h ! j"] that by (simp add: history_def del: upt_Suc replicate.simps)
  show ?thesis using slots [of i] slots [of "i - 1"] assms(2,3) None by (simp add: rotated_def)
next
  case (Some t)
  let ?s = "slot_path (data_dir x)"
  have c: "?s j \<noteq> current_path x" for j by (rule paths_differ)
  show ?thesis
    using assms(2,3) Some c shifted_slots [of ?s k "(mc_files m)(?s k := None)" i, OF slot_inj]
    by (auto simp: rotated_def history_path_def slot_inj)
qed

lemma rotated_policy: "rotated x k f (policy_path x) = f (policy_path x)"
proof -
  have "policy_path x \<noteq> slot_path (data_dir x) i" for i using paths_differ(2) [of x i] by metis
  then show ?thesis
    using shifted_other [of "policy_path x" "slot_path (data_dir x)" k] paths_differ(3) [of x] by (simp add: rotated_def)
qed

lemma one_scan:
  assumes x: "files_work x"
    and gap: "mc_files (ss_machine st) (current_path x) = None \<Longrightarrow> history x k (ss_machine st) = replicate (Suc k) None"
    and k: "k = scans_kept x (ss_machine st)"
  defines "st' \<equiv> wt_service_run_scan_and_cache x st"
  shows "history x k (ss_machine st') =
      Some (cached_scan_text x (wt_service_policy_load x (ss_machine st)) (ss_scans st)) # take k (history x k (ss_machine st))"
    "wt_service_policy_load x (ss_machine st') = wt_service_policy_load x (ss_machine st)"
    "ss_scans st' = Suc (ss_scans st)"
proof -
  let ?m = "ss_machine st" and ?p = "wt_service_policy_load x (ss_machine st)"
  define T where "T = cached_scan_text x ?p (ss_scans st)"
  have keep: "sp_history_keep ?p = k" "k \<le> 8" using k kept_bound by (simp_all add: scans_kept_def)
  have st': "st' = st\<lparr>ss_machine := ?m\<lparr>mc_files := (rotated x k (mc_files ?m))(current_path x := Some T)\<rparr>,
      ss_scans := Suc (ss_scans st)\<rparr>"
    using x rotate_files [OF x, of ?p ?m] keep
    by (simp add: st'_def wt_service_run_scan_and_cache_def files_work_paths [OF x] T_def [symmetric] files_work_def put_file_def Let_def)
  have "history x k (ss_machine st') ! i = (Some T # take k (history x k ?m)) ! i" if i: "i < Suc k" for i
  proof (cases i)
    case 0
    then show ?thesis by (simp add: history_def st' history_path_def del: upt_Suc)
  next
    case (Suc j)
    then have "history_path x i \<noteq> current_path x" using history_path_inj [of x i 0] by (simp add: history_path_def)
    then show ?thesis
      using i Suc rotated_history [OF gap, of i] by (simp add: history_def st' del: upt_Suc)
  qed
  then show "history x k (ss_machine st') = Some T # take k (history x k ?m)"
    by (intro nth_equalityI) (simp_all add: history_def del: upt_Suc)
  show "wt_service_policy_load x (ss_machine st') = ?p"
    by (rule policy_only_its_file [OF x]) (use paths_differ(3) [of x] rotated_policy [of x k] in \<open>simp add: st'\<close>)
  show "ss_scans st' = Suc (ss_scans st)" by (simp add: st')
qed

lemma many_scans:
  fixes n :: nat
  assumes x: "files_work x"
    and gap: "mc_files (ss_machine st) (current_path x) = None \<Longrightarrow> history x k (ss_machine st) = replicate (Suc k) None"
    and k: "k = scans_kept x (ss_machine st)"
  defines "st' \<equiv> (wt_service_run_scan_and_cache x ^^ n) st"
  shows "history x k (ss_machine st') =
      take (Suc k) (map (\<lambda>j. Some (cached_scan_text x (wt_service_policy_load x (ss_machine st)) (ss_scans st + j))) (rev [0..<n]) @
        history x k (ss_machine st)) \<and>
    wt_service_policy_load x (ss_machine st') = wt_service_policy_load x (ss_machine st) \<and> ss_scans st' = ss_scans st + n"
  unfolding st'_def
proof (induction n)
  case (Suc n)
  let ?r = "(wt_service_run_scan_and_cache x ^^ n) st"
  have l: "length (history x k m) = Suc k" for m by (simp add: history_def)
  have g: "history x k (ss_machine ?r) = replicate (Suc k) None" if "mc_files (ss_machine ?r) (current_path x) = None"
  proof (cases n)
    case (Suc j)
    have "hd (history x k (ss_machine ?r)) = mc_files (ss_machine ?r) (current_path x)"
      by (simp add: history_def hd_map history_path_def del: upt_Suc) 
    then show ?thesis using that Suc.IH Suc by (simp add: l)
  qed (use that gap in simp)
  have k': "k = scans_kept x (ss_machine ?r)" using k Suc.IH by (simp add: scans_kept_def)
  let ?p = "wt_service_policy_load x (ss_machine st)" and ?h = "history x k (ss_machine st)"
  define L where "L = map (\<lambda>j. Some (cached_scan_text x ?p (ss_scans st + j))) (rev [0..<n])"
  have IH: "history x k (ss_machine ?r) = take (Suc k) (L @ ?h)" "wt_service_policy_load x (ss_machine ?r) = ?p"
      "ss_scans ?r = ss_scans st + n"
    using Suc.IH by (simp_all add: L_def)
  have "history x k (ss_machine (wt_service_run_scan_and_cache x ?r)) =
      Some (cached_scan_text x ?p (ss_scans st + n)) # take k (take (Suc k) (L @ ?h))"
    using one_scan(1) [OF x g k'] by (simp add: IH)
  also have "take k (take (Suc k) (L @ ?h)) = take k (L @ ?h)" by (simp only: take_take) (simp add: min_def)
  finally have "history x k (ss_machine (wt_service_run_scan_and_cache x ?r)) =
      take (Suc k) ((Some (cached_scan_text x ?p (ss_scans st + n)) # L) @ ?h)" by simp
  then show ?case using one_scan(2,3) [OF x g k'] by (simp add: IH L_def)
qed (simp add: history_def)

end
