(* ===== verification/Service_Loop.thy ===== *)
theory Service_Loop
  imports Service_Dispatch Action_Theorems
begin

text \<open>
  The threads of the service (\<open>src/service/service_main.c\<close>): the worker with its timer and its pipe, the handler of
  the stop control, and \<open>wt_service_main\<close>. Each takes one step at a time, a step for each place where another thread or
  a client can come between; \<open>loop_do\<close> runs them, and what clients and the timer do, in any order.
\<close>

section \<open>State\<close>

datatype pipe_conn =
    No_Client
  | Client_Open "byte list"      \<comment> \<open>connected, and may still send\<close>
  | Client_Sent "byte list"      \<comment> \<open>has sent its request and waits for the response\<close>
  | Client_Left "byte list"      \<comment> \<open>has closed its end\<close>

datatype worker_pc =
    Worker_Start                 \<comment> \<open>before the first scan\<close>
  | Worker_Check                 \<comment> \<open>the test of \<open>g_running\<close>\<close>
  | Worker_Timer                 \<comment> \<open>the test of the timer\<close>
  | Worker_Create                \<comment> \<open>before the pipe instance is created\<close>
  | Worker_Connect               \<comment> \<open>the instance exists, \<open>ConnectNamedPipe\<close> is not called yet\<close>
  | Worker_Wait                  \<comment> \<open>inside \<open>ConnectNamedPipe\<close>\<close>
  | Worker_Serve                 \<comment> \<open>inside \<open>wt_service_handle_pipe\<close>\<close>
  | Worker_Exit                  \<comment> \<open>after the loop\<close>
  | Worker_Done

datatype control_pc = Control_None | Control_State | Control_Event | Control_Unblock | Control_Done

datatype service_status = SERVICE_START_PENDING | SERVICE_RUNNING_STATE | SERVICE_STOP_PENDING_STATE | SERVICE_STOPPED_STATE

record service_loop =
  sl_running :: bool             \<comment> \<open>\<open>g_running\<close>\<close>
  sl_event :: bool               \<comment> \<open>\<open>g_stop_event\<close> is set\<close>
  sl_status :: service_status    \<comment> \<open>\<open>g_ss.dwCurrentState\<close>\<close>
  sl_pc :: worker_pc
  sl_control :: control_pc
  sl_timer :: "bool option"      \<comment> \<open>\<open>g_scan_timer\<close>, and whether it is signalled\<close>
  sl_conn :: pipe_conn
  sl_creates :: nat              \<comment> \<open>pipe instances asked for\<close>
  sl_state :: service_state

record loop_env =
  lp_service :: service_env
  lp_pipe :: pipe_os
  lp_timer :: bool               \<comment> \<open>\<open>CreateWaitableTimerW\<close> works\<close>
  lp_sddl :: "string \<Rightarrow> bool"    \<comment> \<open>the descriptor text is accepted\<close>
  lp_create :: "nat \<Rightarrow> bool"     \<comment> \<open>\<open>CreateNamedPipeW\<close>, by call\<close>

definition loop_start :: "service_state \<Rightarrow> service_loop" where
  \<comment> \<open>\<open>wt_service_main\<close> up to the start of the worker\<close>
  "loop_start st = \<lparr>sl_running = True, sl_event = False, sl_status = SERVICE_RUNNING_STATE, sl_pc = Worker_Start,
     sl_control = Control_None, sl_timer = None, sl_conn = No_Client, sl_creates = 0, sl_state = st\<rparr>"

section \<open>The worker\<close>

definition wt_service_ipc_create_pipe_instance :: "loop_env \<Rightarrow> nat \<Rightarrow> machine \<Rightarrow> WT_Result" where
  "wt_service_ipc_create_pipe_instance l k m =
     (if \<not> lp_sddl l (wt_service_ipc_acl_sddl (wt_service_ipc_acl_load (lp_service l) m)) then WT_ERR_WIN32
      else if \<not> lp_create l k then WT_ERR_WIN32 else WT_OK)"

definition worker_first :: "loop_env \<Rightarrow> service_loop \<Rightarrow> service_loop" where
  \<comment> \<open>the scan before the loop, and the timer\<close>
  "worker_first l s =
     (let st = wt_service_run_scan_and_cache (lp_service l) (sl_state s);
          interval = wt_service_scan_interval_ms (lp_service l) (ss_machine st)
      in s\<lparr>sl_state := st, sl_timer := (if interval > 0 \<and> lp_timer l then Some False else None), sl_pc := Worker_Check\<rparr>)"

definition worker_timer :: "loop_env \<Rightarrow> service_loop \<Rightarrow> service_loop" where
  \<comment> \<open>a signalled timer is reset by the wait, runs a scan and is set again\<close>
  "worker_timer l s =
     (if sl_timer s = Some True
      then let st = wt_service_run_scan_and_cache (lp_service l) (sl_state s);
               interval = wt_service_scan_interval_ms (lp_service l) (ss_machine st)
           in s\<lparr>sl_state := st, sl_timer := (if interval = 0 then None else Some False), sl_pc := Worker_Create\<rparr>
      else s\<lparr>sl_pc := Worker_Create\<rparr>)"

definition worker_create :: "loop_env \<Rightarrow> service_loop \<Rightarrow> service_loop" where
  "worker_create l s =
     (let s' = s\<lparr>sl_creates := Suc (sl_creates s)\<rparr> in
      if wt_service_ipc_create_pipe_instance l (sl_creates s) (ss_machine (sl_state s)) \<noteq> WT_OK
      then s'\<lparr>sl_pc := Worker_Check\<rparr> else s'\<lparr>sl_conn := No_Client, sl_pc := Worker_Connect\<rparr>)"

definition worker_connect :: "service_loop \<Rightarrow> service_loop" where
  \<comment> \<open>a client that came and went before the call is \<open>ERROR_NO_DATA\<close>, one that is there \<open>ERROR_PIPE_CONNECTED\<close>\<close>
  "worker_connect s =
     (case sl_conn s of
        No_Client \<Rightarrow> s\<lparr>sl_pc := Worker_Wait\<rparr>
      | Client_Left bs \<Rightarrow> s\<lparr>sl_conn := No_Client, sl_pc := (if sl_event s then Worker_Exit else Worker_Check)\<rparr>
      | _ \<Rightarrow> s\<lparr>sl_pc := Worker_Serve\<rparr>)"

definition worker_serve :: "loop_env \<Rightarrow> byte list \<Rightarrow> service_loop \<Rightarrow> service_loop option" where
  "worker_serve l bs s =
     (case wt_service_handle_pipe (lp_service l) (lp_pipe l) \<lparr>pe_in = bs, pe_out = [], pe_calls = 0\<rparr> (sl_state s) of
        None \<Rightarrow> None
      | Some (e, st) \<Rightarrow> Some (s\<lparr>sl_state := st, sl_conn := No_Client, sl_pc := Worker_Check\<rparr>))"

definition wt_service_worker :: "loop_env \<Rightarrow> service_loop \<Rightarrow> service_loop option" where
  \<comment> \<open>one step of the worker; None while it waits\<close>
  "wt_service_worker l s =
     (case sl_pc s of
        Worker_Start \<Rightarrow> Some (worker_first l s)
      | Worker_Check \<Rightarrow> Some (s\<lparr>sl_pc := (if sl_running s then Worker_Timer else Worker_Exit)\<rparr>)
      | Worker_Timer \<Rightarrow> Some (worker_timer l s)
      | Worker_Create \<Rightarrow> Some (worker_create l s)
      | Worker_Connect \<Rightarrow> Some (worker_connect s)
      | Worker_Wait \<Rightarrow> (if sl_conn s = No_Client then None else Some (s\<lparr>sl_pc := Worker_Serve\<rparr>))
      | Worker_Serve \<Rightarrow>
          (case sl_conn s of
             Client_Sent bs \<Rightarrow> worker_serve l bs s
           | Client_Left bs \<Rightarrow> worker_serve l bs s
           | _ \<Rightarrow> None)
      | Worker_Exit \<Rightarrow> Some (s\<lparr>sl_timer := None, sl_pc := Worker_Done\<rparr>)
      | Worker_Done \<Rightarrow> None)"

section \<open>The control handler and the main thread\<close>

definition pipe_listens :: "service_loop \<Rightarrow> bool" where
  "pipe_listens s \<longleftrightarrow> sl_pc s \<in> {Worker_Connect, Worker_Wait} \<and> sl_conn s = No_Client"

definition wt_service_unblock_pipe :: "service_loop \<Rightarrow> service_loop" where
  \<comment> \<open>opens the pipe and closes it again; nothing when no instance is free\<close>
  "wt_service_unblock_pipe s = (if pipe_listens s then s\<lparr>sl_conn := Client_Left []\<rparr> else s)"

definition wt_service_ctrl_handler :: "service_loop \<Rightarrow> service_loop" where
  \<comment> \<open>one step of the handler of \<open>SERVICE_CONTROL_STOP\<close>\<close>
  "wt_service_ctrl_handler s =
     (case sl_control s of
        Control_None \<Rightarrow> s\<lparr>sl_running := False, sl_control := Control_State\<rparr>
      | Control_State \<Rightarrow> s\<lparr>sl_status := SERVICE_STOP_PENDING_STATE, sl_control := Control_Event\<rparr>
      | Control_Event \<Rightarrow> s\<lparr>sl_event := True, sl_control := Control_Unblock\<rparr>
      | Control_Unblock \<Rightarrow> (wt_service_unblock_pipe s)\<lparr>sl_control := Control_Done\<rparr>
      | Control_Done \<Rightarrow> s)"

definition wt_service_main :: "service_loop \<Rightarrow> service_loop" where
  \<comment> \<open>after the wait for the worker\<close>
  "wt_service_main s = (if sl_pc s = Worker_Done then s\<lparr>sl_status := SERVICE_STOPPED_STATE\<rparr> else s)"

section \<open>Runs\<close>

datatype loop_event =
    Worker_Turn | Control_Turn | Main_Turn
  | Client_Connects | Client_Sends "byte list" | Client_Finishes | Client_Leaves | Timer_Fires

fun client_acts :: "loop_event \<Rightarrow> service_loop \<Rightarrow> pipe_conn" where
  "client_acts Client_Connects s = (if pipe_listens s then Client_Open [] else sl_conn s)"
| "client_acts (Client_Sends bs) s = (case sl_conn s of Client_Open b \<Rightarrow> Client_Open (b @ bs) | c \<Rightarrow> c)"
| "client_acts Client_Finishes s = (case sl_conn s of Client_Open b \<Rightarrow> Client_Sent b | c \<Rightarrow> c)"
| "client_acts Client_Leaves s = (case sl_conn s of Client_Open b \<Rightarrow> Client_Left b | Client_Sent b \<Rightarrow> Client_Left b | c \<Rightarrow> c)"
| "client_acts _ s = sl_conn s"

fun loop_do :: "loop_env \<Rightarrow> loop_event \<Rightarrow> service_loop \<Rightarrow> service_loop" where
  \<comment> \<open>a turn that is not possible changes nothing\<close>
  "loop_do l Worker_Turn s = (case wt_service_worker l s of None \<Rightarrow> s | Some s' \<Rightarrow> s')"
| "loop_do l Control_Turn s = wt_service_ctrl_handler s"
| "loop_do l Main_Turn s = wt_service_main s"
| "loop_do l Timer_Fires s = s\<lparr>sl_timer := map_option (\<lambda>b. True) (sl_timer s)\<rparr>"
| "loop_do l ev s = s\<lparr>sl_conn := client_acts ev s\<rparr>"

definition loop_run :: "loop_env \<Rightarrow> loop_event list \<Rightarrow> service_loop \<Rightarrow> service_loop" where
  "loop_run l evs s = fold (loop_do l) evs s"

definition waiting :: "service_loop \<Rightarrow> bool" where
  \<comment> \<open>for a client to come, or for the client that is there\<close>
  "waiting s \<longleftrightarrow> sl_pc s = Worker_Wait \<and> sl_conn s = No_Client \<or> sl_pc s = Worker_Serve \<and> (\<exists>b. sl_conn s = Client_Open b)"

section \<open>What each turn leaves\<close>

lemma restart_service_returns: "wt_action_restart_service env name y cap m \<noteq> None"
  using restart_returns by (metis option.distinct(1))

definition answers :: "served \<Rightarrow> bool" where
  "answers r \<longleftrightarrow> (\<exists>resp st. r = Some (WT_OK, resp, st))"

lemma answers_pieces: "answers (answered t st)" "res \<noteq> None \<Longrightarrow> answers (acted cmd res st)"
  by (auto simp: answers_def answered_def acted_def)

lemma commands_answer:
  "answers (serve_scan x cmd json st)" "answers (serve_power_set x json st)" "answers (serve_restart_service x json st)"
  "answers (serve_startup_set x json st)" "answers (serve_startup_delay x json st)" "answers (serve_task_set x json st)"
  "answers (serve_apply x json st)"
  by (simp_all add: serve_scan_def serve_power_set_def serve_restart_service_def serve_startup_set_def serve_startup_delay_def
    serve_task_set_def serve_apply_def wt_apply_recommendation_def Let_def answers_pieces request_returns task_actions_return
    restart_service_returns del: not_None_eq split: option.split)

lemma request_answered: "answers (wt_service_handle_request x json st)"
  by (simp add: wt_service_handle_request_def commands_answer answers_pieces(1) split: option.split)

lemma pipe_handled: "wt_service_handle_pipe x os e st \<noteq> None"
proof -
  obtain req e' where "wt_service_ipc_read_request os e = (req, e')" by fastforce
  then show ?thesis
    using request_answered [of x "takeWhile (\<lambda>c. c \<noteq> CHR 0x00) (projr req)" st]
    by (cases req) (auto simp: wt_service_handle_pipe_def answers_def)
qed

definition conn_ok :: "service_loop \<Rightarrow> bool" where
  \<comment> \<open>a client only where there is a pipe, and one while it is served\<close>
  "conn_ok s \<longleftrightarrow> (if sl_pc s = Worker_Serve then sl_conn s \<noteq> No_Client
     else sl_pc s \<in> {Worker_Connect, Worker_Wait} \<or> sl_conn s = No_Client)"

fun work_left :: "worker_pc \<Rightarrow> nat" where
  "work_left Worker_Timer = 7"
| "work_left Worker_Create = 6"
| "work_left Worker_Connect = 5"
| "work_left Worker_Wait = 4"
| "work_left Worker_Serve = 3"
| "work_left Worker_Start = 3"
| "work_left Worker_Check = 2"
| "work_left Worker_Exit = 1"
| "work_left Worker_Done = 0"

lemma serve_moves:
  "\<exists>f. \<forall>bs. worker_serve l bs s = Some (s\<lparr>sl_state := f bs, sl_conn := No_Client, sl_pc := Worker_Check\<rparr>)"
proof -
  have "\<exists>st. worker_serve l bs s = Some (s\<lparr>sl_state := st, sl_conn := No_Client, sl_pc := Worker_Check\<rparr>)" for bs
    using pipe_handled [of "lp_service l" "lp_pipe l" "\<lparr>pe_in = bs, pe_out = [], pe_calls = 0\<rparr>" "sl_state s"]
    by (auto simp: worker_serve_def)
  then show ?thesis by (intro choice) blast
qed

lemma worker_stops_only_waiting:
  assumes "conn_ok s"
  shows "wt_service_worker l s = None \<longleftrightarrow> waiting s \<or> sl_pc s = Worker_Done"
proof -
  obtain f where f: "\<And>bs. worker_serve l bs s = Some (s\<lparr>sl_state := f bs, sl_conn := No_Client, sl_pc := Worker_Check\<rparr>)"
    using serve_moves [of l s] by blast
  show ?thesis using assms by (cases "sl_pc s"; cases "sl_conn s") (simp_all add: wt_service_worker_def conn_ok_def waiting_def f)
qed

lemma worker_turn:
  assumes "wt_service_worker l s = Some s'"
  shows "sl_running s' = sl_running s" "sl_control s' = sl_control s" "conn_ok s \<Longrightarrow> conn_ok s'"
    "\<not> sl_running s \<Longrightarrow> work_left (sl_pc s') < work_left (sl_pc s)"
proof -
  obtain f where f: "\<And>bs. worker_serve l bs s = Some (s\<lparr>sl_state := f bs, sl_conn := No_Client, sl_pc := Worker_Check\<rparr>)"
    using serve_moves [of l s] by blast
  note steps = wt_service_worker_def worker_first_def worker_timer_def worker_create_def worker_connect_def conn_ok_def f Let_def
  show "sl_running s' = sl_running s" "sl_control s' = sl_control s"
    using assms by (cases "sl_pc s"; cases "sl_conn s"; auto simp: steps split: if_splits)+
  show "conn_ok s \<Longrightarrow> conn_ok s'"
    using assms by (cases "sl_pc s"; cases "sl_conn s"; auto simp: steps split: if_splits)
  show "\<not> sl_running s \<Longrightarrow> work_left (sl_pc s') < work_left (sl_pc s)"
    using assms by (cases "sl_pc s"; cases "sl_conn s"; auto simp: steps split: if_splits)
qed

lemma other_turns:
  assumes "ev \<noteq> Worker_Turn"
  shows "sl_pc (loop_do l ev s) = sl_pc s" "conn_ok s \<Longrightarrow> conn_ok (loop_do l ev s)"
    "\<not> sl_running s \<Longrightarrow> \<not> sl_running (loop_do l ev s)"
  using assms
  by (cases ev; cases "sl_conn s"; cases "sl_control s";
    auto simp: wt_service_ctrl_handler_def wt_service_main_def wt_service_unblock_pipe_def pipe_listens_def conn_ok_def)+

lemma any_turn:
  "conn_ok s \<Longrightarrow> conn_ok (loop_do l ev s)" "\<not> sl_running s \<Longrightarrow> \<not> sl_running (loop_do l ev s)"
  by (cases "ev = Worker_Turn"; auto simp: other_turns worker_turn split: option.split)+

lemma run_conn_ok: "conn_ok s \<Longrightarrow> conn_ok (loop_run l evs s)"
  by (induction evs arbitrary: s) (simp_all add: loop_run_def any_turn)

section \<open>Stopping\<close>

fun stalled :: "loop_env \<Rightarrow> loop_event list \<Rightarrow> service_loop \<Rightarrow> nat" where
  \<comment> \<open>the turns of the worker in which it waits\<close>
  "stalled l [] s = 0"
| "stalled l (ev # evs) s = (if ev = Worker_Turn \<and> waiting s then 1 else 0) + stalled l evs (loop_do l ev s)"

lemma done_stays: "sl_pc s = Worker_Done \<Longrightarrow> sl_pc (loop_run l evs s) = Worker_Done"
proof (induction evs arbitrary: s)
  case (Cons ev evs)
  have "sl_pc (loop_do l ev s) = Worker_Done"
    using Cons.prems other_turns(1) by (cases "ev = Worker_Turn") (simp_all add: wt_service_worker_def)
  then show ?case using Cons.IH by (simp add: loop_run_def)
qed (simp add: loop_run_def)

lemma turns_bounded:
  "conn_ok s \<Longrightarrow> \<not> sl_running s \<Longrightarrow> sl_pc (loop_run l evs s) \<noteq> Worker_Done \<Longrightarrow>
   count_list evs Worker_Turn + work_left (sl_pc (loop_run l evs s)) \<le> stalled l evs s + work_left (sl_pc s)"
proof (induction evs arbitrary: s)
  case (Cons ev evs)
  let ?s = "loop_do l ev s"
  have IH: "count_list evs Worker_Turn + work_left (sl_pc (loop_run l (ev # evs) s)) \<le> stalled l evs ?s + work_left (sl_pc ?s)"
    using Cons.IH [of ?s] Cons.prems any_turn by (simp add: loop_run_def)
  show ?case
  proof (cases "ev = Worker_Turn")
    case True
    show ?thesis
    proof (cases "wt_service_worker l s")
      case None
      then have "waiting s \<or> sl_pc s = Worker_Done" using worker_stops_only_waiting Cons.prems(1) by blast
      moreover have "waiting s" if "sl_pc s = Worker_Done"
        using done_stays [OF that, of l "ev # evs"] Cons.prems(3) by simp
      ultimately show ?thesis using IH None True by auto
    next
      case (Some s')
      then show ?thesis using IH True worker_turn(4) [OF Some Cons.prems(2)] by simp
    qed
  next
    case False
    then show ?thesis using IH other_turns(1) [OF False] by simp
  qed
qed (simp add: loop_run_def)

definition leaving :: "service_loop \<Rightarrow> bool" where
  \<comment> \<open>asked to stop, with no pipe to be created and no connection to wait for\<close>
  "leaving s \<longleftrightarrow> \<not> sl_running s \<and> conn_ok s \<and> sl_pc s \<notin> {Worker_Timer, Worker_Create} \<and>
     (sl_pc s \<in> {Worker_Connect, Worker_Wait} \<longrightarrow> sl_conn s \<noteq> No_Client)"

lemma leaving_stays: "leaving s \<Longrightarrow> leaving (loop_do l ev s)"
proof -
  assume s: "leaving s"
  have "sl_pc (loop_do l ev s) \<notin> {Worker_Timer, Worker_Create} \<and>
      (sl_pc (loop_do l ev s) \<in> {Worker_Connect, Worker_Wait} \<longrightarrow> sl_conn (loop_do l ev s) \<noteq> No_Client)"
  proof (cases "ev = Worker_Turn")
    case True
    obtain f where "\<And>bs. worker_serve l bs s = Some (s\<lparr>sl_state := f bs, sl_conn := No_Client, sl_pc := Worker_Check\<rparr>)"
      using serve_moves [of l s] by blast
    then show ?thesis
      using s True
      by (cases "sl_pc s"; cases "sl_conn s")
        (auto simp: leaving_def conn_ok_def wt_service_worker_def worker_first_def worker_connect_def Let_def)
  next
    case False
    then show ?thesis
      using s
      by (cases ev; cases "sl_conn s"; cases "sl_control s")
        (auto simp: leaving_def wt_service_ctrl_handler_def wt_service_main_def wt_service_unblock_pipe_def pipe_listens_def)
  qed
  then show "leaving (loop_do l ev s)" using s any_turn by (simp add: leaving_def)
qed

lemma leaving_run: "leaving s \<Longrightarrow> leaving (loop_run l evs s)"
  by (induction evs arbitrary: s) (simp_all add: loop_run_def leaving_stays)

lemma unblocked_leaves:
  "conn_ok s \<Longrightarrow> \<not> sl_running s \<Longrightarrow> sl_control s = Control_Unblock \<Longrightarrow> sl_pc s \<notin> {Worker_Timer, Worker_Create} \<Longrightarrow>
   leaving (loop_do l Control_Turn s)"
  by (auto simp: leaving_def wt_service_ctrl_handler_def wt_service_unblock_pipe_def pipe_listens_def conn_ok_def)

lemma start_ok: "conn_ok (loop_start st)"
  by (simp add: conn_ok_def loop_start_def)

end
