(* ===== verification/Service_Theorems.thy ===== *)
theory Service_Theorems
  imports Service_Requests Service_History Service_Loop
begin

text \<open>
  The service as its client sees it: a call of the client, through frames of whatever size the pipe moves, runs the
  action the caller asked for with the consent the caller gave, and brings its outcome back; the files of the cached
  scans are the history of the last reports; and a stopped service ends.
\<close>

section \<open>Responses\<close>

fun pieces_text :: "string list \<Rightarrow> string" where
  \<comment> \<open>pieces with a quote between each two\<close>
  "pieces_text [] = []"
| "pieces_text [p] = p"
| "pieces_text (p # p2 # ps) = p @ CHR 0x22 # pieces_text (p2 # ps)"

definition from_quote :: "string list \<Rightarrow> string" where
  "from_quote ps = CHR 0x22 # pieces_text ps"

definition quoted_then :: "string \<Rightarrow> string \<Rightarrow> string" where
  "quoted_then k w = qkey k @ w"

lemma pieces_start:
  "no_quote p \<Longrightarrow> strstr (pieces_text (p # p2 # ps)) (quoted_then k w) = strstr (from_quote (p2 # ps)) (quoted_then k w)"
  using strstr_drop [of p "from_quote (p2 # ps)" "k @ CHR 0x22 # w"] by (simp add: no_quote_def from_quote_def quoted_then_def qkey_def)

lemma pieces_skip:
  assumes "no_quote p" "no_quote k" "p \<noteq> k \<or> \<not> prefix w (pieces_text (p2 # ps))"
  shows "strstr (from_quote (p # p2 # ps)) (quoted_then k w) = strstr (from_quote (p2 # ps)) (quoted_then k w)"
proof -
  let ?s = "pieces_text (p2 # ps)"
  have until: "takeWhile (\<lambda>c. c \<noteq> CHR 0x22) (q @ CHR 0x22 # t) = q" if "no_quote q" for q t
    using that by (subst takeWhile_append2) (auto simp: no_quote_def)
  have "\<not> prefix (k @ CHR 0x22 # w) (p @ CHR 0x22 # ?s)"
  proof
    assume "prefix (k @ CHR 0x22 # w) (p @ CHR 0x22 # ?s)"
    then obtain t where t: "p @ CHR 0x22 # ?s = k @ CHR 0x22 # w @ t" by (auto simp: prefix_def)
    then have "p = k" using until [OF assms(1), of ?s] until [OF assms(2), of "w @ t"] by simp
    then show False using t assms(3) by simp
  qed
  then show ?thesis
    using strstr_drop [of p "CHR 0x22 # ?s" "k @ CHR 0x22 # w"] assms(1)
    by (simp add: no_quote_def from_quote_def quoted_then_def qkey_def)
qed

lemma pieces_last: "no_quote p \<Longrightarrow> no_quote k \<Longrightarrow> strstr (from_quote [p]) (quoted_then k w) = None"
proof -
  assume "no_quote p" "no_quote k"
  then have "\<not> prefix (k @ CHR 0x22 # w) p" using set_mono_prefix by (fastforce simp: no_quote_def)
  then show ?thesis
    using strstr_drop [of p "[]" "k @ CHR 0x22 # w"] \<open>no_quote p\<close> by (simp add: no_quote_def from_quote_def quoted_then_def qkey_def)
qed

lemma pieces_hit: "prefix w (pieces_text (p2 # ps)) \<Longrightarrow>
    strstr (from_quote (k # p2 # ps)) (quoted_then k w) = Some (from_quote (k # p2 # ps))"
  by (auto simp: from_quote_def quoted_then_def qkey_def prefix_def)

definition failure_pieces :: "string \<Rightarrow> string \<Rightarrow> string \<Rightarrow> string list" where
  "failure_pieces cmd err msg =
     [''{'', ''ok'', '':false,'', ''cmd'', '':'', cmd, '','', ''error'', '':'', err, '','', ''message'', '':'', msg, ''}'']"

definition success_pieces :: "string \<Rightarrow> string \<Rightarrow> string list" where
  "success_pieces cmd msg = [''{'', ''ok'', '':true,'', ''cmd'', '':'', cmd, '','', ''message'', '':'', msg, ''}'']"

lemma response_pieces:
  assumes "length msg < 512"
  shows "wt_service_make_action_response (call_name call) r msg = pieces_text
    (if r = WT_OK then success_pieces (call_name call) (if msg \<noteq> [] then msg else ''ok'')
     else failure_pieces (call_name call) (wt_result_to_string r) msg)"
proof -
  have "length (wt_result_to_string r) < 20" by (cases r) (simp_all add: wt_result_to_string_def)
  then show ?thesis
    using assms call_name_text(2) [of call]
    by (simp add: wt_service_make_action_response_def success_pieces_def failure_pieces_def json_pair_def qkey_def)
qed

lemma result_text: "no_quote (wt_result_to_string r)" "list_all (\<lambda>ch. ch \<noteq> CHR 0x00) (wt_result_to_string r)"
  "wt_result_to_string r \<noteq> ''message''" "wt_result_to_string r \<noteq> ''ok''"
  by (cases r; simp add: wt_result_to_string_def no_quote_def)+

lemma call_name_message: "call_name call \<noteq> ''message''" "call_name call \<noteq> ''ok''"
  by (cases call; simp)+

lemma no_quote_words: "no_quote ''{''" "no_quote ''ok''" "no_quote '':false,''" "no_quote '':true,''" "no_quote ''cmd''" "no_quote '':''"
  "no_quote '',''" "no_quote ''error''" "no_quote ''message''" "no_quote ''}''" "no_quote '':true''"
  by (simp_all add: no_quote_def)

lemmas piece_facts = pieces_skip pieces_last no_quote_words result_text call_name_text(1) call_name_message

lemma failure_not_ok:
  assumes "no_quote msg"
  shows "\<not> response_ok (pieces_text (failure_pieces (call_name call) (wt_result_to_string r) msg))"
proof -
  have "strstr (pieces_text (failure_pieces (call_name call) (wt_result_to_string r) msg)) (quoted_then ''ok'' '':true'') = None"
    unfolding failure_pieces_def pieces_start [OF no_quote_words(1)] by (simp add: piece_facts assms)
  then show ?thesis by (simp add: response_ok_def contains_str_def quoted_then_def)
qed

lemma success_is_ok: "response_ok (pieces_text (success_pieces cmd msg))"
proof -
  have "strstr (pieces_text (success_pieces cmd msg)) (quoted_then ''ok'' '':true'') \<noteq> None"
    unfolding success_pieces_def pieces_start [OF no_quote_words(1)] by (subst pieces_hit) simp_all
  then show ?thesis by (simp add: response_ok_def contains_str_def quoted_then_def)
qed

lemma message_read:
  assumes "no_quote msg" "0 < cap" "strstr resp (qkey ''message'') = Some (from_quote [''message'', '':'', msg, ''}''])"
  shows "wt_service_client_extract_message resp cap old = cch_copy cap msg"
proof -
  have "strchr (from_quote [''message'', '':'', msg, ''}'']) (CHR '':'') = Some (CHR '':'' # qkey msg @ ''}'')"
    using strchr_append [of "CHR '':''" "CHR 0x22 # ''message'' @ [CHR 0x22]" "qkey msg @ ''}''"]
    by (simp add: from_quote_def qkey_def)
  then show ?thesis
    using assms first_quoted_qkey [OF assms(1), of "''}''"] by (simp add: wt_service_client_extract_message_def)
qed

lemma response_message:
  assumes "no_quote msg" "0 < cap"
  shows "wt_service_client_extract_message (pieces_text (failure_pieces (call_name call) (wt_result_to_string r) msg)) cap old = cch_copy cap msg"
    "wt_service_client_extract_message (pieces_text (success_pieces (call_name call) msg)) cap old = cch_copy cap msg"
proof -
  have key: "qkey ''message'' = quoted_then ''message'' []" by (simp add: quoted_then_def)
  have hit: "strstr (from_quote (''message'' # ps)) (quoted_then ''message'' []) = Some (from_quote (''message'' # ps))" if "ps = p # qs" for p ps qs
    using pieces_hit [of "[]" p qs "''message''"] that by simp
  show "wt_service_client_extract_message (pieces_text (failure_pieces (call_name call) (wt_result_to_string r) msg)) cap old = cch_copy cap msg"
    by (rule message_read [OF assms])
      (unfold failure_pieces_def key pieces_start [OF no_quote_words(1)], simp add: piece_facts assms hit)
  show "wt_service_client_extract_message (pieces_text (success_pieces (call_name call) msg)) cap old = cch_copy cap msg"
    by (rule message_read [OF assms])
      (unfold success_pieces_def key pieces_start [OF no_quote_words(1)], simp add: piece_facts assms hit)
qed

section \<open>The whole way\<close>

definition request_of :: "client_call \<Rightarrow> string" where
  "request_of call = CHR ''{'' # members_text (call_members call)"

definition frame_bytes :: "string \<Rightarrow> byte list" where
  "frame_bytes body = ipc_header (length body) @ str_bytes body"

definition service_reply :: "service_env \<Rightarrow> pipe_os \<Rightarrow> service_state \<Rightarrow> byte list \<Rightarrow> byte list" where
  "service_reply x os st bs =
     (case wt_service_handle_pipe x os \<lparr>pe_in = bs, pe_out = [], pe_calls = 0\<rparr> st of None \<Rightarrow> [] | Some (e, st') \<Rightarrow> pe_out e)"

definition service_after :: "service_env \<Rightarrow> pipe_os \<Rightarrow> service_state \<Rightarrow> byte list \<Rightarrow> service_state" where
  "service_after x os st bs =
     (case wt_service_handle_pipe x os \<lparr>pe_in = bs, pe_out = [], pe_calls = 0\<rparr> st of None \<Rightarrow> st | Some (e, st') \<Rightarrow> st')"

lemma dec_short: "d < 2 ^ 31 \<Longrightarrow> length (dec d) \<le> 10"
  by (rule dec_length) simp_all

lemma request_fits:
  assumes "length (CHR ''{'' # members_text ms) < cap"
  shows "request_text cap ms = CHR ''{'' # members_text ms"
  using assms by (simp add: request_text_def members_text_def)

lemma flag_length: "length (flag_digit b) = 1"
  by (simp add: flag_digit_def)

lemma request_length:
  assumes "call_ok call"
  shows "length (request_of call) < (case call of Call_Apply i t d y \<Rightarrow> 512 | Call_Power p y \<Rightarrow> 256 | _ \<Rightarrow> 384)"
  using assms dec_short
  by (cases call) (auto simp: request_of_def apply_members_def members_text_simps json_pair_def qkey_def wire_text_def flag_length simp del: dec.simps,
    (fastforce simp del: dec.simps)+)

lemma client_sends:
  assumes "call_ok call" "utf8_ok c"
  shows "client_do c call cap msg = wt_service_client_action c (request_of call) cap msg"
proof -
  note l = request_length [OF assms(1)]
  note u = wire_converted(2) [OF _ assms(2)]
  show ?thesis
    using assms(1) l request_fits [of "call_members call"]
    by (cases call) (auto simp: request_of_def u wt_service_client_apply_def wt_service_client_power_set_def wt_service_client_restart_service_def
      wt_service_client_startup_set_def wt_service_client_startup_delay_def wt_service_client_task_set_def)
qed

lemma request_of_facts:
  assumes "call_ok call"
  shows "request_of call \<noteq> []" "length (request_of call) \<le> IPC_REQUEST_MAX" "takeWhile (\<lambda>ch. ch \<noteq> CHR 0x00) (request_of call) = request_of call"
proof -
  show "length (request_of call) \<le> IPC_REQUEST_MAX"
    using request_length [OF assms] by (cases call) (simp_all add: IPC_REQUEST_MAX_def)
  have d: "CHR 0x00 \<notin> set (dec n)" for n using dec_digits [of "CHR 0x00" n] by (auto simp: is_digit_def)
  have w: "wire_text n s \<Longrightarrow> CHR 0x00 \<notin> set s" for n s by (auto simp: wire_text_def list_all_iff)
  have f: "CHR 0x00 \<notin> set (flag_digit b)" for b by (simp add: flag_digit_def)
  have "CHR 0x00 \<notin> set (request_of call)"
    using assms d w f
    by (cases call) (auto simp: request_of_def apply_members_def members_text_simps json_pair_def qkey_def simp del: dec.simps)
  then show "takeWhile (\<lambda>ch. ch \<noteq> CHR 0x00) (request_of call) = request_of call"
    by (auto simp: takeWhile_eq_all_conv)
qed (simp add: request_of_def)


lemma service_answers:
  assumes call: "call_ok call" and x: "wide_ok x" and os: "pipe_moves os"
    and act: "direct_action (sx_action x) call (ss_machine st) = Some (r, amsg, m)" and l: "length amsg < 512"
  shows "service_reply x os st (frame_bytes (request_of call)) =
      frame_bytes (wt_service_make_action_response (call_name call) r amsg)"
    "service_after x os st (frame_bytes (request_of call)) = st\<lparr>ss_machine := m\<rparr>"
proof -
  let ?resp = "wt_service_make_action_response (call_name call) r amsg"
  let ?e = "\<lparr>pe_in = frame_bytes (request_of call), pe_out = [], pe_calls = 0\<rparr> :: pipe_end"
  note facts = request_of_facts [OF call]
  have read: "fst (wt_service_ipc_read_request os ?e) = Inr (request_of call)"
    using request_received [OF os facts(1,2), of ?e] by (simp add: frame_bytes_def)
  obtain e1 where e1: "wt_service_ipc_read_request os ?e = (Inr (request_of call), e1)" using read by (metis prod.collapse)
  have out: "pe_out e1 = []" using read_request_out [of os ?e] e1 by simp
  have run: "wt_service_handle_request x (request_of call) st = Some (WT_OK, ?resp, st\<lparr>ss_machine := m\<rparr>)"
    using request_runs [OF call x, of st] act by (simp add: request_of_def acted_def answered_def)
  have "length ?resp < 768" by (simp add: wt_service_make_action_response_def cch_copy_def)
  then have small: "length ?resp \<le> IPC_RESPONSE_MAX" by (simp add: IPC_RESPONSE_MAX_def)
  obtain k where sent: "ipc_send os ?resp e1 = (WT_OK, e1\<lparr>pe_out := frame_bytes ?resp, pe_calls := k\<rparr>)"
    using ipc_send_ok [OF os, of ?resp e1] out by (auto simp: frame_bytes_def)
  have "wt_service_handle_pipe x os ?e st = Some (e1\<lparr>pe_out := frame_bytes ?resp, pe_calls := k\<rparr>, st\<lparr>ss_machine := m\<rparr>)"
    using small by (simp add: wt_service_handle_pipe_def e1 facts(3) run wt_service_ipc_send_response_def sent)
  then show "service_reply x os st (frame_bytes (request_of call)) = frame_bytes ?resp"
    "service_after x os st (frame_bytes (request_of call)) = st\<lparr>ss_machine := m\<rparr>"
    by (simp_all add: service_reply_def service_after_def)
qed

lemma client_reads:
  assumes "no_quote amsg" "CHR 0x00 \<notin> set amsg" "length amsg < 512" "0 < cap"
    and "pipe_moves (pl_os (cl_pipe c))" "pl_wait (cl_pipe c) = None" "pl_open (cl_pipe c) = None" "call_ok call"
    and "cl_peer c (frame_bytes (request_of call)) = frame_bytes (wt_service_make_action_response (call_name call) r amsg)"
  shows "wt_service_client_action c (request_of call) cap msg =
    (if r = WT_OK then (WT_OK, cch_copy cap (if amsg \<noteq> [] then amsg else ''ok'')) else (WT_ERR_UNKNOWN, cch_copy cap amsg))"
proof -
  define T where "T = wt_service_make_action_response (call_name call) r amsg"
  have pieces: "T = pieces_text
    (if r = WT_OK then success_pieces (call_name call) (if amsg \<noteq> [] then amsg else ''ok'')
     else failure_pieces (call_name call) (wt_result_to_string r) amsg)"
    unfolding T_def by (rule response_pieces [OF assms(3)])
  have "length T < 768" by (simp add: T_def wt_service_make_action_response_def cch_copy_def)
  then have small: "length T \<le> IPC_RESPONSE_MAX" by (simp add: IPC_RESPONSE_MAX_def)
  have ne: "T \<noteq> []" by (simp add: pieces success_pieces_def failure_pieces_def)
  have "CHR 0x00 \<notin> set T"
    using assms(2) result_text(2) [of r] call_name_text(3) [of call]
    by (auto simp: pieces success_pieces_def failure_pieces_def list_all_iff)
  then have whole: "takeWhile (\<lambda>ch. ch \<noteq> CHR 0x00) T = T" by (auto simp: takeWhile_eq_all_conv)
  have "wt_service_ipc_call (cl_pipe c) (cl_peer c) (request_of call) = Inr T"
    by (rule call_answered [OF assms(5-7) request_of_facts(2) [OF assms(8)] _ ne small])
      (use assms(9) in \<open>simp add: frame_bytes_def T_def\<close>)
  then have act: "wt_service_client_action c (request_of call) cap msg =
      (if response_ok T then WT_OK else WT_ERR_UNKNOWN, wt_service_client_extract_message T cap msg)"
    by (simp add: wt_service_client_action_def whole)
  show ?thesis
  proof (cases "r = WT_OK")
    case True
    define a where "a = (if amsg \<noteq> [] then amsg else ''ok'')"
    have T: "T = pieces_text (success_pieces (call_name call) a)" using pieces True by (simp add: a_def)
    have a: "no_quote a" using assms(1) by (simp add: a_def no_quote_def)
    show ?thesis
      unfolding act T response_message(2) [OF a assms(4)] using True success_is_ok by (simp add: a_def)
  next
    case False
    have T: "T = pieces_text (failure_pieces (call_name call) (wt_result_to_string r) amsg)" using pieces False by simp
    show ?thesis
      unfolding act T response_message(1) [OF assms(1,4)] using False failure_not_ok [OF assms(1)] by simp
  qed
qed

text \<open>C38. A call of the client that fits a request comes back as if it had been made on the spot: through any pipe that
  moves at least a byte at a time, the service runs the very action the caller asked for, with the arguments and the
  consent the caller gave, its state is the one that action leaves, and the client returns the action's message; only
  the error is no longer told apart.
\<close>

theorem service_request_roundtrip:
  assumes "call_ok call" "wide_ok x" "utf8_ok c"
    and "pipe_moves os" "pipe_moves (pl_os (cl_pipe c))" "pl_wait (cl_pipe c) = None" "pl_open (cl_pipe c) = None"
    and "cl_peer c = service_reply x os st"
    and "direct_action (sx_action x) call (ss_machine st) = Some (r, amsg, m)"
    and "no_quote amsg" "CHR 0x00 \<notin> set amsg" "length amsg < 512" "0 < cap"
  shows "client_do c call cap msg =
      (if r = WT_OK then (WT_OK, cch_copy cap (if amsg \<noteq> [] then amsg else ''ok'')) else (WT_ERR_UNKNOWN, cch_copy cap amsg))
    \<and> service_after x os st (frame_bytes (request_of call)) = st\<lparr>ss_machine := m\<rparr>"
  using service_answers [OF assms(1,2,4,9,12)] client_reads [OF assms(10-13,5-7,1)] client_sends [OF assms(1,3)] assms(8)
  by simp

section \<open>A service to try them on\<close>

definition demo_scan :: scan_env where
  \<comment> \<open>a computer on which every probe fails but the memory's\<close>
  "demo_scan = \<lparr>sc_freq = 0, sc_clock = (\<lambda>k. (0, None)), sc_os = (WT_ERR_WIN32, zero_WT_OsInfo),
     sc_memory = \<lparr>ma_status = None, ma_perf = None, ma_open = False, ma_collect = False, ma_standby = [], ma_modified = None,
       ma_compression = None, ma_processes = [], ma_working_set = (\<lambda>p. None)\<rparr>,
     sc_net_before = None, sc_net_after = None, sc_net_elapsed = 0,
     sc_cpu = \<lparr>ca_processors = 4, ca_open = True, ca_total = Some (Some (12, True)), ca_dpc = None, ca_interrupt = None,
       ca_first = True, ca_second = True\<rparr>,
     sc_disk = \<lparr>dk_mask = 4, dk_fixed = (\<lambda>p. True), dk_space = (\<lambda>p. Some (100, 25))\<rparr>,
     sc_disk_io = \<lparr>dp_open = False, dp_total = zero_WT_VolCounters, dp_volume = (\<lambda>c. zero_WT_VolCounters), dp_first = False,
       dp_second = False, dp_single = \<lparr>ps_open = False, ps_counter = None, ps_first = False, ps_second = False\<rparr>\<rparr>,
     sc_disk_again = \<lparr>dp_open = False, dp_total = zero_WT_VolCounters, dp_volume = (\<lambda>c. zero_WT_VolCounters), dp_first = False,
       dp_second = False, dp_single = \<lparr>ps_open = False, ps_counter = None, ps_first = False, ps_second = False\<rparr>\<rparr>,
     sc_power = demo_power, sc_plan = Some WT_GUID_BALANCED, sc_gpu = (\<lambda>n. (WT_ERR_PDH, zero_WT_GpuMetrics)),
     sc_audio = (WT_ERR_WIN32, zero_WT_AudioReport), sc_search = (WT_ERR_WIN32, zero_WT_SearchReport),
     sc_defender = (WT_ERR_WIN32, zero_WT_DefenderReport), sc_boot = (WT_ERR_WIN32, zero_WT_BootReport),
     sc_updates = (WT_ERR_WIN32, zero_WT_UpdateStatus),
     sc_processes = (\<lambda>t n. \<lparr>pr_result = WT_ERR_WIN32, pr_processes = [], pr_user_cpu_max = 0, pr_user_cpu_sum = 0, pr_short_lived = []\<rparr>),
     sc_trace = None\<rparr>"

definition demo_recs :: rec_world where
  "demo_recs = \<lparr>rw_fault_sample = (WT_ERR_PDH, zero_WT_MemoryMetrics), rw_storage = (\<lambda>i. None), rw_descriptor_size = 64,
     rw_reliability = (WT_ERR_WIN32, zero_WT_ReliabilityReport), rw_maintenance = (\<lambda>r. (WT_ERR_WIN32, zero_WT_MaintenanceReport)),
     rw_blockers = (WT_ERR_WIN32, zero_WT_BlockerReport), rw_startup = demo_startup, rw_cache = [], rw_com = demo_com,
     rw_tasks = Task_Folder None [] [], rw_uninstall = None, rw_utf8 = cch_copy, rw_narrow = id\<rparr>"

definition demo_service :: service_env where
  "demo_service = \<lparr>sx_action = demo_actions, sx_programdata = bsl ''C:/ProgramData'', sx_open = (\<lambda>p. True),
     sx_write = (\<lambda>p. True), sx_delete = (\<lambda>p. None), sx_move = (\<lambda>a b. True), sx_scan = (\<lambda>k i. demo_scan), sx_recs = demo_recs,
     sx_json = \<lparr>je_globals = json_globals_init, je_utf8 = Some, je_now = None, je_filetime = (\<lambda>t. None), je_interactive = False,
       je_remote = False, je_elevated = True\<rparr>,
     sx_text = (\<lambda>r recs. ''report''), sx_summary = (\<lambda>recs. []), sx_now = (\<lambda>k. None),
     sx_wide = (\<lambda>n s. if length s < n then Some s else None)\<rparr>"

definition one_byte_pipe :: pipe_os where
  \<comment> \<open>a byte at a time\<close>
  "one_byte_pipe = \<lparr>po_write = (\<lambda>k n. Some 1), po_read = (\<lambda>k n. Some 1)\<rparr>"

definition demo_state :: service_state where
  "demo_state = \<lparr>ss_machine = demo_machine, ss_scans = 0\<rparr>"

definition demo_client :: client_env where
  "demo_client = \<lparr>cl_pipe = \<lparr>pl_os = one_byte_pipe, pl_wait = None, pl_open = None\<rparr>,
     cl_peer = service_reply demo_service one_byte_pipe demo_state,
     cl_utf8 = (\<lambda>n s. if length s < n then Some s else None)\<rparr>"

lemma demo_service_ok: "wide_ok demo_service" "utf8_ok demo_client" "pipe_moves one_byte_pipe" "files_work demo_service"
  by (simp_all add: wide_ok_def utf8_ok_def pipe_moves_def files_work_def demo_service_def demo_client_def one_byte_pipe_def
    demo_actions_def bsl_def)

lemma written_id:
  "fst (wt_rollback_write env rec m) = WT_OK \<Longrightarrow>
   rr_id (fst (snd (wt_rollback_write env rec m))) = record_id (ae_local_time env (mc_clock m))"
  by (auto simp: wt_rollback_write_def Let_def split: prod.splits if_splits)

lemma record_id_text: "no_quote (record_id t)" "CHR 0x00 \<notin> set (record_id t)" "length (record_id t) < 48"
proof -
  have "list_all stamp_char (record_id t)" by (rule stamps)
  then show "no_quote (record_id t)" "CHR 0x00 \<notin> set (record_id t)"
    by (auto simp: no_quote_def list_all_iff stamp_char_def is_digit_def)
  show "length (record_id t) < 48" unfolding record_id_def by (rule length_cch_copy) simp
qed

lemma demo_power_switch:
  "\<exists>amsg m. wt_action_set_power_plan demo_actions WT_POWER_HIGH_PERF True 512 demo_machine = (WT_OK, amsg, m) \<and>
     no_quote amsg \<and> CHR 0x00 \<notin> set amsg \<and> length amsg < 512 \<and> mc_plan m = Some WT_GUID_HIGH_PERF"
proof -
  let ?r = "wt_action_set_power_plan demo_actions WT_POWER_HIGH_PERF True 512 demo_machine"
  have ok: "fst ?r = WT_OK" "mc_plan (snd (snd ?r)) = Some WT_GUID_HIGH_PERF"
    by (simp_all add: demo_power_run rollback_write_plan)
  have name: "wt_power_scheme_name WT_POWER_HIGH_PERF = ''High performance''" by code_simp
  have "no_quote (fst (snd ?r)) \<and> CHR 0x00 \<notin> set (fst (snd ?r)) \<and> length (fst (snd ?r)) < 512"
    using record_id_text written_id [of demo_actions] by (simp add: demo_power_run name cch_copy_def) (auto simp: no_quote_def min_def dest!: in_set_takeD intro: less_trans)
  with ok show ?thesis by (cases ?r) simp
qed

lemma service_request_roundtrip_witness:
  "\<exists>msg m. client_do demo_client (Call_Power ''high-performance'' True) 512 [] = (WT_OK, msg) \<and>
     service_after demo_service one_byte_pipe demo_state (frame_bytes (request_of (Call_Power ''high-performance'' True))) =
       demo_state\<lparr>ss_machine := m\<rparr> \<and> mc_plan m = Some WT_GUID_HIGH_PERF"
proof -
  let ?c = "Call_Power ''high-performance'' True"
  obtain amsg m where a: "wt_action_set_power_plan demo_actions WT_POWER_HIGH_PERF True 512 demo_machine = (WT_OK, amsg, m)"
      "no_quote amsg" "CHR 0x00 \<notin> set amsg" "length amsg < 512" "mc_plan m = Some WT_GUID_HIGH_PERF"
    using demo_power_switch by blast
  have token: "wt_power_scheme_from_token (Some ''high-performance'') = WT_POWER_HIGH_PERF" by code_simp
  have call: "call_ok ?c" by code_simp
  have act: "direct_action (sx_action demo_service) ?c (ss_machine demo_state) = Some (WT_OK, amsg, m)"
    using a(1) by (simp add: token demo_service_def demo_state_def)
  show ?thesis
    using service_request_roundtrip [OF call demo_service_ok(1-3) _ _ _ _ act a(2-4), of 512 "[]"] demo_service_ok(3) a(5)
    by (auto simp: demo_client_def)
qed



section \<open>Stopping\<close>


definition demo_loop :: loop_env where
  "demo_loop = \<lparr>lp_service = demo_service, lp_pipe = one_byte_pipe, lp_timer = True, lp_sddl = (\<lambda>t. True), lp_create = (\<lambda>k. True)\<rparr>"

lemma first_turn:
  obtains s where "loop_run l (Worker_Turn # evs) (loop_start st) = loop_run l evs s" "sl_running s" "sl_pc s = Worker_Check"
    "sl_control s = Control_None" "sl_conn s = No_Client" "\<not> sl_event s" "sl_timer s \<noteq> Some True"
  by (rule that [of "worker_first l (loop_start st)"])
    (auto simp: loop_run_def wt_service_worker_def worker_first_def loop_start_def Let_def split: if_splits)

definition listening_run :: "loop_event list" where
  \<comment> \<open>the worker waits for a client, then the stop control comes\<close>
  "listening_run = replicate 5 Worker_Turn @ replicate 3 Control_Turn"

lemmas later_turns = loop_run_def wt_service_worker_def worker_timer_def worker_create_def worker_connect_def
  wt_service_ctrl_handler_def wt_service_ipc_create_pipe_instance_def wt_service_unblock_pipe_def pipe_listens_def
  waiting_def Let_def numeral_eq_Suc


text \<open>At the two other moments the knock finds no pipe, and the worker then waits for a client that may never come.\<close>

lemma stop_can_be_lost:
  fixes st :: service_state
  assumes "lp_sddl l = (\<lambda>t. True)" "lp_create l = (\<lambda>k. True)"
  defines "s \<equiv> loop_run l (replicate 2 Worker_Turn @ replicate 4 Control_Turn @ replicate 3 Worker_Turn) (loop_start st)"
  shows "\<not> sl_running s \<and> sl_control s = Control_Done \<and> sl_event s \<and> sl_pc s = Worker_Wait \<and> sl_conn s = No_Client \<and>
    loop_do l Worker_Turn s = s"
proof -
  obtain s1 where t: "loop_run l (Worker_Turn # Worker_Turn # replicate 4 Control_Turn @ replicate 3 Worker_Turn) (loop_start st) =
      loop_run l (Worker_Turn # replicate 4 Control_Turn @ replicate 3 Worker_Turn) s1" "sl_running s1" "sl_pc s1 = Worker_Check"
      "sl_control s1 = Control_None" "sl_conn s1 = No_Client" "\<not> sl_event s1" "sl_timer s1 \<noteq> Some True"
    by (rule first_turn)
  have "s = loop_run l (Worker_Turn # replicate 4 Control_Turn @ replicate 3 Worker_Turn) s1"
    using t(1) by (simp add: s_def numeral_2_eq_2)
  then show ?thesis using assms(1,2) t(2-) by (simp add: later_turns)
qed

text \<open>A scan that falls due while the worker waits for a client is not run before one comes.\<close>

lemma due_scan_waits:
  "waiting s \<Longrightarrow> loop_run l [Timer_Fires, Worker_Turn] s = s\<lparr>sl_timer := map_option (\<lambda>b. True) (sl_timer s)\<rparr>"
  by (auto simp: loop_run_def waiting_def wt_service_worker_def)

end
