(* ===== verification/Apply_Preview.thy ===== *)
theory Apply_Preview
  imports Action_Theorems
begin

text \<open>
  The dry run of the apply command (\<open>src/actions/apply_preview.c\<close>): the request is resolved as an apply would
  resolve it, and the answer is a record saying what would change. A preview gives its result code, the record and
  the state, of which only the identity cache can move (listing the startup entries looks publishers up). The file
  repeats helpers of \<open>safe_actions.c\<close>; they are modelled again and shown equal to those. An identifier that is NULL
  is the empty one and \<open>malloc\<close> succeeds, as in the model of the actions.
\<close>

unbundle bit_operations_syntax

section \<open>The record\<close>

record WT_ApplyPreview =
  ap_rec_id :: string
  ap_target_id :: string
  ap_action_type :: string
  ap_description :: string
  ap_previous_value :: string
  ap_new_value :: string
  ap_summary :: string
  ap_would_mutate :: bool
  ap_requires_admin :: bool
  ap_rollback_available :: bool
  ap_blocked :: bool

definition wt_apply_preview_init :: WT_ApplyPreview where
  "wt_apply_preview_init = \<lparr>ap_rec_id = [], ap_target_id = [], ap_action_type = [], ap_description = [],
     ap_previous_value = [], ap_new_value = [], ap_summary = [], ap_would_mutate = False, ap_requires_admin = False,
     ap_rollback_available = False, ap_blocked = False\<rparr>"

type_synonym preview_result = "WT_Result \<times> WT_ApplyPreview \<times> machine"

definition wt_preview_set_rec :: "string option \<Rightarrow> string option \<Rightarrow> WT_ApplyPreview \<Rightarrow> WT_ApplyPreview" where
  "wt_preview_set_rec rec_id target_id out =
     (let out = (case rec_id of None \<Rightarrow> out | Some r \<Rightarrow> out\<lparr>ap_rec_id := cch_copy 64 r\<rparr>)
      in case target_id of None \<Rightarrow> out | Some t \<Rightarrow> out\<lparr>ap_target_id := cch_copy 280 t\<rparr>)"

section \<open>Helpers repeated from the actions\<close>

definition preview_approved_location :: "WT_StartupSource \<Rightarrow> (WT_Result, string \<times> string) sum" where
  "preview_approved_location src = (case src of
     WT_STARTUP_SRC_HKCU_RUN \<Rightarrow> Inr (''HKCU'', WT_APPROVED_RUN)
   | WT_STARTUP_SRC_HKLM_RUN \<Rightarrow> Inr (''HKLM'', WT_APPROVED_RUN)
   | WT_STARTUP_SRC_USER_FOLDER \<Rightarrow> Inr (''HKCU'', WT_APPROVED_FOLDER)
   | WT_STARTUP_SRC_COMMON_FOLDER \<Rightarrow> Inr (''HKLM'', WT_APPROVED_FOLDER)
   | _ \<Rightarrow> Inl WT_ERR_NOT_SUPPORTED)"

definition preview_read_enabled :: "action_env \<Rightarrow> string \<Rightarrow> string \<Rightarrow> string \<Rightarrow> machine \<Rightarrow> bool" where
  "preview_read_enabled env hive_tag subkey value_name m =
     (let h = (if wcsicmp hive_tag ''HKLM'' then HKEY_LOCAL_MACHINE else HKEY_CURRENT_USER)
      in if \<not> ae_reg_open env h subkey then True
         else case mc_registry m (reg_value h subkey value_name) of
           None \<Rightarrow> True
         | Some blob \<Rightarrow> if length blob \<le> 12 \<and> 1 \<le> length blob then hd blob AND 1 = 0 else True)"

definition wt_find_startup :: "string \<Rightarrow> WT_StartupEntry list \<Rightarrow> WT_StartupEntry option" where
  "wt_find_startup i entries = find_first (\<lambda>e. wcsicmp (se_id e) i) entries"

definition wt_find_task :: "string \<Rightarrow> WT_ScheduledTask list \<Rightarrow> WT_ScheduledTask option" where
  "wt_find_task i tasks = find_first (\<lambda>t. wcsicmp (st_id t) i) tasks"

section \<open>Previews of the single actions\<close>

definition wt_apply_preview_power :: "action_env \<Rightarrow> WT_PowerScheme \<Rightarrow> machine \<Rightarrow> preview_result" where
  "wt_apply_preview_power env target m =
     (let out = wt_apply_preview_init
      in if target = WT_POWER_UNKNOWN
         then (WT_ERR_INVALID_ARGUMENT, out\<lparr>ap_summary := cch_copy 512 ''Unknown power plan target.''\<rparr>, m)
         else let out = (if target = WT_POWER_BALANCED \<or> target = WT_POWER_POWER_SAVER
                         then wt_preview_set_rec (Some ''WT-POWER-002'') None out
                         else wt_preview_set_rec (Some ''WT-POWER-001'') None out);
                  out = out\<lparr>ap_action_type := cch_copy 64 ''power_plan_change'', ap_rollback_available := True,
                          ap_requires_admin := False\<rparr>
         in case wt_collect_power_info (ae_power env) (mc_plan m) of (cr, cur) \<Rightarrow>
           if cr \<noteq> WT_OK
           then (WT_ERR_WIN32, out\<lparr>ap_summary := cch_copy 512 ''Could not read the current power plan.''\<rparr>, m)
           else let out = out\<lparr>ap_previous_value := snd (wt_power_get_active_guid_string (mc_plan m) 256)\<rparr>
           in case wt_power_scheme_guid_string target 256 of (gr, g) \<Rightarrow>
             let out = out\<lparr>ap_new_value := g\<rparr>
             in if gr \<noteq> WT_OK
                then (WT_ERR_INVALID_ARGUMENT, out\<lparr>ap_summary := cch_copy 512 ''Could not resolve target power plan GUID.''\<rparr>, m)
                else let out = out\<lparr>ap_description := cch_copy 256 (''Power plan: '' @ wt_power_scheme_name (pw_scheme cur) @
                                    '' -> '' @ wt_power_scheme_name target)\<rparr>
                in if pw_scheme cur = target
                   then (WT_OK, out\<lparr>ap_would_mutate := False, ap_summary := cch_copy 512 (''Power plan is already '' @
                           in_quotes (wt_power_scheme_name target) @ ''. No change would be made.'')\<rparr>, m)
                   else (WT_OK, out\<lparr>ap_would_mutate := True, ap_summary := cch_copy 512 (''Would switch power plan from '' @
                           in_quotes (wt_power_scheme_name (pw_scheme cur)) @ '' to '' @
                           in_quotes (wt_power_scheme_name target) @ ''.'')\<rparr>, m))"

definition value_text :: "string \<Rightarrow> string \<Rightarrow> string \<Rightarrow> string \<Rightarrow> string" where
  \<comment> \<open>\<open>%s|%s|%s|%s\<close> into a value of the preview\<close>
  "value_text hive_tag subkey name v = cch_copy 256 (hive_tag @ ''|'' @ subkey @ ''|'' @ name @ ''|'' @ v)"

definition admin_note :: "bool \<Rightarrow> string" where
  "admin_note b = (if b then '' (requires administrator)'' else [])"

definition wt_apply_preview_startup_enabled :: "action_env \<Rightarrow> string \<Rightarrow> bool \<Rightarrow> machine \<Rightarrow> preview_result" where
  "wt_apply_preview_startup_enabled env i enable m =
     (if i = [] then (WT_ERR_INVALID_ARGUMENT, wt_apply_preview_init, m)
      else let out = wt_preview_set_rec (Some ''WT-STARTUP-DISABLE'') (Some i) wt_apply_preview_init;
               out = (if enable then out\<lparr>ap_rec_id := cch_copy 64 ''startup-enable''\<rparr> else out);
               out = out\<lparr>ap_action_type := cch_copy 64 ''startup_approved'', ap_rollback_available := True\<rparr>
      in case collect_entries env m of (r, entries, m) \<Rightarrow>
        if r \<noteq> WT_OK then (WT_ERR_WIN32, out\<lparr>ap_summary := cch_copy 512 ''Could not read startup entries.''\<rparr>, m)
        else case wt_find_startup i entries of
          None \<Rightarrow> (WT_ERR_NOT_FOUND, out\<lparr>ap_summary := cch_copy 512 (''No startup entry with id '' @ in_quotes i @ ''.'')\<rparr>, m)
        | Some entry \<Rightarrow>
           (case preview_approved_location (se_source entry) of
              Inl loc \<Rightarrow> (loc, out\<lparr>ap_blocked := True, ap_summary := cch_copy 512 (''This startup entry'' @ CHR 0x27 #
                            ''s source is not supported for enable/disable.'')\<rparr>, m)
            | Inr (hive_tag, subkey) \<Rightarrow>
               (let out = out\<lparr>ap_requires_admin := wcsicmp hive_tag ''HKLM''\<rparr>;
                    prev = preview_read_enabled env hive_tag subkey (se_name entry) m;
                    out = out\<lparr>ap_description := cch_copy 256 (''Startup '' @ in_quotes (se_name entry) @ '': '' @
                              state_word prev @ '' -> '' @ state_word enable),
                            ap_previous_value := value_text hive_tag subkey (se_name entry) (if prev then ''02'' else ''03''),
                            ap_new_value := value_text hive_tag subkey (se_name entry) (if enable then ''02'' else ''03'')\<rparr>
                in if (enable \<and> prev) \<or> (\<not> enable \<and> \<not> prev)
                   then (WT_OK, out\<lparr>ap_would_mutate := False, ap_summary := cch_copy 512 (''Startup entry '' @
                           in_quotes (se_name entry) @ '' is already '' @ state_word enable @ ''.'')\<rparr>, m)
                   else (WT_OK, out\<lparr>ap_would_mutate := True, ap_summary := cch_copy 512 (''Would '' @
                           (if enable then ''enable'' else ''disable'') @ '' startup entry '' @ in_quotes (se_name entry) @
                           admin_note (ap_requires_admin out) @ ''.'')\<rparr>, m))))"

definition wt_apply_preview_startup_delay :: "action_env \<Rightarrow> string \<Rightarrow> nat \<Rightarrow> machine \<Rightarrow> preview_result" where
  "wt_apply_preview_startup_delay env i delay m =
     (if i = [] \<or> delay = 0 then (WT_ERR_INVALID_ARGUMENT, wt_apply_preview_init, m)
      else let out = (wt_preview_set_rec (Some ''WT-STARTUP-DELAY'') (Some i) wt_apply_preview_init)
                 \<lparr>ap_action_type := cch_copy 64 ''startup_delay'', ap_rollback_available := True\<rparr>
      in case collect_entries env m of (r, entries, m) \<Rightarrow>
        if r \<noteq> WT_OK then (WT_ERR_WIN32, out\<lparr>ap_summary := cch_copy 512 ''Could not read startup entries.''\<rparr>, m)
        else case wt_find_startup i entries of
          None \<Rightarrow> (WT_ERR_NOT_FOUND, out\<lparr>ap_summary := cch_copy 512 (''No startup entry with id '' @ in_quotes i @ ''.'')\<rparr>, m)
        | Some entry \<Rightarrow>
           (case preview_approved_location (se_source entry) of
              Inl loc \<Rightarrow> (loc, out\<lparr>ap_blocked := True,
                            ap_summary := cch_copy 512 ''Delayed start is not supported for this startup source.''\<rparr>, m)
            | Inr (hive_tag, subkey) \<Rightarrow>
               (let out = out\<lparr>ap_requires_admin := wcsicmp hive_tag ''HKLM'',
                      ap_description := cch_copy 256 (''Startup delay '' @ in_quotes (se_name entry) @ '': '' @ dec delay @ '' s''),
                      ap_previous_value := value_text hive_tag subkey (se_name entry) ''immediate'',
                      ap_new_value := value_text hive_tag subkey (se_name entry) (''delay:'' @ dec delay),
                      ap_would_mutate := True\<rparr>
                in (WT_OK, out\<lparr>ap_summary := cch_copy 512 (''Would delay startup entry '' @ in_quotes (se_name entry) @
                      '' by '' @ dec delay @ '' seconds'' @ admin_note (ap_requires_admin out) @ ''.'')\<rparr>, m))))"

definition wt_apply_preview_task_enabled :: "action_env \<Rightarrow> string \<Rightarrow> bool \<Rightarrow> machine \<Rightarrow> preview_result" where
  "wt_apply_preview_task_enabled env i enable m =
     (if i = [] then (WT_ERR_INVALID_ARGUMENT, wt_apply_preview_init, m)
      else let out = (wt_preview_set_rec (Some ''WT-TASK-DISABLE'') (Some i) wt_apply_preview_init)
                 \<lparr>ap_action_type := cch_copy 64 ''task_enabled'', ap_rollback_available := True\<rparr>
      in case wt_collect_scheduled_tasks (ae_com env) (ae_tree env (mc_tasks m)) WT_MAX_SCHEDULED_TASKS WT_TASK_FILTER_ALL of
        (r, tasks) \<Rightarrow>
        if r \<noteq> WT_OK then (WT_ERR_WIN32, out\<lparr>ap_summary := cch_copy 512 ''Could not read scheduled tasks.''\<rparr>, m)
        else case wt_find_task i tasks of
          None \<Rightarrow> (WT_ERR_NOT_FOUND, out\<lparr>ap_summary := cch_copy 512 (''No scheduled task with id '' @ in_quotes i @ ''.'')\<rparr>, m)
        | Some task \<Rightarrow>
           if wt_task_is_protected task
           then (WT_ERR_NOT_SUPPORTED, out\<lparr>ap_blocked := True,
                   ap_summary := cch_copy 512 ''Refusing to change a protected Microsoft/security task.''\<rparr>, m)
           else case wt_task_path_from_id i 256 of (pr, path) \<Rightarrow>
             if pr \<noteq> WT_OK then (WT_ERR_INVALID_ARGUMENT, out, m)
             else let out = out\<lparr>ap_description := cch_copy 256 (''Task '' @ in_quotes (st_name task) @ '': '' @
                              state_word (st_enabled task) @ '' -> '' @ state_word enable),
                            ap_previous_value := cch_copy 256 (path @ ''|'' @ (if st_enabled task then ''1'' else ''0'')),
                            ap_new_value := cch_copy 256 (path @ ''|'' @ (if enable then ''1'' else ''0''))\<rparr>
             in if (enable \<and> st_enabled task) \<or> (\<not> enable \<and> \<not> st_enabled task)
                then (WT_OK, out\<lparr>ap_would_mutate := False, ap_summary := cch_copy 512 (''Task '' @ in_quotes (st_name task) @
                        '' is already '' @ state_word enable @ ''.'')\<rparr>, m)
                else (WT_OK, out\<lparr>ap_would_mutate := True, ap_summary := cch_copy 512 (''Would '' @
                        (if enable then ''enable'' else ''disable'') @ '' scheduled task '' @ in_quotes (st_name task) @ ''.'')\<rparr>, m))"

definition wt_apply_preview_task_delay :: "action_env \<Rightarrow> string \<Rightarrow> nat \<Rightarrow> machine \<Rightarrow> preview_result" where
  "wt_apply_preview_task_delay env i delay m =
     (if i = [] \<or> delay = 0 then (WT_ERR_INVALID_ARGUMENT, wt_apply_preview_init, m)
      else let out = (wt_preview_set_rec (Some ''WT-TASK-DELAY'') (Some i) wt_apply_preview_init)
                 \<lparr>ap_action_type := cch_copy 64 ''task_delay'', ap_rollback_available := True\<rparr>
      in case wt_collect_scheduled_tasks (ae_com env) (ae_tree env (mc_tasks m)) WT_MAX_SCHEDULED_TASKS WT_TASK_FILTER_ALL of
        (r, tasks) \<Rightarrow>
        if r \<noteq> WT_OK then (WT_ERR_WIN32, out\<lparr>ap_summary := cch_copy 512 ''Could not read scheduled tasks.''\<rparr>, m)
        else case wt_find_task i tasks of
          None \<Rightarrow> (WT_ERR_NOT_FOUND, out\<lparr>ap_summary := cch_copy 512 (''No scheduled task with id '' @ in_quotes i @ ''.'')\<rparr>, m)
        | Some task \<Rightarrow>
           if wt_task_is_protected task
           then (WT_ERR_NOT_SUPPORTED, out\<lparr>ap_blocked := True,
                   ap_summary := cch_copy 512 ''Refusing to change a protected Microsoft/security task.''\<rparr>, m)
           else if st_trigger_kind task \<noteq> WT_TASK_TRIGGER_LOGON
           then (WT_ERR_NOT_SUPPORTED, out\<lparr>ap_blocked := True, ap_summary := cch_copy 512 (''Task '' @ in_quotes (st_name task) @
                   '' has no logon trigger; delay applies to logon-triggered tasks only.'')\<rparr>, m)
           else case wt_task_path_from_id i 256 of (pr, path) \<Rightarrow>
             if pr \<noteq> WT_OK then (WT_ERR_INVALID_ARGUMENT, out, m)
             else (WT_OK, out\<lparr>ap_description := cch_copy 256 (''Task delay '' @ in_quotes (st_name task) @ '': '' @ dec delay @ '' s''),
                     ap_previous_value := cch_copy 256 (path @ ''|'' @ dec (st_delay_seconds task)),
                     ap_new_value := cch_copy 256 (path @ ''|'' @ dec delay), ap_would_mutate := True,
                     ap_summary := cch_copy 512 (''Would delay logon task '' @ in_quotes (st_name task) @ '' by '' @
                       dec delay @ '' seconds.'')\<rparr>, m))"

section \<open>The preview of a request\<close>

definition preview_other :: "WT_ApplyRequest \<Rightarrow> machine \<Rightarrow> preview_result" where
  \<comment> \<open>ids with no action: advisory or unknown\<close>
  "preview_other req m =
     (if wt_apply_is_advisory_rec_id (rq_rec_id req)
      then (WT_ERR_NOT_SUPPORTED, (wt_preview_set_rec (Some (rq_rec_id req)) (Some (rq_target_id req)) wt_apply_preview_init)
              \<lparr>ap_would_mutate := False, ap_blocked := True,
               ap_summary := cch_copy 512 (in_quotes (rq_rec_id req) @ '' is advisory: it has no automatic action.'')\<rparr>, m)
      else (WT_ERR_NOT_FOUND, wt_apply_preview_init
              \<lparr>ap_summary := cch_copy 512 (in_quotes (rq_rec_id req) @ '' is not a recognized recommendation id.'')\<rparr>, m))"

definition preview_spec :: "action_env \<Rightarrow> WT_ApplyRequest \<Rightarrow> WT_ApplySpec \<Rightarrow> machine \<Rightarrow> preview_result" where
  \<comment> \<open>the switch on the kind of the table entry\<close>
  "preview_spec env req spec m =
     (let target = rq_target_id req;
          delay = (if rq_delay_seconds req = 0 then as_default_delay_seconds spec else rq_delay_seconds req);
          missing = (\<lambda>what. (WT_ERR_INVALID_ARGUMENT, wt_apply_preview_init\<lparr>ap_summary := cch_copy 512 what\<rparr>, m))
      in case as_kind spec of
           WT_APPLY_POWER_SCHEME \<Rightarrow> wt_apply_preview_power env (as_power_scheme spec) m
         | WT_APPLY_STARTUP_DISABLE \<Rightarrow>
             if target = [] then missing ''WT-STARTUP-DISABLE requires a startup entry id.''
             else wt_apply_preview_startup_enabled env target False m
         | WT_APPLY_STARTUP_DELAY \<Rightarrow>
             if target = [] then missing ''WT-STARTUP-DELAY requires a startup entry id.''
             else wt_apply_preview_startup_delay env target delay m
         | WT_APPLY_TASK_DISABLE \<Rightarrow>
             if target = [] then missing ''WT-TASK-DISABLE requires a task id.''
             else wt_apply_preview_task_enabled env target False m
         | WT_APPLY_TASK_DELAY \<Rightarrow>
             if target = [] then missing ''WT-TASK-DELAY requires a task id.''
             else wt_apply_preview_task_delay env target delay m
         | _ \<Rightarrow> preview_other req m)"

definition wt_apply_preview_from_request :: "action_env \<Rightarrow> WT_ApplyRequest \<Rightarrow> machine \<Rightarrow> preview_result" where
  "wt_apply_preview_from_request env req m =
     (if rq_rec_id req = []
      then (WT_ERR_INVALID_ARGUMENT,
              wt_apply_preview_init\<lparr>ap_summary := cch_copy 512 ''Usage: wintune apply <id> [target-id] --dry-run''\<rparr>, m)
      else case wt_apply_spec_lookup (rq_rec_id req) of
        Some spec \<Rightarrow> preview_spec env req spec m
      | None \<Rightarrow> preview_other req m)"

section \<open>Printing a preview\<close>

definition preview_esc_w_char :: "char \<Rightarrow> string" where
  "preview_esc_w_char c =
     (if c = CHR 0x5C \<or> c = CHR 0x22 then [CHR 0x5C, c]
      else if (of_char c :: nat) < 0x20 then CHR 0x5C # CHR ''u'' # hex4 (of_char c)
      else if (of_char c :: nat) < 0x80 then [c]
      else CHR 0x5C # CHR ''u'' # hex4 (of_char c))"

definition wt_json_escape_w :: "string \<Rightarrow> string" where
  "wt_json_escape_w s = concat (map preview_esc_w_char s)"

definition preview_esc_a_char :: "char \<Rightarrow> string" where
  "preview_esc_a_char c =
     (if c = CHR 0x5C \<or> c = CHR 0x22 then [CHR 0x5C, c]
      else if (of_char c :: nat) < 0x20 then CHR 0x5C # CHR ''u'' # hex4 (of_char c)
      else [c])"

definition wt_json_escape_a :: "string \<Rightarrow> string" where
  "wt_json_escape_a s = concat (map preview_esc_a_char s)"

definition yes_no :: "bool \<Rightarrow> string" where
  "yes_no b = (if b then ''yes'' else ''no'')"

definition optional_line :: "string \<Rightarrow> string \<Rightarrow> string" where
  "optional_line caption v = (if v \<noteq> [] then caption @ v @ nl else [])"

definition wt_apply_preview_print_text :: "WT_ApplyPreview \<Rightarrow> string" where
  "wt_apply_preview_print_text p =
     ''WinTune Apply Preview (dry-run)'' @ nl @ nl @
     ''Action:      '' @ (if ap_rec_id p \<noteq> [] then ap_rec_id p else ''(none)'') @ nl @
     optional_line ''Target:      '' (ap_target_id p) @ optional_line ''Type:        '' (ap_action_type p) @
     ''Would change: '' @ yes_no (ap_would_mutate p) @ nl @ ''Blocked:      '' @ yes_no (ap_blocked p) @ nl @
     ''Requires admin: '' @ yes_no (ap_requires_admin p) @ nl @
     ''Rollback on apply: '' @ yes_no (ap_rollback_available p) @ nl @
     optional_line ''Description: '' (ap_description p) @ optional_line ''Previous:    '' (ap_previous_value p) @
     optional_line ''New:         '' (ap_new_value p) @
     (if ap_summary p \<noteq> [] then nl @ ap_summary p @ nl else []) @
     nl @ ''No system changes were made. Re-run without --dry-run to apply.'' @ nl"

definition wt_apply_preview_print_json :: "WT_ApplyPreview \<Rightarrow> string" where
  "wt_apply_preview_print_json p =
     (let w = (\<lambda>s. CHR 0x22 # wt_json_escape_w s @ [CHR 0x22])
      in json_object_text 0
        [(''command'', qkey ''apply''), (''dry_run'', ''true''), (''rec_id'', w (ap_rec_id p)),
         (''target_id'', w (ap_target_id p)), (''action_type'', w (ap_action_type p)),
         (''description'', w (ap_description p)), (''previous_value'', w (ap_previous_value p)),
         (''new_value'', w (ap_new_value p)),
         (''summary'', CHR 0x22 # wt_json_escape_a (ap_summary p) @ [CHR 0x22]),
         (''would_mutate'', json_bool_text (ap_would_mutate p)), (''blocked'', json_bool_text (ap_blocked p)),
         (''requires_admin'', json_bool_text (ap_requires_admin p)),
         (''rollback_available'', json_bool_text (ap_rollback_available p))] @ nl)"

definition preview_doc :: "WT_ApplyPreview \<Rightarrow> json_value" where
  "preview_doc p = JObj
     [(''command'', JStr ''apply''), (''dry_run'', JBool True), (''rec_id'', JStr (ap_rec_id p)),
      (''target_id'', JStr (ap_target_id p)), (''action_type'', JStr (ap_action_type p)),
      (''description'', JStr (ap_description p)), (''previous_value'', JStr (ap_previous_value p)),
      (''new_value'', JStr (ap_new_value p)), (''summary'', JStr (ap_summary p)),
      (''would_mutate'', JBool (ap_would_mutate p)), (''blocked'', JBool (ap_blocked p)),
      (''requires_admin'', JBool (ap_requires_admin p)), (''rollback_available'', JBool (ap_rollback_available p))]"

lemma read_preview_esc:
  "read_string (preview_esc_w_char c @ r) = (case read_string r of None \<Rightarrow> None | Some (t, q) \<Rightarrow> Some (c # t, q))"
  "read_string (preview_esc_a_char c @ r) = (case read_string r of None \<Rightarrow> None | Some (t, q) \<Rightarrow> Some (c # t, q))"
  using read_u_hex4 [of "of_char c" r]
  by (auto simp: preview_esc_w_char_def preview_esc_a_char_def read_string_Cons read_escape_def)

lemma reads_preview_text:
  "reads (JStr s) (CHR 0x22 # wt_json_escape_w s @ [CHR 0x22])"
  "reads (JStr s) (CHR 0x22 # wt_json_escape_a s @ [CHR 0x22])"
proof -
  have "read_string (wt_json_escape_w s @ CHR 0x22 # r) = Some (s, r)"
    "read_string (wt_json_escape_a s @ CHR 0x22 # r) = Some (s, r)" for r
    by (induction s) (simp_all add: wt_json_escape_w_def wt_json_escape_a_def read_string_Cons read_preview_esc)
  then show "reads (JStr s) (CHR 0x22 # wt_json_escape_w s @ [CHR 0x22])"
    "reads (JStr s) (CHR 0x22 # wt_json_escape_a s @ [CHR 0x22])" by (auto intro: reads_quoted)
qed

lemma preview_json_reads: "read_document (wt_apply_preview_print_json p) = Some (preview_doc p)"
  unfolding wt_apply_preview_print_json_def Let_def
proof (rule reads_document [OF _ blank_spaces(2)])
  have t: "reads (JBool True) ''true''" using reads_bool [of True] by (simp add: json_bool_text_def)
  show "reads (preview_doc p) (json_object_text 0
        [(''command'', qkey ''apply''), (''dry_run'', ''true''), (''rec_id'', CHR 0x22 # wt_json_escape_w (ap_rec_id p) @ [CHR 0x22]),
         (''target_id'', CHR 0x22 # wt_json_escape_w (ap_target_id p) @ [CHR 0x22]),
         (''action_type'', CHR 0x22 # wt_json_escape_w (ap_action_type p) @ [CHR 0x22]),
         (''description'', CHR 0x22 # wt_json_escape_w (ap_description p) @ [CHR 0x22]),
         (''previous_value'', CHR 0x22 # wt_json_escape_w (ap_previous_value p) @ [CHR 0x22]),
         (''new_value'', CHR 0x22 # wt_json_escape_w (ap_new_value p) @ [CHR 0x22]),
         (''summary'', CHR 0x22 # wt_json_escape_a (ap_summary p) @ [CHR 0x22]),
         (''would_mutate'', json_bool_text (ap_would_mutate p)), (''blocked'', json_bool_text (ap_blocked p)),
         (''requires_admin'', json_bool_text (ap_requires_admin p)),
         (''rollback_available'', json_bool_text (ap_rollback_available p))])"
    unfolding preview_doc_def
    by (rule reads_object) (simp_all add: plain_key_def json_escape_char_def reads_key reads_preview_text reads_bool t)
qed

section \<open>A preview and its apply\<close>

lemma repeated_helpers:
  "preview_approved_location = wt_startup_approved_location" "preview_read_enabled = wt_startup_read_enabled"
  "wt_find_startup = wt_startup_find_entry"
  "wt_task_find_entry env i m = (case wt_collect_scheduled_tasks (ae_com env) (ae_tree env (mc_tasks m))
     WT_MAX_SCHEDULED_TASKS WT_TASK_FILTER_ALL of (r, ts) \<Rightarrow> if r \<noteq> WT_OK then None else wt_find_task i ts)"
  by (simp_all add: fun_eq_iff preview_approved_location_def wt_startup_approved_location_def preview_read_enabled_def
    wt_startup_read_enabled_def wt_hive_from_tag_def wt_find_startup_def wt_startup_find_entry_def
    wt_task_find_entry_def wt_find_task_def case_prod_beta)

definition recorded_as :: "action_env \<Rightarrow> WT_ApplyPreview \<Rightarrow> machine \<Rightarrow> bool" where
  \<comment> \<open>the last thing done was to write a record with the description and values of the preview; the values of a
    task delay are written with a word the preview leaves out\<close>
  "recorded_as env p m' \<longleftrightarrow> (\<exists>rec m. m' = snd (snd (wt_rollback_write env rec m)) \<and>
     rr_action_type rec = ap_action_type p \<and> rr_description rec = ap_description p \<and>
     (ap_action_type p \<noteq> ''task_delay'' \<longrightarrow>
        rr_previous_value rec = ap_previous_value p \<and> rr_new_value rec = ap_new_value p))"

definition predicts :: "action_env \<Rightarrow> preview_result \<Rightarrow> action_result \<Rightarrow> bool" where
  "predicts env prev act \<longleftrightarrow>
     (case prev of (r, p, m1) \<Rightarrow> case act of (ra, msg, m') \<Rightarrow>
        if r \<noteq> WT_OK then m' = m1 \<and> \<not> ap_would_mutate p \<and> (ra = r \<or> r = WT_ERR_WIN32 \<and> ra = WT_ERR_NOT_FOUND)
        else if \<not> ap_would_mutate p
        then m' = m1 \<and> (ra = WT_OK \<or> ra = WT_ERR_ACCESS_DENIED \<and> ap_requires_admin p \<and> \<not> ae_elevated env)
        else ap_rollback_available p \<and> (ra = WT_OK \<longrightarrow> recorded_as env p m'))"
lemma recorded_write:
  assumes "rr_action_type rec = ap_action_type p" "rr_description rec = ap_description p"
    "ap_action_type p \<noteq> ''task_delay'' \<longrightarrow> rr_previous_value rec = ap_previous_value p \<and> rr_new_value rec = ap_new_value p"
  shows "recorded_as env p (snd (snd (wt_rollback_write env rec m)))"
  using assms unfolding recorded_as_def by blast

lemma guid_256: "wt_guid_to_string g 256 = (WT_OK, guid_text g)" "cch_copy 256 (guid_text g) = guid_text g"
    "wt_guid_to_string g 64 = (WT_OK, guid_text g)"
  by (simp_all add: guid_to_string guid_text_length)

lemma active_guid_256: "cch_copy 256 (snd (wt_power_get_active_guid_string a 64)) = snd (wt_power_get_active_guid_string a 256)"
  by (simp add: wt_power_get_active_guid_string_def guid_256 split: option.split)

lemma power_predicted: "predicts env (wt_apply_preview_power env t m) (wt_action_set_power_plan env t y cap m)"
proof (cases "t = WT_POWER_UNKNOWN")
  case True
  then show ?thesis
    by (simp add: predicts_def wt_apply_preview_power_def wt_action_set_power_plan_def wt_apply_preview_init_def)
next
  case False
  then obtain g where g: "wt_power_scheme_guid t = Some g" by (cases t) (auto simp: wt_power_scheme_guid_def)
  define cur where "cur = snd (wt_collect_power_info (ae_power env) (mc_plan m))"
  have c: "wt_collect_power_info (ae_power env) (mc_plan m) = (WT_OK, cur)"
    by (simp add: cur_def wt_collect_power_info_def)
  show ?thesis
  proof (cases "pw_scheme cur = t")
    case True
    then show ?thesis using False
      by (simp add: predicts_def wt_apply_preview_power_def wt_action_set_power_plan_def c g Let_def
        wt_power_scheme_guid_string_def guid_256 wt_apply_preview_init_def wt_preview_set_rec_def)
  next
    case ne: False
    obtain p where p: "wt_apply_preview_power env t m = (WT_OK, p, m)" "ap_would_mutate p" "ap_rollback_available p"
      "ap_action_type p = ''power_plan_change''"
      "ap_description p = cch_copy 256 (''Power plan: '' @ wt_power_scheme_name (pw_scheme cur) @ '' -> '' @ wt_power_scheme_name t)"
      "ap_previous_value p = snd (wt_power_get_active_guid_string (mc_plan m) 256)" "ap_new_value p = guid_text g"
      using False ne
      by (simp add: wt_apply_preview_power_def c g Let_def wt_power_scheme_guid_string_def guid_256
        wt_apply_preview_init_def wt_preview_set_rec_def)
    have "recorded_as env p m'" if a: "wt_action_set_power_plan env t y cap m = (WT_OK, msg, m')" for msg m'
    proof -
      define m1 where "m1 = snd (wt_action_confirm env y m)"
      have y: "wt_action_confirm env y m = (True, m1)"
        using a False ne by (cases "wt_action_confirm env y m") (auto simp: wt_action_set_power_plan_def c m1_def Let_def split: if_splits)
      have "mc_plan m1 = mc_plan m" using confirm_input [of env y m] by (auto simp: m1_def)
      obtain r plan where w: "wt_power_set_active_scheme (ae_power env) t (mc_plan m1) = (r, plan)" by fastforce
      have r: "r = WT_OK" "plan = Some g"
        using a False ne w by (auto simp: wt_action_set_power_plan_def c y wt_power_set_active_scheme_def g power_activate_def
          case_prod_beta Let_def split: if_splits option.splits)
      then have "m' = snd (snd (wt_rollback_write env (power_record (pw_scheme cur) t
            (snd (wt_power_get_active_guid_string (mc_plan m) 64)) (guid_text g)) (m1\<lparr>mc_plan := Some g\<rparr>)))"
        using a False ne w by (simp add: wt_action_set_power_plan_def c y Let_def case_prod_beta
          wt_power_get_active_guid_string_def guid_256)
      then show ?thesis using p(4-7)
        by (simp only:) (rule recorded_write, simp_all add: power_record_def active_guid_256 guid_256)
    qed
    then show ?thesis using p
      by (cases "wt_action_set_power_plan env t y cap m") (simp add: predicts_def)
  qed
qed
lemma entry_name:
  assumes "collect_entries env m = (r, es, m1)" "wt_startup_find_entry i es = Some e"
  shows "cch_copy 256 (se_name e) = se_name e"
proof -
  have "entries_ok WT_MAX_STARTUP_ENTRIES ([], mc_cache m)" by (simp add: entries_ok_def)
  then have "entries_ok WT_MAX_STARTUP_ENTRIES (snd (wt_collect_startup_entries (ae_startup env) WT_MAX_STARTUP_ENTRIES (mc_cache m)))"
    by (simp add: wt_collect_startup_entries_def WT_MAX_STARTUP_ENTRIES_def Let_def scan_ok)
  then have "startup_entry_ok e"
    using assms find_first_Some by (fastforce simp: collect_entries_def wt_startup_find_entry_def entries_ok_def case_prod_beta)
  then show ?thesis by (simp add: startup_entry_ok_def cch_copy_id)
qed

lemmas preview_start = wt_apply_preview_init_def wt_preview_set_rec_def

lemma startup_enabled_predicted:
  "predicts env (wt_apply_preview_startup_enabled env i e m) (wt_action_set_startup_enabled env i e y cap m)"
proof (cases "i = []")
  case True
  then show ?thesis
    by (simp add: predicts_def wt_apply_preview_startup_enabled_def wt_action_set_startup_enabled_def preview_start)
next
  case False
  obtain r es m1 where c: "collect_entries env m = (r, es, m1)" using prod_cases3 by blast
  note defs = wt_apply_preview_startup_enabled_def wt_action_set_startup_enabled_def c repeated_helpers preview_start
  show ?thesis
  proof (cases "r = WT_OK \<and> wt_startup_find_entry i es \<noteq> None")
    case bad: False
    then show ?thesis using False by (auto simp: predicts_def defs Let_def)
  next
    case True
    then obtain en where en: "r = WT_OK" "wt_startup_find_entry i es = Some en" by blast
    note n = entry_name [OF c en(2)]
    show ?thesis
    proof (cases "wt_startup_approved_location (se_source en)")
      case (Inl loc)
      then have "loc = WT_ERR_NOT_SUPPORTED"
        by (auto simp: wt_startup_approved_location_def split: WT_StartupSource.splits)
      then show ?thesis using False en Inl by (simp add: predicts_def defs Let_def)
    next
      case (Inr hs)
      obtain tag sk where hs: "hs = (tag, sk)" by (cases hs)
      define prev where "prev = wt_startup_read_enabled env tag sk (se_name en) m1"
      show ?thesis
      proof (cases "e = prev")
        case True
        then show ?thesis using False en Inr by (simp add: predicts_def defs Let_def hs n prev_def)
      next
        case ne: False
        define p where "p = fst (snd (wt_apply_preview_startup_enabled env i e m))"
        have p: "wt_apply_preview_startup_enabled env i e m = (WT_OK, p, m1)" "ap_would_mutate p" "ap_rollback_available p"
          "ap_action_type p = ''startup_approved''"
          "ap_description p = cch_copy 256 (''Startup '' @ in_quotes (se_name en) @ '': '' @ state_word prev @ '' -> '' @ state_word e)"
          "ap_previous_value p = approved_value tag sk (se_name en) (if prev then ''02'' else ''03'')"
          "ap_new_value p = approved_value tag sk (se_name en) (if e then ''02'' else ''03'')"
          unfolding p_def using False en Inr ne
          by (simp_all add: defs Let_def hs n prev_def value_text_def approved_value_def)
        have "recorded_as env p m'" if a: "wt_action_set_startup_enabled env i e y cap m = (WT_OK, msg, m')" for msg m'
        proof -
          obtain m2 where "m' = snd (snd (wt_rollback_write env (approved_record i tag sk (se_name en) prev e) m2))"
            using a False en Inr ne
            by (auto simp: wt_action_set_startup_enabled_def c Let_def hs n prev_def [symmetric] case_prod_beta split: if_splits)
          then show ?thesis using p(4-7) by (simp only:) (rule recorded_write, simp_all add: approved_record_def)
        qed
        then show ?thesis using p
          by (cases "wt_action_set_startup_enabled env i e y cap m") (simp add: predicts_def)
      qed
    qed
  qed
qed

lemma startup_delay_predicted:
  "predicts env (wt_apply_preview_startup_delay env i d m) (wt_action_set_startup_delay env i d y cap m)"
proof (cases "i = [] \<or> d = 0")
  case True
  then show ?thesis
    by (auto simp: predicts_def wt_apply_preview_startup_delay_def wt_action_set_startup_delay_def preview_start)
next
  case False
  obtain r es m1 where c: "collect_entries env m = (r, es, m1)" using prod_cases3 by blast
  note defs = wt_apply_preview_startup_delay_def wt_action_set_startup_delay_def c repeated_helpers preview_start
  show ?thesis
  proof (cases "r = WT_OK \<and> wt_startup_find_entry i es \<noteq> None")
    case bad: False
    then show ?thesis using False by (auto simp: predicts_def defs Let_def)
  next
    case True
    then obtain en where en: "r = WT_OK" "wt_startup_find_entry i es = Some en" by blast
    show ?thesis
    proof (cases "wt_startup_approved_location (se_source en)")
      case (Inl loc)
      then have "loc = WT_ERR_NOT_SUPPORTED"
        by (auto simp: wt_startup_approved_location_def split: WT_StartupSource.splits)
      then show ?thesis using False en Inl by (simp add: predicts_def defs Let_def)
    next
      case (Inr hs)
      obtain tag sk where hs: "hs = (tag, sk)" by (cases hs)
      define p where "p = fst (snd (wt_apply_preview_startup_delay env i d m))"
      have p: "wt_apply_preview_startup_delay env i d m = (WT_OK, p, m1)" "ap_would_mutate p" "ap_rollback_available p"
        "ap_action_type p = ''startup_delay''"
        "ap_description p = cch_copy 256 (''Startup delay '' @ in_quotes (se_name en) @ '': '' @ dec d @ '' s'')"
        "ap_previous_value p = approved_value tag sk (se_name en) ''immediate''"
        "ap_new_value p = approved_value tag sk (se_name en) (''delay:'' @ dec d)"
        unfolding p_def using False en Inr
        by (simp_all add: defs Let_def hs value_text_def approved_value_def del: dec.simps)
      have "recorded_as env p m'" if a: "wt_action_set_startup_delay env i d y cap m = (WT_OK, msg, m')" for msg m'
      proof -
        obtain m2 where "m' = snd (snd (wt_rollback_write env (startup_delay_record i tag sk (se_name en) d) m2))"
          using a False en Inr
          by (auto simp: wt_action_set_startup_delay_def c Let_def hs case_prod_beta simp del: dec.simps split: if_splits)
        then show ?thesis using p(4-7)
          by (simp only:) (rule recorded_write, simp_all add: startup_delay_record_def del: dec.simps)
      qed
      then show ?thesis using p
        by (cases "wt_action_set_startup_delay env i d y cap m") (simp add: predicts_def)
    qed
  qed
qed
lemma task_enabled_predicted:
  assumes "wt_action_set_task_enabled env i e y cap m = Some act"
  shows "predicts env (wt_apply_preview_task_enabled env i e m) act"
proof (cases "i = []")
  case True
  then show ?thesis using assms
    by (auto simp: predicts_def wt_apply_preview_task_enabled_def wt_action_set_task_enabled_def preview_start)
next
  case False
  obtain r ts where c: "wt_collect_scheduled_tasks (ae_com env) (ae_tree env (mc_tasks m)) WT_MAX_SCHEDULED_TASKS
      WT_TASK_FILTER_ALL = (r, ts)" by fastforce
  obtain pr path where pp: "wt_task_path_from_id i 256 = (pr, path)" by fastforce
  note defs = wt_apply_preview_task_enabled_def wt_action_set_task_enabled_def c repeated_helpers(4) preview_start pp
  show ?thesis
  proof (cases "r = WT_OK \<and> (\<exists>t. wt_find_task i ts = Some t \<and> \<not> wt_task_is_protected t \<and> pr = WT_OK \<and> e \<noteq> st_enabled t)")
    case stop: False
    then show ?thesis using False assms
      by (auto simp: predicts_def defs Let_def split: option.splits if_splits)
  next
    case True
    then obtain t where t: "r = WT_OK" "wt_find_task i ts = Some t" "\<not> wt_task_is_protected t" "pr = WT_OK" "e \<noteq> st_enabled t"
      by blast
    define p where "p = fst (snd (wt_apply_preview_task_enabled env i e m))"
    have p: "wt_apply_preview_task_enabled env i e m = (WT_OK, p, m)" "ap_would_mutate p" "ap_rollback_available p"
      "ap_action_type p = ''task_enabled''"
      "ap_description p = rr_description (task_enabled_record i path (st_name t) (st_enabled t) e)"
      "ap_previous_value p = rr_previous_value (task_enabled_record i path (st_name t) (st_enabled t) e)"
      "ap_new_value p = rr_new_value (task_enabled_record i path (st_name t) (st_enabled t) e)"
      unfolding p_def using False t by (simp_all add: defs Let_def task_enabled_record_def)
    have "recorded_as env p m'" if a: "act = (WT_OK, msg, m')" for msg m'
    proof -
      obtain m2 where "m' = snd (snd (wt_rollback_write env (task_enabled_record i path (st_name t) (st_enabled t) e) m2))"
        using a assms False t
        by (auto simp: wt_action_set_task_enabled_def repeated_helpers(4) c pp Let_def case_prod_beta split: if_splits option.splits)
      then show ?thesis using p(4-7) by (simp only:) (rule recorded_write, simp_all add: task_enabled_record_def)
    qed
    then show ?thesis using p by (cases act) (simp add: predicts_def)
  qed
qed

lemma task_delay_predicted:
  assumes "wt_action_set_task_delay env i d y cap m = Some act"
  shows "predicts env (wt_apply_preview_task_delay env i d m) act"
proof (cases "i = [] \<or> d = 0")
  case True
  then show ?thesis using assms
    by (auto simp: predicts_def wt_apply_preview_task_delay_def wt_action_set_task_delay_def preview_start)
next
  case False
  obtain r ts where c: "wt_collect_scheduled_tasks (ae_com env) (ae_tree env (mc_tasks m)) WT_MAX_SCHEDULED_TASKS
      WT_TASK_FILTER_ALL = (r, ts)" by fastforce
  obtain pr path where pp: "wt_task_path_from_id i 256 = (pr, path)" by fastforce
  note defs = wt_apply_preview_task_delay_def wt_action_set_task_delay_def c repeated_helpers(4) preview_start pp
  show ?thesis
  proof (cases "r = WT_OK \<and> (\<exists>t. wt_find_task i ts = Some t \<and> \<not> wt_task_is_protected t \<and>
      st_trigger_kind t = WT_TASK_TRIGGER_LOGON \<and> pr = WT_OK)")
    case stop: False
    then show ?thesis using False assms
      by (auto simp: predicts_def defs Let_def split: option.splits if_splits)
  next
    case True
    then obtain t where t: "r = WT_OK" "wt_find_task i ts = Some t" "\<not> wt_task_is_protected t"
      "st_trigger_kind t = WT_TASK_TRIGGER_LOGON" "pr = WT_OK" by blast
    define p where "p = fst (snd (wt_apply_preview_task_delay env i d m))"
    have p: "wt_apply_preview_task_delay env i d m = (WT_OK, p, m)" "ap_would_mutate p" "ap_rollback_available p"
      "ap_action_type p = ''task_delay''"
      "ap_description p = rr_description (task_delay_record i path (st_name t) (st_delay_seconds t) d)"
      unfolding p_def using False t by (simp_all add: defs Let_def task_delay_record_def del: dec.simps)
    have "recorded_as env p m'" if a: "act = (WT_OK, msg, m')" for msg m'
    proof -
      obtain m2 where "m' = snd (snd (wt_rollback_write env (task_delay_record i path (st_name t) (st_delay_seconds t) d) m2))"
        using a assms False t
        by (auto simp: wt_action_set_task_delay_def repeated_helpers(4) c pp Let_def case_prod_beta simp del: dec.simps
          split: if_splits option.splits)
      then show ?thesis using p(4,5)
        by (simp only:) (rule recorded_write, simp_all add: task_delay_record_def del: dec.simps)
    qed
    then show ?thesis using p by (cases act) (simp add: predicts_def)
  qed
qed

lemma other_predicted: "apply_other req m = Some act \<Longrightarrow> predicts env (preview_other req m) act"
  by (auto simp: apply_other_def preview_other_def predicts_def preview_start split: if_splits)

lemma missing_predicted: "\<not> ap_would_mutate p \<Longrightarrow> predicts env (WT_ERR_INVALID_ARGUMENT, p, m) (WT_ERR_INVALID_ARGUMENT, msg, m)"
  by (simp add: predicts_def)

lemma spec_predicted:
  assumes "apply_spec env req spec m = Some act"
  shows "predicts env (preview_spec env req spec m) act"
proof -
  note d = apply_spec_def preview_spec_def Let_def
  have none: "predicts env (WT_ERR_INVALID_ARGUMENT, wt_apply_preview_init\<lparr>ap_summary := t\<rparr>, m) (WT_ERR_INVALID_ARGUMENT, msg, m)" for t msg
    by (rule missing_predicted) (simp add: wt_apply_preview_init_def)
  show ?thesis
  proof (cases "as_kind spec")
    case WT_APPLY_POWER_SCHEME
    then show ?thesis using assms power_predicted by (simp add: d) blast
  next
    case WT_APPLY_STARTUP_DISABLE
    then show ?thesis using assms none startup_enabled_predicted by (cases "rq_target_id req = []") (auto simp: d)
  next
    case WT_APPLY_STARTUP_DELAY
    then show ?thesis using assms none startup_delay_predicted by (cases "rq_target_id req = []") (auto simp: d)
  next
    case WT_APPLY_TASK_DISABLE
    then show ?thesis using assms none task_enabled_predicted by (cases "rq_target_id req = []") (auto simp: d)
  next
    case WT_APPLY_TASK_DELAY
    then show ?thesis using assms none task_delay_predicted by (cases "rq_target_id req = []") (auto simp: d)
  qed (use assms other_predicted in \<open>simp_all add: d\<close>)
qed

definition cache_only :: "machine \<Rightarrow> preview_result \<Rightarrow> bool" where
  "cache_only m r \<longleftrightarrow> (\<exists>c. snd (snd r) = m\<lparr>mc_cache := c\<rparr>)"

lemma cache_only_same [simp]: "cache_only m (r, p, m)"
  by (auto simp: cache_only_def intro: exI [of _ "mc_cache m"])

lemma cache_only_collect:
  assumes "collect_entries env m = (r, es, m1)"
  shows "cache_only m (q, p, m1)"
  using collect_cache [of env m] by (simp add: assms cache_only_def)

lemma cache_only_cases:
  "(c \<Longrightarrow> cache_only m r) \<Longrightarrow> (\<not> c \<Longrightarrow> cache_only m r') \<Longrightarrow> cache_only m (if c then r else r')"
  "(\<And>x. cache_only m (f x)) \<Longrightarrow> cache_only m (Let t f)"
  "(\<And>a b. cache_only m (g a b)) \<Longrightarrow> cache_only m (case pr of (a, b) \<Rightarrow> g a b)"
  "cache_only m r \<Longrightarrow> (\<And>x. cache_only m (h x)) \<Longrightarrow> cache_only m (case opt of None \<Rightarrow> r | Some x \<Rightarrow> h x)"
  "(\<And>x. cache_only m (k x)) \<Longrightarrow> (\<And>y. cache_only m (l y)) \<Longrightarrow> cache_only m (case sm of Inl x \<Rightarrow> k x | Inr y \<Rightarrow> l y)"
  by (simp_all add: Let_def split: prod.split option.split sum.split)

lemma startup_previews_cache:
  "cache_only m (wt_apply_preview_startup_enabled env i e m)" "cache_only m (wt_apply_preview_startup_delay env i d m)"
proof -
  obtain r es m1 where c: "collect_entries env m = (r, es, m1)" using prod_cases3 by blast
  show "cache_only m (wt_apply_preview_startup_enabled env i e m)" "cache_only m (wt_apply_preview_startup_delay env i d m)"
    unfolding wt_apply_preview_startup_enabled_def wt_apply_preview_startup_delay_def c prod.case
    by (intro cache_only_cases cache_only_same cache_only_collect [OF c])+
qed

lemma other_previews_cache:
  "cache_only m (wt_apply_preview_task_enabled env i e m)" "cache_only m (wt_apply_preview_task_delay env i d m)"
  "cache_only m (wt_apply_preview_power env t m)" "cache_only m (preview_other req m)"
  unfolding wt_apply_preview_task_enabled_def wt_apply_preview_task_delay_def wt_apply_preview_power_def preview_other_def
  by (intro cache_only_cases cache_only_same)+

lemma preview_cache: "cache_only m (wt_apply_preview_from_request env req m)"
proof -
  have "cache_only m (preview_spec env req spec m)" for spec
    by (cases "as_kind spec")
      (simp_all add: preview_spec_def Let_def startup_previews_cache other_previews_cache)
  then show ?thesis unfolding wt_apply_preview_from_request_def
    by (intro cache_only_cases cache_only_same other_previews_cache)
qed



text \<open>The values of a task delay: the preview shows \<open>path|30\<close>, the record holds \<open>path|delay:30\<close>.\<close>

lemma task_delay_value_differs:
  "cch_copy 256 (bsl ''/V/a'' @ ''|'' @ dec 30) \<noteq> rr_new_value (task_delay_record i (bsl ''/V/a'') nm prev 30)"
  by (simp add: task_delay_record_def) code_simp

end
