(* ===== verification/Net_Rates.thy ===== *)
theory Net_Rates
  imports Collectors
begin

text \<open>
  Network rates per process (\<open>src/metrics/network.c\<close> from \<open>wt_find_process_net_rate\<close> on): two captures of the TCP
  connection tables matched connection by connection, and the byte counts of UDP summary events collected while a
  trace runs. A capture is what the tables and the extended statistics answer (\<open>tcp_tables\<close>); the events of the trace
  are the pairs of an event id and its payload bytes. Starting and stopping the trace itself is left to Windows: None
  stands for a trace that did not start. The reads of a payload give None when they would go past its end.
\<close>

unbundle bit_operations_syntax

section \<open>Rates\<close>

record WT_ProcessNetRate =
  nr_pid :: nat
  nr_recv_bytes_per_sec :: rat
  nr_send_bytes_per_sec :: rat
  nr_udp_recv_bytes_per_sec :: rat
  nr_udp_send_bytes_per_sec :: rat

definition wt_find_process_net_rate :: "WT_ProcessNetRate list \<Rightarrow> nat \<Rightarrow> WT_ProcessNetRate option" where
  "wt_find_process_net_rate rates pid = find_first (\<lambda>r. nr_pid r = pid) rates"

fun update_first :: "('a \<Rightarrow> bool) \<Rightarrow> ('a \<Rightarrow> 'a) \<Rightarrow> 'a list \<Rightarrow> 'a list option" where
  \<comment> \<open>the loops that change the first matching slot and return: None when there is none\<close>
  "update_first p f [] = None"
| "update_first p f (x # xs) = (if p x then Some (f x # xs) else map_option ((#) x) (update_first p f xs))"

definition wt_net_rate_add :: "nat \<Rightarrow> nat \<Rightarrow> rat \<Rightarrow> rat \<Rightarrow> WT_ProcessNetRate list \<Rightarrow> WT_ProcessNetRate list" where
  "wt_net_rate_add capacity pid recv_bps send_bps out =
     (if pid = 0 then out
      else case update_first (\<lambda>r. nr_pid r = pid)
             (\<lambda>r. r\<lparr>nr_recv_bytes_per_sec := nr_recv_bytes_per_sec r + recv_bps,
                   nr_send_bytes_per_sec := nr_send_bytes_per_sec r + send_bps\<rparr>) out of
        Some out' \<Rightarrow> out'
      | None \<Rightarrow> if length out \<ge> capacity then out
                else out @ [\<lparr>nr_pid = pid, nr_recv_bytes_per_sec = recv_bps, nr_send_bytes_per_sec = send_bps,
                             nr_udp_recv_bytes_per_sec = -1, nr_udp_send_bytes_per_sec = -1\<rparr>])"

section \<open>Connections\<close>

definition WT_NET_DEFAULT_SAMPLE_MS :: nat where "WT_NET_DEFAULT_SAMPLE_MS = 500"
definition WT_NET_MAX_CONNECTIONS :: nat where "WT_NET_MAX_CONNECTIONS = 1024"
definition WT_NET_MAX_CONN_DELTA_BYTES :: nat where "WT_NET_MAX_CONN_DELTA_BYTES = 256 * 1024 * 1024"
definition WT_UDP_MAX_PIDS :: nat where "WT_UDP_MAX_PIDS = 256"
definition WT_UDP_EVENT_SEND :: nat where "WT_UDP_EVENT_SEND = 1169"
definition WT_UDP_EVENT_RECV :: nat where "WT_UDP_EVENT_RECV = 1170"

datatype address_family = AF_INET | AF_INET6

record WT_TcpConnSnap =
  ts_family :: address_family
  ts_pid :: nat
  ts_local_addr :: nat
  ts_remote_addr :: nat
  ts_local_port :: nat
  ts_remote_port :: nat
  ts_local6 :: "byte list"
  ts_remote6 :: "byte list"
  ts_bytes_in :: nat
  ts_bytes_out :: nat
  ts_ok :: bool

record tcp4_row =
  t4_pid :: nat
  t4_local_addr :: nat
  t4_remote_addr :: nat
  t4_local_port :: nat
  t4_remote_port :: nat
  t4_estats :: "(nat \<times> nat) option"          \<comment> \<open>bytes in and out, None when the read fails\<close>

record tcp6_row =
  t6_pid :: nat
  t6_local_addr :: "byte list"
  t6_remote_addr :: "byte list"
  t6_local_port :: nat
  t6_remote_port :: nat
  t6_estats :: "(nat \<times> nat) option"

record tcp_tables =
  tt_v4 :: "tcp4_row list option"             \<comment> \<open>None: the table could not be fetched\<close>
  tt_v6 :: "tcp6_row list option"

definition wt_tcp_read_estats4 :: "tcp4_row \<Rightarrow> WT_TcpConnSnap" where
  "wt_tcp_read_estats4 row = \<lparr>ts_family = AF_INET, ts_pid = t4_pid row, ts_local_addr = t4_local_addr row,
     ts_remote_addr = t4_remote_addr row, ts_local_port = t4_local_port row, ts_remote_port = t4_remote_port row,
     ts_local6 = replicate 16 0, ts_remote6 = replicate 16 0,
     ts_bytes_in = (case t4_estats row of None \<Rightarrow> 0 | Some (i, w) \<Rightarrow> i),
     ts_bytes_out = (case t4_estats row of None \<Rightarrow> 0 | Some (i, w) \<Rightarrow> w), ts_ok = (t4_estats row \<noteq> None)\<rparr>"

definition wt_tcp_read_estats6 :: "tcp6_row \<Rightarrow> WT_TcpConnSnap" where
  "wt_tcp_read_estats6 row = \<lparr>ts_family = AF_INET6, ts_pid = t6_pid row, ts_local_addr = 0,
     ts_remote_addr = 0, ts_local_port = t6_local_port row, ts_remote_port = t6_remote_port row,
     ts_local6 = t6_local_addr row, ts_remote6 = t6_remote_addr row,
     ts_bytes_in = (case t6_estats row of None \<Rightarrow> 0 | Some (i, w) \<Rightarrow> i),
     ts_bytes_out = (case t6_estats row of None \<Rightarrow> 0 | Some (i, w) \<Rightarrow> w), ts_ok = (t6_estats row \<noteq> None)\<rparr>"

fun capture_rows :: "nat \<Rightarrow> WT_TcpConnSnap list \<Rightarrow> WT_TcpConnSnap list \<Rightarrow> WT_TcpConnSnap list" where
  \<comment> \<open>the loop over a table: a snapshot that is not \<open>ok\<close> is overwritten by the next\<close>
  "capture_rows capacity [] snaps = snaps"
| "capture_rows capacity (s # ss) snaps =
     (if \<not> length snaps < capacity then snaps
      else capture_rows capacity ss (if ts_ok s then snaps @ [s] else snaps))"

definition wt_tcp_capture :: "nat \<Rightarrow> tcp_tables \<Rightarrow> WT_Result \<times> WT_TcpConnSnap list" where
  "wt_tcp_capture capacity t =
     (if capacity = 0 then (WT_ERR_INVALID_ARGUMENT, [])
      else let snaps = (case tt_v4 t of None \<Rightarrow> [] | Some rows \<Rightarrow> capture_rows capacity (map wt_tcp_read_estats4 rows) [])
           in (WT_OK, case tt_v6 t of None \<Rightarrow> snaps | Some rows \<Rightarrow> capture_rows capacity (map wt_tcp_read_estats6 rows) snaps))"

definition wt_tcp_snap_match :: "WT_TcpConnSnap \<Rightarrow> WT_TcpConnSnap \<Rightarrow> bool" where
  "wt_tcp_snap_match a b =
     (if ts_family a \<noteq> ts_family b \<or> ts_local_port a \<noteq> ts_local_port b \<or> ts_remote_port a \<noteq> ts_remote_port b then False
      else if ts_family a = AF_INET then ts_local_addr a = ts_local_addr b \<and> ts_remote_addr a = ts_remote_addr b
      else ts_local6 a = ts_local6 b \<and> ts_remote6 a = ts_remote6 b)"

section \<open>UDP summary events\<close>

record WT_UdpAccum =
  ud_pid :: nat
  ud_send_bytes :: nat
  ud_recv_bytes :: nat

definition wt_udp_add :: "nat \<Rightarrow> nat \<Rightarrow> bool \<Rightarrow> WT_UdpAccum list \<Rightarrow> WT_UdpAccum list" where
  "wt_udp_add pid nbytes is_send rows =
     (if pid = 0 \<or> nbytes = 0 then rows
      else case update_first (\<lambda>r. ud_pid r = pid)
             (\<lambda>r. if is_send then r\<lparr>ud_send_bytes := ud_send_bytes r + nbytes\<rparr>
                  else r\<lparr>ud_recv_bytes := ud_recv_bytes r + nbytes\<rparr>) rows of
        Some rows' \<Rightarrow> rows'
      | None \<Rightarrow> if length rows \<ge> WT_UDP_MAX_PIDS then rows
                else rows @ [\<lparr>ud_pid = pid, ud_send_bytes = (if is_send then nbytes else 0),
                              ud_recv_bytes = (if is_send then 0 else nbytes)\<rparr>])"

definition le32 :: "byte list \<Rightarrow> u32" where
  "le32 bs = foldr (\<lambda>b acc. ucast b OR push_bit 8 acc) bs 0"

definition read_u32 :: "byte list \<Rightarrow> nat \<Rightarrow> u32 option" where
  \<comment> \<open>\<open>memcpy\<close> of four bytes at an offset\<close>
  "read_u32 data p = (if p + 4 \<le> length data then Some (le32 (take 4 (drop p data))) else None)"

definition udp_pid :: "byte list \<Rightarrow> nat \<Rightarrow> u32 \<Rightarrow> u32 \<Rightarrow> (u32 \<times> u32) option option" where
  \<comment> \<open>the last field of the payload\<close>
  "udp_pid data p left nbytes =
     (if left < 4 then Some None
      else case read_u32 data p of None \<Rightarrow> None | Some event_pid \<Rightarrow> Some (Some (event_pid, nbytes)))"

definition skip_blob ::
  "byte list \<Rightarrow> nat \<Rightarrow> u32 \<Rightarrow> (nat \<Rightarrow> u32 \<Rightarrow> (u32 \<times> u32) option option) \<Rightarrow> (u32 \<times> u32) option option" where
  \<comment> \<open>a length and as many bytes of a socket address; \<open>k\<close> goes on behind them\<close>
  "skip_blob data p left k =
     (if left < 4 then Some None
      else case read_u32 data p of
        None \<Rightarrow> None
      | Some n \<Rightarrow> let p = p + 4; left = left - 4
                  in if n > left then Some None else k (p + unat n) (left - n))"

definition wt_udp_parse_summary :: "byte list \<Rightarrow> (u32 \<times> u32) option option" where
  \<comment> \<open>pid and byte count; the outer None is a read past the payload, the inner one the answer 0\<close>
  "wt_udp_parse_summary data =
     (let p = 0; left = of_nat (length data) :: u32
      in if unat left < 8 + 8 then Some None
         else let p = p + 8; left = left - 8
         in if left < 8 then Some None
         else let p = p + 4; left = left - 4
         in case read_u32 data p of
              None \<Rightarrow> None
            | Some nbytes \<Rightarrow> let p = p + 4; left = left - 4
                in skip_blob data p left (\<lambda>p left. skip_blob data p left (\<lambda>p left. udp_pid data p left nbytes)))"

definition wt_udp_on_event :: "nat \<times> byte list \<Rightarrow> WT_UdpAccum list \<Rightarrow> WT_UdpAccum list option" where
  "wt_udp_on_event ev rows =
     (if fst ev \<noteq> WT_UDP_EVENT_SEND \<and> fst ev \<noteq> WT_UDP_EVENT_RECV then Some rows
      else case wt_udp_parse_summary (snd ev) of
        None \<Rightarrow> None
      | Some None \<Rightarrow> Some rows
      | Some (Some (pid, nbytes)) \<Rightarrow> Some (wt_udp_add (unat pid) (unat nbytes) (fst ev = WT_UDP_EVENT_SEND) rows))"

fun udp_events :: "(nat \<times> byte list) list \<Rightarrow> WT_UdpAccum list \<Rightarrow> WT_UdpAccum list option" where
  "udp_events [] rows = Some rows"
| "udp_events (ev # evs) rows = (case wt_udp_on_event ev rows of None \<Rightarrow> None | Some rows' \<Rightarrow> udp_events evs rows')"

section \<open>A sample\<close>

text \<open>\<open>ns_udp\<close> are the events of the trace of this window, None without one.\<close>
record WT_NetTcpSampleSession =
  ns_before :: "WT_TcpConnSnap list option"
  ns_sample_ms :: nat
  ns_active :: bool
  ns_udp :: "(nat \<times> byte list) list option"
  ns_udp_measured :: bool

record net_world =
  nw_settled :: tcp_tables                        \<comment> \<open>the tables 50 ms after collection is switched on\<close>
  nw_after :: tcp_tables                          \<comment> \<open>the tables at the end of the window\<close>
  nw_udp :: "(nat \<times> byte list) list option"

definition wt_net_tcp_sample_start :: "net_world \<Rightarrow> nat \<Rightarrow> WT_Result \<times> WT_NetTcpSampleSession" where
  \<comment> \<open>the capture that switches collection on is thrown away\<close>
  "wt_net_tcp_sample_start w sample_ms =
     (let s = \<lparr>ns_before = None, ns_sample_ms = (if sample_ms \<noteq> 0 then sample_ms else WT_NET_DEFAULT_SAMPLE_MS),
               ns_active = False, ns_udp = None, ns_udp_measured = False\<rparr>
      in case wt_tcp_capture WT_NET_MAX_CONNECTIONS (nw_settled w) of (r, before) \<Rightarrow>
           if r \<noteq> WT_OK then (r, s)
           else (WT_OK, s\<lparr>ns_before := Some before, ns_active := True, ns_udp := nw_udp w,
                         ns_udp_measured := (nw_udp w \<noteq> None)\<rparr>))"

definition wt_net_tcp_sample_abort :: "WT_NetTcpSampleSession \<Rightarrow> WT_NetTcpSampleSession" where
  "wt_net_tcp_sample_abort s = s\<lparr>ns_udp := None, ns_before := None, ns_active := False\<rparr>"

definition conn_delta :: "WT_TcpConnSnap list \<Rightarrow> WT_TcpConnSnap \<Rightarrow> (nat \<times> nat) option" where
  \<comment> \<open>bytes in and out of one connection since its first match before, None for the branches of \<open>continue\<close>\<close>
  "conn_delta before a =
     (if \<not> ts_ok a then None
      else case find_first (wt_tcp_snap_match a) before of
        None \<Rightarrow> None
      | Some b \<Rightarrow>
         if \<not> ts_ok b then None
         else let din = (if ts_bytes_in a \<ge> ts_bytes_in b then ts_bytes_in a - ts_bytes_in b else 0);
                  dout = (if ts_bytes_out a \<ge> ts_bytes_out b then ts_bytes_out a - ts_bytes_out b else 0)
              in if din > WT_NET_MAX_CONN_DELTA_BYTES \<or> dout > WT_NET_MAX_CONN_DELTA_BYTES then None
                 else if din = 0 \<and> dout = 0 then None else Some (din, dout))"

fun tcp_rates :: "nat \<Rightarrow> rat \<Rightarrow> WT_TcpConnSnap list \<Rightarrow> WT_TcpConnSnap list \<Rightarrow> WT_ProcessNetRate list \<Rightarrow> WT_ProcessNetRate list" where
  "tcp_rates capacity secs before [] out = out"
| "tcp_rates capacity secs before (a # as) out =
     tcp_rates capacity secs before as
       (case conn_delta before a of None \<Rightarrow> out
        | Some (din, dout) \<Rightarrow> wt_net_rate_add capacity (ts_pid a) (of_nat din / secs) (of_nat dout / secs) out)"

definition udp_row_rate :: "nat \<Rightarrow> rat \<Rightarrow> WT_UdpAccum \<Rightarrow> WT_ProcessNetRate list \<Rightarrow> WT_ProcessNetRate list" where
  "udp_row_rate capacity secs row out =
     (let recv = of_nat (ud_recv_bytes row) / secs; send = of_nat (ud_send_bytes row) / secs;
          put = (\<lambda>r. r\<lparr>nr_udp_recv_bytes_per_sec := recv, nr_udp_send_bytes_per_sec := send\<rparr>)
      in case update_first (\<lambda>r. nr_pid r = ud_pid row) put out of
           Some out' \<Rightarrow> out'
         | None \<Rightarrow> let out' = wt_net_rate_add capacity (ud_pid row) 0 0 out
                   in if out' \<noteq> [] \<and> nr_pid (last out') = ud_pid row then butlast out' @ [put (last out')] else out')"

definition wt_net_tcp_sample_finish ::
  "net_world \<Rightarrow> nat \<Rightarrow> WT_NetTcpSampleSession \<Rightarrow> (WT_Result \<times> WT_ProcessNetRate list \<times> WT_NetTcpSampleSession) option" where
  \<comment> \<open>None when an event payload would be read past its end\<close>
  "wt_net_tcp_sample_finish w capacity s =
     (if capacity = 0 then Some (WT_ERR_INVALID_ARGUMENT, [], s)
      else if \<not> ns_active s \<or> ns_before s = None then Some (WT_ERR_INVALID_ARGUMENT, [], s)
      else case (case ns_udp s of None \<Rightarrow> Some [] | Some evs \<Rightarrow> udp_events evs []) of
        None \<Rightarrow> None
      | Some rows \<Rightarrow>
         (case wt_tcp_capture WT_NET_MAX_CONNECTIONS (nw_after w) of (r, after) \<Rightarrow>
            if r \<noteq> WT_OK then Some (r, [], wt_net_tcp_sample_abort s)
            else let secs = of_nat (ns_sample_ms s) / 1000;
                     out = (if secs > 0 then tcp_rates capacity secs (the (ns_before s)) after [] else []);
                     z = (if ns_udp_measured s then 0 else -1);
                     out = map (\<lambda>r. r\<lparr>nr_udp_recv_bytes_per_sec := z, nr_udp_send_bytes_per_sec := z\<rparr>) out;
                     out = (if ns_udp_measured s \<and> ns_udp s \<noteq> None \<and> secs > 0
                            then foldl (\<lambda>acc row. udp_row_rate capacity secs row acc) out rows else out)
                 in Some (WT_OK, out, wt_net_tcp_sample_abort s)))"

definition wt_collect_process_net_rates ::
  "net_world \<Rightarrow> nat \<Rightarrow> nat \<Rightarrow> (WT_Result \<times> WT_ProcessNetRate list) option" where
  "wt_collect_process_net_rates w sample_ms capacity =
     (case wt_net_tcp_sample_start w sample_ms of (r, s) \<Rightarrow>
        if r \<noteq> WT_OK then Some (r, [])
        else map_option (\<lambda>(r, out, s). (r, out)) (wt_net_tcp_sample_finish w capacity s))"
section \<open>Events are read within their payload\<close>

lemma word_advance:
  assumes "p + unat (left :: u32) = n" "\<not> left < d"
  shows "p + unat d + unat (left - d) = n"
proof -
  have "unat (left - d) = unat left - unat d" "unat d \<le> unat left"
    using assms(2) by (simp_all add: not_less unat_sub word_le_nat_alt)
  then show ?thesis using assms(1) by simp
qed

lemma read_within: "p + unat (left :: u32) = length data \<Longrightarrow> \<not> left < 4 \<Longrightarrow> read_u32 data p \<noteq> None"
  by (simp add: read_u32_def word_less_nat_alt)

lemma skip_blob_within:
  assumes "p + unat left = length data"
    and "\<And>p' left'. p' + unat left' = length data \<Longrightarrow> k p' left' \<noteq> None"
  shows "skip_blob data p left k \<noteq> None"
proof (cases "left < 4")
  case False
  then obtain n where n: "read_u32 data p = Some n" using read_within [OF assms(1)] by blast
  have l: "p + 4 + unat (left - 4) = length data" using word_advance [OF assms(1) False] by simp
  show ?thesis
  proof (cases "n > left - 4")
    case le: False
    have "p + 4 + unat n + unat (left - 4 - n) = length data" using word_advance [OF l le] .
    then show ?thesis using False n le assms(2) by (simp add: skip_blob_def Let_def)
  qed (use False n in \<open>simp add: skip_blob_def Let_def\<close>)
qed (simp add: skip_blob_def)

lemma udp_pid_within: "p + unat left = length data \<Longrightarrow> udp_pid data p left nbytes \<noteq> None"
  using read_within [of p left data] by (cases "left < 4") (auto simp: udp_pid_def)

lemma udp_parse_within:
  assumes "length data < 2 ^ 32"
  shows "wt_udp_parse_summary data \<noteq> None"
proof -
  let ?l = "of_nat (length data) :: u32"
  have l0: "0 + unat ?l = length data" using assms by (simp add: unat_of_nat take_bit_nat_eq_self)
  show ?thesis
  proof (cases "unat ?l < 16")
    case False
    then have n8: "\<not> ?l < 8" by (simp add: word_less_nat_alt)
    have l1: "8 + unat (?l - 8) = length data" using word_advance [OF l0 n8] by simp
    then have ge: "\<not> ?l - 8 < 8" using False l0 by (simp add: word_less_nat_alt)
    then have "\<not> ?l - 8 < 4" by (simp add: word_less_nat_alt)
    from word_advance [OF l1 this] have l2: "12 + unat (?l - 8 - 4) = length data" by simp
    then have n4: "\<not> ?l - 8 - 4 < 4" using ge l1 by (simp add: word_less_nat_alt)
    obtain nb where nb: "read_u32 data 12 = Some nb" using read_within [OF l2 n4] by blast
    have l3: "16 + unat (?l - 8 - 4 - 4) = length data" using word_advance [OF l2 n4] by simp
    have "skip_blob data 16 (?l - 8 - 4 - 4) (\<lambda>p left. skip_blob data p left (\<lambda>p left. udp_pid data p left nb)) \<noteq> None"
      by (intro skip_blob_within udp_pid_within l3)
    then show ?thesis using False ge nb by (simp add: wt_udp_parse_summary_def Let_def del: not_None_eq)
  qed (simp add: wt_udp_parse_summary_def Let_def)
qed

definition bytes32 :: "u32 \<Rightarrow> byte list" where
  "bytes32 n = [ucast n, ucast (drop_bit 8 n), ucast (drop_bit 16 n), ucast (drop_bit 24 n)]"

definition udp_event_bytes :: "byte list \<Rightarrow> u32 \<Rightarrow> byte list \<Rightarrow> byte list \<Rightarrow> u32 \<Rightarrow> byte list" where
  \<comment> \<open>pointer and message count, byte count, the two addresses, the process\<close>
  "udp_event_bytes ptr nbytes local remote pid =
     ptr @ bytes32 nbytes @ bytes32 (of_nat (length local)) @ local @ bytes32 (of_nat (length remote)) @ remote @ bytes32 pid"

lemma le32_bytes32 [simp]: "le32 (bytes32 n) = n"
proof (rule bit_word_eqI)
  fix k assume "k < LENGTH(32)"
  then show "bit (le32 (bytes32 n)) k = bit n k"
    by (cases "k < 8"; cases "k < 16"; cases "k < 24") (auto simp: le32_def bytes32_def bit_simps)
qed

lemma length_bytes32 [simp]: "length (bytes32 n) = 4"
  by (simp add: bytes32_def)

lemma read_u32_at: "length pre = p \<Longrightarrow> read_u32 (pre @ bytes32 n @ post) p = Some n"
  by (auto simp: read_u32_def)

lemma skip_blob_at:
  assumes d: "data = pre @ bytes32 (of_nat (length blob)) @ blob @ post" "length data < 2 ^ 32"
    and p: "length pre = p" "left = of_nat (length data - p)"
  shows "skip_blob data p left k = k (p + 4 + length blob) (of_nat (length post))"
proof -
  have s: "length blob < 2 ^ 32" "length post < 2 ^ 32" using d by simp_all
  have u: "unat (of_nat (length blob) :: u32) = length blob" using s by (simp add: unat_of_nat take_bit_nat_eq_self)
  have left: "left = of_nat (4 + length blob + length post)" using p d by simp
  have n4: "\<not> left < 4" using d p unfolding left
    by (simp add: word_less_nat_alt unat_of_nat take_bit_nat_eq_self del: of_nat_add)
  have l: "left - 4 = of_nat (length blob) + of_nat (length post)" by (simp add: left)
  have "unat (left - 4) = length blob + length post"
    using d unfolding l of_nat_add [symmetric] by (simp add: unat_of_nat take_bit_nat_eq_self del: of_nat_add)
  then have "\<not> of_nat (length blob) > left - 4" by (simp add: word_less_nat_alt u)
  moreover have "read_u32 data p = Some (of_nat (length blob))" unfolding d(1) by (rule read_u32_at [OF p(1)])
  moreover have "left - 4 - of_nat (length blob) = of_nat (length post)" by (simp add: l)
  ultimately show ?thesis using n4 by (simp add: skip_blob_def Let_def u)
qed

lemma udp_parse_event:
  assumes "length ptr = 12" "length (udp_event_bytes ptr nbytes local remote pid) < 2 ^ 32"
  shows "wt_udp_parse_summary (udp_event_bytes ptr nbytes local remote pid) = Some (Some (pid, nbytes))"
proof -
  define data where "data = udp_event_bytes ptr nbytes local remote pid"
  define L where "L = length local" define R where "R = length remote"
  have n: "length data = 28 + L + R" by (simp add: data_def udp_event_bytes_def assms(1) L_def R_def)
  have lt: "length data < 2 ^ 32" using assms(2) by (simp add: data_def)
  have u: "unat (of_nat (length data) :: u32) = length data" using lt by (simp add: unat_of_nat take_bit_nat_eq_self)
  have l: "of_nat (28 + L + R) - 8 = (of_nat (20 + L + R) :: u32)" "of_nat (20 + L + R) - 8 = (of_nat (12 + L + R) :: u32)"
    by simp_all
  have ge: "\<not> (of_nat (20 + L + R) :: u32) < 8"
    using lt n by (simp add: word_less_nat_alt unat_of_nat take_bit_nat_eq_self del: of_nat_add)
  have r: "read_u32 data 12 = Some nbytes"
    unfolding data_def udp_event_bytes_def by (rule read_u32_at [OF assms(1)])
  have s1: "skip_blob data 16 (of_nat (12 + L + R)) k = k (20 + L) (of_nat (8 + R))" for k
  proof -
    have "skip_blob data 16 (of_nat (12 + L + R)) k = k (16 + 4 + length local) (of_nat (length (bytes32 (of_nat R) @ remote @ bytes32 pid)))"
      by (rule skip_blob_at [where pre = "ptr @ bytes32 nbytes"]) (use lt n assms(1) in \<open>simp_all add: data_def udp_event_bytes_def L_def R_def\<close>)
    then show ?thesis by (simp add: L_def R_def)
  qed
  have s2: "skip_blob data (20 + L) (of_nat (8 + R)) k = k (24 + L + R) 4" for k
  proof -
    have "skip_blob data (20 + L) (of_nat (8 + R)) k = k (20 + L + 4 + length remote) (of_nat (length (bytes32 pid)))"
      by (rule skip_blob_at [where pre = "ptr @ bytes32 nbytes @ bytes32 (of_nat L) @ local"])
        (use lt n assms(1) in \<open>simp_all add: data_def udp_event_bytes_def L_def R_def\<close>)
    then show ?thesis by (simp add: R_def algebra_simps)
  qed
  have "read_u32 data (24 + L + R) = Some pid"
    using read_u32_at [of "ptr @ bytes32 nbytes @ bytes32 (of_nat L) @ local @ bytes32 (of_nat R) @ remote" "24 + L + R" pid "[]"]
    by (simp add: data_def udp_event_bytes_def assms(1) L_def R_def)
  then have e: "udp_pid data (24 + L + R) 4 nbytes = Some (Some (pid, nbytes))" by (simp add: udp_pid_def)
  show ?thesis unfolding data_def [symmetric] wt_udp_parse_summary_def Let_def u
    using n ge r s1 s2 e by (simp add: l del: of_nat_add)
qed
section \<open>Rates by process\<close>

definition rates_ok :: "nat \<Rightarrow> WT_ProcessNetRate list \<Rightarrow> bool" where
  "rates_ok capacity out \<longleftrightarrow> distinct (map nr_pid out) \<and> 0 \<notin> nr_pid ` set out \<and> length out \<le> capacity \<and>
     (\<forall>r \<in> set out. 0 \<le> nr_recv_bytes_per_sec r \<and> 0 \<le> nr_send_bytes_per_sec r)"

definition recv_of :: "nat \<Rightarrow> WT_ProcessNetRate list \<Rightarrow> rat" where
  "recv_of pid out = sum_list (map nr_recv_bytes_per_sec (filter (\<lambda>r. nr_pid r = pid) out))"

definition send_of :: "nat \<Rightarrow> WT_ProcessNetRate list \<Rightarrow> rat" where
  "send_of pid out = sum_list (map nr_send_bytes_per_sec (filter (\<lambda>r. nr_pid r = pid) out))"

lemma update_first_None: "update_first p f xs = None \<longleftrightarrow> (\<forall>x \<in> set xs. \<not> p x)"
  by (induction xs) auto

lemma update_first_split: "update_first p f xs = Some ys \<Longrightarrow> \<exists>a x b. xs = a @ x # b \<and> p x \<and> ys = a @ f x # b"
proof (induction xs arbitrary: ys)
  case (Cons x xs)
  show ?case
  proof (cases "p x")
    case True
    then show ?thesis using Cons.prems by (intro exI [of _ "[]"]) auto
  next
    case False
    then obtain zs where z: "update_first p f xs = Some zs" "ys = x # zs" using Cons.prems by auto
    obtain a y b where "xs = a @ y # b" "p y" "zs = a @ f y # b" using Cons.IH [OF z(1)] by blast
    then show ?thesis using z(2) by (intro exI [of _ "x # a"] exI [of _ y] exI [of _ b]) simp
  qed
qed simp

lemma rate_add_ok:
  assumes "rates_ok capacity out" "0 \<le> i" "0 \<le> w"
  shows "rates_ok capacity (wt_net_rate_add capacity pid i w out)"
proof (cases "update_first (\<lambda>r. nr_pid r = pid) (\<lambda>r. r\<lparr>nr_recv_bytes_per_sec := nr_recv_bytes_per_sec r + i,
    nr_send_bytes_per_sec := nr_send_bytes_per_sec r + w\<rparr>) out")
  case None
  have "\<forall>x \<in> set out. nr_pid x \<noteq> pid" using None by (simp add: update_first_None)
  then show ?thesis using assms unfolding wt_net_rate_add_def None by (auto simp: rates_ok_def)
next
  case (Some out')
  from update_first_split [OF this] show ?thesis
    using assms Some by (auto simp: wt_net_rate_add_def rates_ok_def)
qed

lemma rate_add_sums:
  assumes "length out < capacity" "pid \<noteq> 0"
  shows "recv_of q (wt_net_rate_add capacity pid i w out) = recv_of q out + (if q = pid then i else 0)"
    "send_of q (wt_net_rate_add capacity pid i w out) = send_of q out + (if q = pid then w else 0)"
    "length (wt_net_rate_add capacity pid i w out) \<le> Suc (length out)"
proof -
  let ?out' = "wt_net_rate_add capacity pid i w out"
  have "recv_of q ?out' = recv_of q out + (if q = pid then i else 0) \<and>
    send_of q ?out' = send_of q out + (if q = pid then w else 0) \<and> length ?out' \<le> Suc (length out)"
  proof (cases "update_first (\<lambda>r. nr_pid r = pid) (\<lambda>r. r\<lparr>nr_recv_bytes_per_sec := nr_recv_bytes_per_sec r + i,
      nr_send_bytes_per_sec := nr_send_bytes_per_sec r + w\<rparr>) out")
    case None
    then show ?thesis using assms unfolding wt_net_rate_add_def None by (auto simp: recv_of_def send_of_def)
  next
    case (Some out')
    from update_first_split [OF this] show ?thesis
      using assms Some by (auto simp: wt_net_rate_add_def recv_of_def send_of_def)
  qed
  then show "recv_of q ?out' = recv_of q out + (if q = pid then i else 0)"
    "send_of q ?out' = send_of q out + (if q = pid then w else 0)" "length ?out' \<le> Suc (length out)" by blast+
qed

definition bytes_by :: "nat \<Rightarrow> (nat \<times> nat \<Rightarrow> nat) \<Rightarrow> WT_TcpConnSnap list \<Rightarrow> WT_TcpConnSnap list \<Rightarrow> nat" where
  \<comment> \<open>the bytes the connections of a process carried over the window, those that are counted\<close>
  "bytes_by pid dir before after =
     sum_list (map (\<lambda>a. case conn_delta before a of None \<Rightarrow> 0 | Some d \<Rightarrow> dir d) (filter (\<lambda>a. ts_pid a = pid) after))"

lemma tcp_rates_ok: "0 < secs \<Longrightarrow> rates_ok capacity out \<Longrightarrow> rates_ok capacity (tcp_rates capacity secs before as out)"
  by (induction capacity secs before as out rule: tcp_rates.induct) (auto simp: rate_add_ok split: option.split)

lemma tcp_rates_sums:
  assumes "0 < secs" "q \<noteq> 0" "length out + length as \<le> capacity"
  shows "recv_of q (tcp_rates capacity secs before as out) = recv_of q out + of_nat (bytes_by q fst before as) / secs \<and>
    send_of q (tcp_rates capacity secs before as out) = send_of q out + of_nat (bytes_by q snd before as) / secs"
  using assms(3)
proof (induction as arbitrary: out)
  case (Cons a as)
  show ?case
  proof (cases "conn_delta before a = None \<or> ts_pid a = 0")
    case True
    then show ?thesis using Cons assms(2) by (auto simp: bytes_by_def wt_net_rate_add_def split: option.split)
  next
    case False
    then obtain d where Some: "conn_delta before a = Some d" by auto
    obtain i w where d: "d = (i, w)" by (cases d)
    let ?out = "wt_net_rate_add capacity (ts_pid a) (of_nat i / secs) (of_nat w / secs) out"
    have "length out < capacity" "ts_pid a \<noteq> 0" using Cons.prems False by auto
    note s = rate_add_sums(1,2) [OF this, of q "of_nat i / secs" "of_nat w / secs"]
      rate_add_sums(3) [OF this, of "of_nat i / secs" "of_nat w / secs"]
    have "length ?out + length as \<le> capacity" using s(3) Cons.prems by simp
    with Cons.IH [of ?out] Cons.prems show ?thesis
      using s(1,2) by (auto simp: Some d bytes_by_def add_divide_distrib)
  qed
qed (simp add: bytes_by_def)

lemma udp_row_ok: "rates_ok capacity out \<Longrightarrow> rates_ok capacity (udp_row_rate capacity secs row out)"
proof -
  assume ok: "rates_ok capacity out"
  let ?put = "\<lambda>r. r\<lparr>nr_udp_recv_bytes_per_sec := of_nat (ud_recv_bytes row) / secs,
      nr_udp_send_bytes_per_sec := of_nat (ud_send_bytes row) / secs\<rparr>"
  have last: "rates_ok capacity (butlast ys @ [?put (last ys)])" if "rates_ok capacity ys" "ys \<noteq> []" for ys
    using that by (cases ys rule: rev_cases) (auto simp: rates_ok_def)
  show ?thesis
  proof (cases "update_first (\<lambda>r. nr_pid r = ud_pid row) ?put out")
    case None
    have "rates_ok capacity (wt_net_rate_add capacity (ud_pid row) 0 0 out)" by (rule rate_add_ok [OF ok]) simp_all
    then show ?thesis using None last by (simp add: udp_row_rate_def Let_def)
  next
    case (Some out')
    from update_first_split [OF this] show ?thesis
      using ok Some by (auto simp: udp_row_rate_def Let_def rates_ok_def)
  qed
qed

lemma udp_row_sums:
  "recv_of q (udp_row_rate capacity secs row out) = recv_of q out"
  "send_of q (udp_row_rate capacity secs row out) = send_of q out"
proof -
  let ?put = "\<lambda>r. r\<lparr>nr_udp_recv_bytes_per_sec := of_nat (ud_recv_bytes row) / secs,
      nr_udp_send_bytes_per_sec := of_nat (ud_send_bytes row) / secs\<rparr>"
  have last: "recv_of q (butlast ys @ [?put (last ys)]) = recv_of q ys \<and> send_of q (butlast ys @ [?put (last ys)]) = send_of q ys"
    if "ys \<noteq> []" for ys
    using that by (cases ys rule: rev_cases) (simp_all add: recv_of_def send_of_def)
  have add: "recv_of q (wt_net_rate_add capacity p 0 0 out) = recv_of q out \<and> send_of q (wt_net_rate_add capacity p 0 0 out) = send_of q out"
    if "\<forall>r \<in> set out. nr_pid r \<noteq> p" for p
    using that update_first_None [of "\<lambda>r. nr_pid r = p" _ out] by (simp add: wt_net_rate_add_def recv_of_def send_of_def)
  have "recv_of q (udp_row_rate capacity secs row out) = recv_of q out \<and> send_of q (udp_row_rate capacity secs row out) = send_of q out"
  proof (cases "update_first (\<lambda>r. nr_pid r = ud_pid row) ?put out")
    case None
    then have "\<forall>r \<in> set out. nr_pid r \<noteq> ud_pid row" by (simp add: update_first_None)
    note a = add [OF this]
    show ?thesis using None last [of "wt_net_rate_add capacity (ud_pid row) 0 0 out"] a
      by (simp only: udp_row_rate_def Let_def option.case) (cases "wt_net_rate_add capacity (ud_pid row) 0 0 out = []"; simp)
  next
    case (Some out')
    from update_first_split [OF this] show ?thesis
      using Some by (auto simp: udp_row_rate_def Let_def recv_of_def send_of_def)
  qed
  then show "recv_of q (udp_row_rate capacity secs row out) = recv_of q out"
    "send_of q (udp_row_rate capacity secs row out) = send_of q out" by blast+
qed

lemma udp_fold:
  assumes "rates_ok capacity out"
  shows "rates_ok capacity (foldl (\<lambda>acc row. udp_row_rate capacity secs row acc) out rows) \<and>
    recv_of q (foldl (\<lambda>acc row. udp_row_rate capacity secs row acc) out rows) = recv_of q out \<and>
    send_of q (foldl (\<lambda>acc row. udp_row_rate capacity secs row acc) out rows) = send_of q out"
  using assms by (induction rows arbitrary: out) (simp_all add: udp_row_ok udp_row_sums)

lemma udp_events_read: "\<forall>ev \<in> set evs. length (snd ev) < 2 ^ 32 \<Longrightarrow> udp_events evs rows \<noteq> None"
proof (induction evs arbitrary: rows)
  case (Cons ev evs)
  have "wt_udp_parse_summary (snd ev) \<noteq> None" using udp_parse_within Cons.prems by simp
  then have "wt_udp_on_event ev rows \<noteq> None"
    by (auto simp: wt_udp_on_event_def split: option.split)
  then show ?case using Cons by (auto simp del: not_None_eq split: option.split)
qed simp

lemma marked_rates:
  "rates_ok capacity (map (\<lambda>r. r\<lparr>nr_udp_recv_bytes_per_sec := z, nr_udp_send_bytes_per_sec := z\<rparr>) out) = rates_ok capacity out"
  "recv_of q (map (\<lambda>r. r\<lparr>nr_udp_recv_bytes_per_sec := z, nr_udp_send_bytes_per_sec := z\<rparr>) out) = recv_of q out"
  "send_of q (map (\<lambda>r. r\<lparr>nr_udp_recv_bytes_per_sec := z, nr_udp_send_bytes_per_sec := z\<rparr>) out) = send_of q out"
  by (simp_all add: rates_ok_def recv_of_def send_of_def filter_map comp_def image_image)

definition demo_tcp_row :: "nat \<Rightarrow> nat \<Rightarrow> nat \<Rightarrow> nat \<Rightarrow> tcp4_row" where
  "demo_tcp_row pid port i n = \<lparr>t4_pid = pid, t4_local_addr = 1, t4_remote_addr = 2, t4_local_port = port,
     t4_remote_port = 443, t4_estats = Some (i, n)\<rparr>"

definition demo_net :: net_world where
  \<comment> \<open>two connections of process 7, one of process 9 whose counters were reset, and a UDP event\<close>
  "demo_net = \<lparr>nw_settled = \<lparr>tt_v4 = Some [demo_tcp_row 7 50 1000 10, demo_tcp_row 7 51 0 0, demo_tcp_row 9 52 500 500], tt_v6 = None\<rparr>,
     nw_after = \<lparr>tt_v4 = Some [demo_tcp_row 7 50 1500 10, demo_tcp_row 7 51 250 20, demo_tcp_row 9 52 4 4], tt_v6 = None\<rparr>,
     nw_udp = Some [(1170, udp_event_bytes (replicate 12 0) 800 [1, 2] [3] 9)]\<rparr>"

lemmas demo_capture = demo_net_def demo_tcp_row_def wt_tcp_capture_def WT_NET_MAX_CONNECTIONS_def wt_tcp_read_estats4_def


end
