(* ===== verification/Processes.thy ===== *)
theory Processes
  imports Net_Rates Scan_Run Stable_Sort Json_Names
begin

text \<open>
  The process list (\<open>src/metrics/process.c\<close>): rows filled from a process snapshot, CPU and disk rates from two samples,
  the network rates of \<open>Net_Rates\<close>, the selection of the first rows, pages of the whole list, processes that came and
  went during the window, and the check for hung threads. What the system shows at one moment is \<open>proc_world\<close>; a
  sample looks at several moments, counted from 0 in the order of the code. \<open>qsort\<close> is a parameter: it permutes and
  orders, but nothing is said of equal elements. \<open>HeapAlloc\<close> succeeds. Floating point is exact, and a rate turned
  into an integer is taken to fit 64 bits.
\<close>

section \<open>The system at one moment\<close>

record PROCESSENTRY32W =
  en_pid :: nat
  en_parent_pid :: nat
  en_exe :: string

text \<open>What an open process answers: working set and private bytes, bytes read and written, kernel and user time, the
  last subauthority of its integrity label, handles, GDI objects with the last error being success, and the same
  from a handle with more rights.\<close>
record proc_handle =
  ph_memory :: "(nat \<times> nat) option"
  ph_io :: "(nat \<times> nat) option"
  ph_times :: "(nat \<times> nat) option"
  ph_rid :: "nat option"
  ph_handles :: "nat option"
  ph_gdi :: "nat \<times> bool"
  ph_gdi_query :: "(nat \<times> bool) option"

text \<open>\<open>wm_snapshot\<close>: None when the snapshot fails, empty when it has no first process.\<close>
record proc_world =
  wm_snapshot :: "PROCESSENTRY32W list option"
  wm_session :: "nat \<Rightarrow> nat option"
  wm_open :: "nat \<Rightarrow> proc_handle option"

section \<open>Samples\<close>

record WT_ProcessIoSample =
  io_pid :: nat
  io_read_bytes :: nat
  io_write_bytes :: nat

record WT_ProcessCpuSample =
  cs_pid :: nat
  cs_cpu_time_100ns :: nat

definition wt_read_process_cpu_time :: "proc_world \<Rightarrow> nat \<Rightarrow> (WT_Result, nat) sum" where
  "wt_read_process_cpu_time w pid =
     (case wm_open w pid of None \<Rightarrow> Inl WT_ERR_ACCESS_DENIED
      | Some h \<Rightarrow> (case ph_times h of None \<Rightarrow> Inl WT_ERR_WIN32 | Some (kt, ut) \<Rightarrow> Inr (kt + ut)))"

fun cpu_sample_loop :: "proc_world \<Rightarrow> nat \<Rightarrow> PROCESSENTRY32W list \<Rightarrow> WT_ProcessCpuSample list \<Rightarrow> WT_ProcessCpuSample list" where
  "cpu_sample_loop w capacity [] samples = samples"
| "cpu_sample_loop w capacity (e # es) samples =
     (if length samples \<ge> capacity then samples
      else cpu_sample_loop w capacity es
             (case wt_read_process_cpu_time w (en_pid e) of Inl r \<Rightarrow> samples
              | Inr t \<Rightarrow> samples @ [\<lparr>cs_pid = en_pid e, cs_cpu_time_100ns = t\<rparr>]))"

definition wt_sample_process_cpu :: "proc_world \<Rightarrow> nat \<Rightarrow> WT_Result \<times> WT_ProcessCpuSample list" where
  "wt_sample_process_cpu w capacity =
     (case wm_snapshot w of None \<Rightarrow> (WT_ERR_WIN32, [])
      | Some [] \<Rightarrow> (WT_ERR_WIN32, [])
      | Some es \<Rightarrow> (WT_OK, cpu_sample_loop w capacity es []))"

definition wt_find_cpu_sample :: "WT_ProcessCpuSample list \<Rightarrow> nat \<Rightarrow> WT_ProcessCpuSample option" where
  "wt_find_cpu_sample samples pid = find_first (\<lambda>s. cs_pid s = pid) samples"

definition read_io :: "proc_world \<Rightarrow> nat \<Rightarrow> (nat \<times> nat) option" where
  \<comment> \<open>open the process, read its counters\<close>
  "read_io w pid = (case wm_open w pid of None \<Rightarrow> None | Some h \<Rightarrow> ph_io h)"

fun io_sample_loop :: "proc_world \<Rightarrow> nat \<Rightarrow> PROCESSENTRY32W list \<Rightarrow> WT_ProcessIoSample list \<Rightarrow> WT_ProcessIoSample list" where
  "io_sample_loop w capacity [] samples = samples"
| "io_sample_loop w capacity (e # es) samples =
     (if length samples \<ge> capacity then samples
      else io_sample_loop w capacity es
             (case read_io w (en_pid e) of None \<Rightarrow> samples
              | Some (r, wr) \<Rightarrow> samples @ [\<lparr>io_pid = en_pid e, io_read_bytes = r, io_write_bytes = wr\<rparr>]))"

definition wt_sample_process_io :: "proc_world \<Rightarrow> nat \<Rightarrow> WT_Result \<times> WT_ProcessIoSample list" where
  "wt_sample_process_io w capacity =
     (case wm_snapshot w of None \<Rightarrow> (WT_ERR_WIN32, [])
      | Some [] \<Rightarrow> (WT_ERR_WIN32, [])
      | Some es \<Rightarrow> (WT_OK, io_sample_loop w capacity es []))"

definition wt_find_io_sample :: "WT_ProcessIoSample list \<Rightarrow> nat \<Rightarrow> WT_ProcessIoSample option" where
  "wt_find_io_sample samples pid = find_first (\<lambda>s. io_pid s = pid) samples"

section \<open>Rows\<close>

definition wt_process_init_metrics :: "WT_ProcessInfo \<Rightarrow> WT_ProcessInfo" where
  "wt_process_init_metrics p = p\<lparr>pi_cpu_percent := -1, pi_disk_read_bytes_per_sec := -1, pi_disk_write_bytes_per_sec := -1,
     pi_net_recv_bytes_per_sec := -1, pi_net_send_bytes_per_sec := -1, pi_udp_recv_bytes_per_sec := -1,
     pi_udp_send_bytes_per_sec := -1\<rparr>"

definition wt_integrity_from_rid :: "nat \<Rightarrow> WT_IntegrityLevel" where
  "wt_integrity_from_rid rid =
     (if rid \<ge> 0x5000 then WT_INTEGRITY_PROTECTED
      else if rid \<ge> 0x4000 then WT_INTEGRITY_SYSTEM
      else if rid \<ge> 0x3000 then WT_INTEGRITY_HIGH
      else if rid \<ge> 0x2100 then WT_INTEGRITY_MEDIUM_PLUS
      else if rid \<ge> 0x2000 then WT_INTEGRITY_MEDIUM
      else if rid \<ge> 0x1000 then WT_INTEGRITY_LOW
      else WT_INTEGRITY_UNTRUSTED)"

definition wt_process_fill_integrity :: "proc_handle \<Rightarrow> WT_ProcessInfo \<Rightarrow> WT_ProcessInfo" where
  "wt_process_fill_integrity h p =
     (case ph_rid h of None \<Rightarrow> p | Some rid \<Rightarrow> p\<lparr>pi_integrity := wt_integrity_from_rid rid\<rparr>)"

definition read_gdi :: "proc_handle \<Rightarrow> nat option" where
  \<comment> \<open>zero objects count as read when the last error is success; otherwise a second handle is tried\<close>
  "read_gdi h =
     (if fst (ph_gdi h) \<noteq> 0 \<or> snd (ph_gdi h) then Some (fst (ph_gdi h))
      else case ph_gdi_query h of None \<Rightarrow> None
         | Some (gdi, ok) \<Rightarrow> if gdi \<noteq> 0 \<or> ok then Some gdi else None)"

definition wt_process_fill :: "proc_world \<Rightarrow> PROCESSENTRY32W \<Rightarrow> WT_ProcessInfo" where
  "wt_process_fill w e =
     (let p = (wt_process_init_metrics zero_WT_ProcessInfo)\<lparr>pi_pid := en_pid e, pi_parent_pid := en_parent_pid e,
                pi_integrity := WT_INTEGRITY_UNKNOWN, pi_name := cch_copy 260 (en_exe e)\<rparr>;
          p = (case wm_session w (en_pid e) of None \<Rightarrow> p | Some s \<Rightarrow> p\<lparr>pi_session_id := s, pi_session_ok := True\<rparr>)
      in case wm_open w (en_pid e) of None \<Rightarrow> p
         | Some h \<Rightarrow>
            let p = (case ph_memory h of None \<Rightarrow> p | Some (ws, pv) \<Rightarrow> p\<lparr>pi_working_set_bytes := ws, pi_private_bytes := pv\<rparr>);
                p = (case ph_io h of None \<Rightarrow> p | Some (r, wr) \<Rightarrow> p\<lparr>pi_read_bytes := r, pi_write_bytes := wr\<rparr>);
                p = wt_process_fill_integrity h p;
                p = (case ph_handles h of None \<Rightarrow> p | Some n \<Rightarrow> p\<lparr>pi_handle_ok := True, pi_handle_count := n\<rparr>)
            in case read_gdi h of None \<Rightarrow> p | Some n \<Rightarrow> p\<lparr>pi_gdi_ok := True, pi_gdi_count := n\<rparr>)"

section \<open>Selecting and sorting\<close>

datatype WT_ProcessSort =
    WT_PROCESS_SORT_MEMORY | WT_PROCESS_SORT_CPU | WT_PROCESS_SORT_DISK | WT_PROCESS_SORT_NETWORK

definition if_measured :: "rat \<Rightarrow> rat" where
  \<comment> \<open>a rate that counts only when it is not negative\<close>
  "if_measured v = (if v \<ge> 0 then v else 0)"

definition disk_rate :: "WT_ProcessInfo \<Rightarrow> rat" where
  "disk_rate p = if_measured (pi_disk_read_bytes_per_sec p) + if_measured (pi_disk_write_bytes_per_sec p)"

definition net_rate :: "WT_ProcessInfo \<Rightarrow> rat" where
  "net_rate p = if_measured (pi_net_recv_bytes_per_sec p) + if_measured (pi_net_send_bytes_per_sec p) +
     if_measured (pi_udp_recv_bytes_per_sec p) + if_measured (pi_udp_send_bytes_per_sec p)"

definition wt_process_sort_key :: "WT_ProcessSort \<Rightarrow> WT_ProcessInfo \<Rightarrow> bool" where
  "wt_process_sort_key sk p = (case sk of
     WT_PROCESS_SORT_CPU \<Rightarrow> pi_cpu_percent p \<ge> 0
   | WT_PROCESS_SORT_DISK \<Rightarrow> disk_rate p > 0
   | WT_PROCESS_SORT_NETWORK \<Rightarrow>
       if pi_net_recv_bytes_per_sec p < 0 \<and> pi_net_send_bytes_per_sec p < 0 \<and>
          pi_udp_recv_bytes_per_sec p < 0 \<and> pi_udp_send_bytes_per_sec p < 0 then False
       else if net_rate p > 0 then True else pi_working_set_bytes p > 0
   | WT_PROCESS_SORT_MEMORY \<Rightarrow> pi_working_set_bytes p > 0)"

definition wt_process_sort_value :: "WT_ProcessSort \<Rightarrow> WT_ProcessInfo \<Rightarrow> nat" where
  "wt_process_sort_value sk p = (case sk of
     WT_PROCESS_SORT_CPU \<Rightarrow> if pi_cpu_percent p \<ge> 0 then nat \<lfloor>pi_cpu_percent p * 1000\<rfloor> else 0
   | WT_PROCESS_SORT_DISK \<Rightarrow> nat \<lfloor>disk_rate p\<rfloor>
   | WT_PROCESS_SORT_NETWORK \<Rightarrow> if net_rate p > 0 then nat \<lfloor>net_rate p\<rfloor> else pi_working_set_bytes p
   | WT_PROCESS_SORT_MEMORY \<Rightarrow> pi_working_set_bytes p)"

fun swap_up :: "('a \<Rightarrow> nat) \<Rightarrow> nat \<Rightarrow> 'a list \<Rightarrow> 'a list" where
  \<comment> \<open>the loop that swaps the element at an index with the one before it while its value is greater\<close>
  "swap_up v 0 xs = xs"
| "swap_up v (Suc i) xs =
     (if v (xs ! Suc i) > v (xs ! i) then swap_up v i (xs[i := xs ! Suc i, Suc i := xs ! i]) else xs)"

definition wt_topk_insert :: "nat \<Rightarrow> WT_ProcessSort \<Rightarrow> WT_ProcessInfo \<Rightarrow> WT_ProcessInfo list \<Rightarrow> WT_ProcessInfo list" where
  \<comment> \<open>the first \<open>filled\<close> slots; the callers pass a limit of at least 1\<close>
  "wt_topk_insert k sk candidate top_rows =
     (if \<not> wt_process_sort_key sk candidate then top_rows
      else let n = length top_rows; v = wt_process_sort_value sk
           in if n < k then swap_up v n (top_rows @ [candidate])
              else if v candidate \<le> v (top_rows ! (n - 1)) then top_rows
              else swap_up v (n - 1) (top_rows[n - 1 := candidate]))"

definition compare_desc :: "'v::linorder \<Rightarrow> 'v \<Rightarrow> int" where
  "compare_desc a b = (if a < b then 1 else if a > b then -1 else 0)"

definition wt_compare_by_memory_desc :: "WT_ProcessInfo \<Rightarrow> WT_ProcessInfo \<Rightarrow> int" where
  "wt_compare_by_memory_desc a b = compare_desc (pi_working_set_bytes a) (pi_working_set_bytes b)"

definition wt_compare_by_cpu_desc :: "WT_ProcessInfo \<Rightarrow> WT_ProcessInfo \<Rightarrow> int" where
  "wt_compare_by_cpu_desc a b =
     compare_desc (if pi_cpu_percent a \<ge> 0 then pi_cpu_percent a else -1) (if pi_cpu_percent b \<ge> 0 then pi_cpu_percent b else -1)"

definition wt_compare_by_disk_desc :: "WT_ProcessInfo \<Rightarrow> WT_ProcessInfo \<Rightarrow> int" where
  "wt_compare_by_disk_desc a b = compare_desc (disk_rate a) (disk_rate b)"

definition wt_compare_by_network_desc :: "WT_ProcessInfo \<Rightarrow> WT_ProcessInfo \<Rightarrow> int" where
  "wt_compare_by_network_desc a b =
     (if net_rate a < net_rate b then 1 else if net_rate a > net_rate b then -1
      else compare_desc (pi_working_set_bytes a) (pi_working_set_bytes b))"

type_synonym qsort_fn = "(WT_ProcessInfo \<Rightarrow> WT_ProcessInfo \<Rightarrow> int) \<Rightarrow> WT_ProcessInfo list \<Rightarrow> WT_ProcessInfo list"

definition sort_from_2 :: "qsort_fn \<Rightarrow> (WT_ProcessInfo \<Rightarrow> WT_ProcessInfo \<Rightarrow> int) \<Rightarrow> WT_ProcessInfo list \<Rightarrow> WT_ProcessInfo list" where
  \<comment> \<open>the four sorting functions leave fewer than two items alone\<close>
  "sort_from_2 qs cmp items = (if length items < 2 then items else qs cmp items)"

definition wt_sort_processes :: "qsort_fn \<Rightarrow> WT_ProcessSort \<Rightarrow> WT_ProcessInfo list \<Rightarrow> WT_ProcessInfo list" where
  "wt_sort_processes qs sk items = (case sk of
     WT_PROCESS_SORT_CPU \<Rightarrow> sort_from_2 qs wt_compare_by_cpu_desc items
   | WT_PROCESS_SORT_DISK \<Rightarrow> sort_from_2 qs wt_compare_by_disk_desc items
   | WT_PROCESS_SORT_NETWORK \<Rightarrow> sort_from_2 qs wt_compare_by_network_desc items
   | WT_PROCESS_SORT_MEMORY \<Rightarrow> sort_from_2 qs wt_compare_by_memory_desc items)"
section \<open>Rates\<close>

definition WT_PROCESS_DEFAULT_SAMPLE_MS :: nat where "WT_PROCESS_DEFAULT_SAMPLE_MS = 500"
definition WT_PROCESS_NET_RATE_CAP :: nat where "WT_PROCESS_NET_RATE_CAP = 512"
definition WT_PROCESS_ENUM_MAX :: nat where "WT_PROCESS_ENUM_MAX = 8192"

definition wt_apply_pdh_cpu :: "(nat \<times> rat) list \<Rightarrow> WT_ProcessInfo list \<Rightarrow> WT_ProcessInfo list" where
  "wt_apply_pdh_cpu cpus items =
     map (\<lambda>p. case find_first (\<lambda>m. fst m = pi_pid p) cpus of None \<Rightarrow> p | Some (i, v) \<Rightarrow> p\<lparr>pi_cpu_percent := v\<rparr>) items"

fun after_io :: "proc_world \<Rightarrow> WT_ProcessInfo list \<Rightarrow> WT_ProcessIoSample list" where
  \<comment> \<open>the second reading of the listed processes\<close>
  "after_io w [] = []"
| "after_io w (p # ps) = (case read_io w (pi_pid p) of None \<Rightarrow> []
     | Some (r, wr) \<Rightarrow> [\<lparr>io_pid = pi_pid p, io_read_bytes = r, io_write_bytes = wr\<rparr>]) @ after_io w ps"

definition disk_delta :: "nat \<Rightarrow> nat \<Rightarrow> rat \<Rightarrow> rat" where
  \<comment> \<open>a counter that went back counts as no traffic\<close>
  "disk_delta before after secs = of_nat (if after \<ge> before then after - before else 0) / secs"

definition wt_enrich_process_metrics ::
  "proc_world \<Rightarrow> (nat \<times> rat) list option \<Rightarrow> nat \<Rightarrow> WT_ProcessInfo list \<Rightarrow> WT_Result \<times> WT_ProcessInfo list" where
  \<comment> \<open>the system after the sleep; the processor times of PDH, None when that sample fails\<close>
  "wt_enrich_process_metrics w pdh sample_ms items =
     (if items = [] then (WT_ERR_INVALID_ARGUMENT, [])
      else let sample_ms = (if sample_ms = 0 then WT_PROCESS_DEFAULT_SAMPLE_MS else sample_ms);
               samples = after_io w items; secs = of_nat sample_ms / 1000;
               items = map (\<lambda>p. case wt_find_io_sample samples (pi_pid p) of None \<Rightarrow> p
                 | Some a \<Rightarrow> p\<lparr>pi_disk_read_bytes_per_sec := disk_delta (pi_read_bytes p) (io_read_bytes a) secs,
                               pi_disk_write_bytes_per_sec := disk_delta (pi_write_bytes p) (io_write_bytes a) secs\<rparr>) items
           in (WT_OK, case pdh of None \<Rightarrow> items | Some cpus \<Rightarrow> wt_apply_pdh_cpu (take 512 cpus) items))"

definition wt_apply_one_net_rate :: "WT_ProcessNetRate option \<Rightarrow> bool \<Rightarrow> WT_ProcessInfo \<Rightarrow> WT_ProcessInfo" where
  "wt_apply_one_net_rate nr udp_measured p =
     (case nr of
        Some r \<Rightarrow> p\<lparr>pi_net_recv_bytes_per_sec := nr_recv_bytes_per_sec r, pi_net_send_bytes_per_sec := nr_send_bytes_per_sec r,
                    pi_udp_recv_bytes_per_sec := nr_udp_recv_bytes_per_sec r, pi_udp_send_bytes_per_sec := nr_udp_send_bytes_per_sec r\<rparr>
      | None \<Rightarrow> p\<lparr>pi_net_recv_bytes_per_sec := 0, pi_net_send_bytes_per_sec := 0,
                  pi_udp_recv_bytes_per_sec := (if udp_measured then 0 else -1),
                  pi_udp_send_bytes_per_sec := (if udp_measured then 0 else -1)\<rparr>)"

definition wt_apply_net_rates :: "WT_ProcessNetRate list \<Rightarrow> bool \<Rightarrow> WT_ProcessInfo list \<Rightarrow> WT_ProcessInfo list" where
  "wt_apply_net_rates rates udp_measured items =
     map (\<lambda>p. wt_apply_one_net_rate (wt_find_process_net_rate rates (pi_pid p)) udp_measured p) items"

section \<open>Hung threads and identities\<close>

datatype wct_object = WctSendMessageType | WctOtherType

text \<open>\<open>wc_threads\<close>: thread and owning process, None when the snapshot fails. \<open>wc_chain\<close>: the node count, the 16
  nodes and the cycle flag of a thread's wait chain.\<close>
record wait_world =
  wc_session :: bool
  wc_threads :: "(nat \<times> nat) list option"
  wc_chain :: "nat \<Rightarrow> (nat \<times> wct_object list \<times> bool) option"

definition WT_WAIT_THREADS_PER_PROCESS :: nat where "WT_WAIT_THREADS_PER_PROCESS = 6"
definition WT_WAIT_QUERY_CAP :: nat where "WT_WAIT_QUERY_CAP = 96"
definition WCT_MAX_NODE_COUNT :: nat where "WCT_MAX_NODE_COUNT = 16"

definition wt_wait_chain_is_hung :: "wct_object list \<Rightarrow> nat \<Rightarrow> bool \<Rightarrow> bool \<times> bool" where
  \<comment> \<open>hung, and whether by a cycle\<close>
  "wt_wait_chain_is_hung nodes count' cycle =
     (if cycle then (True, True) else (list_ex (\<lambda>n. n = WctSendMessageType) (take count' nodes), False))"

fun give_thread :: "nat \<times> nat \<Rightarrow> (WT_ProcessInfo \<times> nat list) list \<Rightarrow> (WT_ProcessInfo \<times> nat list) list" where
  \<comment> \<open>a thread goes to the first listed process that owns it, which keeps at most six\<close>
  "give_thread te [] = []"
| "give_thread te ((p, tids) # xs) =
     (if pi_pid p < 8 \<or> pi_pid p \<noteq> snd te then (p, tids) # give_thread te xs
      else if length tids \<ge> WT_WAIT_THREADS_PER_PROCESS then (p, tids) # xs
      else (p, tids @ [fst te]) # xs)"

fun query_threads :: "wait_world \<Rightarrow> nat list \<Rightarrow> nat \<Rightarrow> bool \<Rightarrow> WT_ProcessInfo \<Rightarrow> WT_ProcessInfo \<times> nat \<times> bool" where
  \<comment> \<open>the inner loop: queries made so far, and whether one succeeded\<close>
  "query_threads w [] queries any_ok p = (p, queries, any_ok)"
| "query_threads w (t # ts) queries any_ok p =
     (if \<not> queries < WT_WAIT_QUERY_CAP then (p, queries, any_ok)
      else case wc_chain w t of
        None \<Rightarrow> query_threads w ts (queries + 1) any_ok p
      | Some (n, nodes, cycle) \<Rightarrow>
          (case wt_wait_chain_is_hung nodes (if n > WCT_MAX_NODE_COUNT then WCT_MAX_NODE_COUNT else n) cycle of
             (hung, is_cycle) \<Rightarrow>
               if hung then (p\<lparr>pi_hung := True, pi_wait_cycle := (is_cycle \<or> pi_wait_cycle p)\<rparr>, queries + 1, True)
               else query_threads w ts (queries + 1) True p))"

fun wait_loop :: "wait_world \<Rightarrow> nat \<Rightarrow> (WT_ProcessInfo \<times> nat list) list \<Rightarrow> WT_ProcessInfo list" where
  "wait_loop w queries [] = []"
| "wait_loop w queries ((p, tids) # xs) =
     (if \<not> queries < WT_WAIT_QUERY_CAP then p # map fst xs
      else if pi_pid p < 8 \<or> tids = [] then p # wait_loop w queries xs
      else case query_threads w tids queries False p of
             (p', q', any_ok) \<Rightarrow> p'\<lparr>pi_wait_checked := any_ok\<rparr> # wait_loop w q' xs)"

definition wt_enrich_process_wait_chain :: "wait_world \<Rightarrow> WT_ProcessInfo list \<Rightarrow> WT_ProcessInfo list" where
  "wt_enrich_process_wait_chain w items =
     (let items = map (\<lambda>p. p\<lparr>pi_wait_checked := False, pi_hung := False, pi_wait_cycle := False\<rparr>) items
      in if \<not> wc_session w then items
         else let start = map (\<lambda>p. (p, [])) items
              in wait_loop w 0 (case wc_threads w of None \<Rightarrow> start | Some ts \<Rightarrow> fold give_thread ts start))"

fun wt_enrich_process_identity ::
  "file_probe \<Rightarrow> (nat \<Rightarrow> WT_Result \<times> string) \<Rightarrow> WT_ProcessInfo list \<Rightarrow> identity_cache \<Rightarrow> WT_ProcessInfo list \<times> identity_cache" where
  "wt_enrich_process_identity f img [] cache = ([], cache)"
| "wt_enrich_process_identity f img (p # ps) cache =
     (if pi_pid p = 0 then (case wt_enrich_process_identity f img ps cache of (qs, c) \<Rightarrow> (p # qs, c))
      else case wt_identity_from_pid f img (pi_pid p) cache of (r, i, cache) \<Rightarrow>
        let i = (if r \<noteq> WT_OK then zero_WT_FileIdentity\<lparr>fi_signature := WT_SIG_UNAVAILABLE, fi_origin := WT_ORIGIN_UNKNOWN\<rparr> else i)
        in (case wt_enrich_process_identity f img ps cache of (qs, c) \<Rightarrow> (p\<lparr>pi_identity := i\<rparr> # qs, c)))"

section \<open>Pages\<close>

definition wt_process_page_bounds :: "nat \<Rightarrow> nat \<Rightarrow> nat \<Rightarrow> WT_Result \<times> nat \<times> nat \<times> nat" where
  \<comment> \<open>offset, count and number of pages; the totals of the program are far from the wrap of \<open>size_t\<close>\<close>
  "wt_process_page_bounds total_rows page page_size =
     (if page = 0 \<or> page_size = 0 then (WT_ERR_INVALID_ARGUMENT, 0, 0, 0)
      else let page_size = (if page_size > WT_PROCESS_PAGE_MAX then WT_PROCESS_PAGE_MAX else page_size);
               pages = (if total_rows > 0 then (total_rows + page_size - 1) div page_size else 1)
           in if page > pages then (WT_ERR_NOT_FOUND, 0, 0, pages)
              else let offset = (page - 1) * page_size
                   in if offset \<ge> total_rows then (WT_OK, offset, 0, pages)
                      else (WT_OK, offset, (if total_rows - offset < page_size then total_rows - offset else page_size), pages))"

text \<open>What the collectors of this file ask. \<open>te_world\<close> gives the system at each moment, \<open>te_pdh\<close> the processor times
  of PDH, \<open>te_cpus\<close> the number of processors.\<close>
record top_env =
  te_world :: "nat \<Rightarrow> proc_world"
  te_net :: net_world
  te_pdh :: "(nat \<times> rat) list option"
  te_wait :: wait_world
  te_probe :: file_probe
  te_image :: "nat \<Rightarrow> WT_Result \<times> string"
  te_cpus :: nat
  te_qsort :: qsort_fn

definition wt_collect_processes :: "proc_world \<Rightarrow> nat \<Rightarrow> WT_Result \<times> WT_ProcessInfo list" where
  "wt_collect_processes w capacity =
     (if capacity = 0 then (WT_ERR_INVALID_ARGUMENT, [])
      else case wm_snapshot w of None \<Rightarrow> (WT_ERR_WIN32, [])
         | Some [] \<Rightarrow> (WT_ERR_WIN32, [])
         | Some es \<Rightarrow> (WT_OK, map (wt_process_fill w) (take capacity es)))"

definition net_rates_of_window :: "top_env \<Rightarrow> nat \<Rightarrow> bool \<Rightarrow> (WT_ProcessNetRate list \<times> bool) option option" where
  \<comment> \<open>start, window and finish of the network sample: the inner None when it was not asked for or failed\<close>
  "net_rates_of_window env sample_ms include_network =
     (if \<not> include_network then Some None
      else case wt_net_tcp_sample_start (te_net env) sample_ms of (r, s) \<Rightarrow>
        if r \<noteq> WT_OK then Some None
        else case wt_net_tcp_sample_finish (te_net env) WT_PROCESS_NET_RATE_CAP s of
               None \<Rightarrow> None
             | Some (fr, rates, s') \<Rightarrow> Some (if fr = WT_OK then Some (rates, ns_udp_measured s') else None))"

definition page_rates :: "top_env \<Rightarrow> WT_ProcessSort \<Rightarrow> nat \<Rightarrow> bool \<Rightarrow> WT_ProcessInfo list \<Rightarrow> (WT_Result \<times> WT_ProcessInfo list) option" where
  \<comment> \<open>the rates of a page, when the sorting or the caller needs them\<close>
  "page_rates env sk sample_ms include_network rows =
     (if (sk \<noteq> WT_PROCESS_SORT_MEMORY \<or> include_network) \<and> rows \<noteq> []
      then let sample_ms = (if sample_ms = 0 then WT_PROCESS_DEFAULT_SAMPLE_MS else sample_ms)
           in case net_rates_of_window env sample_ms include_network of
                None \<Rightarrow> None
              | Some net \<Rightarrow>
                 (case wt_enrich_process_metrics (te_world env 1) (te_pdh env) sample_ms rows of (er, rows) \<Rightarrow>
                    if er \<noteq> WT_OK then Some (er, rows)
                    else Some (WT_OK, case net of None \<Rightarrow> rows
                           | Some (rates, udp_measured) \<Rightarrow> wt_apply_net_rates rates udp_measured rows))
      else Some (WT_OK, rows))"

definition wt_collect_process_page ::
  "top_env \<Rightarrow> nat \<Rightarrow> nat \<Rightarrow> nat \<Rightarrow> WT_ProcessSort \<Rightarrow> nat \<Rightarrow> bool \<Rightarrow> identity_cache \<Rightarrow>
   (WT_Result \<times> WT_ProcessInfo list \<times> WT_ProcessPageInfo \<times> identity_cache) option" where
  \<comment> \<open>None when an event payload would be read past its end\<close>
  "wt_collect_process_page env out_cap page page_size sk sample_ms include_network cache =
     (let info = \<lparr>pg_page = 0, pg_page_size = 0, pg_page_count = 0, pg_total = 0, pg_truncated = False\<rparr>
      in if out_cap = 0 then Some (WT_ERR_INVALID_ARGUMENT, [], info, cache)
         else let page_size = (if page_size = 0 \<or> page_size > WT_PROCESS_PAGE_MAX then WT_PROCESS_PAGE_MAX else page_size);
                  include_network = (include_network \<or> sk = WT_PROCESS_SORT_NETWORK)
         in case wt_collect_processes (te_world env 0) WT_PROCESS_ENUM_MAX of (r, rows) \<Rightarrow>
           if r \<noteq> WT_OK then Some (r, [], info, cache)
           else let info = info\<lparr>pg_truncated := (length rows \<ge> WT_PROCESS_ENUM_MAX)\<rparr>
           in case page_rates env sk sample_ms include_network rows of
                None \<Rightarrow> None
              | Some (er, rows) \<Rightarrow>
                 if er \<noteq> WT_OK then Some (er, [], info, cache)
                 else let rows = wt_sort_processes (te_qsort env) sk rows
                 in case wt_process_page_bounds (length rows) page page_size of (br, offset, n, pages) \<Rightarrow>
                   let info = info\<lparr>pg_page := page, pg_page_size := page_size, pg_page_count := pages, pg_total := length rows\<rparr>
                   in if br \<noteq> WT_OK then Some (br, [], info, cache)
                      else let n = (if n > out_cap then out_cap else n); out = take n (drop offset rows)
                           in case wt_enrich_process_identity (te_probe env) (te_image env) out cache of (out, cache) \<Rightarrow>
                                Some (WT_OK, wt_enrich_process_wait_chain (te_wait env) out, info, cache))"

section \<open>Processes that came and went\<close>

definition WT_SHORT_POLL_MS :: nat where "WT_SHORT_POLL_MS = 50"
definition WT_SHORT_POLL_MAX :: nat where "WT_SHORT_POLL_MAX = 20"
definition WT_SEEN_CAP :: nat where "WT_SEEN_CAP = 1024"

definition wt_process_kernel_pseudo :: "nat \<Rightarrow> string \<Rightarrow> bool" where
  "wt_process_kernel_pseudo pid name =
     (if pid \<le> 4 then True
      else list_ex (wcsicmp name) [''Idle'', ''System'', ''System Idle Process'', ''Registry'', ''Memory Compression'', ''Secure System''])"

record WT_SeenProc =
  sp_pid :: nat
  sp_parent_pid :: nat
  sp_name :: string
  sp_at_start :: bool
  sp_at_end :: bool

definition wt_seen_note :: "PROCESSENTRY32W \<Rightarrow> bool \<Rightarrow> bool \<Rightarrow> WT_SeenProc list \<Rightarrow> WT_SeenProc list" where
  "wt_seen_note e at_start at_end seen =
     (if en_pid e \<le> 4 then seen
      else case update_first (\<lambda>s. sp_pid s = en_pid e)
             (\<lambda>s. s\<lparr>sp_at_start := (at_start \<or> sp_at_start s), sp_at_end := (at_end \<or> sp_at_end s)\<rparr>) seen of
        Some seen' \<Rightarrow> seen'
      | None \<Rightarrow> if length seen \<ge> WT_SEEN_CAP then seen
                else seen @ [\<lparr>sp_pid = en_pid e, sp_parent_pid = en_parent_pid e, sp_name = cch_copy 64 (en_exe e),
                              sp_at_start = at_start, sp_at_end = at_end\<rparr>])"

definition wt_seen_snapshot :: "proc_world \<Rightarrow> bool \<Rightarrow> bool \<Rightarrow> WT_SeenProc list \<Rightarrow> WT_SeenProc list" where
  "wt_seen_snapshot w at_start at_end seen =
     (case wm_snapshot w of None \<Rightarrow> seen | Some es \<Rightarrow> fold (\<lambda>e. wt_seen_note e at_start at_end) es seen)"

definition short_lived_of :: "WT_SeenProc \<Rightarrow> WT_ShortLivedProcess" where
  "short_lived_of s = zero_WT_ShortLivedProcess\<lparr>sl_pid := sp_pid s, sl_parent_pid := sp_parent_pid s,
     sl_name := cch_copy 64 (sp_name s), sl_exited := True\<rparr>"

fun emit_pass :: "(WT_SeenProc \<Rightarrow> bool) \<Rightarrow> nat \<Rightarrow> WT_SeenProc list \<Rightarrow> WT_ShortLivedProcess list \<Rightarrow> WT_ShortLivedProcess list" where
  "emit_pass wanted cap [] out = out"
| "emit_pass wanted cap (s # ss) out =
     (if \<not> length out < cap then out
      else emit_pass wanted cap ss
             (if \<not> wanted s \<or> wt_process_kernel_pseudo (sp_pid s) (sp_name s) then out else out @ [short_lived_of s]))"

definition wt_seen_emit :: "WT_SeenProc list \<Rightarrow> nat \<Rightarrow> WT_ShortLivedProcess list" where
  \<comment> \<open>first those born in the window, then those that were there at its start\<close>
  "wt_seen_emit seen cap =
     (let cap = (if cap > WT_MAX_SHORT_LIVED then WT_MAX_SHORT_LIVED else cap)
      in emit_pass (\<lambda>s. sp_at_start s \<and> \<not> sp_at_end s) cap seen
           (emit_pass (\<lambda>s. \<not> sp_at_start s \<and> \<not> sp_at_end s) cap seen []))"

function window_loop :: "(nat \<Rightarrow> proc_world) \<Rightarrow> nat \<Rightarrow> nat \<Rightarrow> WT_SeenProc list option \<Rightarrow> WT_SeenProc list option" where
  \<comment> \<open>time left and polls made; the snapshot of poll \<open>k\<close> is at moment \<open>3 + k\<close>\<close>
  "window_loop world left polls seen =
     (if left = 0 then seen
      else let piece = (if polls \<ge> WT_SHORT_POLL_MAX \<or> WT_SHORT_POLL_MS > left then left else WT_SHORT_POLL_MS);
               left' = left - piece
           in case seen of None \<Rightarrow> window_loop world left' polls None
              | Some s \<Rightarrow>
                 if left' > 0 \<and> polls < WT_SHORT_POLL_MAX
                 then window_loop world left' (polls + 1) (Some (wt_seen_snapshot (world (3 + polls)) False False s))
                 else window_loop world left' polls (Some s))"
  by pat_completeness auto
termination
  by (relation "measure (\<lambda>(world, left, polls, seen). left)") (auto simp: WT_SHORT_POLL_MS_def)

declare window_loop.simps [simp del]

definition wt_sample_window :: "(nat \<Rightarrow> proc_world) \<Rightarrow> nat \<Rightarrow> WT_SeenProc list option \<Rightarrow> WT_SeenProc list option" where
  "wt_sample_window world sample_ms seen =
     window_loop world sample_ms 0 (map_option (wt_seen_snapshot (world 2) True False) seen)"
section \<open>The top processes\<close>

definition cpu_since :: "WT_ProcessCpuSample list \<Rightarrow> WT_ProcessCpuSample list \<Rightarrow> rat \<Rightarrow> WT_ProcessInfo \<Rightarrow> WT_ProcessInfo" where
  "cpu_since before after secs p =
     (if pi_cpu_percent p < 0
      then case (wt_find_cpu_sample before (pi_pid p), wt_find_cpu_sample after (pi_pid p)) of
             (Some b, Some a) \<Rightarrow>
               if cs_cpu_time_100ns a \<ge> cs_cpu_time_100ns b \<and> secs > 0
               then p\<lparr>pi_cpu_percent := of_nat (cs_cpu_time_100ns a - cs_cpu_time_100ns b) / (secs * 10000000) * 100\<rparr> else p
           | _ \<Rightarrow> p
      else p)"

definition disk_since :: "WT_ProcessIoSample list \<Rightarrow> WT_ProcessIoSample list \<Rightarrow> rat \<Rightarrow> WT_ProcessInfo \<Rightarrow> WT_ProcessInfo" where
  "disk_since before after secs p =
     (case (wt_find_io_sample before (pi_pid p), wt_find_io_sample after (pi_pid p)) of
        (Some b, Some a) \<Rightarrow>
          if secs > 0
          then p\<lparr>pi_disk_read_bytes_per_sec :=
                   (if io_read_bytes a \<ge> io_read_bytes b then of_nat (io_read_bytes a - io_read_bytes b) / secs else 0),
                 pi_disk_write_bytes_per_sec :=
                   (if io_write_bytes a \<ge> io_write_bytes b then of_nat (io_write_bytes a - io_write_bytes b) / secs else 0)\<rparr>
          else p
      | _ \<Rightarrow> p)"

record top_samples =
  tm_io_before :: "WT_ProcessIoSample list"
  tm_io_after :: "WT_ProcessIoSample list"
  tm_cpu_before :: "WT_ProcessCpuSample list"
  tm_cpu_after :: "WT_ProcessCpuSample list"
  tm_net :: "(WT_ProcessNetRate list \<times> bool) option"
  tm_secs :: rat

definition measured_row :: "proc_world \<Rightarrow> top_samples \<Rightarrow> PROCESSENTRY32W \<Rightarrow> WT_ProcessInfo" where
  \<comment> \<open>the body of the last loop up to the network rates\<close>
  "measured_row w tm e =
     (let p = disk_since (tm_io_before tm) (tm_io_after tm) (tm_secs tm)
                (cpu_since (tm_cpu_before tm) (tm_cpu_after tm) (tm_secs tm) (wt_process_fill w e))
      in case tm_net tm of None \<Rightarrow> p
         | Some (rates, udp_measured) \<Rightarrow> wt_apply_one_net_rate (wt_find_process_net_rate rates (pi_pid p)) udp_measured p)"

record top_state =
  tp_top :: "WT_ProcessInfo list"
  tp_seen :: "WT_SeenProc list option"
  tp_user_max :: rat
  tp_user_sum :: rat
  tp_user_seen :: bool

definition user_cpu :: "rat \<Rightarrow> WT_ProcessInfo \<Rightarrow> top_state \<Rightarrow> top_state" where
  "user_cpu nproc p st =
     (if \<not> wt_process_kernel_pseudo (pi_pid p) (pi_name p) \<and> pi_cpu_percent p \<ge> 0
      then let v = pi_cpu_percent p / nproc; v = (if v < 0 then 0 else v);
               st = st\<lparr>tp_user_sum := tp_user_sum st + v\<rparr>;
               st = (if \<not> tp_user_seen st \<or> v > tp_user_max st then st\<lparr>tp_user_max := v\<rparr> else st)
           in st\<lparr>tp_user_seen := True\<rparr>
      else st)"

definition top_step :: "proc_world \<Rightarrow> top_samples \<Rightarrow> rat \<Rightarrow> nat \<Rightarrow> WT_ProcessSort \<Rightarrow> PROCESSENTRY32W \<Rightarrow> top_state \<Rightarrow> top_state" where
  "top_step w tm nproc k sk e st =
     (let p = measured_row w tm e;
          st = st\<lparr>tp_seen := map_option (wt_seen_note e False True) (tp_seen st)\<rparr>;
          st = user_cpu nproc p st
      in st\<lparr>tp_top := wt_topk_insert k sk p (tp_top st)\<rparr>)"

definition finish_top :: "top_env \<Rightarrow> WT_ProcessSort \<Rightarrow> WT_ProcessInfo list \<Rightarrow> identity_cache \<Rightarrow> WT_ProcessInfo list \<times> identity_cache" where
  \<comment> \<open>sort, identities, wait chains\<close>
  "finish_top env sk rows cache =
     (case wt_enrich_process_identity (te_probe env) (te_image env) (wt_sort_processes (te_qsort env) sk rows) cache of
        (rows, cache) \<Rightarrow> (wt_enrich_process_wait_chain (te_wait env) rows, cache))"

definition top_result :: "WT_Result \<Rightarrow> WT_ProcessInfo list \<Rightarrow> rat \<Rightarrow> rat \<Rightarrow> WT_ShortLivedProcess list \<Rightarrow> process_sample" where
  "top_result r rows umax usum short = \<lparr>pr_result = r, pr_processes = rows, pr_user_cpu_max = umax,
     pr_user_cpu_sum = usum, pr_short_lived = short\<rparr>"

definition collect_top_quick :: "top_env \<Rightarrow> nat \<Rightarrow> WT_ProcessSort \<Rightarrow> identity_cache \<Rightarrow> process_sample \<times> identity_cache" where
  \<comment> \<open>no sample: one snapshot\<close>
  "collect_top_quick env k sk cache =
     (let w = te_world env 0
      in case wm_snapshot w of None \<Rightarrow> (top_result WT_ERR_WIN32 [] (-1) (-1) [], cache)
         | Some [] \<Rightarrow> (top_result WT_ERR_WIN32 [] (-1) (-1) [], cache)
         | Some es \<Rightarrow>
            (case finish_top env sk (foldl (\<lambda>acc e. wt_topk_insert k sk (wt_process_fill w e) acc) [] es) cache of
               (rows, cache) \<Rightarrow> (top_result WT_OK rows (-1) (-1) [], cache)))"

definition collect_top_sampled ::
  "top_env \<Rightarrow> nat \<Rightarrow> WT_ProcessSort \<Rightarrow> nat \<Rightarrow> bool \<Rightarrow> nat option \<Rightarrow> identity_cache \<Rightarrow> (process_sample \<times> identity_cache) option" where
  \<comment> \<open>moments: 0 and 1 the samples before, 2 to 22 the window, 23 and 24 the samples after, 25 the list\<close>
  "collect_top_sampled env k sk sample_ms include_network short_cap cache =
     (let world = te_world env
      in case wt_sample_process_io (world 0) 4096 of (ir, io_before) \<Rightarrow>
        if ir \<noteq> WT_OK then Some (top_result ir [] (-1) (-1) [], cache)
        else let cpu_before = snd (wt_sample_process_cpu (world 1) 4096);
                 track = (case short_cap of None \<Rightarrow> False | Some c \<Rightarrow> c > 0);
                 seen = wt_sample_window world sample_ms (if track then Some [] else None)
             in case net_rates_of_window env sample_ms include_network of
                  None \<Rightarrow> None
                | Some net \<Rightarrow>
                   let cpu_after = snd (wt_sample_process_cpu (world 23) 4096);
                       io_after = snd (wt_sample_process_io (world 24) 4096);
                       tm = \<lparr>tm_io_before = io_before, tm_io_after = io_after, tm_cpu_before = cpu_before,
                             tm_cpu_after = cpu_after, tm_net = net, tm_secs = of_nat sample_ms / 1000\<rparr>;
                       nproc = (if te_cpus env > 0 then of_nat (te_cpus env) else 1);
                       start = \<lparr>tp_top = [], tp_seen = seen, tp_user_max = -1, tp_user_sum = 0, tp_user_seen = False\<rparr>
                   in case wm_snapshot (world 25) of
                        None \<Rightarrow> Some (top_result WT_ERR_WIN32 [] (-1) (-1) [], cache)
                      | Some es \<Rightarrow>
                         let st = fold (top_step (world 25) tm nproc k sk) es start;
                             short = (case tp_seen st of None \<Rightarrow> [] | Some s \<Rightarrow> wt_seen_emit s (case short_cap of None \<Rightarrow> 0 | Some c \<Rightarrow> c))
                         in if es = [] then Some (top_result WT_ERR_WIN32 [] (-1) (-1) short, cache)
                            else case finish_top env sk (tp_top st) cache of
                                   (rows, cache) \<Rightarrow> Some (top_result WT_OK rows (if tp_user_seen st then tp_user_max st else -1)
                                      (if tp_user_seen st then tp_user_sum st else -1) short, cache))"

definition wt_collect_top_processes ::
  "top_env \<Rightarrow> nat \<Rightarrow> WT_ProcessSort \<Rightarrow> nat \<Rightarrow> bool \<Rightarrow> nat option \<Rightarrow> identity_cache \<Rightarrow> (process_sample \<times> identity_cache) option" where
  \<comment> \<open>\<open>short_cap\<close>: None when the caller gives no room for short-lived processes\<close>
  "wt_collect_top_processes env k sk sample_ms include_network short_cap cache =
     (if k = 0 then Some (top_result WT_ERR_INVALID_ARGUMENT [] (-1) (-1) [], cache)
      else let include_network = (include_network \<or> sk = WT_PROCESS_SORT_NETWORK)
           in if sample_ms = 0 \<and> sk = WT_PROCESS_SORT_MEMORY \<and> \<not> include_network
              then Some (collect_top_quick env k sk cache)
              else collect_top_sampled env k sk (if sample_ms = 0 then WT_PROCESS_DEFAULT_SAMPLE_MS else sample_ms)
                     include_network short_cap cache)"

definition wt_collect_top_processes_by_memory :: "top_env \<Rightarrow> nat \<Rightarrow> identity_cache \<Rightarrow> (process_sample \<times> identity_cache) option" where
  "wt_collect_top_processes_by_memory env k cache =
     wt_collect_top_processes env k WT_PROCESS_SORT_MEMORY 0 False None cache"

end
