(* ===== verification/Process_Theorems.thy ===== *)
theory Process_Theorems
  imports Processes
begin

text \<open>
  What holds of the process list: the slots of \<open>wt_topk_insert\<close> are a prefix of the stable descending order of the
  eligible rows, the four comparisons are weak orders (the interpretations of \<open>weak_order\<close>), so the rows shown are
  that prefix in the order of the comparison, and the pages cut the sorted list without gap or overlap.
\<close>

section \<open>The slots\<close>

fun ins_desc :: "('a \<Rightarrow> nat) \<Rightarrow> 'a \<Rightarrow> 'a list \<Rightarrow> 'a list" where
  "ins_desc v x [] = [x]"
| "ins_desc v x (y # ys) = (if v x > v y then x # y # ys else y # ins_desc v x ys)"

definition falling :: "('a \<Rightarrow> nat) \<Rightarrow> 'a list \<Rightarrow> bool" where
  "falling v xs \<longleftrightarrow> sorted_wrt (\<lambda>a b. v a \<ge> v b) xs"

lemma falling_simps [simp]:
  "falling v []" "falling v (x # xs) \<longleftrightarrow> (\<forall>y \<in> set xs. v y \<le> v x) \<and> falling v xs"
  "falling v (xs @ [x]) \<longleftrightarrow> falling v xs \<and> (\<forall>y \<in> set xs. v x \<le> v y)"
  by (auto simp: falling_def sorted_wrt_append)

lemma ins_desc_last: "falling v xs \<Longrightarrow> (\<forall>y \<in> set xs. v x \<le> v y) \<Longrightarrow> ins_desc v x xs = xs @ [x]"
  by (induction xs) auto

lemma ins_desc_snoc: "falling v (xs @ [y]) \<Longrightarrow> v y < v x \<Longrightarrow> ins_desc v x (xs @ [y]) = ins_desc v x xs @ [y]"
  by (induction xs) auto

lemma swap_up_shift: "swap_up v (length xs) (xs @ x # ys) = rev (shift_in (\<lambda>a b. v a > v b) x (rev xs)) @ ys"
proof (induction xs arbitrary: ys rule: rev_induct)
  case (snoc z zs)
  show ?case using snoc [of "z # ys"]
    by (auto simp: nth_append list_update_append)
qed simp

lemma shift_in_desc: "falling v xs \<Longrightarrow> rev (shift_in (\<lambda>a b. v a > v b) x (rev xs)) = ins_desc v x xs"
proof (induction xs rule: rev_induct)
  case (snoc y ys)
  show ?case
  proof (cases "v y < v x")
    case True
    then show ?thesis using snoc ins_desc_snoc [OF snoc.prems] by simp
  next
    case False
    then have "\<forall>z \<in> set (ys @ [y]). v x \<le> v z" using snoc.prems by fastforce
    from ins_desc_last [OF snoc.prems this] show ?thesis using False by simp
  qed
qed simp

lemma swap_up_desc: "falling v xs \<Longrightarrow> swap_up v (length xs) (xs @ x # ys) = ins_desc v x xs @ ys"
  by (simp add: swap_up_shift shift_in_desc)

lemma take_ins_take: "falling v xs \<Longrightarrow> take k (ins_desc v x (take k xs)) = take k (ins_desc v x xs)"
proof (induction xs arbitrary: k)
  case (Cons y ys)
  then show ?case by (cases k) (auto simp: take_Cons')
qed simp

lemma falling_take: "falling v xs \<Longrightarrow> falling v (take k xs)"
  by (simp add: falling_def sorted_wrt_take)

lemma topk_insert_takes:
  assumes "falling (wt_process_sort_value sk) xs" "length xs \<le> k" "0 < k" "wt_process_sort_key sk p"
  shows "wt_topk_insert k sk p xs = take k (ins_desc (wt_process_sort_value sk) p xs)"
proof -
  let ?v = "wt_process_sort_value sk"
  have len: "length (ins_desc ?v p ys) = Suc (length ys)" for ys by (induction ys) simp_all
  show ?thesis
  proof (cases "length xs < k")
    case True
    then show ?thesis using assms swap_up_desc [OF assms(1), of p "[]"] len [of xs]
      by (simp add: wt_topk_insert_def Let_def)
  next
    case False
    then have n: "length xs = k" using assms(2) by simp
    then obtain ys y where ys: "xs = ys @ [y]" using assms(3) by (cases xs rule: rev_cases) auto
    have k: "k = Suc (length ys)" using n by (simp add: ys)
    show ?thesis
    proof (cases "?v p \<le> ?v y")
      case True
      then have "\<forall>z \<in> set xs. ?v p \<le> ?v z" using assms(1) by (fastforce simp: ys)
      from ins_desc_last [OF assms(1) this] show ?thesis using True assms(4)
        by (simp add: wt_topk_insert_def Let_def ys k)
    next
      case f: False
      have "swap_up ?v (length ys) (ys @ [p]) = ins_desc ?v p ys"
        using swap_up_desc [of ?v ys p "[]"] assms(1) by (simp add: ys)
      then have "wt_topk_insert k sk p xs = ins_desc ?v p ys"
        using f assms(4) by (simp add: wt_topk_insert_def Let_def ys k)
      moreover have "ins_desc ?v p xs = ins_desc ?v p ys @ [y]"
        using ins_desc_snoc [OF assms(1) [unfolded ys]] f by (simp add: ys)
      ultimately show ?thesis using len [of ys] k by simp
    qed
  qed
qed

text \<open>The order by falling value is one of keys.\<close>

interpretation falling_value: keyed_less "\<lambda>p. - int (wt_process_sort_value sk p)"
    "\<lambda>a b. wt_process_sort_value sk a > wt_process_sort_value sk b" for sk
  by unfold_locales simp

definition ranked :: "WT_ProcessSort \<Rightarrow> WT_ProcessInfo list \<Rightarrow> WT_ProcessInfo list" where
  \<comment> \<open>the specification of the slots: the eligible rows, highest value first, equal ones in the order of the list\<close>
  "ranked sk rows = sort_key (\<lambda>p. - int (wt_process_sort_value sk p)) (filter (wt_process_sort_key sk) rows)"

lemma ranked_sort: "ranked sk rows = insertion_sort (\<lambda>a b. wt_process_sort_value sk a > wt_process_sort_value sk b)
    (filter (wt_process_sort_key sk) rows)"
  by (simp add: ranked_def falling_value.sort_is_stable_sort)

lemma ranked_falling: "falling (wt_process_sort_value sk) (ranked sk rows)"
proof -
  have "sorted (map (\<lambda>p. - int (wt_process_sort_value sk p)) (ranked sk rows))" by (simp add: ranked_def)
  then show ?thesis by (simp add: falling_def sorted_map)
qed

lemma ranked_snoc: "ranked sk (rows @ [p]) =
    (if wt_process_sort_key sk p then ins_desc (wt_process_sort_value sk) p (ranked sk rows) else ranked sk rows)"
proof (cases "wt_process_sort_key sk p")
  case True
  let ?b = "\<lambda>a b. wt_process_sort_value sk a > wt_process_sort_value sk b"
  let ?rs = "foldl (\<lambda>rs k. shift_in ?b k rs) [] (filter (wt_process_sort_key sk) rows)"
  have "ranked sk (rows @ [p]) = rev (shift_in ?b p (rev (rev ?rs)))" using True by (simp add: ranked_sort insertion_sort_def)
  also have "rev ?rs = ranked sk rows" by (simp add: ranked_sort insertion_sort_def)
  finally show ?thesis using True shift_in_desc [OF ranked_falling] by simp
qed (simp add: ranked_def)

lemma topk_is_ranked: "0 < k \<Longrightarrow> foldl (\<lambda>acc p. wt_topk_insert k sk p acc) [] rows = take k (ranked sk rows)"
proof (induction rows rule: rev_induct)
  case (snoc p rows)
  show ?case
  proof (cases "wt_process_sort_key sk p")
    case True
    have "wt_topk_insert k sk p (take k (ranked sk rows)) = take k (ins_desc (wt_process_sort_value sk) p (take k (ranked sk rows)))"
      by (rule topk_insert_takes) (use snoc.prems True in \<open>simp_all add: falling_take ranked_falling\<close>)
    then show ?thesis using snoc True take_ins_take [OF ranked_falling] by (simp add: ranked_snoc)
  qed (use snoc in \<open>simp add: ranked_snoc wt_topk_insert_def\<close>)
qed (simp add: ranked_def)
section \<open>The order shown\<close>

definition process_cmp :: "WT_ProcessSort \<Rightarrow> WT_ProcessInfo \<Rightarrow> WT_ProcessInfo \<Rightarrow> int" where
  "process_cmp sk = (case sk of
     WT_PROCESS_SORT_CPU \<Rightarrow> wt_compare_by_cpu_desc | WT_PROCESS_SORT_DISK \<Rightarrow> wt_compare_by_disk_desc
   | WT_PROCESS_SORT_NETWORK \<Rightarrow> wt_compare_by_network_desc | WT_PROCESS_SORT_MEMORY \<Rightarrow> wt_compare_by_memory_desc)"

definition qsort_ok :: "qsort_fn \<Rightarrow> bool" where
  \<comment> \<open>what \<open>qsort\<close> promises for each of the comparisons\<close>
  "qsort_ok qs \<longleftrightarrow> (\<forall>sk items. mset (qs (process_cmp sk) items) = mset items \<and>
     sorted_wrt (\<lambda>a b. process_cmp sk a b \<le> 0) (qs (process_cmp sk) items))"

lemmas process_cmp_simps = process_cmp_def wt_compare_by_cpu_desc_def wt_compare_by_disk_desc_def
  wt_compare_by_network_desc_def wt_compare_by_memory_desc_def compare_desc_def

interpretation shown: weak_order "\<lambda>a b. process_cmp sk a b < 0" for sk
  by unfold_locales (cases sk; force simp: process_cmp_simps split: if_splits)+

lemma process_cmp_flip: "process_cmp sk b a < 0 \<longleftrightarrow> 0 < process_cmp sk a b"
  by (cases sk) (auto simp: process_cmp_simps)

lemma sorting_sorts:
  assumes "qsort_ok qs"
  shows "mset (wt_sort_processes qs sk items) = mset items"
    "sorted_wrt (\<lambda>a b. process_cmp sk a b \<le> 0) (wt_sort_processes qs sk items)"
proof -
  have s: "wt_sort_processes qs sk items = sort_from_2 qs (process_cmp sk) items"
    by (cases sk) (simp_all add: wt_sort_processes_def process_cmp_def)
  have one: "length items < 2 \<Longrightarrow> sorted_wrt P items" for P by (cases items; cases "tl items") auto
  show "mset (wt_sort_processes qs sk items) = mset items"
    "sorted_wrt (\<lambda>a b. process_cmp sk a b \<le> 0) (wt_sort_processes qs sk items)"
    using assms one unfolding s by (auto simp: sort_from_2_def qsort_ok_def)
qed

lemma insertion_sort_qsort: "qsort_ok (\<lambda>cmp. insertion_sort (\<lambda>a b. cmp a b < 0))"
proof -
  have "(\<lambda>a b. \<not> process_cmp sk b a < 0) = (\<lambda>a b. process_cmp sk a b \<le> 0)" for sk
    by (simp add: fun_eq_iff process_cmp_flip not_less)
  then show ?thesis
    using shown.insertion_sort_order unfolding qsort_ok_def shown.in_order_def by (simp add: mset_insertion_sort)
qed

section \<open>Enrichment\<close>

definition core_row :: "WT_ProcessInfo \<Rightarrow> WT_ProcessInfo" where
  \<comment> \<open>a row without what identities and wait chains fill in\<close>
  "core_row p = p\<lparr>pi_identity := zero_WT_FileIdentity, pi_wait_checked := False, pi_hung := False, pi_wait_cycle := False\<rparr>"

lemma identity_core: "map core_row (fst (wt_enrich_process_identity f img ps cache)) = map core_row ps"
  by (induction ps arbitrary: cache) (simp_all add: case_prod_beta Let_def core_row_def)

lemma give_thread_fst: "map fst (give_thread te xs) = map fst xs"
  by (induction te xs rule: give_thread.induct) auto

lemma give_threads_fst: "map fst (fold give_thread ts xs) = map fst xs"
  by (induction ts arbitrary: xs) (simp_all add: give_thread_fst)

lemma query_threads_core: "core_row (fst (query_threads w ts q ok p)) = core_row p"
proof (induction ts arbitrary: q ok p)
  case (Cons t ts)
  have c: "core_row (p\<lparr>pi_hung := h, pi_wait_cycle := x\<rparr>) = core_row p" for h x by (simp add: core_row_def)
  show ?case using Cons by (cases "wc_chain w t") (auto simp: c case_prod_beta)
qed simp

lemma wait_loop_core: "map core_row (wait_loop w q xs) = map core_row (map fst xs)"
proof (induction xs arbitrary: q)
  case (Cons x xs)
  obtain p tids where x: "x = (p, tids)" by (cases x)
  obtain p' q' ok where t: "query_threads w tids q False p = (p', q', ok)" using prod_cases3 by blast
  have "core_row (p'\<lparr>pi_wait_checked := ok\<rparr>) = core_row p"
    using query_threads_core [of w tids q False p] by (simp add: t core_row_def)
  then show ?case using Cons by (simp add: x t)
qed simp

lemma wait_chain_core: "map core_row (wt_enrich_process_wait_chain w ps) = map core_row ps"
proof -
  have c: "map core_row (map (\<lambda>p. p\<lparr>pi_wait_checked := False, pi_hung := False, pi_wait_cycle := False\<rparr>) ps) = map core_row ps"
    by (simp add: core_row_def)
  have f: "map fst (map (\<lambda>p. (p, [])) qs) = qs" for qs :: "WT_ProcessInfo list" by (simp add: comp_def)
  show ?thesis
    by (cases "wc_threads w")
      (simp_all only: wt_enrich_process_wait_chain_def Let_def wait_loop_core give_threads_fst c f option.case if_distrib
        if_cancel)
qed

lemma process_cmp_core: "process_cmp sk (core_row a) (core_row b) = process_cmp sk a b"
  by (cases sk) (simp_all add: process_cmp_simps core_row_def disk_rate_def net_rate_def)

lemma sorted_core: "sorted_wrt (\<lambda>a b. process_cmp sk a b \<le> 0) xs \<longleftrightarrow> sorted_wrt (\<lambda>a b. process_cmp sk a b \<le> 0) (map core_row xs)"
  by (simp add: sorted_wrt_map process_cmp_core)

lemma finish_top_shows:
  assumes "qsort_ok (te_qsort env)" "finish_top env sk rows cache = (out, cache')"
  shows "mset (map core_row out) = mset (map core_row rows) \<and> sorted_wrt (\<lambda>a b. process_cmp sk a b \<le> 0) out"
proof -
  let ?s = "wt_sort_processes (te_qsort env) sk rows"
  have c: "map core_row out = map core_row ?s"
    using assms(2) identity_core [of "te_probe env" "te_image env" ?s cache]
    by (auto simp: finish_top_def case_prod_beta wait_chain_core)
  have "mset (map core_row out) = mset (map core_row rows)"
    unfolding c using sorting_sorts(1) [OF assms(1), of sk rows] by (metis mset_map)
  moreover have "sorted_wrt (\<lambda>a b. process_cmp sk a b \<le> 0) (map core_row out)"
    unfolding c using sorting_sorts(2) [OF assms(1)] sorted_core by blast
  ultimately show ?thesis using sorted_core by blast
qed

section \<open>Pages\<close>

definition page_slice :: "nat \<Rightarrow> 'a list \<Rightarrow> nat \<Rightarrow> 'a list" where
  "page_slice size' xs page = (case wt_process_page_bounds (length xs) page size' of (r, offset, n, pages) \<Rightarrow> take n (drop offset xs))"

definition page_count :: "nat \<Rightarrow> nat \<Rightarrow> nat" where
  "page_count size' n = (case wt_process_page_bounds n 1 size' of (r, offset, k, pages) \<Rightarrow> pages)"

lemma concat_slices: "concat (map (\<lambda>i. take m (drop (i * m) xs)) [0..<n]) = take (n * m) xs"
proof (induction n)
  case (Suc n)
  have "take (Suc n * m) xs = take (n * m) xs @ take m (drop (n * m) xs)"
    by (simp only: mult_Suc add.commute [of m] take_add)
  then show ?case using Suc by simp
qed simp

lemma page_count_covers:
  assumes "0 < m" "m \<le> WT_PROCESS_PAGE_MAX"
  shows "page_count m n = (if n > 0 then (n + m - 1) div m else 1)" "n \<le> page_count m n * m" "0 < page_count m n"
proof -
  show p: "page_count m n = (if n > 0 then (n + m - 1) div m else 1)"
    using assms div_le_mono [of m "n + m - 1" m] by (auto simp: page_count_def wt_process_page_bounds_def Let_def)
  have "n \<le> (n + m - 1) div m * m"
    using div_mult_mod_eq [of "n + m - 1" m] mod_less_divisor [OF assms(1), of "n + m - 1"] assms(1) by linarith
  then show "n \<le> page_count m n * m" by (simp add: p)
  show "0 < page_count m n" using assms(1) by (auto simp: p div_greater_zero_iff)
qed

lemma page_slice_drop:
  assumes "0 < m" "m \<le> WT_PROCESS_PAGE_MAX" "i < page_count m (length xs)"
  shows "page_slice m xs (Suc i) = take m (drop (i * m) xs)"
proof -
  have "\<not> Suc i > (if length xs > 0 then (length xs + m - 1) div m else 1)"
    using assms(3) page_count_covers(1) [OF assms(1,2)] by auto
  then show ?thesis using assms(1,2)
    by (auto simp: page_slice_def wt_process_page_bounds_def Let_def)
qed

lemma pages_partition:
  assumes "0 < m" "m \<le> WT_PROCESS_PAGE_MAX"
  shows "concat (map (page_slice m xs) [1..<Suc (page_count m (length xs))]) = xs"
proof -
  let ?n = "page_count m (length xs)"
  have "map (page_slice m xs) [1..<Suc ?n] = map (\<lambda>i. page_slice m xs (Suc i)) [0..<?n]"
    by (simp add: map_Suc_upt [symmetric] comp_def del: upt_Suc)
  also have "map (\<lambda>i. page_slice m xs (Suc i)) [0..<?n] = map (\<lambda>i. take m (drop (i * m) xs)) [0..<?n]"
    by (rule map_cong) (simp_all add: page_slice_drop assms)
  finally show ?thesis using concat_slices [of m xs ?n] page_count_covers(2) [OF assms, of "length xs"] by simp
qed
section \<open>The top processes\<close>

definition row_of :: "proc_world \<Rightarrow> (PROCESSENTRY32W \<Rightarrow> WT_ProcessInfo) \<Rightarrow> bool" where
  \<comment> \<open>a row per listed process: that of \<open>wt_process_fill\<close>, rates apart\<close>
  "row_of w row \<longleftrightarrow> (\<forall>e. wt_process_init_metrics (row e) = wt_process_fill w e)"

lemma init_metrics_fill: "wt_process_init_metrics (wt_process_fill w e) = wt_process_fill w e"
proof -
  have upd: "wt_process_init_metrics (wt_process_fill_integrity h p) = wt_process_fill_integrity h (wt_process_init_metrics p)" for h p
    by (simp add: wt_process_fill_integrity_def wt_process_init_metrics_def split: option.split)
  have set_ok: "wt_process_init_metrics (p\<lparr>pi_session_id := a, pi_session_ok := b\<rparr>) = (wt_process_init_metrics p)\<lparr>pi_session_id := a, pi_session_ok := b\<rparr>"
    "wt_process_init_metrics (p\<lparr>pi_working_set_bytes := m, pi_private_bytes := n\<rparr>) = (wt_process_init_metrics p)\<lparr>pi_working_set_bytes := m, pi_private_bytes := n\<rparr>"
    "wt_process_init_metrics (p\<lparr>pi_read_bytes := m, pi_write_bytes := n\<rparr>) = (wt_process_init_metrics p)\<lparr>pi_read_bytes := m, pi_write_bytes := n\<rparr>"
    "wt_process_init_metrics (p\<lparr>pi_handle_ok := b, pi_handle_count := n\<rparr>) = (wt_process_init_metrics p)\<lparr>pi_handle_ok := b, pi_handle_count := n\<rparr>"
    "wt_process_init_metrics (p\<lparr>pi_gdi_ok := b, pi_gdi_count := n\<rparr>) = (wt_process_init_metrics p)\<lparr>pi_gdi_ok := b, pi_gdi_count := n\<rparr>"
    "wt_process_init_metrics (p\<lparr>pi_pid := m, pi_parent_pid := n, pi_integrity := i, pi_name := nm\<rparr>)
      = (wt_process_init_metrics p)\<lparr>pi_pid := m, pi_parent_pid := n, pi_integrity := i, pi_name := nm\<rparr>"
    "wt_process_init_metrics (wt_process_init_metrics p) = wt_process_init_metrics p" for p a b m n i nm
    by (simp_all add: wt_process_init_metrics_def)
  show ?thesis
    by (simp add: wt_process_fill_def Let_def set_ok upd split: option.split)
qed

lemma measured_row_of: "row_of w (measured_row w tm)"
proof -
  have c: "wt_process_init_metrics (cpu_since b a t p) = wt_process_init_metrics p" for b a t p
    by (auto simp: cpu_since_def wt_process_init_metrics_def split: option.split)
  have d: "wt_process_init_metrics (disk_since b a t p) = wt_process_init_metrics p" for b a t p
    by (auto simp: disk_since_def wt_process_init_metrics_def split: option.split)
  have n: "wt_process_init_metrics (wt_apply_one_net_rate r u p) = wt_process_init_metrics p" for r u p
    by (auto simp: wt_apply_one_net_rate_def wt_process_init_metrics_def split: option.split)
  show ?thesis
    by (auto simp: row_of_def measured_row_def Let_def c d n init_metrics_fill split: option.split)
qed

lemma top_step_top: "tp_top (fold (top_step w tm nproc k sk) es st) = foldl (\<lambda>acc e. wt_topk_insert k sk (measured_row w tm e) acc) (tp_top st) es"
proof -
  have "tp_top (user_cpu nproc p st) = tp_top st" for p st by (simp add: user_cpu_def Let_def)
  then have "tp_top (top_step w tm nproc k sk e st) = wt_topk_insert k sk (measured_row w tm e) (tp_top st)" for e st
    by (simp add: top_step_def Let_def)
  then show ?thesis by (induction es arbitrary: st) simp_all
qed

lemma top_rows_ranked: "0 < k \<Longrightarrow> foldl (\<lambda>acc e. wt_topk_insert k sk (f e) acc) [] es = take k (ranked sk (map f es))"
  using topk_is_ranked [of k sk "map f es"] by (simp add: foldl_map)

lemma quick_top:
  assumes "collect_top_quick env k sk cache = (s, cache')" "pr_result s = WT_OK" "0 < k"
  shows "\<exists>n es. wm_snapshot (te_world env n) = Some es \<and>
     finish_top env sk (take k (ranked sk (map (wt_process_fill (te_world env n)) es))) cache = (pr_processes s, cache')"
proof -
  obtain es where es: "wm_snapshot (te_world env 0) = Some es" "es \<noteq> []"
    using assms(1,2) by (auto simp: collect_top_quick_def top_result_def Let_def split: option.splits list.splits)
  then obtain y ys where y: "es = y # ys" by (cases es) simp_all
  show ?thesis using assms es(1) top_rows_ranked [OF assms(3), of sk "wt_process_fill (te_world env 0)" es]
    by (intro exI [of _ 0] exI [of _ es]) (auto simp: collect_top_quick_def top_result_def Let_def y case_prod_beta)
qed

lemma sampled_top:
  assumes "collect_top_sampled env k sk ms net cap cache = Some (s, cache')" "pr_result s = WT_OK" "0 < k"
  shows "\<exists>n es tm. wm_snapshot (te_world env n) = Some es \<and>
     finish_top env sk (take k (ranked sk (map (measured_row (te_world env n) tm) es))) cache = (pr_processes s, cache')"
proof -
  obtain ir iob where io: "wt_sample_process_io (te_world env 0) 4096 = (ir, iob)" by fastforce
  have ir: "ir = WT_OK"
    using assms(1,2) by (auto simp: collect_top_sampled_def io top_result_def Let_def split: if_splits)
  obtain nt where nt: "net_rates_of_window env ms net = Some nt"
    using assms(1) ir by (auto simp: collect_top_sampled_def io Let_def split: option.splits)
  obtain es where es: "wm_snapshot (te_world env 25) = Some es" "es \<noteq> []"
    using assms(1,2) ir by (auto simp: collect_top_sampled_def io nt Let_def top_result_def split: option.splits if_splits)
  show ?thesis
    using assms ir es
    by (intro exI [of _ 25] exI [of _ es] exI)
      (auto simp: collect_top_sampled_def io nt Let_def top_result_def top_step_top top_rows_ranked case_prod_beta)
qed


lemma quick_succeeds:
  assumes "wm_snapshot (te_world env 0) = Some (e # es)" "0 < k"
  shows "\<exists>s cache'. wt_collect_top_processes env k WT_PROCESS_SORT_MEMORY 0 False None cache = Some (s, cache') \<and> pr_result s = WT_OK"
  using assms by (simp add: wt_collect_top_processes_def collect_top_quick_def Let_def case_prod_beta top_result_def del: foldl.simps)

definition demo_handle :: "nat \<Rightarrow> proc_handle" where
  "demo_handle ws = \<lparr>ph_memory = Some (ws, ws), ph_io = None, ph_times = None, ph_rid = Some 0x2000, ph_handles = None,
     ph_gdi = (0, False), ph_gdi_query = None\<rparr>"

definition demo_processes :: proc_world where
  "demo_processes = \<lparr>wm_snapshot = Some [\<lparr>en_pid = 8, en_parent_pid = 4, en_exe = ''a.exe''\<rparr>,
       \<lparr>en_pid = 12, en_parent_pid = 8, en_exe = ''b.exe''\<rparr>, \<lparr>en_pid = 16, en_parent_pid = 8, en_exe = ''c.exe''\<rparr>],
     wm_session = (\<lambda>p. Some 1), wm_open = (\<lambda>p. Some (demo_handle (if p = 8 then 10 else p * 100)))\<rparr>"

definition demo_top :: top_env where
  "demo_top = \<lparr>te_world = (\<lambda>n. demo_processes), te_net = demo_net, te_pdh = None,
     te_wait = \<lparr>wc_session = False, wc_threads = None, wc_chain = (\<lambda>t. None)\<rparr>, te_probe = demo_probe,
     te_image = (\<lambda>p. (WT_ERR_WIN32, [])), te_cpus = 4, te_qsort = (\<lambda>cmp. insertion_sort (\<lambda>a b. cmp a b < 0))\<rparr>"


section \<open>What the network order misses\<close>

definition net_row :: "nat \<Rightarrow> nat \<Rightarrow> rat \<Rightarrow> WT_ProcessInfo" where
  "net_row pid ws rate = zero_WT_ProcessInfo\<lparr>pi_pid := pid, pi_working_set_bytes := ws, pi_net_recv_bytes_per_sec := rate\<rparr>"

text \<open>The slots rank by one number, which is a rate for an active process and the working set for an idle one, while
  the comparison of the final sort puts every active process first. With fewer slots than processes, an idle process
  of 1 MiB keeps a process out that receives 2000 bytes per second.\<close>

lemma active_process_dropped:
  "foldl (\<lambda>acc p. wt_topk_insert 1 WT_PROCESS_SORT_NETWORK p acc) [] [net_row 8 5000 2000, net_row 12 (2 ^ 20) 0]
     = [net_row 12 (2 ^ 20) 0]"
  "process_cmp WT_PROCESS_SORT_NETWORK (net_row 8 5000 2000) (net_row 12 (2 ^ 20) 0) < 0"
  by (simp_all add: wt_topk_insert_def net_row_def wt_process_sort_key_def wt_process_sort_value_def net_rate_def
    if_measured_def Let_def process_cmp_simps zero_WT_ProcessInfo_def numeral_2_eq_2 [symmetric])
section \<open>Short-lived processes\<close>

lemma emit_pass_facts:
  assumes "\<forall>s \<in> set seen. wanted s \<and> \<not> wt_process_kernel_pseudo (sp_pid s) (sp_name s) \<longrightarrow> short_lived_of s \<in> G"
  shows "set out \<subseteq> G \<and> length out \<le> cap \<Longrightarrow>
    set (emit_pass wanted cap seen out) \<subseteq> G \<and> length (emit_pass wanted cap seen out) \<le> cap"
  using assms
proof (induction seen arbitrary: out)
  case (Cons s ss)
  let ?out = "if \<not> wanted s \<or> wt_process_kernel_pseudo (sp_pid s) (sp_name s) then out else out @ [short_lived_of s]"
  show ?case
  proof (cases "length out < cap")
    case True
    then have "set ?out \<subseteq> G \<and> length ?out \<le> cap" using Cons.prems by auto
    then show ?thesis using Cons.IH [of ?out] Cons.prems True by simp
  qed (use Cons.prems in simp)
qed simp

text \<open>A process reported as short-lived was seen in the window, is no pseudo process of the kernel and was not in the
  last snapshot; at most 16 are reported.\<close>

lemma short_lived_gone:
  "(\<forall>x \<in> set (wt_seen_emit seen cap). \<exists>s \<in> set seen. x = short_lived_of s \<and> \<not> sp_at_end s \<and>
      \<not> wt_process_kernel_pseudo (sp_pid s) (sp_name s)) \<and> length (wt_seen_emit seen cap) \<le> WT_MAX_SHORT_LIVED"
proof -
  define G where "G = {short_lived_of s | s. s \<in> set seen \<and> \<not> sp_at_end s \<and> \<not> wt_process_kernel_pseudo (sp_pid s) (sp_name s)}"
  define c where "c = (if cap > WT_MAX_SHORT_LIVED then WT_MAX_SHORT_LIVED else cap)"
  let ?one = "emit_pass (\<lambda>s. \<not> sp_at_start s \<and> \<not> sp_at_end s) c seen []"
  have 1: "set ?one \<subseteq> G \<and> length ?one \<le> c" by (rule emit_pass_facts) (auto simp: G_def)
  have 2: "set (wt_seen_emit seen cap) \<subseteq> G \<and> length (wt_seen_emit seen cap) \<le> c"
    unfolding wt_seen_emit_def Let_def c_def [symmetric] by (rule emit_pass_facts [OF _ 1]) (auto simp: G_def)
  have "c \<le> WT_MAX_SHORT_LIVED" by (simp add: c_def)
  then show ?thesis using 2 unfolding G_def by fastforce
qed

end
