(* ===== verification/Boot_Log.thy ===== *)
theory Boot_Log
  imports Startup_Tasks Json_Names
begin

text \<open>
  The boot report from the event log (\<open>src/system/boot.c\<close>): fields cut out of rendered event XML, the history of the
  last boots, the components that delayed the latest one, and their services. \<open>evt_world\<close> holds what the event log,
  the service list and the conversion of times answer. A 32-bit \<open>unsigned long\<close> is a natural below \<open>2 ^ 32\<close>; a
  number of more than 64 bits in a timestamp is not considered. \<open>malloc\<close> succeeds.
\<close>

section \<open>Fields of an event\<close>

definition WT_BOOT_SLOW_MS :: nat where "WT_BOOT_SLOW_MS = 60000"
definition WT_BOOT_WARM_KERNEL_MS :: nat where "WT_BOOT_WARM_KERNEL_MS = 300"
definition WT_MAX_BOOT_COMPONENTS :: nat where "WT_MAX_BOOT_COMPONENTS = 64"
definition WT_MAX_BOOT_HISTORY :: nat where "WT_MAX_BOOT_HISTORY = 8"

definition behind :: "string \<Rightarrow> string \<Rightarrow> string option" where
  \<comment> \<open>the text behind the first occurrence of a marker\<close>
  "behind s marker = map_option (drop (length marker)) (strstr s marker)"

definition field_start :: "string \<Rightarrow> string \<Rightarrow> string option" where
  "field_start xml field =
     (let single = ''Name='' @ [CHR 0x27] @ field @ [CHR 0x27] @ ''>'';
          double = ''Name='' @ [CHR 0x22] @ field @ [CHR 0x22] @ ''>'';
          start = (if cch_fits 96 single then behind xml single else None)
      in if start = None \<and> cch_fits 96 double then behind xml double else start)"

definition wt_evt_xml_get_wstring :: "string \<Rightarrow> string \<Rightarrow> nat \<Rightarrow> string option" where
  "wt_evt_xml_get_wstring xml field out_count =
     (case field_start xml field of None \<Rightarrow> None
      | Some start \<Rightarrow>
         (case strstr start ''</Data>'' of None \<Rightarrow> None
          | Some rest \<Rightarrow> Some (cch_copy out_count (take (length start - length rest) start))))"

definition wcstoul :: "string \<Rightarrow> nat" where
  "wcstoul s = (case strtoul s of None \<Rightarrow> 0 | Some v \<Rightarrow> v)"

definition wt_evt_xml_get_ulong :: "string \<Rightarrow> string \<Rightarrow> nat" where
  "wt_evt_xml_get_ulong xml field =
     (case wt_evt_xml_get_wstring xml field 32 of None \<Rightarrow> 0 | Some buf \<Rightarrow> wcstoul buf)"

definition first_nonzero :: "string \<Rightarrow> string list \<Rightarrow> nat" where
  \<comment> \<open>a field under several names: the first value that is not 0\<close>
  "first_nonzero xml names = foldl (\<lambda>v f. if v = 0 then wt_evt_xml_get_ulong xml f else v) 0 names"

definition wt_boot_kind_from_event :: "nat \<Rightarrow> WT_BootComponentKind" where
  "wt_boot_kind_from_event event_id =
     (if event_id = 101 then WT_BOOT_COMP_APPLICATION
      else if event_id = 102 \<or> event_id = 109 then WT_BOOT_COMP_DRIVER
      else if event_id = 103 then WT_BOOT_COMP_SERVICE
      else WT_BOOT_COMP_DEGRADATION)"

definition wt_boot_is_disk_heavy_text :: "string \<Rightarrow> bool" where
  "wt_boot_is_disk_heavy_text t \<longleftrightarrow>
     wt_boot_wcs_contains_i t ''disk'' \<or> wt_boot_wcs_contains_i t ''storage'' \<or> wt_boot_wcs_contains_i t ''io''"

definition wt_boot_event_id_from_xml :: "string \<Rightarrow> nat" where
  "wt_boot_event_id_from_xml xml = (case behind xml ''<EventID>'' of None \<Rightarrow> 0 | Some start \<Rightarrow> wcstoul start)"

section \<open>Times\<close>

definition scan_d :: "string \<Rightarrow> (nat \<times> string) option" where
  \<comment> \<open>\<open>%d\<close> of \<open>sscanf\<close>, and the cast of the number to 16 bits\<close>
  "scan_d s =
     (let s1 = dropWhile is_space s;
          neg = (s1 \<noteq> [] \<and> hd s1 = CHR ''-'');
          s2 = (if s1 \<noteq> [] \<and> (hd s1 = CHR ''-'' \<or> hd s1 = CHR ''+'') then tl s1 else s1)
      in if s2 = [] \<or> \<not> is_digit (hd s2) then None
         else case digits_val 0 s2 of (v, r) \<Rightarrow>
           Some (nat ((if neg then - int v else int v) mod 2 ^ 16), r))"

fun scan_fields :: "string \<Rightarrow> string \<Rightarrow> nat list option" where
  \<comment> \<open>numbers with one separator character after each but the last\<close>
  "scan_fields [] s = map_option (\<lambda>(v, r). [v]) (scan_d s)"
| "scan_fields (c # cs) s =
     (case scan_d s of None \<Rightarrow> None
      | Some (v, r) \<Rightarrow>
         (if r \<noteq> [] \<and> hd r = c then map_option ((#) v) (scan_fields cs (tl r)) else None))"

type_synonym file_time = "nat list \<Rightarrow> nat option"
  \<comment> \<open>\<open>SystemTimeToFileTime\<close> of year, month, day, hour, minute and second\<close>

definition scan_time :: "file_time \<Rightarrow> string \<Rightarrow> nat option" where
  "scan_time ft s = (case scan_fields ''--T::'' s of None \<Rightarrow> None | Some fs \<Rightarrow> ft fs)"

definition wt_boot_parse_system_time :: "file_time \<Rightarrow> string \<Rightarrow> nat option" where
  "wt_boot_parse_system_time ft xml =
     (case behind xml (''SystemTime='' @ [CHR 0x27]) of
        Some p \<Rightarrow> scan_time ft p
      | None \<Rightarrow>
         (case behind xml (''SystemTime='' @ [CHR 0x22]) of None \<Rightarrow> None | Some p \<Rightarrow> scan_time ft p))"

definition wt_boot_parse_boot_start :: "file_time \<Rightarrow> string \<Rightarrow> nat option" where
  "wt_boot_parse_boot_start ft utc = (if utc = [] then None else scan_time ft utc)"

definition before_dot :: "string \<Rightarrow> string" where
  "before_dot s = takeWhile (\<lambda>c. c \<noteq> CHR ''.'') s"

section \<open>The latest boot\<close>

definition wt_boot_add_component :: "WT_BootComponent \<Rightarrow> WT_BootReport \<Rightarrow> WT_BootReport option" where
  \<comment> \<open>the slot the caller fills at once\<close>
  "wt_boot_add_component c rp =
     (if length (br_components rp) \<ge> WT_MAX_BOOT_COMPONENTS then None
      else Some (rp\<lparr>br_components := br_components rp @ [c]\<rparr>))"

definition keep_positive :: "nat \<Rightarrow> nat \<Rightarrow> nat" where
  "keep_positive v old = (if v > 0 then v else old)"

definition wt_boot_apply_event100 :: "string \<Rightarrow> WT_BootReport \<Rightarrow> WT_BootReport" where
  "wt_boot_apply_event100 xml rp =
     (let rp = rp\<lparr>br_boot_duration_ms := keep_positive (first_nonzero xml [''BootTime'', ''BootTimeMs'']) (br_boot_duration_ms rp)\<rparr>;
          rp = rp\<lparr>br_main_path_ms :=
                    keep_positive (first_nonzero xml [''MainPathBootTime'', ''BootMainPathLoadTime'']) (br_main_path_ms rp)\<rparr>;
          rp = (case wt_evt_xml_get_wstring xml ''BootKernelInitTime'' 32 of None \<Rightarrow> rp
                | Some kbuf \<Rightarrow> rp\<lparr>br_kernel_init_ms := wcstoul kbuf\<rparr>);
          rp = rp\<lparr>br_driver_init_ms := keep_positive (wt_evt_xml_get_ulong xml ''BootDriverInitTime'') (br_driver_init_ms rp)\<rparr>;
          rp = rp\<lparr>br_post_boot_ms := keep_positive (wt_evt_xml_get_ulong xml ''BootPostBootTime'') (br_post_boot_ms rp)\<rparr>
      in rp\<lparr>br_is_degraded := (wt_evt_xml_get_ulong xml ''BootIsDegradation'' \<noteq> 0)\<rparr>)"

definition wt_boot_classify_kind :: "nat \<Rightarrow> bool \<Rightarrow> bool \<Rightarrow> WT_BootKind" where
  "wt_boot_classify_kind kernel_init_ms is_reboot_after_install kernel_field_present =
     (if is_reboot_after_install then WT_BOOT_KIND_COLD
      else if \<not> kernel_field_present then WT_BOOT_KIND_UNKNOWN
      else if kernel_init_ms \<le> WT_BOOT_WARM_KERNEL_MS then WT_BOOT_KIND_WARM
      else WT_BOOT_KIND_COLD)"

definition wt_boot_fill_history_entry :: "string \<Rightarrow> WT_BootHistoryEntry" where
  "wt_boot_fill_history_entry xml =
     (let kernel = wt_evt_xml_get_wstring xml ''BootKernelInitTime'' 64;
          kernel_ms = (case kernel of None \<Rightarrow> 0 | Some t \<Rightarrow> wcstoul t);
          after_install = (wt_evt_xml_get_ulong xml ''BootIsRebootAfterInstall'' \<noteq> 0)
      in \<lparr>bh_boot_duration_ms = first_nonzero xml [''BootTime'', ''BootTimeMs''],
          bh_main_path_ms = first_nonzero xml [''MainPathBootTime'', ''BootMainPathLoadTime''],
          bh_post_boot_ms = wt_evt_xml_get_ulong xml ''BootPostBootTime'',
          bh_kernel_init_ms = kernel_ms,
          bh_driver_init_ms = wt_evt_xml_get_ulong xml ''BootDriverInitTime'',
          bh_kind = wt_boot_classify_kind kernel_ms after_install (kernel \<noteq> None),
          bh_is_degraded = (wt_evt_xml_get_ulong xml ''BootIsDegradation'' \<noteq> 0),
          bh_is_reboot_after_install = after_install,
          bh_boot_start_utc = (case wt_evt_xml_get_wstring xml ''BootStartTime'' 64 of None \<Rightarrow> []
            | Some start \<Rightarrow> before_dot (cch_copy 40 start))\<rparr>)"

definition boot_start_of :: "file_time \<Rightarrow> string \<Rightarrow> nat" where
  \<comment> \<open>\<open>boot_start_100ns\<close>, 0 when the field is missing or not a time\<close>
  "boot_start_of ft xml =
     (case wt_evt_xml_get_wstring xml ''BootStartTime'' 64 of None \<Rightarrow> 0
      | Some start \<Rightarrow>
         (case wt_boot_parse_boot_start ft (before_dot (cch_copy 64 start)) of None \<Rightarrow> 0 | Some t \<Rightarrow> t))"

section \<open>The history\<close>

definition count_kind :: "WT_BootKind \<Rightarrow> WT_BootHistoryEntry list \<Rightarrow> nat" where
  "count_kind k es = length (filter (\<lambda>e. bh_kind e = k) es)"

record boot_sums =
  bs_all :: nat
  bs_cold :: nat
  bs_warm :: nat

definition finalize_entry :: "WT_BootHistory \<times> boot_sums \<Rightarrow> WT_BootHistoryEntry \<Rightarrow> WT_BootHistory \<times> boot_sums" where
  "finalize_entry = (\<lambda>(h, s) e.
     let s = s\<lparr>bs_all := bs_all s + bh_boot_duration_ms e\<rparr>;
         h = (if bh_boot_duration_ms e \<ge> WT_BOOT_SLOW_MS then h\<lparr>hist_slow_count := hist_slow_count h + 1\<rparr> else h);
         h = (if bh_is_degraded e then h\<lparr>hist_degraded_count := hist_degraded_count h + 1\<rparr> else h)
     in if bh_kind e = WT_BOOT_KIND_COLD
        then (h\<lparr>hist_cold_count := hist_cold_count h + 1\<rparr>, s\<lparr>bs_cold := bs_cold s + bh_boot_duration_ms e\<rparr>)
        else if bh_kind e = WT_BOOT_KIND_WARM
        then (h\<lparr>hist_warm_count := hist_warm_count h + 1\<rparr>, s\<lparr>bs_warm := bs_warm s + bh_boot_duration_ms e\<rparr>)
        else (h\<lparr>hist_unknown_count := hist_unknown_count h + 1\<rparr>, s))"

definition with_means :: "nat \<Rightarrow> boot_sums \<Rightarrow> WT_BootHistory \<Rightarrow> WT_BootHistory" where
  "with_means n s h =
     (let h = (if n > 0 then h\<lparr>hist_avg_duration_ms := bs_all s div n\<rparr> else h);
          h = (if hist_cold_count h > 0 then h\<lparr>hist_avg_cold_ms := bs_cold s div hist_cold_count h\<rparr> else h)
      in if hist_warm_count h > 0 then h\<lparr>hist_avg_warm_ms := bs_warm s div hist_warm_count h\<rparr> else h)"

definition copy_latest :: "WT_BootHistoryEntry list \<Rightarrow> WT_BootReport \<Rightarrow> WT_BootReport" where
  "copy_latest es rp =
     (if length es > 0
      then let rp = rp\<lparr>br_last_boot_kind := bh_kind (es ! 0)\<rparr>
           in if bh_boot_start_utc (es ! 0) \<noteq> []
              then rp\<lparr>br_boot_start_utc := cch_copy 40 (bh_boot_start_utc (es ! 0))\<rparr> else rp
      else rp)"

definition cleared_history :: "WT_BootHistory \<Rightarrow> WT_BootHistory" where
  "cleared_history h = h\<lparr>hist_cold_count := 0, hist_warm_count := 0, hist_unknown_count := 0, hist_slow_count := 0,
     hist_degraded_count := 0, hist_avg_duration_ms := 0, hist_avg_cold_ms := 0, hist_avg_warm_ms := 0\<rparr>"

definition wt_boot_finalize_history :: "WT_BootReport \<Rightarrow> WT_BootReport" where
  "wt_boot_finalize_history rp =
     (let h0 = cleared_history (br_history rp); es = hist_entries h0
      in case foldl finalize_entry (h0, \<lparr>bs_all = 0, bs_cold = 0, bs_warm = 0\<rparr>) es of (h, s) \<Rightarrow>
         copy_latest es (rp\<lparr>br_history := with_means (length es) s h\<rparr>))"

section \<open>The components that delayed a boot\<close>

definition degradation_name :: "string \<Rightarrow> string" where
  "degradation_name xml =
     foldl (\<lambda>name f. if name = [] then (case wt_evt_xml_get_wstring xml f 128 of None \<Rightarrow> name | Some v \<Rightarrow> v) else name) []
       [''FriendlyName'', ''Name'', ''PathRoot'', ''FileName'', ''DeviceName'']"

definition degradation_detail :: "string \<Rightarrow> string" where
  "degradation_detail xml = (case wt_evt_xml_get_wstring xml ''DegradationReason'' 256 of None \<Rightarrow> [] | Some v \<Rightarrow> v)"

definition degradation_component :: "file_time \<Rightarrow> nat \<Rightarrow> nat \<Rightarrow> string \<Rightarrow> WT_BootComponent option" where
  \<comment> \<open>the component of an event, None for the early returns before a slot is taken\<close>
  "degradation_component ft boot_start event_id xml =
     (if event_id < 101 \<or> event_id > 110 then None
      else let name = degradation_name xml;
               duration = first_nonzero xml [''DegradationDuration'', ''DegradationDeltaMs'', ''DegradationTime'', ''TotalTime''];
               detail = degradation_detail xml
           in if name = [] \<and> detail = [] \<and> duration = 0 then None
              else Some (zero_WT_BootComponent\<lparr>
                bc_name := cch_copy 128 (if name \<noteq> [] then name else ''(unknown component)''),
                bc_detail := cch_copy 256 detail, bc_duration_ms := duration, bc_event_id := event_id,
                bc_kind := wt_boot_kind_from_event event_id, bc_is_disk_heavy := wt_boot_is_disk_heavy_text detail,
                bc_start_offset_ms :=
                  (if boot_start = 0 then 0
                   else case wt_boot_parse_system_time ft xml of None \<Rightarrow> 0
                        | Some t \<Rightarrow> if t \<ge> boot_start then (t - boot_start) div 10000 mod 2 ^ 32 else 0)\<rparr>))"

definition wt_boot_apply_degradation_event :: "file_time \<Rightarrow> nat \<Rightarrow> string \<Rightarrow> nat \<Rightarrow> WT_BootReport \<Rightarrow> WT_BootReport" where
  "wt_boot_apply_degradation_event ft event_id xml boot_start rp =
     (case degradation_component ft boot_start event_id xml of None \<Rightarrow> rp
      | Some c \<Rightarrow>
         (case wt_boot_add_component c rp of None \<Rightarrow> rp
          | Some rp \<Rightarrow>
              if br_degradation_summary rp = [] \<and> degradation_detail xml \<noteq> []
              then rp\<lparr>br_degradation_summary := cch_copy 256 (degradation_detail xml)\<rparr> else rp))"

section \<open>Ordering and services\<close>

definition wt_boot_comp_impact_cmp :: "WT_BootComponent \<Rightarrow> WT_BootComponent \<Rightarrow> int" where
  "wt_boot_comp_impact_cmp ca cb =
     (if bc_duration_ms ca > bc_duration_ms cb then -1
      else if bc_duration_ms ca < bc_duration_ms cb then 1
      else if bc_start_offset_ms ca \<noteq> 0 \<and> bc_start_offset_ms cb \<noteq> 0
      then (if bc_start_offset_ms ca < bc_start_offset_ms cb then -1
            else if bc_start_offset_ms ca > bc_start_offset_ms cb then 1 else 0)
      else 0)"

type_synonym boot_qsort = "(WT_BootComponent \<Rightarrow> WT_BootComponent \<Rightarrow> int) \<Rightarrow> WT_BootComponent list \<Rightarrow> WT_BootComponent list"

definition wt_boot_sort_waterfall :: "boot_qsort \<Rightarrow> WT_BootReport \<Rightarrow> WT_BootReport" where
  "wt_boot_sort_waterfall qs rp =
     (if br_components rp = [] then rp
      else let cs = qs wt_boot_comp_impact_cmp (br_components rp)
           in rp\<lparr>br_components := cs, br_waterfall_total_ms := sum_list (map bc_duration_ms cs) mod 2 ^ 32,
                 br_waterfall_sorted := True\<rparr>)"

definition service_matches :: "WT_BootComponent \<Rightarrow> WT_ServiceInfo \<Rightarrow> bool" where
  "service_matches c svc \<longleftrightarrow>
     (if sv_display_name svc \<noteq> [] \<and> wcsicmp (bc_name c) (sv_display_name svc) then True
      else if sv_name svc \<noteq> [] \<and> wcsicmp (bc_name c) (sv_name svc) then True
      else length (bc_name c) \<ge> 5 \<and>
        ((sv_display_name svc \<noteq> [] \<and> wt_boot_wcs_contains_i (sv_display_name svc) (bc_name c)) \<or>
         (sv_name svc \<noteq> [] \<and> wt_boot_wcs_contains_i (bc_name c) (sv_name svc))))"

definition correlate_component :: "WT_ServiceInfo list \<Rightarrow> WT_BootComponent \<Rightarrow> WT_BootComponent" where
  "correlate_component svcs c =
     (if bc_kind c \<noteq> WT_BOOT_COMP_SERVICE \<and> bc_kind c \<noteq> WT_BOOT_COMP_APPLICATION \<and> bc_kind c \<noteq> WT_BOOT_COMP_DRIVER then c
      else case find_first (service_matches c) svcs of None \<Rightarrow> c
           | Some svc \<Rightarrow> c\<lparr>bc_service_matched := True, bc_service_name := cch_copy 64 (sv_name svc),
               bc_service_pid := sv_pid svc, bc_service_state := cch_copy 24 (wt_service_state_name (sv_state svc))\<rparr>)"

definition wt_boot_correlate_services :: "WT_ServiceInfo list option \<Rightarrow> WT_BootReport \<Rightarrow> WT_BootReport" where
  "wt_boot_correlate_services services rp =
     (if br_components rp = [] then rp
      else case services of None \<Rightarrow> rp
           | Some svcs \<Rightarrow> if svcs = [] then rp
               else rp\<lparr>br_components := map (correlate_component svcs) (br_components rp)\<rparr>)"

section \<open>The event log\<close>

datatype evt_error = EVT_ACCESS_DENIED | EVT_CHANNEL_NOT_FOUND | EVT_FILE_NOT_FOUND | EVT_PATH_NOT_FOUND | EVT_OTHER

text \<open>The batches \<open>EvtNext\<close> returns, newest event first, each event as its XML or None when it cannot be rendered; and
  whether the loop ended because there were no more.\<close>
record evt_stream =
  ev_batches :: "string option list list"
  ev_exhausted :: bool

record evt_world =
  ew_channel :: "(evt_error, evt_stream) sum"
  ew_system_dir :: "string option"
  ew_file :: "string \<Rightarrow> (evt_error, evt_stream) sum"
  ew_file_time :: file_time
  ew_services :: "WT_ServiceInfo list option"
  ew_qsort :: boot_qsort

record boot_scan =
  bn_report :: WT_BootReport
  bn_saw :: bool
  bn_start :: nat

definition history_count :: "WT_BootReport \<Rightarrow> nat" where
  "history_count rp = length (hist_entries (br_history rp))"

definition boot_event :: "file_time \<Rightarrow> string \<Rightarrow> boot_scan \<Rightarrow> boot_scan" where
  "boot_event ft xml b =
     (let event_id = wt_boot_event_id_from_xml xml; rp = bn_report b in
      if event_id = 100
      then let rp = (if history_count rp < WT_MAX_BOOT_HISTORY
                     then rp\<lparr>br_history := (br_history rp)\<lparr>hist_entries := hist_entries (br_history rp) @ [wt_boot_fill_history_entry xml]\<rparr>\<rparr>
                     else rp)
           in if \<not> bn_saw b
              then \<lparr>bn_report = wt_boot_apply_event100 xml rp, bn_saw = True, bn_start = boot_start_of ft xml\<rparr>
              else b\<lparr>bn_report := rp\<rparr>
      else if 101 \<le> event_id \<and> event_id \<le> 110 \<and> history_count rp \<le> 1
      then b\<lparr>bn_report := wt_boot_apply_degradation_event ft event_id xml (bn_start b) rp\<rparr>
      else b)"

definition boot_batch :: "file_time \<Rightarrow> string option list \<Rightarrow> boot_scan \<Rightarrow> boot_scan" where
  "boot_batch ft batch b = foldl (\<lambda>b e. case e of None \<Rightarrow> b | Some xml \<Rightarrow> boot_event ft xml b) b batch"

fun boot_batches :: "file_time \<Rightarrow> string option list list \<Rightarrow> boot_scan \<Rightarrow> boot_scan" where
  "boot_batches ft [] b = b"
| "boot_batches ft (batch # later) b =
     (let b = boot_batch ft batch b
      in if history_count (bn_report b) \<ge> WT_MAX_BOOT_HISTORY then b else boot_batches ft later b)"

definition evtx_path :: "string \<Rightarrow> string" where
  "evtx_path dir = dir @ bsl ''/winevt/Logs/Microsoft-Windows-Diagnostics-Performance%4Operational.evtx''"

definition boot_query :: "evt_world \<Rightarrow> WT_BootReport \<Rightarrow> (evt_error, evt_stream) sum \<times> WT_BootReport" where
  \<comment> \<open>the channel, and its file when the channel is denied\<close>
  "boot_query w rp =
     (case ew_channel w of Inr s \<Rightarrow> (Inr s, rp)
      | Inl err \<Rightarrow>
         if err \<noteq> EVT_ACCESS_DENIED then (Inl err, rp)
         else case ew_system_dir w of None \<Rightarrow> (Inl err, rp)
              | Some dir \<Rightarrow>
                 if \<not> cch_fits MAX_PATH (evtx_path dir) then (Inl err, rp)
                 else case ew_file w (evtx_path dir) of
                        Inr s \<Rightarrow> (Inr s, rp\<lparr>br_source := ''event_log_file''\<rparr>)
                      | Inl err' \<Rightarrow> (Inl err', rp))"

definition boot_finish :: "evt_world \<Rightarrow> boot_scan \<Rightarrow> WT_BootReport" where
  \<comment> \<open>the start time parsed once more after the loop has no use left\<close>
  "boot_finish w b =
     (let rp = wt_boot_finalize_history (bn_report b);
          rp = wt_boot_sort_waterfall (ew_qsort w) rp;
          rp = wt_boot_correlate_services (ew_services w) rp
      in if br_is_degraded rp \<and> br_degradation_summary rp = []
         then rp\<lparr>br_degradation_summary := ''Boot degradation was reported by Windows.''\<rparr> else rp)"

definition wt_boot_report_init :: WT_BootReport where
  "wt_boot_report_init = zero_WT_BootReport"

definition wt_collect_boot_from_event_log :: "evt_world \<Rightarrow> WT_Result \<times> WT_BootReport" where
  "wt_collect_boot_from_event_log w =
     (case boot_query w (wt_boot_report_init\<lparr>br_source := ''event_log''\<rparr>) of
        (Inl err, rp) \<Rightarrow>
          if err = EVT_ACCESS_DENIED then (WT_ERR_ACCESS_DENIED, rp)
          else if err = EVT_CHANNEL_NOT_FOUND \<or> err = EVT_FILE_NOT_FOUND \<or> err = EVT_PATH_NOT_FOUND then (WT_ERR_NOT_FOUND, rp)
          else (WT_ERR_WIN32, rp)
      | (Inr s, rp) \<Rightarrow>
          let b = boot_batches (ew_file_time w) (ev_batches s) \<lparr>bn_report = rp, bn_saw = False, bn_start = 0\<rparr>
          in if \<not> bn_saw b then (if ev_exhausted s then (WT_ERR_NOT_FOUND, bn_report b) else (WT_ERR_WIN32, bn_report b))
             else (WT_OK, boot_finish w b))"

end
