(* ===== verification/Boot_Log_Theorems.thy ===== *)
theory Boot_Log_Theorems
  imports Boot_Log "HOL-Library.Multiset" "HOL-Library.Product_Lexorder"
begin

text \<open>
  The boot report as a description of the events read: which events become the history and which the components, what
  the totals are, and when the order of the components is one.
\<close>

section \<open>The events read\<close>

definition is_boot :: "string \<Rightarrow> bool" where
  "is_boot xml \<longleftrightarrow> wt_boot_event_id_from_xml xml = 100"

definition rendered :: "string option list \<Rightarrow> string list" where
  "rendered batch = List.map_filter id batch"

fun events_read :: "nat \<Rightarrow> string option list list \<Rightarrow> string list" where
  \<comment> \<open>whole batches, until eight boots have been seen\<close>
  "events_read n [] = []"
| "events_read n (batch # later) =
     (let xs = rendered batch; n' = n + length (filter is_boot xs)
      in if n' \<ge> WT_MAX_BOOT_HISTORY then xs else xs @ events_read n' later)"

definition run_events :: "file_time \<Rightarrow> string list \<Rightarrow> boot_scan \<Rightarrow> boot_scan" where
  "run_events ft xs b = foldl (\<lambda>b x. boot_event ft x b) b xs"

lemma run_events_simps [simp]:
  "run_events ft [] b = b" "run_events ft (x # xs) b = run_events ft xs (boot_event ft x b)"
  "run_events ft (xs @ ys) b = run_events ft ys (run_events ft xs b)"
  by (simp_all add: run_events_def)

abbreviation entries :: "boot_scan \<Rightarrow> WT_BootHistoryEntry list" where
  "entries b \<equiv> hist_entries (br_history (bn_report b))"

abbreviation parts :: "boot_scan \<Rightarrow> WT_BootComponent list" where
  "parts b \<equiv> br_components (bn_report b)"

definition part_of :: "file_time \<Rightarrow> nat \<Rightarrow> string \<Rightarrow> WT_BootComponent option" where
  "part_of ft start xml = degradation_component ft start (wt_boot_event_id_from_xml xml) xml"

lemma batch_run: "boot_batch ft batch b = run_events ft (rendered batch) b"
  unfolding boot_batch_def run_events_def rendered_def
  by (induction batch arbitrary: b) (auto simp: List.map_filter_simps split: option.split)

lemma boot_step:
  assumes "is_boot x" "length (entries b) \<le> 8"
  shows "entries (boot_event ft x b) = take 8 (entries b @ [wt_boot_fill_history_entry x])" "parts (boot_event ft x b) = parts b"
    "bn_saw (boot_event ft x b)" "bn_start (boot_event ft x b) = (if bn_saw b then bn_start b else boot_start_of ft x)"
    "bn_saw b \<Longrightarrow> br_boot_duration_ms (bn_report (boot_event ft x b)) = br_boot_duration_ms (bn_report b)"
    "\<not> bn_saw b \<Longrightarrow> br_boot_duration_ms (bn_report (boot_event ft x b)) =
       keep_positive (bh_boot_duration_ms (wt_boot_fill_history_entry x)) (br_boot_duration_ms (bn_report b))"
  using assms
  by (auto simp: boot_event_def is_boot_def history_count_def WT_MAX_BOOT_HISTORY_def wt_boot_apply_event100_def
      wt_boot_fill_history_entry_def Let_def split: option.splits)

lemma quiet_step:
  assumes "\<not> is_boot x"
  shows "boot_event ft x b = (if length (entries b) \<le> 1
    then b\<lparr>bn_report := wt_boot_apply_degradation_event ft (wt_boot_event_id_from_xml x) x (bn_start b) (bn_report b)\<rparr> else b)"
proof -
  have "wt_boot_apply_degradation_event ft i x s rp = rp" if "\<not> (101 \<le> i \<and> i \<le> 110)" for i s rp
    using that by (auto simp: wt_boot_apply_degradation_event_def degradation_component_def)
  then show ?thesis using assms by (auto simp: boot_event_def is_boot_def history_count_def Let_def)
qed

lemma degradation_step:
  "br_history (wt_boot_apply_degradation_event ft i x s rp) = br_history rp"
  "br_boot_duration_ms (wt_boot_apply_degradation_event ft i x s rp) = br_boot_duration_ms rp"
  "br_components rp = take 64 ps \<Longrightarrow> br_components (wt_boot_apply_degradation_event ft i x s rp) =
     take 64 (ps @ (case degradation_component ft s i x of None \<Rightarrow> [] | Some c \<Rightarrow> [c]))"
  by (auto simp: wt_boot_apply_degradation_event_def wt_boot_add_component_def WT_MAX_BOOT_COMPONENTS_def split: option.split)

lemma run_quiet:
  assumes "\<forall>x \<in> set xs. \<not> is_boot x" "parts b = take 64 ps"
  shows "entries (run_events ft xs b) = entries b \<and> bn_saw (run_events ft xs b) = bn_saw b \<and>
     bn_start (run_events ft xs b) = bn_start b \<and>
     br_boot_duration_ms (bn_report (run_events ft xs b)) = br_boot_duration_ms (bn_report b) \<and>
     parts (run_events ft xs b) =
       take 64 (ps @ (if length (entries b) \<le> 1 then List.map_filter (part_of ft (bn_start b)) xs else []))"
  using assms
proof (induction xs arbitrary: b ps)
  case (Cons x xs)
  show ?case
  proof (cases "length (entries b) \<le> 1")
    case True
    let ?ps = "ps @ (case part_of ft (bn_start b) x of None \<Rightarrow> [] | Some c \<Rightarrow> [c])"
    have "parts (boot_event ft x b) = take 64 ?ps" "entries (boot_event ft x b) = entries b"
      "bn_saw (boot_event ft x b) = bn_saw b" "bn_start (boot_event ft x b) = bn_start b"
      "br_boot_duration_ms (bn_report (boot_event ft x b)) = br_boot_duration_ms (bn_report b)"
      using Cons.prems True degradation_step by (simp_all add: quiet_step part_of_def)
    then show ?thesis using Cons.IH [of "boot_event ft x b" ?ps] Cons.prems True
      by (auto simp: List.map_filter_simps simp del: take_append split: option.split)
  next
    case False
    then have "boot_event ft x b = b" using Cons.prems by (simp add: quiet_step)
    then show ?thesis using Cons False by (simp del: take_append)
  qed
qed (simp add: List.map_filter_simps)

lemma run_later:
  assumes "bn_saw b" "2 \<le> length (entries b)" "length (entries b) \<le> 8" "length (parts b) \<le> 64"
  shows "entries (run_events ft xs b) = take 8 (entries b @ map wt_boot_fill_history_entry (filter is_boot xs)) \<and>
     bn_saw (run_events ft xs b) \<and> parts (run_events ft xs b) = parts b \<and>
     br_boot_duration_ms (bn_report (run_events ft xs b)) = br_boot_duration_ms (bn_report b)"
  using assms
proof (induction xs arbitrary: b)
  case (Cons x xs)
  show ?case
  proof (cases "is_boot x")
    case True
    note s = boot_step [OF True Cons.prems(3), of ft]
    have "take 8 (take 8 a @ l) = take 8 (a @ l)" for a l :: "WT_BootHistoryEntry list"
      by (cases "length a \<le> 8") simp_all
    then show ?thesis using Cons.IH [of "boot_event ft x b"] Cons.prems s True by (simp del: take_append)
  next
    case False
    then have "boot_event ft x b = b" using Cons.prems by (simp add: quiet_step)
    then show ?thesis using Cons False by simp
  qed
qed simp

section \<open>The description\<close>

definition boot_entries :: "string list \<Rightarrow> WT_BootHistoryEntry list" where
  \<comment> \<open>the first eight boots, as the log is read from its end the newest\<close>
  "boot_entries xs = map wt_boot_fill_history_entry (take 8 (filter is_boot xs))"

definition boot_components :: "file_time \<Rightarrow> string list \<Rightarrow> WT_BootComponent list" where
  \<comment> \<open>of the events before the first boot event, without an offset, and of those between it and the second\<close>
  "boot_components ft xs = take 64 (List.map_filter (part_of ft 0) (takeWhile (\<lambda>x. \<not> is_boot x) xs) @
     (case dropWhile (\<lambda>x. \<not> is_boot x) xs of [] \<Rightarrow> []
      | x # later \<Rightarrow> List.map_filter (part_of ft (boot_start_of ft x)) (takeWhile (\<lambda>x. \<not> is_boot x) later)))"

lemma quiet_filter: "\<forall>x \<in> set xs. \<not> is_boot x \<Longrightarrow> filter is_boot xs = []"
  by (simp add: filter_empty_conv)

lemma events_described:
  assumes "entries b = []" "parts b = []" "\<not> bn_saw b" "bn_start b = 0" "br_boot_duration_ms (bn_report b) = 0"
  shows "entries (run_events ft xs b) = boot_entries xs \<and> parts (run_events ft xs b) = boot_components ft xs \<and>
     (bn_saw (run_events ft xs b) \<longleftrightarrow> boot_entries xs \<noteq> []) \<and>
     (boot_entries xs \<noteq> [] \<longrightarrow> br_boot_duration_ms (bn_report (run_events ft xs b)) = bh_boot_duration_ms (hd (boot_entries xs)))"
proof -
  define early where "early = takeWhile (\<lambda>x. \<not> is_boot x) xs"
  have e: "\<forall>x \<in> set early. \<not> is_boot x" by (auto simp: early_def dest: set_takeWhileD)
  note q = run_quiet [OF e, of b "[]" ft, simplified assms, simplified]
  let ?b1 = "run_events ft early b"
  show ?thesis
  proof (cases "dropWhile (\<lambda>x. \<not> is_boot x) xs")
    case Nil
    then have x: "early = xs" by (simp add: early_def takeWhile_eq_all_conv)
    have n: "boot_entries xs = []" using quiet_filter [OF e] by (simp add: boot_entries_def x)
    have c: "boot_components ft xs = take 64 (List.map_filter (part_of ft 0) xs)"
      unfolding boot_components_def Nil x [unfolded early_def] by simp
    show ?thesis unfolding n c using q [unfolded x] assms(1,3) by simp
  next
    case (Cons x later)
    have x: "is_boot x" using Cons hd_dropWhile [of "\<lambda>x. \<not> is_boot x" xs] by fastforce
    define middle where "middle = takeWhile (\<lambda>x. \<not> is_boot x) later"
    have m: "\<forall>x \<in> set middle. \<not> is_boot x" by (auto simp: middle_def dest: set_takeWhileD)
    have xs: "xs = early @ x # later" using takeWhile_dropWhile_id [of "\<lambda>x. \<not> is_boot x" xs] Cons by (simp add: early_def)
    have later: "later = middle @ dropWhile (\<lambda>x. \<not> is_boot x) later" by (simp add: middle_def)
    let ?b2 = "boot_event ft x ?b1"
    note s = boot_step [OF x, of ?b1 ft]
    have b2: "entries ?b2 = [wt_boot_fill_history_entry x]" "parts ?b2 = take 64 (List.map_filter (part_of ft 0) early)"
      "bn_saw ?b2" "bn_start ?b2 = boot_start_of ft x"
      "br_boot_duration_ms (bn_report ?b2) = bh_boot_duration_ms (wt_boot_fill_history_entry x)"
      using s q assms by (simp_all add: keep_positive_def)
    note q2 = run_quiet [OF m b2(2), of ft, unfolded b2, simplified]
    let ?b3 = "run_events ft middle ?b2"
    have c: "boot_components ft xs = take 64 (List.map_filter (part_of ft 0) early @ List.map_filter (part_of ft (boot_start_of ft x)) middle)"
      using Cons by (simp add: boot_components_def early_def middle_def del: take_append)
    have p3: "parts ?b3 = boot_components ft xs" using q2 c by simp
    show ?thesis
    proof (cases "dropWhile (\<lambda>x. \<not> is_boot x) later")
      case Nil
      then have "middle = later" by (simp add: middle_def takeWhile_eq_all_conv)
      then have "later = middle" ..
      moreover have "boot_entries xs = [wt_boot_fill_history_entry x]"
        unfolding xs boot_entries_def \<open>later = middle\<close> using quiet_filter [OF e] quiet_filter [OF m] x by simp
      ultimately show ?thesis using q2 p3 b2 xs by simp
    next
      case (Cons y rest)
      have y: "is_boot y" using Cons hd_dropWhile [of "\<lambda>x. \<not> is_boot x" later] by fastforce
      have l3: "length (entries ?b3) \<le> 8" using q2 by simp
      note s4 = boot_step [OF y l3, of ft]
      let ?b4 = "boot_event ft y ?b3"
      have b4: "entries ?b4 = map wt_boot_fill_history_entry [x, y]" "parts ?b4 = boot_components ft xs" "bn_saw ?b4"
        "br_boot_duration_ms (bn_report ?b4) = bh_boot_duration_ms (wt_boot_fill_history_entry x)"
        using s4 q2 p3 b2 by simp_all
      have "length (parts ?b4) \<le> 64" unfolding b4(2) boot_components_def by simp
      then have r: "entries (run_events ft rest ?b4) = take 8 (map wt_boot_fill_history_entry (x # y # filter is_boot rest)) \<and>
          bn_saw (run_events ft rest ?b4) \<and> parts (run_events ft rest ?b4) = boot_components ft xs \<and>
          br_boot_duration_ms (bn_report (run_events ft rest ?b4)) = bh_boot_duration_ms (wt_boot_fill_history_entry x)"
        using run_later [of ?b4 ft rest] b4 by simp
      have whole: "xs = early @ x # middle @ y # rest" using xs later Cons by simp
      then have "boot_entries xs = take 8 (map wt_boot_fill_history_entry (x # y # filter is_boot rest))"
        unfolding boot_entries_def whole using quiet_filter [OF e] quiet_filter [OF m] x y by (simp add: take_map)
      moreover have "run_events ft xs b = run_events ft rest ?b4" unfolding whole by simp
      ultimately show ?thesis using r by simp
    qed
  qed
qed

lemma batches_run:
  assumes "length (entries b) = n" "n < 8"
  shows "boot_batches ft bs b = run_events ft (events_read n bs) b"
  using assms
proof (induction bs arbitrary: b n)
  case (Cons batch later)
  let ?xs = "rendered batch" and ?b = "run_events ft (rendered batch) b"
  have count: "length (entries (run_events ft xs c)) = min 8 (length (entries c) + length (filter is_boot xs))"
    if "length (entries c) \<le> 8" for xs c
    using that
  proof (induction xs arbitrary: c)
    case (Cons x xs)
    show ?case
    proof (cases "is_boot x")
      case True
      have "length (entries (boot_event ft x c)) = min 8 (Suc (length (entries c)))"
        using boot_step(1) [OF True Cons.prems, of ft] Cons.prems by simp
      then show ?thesis using Cons.IH [of "boot_event ft x c"] Cons.prems True by simp
    next
      case False
      then have "length (entries (boot_event ft x c)) = length (entries c)" by (simp add: quiet_step degradation_step)
      then show ?thesis using Cons False by simp
    qed
  qed simp
  have c: "length (entries ?b) = min 8 (n + length (filter is_boot ?xs))" using count [of b ?xs] Cons.prems by simp
  show ?case
  proof (cases "n + length (filter is_boot ?xs) \<ge> 8")
    case True
    then show ?thesis using c by (simp add: batch_run history_count_def WT_MAX_BOOT_HISTORY_def Let_def)
  next
    case False
    then have "length (entries ?b) = n + length (filter is_boot ?xs)" using c by simp
    from Cons.IH [OF this] show ?thesis using False c
      by (simp add: batch_run history_count_def WT_MAX_BOOT_HISTORY_def Let_def)
  qed
qed simp

section \<open>Totals\<close>

definition total_ms :: "WT_BootHistoryEntry list \<Rightarrow> nat" where
  "total_ms es = sum_list (map bh_boot_duration_ms es)"

definition of_kind :: "WT_BootKind \<Rightarrow> WT_BootHistoryEntry list \<Rightarrow> WT_BootHistoryEntry list" where
  "of_kind k es = filter (\<lambda>e. bh_kind e = k) es"

definition mean_ms :: "WT_BootHistoryEntry list \<Rightarrow> nat" where
  "mean_ms es = (if es = [] then 0 else total_ms es div length es)"

definition totals_of :: "WT_BootHistory \<Rightarrow> WT_BootHistoryEntry list \<Rightarrow> bool" where
  "totals_of h es \<longleftrightarrow> hist_entries h = es \<and>
     hist_cold_count h = length (of_kind WT_BOOT_KIND_COLD es) \<and> hist_warm_count h = length (of_kind WT_BOOT_KIND_WARM es) \<and>
     hist_cold_count h + hist_warm_count h + hist_unknown_count h = length es \<and>
     hist_slow_count h = length (filter (\<lambda>e. bh_boot_duration_ms e \<ge> 60000) es) \<and>
     hist_degraded_count h = length (filter bh_is_degraded es) \<and>
     hist_avg_duration_ms h = mean_ms es \<and> hist_avg_cold_ms h = mean_ms (of_kind WT_BOOT_KIND_COLD es) \<and>
     hist_avg_warm_ms h = mean_ms (of_kind WT_BOOT_KIND_WARM es)"

definition finalizes :: "WT_BootHistory \<times> boot_sums \<Rightarrow> WT_BootHistoryEntry list \<Rightarrow> WT_BootHistory \<times> boot_sums \<Rightarrow> bool" where
  "finalizes hs es hs' \<longleftrightarrow> (case hs of (h, s) \<Rightarrow> case hs' of (h', s') \<Rightarrow>
     hist_entries h' = hist_entries h \<and> hist_cold_count h' = hist_cold_count h + length (of_kind WT_BOOT_KIND_COLD es) \<and>
     hist_warm_count h' = hist_warm_count h + length (of_kind WT_BOOT_KIND_WARM es) \<and>
     hist_cold_count h' + hist_warm_count h' + hist_unknown_count h' =
       hist_cold_count h + hist_warm_count h + hist_unknown_count h + length es \<and>
     hist_slow_count h' = hist_slow_count h + length (filter (\<lambda>e. bh_boot_duration_ms e \<ge> 60000) es) \<and>
     hist_degraded_count h' = hist_degraded_count h + length (filter bh_is_degraded es) \<and>
     hist_avg_duration_ms h' = hist_avg_duration_ms h \<and> hist_avg_cold_ms h' = hist_avg_cold_ms h \<and>
     hist_avg_warm_ms h' = hist_avg_warm_ms h \<and>
     bs_all s' = bs_all s + total_ms es \<and> bs_cold s' = bs_cold s + total_ms (of_kind WT_BOOT_KIND_COLD es) \<and>
     bs_warm s' = bs_warm s + total_ms (of_kind WT_BOOT_KIND_WARM es))"

lemma finalizes_step: "finalizes (h, s) [e] (finalize_entry (h, s) e)"
  by (cases "bh_kind e"; cases "bh_boot_duration_ms e \<ge> 60000"; cases "bh_is_degraded e")
    (simp_all add: finalizes_def finalize_entry_def Let_def of_kind_def total_ms_def WT_BOOT_SLOW_MS_def)

lemma finalizes_trans: "finalizes a xs b \<Longrightarrow> finalizes b ys c \<Longrightarrow> finalizes a (xs @ ys) c"
  by (cases a; cases b; cases c) (simp add: finalizes_def of_kind_def total_ms_def)

lemma finalize_fold: "finalizes hs es (foldl finalize_entry hs es)"
proof (induction es arbitrary: hs)
  case Nil
  then show ?case by (cases hs) (simp add: finalizes_def of_kind_def total_ms_def)
next
  case (Cons e es)
  then show ?case using finalizes_trans [OF finalizes_step Cons.IH] by (cases hs) (metis append_Cons append_Nil foldl_Cons)
qed

lemma finalized:
  assumes "hist_entries (br_history rp) \<noteq> []"
  shows "totals_of (br_history (wt_boot_finalize_history rp)) (hist_entries (br_history rp))"
    "br_last_boot_kind (wt_boot_finalize_history rp) = bh_kind (hd (hist_entries (br_history rp)))"
    "br_components (wt_boot_finalize_history rp) = br_components rp"
    "br_boot_duration_ms (wt_boot_finalize_history rp) = br_boot_duration_ms rp"
proof -
  let ?es = "hist_entries (br_history rp)" and ?h0 = "cleared_history (br_history rp)" and ?s0 = "\<lparr>bs_all = 0, bs_cold = 0, bs_warm = 0\<rparr>"
  have e: "hist_entries ?h0 = ?es" by (simp add: cleared_history_def)
  obtain h s where f: "foldl finalize_entry (?h0, ?s0) ?es = (h, s)" by fastforce
  have r: "wt_boot_finalize_history rp = copy_latest ?es (rp\<lparr>br_history := with_means (length ?es) s h\<rparr>)"
    by (simp add: wt_boot_finalize_history_def Let_def e f)
  have c: "br_history (copy_latest es rp) = br_history rp" "br_components (copy_latest es rp) = br_components rp"
    "br_boot_duration_ms (copy_latest es rp) = br_boot_duration_ms rp"
    "es \<noteq> [] \<Longrightarrow> br_last_boot_kind (copy_latest es rp) = bh_kind (hd es)" for es rp
    by (simp_all add: copy_latest_def Let_def hd_conv_nth)
  have "finalizes (?h0, ?s0) ?es (h, s)" using finalize_fold [of "(?h0, ?s0)" ?es] f by simp
  then have "totals_of (with_means (length ?es) s h) ?es"
    using assms by (auto simp: finalizes_def totals_of_def with_means_def Let_def mean_ms_def cleared_history_def)
  then show "totals_of (br_history (wt_boot_finalize_history rp)) ?es"
    "br_last_boot_kind (wt_boot_finalize_history rp) = bh_kind (hd ?es)"
    "br_components (wt_boot_finalize_history rp) = br_components rp"
    "br_boot_duration_ms (wt_boot_finalize_history rp) = br_boot_duration_ms rp"
    unfolding r using c assms by simp_all
qed

section \<open>The order of the components\<close>

definition consistent_impact :: "WT_BootComponent list \<Rightarrow> bool" where
  \<comment> \<open>what \<open>qsort\<close> requires of the comparison on these elements\<close>
  "consistent_impact cs \<longleftrightarrow> (\<forall>a \<in> set cs. \<forall>b \<in> set cs. \<forall>c \<in> set cs.
     wt_boot_comp_impact_cmp a b \<le> 0 \<and> wt_boot_comp_impact_cmp b c \<le> 0 \<longrightarrow> wt_boot_comp_impact_cmp a c \<le> 0)"

definition boot_qsort_ok :: "boot_qsort \<Rightarrow> bool" where
  \<comment> \<open>what it promises then\<close>
  "boot_qsort_ok qs \<longleftrightarrow> (\<forall>cs. consistent_impact cs \<longrightarrow>
     mset (qs wt_boot_comp_impact_cmp cs) = mset cs \<and>
     sorted_wrt (\<lambda>a b. wt_boot_comp_impact_cmp a b \<le> 0) (qs wt_boot_comp_impact_cmp cs))"

lemma offsets_consistent:
  assumes "(\<forall>c \<in> set cs. bc_start_offset_ms c = 0) \<or> (\<forall>c \<in> set cs. bc_start_offset_ms c \<noteq> 0)"
  shows "consistent_impact cs"
  using assms unfolding consistent_impact_def by (auto simp: wt_boot_comp_impact_cmp_def split: if_splits)

text \<open>A component without an offset is level with every other of the same duration, so that three components can be
  compared in a circle: the comparison of \<open>boot.c\<close> is not one \<open>qsort\<close> may be given.\<close>

lemma impact_cmp_inconsistent:
  "\<not> consistent_impact (map (\<lambda>off. zero_WT_BootComponent\<lparr>bc_duration_ms := 500, bc_start_offset_ms := off\<rparr>) [9, 0, 4])"
  by (simp add: consistent_impact_def wt_boot_comp_impact_cmp_def zero_WT_BootComponent_def)

definition by_impact :: boot_qsort where
  "by_impact cmp cs = sort_key (\<lambda>c. (- int (bc_duration_ms c), bc_start_offset_ms c)) cs"

lemma by_impact_ok: "boot_qsort_ok by_impact"
proof -
  have "sorted_wrt (\<lambda>a b. wt_boot_comp_impact_cmp a b \<le> 0) (by_impact cmp cs)" for cmp cs
  proof -
    let ?k = "\<lambda>c. (- int (bc_duration_ms c), bc_start_offset_ms c)"
    have "sorted_wrt (\<lambda>a b. ?k a \<le> ?k b) (by_impact cmp cs)"
      unfolding by_impact_def using sorted_sort_key [of ?k cs] by (simp only: sorted_wrt_map)
    then show ?thesis by (rule sorted_wrt_mono_rel [rotated]) (auto simp: wt_boot_comp_impact_cmp_def less_eq_prod_def)
  qed
  then show ?thesis by (simp add: boot_qsort_ok_def by_impact_def)
qed

definition without_service :: "WT_BootComponent \<Rightarrow> WT_BootComponent" where
  "without_service c = c\<lparr>bc_service_matched := False, bc_service_name := [], bc_service_pid := 0, bc_service_state := []\<rparr>"

lemma correlated:
  "map without_service (map (correlate_component svcs) cs) = map without_service cs"
  "sorted_wrt (\<lambda>a b. wt_boot_comp_impact_cmp a b \<le> 0) (map (correlate_component svcs) cs) =
     sorted_wrt (\<lambda>a b. wt_boot_comp_impact_cmp a b \<le> 0) cs"
proof -
  have c: "without_service (correlate_component svcs c) = without_service c"
    "bc_duration_ms (correlate_component svcs c) = bc_duration_ms c"
    "bc_start_offset_ms (correlate_component svcs c) = bc_start_offset_ms c" for c
    by (simp_all add: correlate_component_def without_service_def split: option.split)
  show "map without_service (map (correlate_component svcs) cs) = map without_service cs" by (simp add: c)
  have "wt_boot_comp_impact_cmp (correlate_component svcs a) (correlate_component svcs b) = wt_boot_comp_impact_cmp a b" for a b
    by (simp add: wt_boot_comp_impact_cmp_def c)
  then show "sorted_wrt (\<lambda>a b. wt_boot_comp_impact_cmp a b \<le> 0) (map (correlate_component svcs) cs) =
     sorted_wrt (\<lambda>a b. wt_boot_comp_impact_cmp a b \<le> 0) cs" by (simp add: sorted_wrt_map)
qed

lemma bare_components: "c \<in> set (boot_components ft xs) \<Longrightarrow> without_service c = c"
proof -
  have "part_of ft s x = Some c \<Longrightarrow> without_service c = c" for s x
    by (auto simp: part_of_def degradation_component_def without_service_def zero_WT_BootComponent_def Let_def split: if_splits)
  moreover have "c \<in> set (List.map_filter f ys) \<Longrightarrow> \<exists>x. f x = Some c" for f :: "string \<Rightarrow> _" and ys
    by (auto simp: List.map_filter_def)
  ultimately show "c \<in> set (boot_components ft xs) \<Longrightarrow> without_service c = c"
    unfolding boot_components_def by (auto dest!: in_set_takeD split: list.splits) metis+
qed

lemma finished:
  assumes "boot_qsort_ok (ew_qsort w)" "entries b \<noteq> []"
  shows "totals_of (br_history (boot_finish w b)) (entries b)"
    "br_last_boot_kind (boot_finish w b) = bh_kind (hd (entries b))"
    "br_boot_duration_ms (boot_finish w b) = br_boot_duration_ms (bn_report b)"
    "consistent_impact (parts b) \<Longrightarrow> mset (map without_service (br_components (boot_finish w b))) = mset (map without_service (parts b))"
    "consistent_impact (parts b) \<Longrightarrow> sorted_wrt (\<lambda>x y. wt_boot_comp_impact_cmp x y \<le> 0) (br_components (boot_finish w b))"
proof -
  let ?f = "wt_boot_finalize_history (bn_report b)"
  define rp where "rp = wt_boot_correlate_services (ew_services w) (wt_boot_sort_waterfall (ew_qsort w) ?f)"
  have fin: "br_history (boot_finish w b) = br_history rp" "br_last_boot_kind (boot_finish w b) = br_last_boot_kind rp"
    "br_boot_duration_ms (boot_finish w b) = br_boot_duration_ms rp" "br_components (boot_finish w b) = br_components rp"
    by (simp_all add: boot_finish_def rp_def Let_def)
  have frame: "br_history rp = br_history ?f" "br_last_boot_kind rp = br_last_boot_kind ?f" "br_boot_duration_ms rp = br_boot_duration_ms ?f"
    by (simp_all add: rp_def wt_boot_correlate_services_def wt_boot_sort_waterfall_def Let_def split: option.split)
  note f = finalized [OF assms(2)]
  show "totals_of (br_history (boot_finish w b)) (entries b)" "br_last_boot_kind (boot_finish w b) = bh_kind (hd (entries b))"
    "br_boot_duration_ms (boot_finish w b) = br_boot_duration_ms (bn_report b)"
    using f fin frame by simp_all
  let ?q = "ew_qsort w wt_boot_comp_impact_cmp (parts b)"
  have c: "\<exists>f. br_components rp = map f ?q \<and> (f = id \<or> (\<exists>svcs. f = correlate_component svcs)) \<or> parts b = [] \<and> br_components rp = []"
    by (auto simp: rp_def wt_boot_correlate_services_def wt_boot_sort_waterfall_def f(3) Let_def split: option.split
      intro: exI [of _ id])
  assume k: "consistent_impact (parts b)"
  then have q: "mset ?q = mset (parts b)" "sorted_wrt (\<lambda>x y. wt_boot_comp_impact_cmp x y \<le> 0) ?q"
    using assms(1) by (simp_all add: boot_qsort_ok_def)
  have m: "mset (map without_service ?q) = mset (map without_service (parts b))" using q(1) by (metis mset_map)
  obtain f where "br_components rp = map f ?q \<and> (f = id \<or> (\<exists>svcs. f = correlate_component svcs)) \<or> parts b = [] \<and> br_components rp = []"
    using c by blast
  then consider "br_components rp = ?q" | svcs where "br_components rp = map (correlate_component svcs) ?q" | "parts b = []" "br_components rp = []"
    by fastforce
  then have "mset (map without_service (br_components rp)) = mset (map without_service (parts b)) \<and>
      sorted_wrt (\<lambda>x y. wt_boot_comp_impact_cmp x y \<le> 0) (br_components rp)"
  proof cases
    case 1
    then show ?thesis using m q(2) by simp
  next
    case 2
    then show ?thesis unfolding 2 correlated using m q(2) by blast
  qed simp
  then show "mset (map without_service (br_components (boot_finish w b))) = mset (map without_service (parts b))"
    "sorted_wrt (\<lambda>x y. wt_boot_comp_impact_cmp x y \<le> 0) (br_components (boot_finish w b))"
    unfolding fin(4) by blast+
qed

text \<open>C6. The boot report describes the events the log gives, whatever they contain. When the log can be read, the
  collection succeeds exactly when a boot event was seen; the history is the first eight boots, newest first, with the
  counts and means of those entries; the headline duration and kind are those of the newest. The components are the
  degradation events up to the second boot event, 64 at most, services apart; when \<open>qsort\<close> may be given their
  comparison, they come in its order.\<close>

theorem boot_report_describes_log:
  fixes w s rp0
  defines "es \<equiv> boot_entries (events_read 0 (ev_batches s))"
    and "cs \<equiv> boot_components (ew_file_time w) (events_read 0 (ev_batches s))"
  assumes "boot_query w (wt_boot_report_init\<lparr>br_source := ''event_log''\<rparr>) = (Inr s, rp0)" "boot_qsort_ok (ew_qsort w)"
    "wt_collect_boot_from_event_log w = (r, rp)"
  shows "(r = WT_OK \<longleftrightarrow> es \<noteq> []) \<and>
    (es \<noteq> [] \<longrightarrow> totals_of (br_history rp) es \<and> br_last_boot_kind rp = bh_kind (hd es) \<and>
       br_boot_duration_ms rp = bh_boot_duration_ms (hd es) \<and>
       (consistent_impact cs \<longrightarrow> mset (map without_service (br_components rp)) = mset cs \<and>
          sorted_wrt (\<lambda>a b. wt_boot_comp_impact_cmp a b \<le> 0) (br_components rp)))"
proof -
  let ?b0 = "\<lparr>bn_report = rp0, bn_saw = False, bn_start = 0\<rparr>"
  define b where "b = run_events (ew_file_time w) (events_read 0 (ev_batches s)) ?b0"
  have z: "br_components rp0 = [] \<and> hist_entries (br_history rp0) = [] \<and> br_boot_duration_ms rp0 = 0"
    using assms(3) by (auto simp: boot_query_def wt_boot_report_init_def zero_WT_BootReport_def zero_WT_BootHistory_def
      split: sum.splits option.splits if_splits)
  have run: "boot_batches (ew_file_time w) (ev_batches s) ?b0 = b"
    unfolding b_def by (rule batches_run) (simp_all add: z)
  have d: "entries b = es" "parts b = cs" "bn_saw b \<longleftrightarrow> es \<noteq> []"
    "es \<noteq> [] \<Longrightarrow> br_boot_duration_ms (bn_report b) = bh_boot_duration_ms (hd es)"
    using events_described [of ?b0 "ew_file_time w" "events_read 0 (ev_batches s)"] z by (simp_all add: b_def es_def cs_def)
  have col: "(r, rp) = (if \<not> bn_saw b then (if ev_exhausted s then (WT_ERR_NOT_FOUND, bn_report b) else (WT_ERR_WIN32, bn_report b))
      else (WT_OK, boot_finish w b))"
    using assms(5) unfolding wt_collect_boot_from_event_log_def assms(3) prod.case sum.case Let_def run by simp
  have bare: "map without_service cs = cs" unfolding cs_def using bare_components by (simp add: map_idI)
  show ?thesis
  proof (cases "es = []")
    case False
    then have "r = WT_OK" "rp = boot_finish w b" using col d(3) by simp_all
    then show ?thesis using finished [OF assms(4), of b] False d bare by simp
  qed (use col d(3) in \<open>auto split: if_splits\<close>)
qed

definition demo_field :: "string \<Rightarrow> string \<Rightarrow> string" where
  "demo_field n v = ''<Data Name='' @ [CHR 0x27] @ n @ [CHR 0x27] @ ''>'' @ v @ ''</Data>''"

definition demo_boot_event :: string where
  "demo_boot_event = ''<EventID>100</EventID>'' @ demo_field ''BootTime'' ''70000''"

definition demo_slow_event :: string where
  "demo_slow_event = ''<EventID>101</EventID>'' @ demo_field ''Name'' ''slow.exe'' @ demo_field ''TotalTime'' ''900''"

definition demo_log :: evt_world where
  "demo_log = \<lparr>ew_channel = Inr \<lparr>ev_batches = [[Some demo_slow_event, None, Some demo_boot_event]], ev_exhausted = True\<rparr>,
     ew_system_dir = None, ew_file = (\<lambda>p. Inl EVT_OTHER), ew_file_time = (\<lambda>fs. None), ew_services = None, ew_qsort = by_impact\<rparr>"

lemmas demo_xml = demo_field_def demo_boot_event_def demo_slow_event_def behind_def wt_boot_event_id_from_xml_def
  wt_evt_xml_get_wstring_def field_start_def cch_fits_def wcstoul_def strtoul_def is_space_def is_digit_def digit_val_def

lemma demo_ids: "wt_boot_event_id_from_xml demo_boot_event = 100" "wt_boot_event_id_from_xml demo_slow_event = 101"
  by (simp_all add: demo_xml)

lemma demo_boot_fields:
  "wt_evt_xml_get_wstring demo_boot_event ''BootTime'' 32 = Some ''70000''"
  "wt_evt_xml_get_wstring demo_boot_event ''BootKernelInitTime'' 64 = None"
  "wt_evt_xml_get_wstring demo_boot_event ''BootIsRebootAfterInstall'' 32 = None"
  by code_simp+

lemma demo_boot_entry: "bh_boot_duration_ms (wt_boot_fill_history_entry demo_boot_event) = 70000"
  "bh_kind (wt_boot_fill_history_entry demo_boot_event) = WT_BOOT_KIND_UNKNOWN"
proof -
  have "wcstoul ''70000'' = 70000" by (simp add: wcstoul_def strtoul_def is_space_def is_digit_def digit_val_def)
  then show "bh_boot_duration_ms (wt_boot_fill_history_entry demo_boot_event) = 70000"
    "bh_kind (wt_boot_fill_history_entry demo_boot_event) = WT_BOOT_KIND_UNKNOWN"
    by (simp_all add: wt_boot_fill_history_entry_def demo_boot_fields first_nonzero_def wt_evt_xml_get_ulong_def Let_def
      wt_boot_classify_kind_def)
qed

lemma demo_fields_read:
  "wt_evt_xml_get_wstring demo_slow_event ''FriendlyName'' 128 = None"
  "wt_evt_xml_get_wstring demo_slow_event ''Name'' 128 = Some ''slow.exe''"
  "wt_evt_xml_get_wstring demo_slow_event ''DegradationDuration'' 32 = None"
  "wt_evt_xml_get_wstring demo_slow_event ''DegradationDeltaMs'' 32 = None"
  "wt_evt_xml_get_wstring demo_slow_event ''DegradationTime'' 32 = None"
  "wt_evt_xml_get_wstring demo_slow_event ''TotalTime'' 32 = Some ''900''"
  "wt_evt_xml_get_wstring demo_slow_event ''DegradationReason'' 256 = None"
  by code_simp+

lemma demo_part: "\<exists>c. part_of ft 0 demo_slow_event = Some c \<and> bc_name c = ''slow.exe'' \<and> bc_duration_ms c = 900"
proof -
  have "wcstoul ''900'' = 900" by (simp add: wcstoul_def strtoul_def is_space_def is_digit_def digit_val_def)
  then show ?thesis
    by (simp add: part_of_def demo_ids degradation_component_def degradation_name_def degradation_detail_def first_nonzero_def
      wt_evt_xml_get_ulong_def demo_fields_read Let_def)
qed

theorem boot_report_describes_log_witness:
  "\<exists>rp. wt_collect_boot_from_event_log demo_log = (WT_OK, rp) \<and> br_boot_duration_ms rp = 70000 \<and>
     br_last_boot_kind rp = WT_BOOT_KIND_UNKNOWN \<and> map bc_name (br_components rp) = [''slow.exe'']"
proof -
  obtain r rp where col: "wt_collect_boot_from_event_log demo_log = (r, rp)" by fastforce
  have q: "boot_query demo_log (wt_boot_report_init\<lparr>br_source := ''event_log''\<rparr>) =
      (Inr \<lparr>ev_batches = [[Some demo_slow_event, None, Some demo_boot_event]], ev_exhausted = True\<rparr>, wt_boot_report_init\<lparr>br_source := ''event_log''\<rparr>)"
    by (simp add: boot_query_def demo_log_def)
  have ok: "boot_qsort_ok (ew_qsort demo_log)" by (simp add: demo_log_def by_impact_ok)
  have b: "is_boot demo_boot_event" "\<not> is_boot demo_slow_event" by (simp_all add: is_boot_def demo_ids)
  then have ev: "events_read 0 [[Some demo_slow_event, None, Some demo_boot_event]] = [demo_slow_event, demo_boot_event]"
    by (simp add: rendered_def List.map_filter_simps WT_MAX_BOOT_HISTORY_def Let_def)
  have es: "boot_entries [demo_slow_event, demo_boot_event] = [wt_boot_fill_history_entry demo_boot_event]"
    using b by (simp add: boot_entries_def)
  obtain c where c: "part_of (ew_file_time demo_log) 0 demo_slow_event = Some c" "bc_name c = ''slow.exe''" "bc_duration_ms c = 900"
    using demo_part by blast
  have cs: "boot_components (ew_file_time demo_log) [demo_slow_event, demo_boot_event] = [c]"
    using b c by (simp add: boot_components_def List.map_filter_simps)
  have k: "consistent_impact [c]" by (simp add: consistent_impact_def)
  note t = boot_report_describes_log [OF q ok col, unfolded evt_stream.simps ev es cs]
  then have "mset (map without_service (br_components rp)) = {#c#}" using k by simp
  then have "map without_service (br_components rp) = [c]" unfolding mset_single_iff .
  then obtain d where "br_components rp = [d]" "without_service d = c" by auto
  then have "map bc_name (br_components rp) = [''slow.exe'']" using c(2) by (auto simp: without_service_def)
  then show ?thesis using t col demo_boot_entry by simp
qed

end
