(* ===== verification/Boot_Trace.thy ===== *)
theory Boot_Trace
  imports Boot_Log Service_Policy "HOL-Library.AList"
begin

text \<open>
  Tracing a boot (\<open>src/system/boot_etw.c\<close>) and the report that joins event log and trace (\<open>wt_collect_boot_report\<close> of
  \<open>boot.c\<close>). A trace of the next boot is armed by a registry key that makes Windows start the session, and a state file
  that remembers when and where; after the reboot the status is read off both. The files are those of \<open>machine\<close>, their
  contents the bytes; \<open>boot_machine\<close> adds the registry key and the session, \<open>boot_env\<close> what Windows answers.

  The state file is opened in binary mode. There the narrow functions of the C runtime write and read bytes, and the
  wide ones (\<open>fwprintf\<close>, \<open>fgetws\<close>) write and read UTF-16 code units of two bytes, without conversion.
\<close>

section \<open>State\<close>

datatype reg_value = Reg_Dword nat | Reg_Sz string

record autologger =
  al_values :: "(string \<times> reg_value) list"
  al_providers :: "(string \<times> (string \<times> reg_value) list) list"

record boot_machine =
  bm_machine :: machine
  bm_auto :: "autologger option"      \<comment> \<open>the key \<open>WT_BOOT_AUTOLOGGER_KEY\<close>\<close>
  bm_running :: bool                  \<comment> \<open>the session \<open>WT_BOOT_AUTOLOGGER_NAME\<close>\<close>

datatype trace_rc = TRACE_OK | TRACE_NOT_FOUND | TRACE_DENIED | TRACE_CANCELLED | TRACE_OTHER

record boot_env =
  bx_service :: service_env
  bx_file_time :: nat                                 \<comment> \<open>\<open>GetSystemTimeAsFileTime\<close>\<close>
  bx_tick_ms :: nat                                   \<comment> \<open>\<open>GetTickCount64\<close>\<close>
  bx_uuid :: "GUID option"
  bx_delete_tree :: "win_error option"
  bx_create_key :: "win_error option"
  bx_open_key :: bool
  bx_set :: "string \<Rightarrow> bool"
  bx_create_sub :: "string \<Rightarrow> win_error option"
  bx_set_sub :: "string \<Rightarrow> string \<Rightarrow> bool"
  bx_query :: trace_rc                                \<comment> \<open>of a running session\<close>
  bx_stop :: "bool \<Rightarrow> trace_rc"                       \<comment> \<open>by whether the session runs\<close>
  bx_start_login :: trace_rc
  bx_stop_login :: trace_rc
  bx_open_trace :: "string \<Rightarrow> bool"
  bx_process_trace :: "string \<Rightarrow> trace_rc \<times> nat"     \<comment> \<open>and the calls of the callback\<close>

section \<open>A trace of the login\<close>

definition wt_now_iso8601_utc :: "systemtime \<Rightarrow> nat \<Rightarrow> WT_Result \<times> string" where
  "wt_now_iso8601_utc st count =
     (if count = 0 then (WT_ERR_INVALID_ARGUMENT, [])
      else let t = dec_pad 4 (wYear st) @ ''-'' @ dec_pad 2 (wMonth st) @ ''-'' @ dec_pad 2 (wDay st) @ ''T'' @
                   dec_pad 2 (wHour st) @ '':'' @ dec_pad 2 (wMinute st) @ '':'' @ dec_pad 2 (wSecond st) @ ''Z''
           in if length t \<ge> count then (WT_ERR_BUFFER_TOO_SMALL, cch_copy count t) else (WT_OK, t))"

definition now_or_empty :: "service_env \<Rightarrow> machine \<Rightarrow> nat \<Rightarrow> string" where
  \<comment> \<open>the time, or the empty text when it does not fit\<close>
  "now_or_empty x m cap =
     (case wt_now_iso8601_utc (ae_utc_time (sx_action x) (mc_clock m)) cap of (r, t) \<Rightarrow> if r \<noteq> WT_OK then [] else t)"

definition wt_paths_traces_dir :: "service_env \<Rightarrow> nat \<Rightarrow> WT_Result \<times> string" where
  "wt_paths_traces_dir x count =
     (case wt_paths_user_data_dir (sx_action x) MAX_PATH of (r, base) \<Rightarrow>
        if r \<noteq> WT_OK then (r, [])
        else if \<not> cch_fits count (base @ bsl ''/traces'') then (WT_ERR_BUFFER_TOO_SMALL, cch_copy count (base @ bsl ''/traces''))
        else (WT_OK, base @ bsl ''/traces''))"

definition login_log_file :: "string \<Rightarrow> string \<Rightarrow> (WT_Result, string) sum" where
  \<comment> \<open>colons and dots become dashes in the whole path, the drive's colon among them\<close>
  "login_log_file dir ts =
     (if ts \<noteq> []
      then let p = dir @ bsl ''/login-'' @ ts @ ''.etl''
           in if \<not> cch_fits MAX_PATH p then Inl WT_ERR_BUFFER_TOO_SMALL
              else Inr (map (\<lambda>c. if c = CHR '':'' \<or> c = CHR ''.'' then CHR ''-'' else c) p)
      else let p = dir @ bsl ''/login-trace.etl''
           in if \<not> cch_fits MAX_PATH p then Inl WT_ERR_BUFFER_TOO_SMALL else Inr p)"

definition wt_boot_trace_login :: "boot_env \<Rightarrow> nat \<Rightarrow> machine \<Rightarrow> (WT_Result, string) sum" where
  \<comment> \<open>the path of the trace after a session of the given time; a provider that cannot be enabled is only logged\<close>
  "wt_boot_trace_login e etl_path_count m =
     (if etl_path_count = 0 then Inl WT_ERR_INVALID_ARGUMENT
      else case wt_paths_traces_dir (bx_service e) MAX_PATH of (pr, dir) \<Rightarrow>
        if pr \<noteq> WT_OK then Inl pr
        else if wt_paths_ensure_dir (sx_action (bx_service e)) dir \<noteq> WT_OK then Inl WT_ERR_WIN32
        else case login_log_file dir (now_or_empty (bx_service e) m 32) of
               Inl r \<Rightarrow> Inl r
             | Inr log_file \<Rightarrow>
                 if bx_start_login e = TRACE_DENIED then Inl WT_ERR_ACCESS_DENIED
                 else if bx_start_login e \<noteq> TRACE_OK then Inl WT_ERR_WIN32
                 else if bx_stop_login e \<noteq> TRACE_OK then Inl WT_ERR_WIN32
                 else Inr (cch_copy etl_path_count log_file))"

definition wt_boot_analyze_etl :: "boot_env \<Rightarrow> string \<Rightarrow> WT_Result \<times> WT_BootReport" where
  "wt_boot_analyze_etl e path =
     (let rp = wt_boot_report_init\<lparr>br_source := ''etl'', br_trace_path := cch_copy MAX_PATH path\<rparr>
      in if \<not> bx_open_trace e path then (WT_ERR_WIN32, rp)
         else case bx_process_trace e path of (rc, n) \<Rightarrow>
           if rc \<noteq> TRACE_OK \<and> rc \<noteq> TRACE_CANCELLED then (WT_ERR_WIN32, rp)
           else (WT_OK, rp\<lparr>br_etl_event_count := n mod 2 ^ 32\<rparr>))"

section \<open>The state file\<close>

record WT_BootArmStateFile =
  bf_armed :: int
  bf_etl_path :: string
  bf_armed_utc :: string
  bf_boot_time_100ns :: nat

definition zero_WT_BootArmStateFile :: WT_BootArmStateFile where
  "zero_WT_BootArmStateFile = \<lparr>bf_armed = 0, bf_etl_path = [], bf_armed_utc = [], bf_boot_time_100ns = 0\<rparr>"

definition wt_boot_current_boot_time_100ns :: "boot_env \<Rightarrow> nat" where
  "wt_boot_current_boot_time_100ns e =
     unat (word_of_nat (bx_file_time e) - word_of_nat (bx_tick_ms e) * 10000 :: u64)"

definition wt_boot_traces_machine_dir :: "service_env \<Rightarrow> nat \<Rightarrow> WT_Result \<times> string" where
  "wt_boot_traces_machine_dir x count = data_file x ''traces'' count"

definition wt_boot_arm_state_path :: "service_env \<Rightarrow> nat \<Rightarrow> WT_Result \<times> string" where
  "wt_boot_arm_state_path x count = data_file x ''boot_arm.state'' count"

definition wide_bytes :: "string \<Rightarrow> string" where
  \<comment> \<open>the bytes \<open>fwprintf\<close> writes to a binary stream\<close>
  "wide_bytes s = concat (map (\<lambda>c. [c, CHR 0x00]) s)"

definition state_text :: "WT_BootArmStateFile \<Rightarrow> string" where
  "state_text st = ''armed='' @ dec_int (bf_armed st) @ [CHR 0x0A] @
     ''boot_time_100ns='' @ dec (bf_boot_time_100ns st) @ [CHR 0x0A] @
     ''armed_utc='' @ bf_armed_utc st @ [CHR 0x0A] @
     wide_bytes (''etl='' @ bf_etl_path st @ [CHR 0x0A])"

definition wt_boot_write_arm_state :: "service_env \<Rightarrow> WT_BootArmStateFile \<Rightarrow> machine \<Rightarrow> WT_Result \<times> machine" where
  "wt_boot_write_arm_state x st m =
     (case wt_paths_program_data_dir x MAX_PATH of (r, dir) \<Rightarrow>
        if r \<noteq> WT_OK then (r, m)
        else if wt_paths_ensure_dir (sx_action x) dir \<noteq> WT_OK then (WT_ERR_WIN32, m)
        else case wt_boot_arm_state_path x MAX_PATH of (r, path) \<Rightarrow>
          if r \<noteq> WT_OK then (r, m)
          else if \<not> ae_create_file (sx_action x) path then (WT_ERR_WIN32, m)
          else (WT_OK, put_file path (Some (state_text st)) m))"

definition c_text :: "string \<Rightarrow> string" where
  \<comment> \<open>an array of characters as the string it starts with\<close>
  "c_text s = takeWhile (\<lambda>c. c \<noteq> CHR 0x00) s"

definition chomp :: "string \<Rightarrow> string" where
  "chomp s = rev (dropWhile (\<lambda>c. c = CHR 0x0A \<or> c = CHR 0x0D) (rev s))"

definition strtoui64 :: "string \<Rightarrow> nat" where
  \<comment> \<open>\<open>_strtoui64\<close> to base 10: 0 without a digit, saturating\<close>
  "strtoui64 s =
     (let s1 = dropWhile is_space s;
          neg = (s1 \<noteq> [] \<and> hd s1 = CHR ''-'');
          s2 = (if s1 \<noteq> [] \<and> (hd s1 = CHR ''-'' \<or> hd s1 = CHR ''+'') then tl s1 else s1);
          v = fst (digits_val 0 s2)
      in if v \<ge> 2 ^ 64 then 2 ^ 64 - 1 else if neg then (2 ^ 64 - v) mod 2 ^ 64 else v)"

definition arm_state_line :: "string \<Rightarrow> WT_BootArmStateFile \<Rightarrow> WT_BootArmStateFile" where
  "arm_state_line line st =
     (if strncmp 6 line ''armed='' then st\<lparr>bf_armed := strtol (drop 6 line)\<rparr>
      else if strncmp 16 line ''boot_time_100ns='' then st\<lparr>bf_boot_time_100ns := strtoui64 (drop 16 line)\<rparr>
      else if strncmp 10 line ''armed_utc='' then st\<lparr>bf_armed_utc := cch_copy 40 (chomp (drop 10 line))\<rparr>
      else st)"

lemma fgets_line_shorter: "fgets_line n s = (l, r) \<Longrightarrow> length r \<le> length s \<and> (0 < n \<and> s \<noteq> [] \<longrightarrow> length r < length s)"
  by (induction n s arbitrary: l r rule: fgets_line.induct) (auto split: if_splits prod.splits intro: le_SucI)

function narrow_lines :: "string \<Rightarrow> WT_BootArmStateFile \<Rightarrow> WT_BootArmStateFile" where
  "narrow_lines s st =
     (if s = [] then st
      else case fgets_line 511 s of (line, r) \<Rightarrow> narrow_lines r (arm_state_line (c_text line) st))"
  by auto
termination
  by (relation "measure (\<lambda>(s, st). length s)") (auto dest!: fgets_line_shorter [OF sym])

fun units :: "string \<Rightarrow> nat list" where
  \<comment> \<open>the code units a wide function reads\<close>
  "units (a # b # r) = (of_char a + 256 * of_char b) # units r"
| "units r = []"

fun fgetws_line :: "nat \<Rightarrow> nat list \<Rightarrow> nat list \<times> nat list" where
  "fgetws_line 0 s = ([], s)"
| "fgetws_line (Suc n) [] = ([], [])"
| "fgetws_line (Suc n) (u # us) =
     (if u = 10 then ([u], us) else (case fgetws_line n us of (l, r) \<Rightarrow> (u # l, r)))"

definition wide_units :: "string \<Rightarrow> nat list" where
  "wide_units s = map of_char s"

definition etl_line :: "nat list \<Rightarrow> WT_BootArmStateFile \<Rightarrow> WT_BootArmStateFile" where
  \<comment> \<open>one line of the wide pass; a unit above 255 has no character in the model and keeps its low byte\<close>
  "etl_line line st =
     (let w = takeWhile (\<lambda>u. u \<noteq> 0) line
      in if take 4 w = wide_units ''etl=''
         then st\<lparr>bf_etl_path := cch_copy MAX_PATH (chomp (map char_of (drop 4 w)))\<rparr> else st)"

lemma fgetws_line_shorter: "fgetws_line n s = (l, r) \<Longrightarrow> length r \<le> length s \<and> (0 < n \<and> s \<noteq> [] \<longrightarrow> length r < length s)"
  by (induction n s arbitrary: l r rule: fgetws_line.induct) (auto split: if_splits prod.splits intro: le_SucI)

function wide_lines :: "nat list \<Rightarrow> WT_BootArmStateFile \<Rightarrow> WT_BootArmStateFile" where
  "wide_lines us st =
     (if us = [] then st
      else case fgetws_line 275 us of (line, r) \<Rightarrow> wide_lines r (etl_line line st))"
  by auto
termination
  by (relation "measure (\<lambda>(us, st). length us)") (auto dest!: fgetws_line_shorter [OF sym])

declare narrow_lines.simps [simp del] wide_lines.simps [simp del]

definition wt_boot_read_arm_state :: "service_env \<Rightarrow> machine \<Rightarrow> (WT_Result, WT_BootArmStateFile) sum" where
  "wt_boot_read_arm_state x m =
     (case wt_boot_arm_state_path x MAX_PATH of (r, path) \<Rightarrow>
        if r \<noteq> WT_OK then Inl r
        else case mc_files m path of
               None \<Rightarrow> Inl WT_ERR_NOT_FOUND
             | Some body \<Rightarrow>
                 if \<not> sx_open x path then Inl WT_ERR_NOT_FOUND
                 else Inr (wide_lines (units body) (narrow_lines body zero_WT_BootArmStateFile)))"

section \<open>The session\<close>

definition wt_boot_autologger_present :: "boot_env \<Rightarrow> boot_machine \<Rightarrow> bool" where
  "wt_boot_autologger_present e b \<longleftrightarrow> bm_auto b \<noteq> None \<and> bx_open_key e"

definition wt_boot_session_running :: "boot_env \<Rightarrow> boot_machine \<Rightarrow> bool" where
  "wt_boot_session_running e b \<longleftrightarrow> bm_running b \<and> bx_query e = TRACE_OK"

definition wt_boot_stop_armed_session :: "boot_env \<Rightarrow> boot_machine \<Rightarrow> WT_Result \<times> boot_machine" where
  "wt_boot_stop_armed_session e b =
     (case bx_stop e (bm_running b) of
        TRACE_OK \<Rightarrow> (WT_OK, b\<lparr>bm_running := False\<rparr>)
      | TRACE_NOT_FOUND \<Rightarrow> (WT_OK, b)
      | TRACE_DENIED \<Rightarrow> (WT_ERR_ACCESS_DENIED, b)
      | _ \<Rightarrow> (WT_OK, b))"

definition delete_tree :: "boot_env \<Rightarrow> boot_machine \<Rightarrow> win_error option \<times> boot_machine" where
  \<comment> \<open>\<open>RegDeleteTreeW\<close> of the key\<close>
  "delete_tree e b =
     (if bm_auto b = None then (Some ERROR_FILE_NOT_FOUND, b)
      else case bx_delete_tree e of Some err \<Rightarrow> (Some err, b) | None \<Rightarrow> (None, b\<lparr>bm_auto := None\<rparr>))"

section \<open>Arming\<close>

fun set_values :: "(string \<Rightarrow> bool) \<Rightarrow> (string \<times> reg_value) list \<Rightarrow> (string \<times> reg_value) list \<Rightarrow> WT_Result \<times> (string \<times> reg_value) list" where
  \<comment> \<open>values set one after the other up to the first failure (\<open>wt_boot_set_sz\<close>, \<open>wt_boot_set_dword\<close>)\<close>
  "set_values ok [] acc = (WT_OK, acc)"
| "set_values ok ((n, v) # vs) acc = (if ok n then set_values ok vs (AList.update n v acc) else (WT_ERR_WIN32, acc))"

definition wt_boot_enable_provider :: "boot_env \<Rightarrow> GUID \<Rightarrow> autologger \<Rightarrow> WT_Result \<times> autologger" where
  "wt_boot_enable_provider e g a =
     (let sub = cch_copy 64 (guid_text g) in
      case bx_create_sub e sub of
        Some err \<Rightarrow> ((if err = ERROR_ACCESS_DENIED then WT_ERR_ACCESS_DENIED else WT_ERR_WIN32), a)
      | None \<Rightarrow>
         (case set_values (bx_set_sub e sub) [(''Enabled'', Reg_Dword 1), (''EnableLevel'', Reg_Dword 4)]
                 (case map_of (al_providers a) sub of None \<Rightarrow> [] | Some vs \<Rightarrow> vs) of
            (r, vs) \<Rightarrow> (r, a\<lparr>al_providers := AList.update sub vs (al_providers a)\<rparr>)))"

definition WT_ETW_DIAG_PERF :: GUID where
  "WT_ETW_DIAG_PERF = \<lparr>Data1 = 0xce1dbfb4, Data2 = 0x1371, Data3 = 0x4b69, Data4_0 = 0x93, Data4_1 = 0x18, Data4_2 = 0x6e,
     Data4_3 = 0xa2, Data4_4 = 0x4a, Data4_5 = 0x48, Data4_6 = 0xb3, Data4_7 = 0x0e\<rparr>"

definition WT_ETW_KERNEL_PROCESS :: GUID where
  "WT_ETW_KERNEL_PROCESS = \<lparr>Data1 = 0x22fb2cd6, Data2 = 0x0e7b, Data3 = 0x422b, Data4_0 = 0xa0, Data4_1 = 0xc7, Data4_2 = 0x2f,
     Data4_3 = 0xad, Data4_4 = 0x1f, Data4_5 = 0xd0, Data4_6 = 0xe7, Data4_7 = 0x16\<rparr>"

definition session_values :: "string \<Rightarrow> string \<Rightarrow> (string \<times> reg_value) list" where
  "session_values guid_str etl_path =
     [(''GUID'', Reg_Sz guid_str), (''Start'', Reg_Dword 1), (''LogFileMode'', Reg_Dword 1), (''FileName'', Reg_Sz etl_path),
      (''BufferSize'', Reg_Dword 64), (''MinimumBuffers'', Reg_Dword 4), (''MaximumBuffers'', Reg_Dword 32),
      (''MaximumFileSize'', Reg_Dword 128), (''ClockType'', Reg_Dword 2)]"

definition configure_session :: "boot_env \<Rightarrow> string \<Rightarrow> string \<Rightarrow> autologger \<Rightarrow> WT_Result \<times> autologger" where
  "configure_session e guid_str etl_path a =
     (case set_values (bx_set e) (session_values guid_str etl_path) (al_values a) of (r, vs) \<Rightarrow>
        let a = a\<lparr>al_values := vs\<rparr> in
        if r \<noteq> WT_OK then (r, a)
        else case wt_boot_enable_provider e WT_ETW_DIAG_PERF a of (r, a) \<Rightarrow>
          if r \<noteq> WT_OK then (r, a) else wt_boot_enable_provider e WT_ETW_KERNEL_PROCESS a)"

definition arm_state :: "boot_env \<Rightarrow> string \<Rightarrow> machine \<Rightarrow> WT_BootArmStateFile" where
  "arm_state e etl_path m =
     \<lparr>bf_armed = 1, bf_etl_path = cch_copy MAX_PATH etl_path, bf_armed_utc = now_or_empty (bx_service e) m 40,
      bf_boot_time_100ns = wt_boot_current_boot_time_100ns e\<rparr>"

definition wt_boot_arm_next :: "boot_env \<Rightarrow> boot_machine \<Rightarrow> WT_Result \<times> boot_machine" where
  "wt_boot_arm_next e b =
     (let x = bx_service e in
      case wt_boot_traces_machine_dir x MAX_PATH of (r, dir) \<Rightarrow>
        if r \<noteq> WT_OK then (r, b)
        else if wt_paths_ensure_dir (sx_action x) dir \<noteq> WT_OK then (WT_ERR_WIN32, b)
        else let etl_path = dir @ bsl ''/boot-next.etl'' in
          if \<not> cch_fits MAX_PATH etl_path then (WT_ERR_BUFFER_TOO_SMALL, b)
          else let b = b\<lparr>bm_machine := snd (delete_file x etl_path (bm_machine b))\<rparr> in
            case bx_uuid e of
              None \<Rightarrow> (WT_ERR_WIN32, b)
            | Some g \<Rightarrow>
                let b = snd (delete_tree e b) in
                case bx_create_key e of
                  Some err \<Rightarrow> ((if err = ERROR_ACCESS_DENIED then WT_ERR_ACCESS_DENIED else WT_ERR_WIN32), b)
                | None \<Rightarrow>
                    let a = (case bm_auto b of Some a \<Rightarrow> a | None \<Rightarrow> \<lparr>al_values = [], al_providers = []\<rparr>) in
                    case configure_session e (cch_copy 64 (guid_text g)) etl_path a of (r, a) \<Rightarrow>
                      let b = b\<lparr>bm_auto := Some a\<rparr> in
                      if r \<noteq> WT_OK then (r, snd (delete_tree e b))
                      else (WT_OK, b\<lparr>bm_machine :=
                             snd (wt_boot_write_arm_state x (arm_state e etl_path (bm_machine b)) (bm_machine b))\<rparr>))"

definition wt_boot_disarm :: "boot_env \<Rightarrow> bool \<Rightarrow> boot_machine \<Rightarrow> WT_Result \<times> boot_machine" where
  "wt_boot_disarm e keep_etl b =
     (let x = bx_service e in
      case wt_boot_stop_armed_session e b of (stop_r, b) \<Rightarrow>
        if stop_r = WT_ERR_ACCESS_DENIED then (WT_ERR_ACCESS_DENIED, b)
        else case delete_tree e b of (rc, b) \<Rightarrow>
          if rc = Some ERROR_ACCESS_DENIED then (WT_ERR_ACCESS_DENIED, b)
          else let m = bm_machine b;
                   m = (case wt_boot_read_arm_state x m of Inl r \<Rightarrow> m
                        | Inr st \<Rightarrow> if \<not> keep_etl \<and> bf_etl_path st \<noteq> [] then snd (delete_file x (bf_etl_path st) m) else m);
                   m = (case wt_boot_arm_state_path x MAX_PATH of (r, path) \<Rightarrow>
                          if r = WT_OK then snd (delete_file x path m) else m)
               in (WT_OK, b\<lparr>bm_machine := m\<rparr>))"

section \<open>Status\<close>

datatype WT_BootArmState = WT_BOOT_ARM_IDLE | WT_BOOT_ARM_PENDING_REBOOT | WT_BOOT_ARM_CAPTURING | WT_BOOT_ARM_READY

record WT_BootArmStatus =
  ba_state :: WT_BootArmState
  ba_session_name :: string
  ba_etl_path :: string
  ba_armed_utc :: string
  ba_reboot_occurred :: bool
  ba_etl_exists :: bool
  ba_etl_bytes :: nat

definition rebooted_since :: "nat \<Rightarrow> nat \<Rightarrow> bool" where
  \<comment> \<open>more than five seconds between two boot times\<close>
  "rebooted_since now_boot armed_boot \<longleftrightarrow>
     (if now_boot > armed_boot then now_boot - armed_boot else armed_boot - now_boot) > 5 * 10000000"

definition wt_boot_arm_status :: "boot_env \<Rightarrow> boot_machine \<Rightarrow> WT_BootArmStatus" where
  "wt_boot_arm_status e b =
     (let x = bx_service e;
          file = (case wt_boot_read_arm_state x (bm_machine b) of Inr st \<Rightarrow> if bf_armed st \<noteq> 0 then Some st else None | Inl r \<Rightarrow> None);
          have_auto = wt_boot_autologger_present e b;
          running = wt_boot_session_running e b;
          path = (case file of Some st \<Rightarrow> cch_copy MAX_PATH (bf_etl_path st)
                  | None \<Rightarrow> if have_auto
                      then (case wt_boot_traces_machine_dir x MAX_PATH of (r, dir) \<Rightarrow>
                              if r = WT_OK then cch_copy MAX_PATH (dir @ bsl ''/boot-next.etl'') else [])
                      else []);
          utc = (case file of Some st \<Rightarrow> cch_copy 40 (bf_armed_utc st) | None \<Rightarrow> []);
          etl = (if path \<noteq> [] then mc_files (bm_machine b) path else None);
          exists = (etl \<noteq> None);
          bytes = (case etl of Some t \<Rightarrow> length t | None \<Rightarrow> 0);
          rebooted = (case file of
             Some st \<Rightarrow>
               if bf_boot_time_100ns st \<noteq> 0
               then rebooted_since (wt_boot_current_boot_time_100ns e) (bf_boot_time_100ns st)
               else have_auto \<and> exists \<and> bytes > 0
           | None \<Rightarrow> have_auto \<and> exists \<and> bytes > 0)
      in \<lparr>ba_state = (if file = None \<and> \<not> have_auto then WT_BOOT_ARM_IDLE
            else if \<not> rebooted then WT_BOOT_ARM_PENDING_REBOOT
            else if running then WT_BOOT_ARM_CAPTURING
            else if exists \<and> bytes > 0 then WT_BOOT_ARM_READY
            else WT_BOOT_ARM_CAPTURING),
          ba_session_name = cch_copy 64 ''WinTuneBoot'', ba_etl_path = path, ba_armed_utc = utc,
          ba_reboot_occurred = rebooted, ba_etl_exists = exists, ba_etl_bytes = bytes\<rparr>)"

definition wt_boot_resolve_reboot_etl :: "boot_env \<Rightarrow> nat \<Rightarrow> boot_machine \<Rightarrow> (WT_Result, string) sum" where
  "wt_boot_resolve_reboot_etl e count b =
     (if count = 0 then Inl WT_ERR_INVALID_ARGUMENT
      else let st = wt_boot_arm_status e b in
        if ba_state st \<noteq> WT_BOOT_ARM_READY \<and> ba_state st \<noteq> WT_BOOT_ARM_CAPTURING then Inl WT_ERR_NOT_FOUND
        else if \<not> ba_etl_exists st \<or> ba_etl_bytes st = 0 \<or> ba_etl_path st = [] then Inl WT_ERR_NOT_FOUND
        else if \<not> cch_fits count (ba_etl_path st) then Inl WT_ERR_BUFFER_TOO_SMALL
        else Inr (ba_etl_path st))"

definition wt_boot_arm_state_name :: "WT_BootArmState \<Rightarrow> string" where
  "wt_boot_arm_state_name s = (case s of
     WT_BOOT_ARM_IDLE \<Rightarrow> ''idle'' | WT_BOOT_ARM_PENDING_REBOOT \<Rightarrow> ''pending_reboot''
   | WT_BOOT_ARM_CAPTURING \<Rightarrow> ''capturing'' | WT_BOOT_ARM_READY \<Rightarrow> ''ready'')"

section \<open>The joined report\<close>

definition choose_etl :: "boot_env \<Rightarrow> string option \<Rightarrow> boot_machine \<Rightarrow> string option \<times> boot_machine" where
  \<comment> \<open>the trace asked for, or that of the armed boot, whose session is stopped\<close>
  "choose_etl e etl_opt b =
     (if etl_opt = None \<or> etl_opt = Some []
      then case wt_boot_resolve_reboot_etl e MAX_PATH b of
             Inr path \<Rightarrow> (Some path, snd (wt_boot_stop_armed_session e b))
           | Inl r \<Rightarrow> (None, b)
      else (etl_opt, b))"

definition add_trace :: "boot_env \<Rightarrow> string option \<Rightarrow> WT_BootReport \<Rightarrow> WT_BootReport" where
  "add_trace e etl rp =
     (case etl of None \<Rightarrow> rp
      | Some path \<Rightarrow>
         if path = [] then rp
         else case wt_boot_analyze_etl e path of (er, part) \<Rightarrow>
           if er \<noteq> WT_OK then rp
           else let rp = rp\<lparr>br_etl_event_count := br_etl_event_count part, br_trace_path := cch_copy MAX_PATH path\<rparr>
                in if br_source rp \<noteq> [] then rp\<lparr>br_source := ''event_log+etl''\<rparr> else rp\<lparr>br_source := ''etl''\<rparr>)"

definition wt_collect_boot_report :: "evt_world \<Rightarrow> boot_env \<Rightarrow> string option \<Rightarrow> boot_machine \<Rightarrow> WT_Result \<times> WT_BootReport \<times> boot_machine" where
  "wt_collect_boot_report w e etl_opt b =
     (case wt_collect_boot_from_event_log w of (r, rp) \<Rightarrow>
        if r \<noteq> WT_OK \<and> r \<noteq> WT_ERR_NOT_FOUND then (r, rp, b)
        else case choose_etl e etl_opt b of (etl, b) \<Rightarrow>
          let rp = add_trace e etl rp in
          if br_boot_duration_ms rp = 0 \<and> br_components rp = [] \<and> br_etl_event_count rp = 0
          then (WT_ERR_NOT_FOUND, rp, b) else (WT_OK, rp, b))"

end
