(* ===== verification/Boot_Theorems.thy ===== *)
theory Boot_Theorems
  imports Boot_Trace Service_Theorems
begin

text \<open>
  What holds of the boot report and of an armed trace: the state file as the two passes of its reader see it, the status
  after arming, and the report as a description of the events read.
\<close>

section \<open>Paths and sources\<close>

text \<open>With a timestamp, the file of a login trace has lost every colon and dot, that of the drive and that of the
  extension among them.\<close>

lemma login_path_without_drive:
  "login_log_file dir ts = Inr p \<Longrightarrow> ts \<noteq> [] \<Longrightarrow> CHR '':'' \<notin> set p \<and> CHR ''.'' \<notin> set p"
  by (auto simp: login_log_file_def Let_def split: if_splits)

lemma event_log_source:
  assumes "wt_collect_boot_from_event_log w = (r, rp)"
  shows "br_source rp \<in> {''event_log'', ''event_log_file''}"
proof -
  have degrade: "br_source (wt_boot_apply_degradation_event ft i xml st rp) = br_source rp" for ft i xml st rp
    by (auto simp: wt_boot_apply_degradation_event_def wt_boot_add_component_def split: option.split)
  have "br_source (bn_report (boot_event ft xml b)) = br_source (bn_report b)" for ft xml b
    by (simp add: boot_event_def wt_boot_apply_event100_def degrade Let_def split: option.split)
  then have "br_source (bn_report (boot_batch ft batch b)) = br_source (bn_report b)" for ft batch b
    unfolding boot_batch_def by (induction batch arbitrary: b) (auto split: option.split)
  then have batches: "br_source (bn_report (boot_batches ft bs b)) = br_source (bn_report b)" for ft bs b
    by (induction bs arbitrary: b) (simp_all add: Let_def)
  have finish: "br_source (boot_finish w b) = br_source (bn_report b)" for b
    by (auto simp: boot_finish_def wt_boot_correlate_services_def wt_boot_sort_waterfall_def wt_boot_finalize_history_def
      copy_latest_def Let_def split: option.split prod.split)
  show ?thesis
    using assms batches finish
    by (auto simp: wt_collect_boot_from_event_log_def boot_query_def Let_def split: sum.splits option.splits if_splits)
qed

text \<open>The source \<open>etl\<close> that \<open>boot.h\<close> documents is never reported, not even when the event log has nothing.\<close>

lemma source_never_etl:
  assumes "wt_collect_boot_report w e opt b = (r, rp, b')"
  shows "br_source rp \<noteq> ''etl''"
proof -
  obtain r0 rp0 where c: "wt_collect_boot_from_event_log w = (r0, rp0)" by fastforce
  have "br_source (add_trace e etl rp0) \<noteq> ''etl''" for etl
    using event_log_source [OF c] by (auto simp: add_trace_def Let_def split: option.split prod.split)
  moreover have "rp = rp0 \<or> (\<exists>etl. rp = add_trace e etl rp0)"
    using assms c by (auto simp: wt_collect_boot_report_def Let_def split: prod.splits if_splits)
  ultimately show ?thesis using event_log_source [OF c] by auto
qed

section \<open>The state file read back\<close>

lemma units_even: "even (length p) \<Longrightarrow> units (p @ q) = units p @ units q"
  by (induction p rule: units.induct) auto

lemma wide_bytes_simps [simp]:
  "wide_bytes [] = []" "wide_bytes (c # s) = c # CHR 0x00 # wide_bytes s" "wide_bytes (s @ t) = wide_bytes s @ wide_bytes t"
  "length (wide_bytes s) = 2 * length s"
  by (simp_all add: wide_bytes_def) (induction s, simp_all)

lemma units_wide: "units (wide_bytes s) = wide_units s"
  by (induction s) (simp_all add: wide_units_def)

lemma units_shifted: "units (CHR 0x00 # wide_bytes s) = map (\<lambda>c. 256 * of_char c) s"
  by (induction s) simp_all

lemma of_char_0: "(of_char c :: nat) = 0 \<longleftrightarrow> c = CHR 0x00"
  and of_char_10: "(of_char c :: nat) = 10 \<longleftrightarrow> c = CHR 0x0A"
proof -
  have "(of_char c :: nat) = of_char d \<longleftrightarrow> c = d" for d by (metis char_of_char)
  from this [of "CHR 0x00"] this [of "CHR 0x0A"]
  show "(of_char c :: nat) = 0 \<longleftrightarrow> c = CHR 0x00" "(of_char c :: nat) = 10 \<longleftrightarrow> c = CHR 0x0A" by simp_all
qed

lemma no_nul: "c \<noteq> CHR 0x00 \<Longrightarrow> 0 < (of_char c :: nat)"
  using of_char_0 [of c] by simp

lemma units_high: "CHR 0x00 \<notin> set p \<Longrightarrow> \<forall>u \<in> set (units p). 256 \<le> u"
proof (induction p rule: units.induct)
  case (1 a b r)
  then show ?case using no_nul [of b] by auto
qed simp_all

lemma length_units: "length (units s) = length s div 2"
  by (induction s rule: units.induct) simp_all

lemma state_units:
  assumes "CHR 0x00 \<notin> set p" "CHR 0x0A \<notin> set t" "hd t \<noteq> CHR 0x00" "t \<noteq> []"
  shows "\<forall>u \<in> set (butlast (units (p @ wide_bytes (t @ [CHR 0x0A])))). u \<noteq> 10"
proof (cases "even (length p)")
  case True
  have "\<forall>u \<in> set (wide_units t). u \<noteq> 10" using assms(2) of_char_10 by (auto simp: wide_units_def)
  moreover have "units (p @ wide_bytes (t @ [CHR 0x0A])) = (units p @ wide_units t) @ [10]"
    unfolding units_even [OF True] units_wide by (simp add: wide_units_def)
  ultimately show ?thesis using units_high [OF assms(1)] by (auto simp: butlast_append)
next
  case False
  then obtain p' c where p: "p = p' @ [c]" "even (length p')" by (cases p rule: rev_cases) auto
  obtain d s where s: "t @ [CHR 0x0A] = d # s" by (cases t) auto
  have "units (p @ wide_bytes (t @ [CHR 0x0A])) = units p' @ (of_char c + 256 * of_char d) # map (\<lambda>c. 256 * of_char c) s"
    unfolding p(1) s using units_even [OF p(2), of "c # d # CHR 0x00 # wide_bytes s"] by (simp add: units_shifted)
  moreover have "of_char c + 256 * of_char d \<noteq> (10 :: nat)"
    using no_nul [of d] s assms(3,4) by (cases t) auto
  moreover have "256 * k \<noteq> (10 :: nat)" for k by presburger
  then have "\<forall>u \<in> set (map (\<lambda>c. 256 * of_char c) s). u \<noteq> (10 :: nat)" by auto
  moreover have "\<forall>u \<in> set (units p'). u \<noteq> 10" using units_high [of p'] assms(1) p(1) by auto
  ultimately have "\<forall>u \<in> set (units (p @ wide_bytes (t @ [CHR 0x0A]))). u \<noteq> 10"
    by (metis (no_types) Un_iff set_append set_ConsD)
  then show ?thesis using in_set_butlastD by metis
qed

lemma fgetws_whole: "\<forall>u \<in> set (butlast us). u \<noteq> 10 \<Longrightarrow> length us \<le> n \<Longrightarrow> fgetws_line n us = (us, [])"
proof (induction us arbitrary: n)
  case Nil
  then show ?case by (cases n) auto
next
  case (Cons u us)
  then obtain k where k: "n = Suc k" "length us \<le> k" by (cases n) auto
  show ?case
  proof (cases "us = []")
    case True
    then show ?thesis using k by (cases k) auto
  next
    case False
    then have "fgetws_line k us = (us, [])" "u \<noteq> 10" using Cons.prems Cons.IH [of k] k by auto
    then show ?thesis using k by simp
  qed
qed

text \<open>A stream of units that is one line for \<open>fgetws\<close> and does not start with \<open>e\<close> tells the reader nothing.\<close>

lemma wide_lines_blind:
  assumes "\<forall>u \<in> set (butlast us). u \<noteq> 10" "length us \<le> 275" "us = [] \<or> hd us \<noteq> 101"
  shows "wide_lines us st = st"
proof (cases us)
  case Nil
  then show ?thesis by (simp add: wide_lines.simps)
next
  case (Cons u r)
  have "take 4 (takeWhile (\<lambda>u. u \<noteq> 0) us) \<noteq> wide_units ''etl=''"
    using assms(3) Cons by (auto simp: wide_units_def)
  then have "etl_line us st = st" by (simp add: etl_line_def Let_def)
  then show ?thesis using Cons fgetws_whole [OF assms(1,2)]
    by (subst wide_lines.simps) (simp add: wide_lines.simps [of "[]"])
qed

lemma fgets_whole:
  "CHR 0x0A \<notin> set t \<Longrightarrow> length t < n \<Longrightarrow> fgets_line n (t @ CHR 0x0A # rest) = (t @ [CHR 0x0A], rest)"
proof (induction t arbitrary: n)
  case Nil
  then show ?case by (cases n) auto
next
  case (Cons c t)
  then show ?case by (cases n) auto
qed

lemma fgets_splits: "fgets_line n s = (l, r) \<Longrightarrow> s = l @ r"
  by (induction n s arbitrary: l r rule: fgets_line.induct) (auto split: if_splits prod.splits)

text \<open>Wide text as the narrow pass meets it, from any byte on: no line of it has more than one character.\<close>

definition half_text :: "string \<Rightarrow> bool" where
  "half_text s \<longleftrightarrow> (\<exists>t. s = wide_bytes t \<or> s = CHR 0x00 # wide_bytes t)"

lemma half_tail: "half_text (c # s) \<Longrightarrow> half_text s"
proof -
  assume "half_text (c # s)"
  then obtain t where t: "c # s = wide_bytes t \<or> c # s = CHR 0x00 # wide_bytes t" by (auto simp: half_text_def)
  then show ?thesis
  proof
    assume "c # s = wide_bytes t"
    then show ?thesis by (cases t) (auto simp: half_text_def)
  qed (auto simp: half_text_def)
qed

lemma half_rest: "half_text (l @ r) \<Longrightarrow> half_text r"
  by (induction l) (auto dest: half_tail)

lemma half_line: "half_text (l @ r) \<Longrightarrow> length (c_text l) \<le> 1"
proof (cases l)
  case (Cons c l')
  assume h: "half_text (l @ r)"
  then obtain t where t: "l @ r = wide_bytes t \<or> l @ r = CHR 0x00 # wide_bytes t" by (auto simp: half_text_def)
  then show ?thesis
  proof
    assume w: "l @ r = wide_bytes t"
    then obtain d t' where "t = d # t'" using Cons by (cases t) auto
    then have "c = d \<and> (l' = [] \<or> hd l' = CHR 0x00)" using w Cons by (cases l') auto
    then show ?thesis using Cons by (cases l') (auto simp: c_text_def)
  next
    assume "l @ r = CHR 0x00 # wide_bytes t"
    then show ?thesis using Cons by (simp add: c_text_def)
  qed
qed (simp add: c_text_def)

lemma short_line: "length line \<le> 1 \<Longrightarrow> arm_state_line line st = st"
  by (cases line) (auto simp: arm_state_line_def strncmp_def)

lemma narrow_half: "half_text s \<Longrightarrow> narrow_lines s st = st"
proof (induction s arbitrary: st rule: length_induct)
  case (1 s)
  show ?case
  proof (cases "s = []")
    case False
    obtain l r where l: "fgets_line 511 s = (l, r)" by fastforce
    have "length r < length s" using fgets_line_shorter [OF l] False by simp
    moreover have "half_text r" "length (c_text l) \<le> 1"
      using 1(2) half_rest half_line unfolding fgets_splits [OF l] by blast+
    ultimately show ?thesis using 1(1) False l short_line
      by (subst narrow_lines.simps) simp
  qed (simp add: narrow_lines.simps)
qed

lemma narrow_line:
  assumes "CHR 0x0A \<notin> set t" "CHR 0x00 \<notin> set t" "length t < 511"
  shows "narrow_lines (t @ CHR 0x0A # rest) st = narrow_lines rest (arm_state_line (t @ [CHR 0x0A]) st)"
proof -
  have "c_text (t @ [CHR 0x0A]) = t @ [CHR 0x0A]" using assms(2) by (auto simp: c_text_def takeWhile_eq_all_conv)
  then show ?thesis by (subst narrow_lines.simps) (simp add: fgets_whole [OF assms(1,3)])
qed

lemma strtoui64_dec: "n < 2 ^ 64 \<Longrightarrow> strtoui64 (dec n @ [CHR 0x0A]) = n"
proof -
  assume n: "n < 2 ^ 64"
  have hd: "hd (dec n @ [CHR 0x0A]) = hd (dec n)" by simp
  have nz: "\<not> is_space (hd (dec n))" "hd (dec n) \<noteq> CHR ''-''" "hd (dec n) \<noteq> CHR ''+''"
    using digit_not_special [OF dec_hd_digit] by auto
  have dw: "dropWhile is_space (dec n @ [CHR 0x0A]) = dec n @ [CHR 0x0A]"
    using nz(1) by (cases "dec n") auto
  have v: "fst (digits_val 0 (dec n @ [CHR 0x0A])) = n" by (subst digits_val_dec) (simp_all add: is_digit_def)
  show ?thesis using nz n by (simp add: strtoui64_def Let_def dw v)
qed

lemma chomp_line: "CHR 0x0A \<notin> set t \<Longrightarrow> CHR 0x0D \<notin> set t \<Longrightarrow> chomp (t @ [CHR 0x0A]) = t"
  by (cases t rule: rev_cases) (auto simp: chomp_def)

lemma now_stamp: "list_all stamp_char (now_or_empty x m cap)" "0 < cap \<Longrightarrow> length (now_or_empty x m cap) < cap"
  using dec_pad_stamp by (auto simp: now_or_empty_def wt_now_iso8601_utc_def Let_def stamp_char_def split: if_splits)

lemma boot_time_64: "wt_boot_current_boot_time_100ns e < 2 ^ 64"
  unfolding wt_boot_current_boot_time_100ns_def using unsigned_less [where 'b = 64 and 'a = nat] by simp

definition blind :: "WT_BootArmStateFile \<Rightarrow> WT_BootArmStateFile" where
  "blind st = st\<lparr>bf_etl_path := []\<rparr>"

lemma state_read_blind:
  assumes "bf_armed st = 1" "bf_boot_time_100ns st < 2 ^ 64" "list_all stamp_char (bf_armed_utc st)" "length (bf_armed_utc st) < 40"
    "CHR 0x0A \<notin> set (bf_etl_path st)" "length (bf_etl_path st) \<le> 220"
  shows "wide_lines (units (state_text st)) (narrow_lines (state_text st) zero_WT_BootArmStateFile) = blind st"
proof -
  let ?l1 = "''armed=1''" and ?l2 = "''boot_time_100ns='' @ dec (bf_boot_time_100ns st)" and ?l3 = "''armed_utc='' @ bf_armed_utc st"
  let ?w = "wide_bytes (''etl='' @ bf_etl_path st @ [CHR 0x0A])"
  define p where "p = ?l1 @ CHR 0x0A # ?l2 @ CHR 0x0A # ?l3 @ [CHR 0x0A]"
  have u: "\<forall>c \<in> set (bf_armed_utc st). c \<noteq> CHR 0x0A \<and> c \<noteq> CHR 0x0D \<and> c \<noteq> CHR 0x00"
    using assms(3) by (auto simp: list_all_iff stamp_char_def is_digit_def)
  have d: "\<forall>c \<in> set (dec n). c \<noteq> CHR 0x0A \<and> c \<noteq> CHR 0x0D \<and> c \<noteq> CHR 0x00" for n
    using dec_digits [of _ n] by (fastforce simp: is_digit_def)
  have dl: "length (dec (bf_boot_time_100ns st)) \<le> 20" by (rule dec_length) (use assms(2) in simp_all)
  have t: "state_text st = p @ ?w"
    using assms(1) by (simp add: state_text_def p_def dec_int_def) code_simp
  have p0: "CHR 0x00 \<notin> set p" using u d by (auto simp: p_def)
  have wide: "wide_lines (units (state_text st)) s = s" for s
  proof (rule wide_lines_blind)
    show "\<forall>u \<in> set (butlast (units (state_text st))). u \<noteq> 10"
      using state_units [OF p0, of "''etl='' @ bf_etl_path st"] assms(5) unfolding t by simp
    have "length (state_text st) \<le> 550" using dl assms(4,6) unfolding t p_def by simp
    then show "length (units (state_text st)) \<le> 275" unfolding length_units by simp
    show "units (state_text st) = [] \<or> hd (units (state_text st)) \<noteq> 101" unfolding t p_def by simp
  qed
  have narrow: "narrow_lines (state_text st) zero_WT_BootArmStateFile =
      narrow_lines ?w (arm_state_line (?l3 @ [CHR 0x0A]) (arm_state_line (?l2 @ [CHR 0x0A]) (arm_state_line (?l1 @ [CHR 0x0A]) zero_WT_BootArmStateFile)))"
  proof -
    have e: "state_text st = ?l1 @ CHR 0x0A # ?l2 @ CHR 0x0A # ?l3 @ CHR 0x0A # ?w" unfolding t p_def by simp
    have "CHR 0x0A \<notin> set ?l1" "CHR 0x00 \<notin> set ?l1" "length ?l1 < 511" by simp_all
    note 1 = narrow_line [OF this]
    have "CHR 0x0A \<notin> set ?l2" "CHR 0x00 \<notin> set ?l2" "length ?l2 < 511" using d dl by auto
    note 2 = narrow_line [OF this]
    have "CHR 0x0A \<notin> set ?l3" "CHR 0x00 \<notin> set ?l3" "length ?l3 < 511" using u assms(4) by auto
    note 3 = narrow_line [OF this]
    show ?thesis unfolding e 1 2 3 ..
  qed
  have rest: "narrow_lines ?w s = s" for s by (rule narrow_half) (unfold half_text_def, blast)
  have l1: "arm_state_line (?l1 @ [CHR 0x0A]) zero_WT_BootArmStateFile = zero_WT_BootArmStateFile\<lparr>bf_armed := 1\<rparr>"
    by (simp add: arm_state_line_def strncmp_def zero_WT_BootArmStateFile_def) code_simp
  have l2: "arm_state_line (?l2 @ [CHR 0x0A]) s = s\<lparr>bf_boot_time_100ns := bf_boot_time_100ns st\<rparr>" for s
    using strtoui64_dec [OF assms(2)] by (simp add: arm_state_line_def strncmp_def)
  have ch: "chomp (bf_armed_utc st @ [CHR 0x0A]) = bf_armed_utc st" by (rule chomp_line) (use u in blast)+
  have l3: "arm_state_line (?l3 @ [CHR 0x0A]) s = s\<lparr>bf_armed_utc := bf_armed_utc st\<rparr>" for s
    using assms(4) by (simp add: arm_state_line_def strncmp_def ch)
  have "zero_WT_BootArmStateFile\<lparr>bf_armed := 1, bf_boot_time_100ns := bf_boot_time_100ns st, bf_armed_utc := bf_armed_utc st\<rparr> = blind st"
    using assms(1) by (cases st) (simp add: blind_def zero_WT_BootArmStateFile_def)
  then show ?thesis unfolding wide narrow rest l1 l2 l3 .
qed

section \<open>After arming\<close>

lemma set_values_map: "set_values ok vs acc = (WT_OK, acc') \<Longrightarrow> map_of acc' = map_of acc ++ map_of (rev vs)"
  by (induction vs arbitrary: acc) (auto simp: update_conv' split: if_splits)

lemma enable_provider_values: "wt_boot_enable_provider e g a = (r, a') \<Longrightarrow> al_values a' = al_values a"
  by (auto simp: wt_boot_enable_provider_def Let_def split: option.splits prod.splits)

lemma configured:
  assumes "configure_session e g etl a = (WT_OK, a')"
  shows "map_of (al_values a') ''FileName'' = Some (Reg_Sz etl)" "map_of (al_values a') ''Start'' = Some (Reg_Dword 1)"
proof -
  obtain vs where vs: "set_values (bx_set e) (session_values g etl) (al_values a) = (WT_OK, vs)" "al_values a' = vs"
    using assms by (auto simp: configure_session_def Let_def split: prod.splits if_splits dest!: enable_provider_values)
  show "map_of (al_values a') ''FileName'' = Some (Reg_Sz etl)" "map_of (al_values a') ''Start'' = Some (Reg_Dword 1)"
    unfolding vs(2) set_values_map [OF vs(1)] by (simp_all add: session_values_def)
qed

definition next_etl :: "service_env \<Rightarrow> string" where
  "next_etl x = sx_programdata x @ bsl ''/WinTune/traces/boot-next.etl''"

lemma data_file_ok:
  assumes "data_file x name MAX_PATH = (WT_OK, f)"
  shows "f = sx_programdata x @ bsl ''/WinTune/'' @ name"
  using assms by (auto simp: data_file_def wt_paths_program_data_dir_def Let_def bsl_def MAX_PATH_def split: if_splits)

lemma write_state_ok:
  assumes "fst (wt_boot_write_arm_state x st m) = WT_OK"
  obtains path where "wt_boot_arm_state_path x MAX_PATH = (WT_OK, path)"
    "\<And>st m. wt_boot_write_arm_state x st m = (WT_OK, put_file path (Some (state_text st)) m)"
  using assms by (auto simp: wt_boot_write_arm_state_def split: prod.splits if_splits)

lemma armed:
  assumes "wt_boot_arm_next e b = (WT_OK, b')" "fst (wt_boot_write_arm_state (bx_service e) st0 m0) = WT_OK"
    "wt_boot_arm_state_path (bx_service e) MAX_PATH = (WT_OK, path)"
  shows "\<exists>a m. bm_auto b' = Some a \<and> map_of (al_values a) ''FileName'' = Some (Reg_Sz (next_etl (bx_service e))) \<and>
     map_of (al_values a) ''Start'' = Some (Reg_Dword 1) \<and> length (next_etl (bx_service e)) < MAX_PATH \<and>
     mc_files (bm_machine b') path = Some (state_text (arm_state e (next_etl (bx_service e)) m))"
proof -
  let ?x = "bx_service e"
  have w: "wt_boot_write_arm_state ?x st m = (WT_OK, put_file path (Some (state_text st)) m)" for st m
    using write_state_ok [OF assms(2)] assms(3) by (metis prod.inject)
  obtain dir where dir: "wt_boot_traces_machine_dir ?x MAX_PATH = (WT_OK, dir)"
    using assms(1) by (auto simp: wt_boot_arm_next_def Let_def split: prod.splits if_splits)
  have etl: "dir @ bsl ''/boot-next.etl'' = next_etl ?x"
    using data_file_ok [of ?x "''traces''" dir] dir by (simp add: wt_boot_traces_machine_dir_def next_etl_def bsl_def)
  obtain g b2 a a' where c: "configure_session e g (next_etl ?x) a = (WT_OK, a')" "length (next_etl ?x) < MAX_PATH"
      "b' = b2\<lparr>bm_auto := Some a', bm_machine := snd (wt_boot_write_arm_state ?x (arm_state e (next_etl ?x) (bm_machine b2)) (bm_machine b2))\<rparr>"
    using assms(1) dir etl
    by (auto simp: wt_boot_arm_next_def Let_def cch_fits_def split: prod.splits if_splits option.splits)
  show ?thesis using configured [OF c(1)] c(2,3) w by (auto simp: put_file_def)
qed

lemma armed_state_read:
  assumes "wt_boot_arm_state_path x MAX_PATH = (WT_OK, path)" "sx_open x path"
    "mc_files m path = Some (state_text (arm_state e etl m0))" "length etl \<le> 220" "CHR 0x0A \<notin> set etl"
  shows "wt_boot_read_arm_state x m = Inr (blind (arm_state e etl m0))"
proof -
  have "cch_copy MAX_PATH etl = etl" using assms(4) by (simp add: MAX_PATH_def)
  then have "wide_lines (units (state_text (arm_state e etl m0))) (narrow_lines (state_text (arm_state e etl m0)) zero_WT_BootArmStateFile)
      = blind (arm_state e etl m0)"
    using assms(4,5) by (intro state_read_blind) (simp_all add: arm_state_def now_stamp boot_time_64 [simplified])
  then show ?thesis using assms(1-3) by (simp add: wt_boot_read_arm_state_def)
qed

lemma blind_status:
  assumes "wt_boot_read_arm_state (bx_service e) (bm_machine c) = Inr (blind st)" "bf_armed st = 1"
  shows "ba_etl_path (wt_boot_arm_status e c) = [] \<and> \<not> ba_etl_exists (wt_boot_arm_status e c) \<and>
     ba_state (wt_boot_arm_status e c) \<in> {WT_BOOT_ARM_PENDING_REBOOT, WT_BOOT_ARM_CAPTURING}"
  using assms by (simp add: wt_boot_arm_status_def Let_def blind_def)

lemma blind_disarm:
  assumes "wt_boot_read_arm_state (bx_service e) (bm_machine c) = Inr (blind st)"
    "wt_boot_arm_state_path (bx_service e) MAX_PATH = (WT_OK, path)" "file \<noteq> path"
  shows "mc_files (bm_machine (snd (wt_boot_disarm e keep c))) file = mc_files (bm_machine c) file"
proof -
  have m: "bm_machine (snd (wt_boot_stop_armed_session e c)) = bm_machine c" "bm_machine (snd (delete_tree e d)) = bm_machine d" for d
    by (simp_all add: wt_boot_stop_armed_session_def delete_tree_def split: trace_rc.split option.split)
  obtain r c1 where s: "wt_boot_stop_armed_session e c = (r, c1)" "bm_machine c1 = bm_machine c" using m(1) by (metis prod.collapse)
  obtain rc c2 where d: "delete_tree e c1 = (rc, c2)" "bm_machine c2 = bm_machine c" using m(2) [of c1] s(2) by (metis prod.collapse)
  have "mc_files (snd (delete_file (bx_service e) path m)) file = mc_files m file" for m
    using assms(3) by (simp add: delete_file_def put_file_def split: option.split)
  then show ?thesis using assms(1,2) s d by (simp add: wt_boot_disarm_def blind_def Let_def)
qed

text \<open>C16. A trace armed for the next boot is never found again. Arming tells Windows to write the trace to
  \<open>boot-next.etl\<close> and notes that path in the state file, but as UTF-16 behind bytes, so that no pass of the reader sees
  the line. As long as the state file stays as it was written, whatever else happens (the reboot, the end of the
  session, the trace file itself), the status has no path and is never \<open>ready\<close>, the analysis without an explicit path
  leaves the trace out, and disarming leaves the trace file in place, asked to keep it or not.\<close>

theorem armed_trace_lost:
  fixes e e' :: boot_env and b b' c :: boot_machine
  assumes "wt_boot_arm_next e b = (WT_OK, b')" "fst (wt_boot_write_arm_state (bx_service e) zero_WT_BootArmStateFile m0) = WT_OK"
    and "wt_boot_arm_state_path (bx_service e) MAX_PATH = (WT_OK, path)"
    and "length (sx_programdata (bx_service e)) \<le> 180" "CHR 0x0A \<notin> set (sx_programdata (bx_service e))"
    and "sx_programdata (bx_service e') = sx_programdata (bx_service e)" "sx_open (bx_service e') path"
    and "mc_files (bm_machine c) path = mc_files (bm_machine b') path" "0 < n"
  shows "(\<exists>a. bm_auto b' = Some a \<and> map_of (al_values a) ''Start'' = Some (Reg_Dword 1) \<and>
        map_of (al_values a) ''FileName'' = Some (Reg_Sz (next_etl (bx_service e)))) \<and>
     (ba_etl_path (wt_boot_arm_status e' c) = [] \<and> \<not> ba_etl_exists (wt_boot_arm_status e' c) \<and>
        ba_state (wt_boot_arm_status e' c) \<in> {WT_BOOT_ARM_PENDING_REBOOT, WT_BOOT_ARM_CAPTURING}) \<and>
     wt_boot_resolve_reboot_etl e' n c = Inl WT_ERR_NOT_FOUND \<and>
     snd (wt_collect_boot_report w e' None c) = (snd (wt_collect_boot_from_event_log w), c) \<and>
     mc_files (bm_machine (snd (wt_boot_disarm e' keep c))) (next_etl (bx_service e)) = mc_files (bm_machine c) (next_etl (bx_service e))"
proof -
  obtain a m where a: "bm_auto b' = Some a" "map_of (al_values a) ''FileName'' = Some (Reg_Sz (next_etl (bx_service e)))"
      "map_of (al_values a) ''Start'' = Some (Reg_Dword 1)"
    and f: "mc_files (bm_machine c) path = Some (state_text (arm_state e (next_etl (bx_service e)) m))"
    using armed [OF assms(1,2,3)] assms(8) by auto
  have p: "wt_boot_arm_state_path (bx_service e') MAX_PATH = (WT_OK, path)"
    using assms(3) unfolding wt_boot_arm_state_path_def data_file_def wt_paths_program_data_dir_def assms(6) .
  have etl: "length (next_etl (bx_service e)) \<le> 220" "CHR 0x0A \<notin> set (next_etl (bx_service e))"
    using assms(4,5) by (simp_all add: next_etl_def bsl_def)
  have r: "wt_boot_read_arm_state (bx_service e') (bm_machine c) = Inr (blind (arm_state e (next_etl (bx_service e)) m))"
    by (rule armed_state_read [OF p assms(7) f etl])
  have st: "ba_etl_path (wt_boot_arm_status e' c) = [] \<and> \<not> ba_etl_exists (wt_boot_arm_status e' c) \<and>
        ba_state (wt_boot_arm_status e' c) \<in> {WT_BOOT_ARM_PENDING_REBOOT, WT_BOOT_ARM_CAPTURING}"
    by (rule blind_status [OF r]) (simp add: arm_state_def)
  then have res: "wt_boot_resolve_reboot_etl e' n c = Inl WT_ERR_NOT_FOUND" if "0 < n" for n
    using that by (simp add: wt_boot_resolve_reboot_etl_def Let_def)
  have col: "snd (wt_collect_boot_report w e' None c) = (snd (wt_collect_boot_from_event_log w), c)"
    using res [of MAX_PATH] by (auto simp: wt_collect_boot_report_def choose_etl_def add_trace_def MAX_PATH_def Let_def split: prod.split)
  have "next_etl (bx_service e) \<noteq> path"
    using data_file_ok [of "bx_service e" "''boot_arm.state''" path] assms(3) by (simp add: wt_boot_arm_state_path_def next_etl_def bsl_def)
  from blind_disarm [OF r p this] show ?thesis using a st res [OF assms(9)] col by blast
qed

definition demo_boot :: "nat \<Rightarrow> boot_env" where
  "demo_boot t = \<lparr>bx_service = demo_service, bx_file_time = t, bx_tick_ms = 0, bx_uuid = Some WT_GUID_BALANCED, bx_delete_tree = None,
     bx_create_key = None, bx_open_key = True, bx_set = (\<lambda>n. True), bx_create_sub = (\<lambda>s. None), bx_set_sub = (\<lambda>s n. True),
     bx_query = TRACE_OK, bx_stop = (\<lambda>r. if r then TRACE_OK else TRACE_NOT_FOUND), bx_start_login = TRACE_OK,
     bx_stop_login = TRACE_OK, bx_open_trace = (\<lambda>p. True), bx_process_trace = (\<lambda>p. (TRACE_OK, 7))\<rparr>"

definition demo_armed :: boot_machine where
  "demo_armed = snd (wt_boot_arm_next (demo_boot 1000) \<lparr>bm_machine = demo_machine, bm_auto = None, bm_running = False\<rparr>)"

definition demo_rebooted :: boot_machine where
  \<comment> \<open>the trace is there and the session over\<close>
  "demo_rebooted = demo_armed\<lparr>bm_machine := put_file (next_etl demo_service) (Some ''trace'') (bm_machine demo_armed)\<rparr>"

definition demo_state_path :: string where
  "demo_state_path = bsl ''C:/ProgramData/WinTune/boot_arm.state''"

lemma demo_paths_ok:
  "wt_boot_arm_state_path demo_service MAX_PATH = (WT_OK, demo_state_path)"
  "wt_boot_traces_machine_dir demo_service MAX_PATH = (WT_OK, bsl ''C:/ProgramData/WinTune/traces'')"
  "wt_paths_ensure_dir demo_actions d = (if d = [] then WT_ERR_INVALID_ARGUMENT else if length d < 260 then WT_OK else WT_ERR_BUFFER_TOO_SMALL)"
  "sx_action demo_service = demo_actions" "sx_programdata demo_service = bsl ''C:/ProgramData''"
  by (simp_all add: wt_boot_arm_state_path_def wt_boot_traces_machine_dir_def data_file_def wt_paths_program_data_dir_def
    demo_service_def demo_state_path_def bsl_def cch_fits_def MAX_PATH_def wt_paths_ensure_dir_def demo_actions_def list_all_iff)

lemma demo_arm: "wt_boot_arm_next (demo_boot 1000) \<lparr>bm_machine = demo_machine, bm_auto = None, bm_running = False\<rparr> = (WT_OK, demo_armed)"
  unfolding demo_armed_def
  by (simp add: wt_boot_arm_next_def demo_boot_def demo_paths_ok [unfolded MAX_PATH_def] configure_session_def session_values_def
    wt_boot_enable_provider_def delete_tree_def Let_def cch_fits_def MAX_PATH_def bsl_def split: prod.split)

lemma demo_write: "fst (wt_boot_write_arm_state demo_service st m) = WT_OK"
  by (simp add: wt_boot_write_arm_state_def demo_paths_ok [unfolded MAX_PATH_def] wt_paths_program_data_dir_def Let_def cch_fits_def
    MAX_PATH_def bsl_def demo_actions_def [THEN arg_cong [where f = ae_create_file]])

theorem armed_trace_lost_witness:
  "mc_files (bm_machine demo_rebooted) (next_etl demo_service) = Some ''trace'' \<and>
   ba_etl_path (wt_boot_arm_status (demo_boot (2 * 10 ^ 9)) demo_rebooted) = [] \<and>
   ba_state (wt_boot_arm_status (demo_boot (2 * 10 ^ 9)) demo_rebooted) \<noteq> WT_BOOT_ARM_READY \<and>
   wt_boot_resolve_reboot_etl (demo_boot (2 * 10 ^ 9)) 260 demo_rebooted = Inl WT_ERR_NOT_FOUND"
proof -
  let ?e = "demo_boot 1000" and ?e' = "demo_boot (2 * 10 ^ 9)"
  have x: "bx_service (demo_boot t) = demo_service" for t by (simp add: demo_boot_def)
  have f: "mc_files (bm_machine demo_rebooted) (next_etl demo_service) = Some ''trace''"
    by (simp add: demo_rebooted_def put_file_def)
  have c: "mc_files (bm_machine demo_rebooted) demo_state_path = mc_files (bm_machine demo_armed) demo_state_path"
    by (simp add: demo_rebooted_def put_file_def next_etl_def demo_paths_ok demo_state_path_def bsl_def)
  have "length (sx_programdata demo_service) \<le> 180" "CHR 0x0A \<notin> set (sx_programdata demo_service)" "sx_open demo_service demo_state_path"
    by (simp_all add: demo_service_def bsl_def)
  note armed_trace_lost [where e = ?e and e' = ?e' and c = demo_rebooted and n = 260, unfolded x, OF demo_arm demo_write demo_paths_ok(1) this(1,2) refl this(3) c]
  then show ?thesis using f by auto
qed

end
