(* ===== verification/Spec2Isabelle.thy ===== *)
theory Spec2Isabelle
  imports Fleet_Theorems Json_Docs Rec_Theorems Doctor_Plan Rollback_Theorems Scan_Theorems Service_Theorems
    Apply_Preview Process_Theorems Boot_Log_Theorems Boot_Theorems
begin

text \<open>
  Verification library of WinTune, a native Windows performance diagnostics tool in C
  (\<open>src/src\<close>; all file names below are relative to it).

  WHAT THE PROGRAM IS. One executable, \<open>wintune\<close>. Its command line selects a command; collectors ask Windows for
  metrics and settings; a scan gathers them into one report; a rule engine derives recommendations from the report; a
  recommendation can be applied by an action that asks for consent, changes one setting and writes a rollback record
  that can undo it. Reports are printed as JSON (or text), bundled into an archive for a fleet, or served by a
  Windows service over a named pipe, which runs the same actions on behalf of a client.

  WHICH THEORY MODELS WHAT.
  \<^item> \<open>WT_Prelude\<close>: C strings and buffers (\<open>cch_copy\<close> is \<open>StringCchCopy\<close> and \<open>snprintf\<close>), decimal and hexadecimal
    text, \<open>strstr\<close>, \<open>strtol\<close>, case-insensitive comparison, 32-bit wrap-around, and the simplification collections.
    \<open>Stable_Sort\<close>: insertion sort by a key, as a locale with the order of the key as its law. \<open>WT_Errors\<close>: result and
    exit codes (\<open>common/error.c\<close>, \<open>cli/exit_codes.c\<close>).
  \<^item> \<open>Cli_Parse\<close> (\<open>cli/cli_parse.c\<close>, options record, session defaults), \<open>Cli_Exit\<close> (\<open>cli/cli.c\<close>, \<open>cli_exit.c\<close>,
    \<open>cli_launcher.c\<close>, \<open>output/json_error.c\<close>): how a command starts, is dispatched and ends.
  \<^item> \<open>Json_Writer\<close> (the writer of \<open>output/json.c\<close>, its state machine of levels and separators), \<open>Json_Reader\<close> (a reader
    that has no counterpart in the program and serves as the specification), \<open>Json_Text\<close> (JSON printed line by line),
    \<open>Json_Names\<close>, \<open>Json_Emit\<close>, \<open>Json_Docs\<close> (every report emitter, call by call, and why each prints one document).
  \<^item> \<open>Zip_Store\<close>, \<open>Zip_Archive\<close> (\<open>common/zip_store.c\<close>), \<open>Sha256\<close> (\<open>common/sha256.c\<close>), \<open>Fleet_Pack\<close>, \<open>Fleet_Theorems\<close>
    (\<open>fleet/fleet_pack.c\<close>): the archive writer, the digests over the calls of Windows CNG, and the fleet pack on top.
  \<^item> \<open>Report_Model\<close>, \<open>System_Model\<close>: the structs of \<open>core/report_model.h\<close>, \<open>metrics\<close> and \<open>system\<close>, a record each, fields
    in order under a prefix. \<open>Collectors\<close>: \<open>metrics/disk.c\<close>, \<open>memory.c\<close>, \<open>cpu.c\<close>, the totals of \<open>network.c\<close>.
    \<open>Net_Rates\<close>: the rest of \<open>network.c\<close>, the traffic of each process from two captures of the connection tables and the
    UDP events between them. \<open>Processes\<close>, \<open>Process_Theorems\<close>: \<open>metrics/process.c\<close>, the process list, its ranking and
    pages. \<open>Scan_Run\<close>, \<open>Scan_Theorems\<close>: \<open>core/scan.c\<close>, one pass and the merge of repeated passes.
  \<^item> \<open>Confidence\<close>, \<open>Impact_Score\<close>, \<open>File_Identity\<close>, \<open>Startup_Tasks\<close>, \<open>Storage_Health\<close>, \<open>Power_Plan\<close>: the modules of the
    same names in \<open>core\<close> and \<open>system\<close> (\<open>startup.c\<close> and \<open>tasks.c\<close> together).
  \<^item> \<open>Boot_Log\<close>, \<open>Boot_Log_Theorems\<close> (\<open>system/boot.c\<close>): the boot report from the event log. \<open>Boot_Trace\<close>, \<open>Boot_Theorems\<close>
    (\<open>system/boot_etw.c\<close>): tracing the next boot, its state file byte by byte, and the report that joins both.
  \<^item> \<open>Recommendations\<close>, \<open>Rec_Theorems\<close> (\<open>core/recommendations.c\<close>, the eighteen checks), \<open>Doctor_Plan\<close>
    (\<open>core/doctor_plan.c\<close>).
  \<^item> \<open>Rollback_Store\<close>, \<open>Safe_Actions\<close>, \<open>Action_Map\<close>, \<open>Delay_Plan\<close>, \<open>Action_Theorems\<close>, \<open>Rollback_Theorems\<close>,
    \<open>Apply_Preview\<close>: everything under \<open>actions\<close>; the preview runs over the same machine as the actions.
  \<^item> \<open>Service_Policy\<close>, \<open>Service_History\<close>, \<open>Service_Ipc\<close>, \<open>Service_Dispatch\<close>, \<open>Service_Client\<close>, \<open>Service_Requests\<close>,
    \<open>Service_Loop\<close>, \<open>Service_Theorems\<close>: \<open>service/service_policy.c\<close>, \<open>service_dispatch.c\<close>, \<open>service_main.c\<close>,
    \<open>platform/service_ipc.c\<close>, \<open>service_client.c\<close>.

  STATE AND ENVIRONMENT. Stateful code is explicit state passing. What the actions change is the record \<open>machine\<close>
  (active power plan, registry values, task store, files, service commands, caches, clock); what Windows answers is a
  record of functions per component (\<open>zip_os\<close>, \<open>path_env\<close>, \<open>file_probe\<close>, \<open>sched_com\<close>, \<open>power_api\<close>, \<open>action_env\<close>,
  \<open>scan_env\<close>, \<open>fleet_os\<close>, \<open>service_env\<close>, \<open>pipe_os\<close>, \<open>top_env\<close>, \<open>evt_world\<close>, \<open>boot_env\<close>, ...), an argument of the definitions that use it, so every failing
  call is a branch of the model. Errors are \<open>WT_Result\<close> values; a call that might not return gives an option. The
  service runs as turns of its three threads and of its clients in any order (\<open>loop_do\<close>). Integers are words where the
  width matters (CRC, wait loops, formats) and naturals with the wrap-around written out elsewhere; percentages and
  rates are rationals, so rounding of \<open>double\<close> is not modelled. \<open>wchar_t\<close> and \<open>char\<close> texts are both \<open>string\<close>; the
  conversions between them are parameters, with what is used of them as named hypotheses (\<open>codec_ok\<close>, \<open>wide_ok\<close>).

  WHAT THE LEMMAS SHOW. Round trips of the formats (archive, JSON, rollback records, delays, identifiers); the engine
  loses no recommendation and offers only reversible ones; no action without consent, frames over any session of
  actions, termination of every wait; undoing restores; a dry run predicts the action; the process list is the top of
  one snapshot and a network sample reads within its payloads; the boot report describes the events of the log, and an
  armed boot trace is never found again; a scan reports the statistics of exactly the passes that had a
  reading; a request to the service is the action asked for; the cached scans are a bounded history; a stop ends the
  service unless its knock on the pipe is lost. Contracts shared by several components are locales, each interpreted on
  the model: \<open>weak_order\<close> and \<open>keyed_less\<close> (orders that sorting respects), \<open>action_rel\<close> (predicates all actions keep), \<open>setting\<close> and \<open>exact_setting\<close>
  (values that are read, written and restored), \<open>sampled_statistic\<close> and \<open>latency_statistic\<close> (what a scan merges).

  BOUNDS AND FUEL. Recursions are structural or have a measure. Loops that poll or read until a condition are functions
  with a measure (bytes left, waited time), so that they return is part of their definition; the wait loop of a service
  restart is partial and proved to return after at most 75 polls. The seven turns of the stop theorem are the longest
  way from the timer test through a connection to the end of the worker. Capacities are those of the source.

  NOT MODELLED. Drawing and text for people (\<open>tui\<close>, \<open>tray\<close>, \<open>output/text.c\<close>, \<open>text_report.c\<close>, \<open>table.c\<close>) and the command
  handlers that only print; installation of the service; helpers that wrap one call; the
  collectors that walk COM, WMI, event logs or event traces (\<open>reliability.c\<close>, \<open>maintenance.c\<close>, \<open>updates.c\<close>, \<open>audio.c\<close>, \<open>search.c\<close>, \<open>defender.c\<close>, \<open>blockers.c\<close>, \<open>gpu.c\<close>),
  whose results are arguments of the scan and of the engine; the reuse of performance counter queries
  between passes; lack of memory (\<open>malloc\<close> failing) outside the archive writer.
\<close>

end
